(* ===== verification/Prelude.thy ===== *)
theory Prelude
  imports Main "HOL-Library.Word" "HOL-Library.Sublist"
begin

text \<open>
  The vocabulary shared by every theory of the development.

  \<^item> Go's fixed-width integers as words, read as signed numbers by \<open>sint\<close>;
  \<^item> the part of Go's \<^verbatim>\<open>strings\<close>, \<^verbatim>\<open>strconv\<close> and \<^verbatim>\<open>fmt\<close> packages the operator calls,
    on byte strings (\<open>string\<close> is a list of 8-bit characters); white space is the ASCII
    white space, so text with other Unicode spaces is outside the model;
  \<^item> Go errors as values (\<open>err\<close>) and effects as state-passing functions that return
    either an error or a result (\<open>eff\<close>);
  \<^item> a weakest-precondition function for effects (\<open>wp\<close>) and relations kept by effects
    (\<open>keeps\<close>), with the rules the handlers' proofs use, in two collections.
\<close>

named_theorems wp_simps
named_theorems keeps_intros
named_theorems go_simps

section \<open>Machine integers\<close>

type_synonym int32 = "32 word"
type_synonym int64 = "64 word"
type_synonym uint64 = "64 word"

text \<open>Go compares signed integers by value.\<close>

abbreviation (input) slt32 :: "int32 \<Rightarrow> int32 \<Rightarrow> bool" where
  "slt32 a b \<equiv> sint a < sint b"

abbreviation (input) sle32 :: "int32 \<Rightarrow> int32 \<Rightarrow> bool" where
  "sle32 a b \<equiv> sint a \<le> sint b"

lemma sint32_bounds: "- (2 ^ 31) \<le> sint (x :: int32)" "sint (x :: int32) < 2 ^ 31"
  using sint_range_size [of x] by (simp_all add: word_size)

lemma sint64_bounds: "- (2 ^ 63) \<le> sint (x :: int64)" "sint (x :: int64) < 2 ^ 63"
  using sint_range_size [of x] by (simp_all add: word_size)

lemma sint32_add:
  fixes a b :: int32
  assumes "- (2 ^ 31) \<le> sint a + sint b" and "sint a + sint b < 2 ^ 31"
  shows "sint (a + b) = sint a + sint b"
  using assms by (simp add: sint_word_add signed_take_bit_int_eq_self)

lemma sint32_succ:
  fixes a :: int32
  assumes "sint a < 2 ^ 31 - 1"
  shows "sint (a + 1) = sint a + 1"
  using sint32_add [of a 1] sint32_bounds [of a] assms by simp

lemma sint32_diff:
  fixes a b :: int32
  assumes "- (2 ^ 31) \<le> sint a - sint b" and "sint a - sint b < 2 ^ 31"
  shows "sint (a - b) = sint a - sint b"
  using assms by (simp add: sint_word_ariths signed_take_bit_int_eq_self)

section \<open>Strings\<close>

text \<open>\<^verbatim>\<open>strings.HasPrefix\<close>, \<^verbatim>\<open>strings.CutPrefix\<close>, \<^verbatim>\<open>strings.TrimPrefix\<close>, \<^verbatim>\<open>strings.HasSuffix\<close>.\<close>

definition has_prefix :: "string \<Rightarrow> string \<Rightarrow> bool" where
  "has_prefix s p \<longleftrightarrow> take (length p) s = p"

definition cut_prefix :: "string \<Rightarrow> string \<Rightarrow> string option" where
  "cut_prefix s p = (if has_prefix s p then Some (drop (length p) s) else None)"

definition trim_prefix :: "string \<Rightarrow> string \<Rightarrow> string" where
  "trim_prefix s p = (if has_prefix s p then drop (length p) s else s)"

definition has_suffix :: "string \<Rightarrow> string \<Rightarrow> bool" where
  "has_suffix s p \<longleftrightarrow> has_prefix (rev s) (rev p)"

text \<open>\<^verbatim>\<open>strings.Cut\<close>: around the first occurrence of a separator; \<open>None\<close> where Go reports false.\<close>

fun cut :: "string \<Rightarrow> string \<Rightarrow> (string \<times> string) option" where
  "cut [] sep = (if sep = [] then Some ([], []) else None)"
| "cut (c # cs) sep =
     (if has_prefix (c # cs) sep then Some ([], drop (length sep) (c # cs))
      else map_option (\<lambda>(a, b). (c # a, b)) (cut cs sep))"

definition contains :: "string \<Rightarrow> string \<Rightarrow> bool" where
  "contains s sub \<longleftrightarrow> cut s sub \<noteq> None"

definition contains_any :: "string \<Rightarrow> string \<Rightarrow> bool" where
  "contains_any s chars \<longleftrightarrow> list_ex (\<lambda>c. c \<in> set chars) s"

text \<open>\<^verbatim>\<open>strings.Split\<close> and \<^verbatim>\<open>strings.SplitSeq\<close> on one character: never the empty list.\<close>

fun split_on :: "char \<Rightarrow> string \<Rightarrow> string list" where
  "split_on c [] = [[]]"
| "split_on c (x # xs) =
     (if x = c then [] # split_on c xs
      else (case split_on c xs of [] \<Rightarrow> [[x]] | l # ls \<Rightarrow> (x # l) # ls))"

abbreviation newline :: char where
  "newline \<equiv> CHR 0x0A"

text \<open>\<^verbatim>\<open>strings.Lines\<close> keeps the terminator and yields no empty last piece.\<close>

fun lines_of :: "string \<Rightarrow> string list" where
  "lines_of [] = []"
| "lines_of (x # xs) =
     (if x = newline then [x] # lines_of xs
      else (case lines_of xs of [] \<Rightarrow> [[x]] | l # ls \<Rightarrow> (x # l) # ls))"

fun join :: "string list \<Rightarrow> string \<Rightarrow> string" where
  "join [] sep = []"
| "join [x] sep = x"
| "join (x # y # ys) sep = x @ sep @ join (y # ys) sep"

definition is_space :: "char \<Rightarrow> bool" where
  "is_space c \<longleftrightarrow> c \<in> {CHR 0x09, CHR 0x0A, CHR 0x0B, CHR 0x0C, CHR 0x0D, CHR '' ''}"

definition trim_space :: "string \<Rightarrow> string" where
  "trim_space s = rev (dropWhile is_space (rev (dropWhile is_space s)))"

definition trim_right_char :: "char \<Rightarrow> string \<Rightarrow> string" where
  "trim_right_char c s = rev (dropWhile (\<lambda>x. x = c) (rev s))"

text \<open>\<^verbatim>\<open>strings.Fields\<close>: the maximal runs of non-space characters.\<close>

function go_fields :: "string \<Rightarrow> string list" where
  "go_fields s =
     (let t = dropWhile is_space s
      in if t = [] then []
         else takeWhile (\<lambda>c. \<not> is_space c) t # go_fields (dropWhile (\<lambda>c. \<not> is_space c) t))"
  by pat_completeness auto

lemma length_dropWhile_hd:
  "xs \<noteq> [] \<Longrightarrow> P (hd xs) \<Longrightarrow> length (dropWhile P xs) < length xs"
  by (cases xs) (auto simp: length_dropWhile_le le_imp_less_Suc)

termination go_fields
proof (relation "measure length", goal_cases)
  case (2 s t)
  then have "\<not> is_space (hd t)" and "t \<noteq> []"
    using hd_dropWhile [of is_space s] by simp_all
  then have "length (dropWhile (\<lambda>c. \<not> is_space c) t) < length t"
    by (intro length_dropWhile_hd) simp_all
  also have "length t \<le> length s"
    using 2 by (simp add: length_dropWhile_le)
  finally show ?case by simp
qed simp

declare go_fields.simps [simp del]

text \<open>Decimal rendering of integers (\<^verbatim>\<open>%d\<close>, \<^verbatim>\<open>strconv.Itoa\<close>).\<close>

definition digit_char :: "nat \<Rightarrow> char" where
  "digit_char d = char_of (48 + d)"

fun show_nat :: "nat \<Rightarrow> string" where
  "show_nat n = (if n < 10 then [digit_char n] else show_nat (n div 10) @ [digit_char (n mod 10)])"

declare show_nat.simps [simp del]

definition show_int :: "int \<Rightarrow> string" where
  "show_int i = (if i < 0 then ''-'' @ show_nat (nat (- i)) else show_nat (nat i))"

text \<open>\<^verbatim>\<open>strconv.ParseInt(s, 10, 64)\<close>: an optional sign, then digits, in range.\<close>

definition digit_val :: "char \<Rightarrow> nat option" where
  "digit_val c = (let n = of_char c :: nat in if 48 \<le> n \<and> n \<le> 57 then Some (n - 48) else None)"

fun digits_val :: "nat \<Rightarrow> string \<Rightarrow> nat option" where
  "digits_val acc [] = Some acc"
| "digits_val acc (c # cs) =
     (case digit_val c of None \<Rightarrow> None | Some d \<Rightarrow> digits_val (10 * acc + d) cs)"

definition parse_nat :: "string \<Rightarrow> nat option" where
  "parse_nat s = (if s = [] then None else digits_val 0 s)"

definition in_int64 :: "int \<Rightarrow> bool" where
  "in_int64 i \<longleftrightarrow> - (2 ^ 63) \<le> i \<and> i < 2 ^ 63"

definition parse_int64 :: "string \<Rightarrow> int64 option" where
  "parse_int64 s =
     (let v = (case s of
                 c # cs \<Rightarrow> if c = CHR ''-'' then map_option (\<lambda>n. - int n) (parse_nat cs)
                          else if c = CHR ''+'' then map_option int (parse_nat cs)
                          else map_option int (parse_nat s)
               | [] \<Rightarrow> None)
      in case v of Some i \<Rightarrow> if in_int64 i then Some (word_of_int i) else None | None \<Rightarrow> None)"

lemma has_prefix_iff: "has_prefix s p \<longleftrightarrow> (\<exists>r. s = p @ r)"
  unfolding has_prefix_def by (metis append_take_drop_id append_eq_conv_conj)

lemma contains_iff: "contains s sub \<longleftrightarrow> (\<exists>a b. s = a @ sub @ b)"
proof (induction s)
  case (Cons c cs)
  have "contains (c # cs) sub \<longleftrightarrow> has_prefix (c # cs) sub \<or> contains cs sub"
    by (auto simp: contains_def)
  also have "\<dots> \<longleftrightarrow> (\<exists>a b. c # cs = a @ sub @ b)"
    unfolding has_prefix_iff Cons.IH by (auto simp: Cons_eq_append_conv)
  finally show ?case .
qed (auto simp: contains_def)

text \<open>
  \<^verbatim>\<open>fmt.Sscanf\<close> with the verbs \<^verbatim>\<open>%d\<close> and \<^verbatim>\<open>%s\<close>: both skip leading spaces; a blank of the
  format needs one in the input; any other character must match; input left over after the
  last item is ignored. \<open>None\<close> is any error.
\<close>

datatype scan_item = ScanInt | ScanWord | ScanBlank | ScanLit char
datatype scan_val = Num int64 | Txt string

fun scan_items :: "string \<Rightarrow> scan_item list" where
  "scan_items [] = []"
| "scan_items [c] = [if is_space c then ScanBlank else ScanLit c]"
| "scan_items (c # d # cs) =
     (if c = CHR ''%'' \<and> d = CHR ''d'' then ScanInt # scan_items cs
      else if c = CHR ''%'' \<and> d = CHR ''s'' then ScanWord # scan_items cs
      else if is_space c then ScanBlank # scan_items (d # cs)
      else ScanLit c # scan_items (d # cs))"

definition scan_int :: "string \<Rightarrow> (int64 \<times> string) option" where
  "scan_int s0 =
     (let s = dropWhile is_space s0;
          (sign, body) = (case s of c # cs \<Rightarrow> if c \<in> {CHR ''+'', CHR ''-''} then ([c], cs) else ([], s)
                          | [] \<Rightarrow> ([], []));
          tok = takeWhile (\<lambda>c. digit_val c \<noteq> None \<or> c = CHR ''_'') body
      in map_option (\<lambda>v. (v, drop (length tok) body)) (parse_int64 (sign @ tok)))"

definition scan_word :: "string \<Rightarrow> (string \<times> string) option" where
  "scan_word s0 =
     (let s = dropWhile is_space s0; tok = takeWhile (\<lambda>c. \<not> is_space c) s
      in if s = [] then None else Some (tok, drop (length tok) s))"

fun scan :: "scan_item list \<Rightarrow> string \<Rightarrow> scan_val list option" where
  "scan [] s = Some []"
| "scan (ScanInt # is) s =
     (case scan_int s of None \<Rightarrow> None | Some (v, r) \<Rightarrow> map_option ((#) (Num v)) (scan is r))"
| "scan (ScanWord # is) s =
     (case scan_word s of None \<Rightarrow> None | Some (w, r) \<Rightarrow> map_option ((#) (Txt w)) (scan is r))"
| "scan (ScanBlank # is) s =
     (case s of [] \<Rightarrow> scan is [] | c # cs \<Rightarrow> if is_space c then scan is (dropWhile is_space cs) else None)"
| "scan (ScanLit l # is) s =
     (case s of [] \<Rightarrow> None | c # cs \<Rightarrow> if c = l then scan is cs else None)"

definition sscanf :: "string \<Rightarrow> string \<Rightarrow> scan_val list option" where
  "sscanf format s = scan (scan_items format) s"

section \<open>Errors and effects\<close>

text \<open>
  Go errors: what the API client returns (the kinds \<^verbatim>\<open>apierrors\<close> tells apart, with the
  text), an error made by \<^verbatim>\<open>fmt.Errorf\<close> or \<^verbatim>\<open>errors.New\<close>, and one wrapped with \<^verbatim>\<open>%w\<close>.
  \<open>NilDeref\<close> is the run-time panic of a nil pointer dereference.
\<close>

datatype api_kind =
    NotFound | AlreadyExists | Conflict | Forbidden (namespace_terminating: bool) | OtherKind

datatype err = ApiErr api_kind string | ErrMsg string | Wrapped string err | NilDeref

fun err_text :: "err \<Rightarrow> string" where
  "err_text (ApiErr k msg) = msg"
| "err_text (ErrMsg msg) = msg"
| "err_text (Wrapped msg e) = msg @ '': '' @ err_text e"
| "err_text NilDeref = ''invalid memory address or nil pointer dereference''"

text \<open>The \<^verbatim>\<open>apierrors\<close> predicates look through wrapping.\<close>

fun api_kind_of :: "err \<Rightarrow> api_kind option" where
  "api_kind_of (ApiErr k msg) = Some k"
| "api_kind_of (Wrapped msg e) = api_kind_of e"
| "api_kind_of e = None"

abbreviation is_not_found :: "err \<Rightarrow> bool" where
  "is_not_found e \<equiv> api_kind_of e = Some NotFound"

abbreviation is_already_exists :: "err \<Rightarrow> bool" where
  "is_already_exists e \<equiv> api_kind_of e = Some AlreadyExists"

abbreviation is_conflict :: "err \<Rightarrow> bool" where
  "is_conflict e \<equiv> api_kind_of e = Some Conflict"

type_synonym ('s, 'a) eff = "'s \<Rightarrow> (err + 'a) \<times> 's"

definition ret :: "'a \<Rightarrow> ('s, 'a) eff" where
  "ret x = (\<lambda>s. (Inr x, s))"

definition raise :: "err \<Rightarrow> ('s, 'a) eff" where
  "raise e = (\<lambda>s. (Inl e, s))"

text \<open>\<open>bnd f k\<close> is \<^verbatim>\<open>x, err := f(); if err != nil { return err }\<close> followed by \<open>k x\<close>.\<close>

definition bnd :: "('s, 'a) eff \<Rightarrow> ('a \<Rightarrow> ('s, 'b) eff) \<Rightarrow> ('s, 'b) eff" where
  "bnd f k = (\<lambda>s. case f s of (Inl e, t) \<Rightarrow> (Inl e, t) | (Inr x, t) \<Rightarrow> k x t)"

text \<open>\<open>attempt f\<close> hands the error to the caller as a value, for the code that inspects it.\<close>

definition attempt :: "('s, 'a) eff \<Rightarrow> ('s, err + 'a) eff" where
  "attempt f = (\<lambda>s. case f s of (r, t) \<Rightarrow> (Inr r, t))"

definition upd :: "('s \<Rightarrow> 's) \<Rightarrow> ('s, unit) eff" where
  "upd g = (\<lambda>s. (Inr (), g s))"

definition from_state :: "('s \<Rightarrow> ('s, 'a) eff) \<Rightarrow> ('s, 'a) eff" where
  "from_state k = (\<lambda>s. k s s)"

text \<open>Lift a pure computation that may fail.\<close>

definition lift_sum :: "err + 'a \<Rightarrow> ('s, 'a) eff" where
  "lift_sum r = (\<lambda>s. (r, s))"

fun each :: "('x \<Rightarrow> ('s, unit) eff) \<Rightarrow> 'x list \<Rightarrow> ('s, unit) eff" where
  "each f [] = ret ()"
| "each f (x # xs) = bnd (f x) (\<lambda>_. each f xs)"

section \<open>Weakest preconditions\<close>

definition wp :: "('s, 'a) eff \<Rightarrow> (err + 'a \<Rightarrow> 's \<Rightarrow> bool) \<Rightarrow> 's \<Rightarrow> bool" where
  "wp f Q s = (case f s of (r, t) \<Rightarrow> Q r t)"

lemma wp_ret [wp_simps]: "wp (ret x) Q s = Q (Inr x) s"
  by (simp add: wp_def ret_def)

lemma wp_raise [wp_simps]: "wp (raise e) Q s = Q (Inl e) s"
  by (simp add: wp_def raise_def)

lemma wp_lift_sum [wp_simps]: "wp (lift_sum r) Q s = Q r s"
  by (simp add: wp_def lift_sum_def)

lemma wp_bnd [wp_simps]:
  "wp (bnd f k) Q s =
     wp f (\<lambda>r t. case r of Inl e \<Rightarrow> Q (Inl e) t | Inr x \<Rightarrow> wp (k x) Q t) s"
  by (simp add: wp_def bnd_def split: prod.splits sum.splits)

lemma wp_attempt [wp_simps]: "wp (attempt f) Q s = wp f (\<lambda>r t. Q (Inr r) t) s"
  by (simp add: wp_def attempt_def split: prod.splits)

lemma wp_upd [wp_simps]: "wp (upd g) Q s = Q (Inr ()) (g s)"
  by (simp add: wp_def upd_def)

lemma wp_from_state [wp_simps]: "wp (from_state k) Q s = wp (k s) Q s"
  by (simp add: wp_def from_state_def)

lemma wp_if [wp_simps]: "wp (if b then f else g) Q s = (if b then wp f Q s else wp g Q s)"
  by simp

lemma wp_case_prod [wp_simps]: "wp (case p of (a, b) \<Rightarrow> f a b) Q s = (case p of (a, b) \<Rightarrow> wp (f a b) Q s)"
  by (cases p) simp

lemma wp_case_option [wp_simps]:
  "wp (case x of None \<Rightarrow> f | Some y \<Rightarrow> g y) Q s = (case x of None \<Rightarrow> wp f Q s | Some y \<Rightarrow> wp (g y) Q s)"
  by (cases x) simp_all

lemma wp_case_sum [wp_simps]:
  "wp (case x of Inl a \<Rightarrow> f a | Inr b \<Rightarrow> g b) Q s = (case x of Inl a \<Rightarrow> wp (f a) Q s | Inr b \<Rightarrow> wp (g b) Q s)"
  by (cases x) simp_all

lemma wp_mono: "wp f Q s \<Longrightarrow> (\<And>r t. Q r t \<Longrightarrow> Q' r t) \<Longrightarrow> wp f Q' s"
  by (simp add: wp_def split: prod.splits)

lemma wp_conj: "wp f (\<lambda>r t. P r t \<and> Q r t) s \<longleftrightarrow> wp f P s \<and> wp f Q s"
  by (simp add: wp_def split: prod.splits)

lemma wp_run: "wp f Q s \<Longrightarrow> f s = (r, t) \<Longrightarrow> Q r t"
  by (simp add: wp_def)

lemma wp_runI: "(\<And>r t. f s = (r, t) \<Longrightarrow> Q r t) \<Longrightarrow> wp f Q s"
  by (simp add: wp_def split: prod.splits)

section \<open>Relations kept by effects\<close>

text \<open>
  \<open>keeps R f\<close>: whatever \<open>f\<close> returns, the state it leaves is \<open>R\<close>-related to the state it
  started in. For a reflexive and transitive \<open>R\<close> this composes along the control flow,
  so a property of a handler follows from its primitive steps.
\<close>

definition keeps :: "('s \<Rightarrow> 's \<Rightarrow> bool) \<Rightarrow> ('s, 'a) eff \<Rightarrow> bool" where
  "keeps R f \<longleftrightarrow> (\<forall>s. R s (snd (f s)))"

lemma keepsD: "keeps R f \<Longrightarrow> f s = (r, t) \<Longrightarrow> R s t"
  by (auto simp: keeps_def dest: spec [of _ s])

lemma keeps_wp: "keeps R f \<Longrightarrow> wp f (\<lambda>_ t. R s t) s"
  by (auto simp: keeps_def wp_def split: prod.splits dest: spec [of _ s])

lemma keepsI: "(\<And>s r t. f s = (r, t) \<Longrightarrow> R s t) \<Longrightarrow> keeps R f"
  by (simp add: keeps_def) (metis prod.collapse)

lemma keeps_if [keeps_intros]:
  "(b \<Longrightarrow> keeps R f) \<Longrightarrow> (\<not> b \<Longrightarrow> keeps R g) \<Longrightarrow> keeps R (if b then f else g)"
  by simp

lemma keeps_case_prod [keeps_intros]:
  "(\<And>a b. p = (a, b) \<Longrightarrow> keeps R (f a b)) \<Longrightarrow> keeps R (case p of (a, b) \<Rightarrow> f a b)"
  by (cases p) simp

lemma keeps_case_option [keeps_intros]:
  "(x = None \<Longrightarrow> keeps R f) \<Longrightarrow> (\<And>y. x = Some y \<Longrightarrow> keeps R (g y)) \<Longrightarrow>
   keeps R (case x of None \<Rightarrow> f | Some y \<Rightarrow> g y)"
  by (cases x) simp_all

lemma keeps_case_sum [keeps_intros]:
  "(\<And>a. x = Inl a \<Longrightarrow> keeps R (f a)) \<Longrightarrow> (\<And>b. x = Inr b \<Longrightarrow> keeps R (g b)) \<Longrightarrow>
   keeps R (case x of Inl a \<Rightarrow> f a | Inr b \<Rightarrow> g b)"
  by (cases x) simp_all

lemma keeps_from_state: "(\<And>s. R s (snd (k s s))) \<Longrightarrow> keeps R (from_state k)"
  by (simp add: keeps_def from_state_def)

locale frame =
  fixes R :: "'s \<Rightarrow> 's \<Rightarrow> bool"
  assumes R_refl: "R s s"
    and R_trans: "R s t \<Longrightarrow> R t u \<Longrightarrow> R s u"
begin

lemma keeps_ret [keeps_intros]: "keeps R (ret x)"
  by (simp add: keeps_def ret_def R_refl)

lemma keeps_raise [keeps_intros]: "keeps R (raise e)"
  by (simp add: keeps_def raise_def R_refl)

lemma keeps_lift_sum [keeps_intros]: "keeps R (lift_sum e)"
  by (simp add: keeps_def lift_sum_def R_refl)

lemma keeps_bnd [keeps_intros]:
  assumes "keeps R f" and "\<And>x. keeps R (k x)"
  shows "keeps R (bnd f k)"
proof (rule keepsI)
  fix s r t
  assume run: "bnd f k s = (r, t)"
  obtain q u where f: "f s = (q, u)" by fastforce
  then have "R s u" using assms(1) by (rule keepsD [rotated])
  moreover have "R u t"
    using run f by (cases q) (auto simp: bnd_def R_refl intro: keepsD [OF assms(2)])
  ultimately show "R s t" by (rule R_trans)
qed

lemma keeps_attempt [keeps_intros]: "keeps R f \<Longrightarrow> keeps R (attempt f)"
  by (auto simp: keeps_def attempt_def split: prod.splits) (metis snd_conv)

lemma keeps_each [keeps_intros]:
  "(\<And>x. x \<in> set xs \<Longrightarrow> keeps R (f x)) \<Longrightarrow> keeps R (each f xs)"
  by (induction xs) (auto intro: keeps_ret keeps_bnd)

end

end
