(* ===== verification/Api_Types.thy ===== *)
theory Api_Types
  imports Prelude
begin

text \<open>
  The \<^verbatim>\<open>Migration\<close> resource (\<^verbatim>\<open>api/v1beta1/migration_types.go\<close>, \<^verbatim>\<open>filters.go\<close>):
  every struct of the API as a record with the struct's fields, every string enumeration
  as a datatype whose constructors are the source's constants (plus the empty string,
  which an unset field holds).

  Times are integers (nanoseconds since the Unix epoch); Go's zero time is
  \<open>zero_time\<close>. A \<^verbatim>\<open>resource.Quantity\<close> is what the operator reads of it: its
  \<^verbatim>\<open>Value()\<close> and its \<^verbatim>\<open>MilliValue()\<close>. An optional (pointer) field is an \<open>option\<close>.
  Parts of a pod template the operator only copies (tolerations, the part of an affinity
  it does not append to) are opaque strings.
\<close>

type_synonym time = int
type_synonym duration = int

definition zero_time :: time where
  "zero_time = - 62135596800000000000"

definition second :: duration where
  "second = 1000000000"

definition minute :: duration where
  "minute = 60 * second"

record quantity =
  q_value :: int64
  q_milli :: int64

text \<open>\<^verbatim>\<open>resource.NewQuantity(v, BinarySI)\<close>.\<close>

definition new_quantity :: "int64 \<Rightarrow> quantity" where
  "new_quantity v = \<lparr>q_value = v, q_milli = v * 1000\<rparr>"

section \<open>Conditions\<close>

text \<open>\<^verbatim>\<open>metav1.Condition\<close>. The operator owns eleven types; others are \<open>OtherCondition\<close>.\<close>

datatype condition_type =
    ConditionValidated | ConditionCloneCompleted | ConditionStreaming | ConditionCaughtUp
  | ConditionCutoverComplete | ConditionOwnershipApplied | ConditionVerified
  | ConditionComplete | ConditionFailed | ConditionCommitsBlocked | ConditionRetryHeld
  | OtherCondition string

datatype condition_status = ConditionTrue | ConditionFalse | ConditionUnknown

datatype (plugins only: code size) reason =
    ReasonSpecValid | ReasonInvalidSpec | ReasonPreflightFailed | ReasonPreflightRunning
  | ReasonDryRunSucceeded
  | ReasonCloneRunning | ReasonCopyingData | ReasonTablesEmptyOnTarget | ReasonCloneIncomplete
  | ReasonSnapshotLost | ReasonBaseCopyDone | ReasonCloneFailed | ReasonCloneSucceeded
  | ReasonPermissionDenied | ReasonDiskFull | ReasonSchemaDrift | ReasonBackoffLimitExceeded
  | ReasonMigrationSucceeded | ReasonReplaying
  | ReasonLagBelowThreshold | ReasonConfirmingCatchUp | ReasonLagging
  | ReasonDrainIncomplete | ReasonDrainVerified | ReasonRehearsalPodRemains
  | ReasonVerificationRunning | ReasonComparePassed | ReasonDataMismatch | ReasonSchemaMismatch
  | ReasonOwnershipFailed | ReasonOwnershipRunning | ReasonOwnershipApplied
  | ReasonOwnershipSuspended
  | ReasonSyncRepWait | ReasonNoSyncRepWait | ReasonWorkerSucceeded | ReasonSyncRepUnobserved
  | ReasonSessionsRemain | ReasonSyncCommitNotLocal | ReasonCommitBlocked | ReasonProbeFailed
  | ReasonGateProbing | ReasonWorkerPodRemains | ReasonGatePassed
  | ReasonHoldSuspended | ReasonHoldMigrationFailed
  | OtherReason string

record condition =
  c_type :: condition_type
  c_status :: condition_status
  c_reason :: reason
  c_message :: string
  c_generation :: int64
  c_transition :: time

section \<open>Connections\<close>

record secret_key_selector =
  sk_name :: string
  sk_key :: string
  sk_optional :: "bool option"

record connection_secret_keys =
  ck_database :: string
  ck_password :: string
  ck_url :: string
  ck_url_external :: string
  ck_username :: string

record connection_secret =
  cs_name :: string
  cs_endpoint :: string
  cs_keys :: "connection_secret_keys option"

record tls_secret_refs =
  tls_root_ca :: "secret_key_selector option"
  tls_cert :: "secret_key_selector option"
  tls_key :: "secret_key_selector option"

record postgres_connection =
  pc_host :: string
  pc_port :: int32
  pc_database :: string
  pc_username :: string
  pc_password_secret_ref :: "secret_key_selector option"
  pc_ssl_mode :: string
  pc_tls :: "tls_secret_refs option"
  pc_uri_secret_ref :: "secret_key_selector option"
  pc_secret_ref :: "connection_secret option"
  pc_superuser_secret_ref :: "connection_secret option"
  pc_synchronous_commit :: string

definition SynchronousCommitLocal :: string where
  "SynchronousCommitLocal = ''local''"

section \<open>The specification\<close>

type_synonym skip_option = string

record filters =
  f_include_only_tables :: "string list"
  f_exclude_tables :: "string list"
  f_include_only_schemas :: "string list"
  f_exclude_schemas :: "string list"
  f_exclude_indexes :: "string list"
  f_exclude_table_data :: "string list"
  f_include_only_extensions :: "string list"
  f_exclude_extensions :: "string list"

definition filters_is_empty :: "filters option \<Rightarrow> bool" where
  "filters_is_empty fo = (case fo of None \<Rightarrow> True
    | Some f \<Rightarrow> f_include_only_tables f = [] \<and>
        f_exclude_tables f = [] \<and>
        f_include_only_schemas f = [] \<and>
        f_exclude_schemas f = [] \<and>
        f_exclude_indexes f = [] \<and>
        f_exclude_table_data f = [] \<and>
        f_include_only_extensions f = [] \<and>
        f_exclude_extensions f = [])"

record clone_options =
  all_databases :: bool
  table_jobs :: int32
  index_jobs :: int32
  restore_jobs :: int32
  large_objects_jobs :: int32
  split_tables_larger_than :: "quantity option"
  split_max_parts :: int32
  estimate_table_sizes :: bool
  drop_if_exists :: bool
  roles :: bool
  no_role_passwords :: bool
  no_owner :: bool
  owner_after_restore :: string
  no_acl :: bool
  no_comments :: bool
  no_tablespaces :: bool
  use_copy_binary :: "bool option"
  fail_fast :: bool
  defer_indexes :: bool
  skip :: "skip_option list"
  clone_filters :: "filters option"

record work_volume =
  wv_storage_class_name :: "string option"
  wv_size :: quantity

type_synonym resource_list = "(string \<times> quantity) list"

record resource_requirements =
  rr_requests :: "resource_list option"
  rr_limits :: "resource_list option"

text \<open>A preferred scheduling term on \<^verbatim>\<open>metadata.name\<close>: its weight and node names.\<close>

record affinity =
  aff_preferred_nodes :: "(int32 \<times> string list) list"
  aff_rest :: string

record runner_spec =
  rn_image :: string
  rn_resources :: resource_requirements
  rn_node_selector :: "(string \<times> string) list"
  rn_tolerations :: "string list"
  rn_affinity :: "affinity option"

definition PluginWal2json :: string where
  "PluginWal2json = ''wal2json''"

record follow_options =
  fo_enabled :: bool
  fo_plugin :: string
  fo_slot_name :: string
  fo_publication :: string
  fo_wal2json_numeric_as_string :: bool
  fo_replay_no_op_updates :: bool
  fo_apply_group_transactions :: int32
  fo_allow_missing_replica_identity :: "string list"
  fo_max_catchup_lag :: "quantity option"

record preflight_options =
  pf_require_same_major_version :: bool

record verification_options =
  vo_schema :: bool
  vo_data :: bool
  vo_rehearsal :: bool

datatype cutover_mode = CutoverModeUnset | CutoverManual | CutoverAutomatic

record cutover_spec =
  cut_mode :: cutover_mode
  cut_approved :: bool

record migration_spec =
  source :: postgres_connection
  target :: postgres_connection
  clone :: clone_options
  follow :: "follow_options option"
  cutover :: cutover_spec
  verification :: "verification_options option"
  workVolume :: work_volume
  runner :: runner_spec
  suspend :: bool
  dryRun :: bool
  preflight :: "preflight_options option"
  backoffLimit :: int32
  ttlSecondsAfterFinished :: "int32 option"

section \<open>The status\<close>

datatype migration_phase =
    PhaseUnset | PhasePending | PhaseValidating | PhaseCloning | PhaseFinalizing
  | PhaseStreaming | PhaseCutoverPending | PhaseCuttingOver | PhaseVerifying
  | PhaseCompleted | PhaseFailed | PhaseSuspended

record clone_progress =
  cp_tablesTotal :: int64
  cp_tablesDone :: int64
  cp_indexesTotal :: int64
  cp_indexesDone :: int64
  cp_bytesTotal :: "quantity option"
  cp_bytesDone :: "quantity option"
  cp_observedAt :: "time option"

datatype exemption = RetryGateUndecided | RetryGateExempt | RetryGateCounted

record retry_gate_status =
  rg_failedAttempt :: int32
  rg_failedAt :: time
  rg_failure :: string
  rg_exemption :: exemption
  rg_cloneDoneSeen :: bool

record verification_result =
  vr_check :: string
  vr_passed :: bool
  vr_startedAt :: "time option"
  vr_completedAt :: "time option"

datatype rehearsal_outcome =
  RehearsalUnset | RehearsalRunning | RehearsalCompleted | RehearsalCanceled | RehearsalFailed

record rehearsal_status =
  rh_armed :: bool
  rh_run :: int32
  rh_jobName :: string
  rh_startedAt :: "time option"
  rh_completedAt :: "time option"
  rh_outcome :: rehearsal_outcome
  rh_message :: string

datatype progress_kind =
  VerificationProgressRehearsal | VerificationProgressDrain | VerificationProgressData

record table_progress =
  tp_schema :: string
  tp_name :: string
  tp_bytes :: "quantity option"
  tp_elapsed :: "duration option"

record verification_progress =
  vp_kind :: progress_kind
  vp_jobName :: string
  vp_observedAt :: "time option"
  vp_final :: bool
  vp_plannedTables :: int64
  vp_comparedTables :: int64
  vp_plannedBytes :: "quantity option"
  vp_comparedBytes :: "quantity option"
  vp_comparedRows :: int64
  vp_differingTables :: int64
  vp_failedTables :: int64
  vp_elapsed :: "duration option"
  vp_inFlight :: "table_progress list"

record replication_status =
  rs_slotName :: string
  rs_writeLSN :: string
  rs_replayLSN :: string
  rs_endpos :: string
  rs_lagBytes :: "int64 option"

record migration_status =
  observedGeneration :: int64
  phase :: migration_phase
  conditions :: "condition list"
  attempts :: int32
  exemptAttempts :: int32
  retryGate :: "retry_gate_status option"
  progress :: "clone_progress option"
  replication :: "replication_status option"
  verification_results :: "verification_result list"
  verificationRehearsal :: "rehearsal_status option"
  verificationProgress :: "verification_progress list"
  jobName :: string
  startedAt :: "time option"
  completedAt :: "time option"

definition empty_status :: migration_status where
  "empty_status = \<lparr>observedGeneration = 0, phase = PhaseUnset, conditions = [], attempts = 0,
     exemptAttempts = 0, retryGate = None, progress = None, replication = None,
     verification_results = [], verificationRehearsal = None, verificationProgress = [],
     jobName = [], startedAt = None, completedAt = None\<rparr>"

record migration =
  m_name :: string
  m_namespace :: string
  m_uid :: string
  m_generation :: int64
  m_resourceVersion :: nat
  m_deleting :: bool
  m_finalizers :: "string list"
  m_labels :: "(string \<times> string) list"
  m_annotations :: "(string \<times> string) list"
  spec :: migration_spec
  status :: migration_status

abbreviation upd_status :: "(migration_status \<Rightarrow> migration_status) \<Rightarrow> migration \<Rightarrow> migration" where
  "upd_status f m \<equiv> m\<lparr>status := f (status m)\<rparr>"

section \<open>Spelling\<close>

text \<open>The strings the constants stand for, where the code prints them.\<close>

fun reason_str :: "reason \<Rightarrow> string" where
  "reason_str ReasonSpecValid = ''SpecValid''"
| "reason_str ReasonInvalidSpec = ''InvalidSpec''"
| "reason_str ReasonPreflightFailed = ''PreflightFailed''"
| "reason_str ReasonPreflightRunning = ''PreflightRunning''"
| "reason_str ReasonDryRunSucceeded = ''DryRunSucceeded''"
| "reason_str ReasonCloneRunning = ''CloneRunning''"
| "reason_str ReasonCopyingData = ''CopyingData''"
| "reason_str ReasonTablesEmptyOnTarget = ''TablesEmptyOnTarget''"
| "reason_str ReasonCloneIncomplete = ''CloneIncomplete''"
| "reason_str ReasonSnapshotLost = ''SnapshotLost''"
| "reason_str ReasonBaseCopyDone = ''BaseCopyDone''"
| "reason_str ReasonCloneFailed = ''CloneFailed''"
| "reason_str ReasonCloneSucceeded = ''CloneSucceeded''"
| "reason_str ReasonPermissionDenied = ''PermissionDenied''"
| "reason_str ReasonDiskFull = ''DiskFull''"
| "reason_str ReasonSchemaDrift = ''SchemaDrift''"
| "reason_str ReasonBackoffLimitExceeded = ''BackoffLimitExceeded''"
| "reason_str ReasonMigrationSucceeded = ''MigrationSucceeded''"
| "reason_str ReasonReplaying = ''Replaying''"
| "reason_str ReasonLagBelowThreshold = ''LagBelowThreshold''"
| "reason_str ReasonConfirmingCatchUp = ''ConfirmingCatchUp''"
| "reason_str ReasonLagging = ''Lagging''"
| "reason_str ReasonDrainIncomplete = ''DrainIncomplete''"
| "reason_str ReasonDrainVerified = ''DrainVerified''"
| "reason_str ReasonRehearsalPodRemains = ''RehearsalPodRemains''"
| "reason_str ReasonVerificationRunning = ''VerificationRunning''"
| "reason_str ReasonComparePassed = ''ComparePassed''"
| "reason_str ReasonDataMismatch = ''DataMismatch''"
| "reason_str ReasonSchemaMismatch = ''SchemaMismatch''"
| "reason_str ReasonOwnershipFailed = ''OwnershipFailed''"
| "reason_str ReasonOwnershipRunning = ''OwnershipRunning''"
| "reason_str ReasonOwnershipApplied = ''OwnershipApplied''"
| "reason_str ReasonOwnershipSuspended = ''OwnershipSuspended''"
| "reason_str ReasonSyncRepWait = ''SyncRepWait''"
| "reason_str ReasonNoSyncRepWait = ''NoSyncRepWait''"
| "reason_str ReasonWorkerSucceeded = ''WorkerSucceeded''"
| "reason_str ReasonSyncRepUnobserved = ''SyncRepUnobserved''"
| "reason_str ReasonSessionsRemain = ''SessionsRemain''"
| "reason_str ReasonSyncCommitNotLocal = ''SyncCommitNotLocal''"
| "reason_str ReasonCommitBlocked = ''CommitBlocked''"
| "reason_str ReasonProbeFailed = ''ProbeFailed''"
| "reason_str ReasonGateProbing = ''GateProbing''"
| "reason_str ReasonWorkerPodRemains = ''WorkerPodRemains''"
| "reason_str ReasonGatePassed = ''GatePassed''"
| "reason_str ReasonHoldSuspended = ''Suspended''"
| "reason_str ReasonHoldMigrationFailed = ''MigrationFailed''"
| "reason_str (OtherReason s) = s"

end
