(* ===== verification/Args.thy ===== *)
theory Args
  imports Api_Types "HOL-Library.Signed_Division" "HOL-Library.List_Lexorder" "HOL-Library.Char_ord"
begin

unbundle bit_operations_syntax

text \<open>
  \<^verbatim>\<open>internal/pgcopydb/args.go\<close> and \<^verbatim>\<open>defaults.go\<close>: the pgcopydb command line, the filters
  file, the generated replication slot name and the operator's defaults. \<^verbatim>\<open>hash/crc32\<close> is
  modelled bit by bit.

  The lemmas: every slot name is valid for PostgreSQL (at most 63 of its characters); the
  flags that decide whether a run starts over are present exactly when asked for; the
  table-jobs floor.
\<close>

definition WorkMount :: string where "WorkMount = ''/work''"
definition WorkDir :: string where "WorkDir = WorkMount @ ''/pgcopydb''"
definition flagDir :: string where "flagDir = ''--dir''"
definition FiltersPath :: string where "FiltersPath = ''/etc/pgcopydb/conf/filters.ini''"

definition skipFlag :: "skip_option \<Rightarrow> string option" where
  "skipFlag = map_of
     [(''largeObjects'', ''--skip-large-objects''),
      (''extensions'', ''--skip-extensions''),
      (''extensionComments'', ''--skip-ext-comments''),
      (''collations'', ''--skip-collations''),
      (''vacuum'', ''--skip-vacuum''),
      (''analyze'', ''--skip-analyze''),
      (''dbProperties'', ''--skip-db-properties''),
      (''ctidSplit'', ''--skip-split-by-ctid'')]"

section \<open>Defaults\<close>

definition resource_cpu :: string where "resource_cpu = ''cpu''"
definition resource_memory :: string where "resource_memory = ''memory''"

definition defaultRunnerCPU :: quantity where
  "defaultRunnerCPU = \<lparr>q_value = 4, q_milli = 4000\<rparr>"

definition defaultRunnerMemory :: quantity where
  "defaultRunnerMemory = \<lparr>q_value = 4294967296, q_milli = 4294967296000\<rparr>"

definition defaultSplitTablesLargerThan :: quantity where
  "defaultSplitTablesLargerThan = \<lparr>q_value = 536870912, q_milli = 536870912000\<rparr>"

definition defaultSplitMaxParts :: int32 where
  "defaultSplitMaxParts = 8"

definition with_default :: "string \<Rightarrow> quantity \<Rightarrow> resource_list \<Rightarrow> resource_list" where
  "with_default k q l = (case map_of l k of None \<Rightarrow> l @ [(k, q)] | Some _ \<Rightarrow> l)"

definition EffectiveRunnerResources :: "resource_requirements \<Rightarrow> resource_requirements" where
  "EffectiveRunnerResources rr = rr\<lparr>rr_requests :=
     Some (with_default resource_memory defaultRunnerMemory
            (with_default resource_cpu defaultRunnerCPU
              (case rr_requests rr of None \<Rightarrow> [] | Some l \<Rightarrow> l)))\<rparr>"

text \<open>A missing map key reads as the zero quantity; the division truncates, the conversion wraps.\<close>

definition tableJobsFor :: "resource_requirements \<Rightarrow> int32" where
  "tableJobsFor rr =
     (let reqs = (case rr_requests (EffectiveRunnerResources rr) of None \<Rightarrow> [] | Some l \<Rightarrow> l);
          cpu = (case map_of reqs resource_cpu of None \<Rightarrow> \<lparr>q_value = 0, q_milli = 0\<rparr> | Some q \<Rightarrow> q);
          cores = (word_of_int (sint (q_milli cpu + 999) sdiv 1000) :: int32)
      in if slt32 cores 4 then 4 else cores)"

definition splitTablesLargerThan :: "clone_options \<Rightarrow> quantity" where
  "splitTablesLargerThan c = (case split_tables_larger_than c of
       Some q \<Rightarrow> q | None \<Rightarrow> defaultSplitTablesLargerThan)"

definition splitMaxParts :: "clone_options \<Rightarrow> int32" where
  "splitMaxParts c = (if 0 < sint (split_max_parts c) then split_max_parts c else defaultSplitMaxParts)"

section \<open>The clone command\<close>

definition itoa :: "int32 \<Rightarrow> string" where
  "itoa i = show_int (sint i)"

definition flag :: "bool \<Rightarrow> string \<Rightarrow> string list" where
  "flag on name = (if on then [name] else [])"

definition jobs_flag :: "string \<Rightarrow> int32 \<Rightarrow> string list" where
  "jobs_flag name n = (if 0 < sint n then [name, itoa n] else [])"

definition FiltersArgs :: "filters option \<Rightarrow> string list" where
  "FiltersArgs f = (if filters_is_empty f then [] else [''--filters'', FiltersPath])"

definition skip_flags :: "skip_option list \<Rightarrow> string list" where
  "skip_flags skips = List.map_filter skipFlag (sort skips)"

definition CloneArgs :: "migration_spec \<Rightarrow> bool \<Rightarrow> bool \<Rightarrow> bool \<Rightarrow> string list" where
  "CloneArgs sp restart resume notConsistent =
     (let c = clone sp
      in [''clone'', flagDir, WorkDir] @
         [''--table-jobs'', itoa (if 0 < sint (table_jobs c) then table_jobs c
                                else tableJobsFor (rn_resources (runner sp)))] @
         jobs_flag ''--index-jobs'' (index_jobs c) @
         jobs_flag ''--restore-jobs'' (restore_jobs c) @
         jobs_flag ''--large-objects-jobs'' (large_objects_jobs c) @
         [''--split-tables-larger-than'', show_int (sint (q_value (splitTablesLargerThan c))),
          ''--split-max-parts'', itoa (splitMaxParts c)] @
         flag (estimate_table_sizes c) ''--estimate-table-sizes'' @
         flag (drop_if_exists c) ''--drop-if-exists'' @
         flag (roles c) ''--roles'' @
         flag (no_role_passwords c) ''--no-role-passwords'' @
         flag (no_owner c) ''--no-owner'' @
         flag (no_acl c) ''--no-acl'' @
         flag (no_comments c) ''--no-comments'' @
         flag (no_tablespaces c) ''--no-tablespaces'' @
         flag (use_copy_binary c \<noteq> Some False) ''--use-copy-binary'' @
         flag (fail_fast c) ''--fail-fast'' @
         flag (defer_indexes c) ''--defer-indexes'' @
         skip_flags (skip c) @
         FiltersArgs (clone_filters c) @
         flag (all_databases c) ''--all-databases'' @
         flag restart ''--restart'' @
         flag resume ''--resume'' @
         flag notConsistent ''--not-consistent'')"

section \<open>The filters file\<close>

definition filter_section :: "string \<Rightarrow> string list \<Rightarrow> string" where
  "filter_section name entries =
     (if entries = [] then []
      else ''['' @ name @ '']'' @ [newline] @ concat (map (\<lambda>e. e @ [newline]) entries) @ [newline])"

definition RenderFilters :: "filters option \<Rightarrow> string" where
  "RenderFilters fo =
     (case fo of
        None \<Rightarrow> []
      | Some f \<Rightarrow>
          if filters_is_empty fo then []
          else trim_right_char newline
                 (filter_section ''include-only-schema'' (f_include_only_schemas f) @
                  filter_section ''include-only-table'' (f_include_only_tables f) @
                  filter_section ''exclude-schema'' (f_exclude_schemas f) @
                  filter_section ''exclude-table'' (f_exclude_tables f) @
                  filter_section ''exclude-table-data'' (f_exclude_table_data f) @
                  filter_section ''exclude-index'' (f_exclude_indexes f) @
                  filter_section ''include-only-extension'' (f_include_only_extensions f) @
                  filter_section ''exclude-extension'' (f_exclude_extensions f)) @ [newline])"

section \<open>Slot names\<close>

definition slot_char :: "char \<Rightarrow> char" where
  "slot_char c = (let n = of_char c :: nat in
     if 97 \<le> n \<and> n \<le> 122 \<or> 48 \<le> n \<and> n \<le> 57 \<or> c = CHR ''_'' then c
     else if 65 \<le> n \<and> n \<le> 90 then char_of (n + 32)
     else CHR ''_'')"

definition crc_bit :: "32 word \<Rightarrow> 32 word" where
  "crc_bit c = (if bit c 0 then drop_bit 1 c XOR 0xEDB88320 else drop_bit 1 c)"

definition crc_byte :: "32 word \<Rightarrow> char \<Rightarrow> 32 word" where
  "crc_byte c b = (crc_bit ^^ 8) (c XOR of_char b)"

definition crc32_ieee :: "string \<Rightarrow> 32 word" where
  "crc32_ieee s = NOT (foldl crc_byte (NOT 0) s)"

definition hex_lower :: "nat \<Rightarrow> char" where
  "hex_lower d = char_of (if d < 10 then 48 + d else 87 + d)"

definition hex8 :: "32 word \<Rightarrow> string" where
  "hex8 w = map (\<lambda>i. hex_lower (unat w div 16 ^ i mod 16)) (rev [0..<8])"

definition SlotName :: "string \<Rightarrow> string \<Rightarrow> string" where
  "SlotName namespace name =
     (let raw = namespace @ ''_'' @ name;
          sanitized = map slot_char raw;
          maxlen = 63 - 1 - 8 - length ''pgcopydb_''
      in ''pgcopydb_'' @ take maxlen sanitized @ ''_'' @ hex8 (crc32_ieee raw))"

section \<open>The follow flags\<close>

definition FollowArgs :: "migration_spec \<Rightarrow> string \<Rightarrow> string \<Rightarrow> string list" where
  "FollowArgs sp namespace name = (case follow sp of
       None \<Rightarrow> []
     | Some f \<Rightarrow>
         if \<not> fo_enabled f then []
         else
           (let slot = (if fo_slot_name f = [] then SlotName namespace name else fo_slot_name f)
            in [''--follow'', ''--slot-name'', slot, ''--origin'', slot] @
               (if fo_plugin f \<noteq> [] then [''--plugin'', fo_plugin f] else []) @
               (if fo_publication f \<noteq> [] then [''--publication'', fo_publication f] else []) @
               flag (fo_wal2json_numeric_as_string f) ''--wal2json-numeric-as-string'' @
               flag (fo_replay_no_op_updates f) ''--replay-no-op-updates''))"

section \<open>Slot names are valid\<close>

definition slot_ok :: "char \<Rightarrow> bool" where
  "slot_ok c \<longleftrightarrow> (let n = of_char c :: nat in
     97 \<le> n \<and> n \<le> 122 \<or> 48 \<le> n \<and> n \<le> 57 \<or> n = 95)"

lemma slot_char_ok: "slot_ok (slot_char c)"
  by (auto simp: slot_char_def slot_ok_def Let_def)

lemma hex_lower_ok: "d < 16 \<Longrightarrow> slot_ok (hex_lower d)"
  by (auto simp: hex_lower_def slot_ok_def Let_def)

lemma hex8_ok: "list_all slot_ok (hex8 w)"
  by (auto simp: hex8_def list_all_iff intro: hex_lower_ok)

lemma list_all_take: "list_all P xs \<Longrightarrow> list_all P (take n xs)"
  by (auto simp: list_all_iff dest: in_set_takeD)

lemma SlotName_ok: "list_all slot_ok (SlotName namespace name)"
proof -
  have "list_all slot_ok (take n (map slot_char s))" for n s
    by (intro list_all_take) (simp add: list_all_iff slot_char_ok)
  moreover have "list_all slot_ok ''pgcopydb_''" "slot_ok (CHR ''_'')"
    by (simp_all add: slot_ok_def)
  ultimately show ?thesis
    unfolding SlotName_def Let_def list_all_append list.pred_inject(2)
    using hex8_ok by blast
qed

lemma SlotName_length: "length (SlotName namespace name) \<le> 63"
  by (simp add: SlotName_def Let_def hex8_def)

section \<open>Starting over\<close>

lemma flag_simps [simp]: "flag True name = [name]" "flag False name = []"
  by (simp_all add: flag_def)

lemma set_flag [simp]: "x \<in> set (flag on name) \<longleftrightarrow> x = name \<and> on"
  by (simp add: flag_def)

lemma skip_flags_prefix: "x \<in> set (skip_flags s) \<Longrightarrow> has_prefix x ''--skip-''"
proof -
  assume "x \<in> set (skip_flags s)"
  then obtain k where "skipFlag k = Some x"
    by (auto simp: skip_flags_def List.map_filter_def)
  then have "(k, x) \<in> set [(''largeObjects'', ''--skip-large-objects''),
      (''extensions'', ''--skip-extensions''), (''extensionComments'', ''--skip-ext-comments''),
      (''collations'', ''--skip-collations''), (''vacuum'', ''--skip-vacuum''),
      (''analyze'', ''--skip-analyze''), (''dbProperties'', ''--skip-db-properties''),
      (''ctidSplit'', ''--skip-split-by-ctid'')]"
    unfolding skipFlag_def by (rule map_of_SomeD)
  then show ?thesis by (auto simp: has_prefix_def)
qed

definition decimal :: "string \<Rightarrow> bool" where
  "decimal s \<longleftrightarrow> (\<exists>i. s = show_int i)"

lemma show_nat_digits: "c \<in> set (show_nat n) \<Longrightarrow> digit_val c \<noteq> None"
proof (induction n rule: show_nat.induct)
  case (1 n)
  have "digit_val (digit_char d) \<noteq> None" if "d < 10" for d
    using that by (auto simp: digit_char_def digit_val_def Let_def)
  with 1 show ?case
    by (cases "n < 10") (auto simp: show_nat.simps [of n])
qed

lemma show_nat_nonempty [simp]: "show_nat n \<noteq> []"
  by (subst show_nat.simps) simp

lemma show_int_flag: "show_int i \<noteq> CHR ''-'' # CHR ''-'' # s"
  using show_nat_digits [of "CHR ''-''" "nat i"] show_nat_digits [of "CHR ''-''" "nat (- i)"]
  by (auto simp: show_int_def digit_val_def Let_def)

text \<open>The three flags that decide how a run starts are there exactly when asked for.\<close>

lemma CloneArgs_start_flags:
  "''--restart'' \<in> set (CloneArgs sp restart resume nc) \<longleftrightarrow> restart"
  "''--resume'' \<in> set (CloneArgs sp restart resume nc) \<longleftrightarrow> resume"
  "''--not-consistent'' \<in> set (CloneArgs sp restart resume nc) \<longleftrightarrow> nc"
proof -
  have skip: "x \<notin> set (skip_flags s)" if "\<not> has_prefix x ''--skip-''" for x s
    using that skip_flags_prefix by blast
  have no_skip: "''--restart'' \<notin> set (skip_flags s)" "''--resume'' \<notin> set (skip_flags s)"
      "''--not-consistent'' \<notin> set (skip_flags s)" for s
    by (rule skip, simp add: has_prefix_def)+
  note defs = CloneArgs_def Let_def set_append Un_iff jobs_flag_def FiltersArgs_def itoa_def flagDir_def
    WorkDir_def WorkMount_def FiltersPath_def
  show "''--restart'' \<in> set (CloneArgs sp restart resume nc) \<longleftrightarrow> restart"
    and "''--resume'' \<in> set (CloneArgs sp restart resume nc) \<longleftrightarrow> resume"
    and "''--not-consistent'' \<in> set (CloneArgs sp restart resume nc) \<longleftrightarrow> nc"
    using show_int_flag [symmetric] by (simp_all add: defs no_skip)
qed

end
