(* ===== verification/Json.thy ===== *)
theory Json
  imports Prelude
begin

text \<open>
  The part of Go's \<^verbatim>\<open>encoding/json\<close> the operator decodes with: the grammar of one JSON
  value, the unquoting of strings, and the matching of an object's keys to struct fields
  (exact or case-insensitive name, later keys win, \<^verbatim>\<open>null\<close> leaves a field as it is, a value
  of the wrong type is an error). Text is taken to be valid UTF-8 and keys ASCII.

  Nested values are parsed with fuel; \<open>json_value_enough\<close> shows that twice the length of
  the input is enough, so the decoder never fails for lack of it.
\<close>

datatype json =
    JNull | JBool bool | JNum string | JStr string
  | JArr "json list" | JObj "(string \<times> json) list"

section \<open>Tokens\<close>

definition json_space :: "char \<Rightarrow> bool" where
  "json_space c \<longleftrightarrow> c \<in> {CHR '' '', CHR 0x09, CHR 0x0A, CHR 0x0D}"

definition skip_ws :: "string \<Rightarrow> string" where
  "skip_ws s = dropWhile json_space s"

abbreviation is_digit :: "char \<Rightarrow> bool" where
  "is_digit c \<equiv> digit_val c \<noteq> None"

text \<open>Digits, at least one.\<close>

definition digits1 :: "string \<Rightarrow> (string \<times> string) option" where
  "digits1 s = (let d = takeWhile is_digit s in if d = [] then None else Some (d, drop (length d) s))"

definition int_part :: "string \<Rightarrow> (string \<times> string) option" where
  "int_part s = (case s of
       [] \<Rightarrow> None
     | c # cs \<Rightarrow> if c = CHR ''0'' then Some ([c], cs) else digits1 s)"

definition frac_part :: "string \<Rightarrow> (string \<times> string) option" where
  "frac_part s = (case s of
       c # cs \<Rightarrow> if c = CHR ''.'' then map_option (\<lambda>(d, r). (c # d, r)) (digits1 cs) else Some ([], s)
     | [] \<Rightarrow> Some ([], s))"

definition exp_part :: "string \<Rightarrow> (string \<times> string) option" where
  "exp_part s = (case s of
       c # cs \<Rightarrow>
         if c = CHR ''e'' \<or> c = CHR ''E'' then
           (case cs of
              g # gs \<Rightarrow> if g = CHR ''+'' \<or> g = CHR ''-''
                       then map_option (\<lambda>(d, r). (c # g # d, r)) (digits1 gs)
                       else map_option (\<lambda>(d, r). (c # d, r)) (digits1 cs)
            | [] \<Rightarrow> None)
         else Some ([], s)
     | [] \<Rightarrow> Some ([], s))"

definition json_number :: "string \<Rightarrow> (string \<times> string) option" where
  "json_number s =
     (let (sign, s1) = (case s of c # cs \<Rightarrow> if c = CHR ''-'' then ([c], cs) else ([], s) | [] \<Rightarrow> ([], s))
      in case int_part s1 of
           None \<Rightarrow> None
         | Some (i, s2) \<Rightarrow>
             (case frac_part s2 of
                None \<Rightarrow> None
              | Some (f, s3) \<Rightarrow>
                  map_option (\<lambda>(e, r). (sign @ i @ f @ e, r)) (exp_part s3)))"

text \<open>Strings: escapes, and a code point as UTF-8.\<close>

definition hex_digit :: "char \<Rightarrow> nat option" where
  "hex_digit c = (let n = of_char c :: nat in
     if 48 \<le> n \<and> n \<le> 57 then Some (n - 48)
     else if 97 \<le> n \<and> n \<le> 102 then Some (n - 87)
     else if 65 \<le> n \<and> n \<le> 70 then Some (n - 55)
     else None)"

definition hex4 :: "char \<Rightarrow> char \<Rightarrow> char \<Rightarrow> char \<Rightarrow> nat option" where
  "hex4 a b c d = (case (hex_digit a, hex_digit b, hex_digit c, hex_digit d) of
       (Some w, Some x, Some y, Some z) \<Rightarrow> Some (4096 * w + 256 * x + 16 * y + z)
     | _ \<Rightarrow> None)"

definition utf8 :: "nat \<Rightarrow> string" where
  "utf8 n =
     (if n < 128 then [char_of n]
      else if n < 2048 then [char_of (192 + n div 64), char_of (128 + n mod 64)]
      else if n < 65536 then
        [char_of (224 + n div 4096), char_of (128 + n div 64 mod 64), char_of (128 + n mod 64)]
      else
        [char_of (240 + n div 262144), char_of (128 + n div 4096 mod 64),
         char_of (128 + n div 64 mod 64), char_of (128 + n mod 64)])"

definition simple_escape :: "char \<Rightarrow> char option" where
  "simple_escape e =
     (if e = CHR 0x22 \<or> e = CHR 0x5C \<or> e = CHR ''/'' then Some e
      else if e = CHR ''b'' then Some (CHR 0x08)
      else if e = CHR ''f'' then Some (CHR 0x0C)
      else if e = CHR ''n'' then Some (CHR 0x0A)
      else if e = CHR ''r'' then Some (CHR 0x0D)
      else if e = CHR ''t'' then Some (CHR 0x09)
      else None)"

text \<open>
  The escape after a backslash: the bytes it stands for and the rest of the input. A
  surrogate pair is one code point, a lone surrogate becomes U+FFFD.
\<close>

definition json_escape :: "string \<Rightarrow> (string \<times> string) option" where
  "json_escape s = (case s of
       [] \<Rightarrow> None
     | e # es \<Rightarrow>
         if e = CHR ''u'' then
           (case es of
              h1 # h2 # h3 # h4 # r \<Rightarrow>
                (case hex4 h1 h2 h3 h4 of
                   None \<Rightarrow> None
                 | Some n \<Rightarrow>
                     if 55296 \<le> n \<and> n < 57344 then
                       (case r of
                          b # u # k1 # k2 # k3 # k4 # r' \<Rightarrow>
                            (case hex4 k1 k2 k3 k4 of
                               Some n' \<Rightarrow>
                                 if b = CHR 0x5C \<and> u = CHR ''u'' \<and> n < 56320 \<and>
                                    56320 \<le> n' \<and> n' < 57344
                                 then Some (utf8 (65536 + (n - 55296) * 1024 + (n' - 56320)), r')
                                 else Some (utf8 65533, r)
                             | None \<Rightarrow> Some (utf8 65533, r))
                        | _ \<Rightarrow> Some (utf8 65533, r))
                     else Some (utf8 n, r))
            | _ \<Rightarrow> None)
         else map_option (\<lambda>x. ([x], es)) (simple_escape e))"

lemma json_escape_shrinks: "json_escape s = Some (x, r) \<Longrightarrow> length r < length s"
  unfolding json_escape_def by (auto split: if_splits list.splits option.splits)

text \<open>The body of a string, after its opening quote.\<close>

function json_string :: "string \<Rightarrow> (string \<times> string) option" where
  "json_string [] = None"
| "json_string (c # cs) =
     (if c = CHR 0x22 then Some ([], cs)
      else if c = CHR 0x5C then
        (case json_escape cs of
           None \<Rightarrow> None
         | Some (x, r) \<Rightarrow> map_option (\<lambda>(t, q). (x @ t, q)) (json_string r))
      else if (of_char c :: nat) < 32 then None
      else map_option (\<lambda>(t, q). (c # t, q)) (json_string cs))"
  by pat_completeness auto
termination
  by (relation "measure length") (auto dest: json_escape_shrinks)

declare json_string.simps [simp del]

section \<open>Values\<close>

text \<open>
  \<open>json_value\<close> expects its input at the first character of a value, \<open>json_elems\<close> and
  \<open>json_members\<close> after a bracket or a comma and before the next element.
\<close>

fun json_value :: "nat \<Rightarrow> string \<Rightarrow> (json \<times> string) option"
  and json_elems :: "nat \<Rightarrow> string \<Rightarrow> (json list \<times> string) option"
  and json_members :: "nat \<Rightarrow> string \<Rightarrow> ((string \<times> json) list \<times> string) option"
where
  "json_value 0 s = None"
| "json_value (Suc k) s = (case s of
       [] \<Rightarrow> None
     | c # cs \<Rightarrow>
         if c = CHR 0x22 then map_option (\<lambda>(t, r). (JStr t, r)) (json_string cs)
         else if c = CHR ''{'' then
           (case skip_ws cs of
              [] \<Rightarrow> None
            | d # ds \<Rightarrow> if d = CHR ''}'' then Some (JObj [], ds)
                       else map_option (\<lambda>(m, r). (JObj m, r)) (json_members k (d # ds)))
         else if c = CHR ''['' then
           (case skip_ws cs of
              [] \<Rightarrow> None
            | d # ds \<Rightarrow> if d = CHR '']'' then Some (JArr [], ds)
                       else map_option (\<lambda>(m, r). (JArr m, r)) (json_elems k (d # ds)))
         else if has_prefix s ''true'' then Some (JBool True, drop 4 s)
         else if has_prefix s ''false'' then Some (JBool False, drop 5 s)
         else if has_prefix s ''null'' then Some (JNull, drop 4 s)
         else map_option (\<lambda>(t, r). (JNum t, r)) (json_number s))"
| "json_elems 0 s = None"
| "json_elems (Suc k) s = (case json_value k s of
       None \<Rightarrow> None
     | Some (v, r) \<Rightarrow> (case skip_ws r of
         [] \<Rightarrow> None
       | d # ds \<Rightarrow>
           if d = CHR '']'' then Some ([v], ds)
           else if d = CHR '','' then map_option (\<lambda>(m, q). (v # m, q)) (json_elems k (skip_ws ds))
           else None))"
| "json_members 0 s = None"
| "json_members (Suc k) s = (case s of
       [] \<Rightarrow> None
     | c # cs \<Rightarrow>
         if c \<noteq> CHR 0x22 then None
         else (case json_string cs of
             None \<Rightarrow> None
           | Some (key, r) \<Rightarrow> (case skip_ws r of
               [] \<Rightarrow> None
             | e # es \<Rightarrow>
                 if e \<noteq> CHR '':'' then None
                 else (case json_value k (skip_ws es) of
                     None \<Rightarrow> None
                   | Some (v, q) \<Rightarrow> (case skip_ws q of
                       [] \<Rightarrow> None
                     | d # ds \<Rightarrow>
                         if d = CHR ''}'' then Some ([(key, v)], ds)
                         else if d = CHR '','' then
                           map_option (\<lambda>(m, u). ((key, v) # m, u)) (json_members k (skip_ws ds))
                         else None)))))"

declare json_value.simps [simp del] json_elems.simps [simp del] json_members.simps [simp del]

text \<open>\<^verbatim>\<open>json.Unmarshal\<close> reads one value and nothing after it but white space.\<close>

definition json_parse :: "string \<Rightarrow> json option" where
  "json_parse s = (case json_value (2 * length s + 2) (skip_ws s) of
       Some (v, r) \<Rightarrow> if skip_ws r = [] then Some v else None
     | None \<Rightarrow> None)"

section \<open>Struct fields\<close>

definition lower_char :: "char \<Rightarrow> char" where
  "lower_char c = (let n = of_char c :: nat in if 65 \<le> n \<and> n \<le> 90 then char_of (n + 32) else c)"

definition to_lower :: "string \<Rightarrow> string" where
  "to_lower s = map lower_char s"

text \<open>
  Decoding one field: the members in order, those of another key ignored; \<open>None\<close> is the
  type error \<^verbatim>\<open>Unmarshal\<close> returns.
\<close>

definition json_field :: "string \<Rightarrow> (json \<Rightarrow> 'a option) \<Rightarrow> 'a \<Rightarrow> (string \<times> json) list \<Rightarrow> 'a option" where
  "json_field name dec dflt members = foldl
     (\<lambda>acc (k, v). if to_lower k \<noteq> to_lower name \<or> v = JNull then acc
        else (case acc of None \<Rightarrow> None | Some _ \<Rightarrow> dec v))
     (Some dflt) members"

fun dec_string :: "json \<Rightarrow> string option" where
  "dec_string (JStr s) = Some s"
| "dec_string _ = None"

fun dec_bool :: "json \<Rightarrow> bool option" where
  "dec_bool (JBool b) = Some b"
| "dec_bool _ = None"

fun dec_int64 :: "json \<Rightarrow> int64 option" where
  "dec_int64 (JNum s) = parse_int64 s"
| "dec_int64 _ = None"

fun dec_object :: "json \<Rightarrow> (string \<times> json) list option" where
  "dec_object (JObj m) = Some m"
| "dec_object _ = None"

fun dec_list :: "(json \<Rightarrow> 'a option) \<Rightarrow> json \<Rightarrow> 'a list option" where
  "dec_list dec (JArr vs) = those (map dec vs)"
| "dec_list dec _ = None"

section \<open>Enough fuel\<close>

lemma length_skip_ws: "length (skip_ws s) \<le> length s"
  by (simp add: skip_ws_def length_dropWhile_le)

lemma digits1_shrinks: "digits1 s = Some (d, r) \<Longrightarrow> length r < length s"
proof -
  assume d: "digits1 s = Some (d, r)"
  then have "takeWhile is_digit s \<noteq> []" and r: "r = drop (length (takeWhile is_digit s)) s"
    by (auto simp: digits1_def Let_def split: if_splits)
  moreover from this have "s \<noteq> []" by auto
  ultimately show ?thesis by (cases s) auto
qed

lemma json_number_shrinks: "json_number s = Some (t, r) \<Longrightarrow> length r < length s"
  by (fastforce simp: json_number_def int_part_def frac_part_def exp_part_def Let_def
      split: list.splits if_splits option.splits dest: digits1_shrinks)

lemma json_string_shrinks: "json_string s = Some (t, r) \<Longrightarrow> length r < length s"
proof (induction s arbitrary: t r rule: json_string.induct)
  case (2 c cs)
  then show ?case
    by (fastforce simp: json_string.simps dest: json_escape_shrinks
        split: if_splits option.splits)
qed (simp add: json_string.simps)

lemma skip_ws_cons: "skip_ws s = d # ds \<Longrightarrow> length ds < length s"
  using length_skip_ws [of s] by simp

lemma skip_ws_cons_ws: "skip_ws s = d # ds \<Longrightarrow> length (skip_ws ds) < length s"
  using length_skip_ws [of s] length_skip_ws [of ds] by simp

lemma json_shrinks:
  "json_value k s = Some (v, r) \<Longrightarrow> length r < length s"
  "json_elems k s = Some (vs, r) \<Longrightarrow> length r < length s"
  "json_members k s = Some (ms, r) \<Longrightarrow> length r < length s"
proof (induction k arbitrary: s v vs ms r)
  case 0
  { case 1 then show ?case by (simp add: json_value.simps) next
    case 2 then show ?case by (simp add: json_elems.simps) next
    case 3 then show ?case by (simp add: json_members.simps) }
next
  case (Suc k)
  { case 1
    then show ?case
      by (fastforce simp: json_value.simps split: list.splits if_splits
          dest: json_string_shrinks json_number_shrinks Suc.IH skip_ws_cons)
  next
    case 2
    then show ?case
      by (fastforce simp: json_elems.simps split: list.splits if_splits option.splits
          dest: Suc.IH skip_ws_cons skip_ws_cons_ws)
  next
    case 3
    then show ?case
      by (fastforce simp: json_members.simps split: list.splits if_splits option.splits
          dest: json_string_shrinks Suc.IH skip_ws_cons skip_ws_cons_ws) }
qed

text \<open>More fuel than twice the length of the input changes nothing.\<close>

lemma json_value_enough:
  "2 * length s + 1 \<le> k \<Longrightarrow> json_value (Suc k) s = json_value k s"
  "2 * length s + 2 \<le> k \<Longrightarrow> json_elems (Suc k) s = json_elems k s"
  "2 * length s + 2 \<le> k \<Longrightarrow> json_members (Suc k) s = json_members k s"
proof (induction k arbitrary: s)
  case 0
  { case 1 then show ?case by simp next
    case 2 then show ?case by simp next
    case 3 then show ?case by simp }
next
  case (Suc k)
  { case 1
    then show ?case
      by (auto simp: json_value.simps(2) [of k s] json_value.simps(2) [of "Suc k" s] Suc.IH split: list.splits dest!: skip_ws_cons)
  next
    case 2
    then show ?case
      by (auto simp: json_elems.simps(2) [of k s] json_elems.simps(2) [of "Suc k" s] Suc.IH split: list.splits option.splits
           dest!: json_shrinks(1) skip_ws_cons_ws)
  next
    case 3
    have v: "json_value (Suc k) (skip_ws es) = json_value k (skip_ws es)"
      if "s = c # cs" "json_string cs = Some (key, r)" "skip_ws r = e # es" for c cs key r e es
      using that 3 json_string_shrinks [of cs key r] skip_ws_cons_ws [of r e es]
      by (intro Suc.IH) simp
    have m: "json_members (Suc k) (skip_ws ds) = json_members k (skip_ws ds)"
      if "s = c # cs" "json_string cs = Some (key, r)" "skip_ws r = e # es"
        "json_value k (skip_ws es) = Some (w, q)" "skip_ws q = d # ds" for c cs key r e es w q d ds
      using that 3 json_string_shrinks [of cs key r] skip_ws_cons_ws [of r e es]
        json_shrinks(1) [of k "skip_ws es" w q] skip_ws_cons_ws [of q d ds]
      by (intro Suc.IH) simp
    show ?case
      unfolding json_members.simps(2) [of k s] json_members.simps(2) [of "Suc k" s]
      by (intro list.case_cong option.case_cong prod.case_cong if_cong refl arg_cong2 [where f = map_option])
        (simp_all add: v m) }
qed

end
