(* ===== verification/Conn.thy ===== *)
theory Conn
  imports Api_Types Json
begin

text \<open>
  \<^verbatim>\<open>internal/conn/conn.go\<close>: how one side's \<open>postgres_connection\<close> becomes the runner pod's
  environment, volumes and mounts. Environment values name Secret keys; no password value
  exists in the model because none reaches the operator. The shell preludes are constructors
  with the parameters the templates are filled with; \<^verbatim>\<open>net/url\<close> is modelled as far as
  \<open>ComposeURI\<close> uses it.

  The lemmas: which connections materialize; that the inline URI splits back into its user,
  host part and database at the separators libpq splits at; that synchronous commit is only
  ever changed on the target.
\<close>

datatype side = Source | Target

fun side_str :: "side \<Rightarrow> string" where
  "side_str Source = ''source''"
| "side_str Target = ''target''"

fun side_upper :: "side \<Rightarrow> string" where
  "side_upper Source = ''SOURCE''"
| "side_upper Target = ''TARGET''"

definition PgpassPath :: string where "PgpassPath = ''/tmp/pgpass''"
definition credsDir :: string where "credsDir = ''/etc/pgcopydb/creds''"
definition endpointExternal :: string where "endpointExternal = ''external''"

fun uriEnv :: "side \<Rightarrow> string" where
  "uriEnv Source = ''PGCOPYDB_SOURCE_PGURI''"
| "uriEnv Target = ''PGCOPYDB_TARGET_PGURI''"

definition tlsMountPath :: "side \<Rightarrow> string" where
  "tlsMountPath s = ''/etc/pgcopydb/tls/'' @ side_str s"

definition pgmEnv :: "side \<Rightarrow> string \<Rightarrow> string" where
  "pgmEnv s part = ''PGM_'' @ side_upper s @ ''_'' @ part"

definition SuperURIEnv :: "side \<Rightarrow> string" where
  "SuperURIEnv s = pgmEnv s ''SUPER_PGURI''"

section \<open>Pod parts\<close>

text \<open>\<open>EnvJson\<close> is the text \<^verbatim>\<open>json.Marshal\<close> renders of that value.\<close>

datatype env_value = EnvLiteral string | EnvSecret string string "bool option" | EnvJson json

record env_var =
  ev_name :: string
  ev_value :: env_value

datatype volume_source =
    ClaimVolume string
  | EmptyDirVolume
  | SecretVolume string string string "bool option"
  | ProjectedVolume "(string \<times> string \<times> string) list"
  | ConfigMapVolume string

record volume =
  vl_name :: string
  vl_source :: volume_source

record volume_mount =
  mt_name :: string
  mt_path :: string
  mt_readonly :: bool

record passfile =
  pw_host :: string
  pw_user :: string
  pw_file :: string

datatype prelude =
    SecretRefPrelude side string string string string bool
  | SuperPrelude side string string

record materialized =
  mz_env :: "env_var list"
  mz_volumes :: "volume list"
  mz_mounts :: "volume_mount list"
  mz_passfile :: "passfile option"
  mz_prelude :: "prelude option"

definition literal_env :: "string \<Rightarrow> string \<Rightarrow> env_var" where
  "literal_env name v = \<lparr>ev_name = name, ev_value = EnvLiteral v\<rparr>"

definition secretEnvRef :: "string \<Rightarrow> string \<Rightarrow> string \<Rightarrow> bool option \<Rightarrow> env_var" where
  "secretEnvRef name secret key opt = \<lparr>ev_name = name, ev_value = EnvSecret secret key opt\<rparr>"

section \<open>The URI\<close>

datatype escape_mode = encodePath | encodeUserPassword | encodeHost | encodeQueryComponent

definition unreserved :: "char \<Rightarrow> bool" where
  "unreserved c \<longleftrightarrow> (let n = of_char c :: nat in
     97 \<le> n \<and> n \<le> 122 \<or> 65 \<le> n \<and> n \<le> 90 \<or> 48 \<le> n \<and> n \<le> 57) \<or> c \<in> set ''-_.~''"

definition should_escape :: "char \<Rightarrow> escape_mode \<Rightarrow> bool" where
  "should_escape c mode =
     (if unreserved c then False
      else if mode = encodeHost \<and> (c \<in> set ''!$&()*+,;=:[]<>'' \<or> c = CHR 0x22 \<or> c = CHR 0x27) then False
      else if c \<in> set ''$&+,/:;=?@'' then
        (case mode of
           encodePath \<Rightarrow> c = CHR ''?''
         | encodeUserPassword \<Rightarrow> c \<in> set ''@/?:''
         | encodeHost \<Rightarrow> True
         | encodeQueryComponent \<Rightarrow> True)
      else True)"

definition hex_upper :: "nat \<Rightarrow> char" where
  "hex_upper d = char_of (if d < 10 then 48 + d else 55 + d)"

definition escape_char :: "escape_mode \<Rightarrow> char \<Rightarrow> string" where
  "escape_char mode c =
     (if \<not> should_escape c mode then [c]
      else if mode = encodeQueryComponent \<and> c = CHR '' '' then ''+''
      else (let n = of_char c :: nat in [CHR ''%'', hex_upper (n div 16), hex_upper (n mod 16)]))"

definition url_escape :: "escape_mode \<Rightarrow> string \<Rightarrow> string" where
  "url_escape mode s = concat (map (escape_char mode) s)"

definition SyncCommitLocalParam :: string where
  "SyncCommitLocalParam = ''options=-c%20synchronous_commit%3Dlocal''"

definition syncCommitLocal :: "side \<Rightarrow> postgres_connection \<Rightarrow> bool" where
  "syncCommitLocal s c \<longleftrightarrow> s = Target \<and> pc_synchronous_commit c = SynchronousCommitLocal"

definition sslParam :: "postgres_connection \<Rightarrow> string" where
  "sslParam c = (if pc_ssl_mode c = [] then []
     else ''sslmode='' @ url_escape encodeQueryComponent (pc_ssl_mode c))"

text \<open>\<^verbatim>\<open>url.Values.Encode\<close> sorts by key.\<close>

definition tlsParams :: "side \<Rightarrow> postgres_connection \<Rightarrow> string" where
  "tlsParams s c = (case pc_tls c of
       None \<Rightarrow> []
     | Some t \<Rightarrow>
         (let base = tlsMountPath s;
              param = (\<lambda>sel key file. case sel of None \<Rightarrow> []
                        | Some (_ :: secret_key_selector) \<Rightarrow> [key @ ''='' @ url_escape encodeQueryComponent (base @ file)])
          in join (param (tls_cert t) ''sslcert'' ''/tls.crt'' @
                   param (tls_key t) ''sslkey'' ''/tls.key'' @
                   param (tls_root_ca t) ''sslrootcert'' ''/ca.crt'') ''&''))"

definition keepaliveParams :: string where
  "keepaliveParams = ''keepalives=1&keepalives_idle=10&keepalives_interval=10&keepalives_count=6''"

definition sourceTimeout :: string where
  "sourceTimeout = ''tcp_user_timeout=60000''"

fun defaultParams :: "side \<Rightarrow> string" where
  "defaultParams Source = keepaliveParams @ ''&'' @ sourceTimeout"
| "defaultParams Target = keepaliveParams"

definition querySuffix :: "side \<Rightarrow> postgres_connection \<Rightarrow> string" where
  "querySuffix s c =
     (let q = defaultParams s;
          q1 = (if tlsParams s c \<noteq> [] then tlsParams s c @ ''&'' @ q else q);
          q2 = (if sslParam c \<noteq> [] then sslParam c @ ''&'' @ q1 else q1)
      in if syncCommitLocal s c then q2 @ ''&'' @ SyncCommitLocalParam else q2)"

definition uri_port :: "postgres_connection \<Rightarrow> int32" where
  "uri_port c = (if pc_port c = 0 then 5432 else pc_port c)"

definition uri_host :: "postgres_connection \<Rightarrow> string" where
  "uri_host c = url_escape encodeHost (pc_host c @ '':'' @ show_int (sint (uri_port c)))"

definition ComposeURI :: "side \<Rightarrow> postgres_connection \<Rightarrow> err + string" where
  "ComposeURI s c =
     (if pc_host c = [] \<or> pc_username c = []
      then Inl (ErrMsg (side_str s @ '': host and username are required without uriSecretRef''))
      else Inr (''postgresql://'' @ url_escape encodeUserPassword (pc_username c) @ ''@'' @ uri_host c @
                url_escape encodePath (CHR ''/'' # pc_database c) @ ''?'' @ querySuffix s c))"

section \<open>Materializing a side\<close>

definition passwordVolume :: "string \<Rightarrow> string \<Rightarrow> string \<Rightarrow> bool \<Rightarrow> volume \<times> volume_mount \<times> string" where
  "passwordVolume pre secretName key opt =
     (let name = pre @ ''-password''
      in (\<lparr>vl_name = name, vl_source = SecretVolume secretName key name (if opt then Some True else None)\<rparr>,
          \<lparr>mt_name = name, mt_path = credsDir @ ''/'' @ pre @ ''-mnt'', mt_readonly = True\<rparr>,
          credsDir @ ''/'' @ pre @ ''-mnt/'' @ name))"

definition tlsVolume :: "side \<Rightarrow> tls_secret_refs \<Rightarrow> volume \<times> volume_mount" where
  "tlsVolume s t =
     (let proj = (\<lambda>sel path. case sel of None \<Rightarrow> [] | Some k \<Rightarrow> [(sk_name k, sk_key k, path)]);
          name = side_str s @ ''-tls''
      in (\<lparr>vl_name = name, vl_source = ProjectedVolume (proj (tls_root_ca t) ''ca.crt'' @
              proj (tls_cert t) ''tls.crt'' @ proj (tls_key t) ''tls.key'')\<rparr>,
          \<lparr>mt_name = name, mt_path = tlsMountPath s, mt_readonly = True\<rparr>))"

definition tls_parts :: "side \<Rightarrow> postgres_connection \<Rightarrow> volume list \<times> volume_mount list" where
  "tls_parts s c = (case pc_tls c of None \<Rightarrow> ([], [])
     | Some t \<Rightarrow> (case tlsVolume s t of (v, mt) \<Rightarrow> ([v], [mt])))"

definition DefaultKeys :: connection_secret_keys where
  "DefaultKeys = \<lparr>ck_database = ''DB'', ck_password = ''PW'', ck_url = ''URL'',
     ck_url_external = ''URL_EXTERNAL'', ck_username = ''USER''\<rparr>"

definition effectiveKeys :: "connection_secret_keys option \<Rightarrow> connection_secret_keys" where
  "effectiveKeys ko = (case ko of
       None \<Rightarrow> DefaultKeys
     | Some k \<Rightarrow>
         (let pick = (\<lambda>v d. if v \<noteq> [] then v else d)
          in \<lparr>ck_database = pick (ck_database k) (ck_database DefaultKeys),
              ck_password = pick (ck_password k) (ck_password DefaultKeys),
              ck_url = pick (ck_url k) (ck_url DefaultKeys),
              ck_url_external = pick (ck_url_external k) (ck_url_external DefaultKeys),
              ck_username = pick (ck_username k) (ck_username DefaultKeys)\<rparr>))"

definition host_key :: "string \<Rightarrow> connection_secret_keys \<Rightarrow> string" where
  "host_key endpoint keys = (if endpoint = endpointExternal then ck_url_external keys else ck_url keys)"

definition materializeSecretRef :: "side \<Rightarrow> postgres_connection \<Rightarrow> connection_secret \<Rightarrow> materialized" where
  "materializeSecretRef s c sr =
     (let keys = effectiveKeys (cs_keys sr);
          (tv, tm) = tls_parts s c;
          (pv, pm, file) = passwordVolume (side_str s) (cs_name sr) (ck_password keys) True
      in \<lparr>mz_env = [secretEnvRef (pgmEnv s ''DB'') (cs_name sr) (ck_database keys) None,
                    secretEnvRef (pgmEnv s ''USER'') (cs_name sr) (ck_username keys) (Some True),
                    secretEnvRef (pgmEnv s ''HOST'') (cs_name sr) (host_key (cs_endpoint sr) keys) (Some True)],
          mz_volumes = tv @ [pv], mz_mounts = tm @ [pm], mz_passfile = None,
          mz_prelude = Some (SecretRefPrelude s (sslParam c) (tlsParams s c) file (ck_password keys)
                              (syncCommitLocal s c))\<rparr>)"

definition Materialize :: "side \<Rightarrow> postgres_connection \<Rightarrow> err + materialized" where
  "Materialize s c =
     (if pc_synchronous_commit c \<noteq> [] \<and> s \<noteq> Target
      then Inl (ErrMsg (side_str s @ '': synchronousCommit applies to the target only''))
      else if pc_synchronous_commit c \<noteq> [] \<and> pc_uri_secret_ref c \<noteq> None
      then Inl (ErrMsg (side_str s @ '': synchronousCommit cannot be combined with uriSecretRef''))
      else case pc_secret_ref c of
        Some sr \<Rightarrow> Inr (materializeSecretRef s c sr)
      | None \<Rightarrow> (case pc_uri_secret_ref c of
          Some k \<Rightarrow> Inr \<lparr>mz_env = [secretEnvRef (uriEnv s) (sk_name k) (sk_key k) (sk_optional k)],
                         mz_volumes = [], mz_mounts = [], mz_passfile = None, mz_prelude = None\<rparr>
        | None \<Rightarrow> (case ComposeURI s c of
            Inl e \<Rightarrow> Inl e
          | Inr uri \<Rightarrow>
              (let (tv, tm) = tls_parts s c;
                   env = [literal_env (uriEnv s) uri]
               in case pc_password_secret_ref c of
                    None \<Rightarrow> Inr \<lparr>mz_env = env, mz_volumes = tv, mz_mounts = tm,
                                 mz_passfile = None, mz_prelude = None\<rparr>
                  | Some k \<Rightarrow>
                      (let (pv, pm, file) = passwordVolume (side_str s) (sk_name k) (sk_key k) False
                       in Inr \<lparr>mz_env = env, mz_volumes = tv @ [pv], mz_mounts = tm @ [pm],
                               mz_passfile = Some \<lparr>pw_host = pc_host c, pw_user = pc_username c, pw_file = file\<rparr>,
                               mz_prelude = None\<rparr>)))))"

definition MaterializeSuperuser :: "side \<Rightarrow> postgres_connection \<Rightarrow> materialized option" where
  "MaterializeSuperuser s c = (case pc_superuser_secret_ref c of
       None \<Rightarrow> None
     | Some sr \<Rightarrow>
         (let keys = effectiveKeys (cs_keys sr);
              endpoint = (case pc_secret_ref c of None \<Rightarrow> cs_endpoint sr | Some p \<Rightarrow> cs_endpoint p);
              (pv, pm, file) = passwordVolume (side_str s @ ''-super'') (cs_name sr) (ck_password keys) True
          in Some \<lparr>mz_env = [secretEnvRef (pgmEnv s ''SUPER_USER'') (cs_name sr) (ck_username keys) None,
                             secretEnvRef (pgmEnv s ''SUPER_HOST'') (cs_name sr) (host_key endpoint keys) (Some True)],
                   mz_volumes = [pv], mz_mounts = [pm], mz_passfile = None,
                   mz_prelude = Some (SuperPrelude s file (ck_password keys))\<rparr>))"

section \<open>Which connections materialize\<close>

definition connection_ok :: "side \<Rightarrow> postgres_connection \<Rightarrow> bool" where
  "connection_ok s c \<longleftrightarrow>
     (pc_synchronous_commit c = [] \<or> s = Target \<and> pc_uri_secret_ref c = None) \<and>
     (pc_secret_ref c \<noteq> None \<or> pc_uri_secret_ref c \<noteq> None \<or> pc_host c \<noteq> [] \<and> pc_username c \<noteq> [])"

lemma Materialize_ok: "(\<exists>mz. Materialize s c = Inr mz) \<longleftrightarrow> connection_ok s c"
  by (auto simp: Materialize_def connection_ok_def ComposeURI_def Let_def
      split: option.splits prod.splits sum.splits if_splits)

text \<open>No literal environment value but the composed URI, which has no password field.\<close>

lemma Materialize_literals:
  assumes "Materialize s c = Inr mz" and "ev \<in> set (mz_env mz)" and "ev_value ev = EnvLiteral v"
  shows "ev_name ev = uriEnv s \<and> ComposeURI s c = Inr v"
  using assms
  by (auto simp: Materialize_def materializeSecretRef_def secretEnvRef_def literal_env_def Let_def
      split: option.splits prod.splits sum.splits if_splits)

section \<open>The URI splits back\<close>

text \<open>Percent-decoding, the reference for the escaping: libpq reads the parts this way.\<close>

definition hex_digit_val :: "char \<Rightarrow> nat" where
  "hex_digit_val c = (let n = of_char c :: nat in if n \<le> 57 then n - 48 else n - 55)"

fun url_unescape :: "string \<Rightarrow> string" where
  "url_unescape (c # h # l # cs) =
     (if c = CHR ''%'' then char_of (16 * hex_digit_val h + hex_digit_val l) # url_unescape cs
      else c # url_unescape (h # l # cs))"
| "url_unescape s = s"

lemma of_char_bound: "(of_char c :: nat) < 256"
  by (metis mod_less_divisor of_char_mod_256 zero_less_numeral)

lemma hex_digit_val_upper: "d < 16 \<Longrightarrow> hex_digit_val (hex_upper d) = d"
  by (auto simp: hex_digit_val_def hex_upper_def Let_def)

lemma unescape_plain: "c \<noteq> CHR ''%'' \<Longrightarrow> url_unescape (c # cs) = c # url_unescape cs"
proof (cases cs)
  case (Cons h hs)
  assume "c \<noteq> CHR ''%''"
  with Cons show ?thesis by (cases hs) simp_all
qed simp

lemma unescape_escape_char:
  assumes "mode \<noteq> encodeQueryComponent"
  shows "url_unescape (escape_char mode c @ cs) = c # url_unescape cs"
proof (cases "should_escape c mode")
  case True
  have "(of_char c :: nat) div 16 < 16"
    using of_char_bound [of c] by (intro less_mult_imp_div_less) simp
  moreover have "(of_char c :: nat) mod 16 < 16" by simp
  ultimately have "char_of (16 * hex_digit_val (hex_upper (of_char c div 16)) + hex_digit_val (hex_upper (of_char c mod 16))) = c"
    by (simp add: hex_digit_val_upper)
  with True assms show ?thesis by (simp add: escape_char_def Let_def)
next
  case False
  then have "c \<noteq> CHR ''%''"
    by (auto simp: should_escape_def unreserved_def Let_def split: if_splits)
  with False show ?thesis by (simp add: escape_char_def unescape_plain)
qed

lemma unescape_escape:
  "mode \<noteq> encodeQueryComponent \<Longrightarrow> url_unescape (url_escape mode s) = s"
proof (induction s)
  case (Cons c s)
  then show ?case using unescape_escape_char [of mode c "url_escape mode s"] by (simp add: url_escape_def)
qed (simp add: url_escape_def)

lemma hex_upper_range: "d < 16 \<Longrightarrow> unreserved (hex_upper d)"
  by (auto simp: hex_upper_def unreserved_def Let_def)

lemma url_escape_avoids:
  assumes "\<And>c. c = x \<Longrightarrow> should_escape c mode" and "\<not> unreserved x" and "x \<noteq> CHR ''%''"
    and "mode \<noteq> encodeQueryComponent"
  shows "x \<notin> set (url_escape mode s)"
proof
  assume "x \<in> set (url_escape mode s)"
  then obtain c where c: "x \<in> set (escape_char mode c)" by (auto simp: url_escape_def)
  have "(of_char c :: nat) div 16 < 16"
    using of_char_bound [of c] by (intro less_mult_imp_div_less) simp
  then have "unreserved (hex_upper (of_char c div 16))" by (rule hex_upper_range)
  moreover have "unreserved (hex_upper (of_char c mod 16))" by (rule hex_upper_range) simp
  ultimately show False
    using c assms by (auto simp: escape_char_def Let_def split: if_splits)
qed

lemma user_avoids: "x \<in> set ''@/?:'' \<Longrightarrow> x \<notin> set (url_escape encodeUserPassword s)"
  by (rule url_escape_avoids) (auto simp: should_escape_def unreserved_def Let_def)

lemma host_avoids: "x \<in> set ''@/?'' \<Longrightarrow> x \<notin> set (url_escape encodeHost s)"
  by (rule url_escape_avoids) (auto simp: should_escape_def unreserved_def Let_def)

lemma path_avoids: "CHR ''?'' \<notin> set (url_escape encodePath s)"
  by (rule url_escape_avoids) (auto simp: should_escape_def unreserved_def Let_def)

lemma cut_char: "c \<notin> set xs \<Longrightarrow> cut (xs @ c # ys) [c] = Some (xs, ys)"
  by (induction xs) (auto simp: has_prefix_def)

lemma escaped_slash: "url_escape encodePath (CHR ''/'' # d) = CHR ''/'' # url_escape encodePath d"
  by (simp add: url_escape_def escape_char_def should_escape_def unreserved_def Let_def)

text \<open>
  The URI's parts at the first @, / and ? are the user, the host and port, and the
  database, whatever characters the three hold.
\<close>

definition uri_parts :: "string \<Rightarrow> (string \<times> string \<times> string \<times> string) option" where
  "uri_parts uri =
     Option.bind (cut_prefix uri ''postgresql://'') (\<lambda>r.
     Option.bind (cut r ''@'') (\<lambda>(user, r1).
     Option.bind (cut r1 ''/'') (\<lambda>(host, r2).
     Option.bind (cut r2 ''?'') (\<lambda>(db, query). Some (user, host, db, query)))))"

lemma ComposeURI_parts:
  assumes "ComposeURI s c = Inr uri"
  shows "uri_parts uri = Some (url_escape encodeUserPassword (pc_username c), uri_host c,
     url_escape encodePath (pc_database c), querySuffix s c)"
proof -
  have uri: "uri = ''postgresql://'' @ url_escape encodeUserPassword (pc_username c) @ CHR ''@'' #
      uri_host c @ CHR ''/'' # url_escape encodePath (pc_database c) @ CHR ''?'' # querySuffix s c"
    using assms by (auto simp: ComposeURI_def escaped_slash split: if_splits)
  have "cut_prefix (''postgresql://'' @ r) ''postgresql://'' = Some r" for r
    by (simp add: cut_prefix_def has_prefix_def)
  then show ?thesis
    unfolding uri uri_parts_def
    using user_avoids [of "CHR ''@''"] host_avoids [of "CHR ''/''"] path_avoids
    by (simp add: cut_char uri_host_def)
qed

text \<open>Synchronous commit is only ever relaxed on the target, and then the URI says so.\<close>

lemma querySuffix_sync_commit:
  "has_suffix (querySuffix Target c) SyncCommitLocalParam \<longleftrightarrow> syncCommitLocal Target c"
proof -
  have kept: "\<exists>p. querySuffix Target c = p @ keepaliveParams" if "\<not> syncCommitLocal Target c"
    using that by (auto simp: querySuffix_def Let_def)
  have "\<not> has_suffix (p @ keepaliveParams) SyncCommitLocalParam" for p
    by (simp add: has_suffix_def has_prefix_def keepaliveParams_def SyncCommitLocalParam_def)
  moreover have "has_suffix (p @ SyncCommitLocalParam) SyncCommitLocalParam" for p
    by (simp add: has_suffix_def has_prefix_def)
  moreover have "\<exists>p. querySuffix Target c = p @ SyncCommitLocalParam" if "syncCommitLocal Target c"
    using that unfolding querySuffix_def Let_def by (metis append.assoc)
  ultimately show ?thesis using kept by metis
qed

end
