(* ===== verification/Gate_Probe.thy ===== *)
theory Gate_Probe
  imports Api_Types
begin

text \<open>
  \<^verbatim>\<open>internal/controller/retry_gate_job.go\<close>: how a retry-gate probe's log is read and judged.
  The probe Job prints one \<^verbatim>\<open>gate:\<close> line per check; \<open>parseGateLog\<close> collects them, \<open>passed\<close> is
  the pass verdict for a set of inputs and \<open>hold\<close> the reason and message otherwise. The
  probe's script is theory \<open>Gate_Script\<close>; its Job is built in theory \<open>Resources\<close>.

  The lemmas: a log without a complete set of lines never passes, whatever it is a prefix of;
  \<open>hold\<close> gives no reason exactly for a passed probe; and the reason is the first failing check
  in the script's order.
\<close>

section \<open>The log\<close>

record gate_census =
  gc_Total :: int64
  gc_SyncRep :: int64
  gc_GateWaiting :: int64
  gc_SyncRepSince :: int64
  gc_Named :: bool

record gate_session =
  gs_Line :: string
  gs_Idle :: bool

record gate_result =
  g_Census :: "gate_census option"
  g_CensusDetail :: string
  g_Sessions :: "gate_session list"
  g_SyncCommit :: "string option"
  g_SyncCommitDetail :: string
  g_Commit :: string
  g_CommitDetail :: string
  g_Pass :: bool

definition no_gate_result :: gate_result where
  "no_gate_result = \<lparr>g_Census = None, g_CensusDetail = [], g_Sessions = [], g_SyncCommit = None,
     g_SyncCommitDetail = [], g_Commit = [], g_CommitDetail = [], g_Pass = False\<rparr>"

definition census_format :: string where
  "census_format = ''census total=%d syncrep=%d named=%s syncrep_since=%d gate_waiting=%d''"

definition parseCensus :: "string \<Rightarrow> gate_census option" where
  "parseCensus line = (case sscanf census_format line of
       Some [Num t, Num s, Txt n, Num since, Num w] \<Rightarrow>
         Some \<lparr>gc_Total = t, gc_SyncRep = s, gc_GateWaiting = w, gc_SyncRepSince = since,
               gc_Named = (n = ''yes'')\<rparr>
     | _ \<Rightarrow> None)"

definition gate_line :: "gate_result \<Rightarrow> string \<Rightarrow> gate_result" where
  "gate_line g rest =
     (case cut_prefix rest ''census failed '' of Some v \<Rightarrow> g\<lparr>g_CensusDetail := v\<rparr> | None \<Rightarrow>
      if has_prefix rest ''census '' then
        (case g_Census g of None \<Rightarrow> g\<lparr>g_Census := parseCensus rest\<rparr> | Some c \<Rightarrow> g)
      else case cut_prefix rest ''session '' of
        Some v \<Rightarrow> g\<lparr>g_Sessions := g_Sessions g @ [\<lparr>gs_Line = v, gs_Idle = contains v '' state=idle wait=''\<rparr>]\<rparr>
      | None \<Rightarrow>
      case cut_prefix rest ''synchronous_commit failed '' of Some v \<Rightarrow> g\<lparr>g_SyncCommitDetail := v\<rparr> | None \<Rightarrow>
      case cut_prefix rest ''synchronous_commit='' of Some v \<Rightarrow> g\<lparr>g_SyncCommit := Some v\<rparr> | None \<Rightarrow>
      case cut_prefix rest ''commit '' of
        Some v \<Rightarrow> (case cut v '' '' of
            Some (c, d) \<Rightarrow> g\<lparr>g_Commit := c, g_CommitDetail := d\<rparr>
          | None \<Rightarrow> g\<lparr>g_Commit := v, g_CommitDetail := []\<rparr>)
      | None \<Rightarrow> if rest = ''pass'' then g\<lparr>g_Pass := True\<rparr> else g)"

definition gate_log_line :: "gate_result \<Rightarrow> string \<Rightarrow> gate_result" where
  "gate_log_line g line = (case cut_prefix (trim_right_char (CHR 0x0D) line) ''gate: '' of
       None \<Rightarrow> g | Some rest \<Rightarrow> gate_line g rest)"

definition parseGateLog :: "string \<Rightarrow> gate_result" where
  "parseGateLog log = foldl gate_log_line no_gate_result (split_on newline log)"

section \<open>The verdict\<close>

record gate_inputs =
  CommitTest :: bool
  ExpectLocal :: bool

definition gateFlag :: "bool \<Rightarrow> string" where
  "gateFlag on = (if on then ''1'' else ''0'')"

definition gate_inputs_string :: "gate_inputs \<Rightarrow> string" where
  "gate_inputs_string g = ''commit='' @ gateFlag (CommitTest g) @ '',local='' @ gateFlag (ExpectLocal g)"

definition passed :: "gate_result \<Rightarrow> gate_inputs \<Rightarrow> bool" where
  "passed g inp \<longleftrightarrow> g_Pass g \<and>
     (case g_Census g of None \<Rightarrow> False | Some c \<Rightarrow> gc_Total c = 0) \<and>
     (\<not> ExpectLocal inp \<or> g_SyncCommit g = Some SynchronousCommitLocal) \<and>
     (\<not> CommitTest inp \<or> g_Commit g = ''ok'')"

definition gateDetail :: "string \<Rightarrow> string" where
  "gateDetail detail = (if detail = [] then [] else '': '' @ detail)"

definition sessionsMessage :: "gate_result \<Rightarrow> gate_census \<Rightarrow> string" where
  "sessionsMessage g c =
     ''Sessions of the migration role remain on the target: '' @ show_int (sint (gc_Total c)) @
     '' in total, '' @ show_nat (length (g_Sessions g)) @ '' listed: '' @
     join (map gs_Line (g_Sessions g)) ''; '' @
     (if \<not> gc_Named c then ''. The target URI pins application_name, so every session of the role counts'' else []) @
     (if g_Sessions g \<noteq> [] \<and> list_all gs_Idle (g_Sessions g)
      then ''. A connection pooler can keep idle server connections under the last client's name;'' @
           '' ending an idle session by hand is safe because it holds no transaction''
      else [])"

definition skippedMessage :: "string \<Rightarrow> string" where
  "skippedMessage detail =
     (if has_prefix detail ''syncrep='' then
        ''The test commit was skipped because sessions wait for synchronous replication ('' @ detail @ '')''
      else if has_prefix detail ''gate_waiting='' then
        ''The test commit was skipped because an earlier probe still waits for synchronous replication ('' @ detail @ '')''
      else ''The test commit was skipped: '' @ detail)"

definition quoteIdent :: "string \<Rightarrow> string" where
  "quoteIdent s =
     [CHR 0x22] @ concat (map (\<lambda>c. if c = CHR 0x22 then [CHR 0x22, CHR 0x22] else [c]) s) @ [CHR 0x22]"

definition grantRemedy :: "string \<Rightarrow> postgres_connection \<Rightarrow> string" where
  "grantRemedy detail tgt =
     (if \<not> contains detail ''ERROR:  42501:'' then []
      else
        (let db = (if pc_database tgt \<noteq> [] then quoteIdent (pc_database tgt) else ''<database>'');
             role = (if pc_username tgt \<noteq> [] then quoteIdent (pc_username tgt) else ''<role>'')
         in ''; run GRANT TEMPORARY ON DATABASE '' @ db @ '' TO '' @ role @ '' on the target''))"

text \<open>The checks that did not pass, in script order, each with its reason and text.\<close>

definition census_failures :: "gate_result \<Rightarrow> (reason \<times> string) list" where
  "census_failures g = (case g_Census g of
       None \<Rightarrow> [(ReasonProbeFailed, ''The session census gave no result'' @ gateDetail (g_CensusDetail g))]
     | Some c \<Rightarrow> if 0 < sint (gc_Total c) then [(ReasonSessionsRemain, sessionsMessage g c)] else [])"

definition sync_commit_failures :: "gate_result \<Rightarrow> gate_inputs \<Rightarrow> (reason \<times> string) list" where
  "sync_commit_failures g inp =
     (if ExpectLocal inp then
        (case g_SyncCommit g of
           None \<Rightarrow> [(ReasonProbeFailed, ''SHOW synchronous_commit gave no result'' @ gateDetail (g_SyncCommitDetail g))]
         | Some sc \<Rightarrow>
             if sc \<noteq> SynchronousCommitLocal
             then [(ReasonSyncCommitNotLocal, ''The target connection reports synchronous_commit='' @ sc @
                    '', not local; a connection pooler or proxy dropped the libpq startup option'')]
             else [])
      else [])"

definition commit_failures :: "gate_result \<Rightarrow> gate_inputs \<Rightarrow> postgres_connection \<Rightarrow> (reason \<times> string) list" where
  "commit_failures g inp tgt =
     (if CommitTest inp then
        (if g_Commit g = ''ok'' then []
         else if g_Commit g = ''blocked'' then
           [(ReasonCommitBlocked, ''The test commit waited for synchronous replication until the probe cancelled it'')]
         else if g_Commit g = ''skipped'' then [(ReasonCommitBlocked, skippedMessage (g_CommitDetail g))]
         else if g_Commit g = ''failed'' then
           [(ReasonProbeFailed, ''The test commit failed: '' @ g_CommitDetail g @ grantRemedy (g_CommitDetail g) tgt)]
         else [(ReasonProbeFailed, ''The test commit gave no result'')])
      else [])"

definition gate_failures :: "gate_result \<Rightarrow> gate_inputs \<Rightarrow> postgres_connection \<Rightarrow> (reason \<times> string) list" where
  "gate_failures g inp tgt =
     (let failed = census_failures g @ sync_commit_failures g inp @ commit_failures g inp tgt
      in if failed = [] \<and> \<not> passed g inp
         then [(ReasonProbeFailed, ''The probe log has no gate: pass line'')] else failed)"

definition hold :: "gate_result \<Rightarrow> gate_inputs \<Rightarrow> postgres_connection \<Rightarrow> reason option \<times> string" where
  "hold g inp tgt =
     (case gate_failures g inp tgt of [] \<Rightarrow> None | (r, _) # _ \<Rightarrow> Some r,
      join (map snd (gate_failures g inp tgt)) ''. '')"

section \<open>Held exactly when not passed\<close>

lemma passed_no_failures:
  assumes "passed g inp"
  shows "census_failures g @ sync_commit_failures g inp @ commit_failures g inp tgt = []"
proof -
  obtain c where c: "g_Census g = Some c" "gc_Total c = 0"
    and l: "ExpectLocal inp \<Longrightarrow> g_SyncCommit g = Some SynchronousCommitLocal"
    and k: "CommitTest inp \<Longrightarrow> g_Commit g = ''ok''"
    using assms unfolding passed_def by (cases "g_Census g") fastforce+
  have "sync_commit_failures g inp = []"
    using l by (simp add: sync_commit_failures_def)
  moreover have "commit_failures g inp tgt = []"
    using k by (simp add: commit_failures_def)
  ultimately show ?thesis using c by (simp add: census_failures_def)
qed

lemma gate_failures_nil: "gate_failures g inp tgt = [] \<longleftrightarrow> passed g inp"
  unfolding gate_failures_def Let_def using passed_no_failures [of g inp tgt] by (metis list.distinct(1))

lemma hold_none_iff: "fst (hold g inp tgt) = None \<longleftrightarrow> passed g inp"
  unfolding hold_def gate_failures_nil [of g inp tgt, symmetric] by (simp split: list.split)

lemma hold_passed: "passed g inp \<Longrightarrow> hold g inp tgt = (None, [])"
  unfolding hold_def gate_failures_nil [of g inp tgt, symmetric] by simp

text \<open>A failing census outranks the setting, and that outranks the commit.\<close>

lemma hold_census_first:
  "census_failures g = (r, msg) # rest \<Longrightarrow> fst (hold g inp tgt) = Some r"
  by (simp add: hold_def gate_failures_def)

lemma hold_setting_next:
  "census_failures g = [] \<Longrightarrow> sync_commit_failures g inp = (r, msg) # rest \<Longrightarrow>
   fst (hold g inp tgt) = Some r"
  by (simp add: hold_def gate_failures_def)

text \<open>The reason alone: that of the first check that did not pass.\<close>

lemma hold_reason:
  "fst (hold g inp tgt) = (case census_failures g @ sync_commit_failures g inp @ commit_failures g inp tgt of
     [] \<Rightarrow> if passed g inp then None else Some ReasonProbeFailed | (r, msg) # _ \<Rightarrow> Some r)"
  by (auto simp: hold_def gate_failures_def Let_def split: list.split)

definition sessions_gone :: "gate_result \<Rightarrow> bool" where
  "sessions_gone g \<longleftrightarrow> (\<exists>c. g_Census g = Some c \<and> sint (gc_Total c) \<le> 0)"

definition local_setting :: "gate_result \<Rightarrow> gate_inputs \<Rightarrow> bool" where
  "local_setting g inp \<longleftrightarrow> (ExpectLocal inp \<longrightarrow> g_SyncCommit g = Some SynchronousCommitLocal)"

lemma census_reasons:
  "census_failures g = [] \<longleftrightarrow> sessions_gone g"
  "census_failures g \<noteq> [] \<Longrightarrow> map fst (census_failures g) = [if g_Census g = None then ReasonProbeFailed else ReasonSessionsRemain]"
  by (auto simp: census_failures_def sessions_gone_def split: option.splits)

lemma setting_reasons:
  "sync_commit_failures g inp = [] \<longleftrightarrow> local_setting g inp"
  "sync_commit_failures g inp \<noteq> [] \<Longrightarrow>
     map fst (sync_commit_failures g inp) = [if g_SyncCommit g = None then ReasonProbeFailed else ReasonSyncCommitNotLocal]"
  by (auto simp: sync_commit_failures_def local_setting_def split: option.splits if_splits)

lemma commit_reasons:
  "commit_failures g inp tgt = [] \<longleftrightarrow> \<not> CommitTest inp \<or> g_Commit g = ''ok''"
  "commit_failures g inp tgt \<noteq> [] \<Longrightarrow>
     map fst (commit_failures g inp tgt) = [if g_Commit g \<in> {''blocked'', ''skipped''} then ReasonCommitBlocked else ReasonProbeFailed]"
  by (auto simp: commit_failures_def split: if_splits)

lemma hold_reasons:
  "fst (hold g inp tgt) = None \<longleftrightarrow> passed g inp"
  "fst (hold g inp tgt) = Some ReasonSessionsRemain \<longleftrightarrow> (\<exists>c. g_Census g = Some c \<and> 0 < sint (gc_Total c))"
  "fst (hold g inp tgt) = Some ReasonSyncCommitNotLocal \<longleftrightarrow> sessions_gone g \<and> \<not> local_setting g inp \<and> g_SyncCommit g \<noteq> None"
  "fst (hold g inp tgt) = Some ReasonCommitBlocked \<longleftrightarrow> sessions_gone g \<and> local_setting g inp \<and> CommitTest inp \<and>
     g_Commit g \<in> {''blocked'', ''skipped''}"
proof -
  show "fst (hold g inp tgt) = None \<longleftrightarrow> passed g inp" by (rule hold_none_iff)
  have more: "census_failures g \<noteq> [] \<longleftrightarrow> \<not> sessions_gone g" "sync_commit_failures g inp \<noteq> [] \<longleftrightarrow> \<not> local_setting g inp"
    using census_reasons(1) setting_reasons(1) by blast+
  have census: "(\<exists>c. g_Census g = Some c \<and> 0 < sint (gc_Total c)) \<longleftrightarrow> \<not> sessions_gone g \<and> g_Census g \<noteq> None"
    by (auto simp: sessions_gone_def not_le)
  consider (census) r msg where "\<not> sessions_gone g" "census_failures g = [(r, msg)]" "r = (if g_Census g = None then ReasonProbeFailed else ReasonSessionsRemain)"
    | (setting) r msg where "sessions_gone g" "\<not> local_setting g inp" "sync_commit_failures g inp = [(r, msg)]"
        "r = (if g_SyncCommit g = None then ReasonProbeFailed else ReasonSyncCommitNotLocal)"
    | (commit) r msg where "sessions_gone g" "local_setting g inp" "CommitTest inp" "g_Commit g \<noteq> ''ok''" "commit_failures g inp tgt = [(r, msg)]"
        "r = (if g_Commit g \<in> {''blocked'', ''skipped''} then ReasonCommitBlocked else ReasonProbeFailed)"
    | (none) "sessions_gone g" "local_setting g inp" "commit_failures g inp tgt = []"
    using census_reasons(2) [of g] setting_reasons(2) [of g inp] commit_reasons [of g inp tgt] more
    by (cases "sessions_gone g"; cases "local_setting g inp"; cases "commit_failures g inp tgt = []")
      (auto simp: map_eq_Cons_conv)
  then have
    "(fst (hold g inp tgt) = Some ReasonSessionsRemain \<longleftrightarrow> \<not> sessions_gone g \<and> g_Census g \<noteq> None) \<and>
     (fst (hold g inp tgt) = Some ReasonSyncCommitNotLocal \<longleftrightarrow> sessions_gone g \<and> \<not> local_setting g inp \<and> g_SyncCommit g \<noteq> None) \<and>
     (fst (hold g inp tgt) = Some ReasonCommitBlocked \<longleftrightarrow> sessions_gone g \<and> local_setting g inp \<and> CommitTest inp \<and>
        g_Commit g \<in> {''blocked'', ''skipped''})"
  proof cases
    case (commit r msg)
    then show ?thesis using more by (simp add: hold_reason)
  next
    case none
    then have "\<not> (CommitTest inp \<and> g_Commit g \<in> {''blocked'', ''skipped''})"
      using commit_reasons(1) [of g inp tgt] by auto
    then show ?thesis using more none by (auto simp: hold_reason)
  qed (use more in \<open>auto simp: hold_reason\<close>)
  then show "fst (hold g inp tgt) = Some ReasonSessionsRemain \<longleftrightarrow> (\<exists>c. g_Census g = Some c \<and> 0 < sint (gc_Total c))"
    "fst (hold g inp tgt) = Some ReasonSyncCommitNotLocal \<longleftrightarrow> sessions_gone g \<and> \<not> local_setting g inp \<and> g_SyncCommit g \<noteq> None"
    "fst (hold g inp tgt) = Some ReasonCommitBlocked \<longleftrightarrow> sessions_gone g \<and> local_setting g inp \<and> CommitTest inp \<and>
     g_Commit g \<in> {''blocked'', ''skipped''}"
    unfolding census by blast+
qed

lemma hold_range:
  "fst (hold g inp tgt) \<in> {None, Some ReasonSessionsRemain, Some ReasonSyncCommitNotLocal, Some ReasonCommitBlocked, Some ReasonProbeFailed}"
  by (auto simp: hold_reason census_failures_def sync_commit_failures_def commit_failures_def split: option.splits)

section \<open>A log cut short\<close>

text \<open>The last line of a probe is its pass line; a log without it does not pass.\<close>

lemma gate_line_pass:
  "g_Pass (gate_line g rest) \<Longrightarrow> g_Pass g \<or> rest = ''pass''"
  by (auto simp: gate_line_def split: option.splits if_splits)

lemma parseGateLog_pass_lines:
  "g_Pass (foldl gate_log_line g ls) \<Longrightarrow> g_Pass g \<or> (\<exists>l \<in> set ls. trim_right_char (CHR 0x0D) l = ''gate: pass'')"
proof (induction ls arbitrary: g)
  case (Cons l ls)
  have "g_Pass g \<or> trim_right_char (CHR 0x0D) l = ''gate: pass''" if "g_Pass (gate_log_line g l)"
  proof (cases "cut_prefix (trim_right_char (CHR 0x0D) l) ''gate: ''")
    case None
    with that show ?thesis by (simp add: gate_log_line_def)
  next
    case (Some rest)
    then have "trim_right_char (CHR 0x0D) l = ''gate: '' @ rest"
      using has_prefix_iff by (auto simp: cut_prefix_def split: if_splits)
    with Some that gate_line_pass [of g rest] show ?thesis by (auto simp: gate_log_line_def)
  qed
  with Cons show ?case by fastforce
qed simp

lemma passed_has_pass_line:
  "passed (parseGateLog log) inp \<Longrightarrow> \<exists>l \<in> set (split_on newline log). trim_right_char (CHR 0x0D) l = ''gate: pass''"
  using parseGateLog_pass_lines [of no_gate_result "split_on newline log"]
  by (auto simp: passed_def parseGateLog_def no_gate_result_def)

text \<open>The census that counts is the first readable one.\<close>

lemma gate_line_census:
  "g_Census g = Some c \<Longrightarrow> g_Census (gate_line g rest) = Some c"
  by (simp add: gate_line_def split: option.splits prod.splits)

lemma gate_log_census_stable:
  "g_Census g = Some c \<Longrightarrow> g_Census (foldl gate_log_line g ls) = Some c"
  by (induction ls arbitrary: g) (simp_all add: gate_log_line_def gate_line_census split: option.splits)

lemma gate_inputs_string_inj: "gate_inputs_string a = gate_inputs_string b \<longleftrightarrow> a = b"
  by (cases a; cases b) (auto simp: gate_inputs_string_def gateFlag_def)

end
