(* ===== verification/Resources.thy ===== *)
theory Resources
  imports Args Conn Gate_Probe
begin

text \<open>
  \<^verbatim>\<open>internal/controller/resources.go\<close> and the builders of \<^verbatim>\<open>retry_gate_job.go\<close>, \<^verbatim>\<open>reown.go\<close>,
  \<^verbatim>\<open>rehearsal.go\<close> and \<^verbatim>\<open>verification.go\<close>: the objects the operator creates. A Job's program is
  pgcopydb with an argv, or one of the operator's shell scripts, a constructor with the
  parameters its template takes (the preflight is the list of its blocks); what the scripts do is in
  \<open>Preflight_Script\<close>, \<open>Job_Scripts\<close> and \<open>Gate_Script\<close>. What every Job shares (labels of the pod, security context, restart
  policy) is constant in the code and left out of the record.

  \<open>meta.FindStatusCondition\<close> and its relatives are library calls; the builders that read a
  condition take its verdict as an argument (\<open>lost\<close>, \<open>done\<close>).

  The lemmas: which specifications the worker Job can be built for; attempt 1 restarts, a retry
  resumes unless it starts over; superuser credentials appear in the preflight Job only; only
  the worker, the gate probe and the preflight may carry the synchronous-commit option.
\<close>

section \<open>Jobs\<close>

datatype job_condition_type = JobComplete | JobFailed | OtherJobCondition string

record job_condition =
  jc_type :: job_condition_type
  jc_status :: condition_status
  jc_reason :: string
  jc_message :: string
  jc_transition :: time

datatype preflight_block =
    PreflightHeader | TargetConnect string | PoolerBlock | SyncCommitBlock | TemporaryPrivilegeBlock
  | DeferIndexesBlock | MajorVersionBlock | PreflightStopOnFailure | RestoreMajorBlock
  | AllDatabasesPreflightBlock | ExtensionPreflightBlock bool bool bool | PreflightScriptFooter
  | SuperVerifyBlock side bool | OwnerAfterRestoreBlock bool bool | CloneRightsBlock bool bool bool
  | RlsAuditBlock | WalLevelBlock | SlotHeadroomBlock | WalSenderTimeoutBlock
  | ReplicationAttrBlock bool bool | OriginGrantsBlock bool bool | SrrBlock bool bool
  | UnloggedAuditBlock | RiAuditBlock | PreflightWal2jsonNote

datatype script =
    GateScript bool | ReownScript | VerifyScript string string | CatalogScript string
  | RehearsalScript "string list" | CompareDataScript | PreflightScript "preflight_block list"

datatype program = Pgcopydb "string list" | Shell script

text \<open>Shell the prelude runs before the program: the guard names a slot.\<close>

datatype setup_step = RunPgcopydb "string list" | PublicationGuard string

record job_spec =
  js_backoff :: int32
  js_deadline :: "int64 option"
  js_ttl :: "int32 option"
  js_image :: string
  js_program :: program
  js_preludes :: "prelude list"
  js_passfiles :: "passfile list"
  js_setup :: "setup_step list"
  js_env :: "env_var list"
  js_volumes :: "volume list"
  js_mounts :: "volume_mount list"
  js_resources :: resource_requirements
  js_node_selector :: "(string \<times> string) list"
  js_tolerations :: "string list"
  js_affinity :: "affinity option"

record job =
  j_name :: string
  j_uid :: string
  j_labels :: "(string \<times> string) list"
  j_annotations :: "(string \<times> string) list"
  j_deleting :: bool
  j_conditions :: "job_condition list"
  j_startTime :: "time option"
  j_completionTime :: "time option"
  j_spec :: job_spec

section \<open>Names and labels\<close>

definition labelMigration :: string where "labelMigration = ''pgcopydb-operator.io/migration''"
definition labelFeatureE2ERun :: string where "labelFeatureE2ERun = ''pgcopydb-operator.io/feature-e2e-run''"
definition labelManagedBy :: string where "labelManagedBy = ''app.kubernetes.io/managed-by''"
definition managerName :: string where "managerName = ''pgcopydb-operator''"
definition annotationWorkNode :: string where "annotationWorkNode = ''pgcopydb-operator.io/work-volume-node''"
definition annotationRetryGateInputs :: string where
  "annotationRetryGateInputs = ''pgcopydb-operator.io/retry-gate-inputs''"

text \<open>Reading a Go map of strings: a missing key is the empty string.\<close>

definition lookup :: "(string \<times> string) list \<Rightarrow> string \<Rightarrow> string" where
  "lookup kvs k = (case map_of kvs k of None \<Rightarrow> [] | Some v \<Rightarrow> v)"

definition labels :: "migration \<Rightarrow> (string \<times> string) list" where
  "labels m = [(labelManagedBy, managerName), (labelMigration, m_name m)] @
     (let v = lookup (m_labels m) labelFeatureE2ERun in if v \<noteq> [] then [(labelFeatureE2ERun, v)] else [])"

definition workdirVolume :: string where "workdirVolume = ''workdir''"

definition workPVCName :: "migration \<Rightarrow> string" where "workPVCName m = m_name m @ ''-work''"
definition filtersCMName :: "migration \<Rightarrow> string" where "filtersCMName m = m_name m @ ''-filters''"
definition worker_job_name :: "migration \<Rightarrow> int32 \<Rightarrow> string" where
  "worker_job_name m n = m_name m @ ''-run-'' @ itoa n"
definition cleanupJobName :: "migration \<Rightarrow> string" where "cleanupJobName m = m_name m @ ''-cleanup''"
definition verifyJobName :: "migration \<Rightarrow> string" where "verifyJobName m = m_name m @ ''-verify''"
definition reownJobName :: "migration \<Rightarrow> string" where "reownJobName m = m_name m @ ''-reown''"
definition preflightJobName :: "migration \<Rightarrow> string" where "preflightJobName m = m_name m @ ''-preflight''"
definition catalogJobName :: "migration \<Rightarrow> string" where "catalogJobName m = m_name m @ ''-catalog''"
definition gateJobName :: "migration \<Rightarrow> int32 \<Rightarrow> string" where
  "gateJobName m n = m_name m @ ''-gate-'' @ itoa n"
definition rehearsalJobName :: "migration \<Rightarrow> int32 \<Rightarrow> string" where
  "rehearsalJobName m run = m_name m @ ''-rehearsal-'' @ itoa run"
definition compareJobName :: "migration \<Rightarrow> string \<Rightarrow> string" where
  "compareJobName m check = m_name m @ ''-compare-'' @ check"

section \<open>Reading the specification\<close>

definition followEnabled :: "migration \<Rightarrow> bool" where
  "followEnabled m = (case follow (spec m) of None \<Rightarrow> False | Some f \<Rightarrow> fo_enabled f)"

definition effectiveSlotName :: "migration \<Rightarrow> string" where
  "effectiveSlotName m = (case follow (spec m) of
       Some f \<Rightarrow> if fo_slot_name f \<noteq> [] then fo_slot_name f else SlotName (m_namespace m) (m_name m)
     | None \<Rightarrow> SlotName (m_namespace m) (m_name m))"

definition reownRequested :: "migration \<Rightarrow> bool" where
  "reownRequested m \<longleftrightarrow> owner_after_restore (clone (spec m)) \<noteq> []"

definition runnerImageFor :: "migration \<Rightarrow> string \<Rightarrow> string" where
  "runnerImageFor m runnerImage = (if rn_image (runner (spec m)) \<noteq> [] then rn_image (runner (spec m)) else runnerImage)"

definition runnerAffinity :: "migration \<Rightarrow> affinity option" where
  "runnerAffinity m =
     (let node = lookup (m_annotations m) annotationWorkNode;
          a0 = rn_affinity (runner (spec m))
      in if node = [] then a0
         else (let a = (case a0 of None \<Rightarrow> \<lparr>aff_preferred_nodes = [], aff_rest = []\<rparr> | Some a \<Rightarrow> a)
               in Some (a\<lparr>aff_preferred_nodes := aff_preferred_nodes a @ [(100, [node])]\<rparr>)))"

section \<open>Owned objects\<close>

record pvc =
  pvc_name :: string
  pvc_storage_class :: "string option"
  pvc_size :: quantity

definition defaultWorkVolumeSize :: quantity where
  "defaultWorkVolumeSize = \<lparr>q_value = 10737418240, q_milli = 10737418240000\<rparr>"

definition buildWorkPVC :: "migration \<Rightarrow> pvc" where
  "buildWorkPVC m =
     (let size = wv_size (workVolume (spec m))
      in \<lparr>pvc_name = workPVCName m, pvc_storage_class = wv_storage_class_name (workVolume (spec m)),
          pvc_size = (if q_milli size = 0 \<and> q_value size = 0 then defaultWorkVolumeSize else size)\<rparr>)"

record config_map =
  cm_name :: string
  cm_filters :: string

definition buildFiltersConfigMap :: "migration \<Rightarrow> config_map option" where
  "buildFiltersConfigMap m =
     (let ini = RenderFilters (clone_filters (clone (spec m)))
      in if ini = [] then None else Some \<lparr>cm_name = filtersCMName m, cm_filters = ini\<rparr>)"

section \<open>The shared pod shape\<close>

definition option_list :: "'a option \<Rightarrow> 'a list" where
  "option_list x = (case x of None \<Rightarrow> [] | Some y \<Rightarrow> [y])"

definition skeleton_job :: "migration \<Rightarrow> string \<Rightarrow> string \<Rightarrow> program \<Rightarrow> setup_step list \<Rightarrow> int32 \<Rightarrow> materialized list \<Rightarrow> job" where
  "skeleton_job m runnerImage name prog setup backoff sets =
     (let passfiles = concat (map (\<lambda>s. option_list (mz_passfile s)) sets);
          preludes = concat (map (\<lambda>s. option_list (mz_prelude s)) sets);
          env = concat (map mz_env sets) @ [literal_env ''PGCOPYDB_LOG_JSON'' ''on''] @
                (if passfiles \<noteq> [] \<or> preludes \<noteq> [] then [literal_env ''PGPASSFILE'' PgpassPath] else []);
          cm = option_list (buildFiltersConfigMap m)
      in \<lparr>j_name = name, j_uid = [], j_labels = labels m, j_annotations = [], j_deleting = False,
          j_conditions = [], j_startTime = None, j_completionTime = None,
          j_spec = \<lparr>js_backoff = backoff, js_deadline = None, js_ttl = ttlSecondsAfterFinished (spec m),
            js_image = runnerImageFor m runnerImage, js_program = prog, js_preludes = preludes,
            js_passfiles = passfiles, js_setup = setup, js_env = env,
            js_volumes = [\<lparr>vl_name = workdirVolume, vl_source = ClaimVolume (workPVCName m)\<rparr>,
                          \<lparr>vl_name = ''tmp'', vl_source = EmptyDirVolume\<rparr>] @
                         concat (map mz_volumes sets) @
                         map (\<lambda>c. \<lparr>vl_name = ''filters'', vl_source = ConfigMapVolume (cm_name c)\<rparr>) cm,
            js_mounts = [\<lparr>mt_name = workdirVolume, mt_path = WorkMount, mt_readonly = False\<rparr>,
                         \<lparr>mt_name = ''tmp'', mt_path = ''/tmp'', mt_readonly = False\<rparr>] @
                        concat (map mz_mounts sets) @
                        map (\<lambda>c. \<lparr>mt_name = ''filters'', mt_path = ''/etc/pgcopydb/conf'', mt_readonly = True\<rparr>) cm,
            js_resources = rn_resources (runner (spec m)),
            js_node_selector = rn_node_selector (runner (spec m)),
            js_tolerations = rn_tolerations (runner (spec m)),
            js_affinity = runnerAffinity m\<rparr>\<rparr>)"

definition jobSkeleton :: "migration \<Rightarrow> string \<Rightarrow> string \<Rightarrow> program \<Rightarrow> setup_step list \<Rightarrow> int32 \<Rightarrow> bool \<Rightarrow>
    materialized list \<Rightarrow> err + job" where
  "jobSkeleton m runnerImage name prog setup backoff syncCommit extras =
     (case Materialize Source (source (spec m)) of
        Inl e \<Rightarrow> Inl e
      | Inr src \<Rightarrow>
          (case Materialize Target (if syncCommit then target (spec m)
                                    else (target (spec m))\<lparr>pc_synchronous_commit := []\<rparr>) of
             Inl e \<Rightarrow> Inl e
           | Inr tgt \<Rightarrow> Inr (skeleton_job m runnerImage name prog setup backoff ([src, tgt] @ extras))))"

definition upd_spec :: "(job_spec \<Rightarrow> job_spec) \<Rightarrow> job \<Rightarrow> job" where
  "upd_spec f j = j\<lparr>j_spec := f (j_spec j)\<rparr>"

definition add_env :: "env_var list \<Rightarrow> job \<Rightarrow> job" where
  "add_env es = upd_spec (\<lambda>s. s\<lparr>js_env := js_env s @ es\<rparr>)"

definition addConnectTimeout :: "job \<Rightarrow> job" where
  "addConnectTimeout = add_env [literal_env ''PGCONNECT_TIMEOUT'' ''10'']"

definition map_inr :: "('a \<Rightarrow> 'b) \<Rightarrow> err + 'a \<Rightarrow> err + 'b" where
  "map_inr f r = (case r of Inl e \<Rightarrow> Inl e | Inr x \<Rightarrow> Inr (f x))"

definition scriptJob :: "migration \<Rightarrow> string \<Rightarrow> string \<Rightarrow> script \<Rightarrow> bool \<Rightarrow> materialized list \<Rightarrow> err + job" where
  "scriptJob m runnerImage name scr syncCommit extras =
     map_inr addConnectTimeout (jobSkeleton m runnerImage name (Shell scr) [] 1 syncCommit extras)"

text \<open>The loops that move the work directory off the claim.\<close>

definition scratch_workdir :: "job \<Rightarrow> job" where
  "scratch_workdir = upd_spec (\<lambda>s. s\<lparr>js_volumes := map (\<lambda>v. if vl_name v = workdirVolume
     then v\<lparr>vl_source := EmptyDirVolume\<rparr> else v) (js_volumes s)\<rparr>)"

section \<open>The worker\<close>

definition cleanupArgs :: "migration \<Rightarrow> string list" where
  "cleanupArgs m = (let slot = effectiveSlotName m
     in [''stream'', ''cleanup'', ''--dir'', WorkDir, ''--slot-name'', slot, ''--origin'', slot])"

definition publicationDropGuard :: "migration \<Rightarrow> int32 \<Rightarrow> setup_step list" where
  "publicationDropGuard m n = (case follow (spec m) of
       None \<Rightarrow> []
     | Some f \<Rightarrow>
         if sint n \<le> 1 \<or> \<not> followEnabled m \<or> fo_publication f \<noteq> [] then []
         else if fo_plugin f \<noteq> [] \<and> fo_plugin f \<noteq> ''pgoutput'' then []
         else [PublicationGuard (effectiveSlotName m)])"

definition all_databases_conflict :: "migration \<Rightarrow> string option" where
  "all_databases_conflict m =
     (if \<not> all_databases (clone (spec m)) then None
      else if drop_if_exists (clone (spec m)) then
        Some ''allDatabases cannot be combined with dropIfExists: the maintenance database cannot be dropped''
      else if followEnabled m then
        Some ''allDatabases cannot be combined with follow.enabled: pgcopydb ignores follow in this mode''
      else if (case verification (spec m) of None \<Rightarrow> False | Some v \<Rightarrow> vo_data v) then
        Some ''allDatabases cannot be combined with verification.data: pgcopydb produces no JSON verdict in this mode''
      else None)"

definition fresh_start :: "bool \<Rightarrow> migration \<Rightarrow> int32 \<Rightarrow> bool" where
  "fresh_start lost m n \<longleftrightarrow> n = 1 \<or> lost \<and> drop_if_exists (clone (spec m))"

definition buildJob :: "bool \<Rightarrow> migration \<Rightarrow> string \<Rightarrow> int32 \<Rightarrow> err + job" where
  "buildJob lost m runnerImage n = (case all_databases_conflict m of
       Some msg \<Rightarrow> Inl (ErrMsg msg)
     | None \<Rightarrow>
         (let fresh = fresh_start lost m n;
              args = CloneArgs (spec m) fresh (\<not> fresh) (\<not> fresh) @
                     FollowArgs (spec m) (m_namespace m) (m_name m);
              setup = (if fresh \<and> 1 < sint n then [RunPgcopydb (cleanupArgs m)] else []) @
                      publicationDropGuard m n
          in map_inr (\<lambda>j.
               (let j1 = upd_spec (\<lambda>s. s\<lparr>js_resources := EffectiveRunnerResources (rn_resources (runner (spec m)))\<rparr>) j
                in case follow (spec m) of
                     None \<Rightarrow> j1
                   | Some f \<Rightarrow> if followEnabled m \<and> 0 < sint (fo_apply_group_transactions f)
                              then add_env [literal_env ''PGCOPYDB_APPLY_GROUP_TXNS'' (itoa (fo_apply_group_transactions f))] j1
                              else j1))
               (jobSkeleton m runnerImage (worker_job_name m n) (Pgcopydb args) setup 0 True [])))"

section \<open>The control Jobs\<close>

definition buildCleanupJob :: "migration \<Rightarrow> string \<Rightarrow> err + job" where
  "buildCleanupJob m runnerImage =
     map_inr addConnectTimeout (jobSkeleton m runnerImage (cleanupJobName m) (Pgcopydb (cleanupArgs m)) [] 2 False [])"

definition buildVerifyJob :: "migration \<Rightarrow> string \<Rightarrow> string \<Rightarrow> err + job" where
  "buildVerifyJob m runnerImage progressGate =
     scriptJob m runnerImage (verifyJobName m) (VerifyScript (effectiveSlotName m) progressGate) False []"

definition buildCatalogJob :: "migration \<Rightarrow> string \<Rightarrow> string \<Rightarrow> err + job" where
  "buildCatalogJob m runnerImage progressGate =
     scriptJob m runnerImage (catalogJobName m) (CatalogScript progressGate) False []"

definition buildRehearsalJob :: "migration \<Rightarrow> string \<Rightarrow> int32 \<Rightarrow> err + job" where
  "buildRehearsalJob m runnerImage run =
     map_inr (\<lambda>j. add_env [literal_env ''PGOPTIONS'' ''-c client_connection_check_interval=10s'']
                (upd_spec (\<lambda>s. s\<lparr>js_backoff := 0, js_ttl := None\<rparr>) (scratch_workdir j)))
       (scriptJob m runnerImage (rehearsalJobName m run)
         (RehearsalScript ([''list'', ''tables'', ''--dir'', WorkDir] @ FiltersArgs (clone_filters (clone (spec m))))) False [])"

definition buildReownJob :: "migration \<Rightarrow> string \<Rightarrow> err + job" where
  "buildReownJob m runnerImage =
     map_inr (\<lambda>j. upd_spec (\<lambda>s. s\<lparr>js_backoff := 2, js_deadline := Some 1800, js_ttl := None\<rparr>)
                (add_env [literal_env ''REOWN_OWNER'' (owner_after_restore (clone (spec m)))] j))
       (scriptJob m runnerImage (reownJobName m) ReownScript False [])"

definition compareSchema :: string where "compareSchema = ''schema''"
definition compareData :: string where "compareData = ''data''"

definition CompareSchemaArgs :: "bool \<Rightarrow> string list" where
  "CompareSchemaArgs allDatabases =
     [''compare'', ''schema'', flagDir, WorkDir] @ (if allDatabases then [''--all-databases''] else [])"

definition buildCompareJob :: "migration \<Rightarrow> string \<Rightarrow> string \<Rightarrow> err + job" where
  "buildCompareJob m runnerImage check =
     (if check = compareData then
        (if all_databases (clone (spec m))
         then Inl (ErrMsg ''allDatabases cannot be combined with verification.data: pgcopydb produces no JSON verdict in this mode'')
         else scriptJob m runnerImage (compareJobName m check) CompareDataScript False [])
      else map_inr addConnectTimeout
             (jobSkeleton m runnerImage (compareJobName m check)
               (Pgcopydb (CompareSchemaArgs (all_databases (clone (spec m))))) [] 1 False []))"

section \<open>The retry gate's probe\<close>

definition gateProbeCaps :: "(string \<times> quantity) list" where
  "gateProbeCaps = [(resource_cpu, \<lparr>q_value = 1, q_milli = 100\<rparr>),
     (resource_memory, \<lparr>q_value = 134217728, q_milli = 134217728000\<rparr>)]"

definition cap_list :: "resource_list \<Rightarrow> resource_list" where
  "cap_list = map (\<lambda>(k, q). case map_of gateProbeCaps k of
       Some ceiling \<Rightarrow> if sint (q_milli ceiling) < sint (q_milli q) then (k, ceiling) else (k, q)
     | None \<Rightarrow> (k, q))"

definition capProbeResources :: "resource_requirements \<Rightarrow> resource_requirements" where
  "capProbeResources rr = \<lparr>rr_requests = map_option cap_list (rr_requests rr),
     rr_limits = map_option cap_list (rr_limits rr)\<rparr>"

definition gateInputs_of :: "bool \<Rightarrow> migration \<Rightarrow> gate_inputs" where
  "gateInputs_of done m =
     (let loc = pc_synchronous_commit (target (spec m)) = SynchronousCommitLocal
      in \<lparr>CommitTest = (\<not> loc \<or> done), ExpectLocal = loc\<rparr>)"

definition buildGateJob :: "bool \<Rightarrow> migration \<Rightarrow> string \<Rightarrow> int32 \<Rightarrow> err + job" where
  "buildGateJob done m runnerImage n =
     (let inp = gateInputs_of done m
      in map_inr (\<lambda>j. add_env [literal_env ''PGAPPNAME'' ''pgm-retry-gate'',
                              literal_env ''GATE_COMMIT_TEST'' (gateFlag (CommitTest inp)),
                              literal_env ''GATE_EXPECT_LOCAL'' (gateFlag (ExpectLocal inp))]
                   ((upd_spec (\<lambda>s. s\<lparr>js_backoff := 0, js_deadline := Some 300, js_ttl := Some 600,
                        js_resources := capProbeResources (js_resources s)\<rparr>) (scratch_workdir j))
                     \<lparr>j_annotations := [(annotationRetryGateInputs, gate_inputs_string inp)]\<rparr>))
           (scriptJob m runnerImage (gateJobName m n) (GateScript (all_databases (clone (spec m)))) True []))"

section \<open>The preflight\<close>

text \<open>A filter entry as a schema and, for a table, its name; false when an entry did not map.\<close>

fun scopeEntries :: "string list \<Rightarrow> bool \<Rightarrow> (string \<times> string option) list \<times> bool" where
  "scopeEntries [] qualified = ([], True)"
| "scopeEntries (e # es) qualified =
     (let (out, ok) = scopeEntries es qualified;
          dot = cut e ''.''
      in if contains_any e [CHR ''~'', CHR 0x22] \<or> qualified \<and> dot = None \<or> \<not> qualified \<and> e \<noteq> to_lower e
         then (out, False)
         else (case (qualified, dot) of
             (True, Some (a, b)) \<Rightarrow> ((a, Some b) # out, ok)
           | _ \<Rightarrow> ((e, None) # out, ok)))"

record table_scope =
  sc_schemas :: "(string \<times> string option) list"
  sc_tables :: "(string \<times> string option) list"
  sc_publish :: "(string \<times> string option) list"
  sc_exclude :: "(string \<times> string option) list"
  sc_skipData :: "(string \<times> string option) list"

definition tableScope :: "filters option \<Rightarrow> table_scope" where
  "tableScope fo = (case fo of
       None \<Rightarrow> \<lparr>sc_schemas = [], sc_tables = [], sc_publish = [], sc_exclude = [], sc_skipData = []\<rparr>
     | Some f \<Rightarrow>
         (let (schemas, okS) = scopeEntries (f_include_only_schemas f) False;
              (tables, okT) = scopeEntries (f_include_only_tables f) True
          in \<lparr>sc_schemas = (if okS then schemas else []),
              sc_tables = (if okT then tables else []),
              sc_publish = (if okS \<and> okT \<and> tables \<noteq> [] then schemas @ tables else []),
              sc_exclude = fst (scopeEntries (f_exclude_schemas f) False) @ fst (scopeEntries (f_exclude_tables f) True),
              sc_skipData = fst (scopeEntries (f_exclude_table_data f) True)\<rparr>))"

definition scope_json :: "(string \<times> string option) list \<Rightarrow> json" where
  "scope_json = (\<lambda>es. JArr (map (\<lambda>(a, b). JArr [JStr a, case b of None \<Rightarrow> JNull | Some t \<Rightarrow> JStr t]) es))"

definition table_scope_json :: "table_scope \<Rightarrow> json" where
  "table_scope_json sc = JObj [(''schemas'', scope_json (sc_schemas sc)), (''tables'', scope_json (sc_tables sc)),
     (''publish'', scope_json (sc_publish sc)), (''exclude'', scope_json (sc_exclude sc)),
     (''skipData'', scope_json (sc_skipData sc))]"

definition publicSchema :: string where "publicSchema = ''public''"

fun probe_schemas :: "string list \<Rightarrow> string list \<Rightarrow> string list option" where
  "probe_schemas out [] = Some out"
| "probe_schemas out (t # ts) =
     (if has_prefix t ''~'' \<or> contains t [CHR 0x22] then None
      else
        (let s = (case cut t ''.'' of Some (before, _) \<Rightarrow> before | None \<Rightarrow> publicSchema)
         in probe_schemas (if s \<in> set out then out else out @ [s]) ts))"

definition probeSchemasFromTables :: "string list \<Rightarrow> string list option" where
  "probeSchemasFromTables tables = map_option sort (probe_schemas [] tables)"

text \<open>What opens the lines the outcome of a preflight is read from.\<close>

definition remPrefixFollow :: string where "remPrefixFollow = ''remediated: ''"
definition remPrefixClone :: string where "remPrefixClone = ''remediated-clone: ''"
definition wouldPrefixFollow :: string where "wouldPrefixFollow = ''would-remediate: ''"
definition wouldPrefixClone :: string where "wouldPrefixClone = ''would-remediate-clone: ''"
definition warnPrefix :: string where "warnPrefix = ''warn: ''"

definition targetConnectFailure :: "migration \<Rightarrow> string" where
  "targetConnectFailure m =
     ''preflight: cannot connect to the target database'' @
     (if pc_synchronous_commit (target (spec m)) \<noteq> SynchronousCommitLocal then []
      else '' (spec.target.synchronousCommit adds a libpq startup option, and a pooler that refuses startup options,'' @
           '' such as a PgBouncer without options in ignore_startup_parameters, refuses the connection)'')"

definition preflightPrelude :: "migration \<Rightarrow> preflight_block list" where
  "preflightPrelude m =
     [PreflightHeader, TargetConnect (targetConnectFailure m), PoolerBlock] @
     (if pc_synchronous_commit (target (spec m)) = SynchronousCommitLocal then [SyncCommitBlock] else []) @
     [TemporaryPrivilegeBlock] @
     (if defer_indexes (clone (spec m)) then [DeferIndexesBlock] else []) @
     (case preflight (spec m) of
        Some p \<Rightarrow> if pf_require_same_major_version p then [MajorVersionBlock, PreflightStopOnFailure] else []
      | None \<Rightarrow> [])"

definition skips :: "migration \<Rightarrow> string \<Rightarrow> bool" where
  "skips m what \<longleftrightarrow> what \<in> set (skip (clone (spec m)))"

definition preflightScriptFor :: "migration \<Rightarrow> preflight_block list" where
  "preflightScriptFor m =
     (let c = clone (spec m);
          superSrc = (pc_superuser_secret_ref (source (spec m)) \<noteq> None);
          superTgt = (pc_superuser_secret_ref (target (spec m)) \<noteq> None);
          dry = dryRun (spec m);
          when = (\<lambda>on (bs :: preflight_block list). if on then bs else [])
      in preflightPrelude m @ [RestoreMajorBlock] @
         (if all_databases c then
            [AllDatabasesPreflightBlock] @
            when (\<not> skips m ''extensions'') [ExtensionPreflightBlock True True False] @
            [PreflightScriptFooter]
          else
            when superSrc [SuperVerifyBlock Source dry] @
            when superTgt [SuperVerifyBlock Target dry] @
            when (\<not> skips m ''extensions'')
              (ExtensionPreflightBlock (drop_if_exists c) False False #
               when (drop_if_exists c \<or> \<not> no_comments c \<and> \<not> skips m ''extensionComments'')
                 [ExtensionPreflightBlock (drop_if_exists c) False True]) @
            when (reownRequested m) [OwnerAfterRestoreBlock superTgt dry] @
            [CloneRightsBlock superTgt (\<not> skips m ''dbProperties'') dry, RlsAuditBlock] @
            when (followEnabled m)
              ([WalLevelBlock, SlotHeadroomBlock, WalSenderTimeoutBlock, ReplicationAttrBlock superSrc dry,
                OriginGrantsBlock superTgt dry, SrrBlock superTgt dry, UnloggedAuditBlock, RiAuditBlock] @
               when (case follow (spec m) of Some f \<Rightarrow> fo_plugin f = PluginWal2json | None \<Rightarrow> False)
                 [PreflightWal2jsonNote]) @
            [PreflightScriptFooter]))"

definition superuser_extras :: "migration \<Rightarrow> materialized list" where
  "superuser_extras m =
     (if all_databases (clone (spec m)) then []
      else option_list (MaterializeSuperuser Source (source (spec m))) @
           option_list (MaterializeSuperuser Target (target (spec m))))"

definition extension_filters_json :: "filters option \<Rightarrow> json" where
  "extension_filters_json fo =
     JObj [(''include'', JArr (map JStr (case fo of None \<Rightarrow> [] | Some f \<Rightarrow> f_include_only_extensions f))),
           (''exclude'', JArr (map JStr (case fo of None \<Rightarrow> [] | Some f \<Rightarrow> f_exclude_extensions f)))]"

definition schema_include :: "filters \<Rightarrow> string list" where
  "schema_include f =
     (let include = f_include_only_schemas f
      in if f_include_only_tables f \<noteq> [] then
           (case probeSchemasFromTables (f_include_only_tables f) of
              Some derived \<Rightarrow> if include \<noteq> [] then filter (\<lambda>s. s \<in> set include) derived else derived
            | None \<Rightarrow> include)
         else include)"

definition preflight_env :: "migration \<Rightarrow> string \<Rightarrow> env_var list" where
  "preflight_env m runnerImage =
     (let c = clone (spec m); when = (\<lambda>on (es :: env_var list). if on then es else [])
      in when (\<not> skips m ''extensions'')
           [\<lparr>ev_name = ''PREFLIGHT_EXTENSION_FILTERS'', ev_value = EnvJson (extension_filters_json (clone_filters c))\<rparr>] @
         when (reownRequested m) [literal_env ''PREFLIGHT_OWNER_AFTER_RESTORE'' (owner_after_restore c)] @
         when (defer_indexes c) [literal_env ''PREFLIGHT_RUNNER_IMAGE'' (runnerImageFor m runnerImage)] @
         when (\<not> all_databases c)
           [\<lparr>ev_name = ''PREFLIGHT_TABLE_SCOPE'', ev_value = EnvJson (table_scope_json (tableScope (clone_filters c)))\<rparr>] @
         (case follow (spec m) of
            Some f \<Rightarrow> when (fo_allow_missing_replica_identity f \<noteq> [])
              [literal_env ''PREFLIGHT_ALLOW_MISSING_RI'' (join (fo_allow_missing_replica_identity f) [newline])]
          | None \<Rightarrow> []) @
         (case clone_filters c of
            Some f \<Rightarrow>
              when (schema_include f \<noteq> []) [literal_env ''PREFLIGHT_SCHEMA_INCLUDE'' (join (schema_include f) [newline])] @
              when (f_exclude_schemas f \<noteq> []) [literal_env ''PREFLIGHT_SCHEMA_EXCLUDE'' (join (f_exclude_schemas f) [newline])]
          | None \<Rightarrow> []))"

definition buildPreflightJob :: "migration \<Rightarrow> string \<Rightarrow> err + job" where
  "buildPreflightJob m runnerImage =
     map_inr (\<lambda>j. upd_spec (\<lambda>s. s\<lparr>js_deadline := Some 1800, js_ttl := None\<rparr>)
                (add_env (preflight_env m runnerImage) (scratch_workdir j)))
       (scriptJob m runnerImage (preflightJobName m) (PreflightScript (preflightScriptFor m)) True (superuser_extras m))"

section \<open>What is built\<close>

lemma map_inr_Inr [simp]: "map_inr f r = Inr y \<longleftrightarrow> (\<exists>x. r = Inr x \<and> y = f x)"
  by (auto simp: map_inr_def split: sum.splits)

lemma map_inr_Inl [simp]: "map_inr f r = Inl e \<longleftrightarrow> r = Inl e"
  by (auto simp: map_inr_def split: sum.splits)

lemma upd_spec_fields [simp]:
  "j_name (upd_spec f j) = j_name j" "j_spec (upd_spec f j) = f (j_spec j)"
  "j_conditions (upd_spec f j) = j_conditions j" "j_annotations (upd_spec f j) = j_annotations j"
  by (simp_all add: upd_spec_def)

lemma add_env_fields [simp]:
  "j_name (add_env es j) = j_name j" "js_program (j_spec (add_env es j)) = js_program (j_spec j)"
  "js_setup (j_spec (add_env es j)) = js_setup (j_spec j)" "js_backoff (j_spec (add_env es j)) = js_backoff (j_spec j)"
  "js_env (j_spec (add_env es j)) = js_env (j_spec j) @ es" "js_preludes (j_spec (add_env es j)) = js_preludes (j_spec j)"
  "js_volumes (j_spec (add_env es j)) = js_volumes (j_spec j)"
  by (simp_all add: add_env_def)

lemma scratch_workdir_fields [simp]:
  "j_name (scratch_workdir j) = j_name j" "js_program (j_spec (scratch_workdir j)) = js_program (j_spec j)"
  "js_env (j_spec (scratch_workdir j)) = js_env (j_spec j)" "js_preludes (j_spec (scratch_workdir j)) = js_preludes (j_spec j)"
  by (simp_all add: scratch_workdir_def)

text \<open>A Job carries the name it was asked for.\<close>

lemma jobSkeleton_fields:
  assumes "jobSkeleton m img name prog st b sc extras = Inr j"
  shows "j_name j = name" "js_program (j_spec j) = prog" "js_setup (j_spec j) = st" "js_backoff (j_spec j) = b"
    "j_conditions j = []"
  using assms by (auto simp: jobSkeleton_def skeleton_job_def Let_def split: sum.splits)

lemma jobSkeleton_ok:
  "(\<exists>j. jobSkeleton m img name prog st b sc extras = Inr j) \<longleftrightarrow>
     connection_ok Source (source (spec m)) \<and>
     connection_ok Target (if sc then target (spec m) else (target (spec m))\<lparr>pc_synchronous_commit := []\<rparr>)"
  using Materialize_ok [of Source "source (spec m)"]
    Materialize_ok [of Target "if sc then target (spec m) else (target (spec m))\<lparr>pc_synchronous_commit := []\<rparr>"]
  by (auto simp: jobSkeleton_def split: sum.splits)

text \<open>What admission is to guarantee, and what Reconcile checks again through \<open>buildJob\<close>.\<close>

definition buildable :: "migration \<Rightarrow> bool" where
  "buildable m \<longleftrightarrow> all_databases_conflict m = None \<and>
     connection_ok Source (source (spec m)) \<and> connection_ok Target (target (spec m))"

lemma buildJob_ok: "(\<exists>j. buildJob lost m img n = Inr j) \<longleftrightarrow> buildable m"
proof (cases "all_databases_conflict m")
  case None
  then show ?thesis
    using jobSkeleton_ok [of m img "worker_job_name m n" _ _ 0 True "[]"]
    by (auto simp: buildJob_def buildable_def Let_def)
qed (simp add: buildJob_def buildable_def)

lemma connection_ok_no_sync: "connection_ok s c \<Longrightarrow> connection_ok s (c\<lparr>pc_synchronous_commit := []\<rparr>)"
  by (auto simp: connection_ok_def)

text \<open>Whatever the operator later builds for a buildable Migration can be built.\<close>

lemma control_jobs_ok:
  assumes "buildable m"
  shows "\<exists>j. buildCleanupJob m img = Inr j" and "\<exists>j. buildVerifyJob m img g = Inr j"
    and "\<exists>j. buildCatalogJob m img g = Inr j" and "\<exists>j. buildRehearsalJob m img k = Inr j"
    and "\<exists>j. buildReownJob m img = Inr j" and "\<exists>j. buildPreflightJob m img = Inr j"
    and "\<exists>j. buildGateJob d m img n = Inr j"
proof -
  have sk: "\<exists>j. jobSkeleton m img name prog st b sc extras = Inr j" for name prog st b sc extras
    using assms connection_ok_no_sync [of Target "target (spec m)"]
    by (auto simp: jobSkeleton_ok buildable_def)
  show "\<exists>j. buildCleanupJob m img = Inr j" "\<exists>j. buildVerifyJob m img g = Inr j"
    "\<exists>j. buildCatalogJob m img g = Inr j" "\<exists>j. buildRehearsalJob m img k = Inr j"
    "\<exists>j. buildReownJob m img = Inr j" "\<exists>j. buildPreflightJob m img = Inr j"
    "\<exists>j. buildGateJob d m img n = Inr j"
    using sk
    by (auto simp: buildCleanupJob_def buildVerifyJob_def buildCatalogJob_def buildRehearsalJob_def
        buildReownJob_def buildPreflightJob_def buildGateJob_def scriptJob_def Let_def)
qed

lemma buildCompareJob_ok:
  assumes "buildable m" and "check = compareData \<Longrightarrow> \<not> all_databases (clone (spec m))"
  shows "\<exists>j. buildCompareJob m img check = Inr j"
proof -
  have "\<exists>j. jobSkeleton m img name prog st b False extras = Inr j" for name prog st b extras
    using assms(1) connection_ok_no_sync [of Target "target (spec m)"]
    by (auto simp: jobSkeleton_ok buildable_def)
  then show ?thesis
    using assms(2) by (auto simp: buildCompareJob_def scriptJob_def)
qed

lemma built_names:
  "buildJob lost m img n = Inr j \<Longrightarrow> j_name j = worker_job_name m n"
  "buildCleanupJob m img = Inr j \<Longrightarrow> j_name j = cleanupJobName m"
  "buildVerifyJob m img g = Inr j \<Longrightarrow> j_name j = verifyJobName m"
  "buildCatalogJob m img g = Inr j \<Longrightarrow> j_name j = catalogJobName m"
  "buildRehearsalJob m img n = Inr j \<Longrightarrow> j_name j = rehearsalJobName m n"
  "buildReownJob m img = Inr j \<Longrightarrow> j_name j = reownJobName m"
  "buildPreflightJob m img = Inr j \<Longrightarrow> j_name j = preflightJobName m"
  "buildGateJob d m img n = Inr j \<Longrightarrow> j_name j = gateJobName m n"
  "buildCompareJob m img check = Inr j \<Longrightarrow> j_name j = compareJobName m check"
  by (auto simp: buildJob_def buildCleanupJob_def buildVerifyJob_def buildCatalogJob_def buildRehearsalJob_def
      buildReownJob_def buildPreflightJob_def buildGateJob_def buildCompareJob_def scriptJob_def
      addConnectTimeout_def Let_def jobSkeleton_fields split: option.splits if_splits)

text \<open>Attempt 1 restarts; a retry resumes, unless it starts over; never both, never neither.\<close>

lemma buildJob_args:
  assumes "buildJob lost m img n = Inr j"
  shows "js_program (j_spec j) = Pgcopydb (CloneArgs (spec m) (fresh_start lost m n) (\<not> fresh_start lost m n)
      (\<not> fresh_start lost m n) @ FollowArgs (spec m) (m_namespace m) (m_name m))"
    and "js_backoff (j_spec j) = 0"
  using assms
  by (auto simp: buildJob_def Let_def jobSkeleton_fields split: option.splits if_splits)

end
