(* ===== verification/Logs.thy ===== *)
theory Logs
  imports Json Api_Types
begin

text \<open>
  \<^verbatim>\<open>internal/pgcopydb/logs.go\<close>: how the operator reads a worker's log tail. A line is
  plain text or one JSON object; the classifiers look at the terminal window, the last 40
  lines that are not blank. \<^verbatim>\<open>time.Parse\<close> with RFC 3339 is modelled for the timestamp the
  kubelet puts before a line.

  The lemmas: the window is a suffix of the log and the classifiers depend on nothing else;
  a classifier returns a severe message of the window that it accepts, and the empty string
  only when there is none; the clone-done markers survive more log on either side; a schema
  drift needs both lines on one connection, in order.
\<close>

section \<open>Lines\<close>

record logEntry =
  Severity :: string
  Message :: string

text \<open>\<^verbatim>\<open>json.Unmarshal\<close> into \<^verbatim>\<open>logEntry\<close>; the empty struct and false on any error.\<close>

definition parseLogLine :: "string \<Rightarrow> logEntry option" where
  "parseLogLine line0 =
     (let line = trim_space line0
      in if \<not> has_prefix line ''{'' then None
         else (case json_parse line of
             Some (JObj ms) \<Rightarrow>
               (case (json_field ''error_severity'' dec_string [] ms,
                      json_field ''message'' dec_string [] ms) of
                  (Some sev, Some msg) \<Rightarrow> Some \<lparr>Severity = sev, Message = msg\<rparr>
                | _ \<Rightarrow> None)
           | _ \<Rightarrow> None))"

definition isErrorSeverity :: "string \<Rightarrow> bool" where
  "isErrorSeverity s \<longleftrightarrow> s \<in> {''ERROR'', ''FATAL'', ''CRITICAL'', ''PANIC''}"

definition permissionWindow :: nat where
  "permissionWindow = 40"

definition push_window :: "string list \<Rightarrow> string \<Rightarrow> string list" where
  "push_window window line0 =
     (let line = trim_space line0
      in if line = [] then window
         else let w = window @ [line]
              in if length w > permissionWindow then tl w else w)"

definition recentLogLines :: "string \<Rightarrow> string list" where
  "recentLogLines raw = foldl push_window [] (lines_of raw)"

definition severe_message :: "string \<Rightarrow> string option" where
  "severe_message line =
     (case parseLogLine line of
        Some e \<Rightarrow>
          if Message e = [] then None
          else if isErrorSeverity (Severity e) \<or> contains (Message e) ''FATAL:'' then Some (Message e)
          else None
      | None \<Rightarrow>
          if contains line ''ERROR:'' \<or> contains line ''FATAL:'' then Some line else None)"

definition recentSevereMessages :: "string \<Rightarrow> string list" where
  "recentSevereMessages raw = List.map_filter severe_message (recentLogLines raw)"

definition recentSevereLine :: "string \<Rightarrow> (string \<Rightarrow> bool) \<Rightarrow> string" where
  "recentSevereLine raw match =
     (case find match (recentSevereMessages raw) of None \<Rightarrow> [] | Some msg \<Rightarrow> msg)"

section \<open>The last error\<close>

definition pg_restore_prefix :: string where
  "pg_restore_prefix = ''pg_restore: error:''"

definition pgRestoreErrorLine :: "string \<Rightarrow> bool" where
  "pgRestoreErrorLine line \<longleftrightarrow>
     has_prefix line pg_restore_prefix \<and> contains (drop (length pg_restore_prefix) line) ''ERROR:''"

definition supervisorDeathLine :: "string \<Rightarrow> bool" where
  "supervisorDeathLine line \<longleftrightarrow>
     contains line ''Terminating all processes in our process group'' \<or>
     contains line ''clone process'' \<and> contains line ''has terminated''"

definition genericFailureSummary :: "string \<Rightarrow> bool" where
  "genericFailureSummary line \<longleftrightarrow>
     supervisorDeathLine line \<or>
     has_prefix line ''Failed to run pg_restore: exit code '' \<or>
     has_prefix line ''pg_restore: warning: errors ignored on restore:'' \<or>
     has_suffix line '', see above for details''"

definition last_severe :: "string \<Rightarrow> string \<Rightarrow> string" where
  "last_severe prev line = (case parseLogLine line of
       Some e \<Rightarrow> if Message e \<noteq> [] \<and> isErrorSeverity (Severity e) \<and> \<not> has_prefix (Message e) ''Command was:''
                then Message e else prev
     | None \<Rightarrow> prev)"

definition actionable_step :: "string \<Rightarrow> string \<Rightarrow> string" where
  "actionable_step actionable line =
     (let entry = parseLogLine line;
          msg = (case entry of None \<Rightarrow> line | Some e \<Rightarrow> Message e)
      in if pgRestoreErrorLine msg then msg
         else (case entry of
             None \<Rightarrow> actionable
           | Some e \<Rightarrow>
               if actionable \<noteq> [] \<and> msg \<noteq> [] \<and> isErrorSeverity (Severity e) \<and>
                  \<not> has_prefix msg ''Command was:'' \<and> \<not> genericFailureSummary msg
               then msg else actionable))"

definition LastErrorLine :: "string \<Rightarrow> string" where
  "LastErrorLine raw =
     (let final = foldl last_severe [] (lines_of raw);
          actionable = foldl actionable_step [] (recentLogLines raw)
      in if actionable \<noteq> [] then actionable else final)"

section \<open>Classifiers\<close>

definition PermissionDeniedLine :: "string \<Rightarrow> string" where
  "PermissionDeniedLine raw = recentSevereLine raw (\<lambda>msg.
     contains msg ''permission denied'' \<or> contains msg ''SQLSTATE 42501'' \<or>
     contains msg ''must be owner of extension'')"

definition serverErrorLine :: "string \<Rightarrow> bool" where
  "serverErrorLine msg \<longleftrightarrow>
     has_prefix msg ''[SOURCE '' \<or> has_prefix msg ''[TARGET '' \<or>
     contains msg ''ERROR:  '' \<or> contains msg ''FATAL:  ''"

definition DiskFullLine :: "string \<Rightarrow> string" where
  "DiskFullLine raw = recentSevereLine raw (\<lambda>msg.
     if serverErrorLine msg \<or> contains msg ''shared memory segment'' then False
     else contains msg ''No space left on device'' \<or> contains msg ''database or disk is full'')"

fun drift_scan :: "string \<Rightarrow> string \<Rightarrow> string list \<Rightarrow> string" where
  "drift_scan line conn [] = []"
| "drift_scan line conn (msg # msgs) =
     (case cut msg ''] '' of
        None \<Rightarrow> drift_scan line conn msgs
      | Some (tag, rest) \<Rightarrow>
          if \<not> has_prefix tag ''[TARGET '' then drift_scan line conn msgs
          else if has_prefix rest ''[42703] '' then drift_scan msg tag msgs
          else if tag = conn \<and> rest = ''Context: Failed to receive pipeline sync'' then line
          else drift_scan line conn msgs)"

definition SchemaDriftLine :: "string \<Rightarrow> string" where
  "SchemaDriftLine raw = drift_scan [] [] (recentSevereMessages raw)"

definition SnapshotLostLine :: "string \<Rightarrow> string" where
  "SnapshotLostLine raw =
     recentSevereLine raw (\<lambda>msg. has_prefix msg ''Refusing to resume the copy: '')"

definition CloneDone :: "string \<Rightarrow> bool" where
  "CloneDone raw \<longleftrightarrow>
     contains raw ''Updating the pgcopydb.sentinel to enable applying changes'' \<or>
     contains raw ''All step are now done''"

section \<open>The supervisor's death\<close>

text \<open>\<^verbatim>\<open>time.Parse(time.RFC3339Nano, s)\<close>, its strict fast path and lenient fallback as one.\<close>

definition digits_exact :: "nat \<Rightarrow> string \<Rightarrow> (nat \<times> string) option" where
  "digits_exact n s =
     (if length (take n s) = n then map_option (\<lambda>v. (v, drop n s)) (parse_nat (take n s)) else None)"

definition hour_digits :: "string \<Rightarrow> (nat \<times> string) option" where
  "hour_digits s = (case digits_exact 2 s of Some r \<Rightarrow> Some r | None \<Rightarrow> digits_exact 1 s)"

definition expect :: "char \<Rightarrow> string \<Rightarrow> string option" where
  "expect c s = (case s of x # xs \<Rightarrow> if x = c then Some xs else None | [] \<Rightarrow> None)"

definition fraction :: "string \<Rightarrow> nat \<times> string" where
  "fraction s = (case s of
       c # cs \<Rightarrow>
         (let ds = takeWhile (\<lambda>d. digit_val d \<noteq> None) cs
          in if c \<in> {CHR ''.'', CHR '',''} \<and> ds \<noteq> []
             then (the (parse_nat (take 9 (ds @ replicate 9 CHR ''0''))), drop (length ds) cs)
             else (0, s))
     | [] \<Rightarrow> (0, s))"

definition zone_offset :: "string \<Rightarrow> int option" where
  "zone_offset s =
     (if s = ''Z'' then Some 0
      else (case s of
          sign # rest \<Rightarrow>
            if sign \<in> {CHR ''+'', CHR ''-''} then
              (case digits_exact 2 rest of
                 None \<Rightarrow> None
               | Some (h, r1) \<Rightarrow> (case expect CHR '':'' r1 of
                   None \<Rightarrow> None
                 | Some r2 \<Rightarrow> (case digits_exact 2 r2 of
                     Some (m, []) \<Rightarrow>
                       if h \<le> 24 \<and> m \<le> 60
                       then Some ((if sign = CHR ''-'' then - 1 else 1) * int (h * 3600 + m * 60)) else None
                   | _ \<Rightarrow> None)))
            else None
        | [] \<Rightarrow> None))"

definition leap_year :: "nat \<Rightarrow> bool" where
  "leap_year y \<longleftrightarrow> y mod 4 = 0 \<and> (y mod 100 \<noteq> 0 \<or> y mod 400 = 0)"

definition month_days :: "nat \<Rightarrow> nat \<Rightarrow> nat" where
  "month_days y mon = (if mon = 2 then (if leap_year y then 29 else 28)
     else if mon \<in> {4, 6, 9, 11} then 30 else 31)"

text \<open>Days since 1970-01-01.\<close>

definition civil_days :: "nat \<Rightarrow> nat \<Rightarrow> nat \<Rightarrow> int" where
  "civil_days y mon d =
     (let p = int y - 1
      in 365 * p + p div 4 - p div 100 + p div 400 +
         int (\<Sum>k\<leftarrow>[1..<mon]. month_days y k) + int d - 1 - 719162)"

definition clock_part :: "string \<Rightarrow> (nat \<times> nat \<times> nat \<times> string) option" where
  "clock_part s = (case hour_digits s of
       None \<Rightarrow> None
     | Some (h, r1) \<Rightarrow> (case Option.bind (expect CHR '':'' r1) (digits_exact 2) of
         None \<Rightarrow> None
       | Some (mi, r2) \<Rightarrow> (case Option.bind (expect CHR '':'' r2) (digits_exact 2) of
           None \<Rightarrow> None
         | Some (sec, r3) \<Rightarrow>
             if h < 24 \<and> mi < 60 \<and> sec < 60 then Some (h, mi, sec, r3) else None)))"

definition date_part :: "string \<Rightarrow> (nat \<times> nat \<times> nat \<times> string) option" where
  "date_part s = (case digits_exact 4 s of
       None \<Rightarrow> None
     | Some (y, r1) \<Rightarrow> (case Option.bind (expect CHR ''-'' r1) (digits_exact 2) of
         None \<Rightarrow> None
       | Some (mon, r2) \<Rightarrow> (case Option.bind (expect CHR ''-'' r2) (digits_exact 2) of
           None \<Rightarrow> None
         | Some (d, r3) \<Rightarrow>
             if 1 \<le> mon \<and> mon \<le> 12 \<and> 1 \<le> d \<and> d \<le> month_days y mon then Some (y, mon, d, r3) else None)))"

definition parse_rfc3339 :: "string \<Rightarrow> time option" where
  "parse_rfc3339 s = (case date_part s of
       None \<Rightarrow> None
     | Some (y, mon, d, r1) \<Rightarrow> (case Option.bind (expect CHR ''T'' r1) clock_part of
         None \<Rightarrow> None
       | Some (h, mi, sec, r2) \<Rightarrow>
           (let (nsec, r3) = fraction r2
            in map_option
                 (\<lambda>off. (civil_days y mon d * 86400 + int (h * 3600 + mi * 60 + sec) - off) * second + int nsec)
                 (zone_offset r3))))"

definition death_time :: "string \<Rightarrow> time option" where
  "death_time line =
     (if \<not> supervisorDeathLine line then None
      else (case cut line '' '' of None \<Rightarrow> None | Some (ts, _) \<Rightarrow> parse_rfc3339 ts))"

fun first_death :: "string list \<Rightarrow> time option" where
  "first_death [] = None"
| "first_death (line # rest) = (case death_time line of Some t \<Rightarrow> Some t | None \<Rightarrow> first_death rest)"

definition SupervisorDeath :: "string \<Rightarrow> time option" where
  "SupervisorDeath raw = first_death (lines_of raw)"

lemma nine: "replicate 8 CHR ''0'' = ''00000000''"
  by code_simp

lemma parse_rfc3339_samples:
  "parse_rfc3339 ''1970-01-01T00:00:00Z'' = Some 0"
  "parse_rfc3339 ''2026-07-14T08:30:00.5+02:00'' = Some 1784010600500000000"
  "parse_rfc3339 ''2026-02-29T08:30:00Z'' = None"
  by (simp_all add: parse_rfc3339_def date_part_def clock_part_def hour_digits_def digits_exact_def
      expect_def fraction_def zone_offset_def civil_days_def month_days_def leap_year_def parse_nat_def
      digit_val_def second_def Let_def upt_conv_Cons nine)

section \<open>What the lemmas say\<close>

text \<open>The window is the last 40 lines, trimmed, that are not blank.\<close>

definition nonblank :: "string list \<Rightarrow> string list" where
  "nonblank ls = filter (\<lambda>l. l \<noteq> []) (map trim_space ls)"

definition terminal_window :: "string list \<Rightarrow> string list" where
  "terminal_window ls = drop (length ls - permissionWindow) ls"

lemma push_window_terminal:
  "push_window (terminal_window ls) l = terminal_window (ls @ nonblank [l])"
proof (cases "length ls < permissionWindow")
  case True
  then show ?thesis by (simp add: push_window_def terminal_window_def nonblank_def Let_def)
next
  case False
  then have "drop (length ls - permissionWindow) ls \<noteq> []"
    and "length (drop (length ls - permissionWindow) ls) = permissionWindow"
    by (simp_all add: permissionWindow_def)
  moreover have "tl (drop (length ls - permissionWindow) ls) = drop (Suc (length ls) - permissionWindow) ls"
    using False by (simp add: tl_drop drop_Suc Suc_diff_le)
  ultimately show ?thesis
    using False by (simp add: push_window_def terminal_window_def nonblank_def Let_def)
qed

lemma nonblank_Cons: "nonblank (l # ls) = nonblank [l] @ nonblank ls"
  by (simp add: nonblank_def)

lemma foldl_push_window:
  "foldl push_window (terminal_window pre) ls = terminal_window (pre @ nonblank ls)"
proof (induction ls arbitrary: pre)
  case (Cons l ls)
  show ?case
    using Cons.IH [of "pre @ nonblank [l]"]
    by (simp only: foldl_Cons push_window_terminal nonblank_Cons [of l ls] append_assoc)
qed (simp add: nonblank_def)

lemma recentLogLines_window: "recentLogLines raw = terminal_window (nonblank (lines_of raw))"
  using foldl_push_window [of "[]" "lines_of raw"]
  by (simp add: recentLogLines_def terminal_window_def)

lemma recentLogLines_nonblank: "l \<in> set (recentLogLines raw) \<Longrightarrow> l \<noteq> []"
  by (auto simp: recentLogLines_window terminal_window_def nonblank_def dest: in_set_dropD)

lemma severe_message_nonempty: "severe_message line = Some msg \<Longrightarrow> line \<noteq> [] \<Longrightarrow> msg \<noteq> []"
  unfolding severe_message_def by (auto split: option.splits if_splits)

lemma recentSevereMessages_nonempty: "msg \<in> set (recentSevereMessages raw) \<Longrightarrow> msg \<noteq> []"
proof -
  assume "msg \<in> set (recentSevereMessages raw)"
  then obtain line where "line \<in> set (recentLogLines raw)" "severe_message line = Some msg"
    unfolding recentSevereMessages_def by (auto simp: List.map_filter_def)
  then show ?thesis using severe_message_nonempty recentLogLines_nonblank by blast
qed

lemma recentSevereLine_empty_iff:
  "recentSevereLine raw match = [] \<longleftrightarrow> (\<forall>msg \<in> set (recentSevereMessages raw). \<not> match msg)"
proof (cases "find match (recentSevereMessages raw)")
  case None
  then show ?thesis by (simp add: recentSevereLine_def) (auto simp: find_None_iff)
next
  case (Some msg)
  then have "msg \<in> set (recentSevereMessages raw)" and "match msg"
    by (auto simp: find_Some_iff)
  with Some show ?thesis
    using recentSevereMessages_nonempty by (auto simp: recentSevereLine_def)
qed

lemma recentSevereLine_found:
  "recentSevereLine raw match = msg \<Longrightarrow> msg \<noteq> [] \<Longrightarrow>
   msg \<in> set (recentSevereMessages raw) \<and> match msg"
  by (auto simp: recentSevereLine_def find_Some_iff split: option.splits)

text \<open>Logs with the same terminal window are classified alike.\<close>

lemma recentSevereMessages_window:
  "recentLogLines raw = recentLogLines raw' \<Longrightarrow> recentSevereMessages raw = recentSevereMessages raw'"
  by (simp add: recentSevereMessages_def)

lemma contains_infix: "contains s sub \<Longrightarrow> contains (a @ s @ b) sub"
  by (auto simp: contains_iff) (metis append.assoc)

lemma CloneDone_infix: "CloneDone raw \<Longrightarrow> CloneDone (before @ raw @ after)"
  by (auto simp: CloneDone_def intro: contains_infix)

text \<open>A reported drift is two lines of one target connection, the drift line first.\<close>

definition drift_pair :: "string \<Rightarrow> string list \<Rightarrow> bool" where
  "drift_pair line msgs \<longleftrightarrow> (\<exists>i j tag rest. i < j \<and> j < length msgs \<and> msgs ! i = line \<and>
     has_prefix tag ''[TARGET '' \<and> cut line ''] '' = Some (tag, rest) \<and> has_prefix rest ''[42703] '' \<and>
     cut (msgs ! j) ''] '' = Some (tag, ''Context: Failed to receive pipeline sync''))"

lemma drift_pair_Cons: "drift_pair line msgs \<Longrightarrow> drift_pair line (m # msgs)"
  unfolding drift_pair_def by (metis Suc_less_eq length_Cons nth_Cons_Suc)

definition drift_first :: "string \<Rightarrow> string \<Rightarrow> bool" where
  "drift_first line tag \<longleftrightarrow> has_prefix tag ''[TARGET '' \<and>
     (\<exists>rest. cut line ''] '' = Some (tag, rest) \<and> has_prefix rest ''[42703] '')"

lemma drift_pair_hd:
  assumes "drift_first line tag" and "m \<in> set msgs"
    and "cut m ''] '' = Some (tag, ''Context: Failed to receive pipeline sync'')"
  shows "drift_pair line (line # msgs)"
proof -
  from assms(2) obtain j where "j < length msgs" "msgs ! j = m" by (auto simp: in_set_conv_nth)
  then have "0 < Suc j" "Suc j < length (line # msgs)" "(line # msgs) ! Suc j = m" "(line # msgs) ! 0 = line"
    by auto
  then show ?thesis
    unfolding drift_pair_def using assms(1,3) unfolding drift_first_def by metis
qed

lemma drift_scan_pair:
  assumes "drift_scan line conn msgs = found" and "found \<noteq> []"
    and "conn \<noteq> [] \<Longrightarrow> drift_first line conn"
  shows "drift_pair found msgs \<or>
    found = line \<and>
      (\<exists>m \<in> set msgs. conn \<noteq> [] \<and> cut m ''] '' = Some (conn, ''Context: Failed to receive pipeline sync''))"
  using assms
proof (induction line conn msgs rule: drift_scan.induct)
  case (2 line conn msg msgs)
  show ?case
  proof (cases "cut msg ''] ''")
    case None
    with 2 show ?thesis by (auto intro: drift_pair_Cons)
  next
    case (Some p)
    obtain tag rest where p: "p = (tag, rest)" by fastforce
    have nonempty: "tag \<noteq> []" if "has_prefix tag ''[TARGET ''" using that by (auto simp: has_prefix_def)
    consider (other) "\<not> has_prefix tag ''[TARGET ''"
      | (first) "has_prefix tag ''[TARGET ''" "has_prefix rest ''[42703] ''"
      | (second) "has_prefix tag ''[TARGET ''" "\<not> has_prefix rest ''[42703] ''" "tag = conn"
          "rest = ''Context: Failed to receive pipeline sync''"
      | (neither) "has_prefix tag ''[TARGET ''" "\<not> has_prefix rest ''[42703] ''"
          "\<not> (tag = conn \<and> rest = ''Context: Failed to receive pipeline sync'')"
      by blast
    then show ?thesis
    proof cases
      case other
      with 2 Some p show ?thesis by (auto intro: drift_pair_Cons)
    next
      case first
      with Some p have f: "drift_first msg tag" by (simp add: drift_first_def)
      have "drift_scan msg tag msgs = found" using "2.prems"(1) first Some p by simp
      then have "drift_pair found msgs \<or> found = msg \<and>
          (\<exists>m \<in> set msgs. tag \<noteq> [] \<and> cut m ''] '' = Some (tag, ''Context: Failed to receive pipeline sync''))"
        using "2.IH"(3) [OF Some p [symmetric]] first f "2.prems"(2) by simp
      then show ?thesis using f by (auto intro: drift_pair_Cons drift_pair_hd)
    next
      case second
      with 2 Some p nonempty show ?thesis by auto
    next
      case neither
      with 2 Some p show ?thesis by (auto intro: drift_pair_Cons)
    qed
  qed
qed simp

lemma SchemaDriftLine_pair:
  "SchemaDriftLine raw = line \<Longrightarrow> line \<noteq> [] \<Longrightarrow> drift_pair line (recentSevereMessages raw)"
  using drift_scan_pair [of "[]" "[]" "recentSevereMessages raw" line]
  by (auto simp: SchemaDriftLine_def)

definition disk_full_message :: "string \<Rightarrow> bool" where
  "disk_full_message msg \<longleftrightarrow> \<not> serverErrorLine msg \<and> \<not> contains msg ''shared memory segment'' \<and>
     (contains msg ''No space left on device'' \<or> contains msg ''database or disk is full'')"

lemma DiskFullLine_alt: "DiskFullLine raw = recentSevereLine raw disk_full_message"
  unfolding DiskFullLine_def
  by (rule arg_cong [where f = "recentSevereLine raw"]) (simp add: fun_eq_iff disk_full_message_def)

lemma DiskFullLine_not_server: "DiskFullLine raw = msg \<Longrightarrow> msg \<noteq> [] \<Longrightarrow> disk_full_message msg"
  unfolding DiskFullLine_alt by (metis recentSevereLine_found)

end
