(* ===== verification/Sentinel.thy ===== *)
theory Sentinel
  imports Api_Types
begin

text \<open>
  \<^verbatim>\<open>internal/sentinel/sentinel.go\<close>: write-ahead-log positions (LSNs) and the replication
  sample of a follow migration. \<open>ParseLSN\<close>, \<open>EndposSet\<close>, \<open>Lag\<close>, \<open>parseSample\<close> and
  \<open>ToStatus\<close> are translated here; the methods that execute commands in the worker pod
  (\<open>Read\<close>, \<open>SetEndposCurrent\<close>, \<open>NudgeEndpos\<close>) are in theory \<open>Worker_Exec\<close>.

  Positions are 64-bit words. The lemmas: what \<open>ParseLSN\<close> accepts and that it inverts
  PostgreSQL's printed form; that \<open>Lag\<close> is the exact byte distance when it is not
  negative; and that a published status carries only readable positions.
\<close>

section \<open>LSNs\<close>

definition ZeroLSN :: string where
  "ZeroLSN = ''0/0''"

definition lsnSet :: "string \<Rightarrow> bool" where
  "lsnSet lsn \<longleftrightarrow> lsn \<noteq> [] \<and> lsn \<noteq> ZeroLSN"

definition EndposSet :: "string \<Rightarrow> bool" where
  "EndposSet lsn \<longleftrightarrow> lsnSet lsn"

text \<open>\<^verbatim>\<open>strconv.ParseUint(s, 16, 32)\<close>: hexadecimal digits of either case, in range.\<close>

definition hex_val :: "char \<Rightarrow> nat option" where
  "hex_val c = (let n = of_char c :: nat in
     if 48 \<le> n \<and> n \<le> 57 then Some (n - 48)
     else if 97 \<le> n \<and> n \<le> 102 then Some (n - 87)
     else if 65 \<le> n \<and> n \<le> 70 then Some (n - 55)
     else None)"

fun hexes_val :: "nat \<Rightarrow> string \<Rightarrow> nat option" where
  "hexes_val acc [] = Some acc"
| "hexes_val acc (c # cs) =
     (case hex_val c of None \<Rightarrow> None | Some d \<Rightarrow> hexes_val (16 * acc + d) cs)"

definition parse_uint32_hex :: "string \<Rightarrow> nat option" where
  "parse_uint32_hex s =
     (if s = [] then None
      else case hexes_val 0 s of
             Some n \<Rightarrow> if n < 2 ^ 32 then Some n else None
           | None \<Rightarrow> None)"

definition ParseLSN :: "string \<Rightarrow> uint64 option" where
  "ParseLSN lsn = (case cut (trim_space lsn) ''/'' of
       None \<Rightarrow> None
     | Some (hi, lo) \<Rightarrow>
         (case parse_uint32_hex hi of
            None \<Rightarrow> None
          | Some h \<Rightarrow>
              (case parse_uint32_hex lo of
                 None \<Rightarrow> None
               | Some l \<Rightarrow> Some (or (push_bit 32 (of_nat h)) (of_nat l)))))"

section \<open>Samples\<close>

record state =
  WriteLSN :: string
  ReplayLSN :: string
  Endpos :: string
  SourceHead :: string

text \<open>\<^verbatim>\<open>int64(head - replay)\<close> reinterprets the 64 bits, so it is negative from \<open>2 ^ 63\<close> on.\<close>

definition Lag :: "state \<Rightarrow> int64" where
  "Lag s = (case (ParseLSN (SourceHead s), ParseLSN (ReplayLSN s)) of
       (Some head, Some replay) \<Rightarrow> if head < replay then - 1 else head - replay
     | _ \<Rightarrow> - 1)"

text \<open>One labelled field of the script's output; a field that is no LSN is ignored.\<close>

definition sample_field :: "(string \<rightharpoonup> string) \<Rightarrow> string \<Rightarrow> (string \<rightharpoonup> string)" where
  "sample_field vals field = (case cut field ''='' of
       None \<Rightarrow> vals
     | Some (k, v) \<Rightarrow> (case ParseLSN v of None \<Rightarrow> vals | Some _ \<Rightarrow> vals(k \<mapsto> v)))"

definition str_or_empty :: "string option \<Rightarrow> string" where
  "str_or_empty v = (case v of None \<Rightarrow> [] | Some s \<Rightarrow> s)"

definition parseSample :: "string \<Rightarrow> state option" where
  "parseSample out =
     (let vals = foldl sample_field Map.empty (go_fields out);
          val = (\<lambda>k. str_or_empty (vals k))
      in if val ''write_lsn'' = [] then None
         else Some \<lparr>WriteLSN = val ''write_lsn'', ReplayLSN = val ''replay_lsn'',
                    Endpos = [], SourceHead = val ''source_head''\<rparr>)"

definition ToStatus :: "state \<Rightarrow> string \<Rightarrow> replication_status" where
  "ToStatus s slotName =
     \<lparr>rs_slotName = slotName,
      rs_writeLSN = (if lsnSet (WriteLSN s) then WriteLSN s else []),
      rs_replayLSN = (if lsnSet (ReplayLSN s) then ReplayLSN s else []),
      rs_endpos = (if lsnSet (Endpos s) then Endpos s else []),
      rs_lagBytes = (if sint (Lag s) \<ge> 0 then Some (Lag s) else None)\<rparr>"

section \<open>Positions: parsing and printing\<close>

text \<open>
  PostgreSQL prints a position as two hexadecimal halves (\<^verbatim>\<open>%X/%X\<close>). This printer is the
  reference the parser is measured against; the operator has none.
\<close>

definition hex_char :: "nat \<Rightarrow> char" where
  "hex_char d = char_of (if d < 10 then 48 + d else 55 + d)"

fun show_hex :: "nat \<Rightarrow> string" where
  "show_hex n = (if n < 16 then [hex_char n] else show_hex (n div 16) @ [hex_char (n mod 16)])"

declare show_hex.simps [simp del]

definition show_lsn :: "uint64 \<Rightarrow> string" where
  "show_lsn x = show_hex (unat x div 2 ^ 32) @ ''/'' @ show_hex (unat x mod 2 ^ 32)"

lemma hex_val_hex_char: "d < 16 \<Longrightarrow> hex_val (hex_char d) = Some d"
  by (auto simp: hex_val_def hex_char_def Let_def)

lemma hexes_val_append:
  "hexes_val acc (xs @ ys) =
     (case hexes_val acc xs of None \<Rightarrow> None | Some a \<Rightarrow> hexes_val a ys)"
  by (induction xs arbitrary: acc) (auto split: option.splits)

lemma hexes_val_show_hex: "hexes_val 0 (show_hex n) = Some n"
proof (induction n rule: show_hex.induct)
  case (1 n)
  show ?case
  proof (cases "n < 16")
    case True
    then show ?thesis by (simp add: show_hex.simps [of n] hex_val_hex_char)
  next
    case False
    with 1 have "hexes_val 0 (show_hex (n div 16)) = Some (n div 16)" by simp
    with False show ?thesis
      by (simp add: show_hex.simps [of n] hexes_val_append hex_val_hex_char)
  qed
qed

lemma show_hex_nonempty [simp]: "show_hex n \<noteq> []"
  by (subst show_hex.simps) simp

lemma parse_show_hex: "n < 2 ^ 32 \<Longrightarrow> parse_uint32_hex (show_hex n) = Some n"
  by (simp add: parse_uint32_hex_def hexes_val_show_hex)

lemma hex_char_range: "d < 16 \<Longrightarrow> hex_char d \<in> set ''0123456789ABCDEF''"
proof -
  assume "d < 16"
  then have "d \<in> set [0..<16]" by simp
  moreover have "\<forall>d \<in> set [0..<16]. hex_char d \<in> set ''0123456789ABCDEF''" by code_simp
  ultimately show ?thesis by blast
qed

lemma show_hex_range: "set (show_hex n) \<subseteq> set ''0123456789ABCDEF''"
proof (induction n rule: show_hex.induct)
  case (1 n)
  have "hex_char (n mod 16) \<in> set ''0123456789ABCDEF''" by (rule hex_char_range) simp
  then show ?case
    using 1 hex_char_range [of n] by (cases "n < 16") (simp_all add: show_hex.simps [of n] subset_iff)
qed

lemma cut_skip: "c \<notin> set xs \<Longrightarrow> cut (xs @ c # ys) [c] = Some (xs, ys)"
  by (induction xs) (auto simp: has_prefix_def)

lemma trim_space_id:
  assumes "\<forall>c \<in> set s. \<not> is_space c"
  shows "trim_space s = s"
proof -
  have "dropWhile is_space s = s"
    using assms by (cases s) auto
  moreover have "dropWhile is_space (rev s) = rev s"
    using assms by (cases "rev s") auto
  ultimately show ?thesis by (simp add: trim_space_def)
qed

lemma show_lsn_no_space: "\<forall>c \<in> set (show_lsn x). \<not> is_space c"
proof
  fix c
  assume "c \<in> set (show_lsn x)"
  then have "c \<in> set ''0123456789ABCDEF'' \<or> c = CHR ''/''"
    using show_hex_range by (fastforce simp: show_lsn_def)
  then show "\<not> is_space c" by (auto simp: is_space_def)
qed

lemma or_push_bit_halves:
  fixes x :: uint64
  shows "or (push_bit 32 (of_nat (unat x div 2 ^ 32))) (of_nat (unat x mod 2 ^ 32)) = x"
proof -
  have "of_nat (unat x div 2 ^ 32) = drop_bit 32 x"
    by (simp add: drop_bit_eq_div word_arith_nat_div)
  moreover have "of_nat (unat x mod 2 ^ 32) = take_bit 32 x"
    by (simp add: take_bit_eq_mod word_arith_nat_mod)
  ultimately show ?thesis
    by (simp, intro bit_word_eqI) (auto simp: bit_simps)
qed

lemma parse_show_lsn: "ParseLSN (show_lsn x) = Some x"
proof -
  let ?h = "unat x div 2 ^ 32" and ?l = "unat x mod 2 ^ 32"
  have "CHR ''/'' \<notin> set (show_hex ?h)"
    using show_hex_range [of ?h] by auto
  then have "cut (show_lsn x) ''/'' = Some (show_hex ?h, show_hex ?l)"
    using cut_skip [of "CHR ''/''" "show_hex ?h" "show_hex ?l"] by (simp add: show_lsn_def)
  then have "cut (trim_space (show_lsn x)) ''/'' = Some (show_hex ?h, show_hex ?l)"
    by (simp only: trim_space_id [OF show_lsn_no_space])
  moreover have "?h < 2 ^ 32"
    using unsigned_less [of x, where ?'a = nat] by (simp add: less_mult_imp_div_less)
  ultimately show ?thesis
    using or_push_bit_halves [of x] by (simp add: ParseLSN_def parse_show_hex)
qed

section \<open>Samples: what is published\<close>

lemma even_top_bit:
  fixes u :: int
  assumes "0 \<le> u" and "u < 2 ^ 64"
  shows "even (u div 2 ^ 63) \<longleftrightarrow> u < 2 ^ 63"
proof (cases "u < 2 ^ 63")
  case True
  with assms show ?thesis by simp
next
  case False
  with assms have "u div 2 ^ 63 = 1"
    using div_pos_geq [of "2 ^ 63" u] by simp
  with False show ?thesis by simp
qed

lemma Lag_cases:
  "sint (Lag s) \<ge> 0 \<longleftrightarrow>
     (\<exists>h r. ParseLSN (SourceHead s) = Some h \<and> ParseLSN (ReplayLSN s) = Some r \<and>
        r \<le> h \<and> uint h - uint r < 2 ^ 63)"
proof -
  have "0 \<le> sint (h - r) \<longleftrightarrow> uint h - uint r < 2 ^ 63" if "r \<le> h" for h r :: uint64
  proof -
    have u: "uint (h - r) = uint h - uint r"
      using that by (simp add: uint_minus_simple_alt word_le_def)
    have "0 \<le> sint (h - r) \<longleftrightarrow> uint (h - r) < 2 ^ 63"
      using even_top_bit [of "uint (h - r)"] unsigned_less [of "h - r", where ?'a = int]
      by (simp add: sint_uint bit_iff_odd)
    with u show ?thesis by simp
  qed
  then show ?thesis
    by (auto simp: Lag_def not_less split: option.splits)
qed

definition readable_or_empty :: "string \<Rightarrow> bool" where
  "readable_or_empty lsn \<longleftrightarrow> lsn = [] \<or> ParseLSN lsn \<noteq> None"

lemma sample_field_readable:
  assumes "\<And>k v. vals k = Some v \<Longrightarrow> ParseLSN v \<noteq> None"
    and "sample_field vals field k = Some v"
  shows "ParseLSN v \<noteq> None"
  using assms by (auto simp: sample_field_def split: option.splits if_splits)

lemma sample_fields_readable:
  assumes "\<And>k v. vals k = Some v \<Longrightarrow> ParseLSN v \<noteq> None"
    and "foldl sample_field vals fs k = Some v"
  shows "ParseLSN v \<noteq> None"
  using assms
proof (induction fs arbitrary: vals)
  case (Cons f fs)
  show ?case
    using Cons.IH [of "sample_field vals f"] Cons.prems sample_field_readable [of vals f] by fastforce
qed simp

lemma parseSample_readable:
  assumes "parseSample out = Some s"
  shows "ParseLSN (WriteLSN s) \<noteq> None \<and> readable_or_empty (ReplayLSN s) \<and>
     readable_or_empty (SourceHead s) \<and> Endpos s = []"
proof -
  let ?v = "foldl sample_field Map.empty (go_fields out)"
  have r: "readable_or_empty (str_or_empty (?v k))" for k
    using sample_fields_readable [of Map.empty "go_fields out" k]
    by (auto simp: readable_or_empty_def str_or_empty_def split: option.splits)
  show ?thesis
    using assms r [of "''write_lsn''"] r [of "''replay_lsn''"] r [of "''source_head''"]
    by (auto simp: parseSample_def Let_def readable_or_empty_def split: if_splits)
qed

end
