(* ===== verification/Progress_Sample.thy ===== *)
theory Progress_Sample
  imports Json Api_Types
begin

text \<open>
  \<^verbatim>\<open>internal/progress/progress.go\<close>: what the operator reads off the progress script's
  output, the version allowlist, and the log lines about a lost side. The poll itself is in theory
  \<open>Worker_Exec\<close>, the scripts are in \<open>Pod_Scripts\<close>.

  The lemmas: a sample misses a side exactly when it reports that side lost; the figures
  need both sides; no text that a server did not write leaves the parser; the clone stage is
  never both copying and finalizing.
\<close>

section \<open>The allowlist\<close>

definition version_char :: "char \<Rightarrow> bool" where
  "version_char c \<longleftrightarrow> (let n = of_char c :: nat in
     48 \<le> n \<and> n \<le> 57 \<or> 65 \<le> n \<and> n \<le> 90 \<or> 97 \<le> n \<and> n \<le> 122) \<or> c \<in> set ''._-''"

definition versionPattern :: "string \<Rightarrow> bool" where
  "versionPattern v \<longleftrightarrow> v \<noteq> [] \<and> list_all version_char v"

text \<open>\<open>NewFromExec\<close>: what remains of the configured versions.\<close>

definition allowed_versions :: "string list \<Rightarrow> string list" where
  "allowed_versions vs = filter versionPattern vs"

section \<open>Parsing a sample\<close>

definition withheldReason :: string where
  "withheldReason = ''psql failed with a client-side message, withheld because it can echo the connection URI''"

definition server_prefixes :: "string list" where
  "server_prefixes = [''ERROR:'', ''FATAL:'', ''psql: error: connection to server at '']"

definition serverReason :: "string \<Rightarrow> string" where
  "serverReason msg =
     (if list_ex (\<lambda>p. msg = [] \<or> has_prefix msg p) server_prefixes then msg else withheldReason)"

record relation_counts =
  TablesTotal :: int64
  TablesDone :: int64
  IndexesTotal :: int64
  IndexesDone :: int64
  BytesTotal :: int64
  BytesDone :: int64
  EmptyOnTarget :: string

record sync_rep_wait =
  Waiting :: int64
  OldestSeconds :: int64
  PgcopydbNamed :: int64

record progress_sample =
  SourceSize :: "int64 option"
  TargetSize :: "int64 option"
  Counts :: "relation_counts option"
  Copying :: bool
  Finalizing :: bool
  CopyStarted :: bool
  SyncRep :: "sync_rep_wait option"
  Lost :: "(string \<times> string) list"

definition sourceSide :: string where "sourceSide = ''source''"
definition targetSide :: string where "targetSide = ''target''"
definition syncRepKey :: string where "syncRepKey = ''syncrep''"

text \<open>A nil slice and an empty one have the same length, so \<open>[]\<close> stands for both.\<close>

definition parseFields :: "string \<Rightarrow> int64 list" where
  "parseFields s = (case those (map parse_int64 (go_fields s)) of None \<Rightarrow> [] | Some vs \<Rightarrow> vs)"

definition parseStage :: "string \<Rightarrow> bool \<times> bool \<times> bool" where
  "parseStage v = (case sscanf ''%d %d %d'' (trim_space v) of
       Some [Num nCopy, Num nOther, Num nWorkers] \<Rightarrow>
         (0 < sint nCopy, nCopy = 0 \<and> 0 < sint nOther, 0 < sint nCopy \<or> 0 < sint nWorkers)
     | _ \<Rightarrow> (False, False, False))"

record sample_lines =
  sl_src :: "int64 list"
  sl_tgt :: "int64 list"
  sl_syncRep :: "int64 list"
  sl_owed :: string
  sl_stage :: "bool \<times> bool \<times> bool"
  sl_reasons :: "string \<rightharpoonup> string"

definition no_lines :: sample_lines where
  "no_lines = \<lparr>sl_src = [], sl_tgt = [], sl_syncRep = [], sl_owed = [],
     sl_stage = (False, False, False), sl_reasons = Map.empty\<rparr>"

definition sample_line :: "sample_lines \<Rightarrow> string \<Rightarrow> sample_lines" where
  "sample_line acc line =
     (case cut_prefix line ''source='' of Some v \<Rightarrow> acc\<lparr>sl_src := parseFields v\<rparr> | None \<Rightarrow>
      case cut_prefix line ''target='' of Some v \<Rightarrow> acc\<lparr>sl_tgt := parseFields v\<rparr> | None \<Rightarrow>
      case cut_prefix line ''owed='' of Some v \<Rightarrow> acc\<lparr>sl_owed := trim_space v\<rparr> | None \<Rightarrow>
      case cut_prefix line ''stage='' of Some v \<Rightarrow> acc\<lparr>sl_stage := parseStage v\<rparr> | None \<Rightarrow>
      case cut_prefix line ''syncrep='' of Some v \<Rightarrow> acc\<lparr>sl_syncRep := parseFields v\<rparr> | None \<Rightarrow>
      case cut line ''_error='' of
        Some (side, v) \<Rightarrow> acc\<lparr>sl_reasons := (sl_reasons acc)(side \<mapsto> serverReason (trim_space v))\<rparr>
      | None \<Rightarrow> acc)"

text \<open>Reading a missing key of a Go map of strings.\<close>

definition reason_of :: "sample_lines \<Rightarrow> string \<Rightarrow> string" where
  "reason_of acc side = (case sl_reasons acc side of None \<Rightarrow> [] | Some v \<Rightarrow> v)"

definition sample_of_lines :: "sample_lines \<Rightarrow> progress_sample" where
  "sample_of_lines acc =
     (let src = sl_src acc; tgt = sl_tgt acc; sr = sl_syncRep acc;
          (copying, finalizing, started) = sl_stage acc;
          lost = (\<lambda>side ok. if ok then [] else [(side, reason_of acc side)])
      in \<lparr>SourceSize = (if length src = 6 then Some (src ! 0) else None),
          TargetSize = (if length tgt = 5 then Some (tgt ! 0) else None),
          Counts = (if length src = 6 \<and> length tgt = 5 \<and> 0 < sint (tgt ! 1)
                    then Some \<lparr>TablesTotal = src ! 1, TablesDone = src ! 1 - src ! 5,
                               IndexesTotal = src ! 3, IndexesDone = tgt ! 3,
                               BytesTotal = src ! 4, BytesDone = tgt ! 4,
                               EmptyOnTarget = sl_owed acc\<rparr>
                    else None),
          Copying = copying, Finalizing = finalizing, CopyStarted = started,
          SyncRep = (if length sr = 3
                     then Some \<lparr>Waiting = sr ! 0, OldestSeconds = sr ! 1, PgcopydbNamed = sr ! 2\<rparr>
                     else None),
          Lost = lost sourceSide (length src = 6) @ lost targetSide (length tgt = 5) @
                 lost syncRepKey (length sr = 3)\<rparr>)"

definition parseSample_progress :: "string \<Rightarrow> progress_sample" where
  "parseSample_progress out = sample_of_lines (foldl sample_line no_lines (split_on newline out))"

section \<open>Lost sides\<close>

text \<open>
  \<open>logLost\<close> for one side: the keys held and the lines logged, as (key, lost-or-back).
\<close>

definition log_side :: "string \<Rightarrow> (string \<times> string) list \<Rightarrow> string set \<times> (string \<times> bool) list \<Rightarrow> string \<Rightarrow>
    string set \<times> (string \<times> bool) list" where
  "log_side job lost st side =
     (let (held, out) = st;
          failed = map_of lost side \<noteq> None;
          key = job @ ''/'' @ side
      in if failed \<and> key \<notin> held then (insert key held, out @ [(key, True)])
         else if \<not> failed \<and> key \<in> held then (held - {key}, out @ [(key, False)])
         else (held, out))"

definition logLost :: "string \<Rightarrow> (string \<times> string) list \<Rightarrow> string set \<Rightarrow> string set \<times> (string \<times> bool) list" where
  "logLost job lost held = foldl (log_side job lost) (held, []) [sourceSide, targetSide, syncRepKey]"

section \<open>List progress\<close>

definition dec_counts :: "json \<Rightarrow> (int64 \<times> int64) option" where
  "dec_counts v = (case v of
       JObj ms \<Rightarrow> (case (json_field ''total'' dec_int64 0 ms, json_field ''done'' dec_int64 0 ms) of
           (Some t, Some d) \<Rightarrow> Some (t, d) | _ \<Rightarrow> None)
     | _ \<Rightarrow> None)"

definition ParseListProgress :: "string \<Rightarrow> err + clone_progress" where
  "ParseListProgress raw =
     (let members = (case json_parse raw of Some (JObj ms) \<Rightarrow> Some ms | Some JNull \<Rightarrow> Some [] | _ \<Rightarrow> None);
          fields3 = (case members of None \<Rightarrow> None
            | Some ms \<Rightarrow> (case (json_field ''tables'' dec_counts (0, 0) ms, json_field ''indexes'' dec_counts (0, 0) ms,
                              json_field ''bytes'' (\<lambda>v. map_option Some (dec_counts v)) None ms) of
                (Some t, Some i, Some b) \<Rightarrow> Some (t, i, b) | _ \<Rightarrow> None))
      in case fields3 of
           None \<Rightarrow> Inl (Wrapped ''parse list progress output'' (ErrMsg ''invalid JSON''))
         | Some ((tt, td), (xt, xd), b) \<Rightarrow>
             Inr \<lparr>cp_tablesTotal = tt, cp_tablesDone = td, cp_indexesTotal = xt, cp_indexesDone = xd,
                  cp_bytesTotal = map_option (\<lambda>(t, _). new_quantity t) b,
                  cp_bytesDone = map_option (\<lambda>(_, d). new_quantity d) b,
                  cp_observedAt = None\<rparr>)"

section \<open>What a sample says\<close>

lemma allowed_versions_pattern: "v \<in> set (allowed_versions vs) \<longleftrightarrow> v \<in> set vs \<and> versionPattern v"
  by (auto simp: allowed_versions_def)

definition withheld_or_server :: "string \<Rightarrow> bool" where
  "withheld_or_server msg \<longleftrightarrow>
     msg = [] \<or> msg = withheldReason \<or> list_ex (has_prefix msg) server_prefixes"

lemma serverReason_safe: "withheld_or_server (serverReason msg)"
  by (auto simp: serverReason_def withheld_or_server_def server_prefixes_def)

lemma sample_line_reasons:
  "(\<forall>side v. sl_reasons acc side = Some v \<longrightarrow> withheld_or_server v) \<Longrightarrow>
   sl_reasons (sample_line acc line) side = Some v \<Longrightarrow> withheld_or_server v"
  by (auto simp: sample_line_def serverReason_safe split: option.splits if_splits)

lemma sample_lines_reasons:
  "(\<forall>side v. sl_reasons acc side = Some v \<longrightarrow> withheld_or_server v) \<Longrightarrow>
   sl_reasons (foldl sample_line acc ls) side = Some v \<Longrightarrow> withheld_or_server v"
proof (induction ls arbitrary: acc)
  case (Cons l ls)
  then show ?case using sample_line_reasons [of acc l] by (metis foldl_Cons)
qed simp

lemma parseSample_lost_safe:
  assumes "(side, why) \<in> set (Lost (parseSample_progress out))"
  shows "withheld_or_server why"
proof -
  let ?acc = "foldl sample_line no_lines (split_on newline out)"
  have "withheld_or_server (reason_of ?acc s)" for s
    using sample_lines_reasons [of no_lines "split_on newline out" s]
    by (auto simp: reason_of_def no_lines_def withheld_or_server_def split: option.splits)
  then show ?thesis
    using assms by (auto simp: parseSample_progress_def sample_of_lines_def Let_def split: prod.splits if_splits)
qed

definition lost_side :: "progress_sample \<Rightarrow> string \<Rightarrow> bool" where
  "lost_side s side \<longleftrightarrow> side \<in> fst ` set (Lost s)"

lemma sides_distinct: "distinct [sourceSide, targetSide, syncRepKey]"
  by (simp add: sourceSide_def targetSide_def syncRepKey_def)

lemma parseSample_lost_iff:
  "lost_side (parseSample_progress out) sourceSide \<longleftrightarrow> SourceSize (parseSample_progress out) = None"
  "lost_side (parseSample_progress out) targetSide \<longleftrightarrow> TargetSize (parseSample_progress out) = None"
  "lost_side (parseSample_progress out) syncRepKey \<longleftrightarrow> SyncRep (parseSample_progress out) = None"
  using sides_distinct
  by (auto simp: parseSample_progress_def sample_of_lines_def lost_side_def Let_def split: prod.splits)

lemma parseStage_consistent:
  "parseStage v = (c, f, st) \<Longrightarrow> \<not> (c \<and> f) \<and> (c \<longrightarrow> st)"
  by (auto simp: parseStage_def split: option.splits list.splits scan_val.splits)

lemma sample_line_stage:
  "sl_stage acc = (c, f, st) \<Longrightarrow> \<not> (c \<and> f) \<and> (c \<longrightarrow> st) \<Longrightarrow>
   sl_stage (sample_line acc line) = (c', f', st') \<Longrightarrow> \<not> (c' \<and> f') \<and> (c' \<longrightarrow> st')"
  by (auto simp: sample_line_def split: option.splits dest: parseStage_consistent)

lemma sample_lines_stage:
  "sl_stage acc = (c, f, st) \<Longrightarrow> \<not> (c \<and> f) \<and> (c \<longrightarrow> st) \<Longrightarrow>
   sl_stage (foldl sample_line acc ls) = (c', f', st') \<Longrightarrow> \<not> (c' \<and> f') \<and> (c' \<longrightarrow> st')"
proof (induction ls arbitrary: acc c f st)
  case (Cons l ls)
  obtain a b d where "sl_stage (sample_line acc l) = (a, b, d)" by (metis prod_cases3)
  with Cons show ?case using sample_line_stage [of acc c f st l a b d] by (simp add: foldl_Cons)
qed simp

lemma parseSample_stage:
  "\<not> (Copying (parseSample_progress out) \<and> Finalizing (parseSample_progress out)) \<and>
   (Copying (parseSample_progress out) \<longrightarrow> CopyStarted (parseSample_progress out))"
proof -
  obtain c f st where "sl_stage (foldl sample_line no_lines (split_on newline out)) = (c, f, st)"
    by (metis prod_cases3)
  moreover from this have "\<not> (c \<and> f) \<and> (c \<longrightarrow> st)"
    using sample_lines_stage [of no_lines False False False] by (simp add: no_lines_def)
  ultimately show ?thesis
    by (simp add: parseSample_progress_def sample_of_lines_def Let_def)
qed

text \<open>Counts need both sides and a target with tables.\<close>

lemma parseSample_counts:
  "Counts (parseSample_progress out) = Some rc \<Longrightarrow>
   SourceSize (parseSample_progress out) \<noteq> None \<and> TargetSize (parseSample_progress out) \<noteq> None"
  by (auto simp: parseSample_progress_def sample_of_lines_def Let_def split: prod.splits if_splits)

text \<open>An outage is logged when it starts and when it ends, and not in between.\<close>

lemma log_side_step:
  "log_side job lost (held, out) side = (held', out') \<Longrightarrow>
     (let key = job @ ''/'' @ side; failed = map_of lost side \<noteq> None
      in (key \<in> held' \<longleftrightarrow> failed) \<and> held' - {key} = held - {key} \<and>
         out' = out @ (if failed = (key \<in> held) then [] else [(key, failed)]))"
  by (auto simp: log_side_def Let_def split: if_splits)

lemma log_side_other:
  "log_side job lost (held, out) side = (held', out') \<Longrightarrow> key \<noteq> job @ ''/'' @ side \<Longrightarrow>
   key \<in> held' \<longleftrightarrow> key \<in> held"
  by (auto simp: log_side_def Let_def split: if_splits)

lemma logLost_entries:
  assumes "logLost job lost held = (held', out)"
  shows "(key, starts) \<in> set out \<longleftrightarrow>
     (\<exists>side \<in> {sourceSide, targetSide, syncRepKey}. key = job @ ''/'' @ side \<and>
        starts = (map_of lost side \<noteq> None) \<and> starts \<noteq> (key \<in> held))"
proof -
  obtain h1 o1 where 1: "log_side job lost (held, []) sourceSide = (h1, o1)" by fastforce
  obtain h2 o2 where 2: "log_side job lost (h1, o1) targetSide = (h2, o2)" by fastforce
  have 3: "log_side job lost (h2, o2) syncRepKey = (held', out)"
    using assms 1 2 by (simp add: logLost_def)
  define k where "k side = job @ ''/'' @ side" for side
  have ne: "k targetSide \<noteq> k sourceSide" "k syncRepKey \<noteq> k sourceSide" "k syncRepKey \<noteq> k targetSide"
    using sides_distinct by (auto simp: k_def)
  note s1 = log_side_step [OF 1, folded k_def, unfolded Let_def]
  note s2 = log_side_step [OF 2, folded k_def, unfolded Let_def]
  note s3 = log_side_step [OF 3, folded k_def, unfolded Let_def]
  have h2: "k targetSide \<in> h1 \<longleftrightarrow> k targetSide \<in> held"
    using log_side_other [OF 1, folded k_def, OF ne(1)] .
  have h3: "k syncRepKey \<in> h2 \<longleftrightarrow> k syncRepKey \<in> held"
    using log_side_other [OF 1, folded k_def, OF ne(2)] log_side_other [OF 2, folded k_def, OF ne(3)] by blast
  have "out = (if (map_of lost sourceSide \<noteq> None) = (k sourceSide \<in> held) then []
          else [(k sourceSide, map_of lost sourceSide \<noteq> None)]) @
        (if (map_of lost targetSide \<noteq> None) = (k targetSide \<in> held) then []
          else [(k targetSide, map_of lost targetSide \<noteq> None)]) @
        (if (map_of lost syncRepKey \<noteq> None) = (k syncRepKey \<in> held) then []
          else [(k syncRepKey, map_of lost syncRepKey \<noteq> None)])"
    using conjunct2 [OF conjunct2 [OF s1]] conjunct2 [OF conjunct2 [OF s2]] conjunct2 [OF conjunct2 [OF s3]] h2 h3 by simp
  then show ?thesis
    unfolding k_def [symmetric] by (auto split: if_splits)
qed

end
