(* ===== verification/Metrics.thy ===== *)
theory Metrics
  imports Sentinel Progress_Sample
begin

text \<open>
  \<^verbatim>\<open>internal/metrics/metrics.go\<close>: the gauges of one Migration, as the list of calls the
  code makes on the Prometheus vectors. \<open>GSet\<close> is \<^verbatim>\<open>WithLabelValues(...).Set\<close>, \<open>GDelete\<close> is
  \<^verbatim>\<open>DeletePartialMatch\<close> (or \<^verbatim>\<open>DeleteLabelValues\<close>) on the namespace and name. Values keep the
  integer or duration the code converts to \<^verbatim>\<open>float64\<close>. \<^verbatim>\<open>meta.FindStatusCondition\<close> is a
  library call, the parameter \<open>find\<close>.

  \<open>standing\<close> is what those calls leave behind: the series that were set and not deleted
  since. The lemmas: one phase series at most, no frozen replication figure, no series at
  all after \<open>Forget\<close>.
\<close>

datatype gauge =
    phase_gauge | attempts_gauge | tablesDone_gauge | tablesTotal_gauge | indexesDone_gauge
  | indexesTotal_gauge | replicationLagBytes | verified_gauge | verifiedCheck
  | sourceDatabaseSizeBytes | targetDatabaseSizeBytes
  | syncRepWaitingSessions | syncRepOldestWaitSeconds
  | clonePlannedBytes | cloneCopiedBytes
  | sourceLSNBytes | writeLSNBytes | replayLSNBytes | endposLSNBytes
  | startTimeSeconds | completionTimeSeconds | conditionTransitionSeconds | info_gauge
  | verificationPlannedTables | verificationComparedTables | verificationPlannedBytes
  | verificationComparedBytes | verificationComparedRows | verificationDifferingTables
  | verificationFailedTables | verificationDurationSeconds | verificationTableElapsedSeconds

definition perMigration :: "gauge list" where
  "perMigration = [phase_gauge, attempts_gauge, tablesDone_gauge, tablesTotal_gauge,
     indexesDone_gauge, indexesTotal_gauge, replicationLagBytes, verified_gauge, verifiedCheck,
     sourceDatabaseSizeBytes, targetDatabaseSizeBytes, syncRepWaitingSessions,
     syncRepOldestWaitSeconds, clonePlannedBytes, cloneCopiedBytes, sourceLSNBytes,
     writeLSNBytes, replayLSNBytes, endposLSNBytes, startTimeSeconds, completionTimeSeconds,
     conditionTransitionSeconds, info_gauge, verificationPlannedTables,
     verificationComparedTables, verificationPlannedBytes, verificationComparedBytes,
     verificationComparedRows, verificationDifferingTables, verificationFailedTables,
     verificationDurationSeconds, verificationTableElapsedSeconds]"

datatype gauge_label =
    LPhase migration_phase | LCheck string | LCondition condition_type condition_status
  | LMode string | LKind progress_kind | LTable string

datatype gauge_value = Whole int | Nanos int | WholeSum int int

datatype gauge_call =
    GSet gauge string string "gauge_label list" gauge_value
  | GDelete gauge string string

section \<open>The calls\<close>

definition set_whole :: "gauge \<Rightarrow> migration \<Rightarrow> int \<Rightarrow> gauge_call" where
  "set_whole g m v = GSet g (m_namespace m) (m_name m) [] (Whole v)"

definition drop_gauge :: "migration \<Rightarrow> gauge \<Rightarrow> gauge_call" where
  "drop_gauge m g = GDelete g (m_namespace m) (m_name m)"

definition unix_seconds :: "time \<Rightarrow> int" where
  "unix_seconds t = t div second"

definition opt_calls :: "'a option \<Rightarrow> ('a \<Rightarrow> gauge_call list) \<Rightarrow> gauge_call list" where
  "opt_calls x f = (case x of None \<Rightarrow> [] | Some y \<Rightarrow> f y)"

definition samplingPhases :: "migration_phase \<Rightarrow> bool" where
  "samplingPhases p \<longleftrightarrow>
     p \<in> {PhaseCloning, PhaseFinalizing, PhaseStreaming, PhaseCutoverPending, PhaseCuttingOver}"

definition setLSN :: "gauge \<Rightarrow> migration \<Rightarrow> string \<Rightarrow> gauge_call list" where
  "setLSN g m lsn = opt_calls (ParseLSN lsn) (\<lambda>v. [set_whole g m (uint v)])"

definition replication_gauges :: "gauge list" where
  "replication_gauges =
     [replicationLagBytes, sourceLSNBytes, writeLSNBytes, replayLSNBytes, endposLSNBytes]"

definition recordReplication :: "migration \<Rightarrow> gauge_call list" where
  "recordReplication m = (case replication (status m) of
       None \<Rightarrow> map (drop_gauge m) replication_gauges
     | Some rs \<Rightarrow>
         if \<not> samplingPhases (phase (status m)) then map (drop_gauge m) replication_gauges
         else
           opt_calls (rs_lagBytes rs) (\<lambda>l. [set_whole replicationLagBytes m (sint l)]) @
           setLSN writeLSNBytes m (rs_writeLSN rs) @
           setLSN replayLSNBytes m (rs_replayLSN rs) @
           (if rs_endpos rs \<noteq> [] then setLSN endposLSNBytes m (rs_endpos rs) else []) @
           (case (rs_lagBytes rs, ParseLSN (rs_replayLSN rs)) of
              (Some l, Some v) \<Rightarrow>
                [GSet sourceLSNBytes (m_namespace m) (m_name m) [] (WholeSum (uint v) (sint l))]
            | _ \<Rightarrow> []))"

definition recordConditionTransitions :: "migration \<Rightarrow> gauge_call list" where
  "recordConditionTransitions m =
     drop_gauge m conditionTransitionSeconds #
     map (\<lambda>c. GSet conditionTransitionSeconds (m_namespace m) (m_name m)
                [LCondition (c_type c) (c_status c)] (Whole (unix_seconds (c_transition c))))
       (filter (\<lambda>c. c_transition c \<noteq> zero_time) (conditions (status m)))"

definition verification_gauges :: "gauge list" where
  "verification_gauges = [verificationPlannedTables, verificationComparedTables,
     verificationPlannedBytes, verificationComparedBytes, verificationComparedRows,
     verificationDifferingTables, verificationFailedTables, verificationDurationSeconds,
     verificationTableElapsedSeconds]"

definition recordVerificationItem :: "migration \<Rightarrow> verification_progress \<Rightarrow> gauge_call list" where
  "recordVerificationItem m p =
     (let set_v = (\<lambda>g v. GSet g (m_namespace m) (m_name m) [LKind (vp_kind p)] v)
      in [set_v verificationPlannedTables (Whole (sint (vp_plannedTables p))),
          set_v verificationComparedTables (Whole (sint (vp_comparedTables p))),
          set_v verificationComparedRows (Whole (sint (vp_comparedRows p))),
          set_v verificationDifferingTables (Whole (sint (vp_differingTables p))),
          set_v verificationFailedTables (Whole (sint (vp_failedTables p)))] @
         opt_calls (vp_plannedBytes p) (\<lambda>q. [set_v verificationPlannedBytes (Whole (sint (q_value q)))]) @
         opt_calls (vp_comparedBytes p) (\<lambda>q. [set_v verificationComparedBytes (Whole (sint (q_value q)))]) @
         opt_calls (vp_elapsed p) (\<lambda>d. [set_v verificationDurationSeconds (Nanos d)]) @
         concat (map (\<lambda>t. opt_calls (tp_elapsed t) (\<lambda>d.
             [GSet verificationTableElapsedSeconds (m_namespace m) (m_name m)
                [LKind (vp_kind p), LTable (tp_schema t @ ''.'' @ tp_name t)] (Nanos d)]))
           (vp_inFlight p)))"

definition recordVerificationProgress :: "migration \<Rightarrow> gauge_call list" where
  "recordVerificationProgress m =
     map (drop_gauge m) verification_gauges @
     concat (map (recordVerificationItem m) (verificationProgress (status m)))"

text \<open>\<^verbatim>\<open>results[check]\<close> after the loop over the results: the last one with that name.\<close>

definition check_result :: "migration \<Rightarrow> string \<Rightarrow> bool option" where
  "check_result m check =
     map_option vr_passed (find (\<lambda>v. vr_check v = check) (rev (verification_results (status m))))"

definition recordCheck :: "migration \<Rightarrow> string \<Rightarrow> bool \<Rightarrow> gauge_call list" where
  "recordCheck m check requested = (case check_result m check of
       Some passed \<Rightarrow>
         [GSet verifiedCheck (m_namespace m) (m_name m) [LCheck check] (Whole (if passed then 1 else 0))]
     | None \<Rightarrow>
         if \<not> requested
         then [GSet verifiedCheck (m_namespace m) (m_name m) [LCheck check] (Whole (- 1))]
         else [])"

definition recordVerified :: "(condition list \<Rightarrow> condition_type \<Rightarrow> condition option) \<Rightarrow> migration \<Rightarrow> gauge_call list" where
  "recordVerified find_cond m =
     (let drop_it = [drop_gauge m verified_gauge]
      in case find_cond (conditions (status m)) ConditionVerified of
           None \<Rightarrow> drop_it
         | Some c \<Rightarrow> (case c_status c of
             ConditionUnknown \<Rightarrow> drop_it
           | ConditionTrue \<Rightarrow> [set_whole verified_gauge m 1]
           | ConditionFalse \<Rightarrow> [set_whole verified_gauge m 0])) @
     [drop_gauge m verifiedCheck] @
     (let want_schema = (case verification (spec m) of None \<Rightarrow> False | Some v \<Rightarrow> vo_schema v);
          want_data = (case verification (spec m) of None \<Rightarrow> False | Some v \<Rightarrow> vo_data v)
      in recordCheck m ''schema'' want_schema @ recordCheck m ''data'' want_data)"

definition recordProgress :: "migration \<Rightarrow> gauge_call list" where
  "recordProgress m = opt_calls (progress (status m)) (\<lambda>p.
     [set_whole tablesDone_gauge m (sint (cp_tablesDone p)),
      set_whole tablesTotal_gauge m (sint (cp_tablesTotal p)),
      set_whole indexesDone_gauge m (sint (cp_indexesDone p)),
      set_whole indexesTotal_gauge m (sint (cp_indexesTotal p))] @
     opt_calls (cp_bytesTotal p) (\<lambda>q. [set_whole clonePlannedBytes m (sint (q_value q))]) @
     opt_calls (cp_bytesDone p) (\<lambda>q. [set_whole cloneCopiedBytes m (sint (q_value q))]))"

definition recordPhase :: "migration \<Rightarrow> gauge_call list" where
  "recordPhase m =
     drop_gauge m phase_gauge #
     (if phase (status m) \<noteq> PhaseUnset
      then [GSet phase_gauge (m_namespace m) (m_name m) [LPhase (phase (status m))] (Whole 1)] else [])"

definition recordTimesAndMode :: "migration \<Rightarrow> gauge_call list" where
  "recordTimesAndMode m =
     opt_calls (startedAt (status m)) (\<lambda>t. [set_whole startTimeSeconds m (unix_seconds t)]) @
     opt_calls (completedAt (status m)) (\<lambda>t. [set_whole completionTimeSeconds m (unix_seconds t)]) @
     [GSet info_gauge (m_namespace m) (m_name m)
        [LMode (case follow (spec m) of
                  Some f \<Rightarrow> if fo_enabled f then ''follow'' else ''clone'' | None \<Rightarrow> ''clone'')] (Whole 1)]"

definition Record :: "(condition list \<Rightarrow> condition_type \<Rightarrow> condition option) \<Rightarrow> migration \<Rightarrow> gauge_call list" where
  "Record find_cond m =
     recordPhase m @ [set_whole attempts_gauge m (sint (attempts (status m)))] @
     recordProgress m @ recordReplication m @ recordTimesAndMode m @
     recordConditionTransitions m @ recordVerificationProgress m @ recordVerified find_cond m"

definition RecordDatabaseSizes :: "string \<Rightarrow> string \<Rightarrow> int64 option \<Rightarrow> int64 option \<Rightarrow> gauge_call list" where
  "RecordDatabaseSizes ns name src tgt =
     opt_calls src (\<lambda>v. [GSet sourceDatabaseSizeBytes ns name [] (Whole (sint v))]) @
     opt_calls tgt (\<lambda>v. [GSet targetDatabaseSizeBytes ns name [] (Whole (sint v))])"

definition RecordSyncRepWaits :: "string \<Rightarrow> string \<Rightarrow> sync_rep_wait option \<Rightarrow> gauge_call list" where
  "RecordSyncRepWaits ns name w = (case w of
       None \<Rightarrow> [GDelete syncRepWaitingSessions ns name, GDelete syncRepOldestWaitSeconds ns name]
     | Some w \<Rightarrow> [GSet syncRepWaitingSessions ns name [] (Whole (sint (Waiting w))),
                 GSet syncRepOldestWaitSeconds ns name [] (Whole (sint (OldestSeconds w)))])"

definition Forget :: "string \<Rightarrow> string \<Rightarrow> gauge_call list" where
  "Forget ns name = map (\<lambda>g. GDelete g ns name) perMigration"

section \<open>The series left standing\<close>

type_synonym series = "gauge \<times> string \<times> string \<times> gauge_label list"

fun standing_step :: "series set \<Rightarrow> gauge_call \<Rightarrow> series set" where
  "standing_step S (GSet g ns name ls v) = insert (g, ns, name, ls) S"
| "standing_step S (GDelete g ns name) = {x \<in> S. \<not> (fst x = g \<and> fst (snd x) = ns \<and> fst (snd (snd x)) = name)}"

definition standing :: "series set \<Rightarrow> gauge_call list \<Rightarrow> series set" where
  "standing S calls = foldl standing_step S calls"

lemma standing_append: "standing S (xs @ ys) = standing (standing S xs) ys"
  by (simp add: standing_def)

lemma standing_simps [simp]:
  "standing S [] = S"
  "standing S (c # cs) = standing (standing_step S c) cs"
  by (simp_all add: standing_def)

lemma perMigration_all: "g \<in> set perMigration"
  by (cases g) (simp_all add: perMigration_def)

text \<open>The gauge a call writes or deletes.\<close>

fun call_gauge :: "gauge_call \<Rightarrow> gauge" where
  "call_gauge (GSet g ns name ls v) = g"
| "call_gauge (GDelete g ns name) = g"

definition touches :: "gauge_call list \<Rightarrow> gauge set" where
  "touches calls = call_gauge ` set calls"

lemma standing_untouched:
  "g \<notin> touches calls \<Longrightarrow> (g, l) \<in> standing S calls \<longleftrightarrow> (g, l) \<in> S"
proof (induction calls arbitrary: S)
  case (Cons c cs)
  then have "(g, l) \<in> standing_step S c \<longleftrightarrow> (g, l) \<in> S"
    by (cases c) (auto simp: touches_def)
  with Cons show ?case by (simp add: touches_def)
qed simp

lemma touches_append [simp]: "touches (xs @ ys) = touches xs \<union> touches ys"
  by (auto simp: touches_def)

lemma standing_deletes:
  "standing S (map (\<lambda>g. GDelete g ns name) gs) =
     {x \<in> S. \<not> (fst x \<in> set gs \<and> fst (snd x) = ns \<and> fst (snd (snd x)) = name)}"
  by (induction gs arbitrary: S) auto

lemma Forget_standing:
  "(g, ns', name', ls) \<in> standing S (Forget ns name) \<longleftrightarrow>
     (g, ns', name', ls) \<in> S \<and> (ns', name') \<noteq> (ns, name)"
  using perMigration_all [of g] by (auto simp: Forget_def standing_deletes)

lemma touches_Nil [simp]: "touches [] = {}"
  by (simp add: touches_def)

lemma touches_Cons [simp]: "touches (c # cs) = insert (call_gauge c) (touches cs)"
  by (auto simp: touches_def)

lemma touches_opt: "touches (opt_calls x f) \<subseteq> (case x of None \<Rightarrow> {} | Some y \<Rightarrow> touches (f y))"
  by (simp add: opt_calls_def split: option.splits)

lemma touches_opt_subset: "(\<And>y. touches (f y) \<subseteq> G) \<Longrightarrow> touches (opt_calls x f) \<subseteq> G"
  by (simp add: opt_calls_def split: option.splits)

lemma touches_concat_subset:
  "(\<And>y. y \<in> set ys \<Longrightarrow> touches (f y) \<subseteq> G) \<Longrightarrow> touches (concat (map f ys)) \<subseteq> G"
  by (induction ys) auto

lemma call_gauge_calls [simp]:
  "call_gauge (set_whole g m v) = g" "call_gauge (drop_gauge m g) = g"
  by (simp_all add: set_whole_def drop_gauge_def)

lemma touches_drops [simp]: "touches (map (drop_gauge m) gs) = set gs"
  by (induction gs) simp_all

lemma touches_recordProgress:
  "touches (recordProgress m) \<subseteq> {tablesDone_gauge, tablesTotal_gauge, indexesDone_gauge,
     indexesTotal_gauge, clonePlannedBytes, cloneCopiedBytes}"
  unfolding recordProgress_def
  by (intro touches_opt_subset, unfold touches_append, intro Un_least touches_opt_subset) simp_all

lemma touches_recordReplication: "touches (recordReplication m) \<subseteq> set replication_gauges"
  by (auto simp: recordReplication_def replication_gauges_def setLSN_def opt_calls_def
      split: option.splits if_splits)

lemma touches_recordTimesAndMode:
  "touches (recordTimesAndMode m) \<subseteq> {startTimeSeconds, completionTimeSeconds, info_gauge}"
  by (auto simp: recordTimesAndMode_def opt_calls_def split: option.splits)

lemma touches_recordConditionTransitions:
  "touches (recordConditionTransitions m) \<subseteq> {conditionTransitionSeconds}"
  by (auto simp: recordConditionTransitions_def touches_def)

lemma touches_recordVerificationItem:
  "touches (recordVerificationItem m p) \<subseteq> set verification_gauges"
  unfolding recordVerificationItem_def Let_def touches_append
  by (intro Un_least touches_opt_subset touches_concat_subset) (simp_all add: verification_gauges_def)

lemma touches_recordVerificationProgress:
  "touches (recordVerificationProgress m) \<subseteq> set verification_gauges"
  unfolding recordVerificationProgress_def touches_append
  by (intro Un_least touches_concat_subset touches_recordVerificationItem) simp

lemma touches_recordVerified: "touches (recordVerified fc m) \<subseteq> {verified_gauge, verifiedCheck}"
proof -
  have "touches (recordCheck m check req) \<subseteq> {verifiedCheck}" for check req
    by (auto simp: recordCheck_def split: option.splits)
  then show ?thesis
    unfolding recordVerified_def Let_def touches_append
    by (intro Un_least) (force split: option.splits condition_status.splits)+
qed

lemmas touches_parts = touches_recordProgress touches_recordReplication touches_recordTimesAndMode
  touches_recordConditionTransitions touches_recordVerificationProgress

lemma touches_Record_rest:
  "phase_gauge \<notin> touches ([set_whole attempts_gauge m a] @ recordProgress m @ recordReplication m @
     recordTimesAndMode m @ recordConditionTransitions m @ recordVerificationProgress m @ recordVerified fc m)"
  using touches_parts [of m] touches_recordVerified [of fc m]
  unfolding replication_gauges_def verification_gauges_def by auto

lemma Record_phase:
  "(phase_gauge, m_namespace m, m_name m, ls) \<in> standing S (Record fc m) \<longleftrightarrow>
     phase (status m) \<noteq> PhaseUnset \<and> ls = [LPhase (phase (status m))]"
proof -
  have "(phase_gauge, m_namespace m, m_name m, ls) \<in> standing S (Record fc m) \<longleftrightarrow>
      (phase_gauge, m_namespace m, m_name m, ls) \<in> standing S (recordPhase m)"
    unfolding Record_def standing_append [of S "recordPhase m"]
    by (rule standing_untouched [OF touches_Record_rest])
  then show ?thesis by (auto simp: recordPhase_def drop_gauge_def)
qed

lemma touches_replication_rest:
  "g \<in> set replication_gauges \<Longrightarrow>
   g \<notin> touches (recordTimesAndMode m @ recordConditionTransitions m @ recordVerificationProgress m @
     recordVerified fc m)"
  using touches_parts [of m] touches_recordVerified [of fc m]
  unfolding replication_gauges_def verification_gauges_def by auto

text \<open>Outside the sampling phases no replication figure stands.\<close>

lemma Record_replication_frozen:
  assumes "\<not> samplingPhases (phase (status m)) \<or> replication (status m) = None"
    and "g \<in> set replication_gauges"
  shows "(g, m_namespace m, m_name m, ls) \<notin> standing S (Record fc m)"
proof -
  let ?pre = "recordPhase m @ [set_whole attempts_gauge m (sint (attempts (status m)))] @ recordProgress m"
  have "(g, m_namespace m, m_name m, ls) \<in> standing S (Record fc m) \<longleftrightarrow>
      (g, m_namespace m, m_name m, ls) \<in> standing (standing S ?pre) (recordReplication m)"
    using standing_untouched [OF touches_replication_rest [OF assms(2), of m fc]]
    by (simp add: Record_def standing_append)
  moreover have "recordReplication m = map (\<lambda>g. GDelete g (m_namespace m) (m_name m)) replication_gauges"
    using assms(1) by (auto simp: recordReplication_def drop_gauge_def split: option.splits)
  ultimately show ?thesis using assms(2) by (simp add: standing_deletes)
qed

end
