(* ===== verification/Sampler.thy ===== *)
theory Sampler
  imports Metrics
begin

text \<open>
  \<^verbatim>\<open>internal/controller/sampler.go\<close> and the two SyncRep helpers of \<^verbatim>\<open>syncrep.go\<close>: one
  sampling goroutine (a run) per Migration, sharing its latest sample with the reconcile
  pass under a mutex.

  Every critical section is one operation on the state, so an execution of the goroutines is
  a list of \<open>sampler_op\<close>s in the order they take the mutex. A goroutine is known by its
  run's number: \<open>OpLoop\<close> is the critical section of \<^verbatim>\<open>loop\<close> after one call of
  \<^verbatim>\<open>Progress.Sample\<close>, which returns at once when the run's context is done (the run was
  stopped, or the sampler's own context was canceled). Gauge writes are appended to \<open>sp_gauges\<close>.

  The lemmas: the stored sample never steps back in time, a seen copy stays seen, a wait is
  confirmed exactly by two consecutive stored samples over the threshold, and once
  \<open>Stop\<close> has returned no gauge of the Migration is set until it is observed again.
\<close>

section \<open>SyncRep waits\<close>

definition syncRepThreshold :: duration where
  "syncRepThreshold = 30 * second"

definition syncRepOver :: "sync_rep_wait option \<Rightarrow> bool" where
  "syncRepOver w = (case w of None \<Rightarrow> False
    | Some w \<Rightarrow> 0 < sint (Waiting w) \<and> syncRepThreshold div second \<le> sint (OldestSeconds w))"

definition syncRepWait :: "progress_sample option \<Rightarrow> sync_rep_wait option" where
  "syncRepWait s = (case s of None \<Rightarrow> None | Some s \<Rightarrow> SyncRep s)"

section \<open>The state\<close>

definition copyPollInterval :: duration where
  "copyPollInterval = 5 * second"

record sampled =
  sm_sample :: "progress_sample option"
  sm_err :: "err option"
  sm_at :: time
  sm_copySeen :: bool
  sm_syncRepConfirmed :: bool

definition no_sampled :: sampled where
  "no_sampled = \<lparr>sm_sample = None, sm_err = None, sm_at = zero_time, sm_copySeen = False,
     sm_syncRepConfirmed = False\<rparr>"

record sampler_hint =
  sh_copyStarted :: bool
  sh_dataAcross :: bool

record sampler_run =
  run_id :: nat
  run_job :: string
  run_allDatabases :: bool
  run_hint :: sampler_hint
  run_last :: sampled
  run_copySeen :: bool
  run_syncRepOver :: bool

type_synonym mkey = "string \<times> string"

record sampler =
  sp_started :: bool
  sp_canceled :: bool
  sp_runs :: "mkey \<rightharpoonup> sampler_run"
  sp_next :: nat
  sp_gauges :: "gauge_call list"

definition NewSampler :: sampler where
  "NewSampler = \<lparr>sp_started = False, sp_canceled = False, sp_runs = Map.empty, sp_next = 0, sp_gauges = []\<rparr>"

definition emit_gauges :: "gauge_call list \<Rightarrow> sampler \<Rightarrow> sampler" where
  "emit_gauges calls s = s\<lparr>sp_gauges := sp_gauges s @ calls\<rparr>"

section \<open>Operations\<close>

definition recordSizes :: "mkey \<Rightarrow> progress_sample option \<Rightarrow> bool \<Rightarrow> gauge_call list" where
  "recordSizes key smp copyStarted = (case smp of
       None \<Rightarrow> []
     | Some s \<Rightarrow> RecordDatabaseSizes (fst key) (snd key) (SourceSize s)
                   (if copyStarted then TargetSize s else None))"

definition keepLocked :: "mkey \<Rightarrow> sampler_run \<Rightarrow> sampled \<Rightarrow> sampler_run \<times> sampled \<times> gauge_call list" where
  "keepLocked key run0 got0 =
     (let run = run0\<lparr>run_copySeen := run_copySeen run0 \<or> sm_copySeen got0\<rparr>;
          got = got0\<lparr>sm_copySeen := run_copySeen run\<rparr>
      in if sm_at got < sm_at (run_last run) then (run, got, [])
         else
           let w = syncRepWait (sm_sample got);
               over = syncRepOver w;
               got' = got\<lparr>sm_syncRepConfirmed := over \<and> run_syncRepOver run\<rparr>;
               run' = run\<lparr>run_syncRepOver := over, run_last := got'\<rparr>
           in (run', got',
               recordSizes key (sm_sample got') (sh_copyStarted (run_hint run') \<or> run_copySeen run') @
               RecordSyncRepWaits (fst key) (snd key) w))"

definition stopLocked :: "mkey \<Rightarrow> sampler \<Rightarrow> sampler" where
  "stopLocked key s =
     emit_gauges (RecordSyncRepWaits (fst key) (snd key) None) (s\<lparr>sp_runs := (sp_runs s)(key := None)\<rparr>)"

definition new_run :: "nat \<Rightarrow> string \<Rightarrow> bool \<Rightarrow> sampler_hint \<Rightarrow> sampler_run" where
  "new_run i job allDatabases hint = \<lparr>run_id = i, run_job = job, run_allDatabases = allDatabases,
     run_hint = hint, run_last = no_sampled, run_copySeen = False, run_syncRepOver = False\<rparr>"

definition Observe :: "mkey \<Rightarrow> string \<Rightarrow> bool \<Rightarrow> sampler_hint \<Rightarrow> sampler \<Rightarrow> sampled option \<times> sampler" where
  "Observe key job allDatabases hint s =
     (if \<not> sp_started s then (None, s)
      else
        let s1 = (case sp_runs s key of
                    Some run \<Rightarrow> if run_job run \<noteq> job \<or> run_allDatabases run \<noteq> allDatabases
                                then stopLocked key s else s
                  | None \<Rightarrow> s)
        in case sp_runs s1 key of
             Some run \<Rightarrow>
               (Some ((run_last run)\<lparr>sm_copySeen := run_copySeen run\<rparr>),
                s1\<lparr>sp_runs := (sp_runs s1)(key \<mapsto> run\<lparr>run_hint := hint\<rparr>)\<rparr>)
           | None \<Rightarrow>
               (Some no_sampled,
                s1\<lparr>sp_runs := (sp_runs s1)(key \<mapsto> new_run (sp_next s1) job allDatabases hint),
                   sp_next := Suc (sp_next s1)\<rparr>))"

definition fresh_sampled :: "progress_sample option \<Rightarrow> err option \<Rightarrow> time \<Rightarrow> sampled" where
  "fresh_sampled smp e at = \<lparr>sm_sample = smp, sm_err = e, sm_at = at,
     sm_copySeen = (case smp of None \<Rightarrow> False | Some s \<Rightarrow> CopyStarted s), sm_syncRepConfirmed = False\<rparr>"

text \<open>\<open>SampleNow\<close> after its sample was taken, under the mutex.\<close>

definition SampleNow :: "mkey \<Rightarrow> string \<Rightarrow> sampled \<Rightarrow> sampler \<Rightarrow> sampled \<times> sampler" where
  "SampleNow key job got s = (case sp_runs s key of
       Some run \<Rightarrow>
         if run_job run = job
         then (case keepLocked key run got of (run', got', calls) \<Rightarrow>
                 (got', emit_gauges calls (s\<lparr>sp_runs := (sp_runs s)(key \<mapsto> run')\<rparr>)))
         else (got, s)
     | None \<Rightarrow> (got, s))"

definition loop_iteration :: "mkey \<Rightarrow> nat \<Rightarrow> sampled \<Rightarrow> sampler \<Rightarrow> sampler" where
  "loop_iteration key i got s =
     (if sp_canceled s then s
      else case sp_runs s key of
          Some run \<Rightarrow>
            if run_id run = i
            then (case keepLocked key run got of (run', got', calls) \<Rightarrow>
                    emit_gauges calls (s\<lparr>sp_runs := (sp_runs s)(key \<mapsto> run')\<rparr>))
            else s
        | None \<Rightarrow> s)"

text \<open>The wait after an iteration: measured from the start of the sample.\<close>

definition loop_period :: "sampler_hint \<Rightarrow> duration \<Rightarrow> duration" where
  "loop_period hint pollInterval = (if sh_dataAcross hint then pollInterval else copyPollInterval)"

definition start_sampler :: "sampler \<Rightarrow> sampler" where
  "start_sampler s = s\<lparr>sp_started := True, sp_canceled := False\<rparr>"

definition finish_start :: "mkey list \<Rightarrow> sampler \<Rightarrow> sampler" where
  "finish_start keys s = (foldl (\<lambda>s k. stopLocked k s) s keys)\<lparr>sp_started := False\<rparr>"

datatype sampler_op =
    OpStart | OpCancel | OpFinish "mkey list"
  | OpObserve mkey string bool sampler_hint
  | OpSampleNow mkey string "progress_sample option" "err option" time
  | OpLoop mkey nat "progress_sample option" "err option" time
  | OpStop mkey

fun sampler_step :: "sampler \<Rightarrow> sampler_op \<Rightarrow> sampler" where
  "sampler_step s OpStart = start_sampler s"
| "sampler_step s OpCancel = s\<lparr>sp_canceled := True\<rparr>"
| "sampler_step s (OpFinish keys) = finish_start keys s"
| "sampler_step s (OpObserve key job alldb hint) = snd (Observe key job alldb hint s)"
| "sampler_step s (OpSampleNow key job smp e at) = snd (SampleNow key job (fresh_sampled smp e at) s)"
| "sampler_step s (OpLoop key i smp e at) = loop_iteration key i (fresh_sampled smp e at) s"
| "sampler_step s (OpStop key) = stopLocked key s"

definition sampler_exec :: "sampler \<Rightarrow> sampler_op list \<Rightarrow> sampler" where
  "sampler_exec = foldl sampler_step"

section \<open>What the sampler guarantees\<close>

lemma keepLocked_older:
  "sm_at got < sm_at (run_last run) \<Longrightarrow>
   keepLocked key run got = (run\<lparr>run_copySeen := run_copySeen run \<or> sm_copySeen got\<rparr>,
     got\<lparr>sm_copySeen := run_copySeen run \<or> sm_copySeen got\<rparr>, [])"
  by (simp add: keepLocked_def Let_def)

lemma keepLocked_stored:
  assumes "\<not> sm_at got < sm_at (run_last run)" and "keepLocked key run got = (run', got', calls)"
  shows "run_last run' = got'" and "sm_at got' = sm_at got" and "sm_sample got' = sm_sample got"
    and "sm_copySeen got' \<longleftrightarrow> run_copySeen run \<or> sm_copySeen got"
    and "run_copySeen run' \<longleftrightarrow> run_copySeen run \<or> sm_copySeen got"
    and "sm_syncRepConfirmed got' \<longleftrightarrow> syncRepOver (syncRepWait (sm_sample got)) \<and> run_syncRepOver run"
    and "run_syncRepOver run' \<longleftrightarrow> syncRepOver (syncRepWait (sm_sample got))"
  using assms by (auto simp: keepLocked_def Let_def)

lemma keepLocked_same_run:
  "keepLocked key run got = (run', got', calls) \<Longrightarrow>
   run_id run' = run_id run \<and> run_job run' = run_job run \<and> run_allDatabases run' = run_allDatabases run \<and>
   run_hint run' = run_hint run"
  by (auto simp: keepLocked_def Let_def split: if_splits)

lemma keepLocked_monotone:
  "keepLocked key run got = (run', got', calls) \<Longrightarrow>
   sm_at (run_last run) \<le> sm_at (run_last run') \<and> (run_copySeen run \<longrightarrow> run_copySeen run')"
  by (auto simp: keepLocked_def Let_def split: if_splits)

text \<open>A run's flag is its last stored sample's own answer.\<close>

definition run_ok :: "sampler_run \<Rightarrow> bool" where
  "run_ok run \<longleftrightarrow> run_syncRepOver run = syncRepOver (syncRepWait (sm_sample (run_last run))) \<and>
     (sm_copySeen (run_last run) \<longrightarrow> run_copySeen run) \<and>
     (sm_syncRepConfirmed (run_last run) \<longrightarrow> run_syncRepOver run)"

definition sampler_ok :: "sampler \<Rightarrow> bool" where
  "sampler_ok s \<longleftrightarrow> (\<forall>key run. sp_runs s key = Some run \<longrightarrow> run_ok run \<and> run_id run < sp_next s)"

lemma keepLocked_ok: "run_ok run \<Longrightarrow> keepLocked key run got = (run', got', calls) \<Longrightarrow> run_ok run'"
  by (auto simp: run_ok_def keepLocked_def Let_def split: if_splits)

lemma new_run_ok: "run_ok (new_run i job alldb hint)"
  by (simp add: run_ok_def new_run_def no_sampled_def syncRepWait_def syncRepOver_def)

lemma stopLocked_fields [simp]:
  "sp_runs (stopLocked key s) = (sp_runs s)(key := None)"
  "sp_next (stopLocked key s) = sp_next s"
  "sp_started (stopLocked key s) = sp_started s"
  "sp_canceled (stopLocked key s) = sp_canceled s"
  "sp_gauges (stopLocked key s) = sp_gauges s @ RecordSyncRepWaits (fst key) (snd key) None"
  by (simp_all add: stopLocked_def emit_gauges_def)

lemma finish_runs: "sp_runs (foldl (\<lambda>s k. stopLocked k s) s keys) = (\<lambda>k. if k \<in> set keys then None else sp_runs s k)"
  by (induction keys arbitrary: s) (auto simp: fun_eq_iff)

lemma finish_next: "sp_next (foldl (\<lambda>s k. stopLocked k s) s keys) = sp_next s"
  by (induction keys arbitrary: s) simp_all

lemma sampler_step_ok: "sampler_ok s \<Longrightarrow> sampler_ok (sampler_step s op)"
proof (cases op)
  case (OpObserve key job alldb hint)
  assume "sampler_ok s"
  then show ?thesis
    using OpObserve new_run_ok
    by (fastforce simp: sampler_ok_def Observe_def Let_def new_run_def run_ok_def
        split: option.splits if_splits)
next
  case (OpSampleNow key job smp e at)
  assume "sampler_ok s"
  then show ?thesis
    using OpSampleNow
    by (auto simp: sampler_ok_def SampleNow_def emit_gauges_def keepLocked_ok
        split: option.splits prod.splits dest: keepLocked_ok keepLocked_same_run)
next
  case (OpLoop key i smp e at)
  assume "sampler_ok s"
  then show ?thesis
    using OpLoop
    by (auto simp: sampler_ok_def loop_iteration_def emit_gauges_def
        split: option.splits prod.splits dest: keepLocked_ok keepLocked_same_run)
qed (auto simp: sampler_ok_def start_sampler_def finish_start_def finish_runs finish_next split: if_splits)

lemma sampler_exec_ok: "sampler_ok s \<Longrightarrow> sampler_ok (sampler_exec s ops)"
  unfolding sampler_exec_def by (induction ops arbitrary: s) (auto intro: sampler_step_ok)

lemma NewSampler_ok: "sampler_ok NewSampler"
  by (simp add: sampler_ok_def NewSampler_def)

text \<open>A run that outlives a step keeps its number, never steps back and keeps a seen copy.\<close>

definition run_from :: "sampler \<Rightarrow> mkey \<Rightarrow> sampler_run \<Rightarrow> bool" where
  "run_from s key r \<longleftrightarrow> sp_next s \<le> run_id r \<or>
     (\<exists>q. sp_runs s key = Some q \<and> run_id r = run_id q \<and> sm_at (run_last q) \<le> sm_at (run_last r) \<and>
        (run_copySeen q \<longrightarrow> run_copySeen r))"

lemma sampler_step_next: "sp_next s \<le> sp_next (sampler_step s op)"
  by (cases op) (auto simp: start_sampler_def finish_start_def finish_next Observe_def Let_def SampleNow_def
      loop_iteration_def emit_gauges_def split: option.splits prod.splits)

lemma sampler_step_from:
  assumes "sp_runs (sampler_step s op) key = Some r"
  shows "run_from s key r"
proof (cases op)
  case (OpObserve key' job alldb hint)
  then show ?thesis
    using assms by (auto simp: run_from_def Observe_def Let_def new_run_def split: option.splits if_splits)
next
  case (OpSampleNow key' job smp e at)
  then show ?thesis
    using assms by (auto simp: run_from_def SampleNow_def emit_gauges_def
        split: option.splits prod.splits if_splits dest: keepLocked_monotone keepLocked_same_run)
next
  case (OpLoop key' i smp e at)
  then show ?thesis
    using assms by (auto simp: run_from_def loop_iteration_def emit_gauges_def
        split: option.splits prod.splits if_splits dest: keepLocked_monotone keepLocked_same_run)
qed (use assms in \<open>auto simp: run_from_def start_sampler_def finish_start_def finish_runs split: if_splits\<close>)

lemma sampler_exec_from:
  "sp_runs (sampler_exec s ops) key = Some r \<Longrightarrow> run_from s key r"
proof (induction ops arbitrary: s)
  case (Cons op ops)
  have "run_from (sampler_step s op) key r"
    using Cons.prems by (intro Cons.IH) (simp add: sampler_exec_def)
  then show ?case
    unfolding run_from_def [of "sampler_step s op"]
  proof
    assume "sp_next (sampler_step s op) \<le> run_id r"
    then show ?thesis using sampler_step_next [of s op] by (simp add: run_from_def)
  next
    assume "\<exists>q. sp_runs (sampler_step s op) key = Some q \<and> run_id r = run_id q \<and>
      sm_at (run_last q) \<le> sm_at (run_last r) \<and> (run_copySeen q \<longrightarrow> run_copySeen r)"
    then obtain q where "sp_runs (sampler_step s op) key = Some q" and q: "run_id r = run_id q"
        "sm_at (run_last q) \<le> sm_at (run_last r)" "run_copySeen q \<longrightarrow> run_copySeen r"
      by blast
    then have "run_from s key q" by (intro sampler_step_from)
    with q show ?thesis by (fastforce simp: run_from_def)
  qed
qed (simp add: run_from_def sampler_exec_def)

lemma sampler_monotone:
  assumes "sampler_ok s"
    and "sp_runs s key = Some run" and "sp_runs (sampler_exec s ops) key = Some run'"
    and "run_id run' = run_id run"
  shows "sm_at (run_last run) \<le> sm_at (run_last run') \<and> (run_copySeen run \<longrightarrow> run_copySeen run')"
proof -
  have "run_id run < sp_next s" using assms(1,2) unfolding sampler_ok_def by blast
  then show ?thesis
    using sampler_exec_from [OF assms(3)] assms(2,4) by (auto simp: run_from_def)
qed

text \<open>After \<open>Stop\<close> the Migration's gauges are not set again until it is observed.\<close>

fun sets_for :: "mkey \<Rightarrow> gauge_call \<Rightarrow> bool" where
  "sets_for key (GSet g ns name ls v) \<longleftrightarrow> key = (ns, name)"
| "sets_for key (GDelete g ns name) \<longleftrightarrow> False"

definition observes :: "mkey \<Rightarrow> sampler_op \<Rightarrow> bool" where
  "observes key op \<longleftrightarrow> (case op of OpObserve k j a h \<Rightarrow> k = key | _ \<Rightarrow> False)"

lemma keepLocked_sets:
  "keepLocked key run got = (run', got', calls) \<Longrightarrow> c \<in> set calls \<Longrightarrow> sets_for key' c \<Longrightarrow> key' = key"
  by (cases key; cases key')
    (auto simp: keepLocked_def Let_def recordSizes_def RecordDatabaseSizes_def opt_calls_def RecordSyncRepWaits_def
      split: if_splits option.splits)

lemma finish_sets:
  "\<exists>calls. sp_gauges (foldl (\<lambda>s k. stopLocked k s) s keys) = sp_gauges s @ calls \<and>
     (\<forall>c \<in> set calls. \<not> sets_for key c)"
proof (induction keys arbitrary: s)
  case (Cons k ks)
  show ?case
    using Cons.IH [of "stopLocked k s"] by (fastforce simp: RecordSyncRepWaits_def)
qed simp

lemma silent_step:
  assumes "sp_runs s key = None" and "\<not> observes key op"
  shows "sp_runs (sampler_step s op) key = None \<and>
    (\<exists>calls. sp_gauges (sampler_step s op) = sp_gauges s @ calls \<and> (\<forall>c \<in> set calls. \<not> sets_for key c))"
proof (cases op)
  case (OpObserve k job alldb hint)
  then show ?thesis
    using assms by (auto simp: observes_def Observe_def Let_def RecordSyncRepWaits_def split: option.splits if_splits)
next
  case (OpSampleNow k job smp e at)
  then show ?thesis
    using assms by (auto simp: SampleNow_def emit_gauges_def split: option.splits prod.splits dest: keepLocked_sets)
next
  case (OpLoop k i smp e at)
  then show ?thesis
    using assms by (auto simp: loop_iteration_def emit_gauges_def split: option.splits prod.splits dest: keepLocked_sets)
next
  case (OpFinish keys)
  then show ?thesis
    using assms finish_sets [of s keys key] by (auto simp: finish_start_def finish_runs)
qed (use assms in \<open>auto simp: start_sampler_def RecordSyncRepWaits_def\<close>)

lemma silent_exec:
  assumes "sp_runs s key = None" and "\<forall>op \<in> set ops. \<not> observes key op"
  shows "\<exists>calls. sp_gauges (sampler_exec s ops) = sp_gauges s @ calls \<and> (\<forall>c \<in> set calls. \<not> sets_for key c)"
  using assms
proof (induction ops arbitrary: s)
  case (Cons op ops)
  obtain c1 where 1: "sp_runs (sampler_step s op) key = None"
      "sp_gauges (sampler_step s op) = sp_gauges s @ c1" "\<forall>c \<in> set c1. \<not> sets_for key c"
    using silent_step [of s key op] Cons.prems by auto
  obtain c2 where "sp_gauges (sampler_exec (sampler_step s op) ops) = sp_gauges (sampler_step s op) @ c2"
      "\<forall>c \<in> set c2. \<not> sets_for key c"
    using Cons.IH [OF 1(1)] Cons.prems(2) by auto
  with 1 show ?case
    by (intro exI [of _ "c1 @ c2"]) (auto simp: sampler_exec_def)
qed (simp add: sampler_exec_def)

end
