(* ===== verification/Compare.thy ===== *)
theory Compare
  imports Logs Args
begin

text \<open>
  \<^verbatim>\<open>internal/pgcopydb/compare.go\<close>: the newest progress line of a compare Job's log, plain
  or JSON. \<open>dec_CompareProgress\<close> is \<^verbatim>\<open>json.Unmarshal\<close> into the struct; a key that occurs
  twice takes its last value.

  The lemmas: the result is read off the last line of the tail that holds a readable
  report, so a line cut short at the end costs one report and no more.
\<close>

definition CompareDataArgs :: "string list" where
  "CompareDataArgs = [''compare'', ''data'', flagDir, WorkDir, ''--json'']"

definition CompareProgressPrefix :: string where
  "CompareProgressPrefix = ''compare progress: ''"

record compare_in_flight_table =
  ct_schema :: string
  ct_name :: string
  ct_bytes :: int64
  ct_elapsedMs :: int64

record compare_progress =
  PlannedTables :: int64
  ComparedTables :: int64
  PlannedBytes :: int64
  ComparedBytes :: int64
  ComparedRows :: int64
  DifferingTables :: int64
  FailedTables :: int64
  ElapsedMs :: int64
  Final :: bool
  InFlight :: "compare_in_flight_table list"

definition dec_in_flight :: "json \<Rightarrow> compare_in_flight_table option" where
  "dec_in_flight v = (case v of
       JNull \<Rightarrow> Some \<lparr>ct_schema = [], ct_name = [], ct_bytes = 0, ct_elapsedMs = 0\<rparr>
     | JObj ms \<Rightarrow>
         (case (json_field ''schema'' dec_string [] ms, json_field ''name'' dec_string [] ms,
                json_field ''bytes'' dec_int64 0 ms, json_field ''elapsedMs'' dec_int64 0 ms) of
            (Some s, Some n, Some b, Some e) \<Rightarrow>
              Some \<lparr>ct_schema = s, ct_name = n, ct_bytes = b, ct_elapsedMs = e\<rparr>
          | _ \<Rightarrow> None)
     | _ \<Rightarrow> None)"

text \<open>The fields one after the other; a type error in any of them fails the whole.\<close>

definition dec_CompareProgress :: "(string \<times> json) list \<Rightarrow> compare_progress option" where
  "dec_CompareProgress ms =
     (let int_field = (\<lambda>k. json_field k dec_int64 0 ms)
      in Option.bind (int_field ''plannedTables'') (\<lambda>pt.
         Option.bind (int_field ''comparedTables'') (\<lambda>ct.
         Option.bind (int_field ''plannedBytes'') (\<lambda>pb.
         Option.bind (int_field ''comparedBytes'') (\<lambda>cb.
         Option.bind (int_field ''comparedRows'') (\<lambda>cr.
         Option.bind (int_field ''differingTables'') (\<lambda>dt.
         Option.bind (int_field ''failedTables'') (\<lambda>ft.
         Option.bind (int_field ''elapsedMs'') (\<lambda>el.
         Option.bind (json_field ''final'' dec_bool False ms) (\<lambda>fin.
         Option.bind (json_field ''inFlight'' (dec_list dec_in_flight) [] ms) (\<lambda>infl.
           Some \<lparr>PlannedTables = pt, ComparedTables = ct, PlannedBytes = pb, ComparedBytes = cb,
                 ComparedRows = cr, DifferingTables = dt, FailedTables = ft, ElapsedMs = el,
                 Final = fin, InFlight = infl\<rparr>)))))))))))"

definition compare_line :: "string \<Rightarrow> compare_progress option" where
  "compare_line line =
     (let msg = (case parseLogLine line of Some e \<Rightarrow> Message e | None \<Rightarrow> line)
      in case cut msg CompareProgressPrefix of
           None \<Rightarrow> None
         | Some (_, raw) \<Rightarrow>
             if \<not> has_prefix raw ''{'' then None
             else (case json_parse raw of Some (JObj ms) \<Rightarrow> dec_CompareProgress ms | _ \<Rightarrow> None))"

fun first_readable :: "(string \<Rightarrow> 'a option) \<Rightarrow> string list \<Rightarrow> 'a option" where
  "first_readable f [] = None"
| "first_readable f (l # ls) = (case f l of Some p \<Rightarrow> Some p | None \<Rightarrow> first_readable f ls)"

definition LastCompareProgress :: "string \<Rightarrow> compare_progress option" where
  "LastCompareProgress tail = first_readable compare_line (rev (split_on newline tail))"

section \<open>The newest readable report\<close>

lemma first_readable_split:
  "\<forall>x \<in> set pre. f x = None \<Longrightarrow> first_readable f (pre @ ls) = first_readable f ls"
  by (induction pre) auto

lemma first_readable_Some:
  "first_readable f ls = Some p \<longleftrightarrow>
     (\<exists>pre l post. ls = pre @ l # post \<and> f l = Some p \<and> (\<forall>x \<in> set pre. f x = None))"
proof
  assume r: "first_readable f ls = Some p"
  then have "\<exists>l \<in> set ls. f l \<noteq> None" by (induction ls) (auto split: option.splits)
  then obtain pre l post where "ls = pre @ l # post" "f l \<noteq> None" "\<forall>x \<in> set pre. f x = None"
    using split_list_first_prop [of ls "\<lambda>l. f l \<noteq> None"] by auto
  with r show "\<exists>pre l post. ls = pre @ l # post \<and> f l = Some p \<and> (\<forall>x \<in> set pre. f x = None)"
    by (metis first_readable_split first_readable.simps(2) option.case_eq_if option.collapse)
qed (auto simp: first_readable_split)

lemma first_readable_None: "first_readable f ls = None \<longleftrightarrow> (\<forall>l \<in> set ls. f l = None)"
  by (induction ls) (auto split: option.splits)

lemma LastCompareProgress_newest:
  "LastCompareProgress tail = Some p \<longleftrightarrow>
     (\<exists>older line newer. split_on newline tail = older @ line # newer \<and>
        compare_line line = Some p \<and> (\<forall>l \<in> set newer. compare_line l = None))"
proof -
  have eq: "rev ls = pre @ l # post \<longleftrightarrow> ls = rev post @ l # rev pre" for ls pre post :: "string list" and l
    by (metis append.assoc append_Cons append_Nil rev.simps(2) rev_append rev_rev_ident)
  show ?thesis
    unfolding LastCompareProgress_def first_readable_Some eq by (metis set_rev rev_rev_ident)
qed

text \<open>One more line, cut short or unreadable, leaves the report before it standing.\<close>

lemma split_on_append:
  "c \<notin> set tail \<Longrightarrow> split_on c (s @ c # tail) = split_on c s @ [tail]"
proof (induction s)
  case Nil
  have "c \<notin> set t \<Longrightarrow> split_on c t = [t]" for t by (induction t) auto
  with Nil show ?case by simp
next
  case (Cons x s)
  moreover have "split_on c s \<noteq> []" by (induction s) (auto split: list.splits)
  ultimately show ?case by (auto split: list.splits)
qed

lemma LastCompareProgress_snoc_unreadable:
  assumes "newline \<notin> set line" and "compare_line line = None"
  shows "LastCompareProgress (tail @ newline # line) = LastCompareProgress tail"
  using assms by (simp add: LastCompareProgress_def split_on_append)

end
