(* ===== verification/Kube.thy ===== *)
theory Kube
  imports Resources Logs Sampler Compare
begin

text \<open>
  One reconcile pass as an effect: the state it works on, the calls it makes, and the helpers
  of \<^verbatim>\<open>migration_controller.go\<close> that every handler uses.

  A pass holds the Migration in memory (\<open>mig\<close>), the copy its patches are computed against
  (\<open>pbase\<close>) and the history of its calls (\<open>tr\<close>, newest first), each with its reply. What lies
  outside src/ answers the calls: the API server and its cache, the clock, the log and exec
  transports, the sampler goroutines, the recorder. All of it is one record of functions
  (\<open>reconciler\<close>), the argument \<open>r\<close> of every definition; each function gets the history, so
  replies may depend on everything that happened, be stale, or be errors, at any point.
  The apimachinery helpers on condition lists and controllerutil's on finalizers are functions
  of \<open>r\<close> too; \<open>meta_ok\<close> states what their documentation promises.

  \<open>only P s t\<close> says that the calls made between two states all satisfy \<open>P\<close>. It is reflexive
  and transitive, so the rules of \<open>frame\<close> compose it over the handlers.
\<close>

section \<open>Objects\<close>

datatype pod_phase = PodPhaseUnset | PodPending | PodRunning | PodSucceeded | PodFailed | PodUnknown

record pod_condition =
  pdc_type :: string
  pdc_status :: condition_status
  pdc_reason :: string
  pdc_message :: string

text \<open>\<open>pd_waiting\<close>: reason and message of each container state that waits, init containers first.\<close>

record pod =
  pd_name :: string
  pd_job_label :: string
  pd_phase :: pod_phase
  pd_node :: string
  pd_deleting :: bool
  pd_claims :: "string list"
  pd_created :: time
  pd_conditions :: "pod_condition list"
  pd_waiting :: "(string \<times> string) list"

datatype deletion_policy = Foreground | Background

datatype pod_selector = ByJobName string | ByMigration | ByManaged | ByControllerUid string

datatype log_read = PlainLogs string nat | TimestampLogs string nat | UidLogs string nat

datatype owned_object = OwnedPVC pvc | OwnedConfigMap config_map

section \<open>Calls\<close>

datatype (plugins only: code size) entry =
    GetMigration "err + migration"
  | GetJob bool string "err + job"
  | ListJobs bool "err + job list"
  | ListPods pod_selector "err + pod list"
  | SetOwner string "err + unit"
  | CreateJob job "err + unit"
  | CreateOwned owned_object "err + unit"
  | GetOwned string "err + bool"
  | DeleteJob deletion_policy string "err + unit"
  | DeletePod string "err + unit"
  | PatchStatus bool migration migration "err + migration"
  | PatchMeta bool migration migration "err + migration"
  | ReadLogs log_read "err + string"
  | ProgressSample string "err + progress_sample option"
  | SamplerObserve string sampler_hint "err + sampled option"
  | SamplerSampleNow string "err + sampled"
  | SamplerStop
  | SentinelRead string string "err + Sentinel.state option"
  | SentinelSetEndpos string "err + string"
  | SentinelNudge string "err + unit"
  | Event bool string string string
  | Gauges "gauge_call list"
  | Clock time

type_synonym trace = "entry list"

record reconciler =
  find_cond :: "condition list \<Rightarrow> condition_type \<Rightarrow> condition option"
  cond_true :: "condition list \<Rightarrow> condition_type \<Rightarrow> bool"
  cond_false :: "condition list \<Rightarrow> condition_type \<Rightarrow> bool"
  put_cond :: "trace \<Rightarrow> condition \<Rightarrow> condition list \<Rightarrow> condition list"
  remove_cond :: "condition_type \<Rightarrow> condition list \<Rightarrow> condition list"
  has_finalizer :: "string list \<Rightarrow> string \<Rightarrow> bool"
  add_finalizer :: "string \<Rightarrow> string list \<Rightarrow> string list"
  remove_finalizer :: "string \<Rightarrow> string list \<Rightarrow> string list"
  now_at :: "trace \<Rightarrow> time"
  get_migration_reply :: "trace \<Rightarrow> err + migration"
  get_job_reply :: "trace \<Rightarrow> bool \<Rightarrow> string \<Rightarrow> err + job"
  list_jobs_reply :: "trace \<Rightarrow> bool \<Rightarrow> err + job list"
  list_pods_reply :: "trace \<Rightarrow> pod_selector \<Rightarrow> err + pod list"
  set_owner_reply :: "trace \<Rightarrow> string \<Rightarrow> err + unit"
  create_job_reply :: "trace \<Rightarrow> job \<Rightarrow> err + unit"
  create_owned_reply :: "trace \<Rightarrow> owned_object \<Rightarrow> err + unit"
  get_owned_reply :: "trace \<Rightarrow> string \<Rightarrow> err + bool"
  delete_job_reply :: "trace \<Rightarrow> string \<Rightarrow> err + unit"
  delete_pod_reply :: "trace \<Rightarrow> string \<Rightarrow> err + unit"
  patch_status_reply :: "trace \<Rightarrow> bool \<Rightarrow> migration \<Rightarrow> migration \<Rightarrow> err + migration"
  patch_meta_reply :: "trace \<Rightarrow> bool \<Rightarrow> migration \<Rightarrow> migration \<Rightarrow> err + migration"
  read_logs_reply :: "trace \<Rightarrow> log_read \<Rightarrow> err + string"
  progress_reply :: "trace \<Rightarrow> string \<Rightarrow> err + progress_sample option"
  observe_reply :: "trace \<Rightarrow> string \<Rightarrow> sampler_hint \<Rightarrow> sampled option"
  sample_now_reply :: "trace \<Rightarrow> string \<Rightarrow> sampled"
  sentinel_read_reply :: "trace \<Rightarrow> string \<Rightarrow> string \<Rightarrow> err + Sentinel.state option"
  set_endpos_reply :: "trace \<Rightarrow> string \<Rightarrow> err + string"
  nudge_reply :: "trace \<Rightarrow> string \<Rightarrow> err + unit"
  gate_script :: "string"
  RunnerImage :: string
  with_api_reader :: bool
  with_logs :: bool
  with_progress :: bool
  with_sampler :: bool
  with_sentinel :: bool

record pass =
  tr :: trace
  mig :: migration
  pbase :: migration

type_synonym 'a act = "(pass, 'a) eff"

text \<open>Make a call: the reply and the history with the call in it.\<close>

definition call :: "(trace \<Rightarrow> err + 'a) \<Rightarrow> (err + 'a \<Rightarrow> entry) \<Rightarrow> 'a act" where
  "call f mk = (\<lambda>s. (f (tr s), s\<lparr>tr := mk (f (tr s)) # tr s\<rparr>))"

definition log_entry :: "entry \<Rightarrow> unit act" where
  "log_entry e = (\<lambda>s. (Inr (), s\<lparr>tr := e # tr s\<rparr>))"

definition with_m :: "(migration \<Rightarrow> 'a act) \<Rightarrow> 'a act" where
  "with_m k = (\<lambda>s. k (mig s) s)"

definition set_m :: "(migration \<Rightarrow> migration) \<Rightarrow> unit act" where
  "set_m f = (\<lambda>s. (Inr (), s\<lparr>mig := f (mig s)\<rparr>))"

definition set_status :: "(migration_status \<Rightarrow> migration_status) \<Rightarrow> unit act" where
  "set_status f = set_m (\<lambda>m. m\<lparr>status := f (status m)\<rparr>)"

definition seq :: "unit act \<Rightarrow> 'a act \<Rightarrow> 'a act" where
  "seq f g = bnd f (\<lambda>_. g)"

definition do_when :: "bool \<Rightarrow> unit act \<Rightarrow> unit act" where
  "do_when b f = (if b then f else ret ())"

definition currentTime :: "reconciler \<Rightarrow> time act" where
  "currentTime r = (\<lambda>s. (Inr (now_at r (tr s)), s\<lparr>tr := Clock (now_at r (tr s)) # tr s\<rparr>))"

definition get_job :: "reconciler \<Rightarrow> string \<Rightarrow> job act" where
  "get_job r name = call (\<lambda>t. get_job_reply r t False name) (GetJob False name)"

text \<open>\<open>uncached()\<close>: the API reader, or the client when none is configured.\<close>

definition get_job_uncached :: "reconciler \<Rightarrow> string \<Rightarrow> job act" where
  "get_job_uncached r name =
     call (\<lambda>t. get_job_reply r t (with_api_reader r) name) (GetJob (with_api_reader r) name)"

definition list_jobs_uncached :: "reconciler \<Rightarrow> job list act" where
  "list_jobs_uncached r = call (\<lambda>t. list_jobs_reply r t (with_api_reader r)) (ListJobs (with_api_reader r))"

definition list_pods :: "reconciler \<Rightarrow> pod_selector \<Rightarrow> pod list act" where
  "list_pods r sel = call (\<lambda>t. list_pods_reply r t sel) (ListPods sel)"

definition set_owner :: "reconciler \<Rightarrow> string \<Rightarrow> unit act" where
  "set_owner r name = call (\<lambda>t. set_owner_reply r t name) (SetOwner name)"

definition create_job :: "reconciler \<Rightarrow> job \<Rightarrow> unit act" where
  "create_job r j = call (\<lambda>t. create_job_reply r t j) (CreateJob j)"

definition delete_job :: "reconciler \<Rightarrow> deletion_policy \<Rightarrow> string \<Rightarrow> unit act" where
  "delete_job r policy name = call (\<lambda>t. delete_job_reply r t name) (DeleteJob policy name)"

definition ignore_not_found :: "unit act \<Rightarrow> unit act" where
  "ignore_not_found f = bnd (attempt f) (\<lambda>res. case res of
       Inr u \<Rightarrow> ret ()
     | Inl e \<Rightarrow> if is_not_found e then ret () else raise e)"

definition event :: "bool \<Rightarrow> string \<Rightarrow> string \<Rightarrow> string \<Rightarrow> unit act" where
  "event warning reason action note = log_entry (Event warning reason action note)"

definition gauges :: "gauge_call list \<Rightarrow> unit act" where
  "gauges cs = log_entry (Gauges cs)"

text \<open>A status patch sends the in-memory object and, on success, leaves the server's reply in it.\<close>

definition patch_status :: "reconciler \<Rightarrow> bool \<Rightarrow> unit act" where
  "patch_status r locked = (\<lambda>s.
     (let res = patch_status_reply r (tr s) locked (pbase s) (mig s);
          s1 = s\<lparr>tr := PatchStatus locked (pbase s) (mig s) res # tr s\<rparr>
      in case res of Inl e \<Rightarrow> (Inl e, s1) | Inr m \<Rightarrow> (Inr (), s1\<lparr>mig := m\<rparr>)))"

text \<open>A metadata patch against a copy taken just before the change \<open>f\<close>.\<close>

definition patch_meta :: "reconciler \<Rightarrow> bool \<Rightarrow> (migration \<Rightarrow> migration) \<Rightarrow> unit act" where
  "patch_meta r locked f = (\<lambda>s.
     (let res = patch_meta_reply r (tr s) locked (mig s) (f (mig s));
          s1 = s\<lparr>tr := PatchMeta locked (mig s) (f (mig s)) res # tr s, mig := f (mig s)\<rparr>
      in case res of Inl e \<Rightarrow> (Inl e, s1) | Inr m \<Rightarrow> (Inr (), s1\<lparr>mig := m\<rparr>)))"

section \<open>Controller-wide helpers\<close>

definition pollInterval :: duration where "pollInterval = 10 * second"
definition retryGateInterval :: duration where "retryGateInterval = 30 * second"
definition zombieGrace :: duration where "zombieGrace = 30 * second"
definition failedLogGrace :: duration where "failedLogGrace = 2 * minute"
definition workerLogTail :: nat where "workerLogTail = 200"
definition preflightLogTail :: nat where "preflightLogTail = 60"
definition preflightOkLogTail :: nat where "preflightOkLogTail = 10000"
definition verifyLogTail :: nat where "verifyLogTail = 10000"
definition zombieLogTail :: nat where "zombieLogTail = 1000"
definition maxDetailLen :: nat where "maxDetailLen = 700"
definition remediatedNoteLen :: nat where "remediatedNoteLen = 950"

text \<open>\<^verbatim>\<open>ctrl.Result\<close>: done, requeue at the rate limiter's pace, or requeue after a delay.\<close>

datatype result = Done | Requeue | RequeueAfter duration

definition go_truncate :: "string \<Rightarrow> nat \<Rightarrow> string" where
  "go_truncate s n = (if length s \<le> n then s else take n s @ ''...'')"

definition is_true :: "reconciler \<Rightarrow> migration \<Rightarrow> condition_type \<Rightarrow> bool" where
  "is_true r m t = cond_true r (conditions (status m)) t"

definition find_c :: "reconciler \<Rightarrow> migration \<Rightarrow> condition_type \<Rightarrow> condition option" where
  "find_c r m t = find_cond r (conditions (status m)) t"

definition put_condition :: "reconciler \<Rightarrow> condition \<Rightarrow> unit act" where
  "put_condition r c = (\<lambda>s. (Inr (), s\<lparr>mig := upd_status (\<lambda>st. st\<lparr>conditions :=
     put_cond r (tr s) c (conditions st)\<rparr>) (mig s)\<rparr>))"

definition setCondition :: "reconciler \<Rightarrow> condition_type \<Rightarrow> condition_status \<Rightarrow> reason \<Rightarrow> string \<Rightarrow> unit act" where
  "setCondition r t s reason msg = with_m (\<lambda>m. put_condition r
     \<lparr>c_type = t, c_status = s, c_reason = reason, c_message = msg, c_generation = m_generation m,
      c_transition = zero_time\<rparr>)"

definition updateStatus :: "reconciler \<Rightarrow> unit act" where
  "updateStatus r =
     seq (set_m (\<lambda>m. upd_status (\<lambda>st. st\<lparr>observedGeneration := m_generation m\<rparr>) m))
      (seq (with_m (\<lambda>m. gauges (Record (find_cond r) m)))
        (patch_status r False))"

definition patchStatusLocked :: "reconciler \<Rightarrow> unit act" where
  "patchStatusLocked r =
     seq (set_m (\<lambda>m. upd_status (\<lambda>st. st\<lparr>observedGeneration := m_generation m\<rparr>) m))
      (seq (patch_status r True)
        (seq (with_m (\<lambda>m. gauges (Record (find_cond r) m)))
          (\<lambda>s. (Inr (), s\<lparr>pbase := mig s\<rparr>))))"

definition finish :: "reconciler \<Rightarrow> result \<Rightarrow> result act" where
  "finish r res = seq (updateStatus r) (ret res)"

section \<open>Job helpers\<close>

fun finished_from :: "job_condition list \<Rightarrow> bool \<times> bool" where
  "finished_from [] = (False, False)"
| "finished_from (c # cs) =
     (if jc_status c \<noteq> ConditionTrue then finished_from cs
      else case jc_type c of JobComplete \<Rightarrow> (True, True) | JobFailed \<Rightarrow> (True, False)
         | OtherJobCondition _ \<Rightarrow> finished_from cs)"

definition jobFinished :: "job \<Rightarrow> bool \<times> bool" where
  "jobFinished j = finished_from (j_conditions j)"

definition failed_condition :: "job \<Rightarrow> job_condition option" where
  "failed_condition j = find (\<lambda>c. jc_type c = JobFailed \<and> jc_status c = ConditionTrue) (j_conditions j)"

definition jobFailedAt :: "job \<Rightarrow> time" where
  "jobFailedAt j = (case failed_condition j of None \<Rightarrow> zero_time | Some c \<Rightarrow> jc_transition c)"

definition jobFinishedAt :: "job \<Rightarrow> time" where
  "jobFinishedAt j = (if jobFailedAt j \<noteq> zero_time then jobFailedAt j
     else case j_completionTime j of None \<Rightarrow> zero_time | Some t \<Rightarrow> t)"

definition failureReason :: "job \<Rightarrow> string" where
  "failureReason j = (case failed_condition j of
       None \<Rightarrow> ''worker Job failed''
     | Some c \<Rightarrow> if jc_message c \<noteq> [] then jc_message c else jc_reason c)"

definition statusTime :: "time \<Rightarrow> time option" where
  "statusTime t = (if t = zero_time then None else Some t)"

text \<open>The Job when it was there, and whether this pass created it.\<close>

definition ensureJob :: "reconciler \<Rightarrow> string \<Rightarrow> (migration \<Rightarrow> err + job) \<Rightarrow> (job option \<times> bool) act" where
  "ensureJob r name build = bnd (attempt (get_job r name)) (\<lambda>got. case got of
       Inr j \<Rightarrow> ret (Some j, False)
     | Inl e \<Rightarrow>
         if \<not> is_not_found e then raise e
         else with_m (\<lambda>m. bnd (lift_sum (build m)) (\<lambda>j.
           seq (set_owner r (j_name j))
             (bnd (attempt (create_job r j)) (\<lambda>made. case made of
                Inr u \<Rightarrow> ret (None, True)
              | Inl e \<Rightarrow> if is_already_exists e then ret (None, False) else raise e)))))"

definition readJobLog :: "reconciler \<Rightarrow> string \<Rightarrow> nat \<Rightarrow> string act" where
  "readJobLog r name n =
     (if \<not> with_logs r then raise (ErrMsg ''no pod log reader is configured'')
      else bnd (call (\<lambda>t. read_logs_reply r t (PlainLogs name n)) (ReadLogs (PlainLogs name n)))
             (\<lambda>raw. ret (trim_space raw)))"

definition jobLogTail :: "reconciler \<Rightarrow> string \<Rightarrow> nat \<Rightarrow> string act" where
  "jobLogTail r name n = bnd (attempt (readJobLog r name n))
     (\<lambda>res. case res of Inr t \<Rightarrow> ret t | Inl e \<Rightarrow> ret [])"

fun pod_condition_detail :: "pod_condition list \<Rightarrow> string option" where
  "pod_condition_detail [] = None"
| "pod_condition_detail (c # cs) =
     (if pdc_type c = ''PodScheduled'' \<and> pdc_status c = ConditionFalse \<and> pdc_reason c = ''Unschedulable''
      then Some (''pod unschedulable: '' @ pdc_message c) else pod_condition_detail cs)"

fun waiting_detail :: "(string \<times> string) list \<Rightarrow> string option" where
  "waiting_detail [] = None"
| "waiting_detail ((reason, msg) # ws) =
     (if reason \<in> {[], ''ContainerCreating'', ''PodInitializing''} then waiting_detail ws
      else Some (if msg \<noteq> [] then reason @ '': '' @ msg else reason))"

fun pods_detail :: "pod list \<Rightarrow> string" where
  "pods_detail [] = []"
| "pods_detail (p # ps) = (case pod_condition_detail (pd_conditions p) of
       Some d \<Rightarrow> d
     | None \<Rightarrow> (case waiting_detail (pd_waiting p) of Some d \<Rightarrow> d | None \<Rightarrow> pods_detail ps))"

definition podWaitDetail :: "reconciler \<Rightarrow> pod_selector \<Rightarrow> string act" where
  "podWaitDetail r sel = bnd (attempt (list_pods r sel))
     (\<lambda>res. case res of Inr ps \<Rightarrow> ret (pods_detail ps) | Inl e \<Rightarrow> ret [])"

definition delete_live_pod :: "reconciler \<Rightarrow> pod \<Rightarrow> unit act" where
  "delete_live_pod r p =
     do_when (\<not> pd_deleting p)
       (ignore_not_found (call (\<lambda>t. delete_pod_reply r t (pd_name p)) (DeletePod (pd_name p))))"

definition deleteJobPods :: "reconciler \<Rightarrow> string \<Rightarrow> unit act" where
  "deleteJobPods r name = bnd (list_pods r (ByJobName name)) (each (delete_live_pod r))"

section \<open>What the library promises\<close>

definition meta_ok :: "reconciler \<Rightarrow> bool" where
  "meta_ok r \<longleftrightarrow>
     (\<forall>cs t. cond_true r cs t \<longleftrightarrow> (\<exists>c. find_cond r cs t = Some c \<and> c_status c = ConditionTrue)) \<and>
     (\<forall>cs t. cond_false r cs t \<longleftrightarrow> (\<exists>c. find_cond r cs t = Some c \<and> c_status c = ConditionFalse)) \<and>
     (\<forall>h c cs. \<exists>d. find_cond r (put_cond r h c cs) (c_type c) = Some d \<and> c_status d = c_status c \<and>
        c_reason d = c_reason c \<and> c_message d = c_message c) \<and>
     (\<forall>h c cs t. t \<noteq> c_type c \<longrightarrow> find_cond r (put_cond r h c cs) t = find_cond r cs t) \<and>
     (\<forall>t u cs. find_cond r (remove_cond r t cs) u = (if u = t then None else find_cond r cs u))"

section \<open>Rules\<close>

lemma wp_call [wp_simps]: "wp (call f mk) Q s = Q (f (tr s)) (s\<lparr>tr := mk (f (tr s)) # tr s\<rparr>)"
  by (simp add: wp_def call_def)

lemma wp_log_entry [wp_simps]: "wp (log_entry e) Q s = Q (Inr ()) (s\<lparr>tr := e # tr s\<rparr>)"
  by (simp add: wp_def log_entry_def)

lemma wp_with_m [wp_simps]: "wp (with_m k) Q s = wp (k (mig s)) Q s"
  by (simp add: wp_def with_m_def)

lemma wp_set_m [wp_simps]: "wp (set_m f) Q s = Q (Inr ()) (s\<lparr>mig := f (mig s)\<rparr>)"
  by (simp add: wp_def set_m_def)

lemma wp_seq [wp_simps]: "wp (seq f g) Q s = wp f (\<lambda>res t. case res of Inl e \<Rightarrow> Q (Inl e) t | Inr _ \<Rightarrow> wp g Q t) s"
  by (simp add: seq_def wp_bnd)

lemma wp_when [wp_simps]: "wp (do_when b f) Q s = (if b then wp f Q s else Q (Inr ()) s)"
  by (simp add: do_when_def wp_ret)

lemma wp_currentTime [wp_simps]:
  "wp (currentTime r) Q s = Q (Inr (now_at r (tr s))) (s\<lparr>tr := Clock (now_at r (tr s)) # tr s\<rparr>)"
  by (simp add: wp_def currentTime_def)

text \<open>Only calls that satisfy \<open>P\<close> were made.\<close>

definition only :: "(entry \<Rightarrow> bool) \<Rightarrow> pass \<Rightarrow> pass \<Rightarrow> bool" where
  "only P s t \<longleftrightarrow> (\<exists>new. tr t = new @ tr s \<and> list_all P new)"

lemma only_refl: "only P s s"
  by (simp add: only_def)

lemma only_trans: "only P s t \<Longrightarrow> only P t u \<Longrightarrow> only P s u"
  unfolding only_def by (metis append.assoc list_all_append)

interpretation only: frame "only P" for P
  by unfold_locales (auto intro: only_refl only_trans)

lemmas only_intros [keeps_intros] = only.keeps_ret only.keeps_raise only.keeps_lift_sum only.keeps_bnd
  only.keeps_attempt only.keeps_each

lemma only_call [keeps_intros]: "(\<And>x. P (mk x)) \<Longrightarrow> keeps (only P) (call f mk)"
  by (rule keepsI) (auto simp: call_def only_def)

lemma only_log_entry [keeps_intros]: "P e \<Longrightarrow> keeps (only P) (log_entry e)"
  by (rule keepsI) (auto simp: log_entry_def only_def)

lemma only_with_m [keeps_intros]: "(\<And>m. keeps (only P) (k m)) \<Longrightarrow> keeps (only P) (with_m k)"
  by (rule keepsI) (auto simp: with_m_def dest: keepsD)

lemma only_set_m [keeps_intros]: "keeps (only P) (set_m f)"
  by (rule keepsI) (auto simp: set_m_def only_def)

lemma only_set_status [keeps_intros]: "keeps (only P) (set_status f)"
  by (simp add: set_status_def only_set_m)

lemma only_seq [keeps_intros]: "keeps (only P) f \<Longrightarrow> keeps (only P) g \<Longrightarrow> keeps (only P) (seq f g)"
  by (simp add: seq_def only.keeps_bnd)

lemma only_when [keeps_intros]: "(b \<Longrightarrow> keeps (only P) f) \<Longrightarrow> keeps (only P) (do_when b f)"
  by (simp add: do_when_def only.keeps_ret)

lemma only_put_condition [keeps_intros]: "keeps (only P) (put_condition r c)"
  by (rule keepsI) (auto simp: put_condition_def only_def)

lemma only_setCondition [keeps_intros]: "keeps (only P) (setCondition r t s reason msg)"
  unfolding setCondition_def by (intro keeps_intros)

lemma only_currentTime [keeps_intros]: "(\<And>t. P (Clock t)) \<Longrightarrow> keeps (only P) (currentTime r)"
  by (rule keepsI) (auto simp: currentTime_def only_def)

lemma only_event [keeps_intros]: "P (Event w a b c) \<Longrightarrow> keeps (only P) (event w a b c)"
  unfolding event_def by (intro keeps_intros)

lemma only_gauges [keeps_intros]: "(\<And>cs. P (Gauges cs)) \<Longrightarrow> keeps (only P) (gauges cs)"
  unfolding gauges_def by (intro keeps_intros)

lemma only_patch_status [keeps_intros]:
  "(\<And>b m x. P (PatchStatus locked b m x)) \<Longrightarrow> keeps (only P) (patch_status r locked)"
  by (rule keepsI) (auto simp: patch_status_def only_def Let_def split: sum.splits)

lemma only_patch_meta [keeps_intros]:
  "(\<And>b m x. P (PatchMeta locked b m x)) \<Longrightarrow> keeps (only P) (patch_meta r locked f)"
  by (rule keepsI) (auto simp: patch_meta_def only_def Let_def split: sum.splits)

lemma only_updateStatus [keeps_intros]:
  "(\<And>b m x. P (PatchStatus False b m x)) \<Longrightarrow> (\<And>cs. P (Gauges cs)) \<Longrightarrow> keeps (only P) (updateStatus r)"
  unfolding updateStatus_def by (intro keeps_intros)

lemma only_finish [keeps_intros]:
  "(\<And>b m x. P (PatchStatus False b m x)) \<Longrightarrow> (\<And>cs. P (Gauges cs)) \<Longrightarrow> keeps (only P) (finish r res)"
  unfolding finish_def by (intro keeps_intros)

lemma only_state_step: "(\<And>s. tr (f s) = tr s) \<Longrightarrow> keeps (only P) (\<lambda>s. (x, f s))"
  by (rule keepsI) (auto simp: only_def)

lemma only_patchStatusLocked [keeps_intros]:
  "(\<And>b m x. P (PatchStatus True b m x)) \<Longrightarrow> (\<And>cs. P (Gauges cs)) \<Longrightarrow> keeps (only P) (patchStatusLocked r)"
  unfolding patchStatusLocked_def by (intro keeps_intros only_state_step) simp_all

lemma bnd_lift_sum: "bnd (lift_sum x) k = (case x of Inl e \<Rightarrow> raise e | Inr y \<Rightarrow> k y)"
  by (cases x) (simp_all add: bnd_def lift_sum_def raise_def fun_eq_iff)

lemma keeps_case_list [keeps_intros]:
  "(xs = [] \<Longrightarrow> keeps R f) \<Longrightarrow> (\<And>y ys. xs = y # ys \<Longrightarrow> keeps R (g y ys)) \<Longrightarrow>
   keeps R (case xs of [] \<Rightarrow> f | y # ys \<Rightarrow> g y ys)"
  by (cases xs) simp_all

section \<open>Results a handler can give\<close>

definition gives :: "(err + 'a \<Rightarrow> bool) \<Rightarrow> 'a act \<Rightarrow> bool" where
  "gives R f \<longleftrightarrow> (\<forall>s. R (fst (f s)))"

named_theorems gives_intros

lemma gives_ret [gives_intros]: "R (Inr x) \<Longrightarrow> gives R (ret x)"
  by (simp add: gives_def ret_def)

lemma gives_raise [gives_intros]: "R (Inl e) \<Longrightarrow> gives R (raise e)"
  by (simp add: gives_def raise_def)

lemma gives_bnd [gives_intros]: "(\<And>e. R (Inl e)) \<Longrightarrow> (\<And>x. gives R (k x)) \<Longrightarrow> gives R (bnd f k)"
  unfolding gives_def bnd_def by (auto split: prod.splits sum.splits)

lemma gives_seq [gives_intros]: "(\<And>e. R (Inl e)) \<Longrightarrow> gives R g \<Longrightarrow> gives R (seq f g)"
  by (simp add: seq_def gives_bnd)

lemma gives_with_m [gives_intros]: "(\<And>m. gives R (k m)) \<Longrightarrow> gives R (with_m k)"
  by (simp add: gives_def with_m_def)

lemma gives_if [gives_intros]: "(b \<Longrightarrow> gives R f) \<Longrightarrow> (\<not> b \<Longrightarrow> gives R g) \<Longrightarrow> gives R (if b then f else g)"
  by simp

lemma gives_case_prod [gives_intros]: "(\<And>a b. p = (a, b) \<Longrightarrow> gives R (f a b)) \<Longrightarrow> gives R (case p of (a, b) \<Rightarrow> f a b)"
  by (cases p) simp

lemma gives_case_option [gives_intros]:
  "(x = None \<Longrightarrow> gives R f) \<Longrightarrow> (\<And>y. x = Some y \<Longrightarrow> gives R (g y)) \<Longrightarrow>
   gives R (case x of None \<Rightarrow> f | Some y \<Rightarrow> g y)"
  by (cases x) simp_all

lemma gives_case_sum [gives_intros]:
  "(\<And>a. x = Inl a \<Longrightarrow> gives R (f a)) \<Longrightarrow> (\<And>b. x = Inr b \<Longrightarrow> gives R (g b)) \<Longrightarrow>
   gives R (case x of Inl a \<Rightarrow> f a | Inr b \<Rightarrow> g b)"
  by (cases x) simp_all

lemma gives_wp: "gives R f \<Longrightarrow> (\<And>res t. R res \<Longrightarrow> Q res t) \<Longrightarrow> wp f Q s"
  unfolding gives_def wp_def by (auto split: prod.splits) (metis fst_conv)

end
