(* ===== verification/Retry_Budget.thy ===== *)
theory Retry_Budget
  imports Kube
begin

text \<open>
  \<^verbatim>\<open>retry_gate_budget.go\<close> and the latches of \<^verbatim>\<open>migration_controller.go\<close>: which attempts count
  against \<open>spec.backoffLimit\<close>, when a failed attempt is exempt, and what the conditions
  remember between passes. Attempts are 32-bit integers, and \<open>backoffLimit + 1\<close> wraps.

  The lemmas: the budget's arithmetic without the wrap, and what the wrap does to it; the
  exemption verdict; latches after a condition is written.
\<close>

section \<open>The budget\<close>

definition verdictDeadline :: duration where
  "verdictDeadline = 15 * minute"

definition countedAttempts :: "migration \<Rightarrow> int32" where
  "countedAttempts m = attempts (status m) - exemptAttempts (status m)"

definition budgetSpent :: "migration \<Rightarrow> bool" where
  "budgetSpent m \<longleftrightarrow> sle32 (backoffLimit (spec m) + 1) (countedAttempts m)"

definition budgetMessage :: "migration \<Rightarrow> string" where
  "budgetMessage m =
     ''retry budget exhausted after '' @ itoa (attempts (status m)) @ '' attempts ('' @
     itoa (exemptAttempts (status m)) @ '' exempt)'' @
     (case retryGate (status m) of
        None \<Rightarrow> []
      | Some rg \<Rightarrow> '': attempt '' @ itoa (rg_failedAttempt rg) @ '' failed: '' @ rg_failure rg)"

definition exemptionVerdict :: "gate_census \<Rightarrow> time \<Rightarrow> exemption" where
  "exemptionVerdict c failedAt =
     (if gc_Named c \<and> 0 < sint (gc_SyncRep c) \<and> 0 < sint (gc_SyncRepSince c) \<and>
         \<not> failedAt - syncRepThreshold < sint (gc_SyncRepSince c) * second
      then RetryGateExempt else RetryGateCounted)"

definition verdictOverdue :: "retry_gate_status option \<Rightarrow> time \<Rightarrow> bool" where
  "verdictOverdue rgo now = (case rgo of
       None \<Rightarrow> False
     | Some rg \<Rightarrow> rg_exemption rg = RetryGateUndecided \<and> \<not> now < rg_failedAt rg + verdictDeadline)"

definition onFailurePath :: "migration \<Rightarrow> bool" where
  "onFailurePath m = (case retryGate (status m) of
       None \<Rightarrow> False | Some rg \<Rightarrow> rg_failedAttempt rg = attempts (status m))"

section \<open>Latches\<close>

definition latched :: "reconciler \<Rightarrow> migration \<Rightarrow> condition_type \<Rightarrow> reason \<Rightarrow> bool" where
  "latched r m t reason = (case find_c r m t of
       None \<Rightarrow> False | Some c \<Rightarrow> c_status c = ConditionFalse \<and> c_reason c = reason)"

definition copySeen :: "reconciler \<Rightarrow> migration \<Rightarrow> bool" where
  "copySeen r m = latched r m ConditionCloneCompleted ReasonCopyingData"

definition tablesEmptySeen :: "reconciler \<Rightarrow> migration \<Rightarrow> bool" where
  "tablesEmptySeen r m = latched r m ConditionCloneCompleted ReasonTablesEmptyOnTarget"

definition snapshotLost :: "reconciler \<Rightarrow> migration \<Rightarrow> bool" where
  "snapshotLost r m = latched r m ConditionCloneCompleted ReasonSnapshotLost"

definition lagSeenBelow :: "reconciler \<Rightarrow> migration \<Rightarrow> bool" where
  "lagSeenBelow r m = (case find_c r m ConditionCaughtUp of
       None \<Rightarrow> False
     | Some c \<Rightarrow> c_status c = ConditionTrue \<or> c_reason c = ReasonConfirmingCatchUp)"

definition attemptPhase :: "reconciler \<Rightarrow> migration \<Rightarrow> migration_phase" where
  "attemptPhase r m =
     (if (case replication (status m) of None \<Rightarrow> False | Some rs \<Rightarrow> EndposSet (rs_endpos rs)) \<or>
         is_true r m ConditionCutoverComplete
      then PhaseCuttingOver
      else if is_true r m ConditionStreaming then PhaseStreaming
      else PhaseCloning)"

definition copyDoneForGate :: "reconciler \<Rightarrow> migration \<Rightarrow> bool" where
  "copyDoneForGate r m \<longleftrightarrow>
     is_true r m ConditionCloneCompleted \<or> tablesEmptySeen r m \<or> attemptPhase r m \<noteq> PhaseCloning \<or>
     (case retryGate (status m) of None \<Rightarrow> False | Some rg \<Rightarrow> rg_cloneDoneSeen rg)"

definition hintFor :: "reconciler \<Rightarrow> migration \<Rightarrow> sampler_hint" where
  "hintFor r m =
     (let across = is_true r m ConditionCloneCompleted \<or> tablesEmptySeen r m \<or>
            phase (status m) \<in> {PhaseFinalizing, PhaseStreaming, PhaseCutoverPending, PhaseCuttingOver}
      in \<lparr>sh_copyStarted = across \<or> copySeen r m, sh_dataAcross = across\<rparr>)"

definition gateInputsFor :: "reconciler \<Rightarrow> migration \<Rightarrow> gate_inputs" where
  "gateInputsFor r m = gateInputs_of (copyDoneForGate r m) m"

section \<open>The budget without and with the wrap\<close>

definition counters_ok :: "migration \<Rightarrow> bool" where
  "counters_ok m \<longleftrightarrow> 0 \<le> sint (exemptAttempts (status m)) \<and>
     sint (exemptAttempts (status m)) \<le> sint (attempts (status m)) \<and> 0 \<le> sint (backoffLimit (spec m))"

lemma countedAttempts_exact:
  "counters_ok m \<Longrightarrow> sint (countedAttempts m) = sint (attempts (status m)) - sint (exemptAttempts (status m))"
  using sint32_bounds [of "attempts (status m)"]
  by (auto simp: countedAttempts_def counters_ok_def intro!: sint32_diff)

lemma budgetSpent_exact:
  assumes "counters_ok m" and "sint (backoffLimit (spec m)) < 2 ^ 31 - 1"
  shows "budgetSpent m \<longleftrightarrow>
    sint (backoffLimit (spec m)) < sint (attempts (status m)) - sint (exemptAttempts (status m))"
  using assms by (auto simp: budgetSpent_def countedAttempts_exact sint32_succ)

text \<open>At the largest limit the sum is the smallest integer, so the budget is always spent.\<close>

lemma budgetSpent_wraps:
  assumes "backoffLimit (spec m) = 2147483647"
  shows "budgetSpent m"
proof -
  have "sint (backoffLimit (spec m) + 1) = - (2 ^ 31)" by (simp add: assms)
  then show ?thesis using sint32_bounds(1) [of "countedAttempts m"] by (simp add: budgetSpent_def)
qed

lemma exemptionVerdict_exempt:
  "exemptionVerdict c failedAt = RetryGateExempt \<longleftrightarrow>
     gc_Named c \<and> 0 < sint (gc_SyncRep c) \<and> 0 < sint (gc_SyncRepSince c) \<and>
     sint (gc_SyncRepSince c) * second \<le> failedAt - syncRepThreshold"
  by (auto simp: exemptionVerdict_def)

section \<open>Conditions after a write\<close>

lemma find_put_same:
  assumes "meta_ok r"
  obtains d where "find_cond r (put_cond r h c cs) (c_type c) = Some d" "c_status d = c_status c"
    "c_reason d = c_reason c" "c_message d = c_message c"
  using assms unfolding meta_ok_def by metis

lemma find_put_other:
  "meta_ok r \<Longrightarrow> t \<noteq> c_type c \<Longrightarrow> find_cond r (put_cond r h c cs) t = find_cond r cs t"
  unfolding meta_ok_def by blast

lemma cond_true_iff:
  "meta_ok r \<Longrightarrow> cond_true r cs t \<longleftrightarrow> (\<exists>c. find_cond r cs t = Some c \<and> c_status c = ConditionTrue)"
  unfolding meta_ok_def by blast

lemma cond_true_put:
  assumes "meta_ok r"
  shows "cond_true r (put_cond r h c cs) t \<longleftrightarrow>
    (if t = c_type c then c_status c = ConditionTrue else cond_true r cs t)"
proof (cases "t = c_type c")
  case True
  then show ?thesis using find_put_same [OF assms, of h c cs] by (metis assms cond_true_iff option.inject)
next
  case False
  then show ?thesis using find_put_other [OF assms False] by (simp add: cond_true_iff [OF assms])
qed

end
