(* ===== verification/Retry_Gate.thy ===== *)
theory Retry_Gate
  imports Retry_Budget
begin

text \<open>
  \<^verbatim>\<open>retry_gate.go\<close>: what stands between a failed attempt and the next worker. \<open>retryGate\<close> holds
  attempt n until the previous worker's pod has ended and a fresh probe of the target passed;
  \<open>judgeProbe\<close> reads a finished probe and decides the failed attempt's exemption;
  \<open>settleBudget\<close> is the locked patch that must land before a worker starts.

  The evidence the gate passes on is stated in theory \<open>Worker_Start\<close>, the Jobs it creates in
  \<open>Pass_Calls\<close>, and its verdicts as steps of the retry budget in \<open>Budget_Machine\<close>.
\<close>

definition gatePassFreshness :: duration where
  "gatePassFreshness = 60 * second"

definition gateLogTail :: nat where
  "gateLogTail = 60"

section \<open>Holding\<close>

definition setHold :: "reconciler \<Rightarrow> reason \<Rightarrow> string \<Rightarrow> unit act" where
  "setHold r reason msg = with_m (\<lambda>m.
     (let cur = find_c r m ConditionRetryHeld;
          wasHeld = (case cur of None \<Rightarrow> False | Some c \<Rightarrow> c_status c = ConditionTrue);
          sameReason = (case cur of None \<Rightarrow> False | Some c \<Rightarrow> c_reason c = reason);
          cond = (\<lambda>at. \<lparr>c_type = ConditionRetryHeld, c_status = ConditionTrue, c_reason = reason,
                        c_message = msg, c_generation = m_generation m, c_transition = at\<rparr>)
      in seq (do_when (reason \<noteq> ReasonGateProbing \<and> (\<not> wasHeld \<or> \<not> sameReason))
                (event True ''RetryHeld'' ''Retry'' (go_truncate msg maxDetailLen)))
          (seq (if wasHeld then put_condition r (cond zero_time)
                else bnd (currentTime r) (\<lambda>now. put_condition r (cond now)))
            (with_m (\<lambda>m1. do_when (phase (status m1) = PhaseSuspended \<and> \<not> suspend (spec m1))
               (set_status (\<lambda>st. st\<lparr>phase := attemptPhase r m1\<rparr>)))))))"

definition probing :: "reconciler \<Rightarrow> string \<Rightarrow> unit act" where
  "probing r msg = with_m (\<lambda>m. case find_c r m ConditionRetryHeld of
       None \<Rightarrow> setHold r ReasonGateProbing msg
     | Some c \<Rightarrow>
         if c_status c = ConditionTrue \<and> c_reason c \<noteq> ReasonGateProbing \<and> c_reason c \<noteq> ReasonWorkerPodRemains
         then setHold r (c_reason c) (c_message c)
         else setHold r ReasonGateProbing msg)"

definition endHold :: "reconciler \<Rightarrow> reason \<Rightarrow> string \<Rightarrow> unit act" where
  "endHold r reason msg = with_m (\<lambda>m.
     do_when (is_true r m ConditionRetryHeld) (setCondition r ConditionRetryHeld ConditionFalse reason msg))"

definition fail_with :: "reconciler \<Rightarrow> reason \<Rightarrow> string \<Rightarrow> string \<Rightarrow> unit act" where
  "fail_with r reason action msg =
     seq (set_status (\<lambda>st. st\<lparr>phase := PhaseFailed\<rparr>))
      (seq (setCondition r ConditionFailed ConditionTrue reason msg)
        (seq (with_m (\<lambda>m. endHold r ReasonHoldMigrationFailed
               (''Attempt '' @ itoa (attempts (status m) + 1) @
                '' does not start: the Migration failed with '' @ reason_str reason)))
          (event True (reason_str reason) action (go_truncate msg maxDetailLen))))"

section \<open>Settling the budget\<close>

definition failBudget :: "reconciler \<Rightarrow> unit act" where
  "failBudget r = with_m (\<lambda>m.
     seq (case retryGate (status m) of
            None \<Rightarrow> ret ()
          | Some rg \<Rightarrow> setCondition r ConditionCloneCompleted ConditionFalse ReasonCloneFailed (rg_failure rg))
       (with_m (\<lambda>m1. fail_with r ReasonBackoffLimitExceeded ''Fail'' (budgetMessage m1))))"

definition set_exemption :: "exemption \<Rightarrow> migration_status \<Rightarrow> migration_status" where
  "set_exemption v st = st\<lparr>retryGate := map_option (\<lambda>rg. rg\<lparr>rg_exemption := v\<rparr>) (retryGate st)\<rparr>"

definition recordVerdict :: "reconciler \<Rightarrow> exemption \<Rightarrow> unit act" where
  "recordVerdict r verdict = with_m (\<lambda>m. case retryGate (status m) of
       None \<Rightarrow> raise NilDeref
     | Some rg \<Rightarrow>
         seq (set_status (set_exemption verdict))
          (seq (do_when (verdict = RetryGateExempt)
                 (set_status (\<lambda>st. st\<lparr>exemptAttempts := exemptAttempts st + 1\<rparr>)))
            (patchStatusLocked r)))"

text \<open>Returns whether the Migration failed.\<close>

definition decide :: "reconciler \<Rightarrow> exemption \<Rightarrow> bool act" where
  "decide r verdict = with_m (\<lambda>m.
     (let spent = (verdict = RetryGateCounted \<and> budgetSpent m)
      in seq (do_when spent (failBudget r)) (seq (recordVerdict r verdict) (ret spent))))"

definition undecided :: "migration \<Rightarrow> bool" where
  "undecided m = (case retryGate (status m) of None \<Rightarrow> False | Some rg \<Rightarrow> rg_exemption rg = RetryGateUndecided)"

definition settleBudget :: "reconciler \<Rightarrow> bool act" where
  "settleBudget r =
     seq (with_m (\<lambda>m. do_when (onFailurePath m \<and> undecided m) (set_status (set_exemption RetryGateCounted))))
       (with_m (\<lambda>m. seq (do_when (budgetSpent m) (failBudget r))
                     (seq (patchStatusLocked r) (ret (budgetSpent m)))))"

section \<open>Pods\<close>

definition ended :: "pod \<Rightarrow> bool" where
  "ended p \<longleftrightarrow> pd_phase p = PodSucceeded \<or> pd_phase p = PodFailed"

definition previousWorkerPod :: "reconciler \<Rightarrow> int32 \<Rightarrow> pod option act" where
  "previousWorkerPod r n = with_m (\<lambda>m.
     bnd (list_pods r (ByJobName (worker_job_name m (n - 1)))) (\<lambda>ps. ret (find (\<lambda>p. \<not> ended p) ps)))"

definition rehearsal_prefix :: "migration \<Rightarrow> string" where
  "rehearsal_prefix m = m_name m @ ''-rehearsal-''"

definition rehearsalPod :: "reconciler \<Rightarrow> pod option act" where
  "rehearsalPod r = with_m (\<lambda>m.
     bnd (list_pods r ByMigration)
       (\<lambda>ps. ret (find (\<lambda>p. has_prefix (pd_job_label p) (rehearsal_prefix m) \<and> \<not> ended p) ps)))"

definition podNode :: "pod \<Rightarrow> string" where
  "podNode p = (if pd_node p = [] then ''(none yet)'' else pd_node p)"

fun phase_lower :: "pod_phase \<Rightarrow> string" where
  "phase_lower PodPhaseUnset = ''pending''"
| "phase_lower PodPending = ''pending''"
| "phase_lower PodRunning = ''running''"
| "phase_lower PodSucceeded = ''succeeded''"
| "phase_lower PodFailed = ''failed''"
| "phase_lower PodUnknown = ''unknown''"

definition podState :: "pod \<Rightarrow> string" where
  "podState p = phase_lower (pd_phase p) @ (if pd_deleting p then '' and terminating'' else [])"

section \<open>Probes\<close>

definition createGateJob :: "reconciler \<Rightarrow> int32 \<Rightarrow> unit act" where
  "createGateJob r n = with_m (\<lambda>m.
     bnd (lift_sum (buildGateJob (copyDoneForGate r m) m (RunnerImage r) n)) (\<lambda>j.
       seq (set_owner r (j_name j))
         (bnd (attempt (create_job r j)) (\<lambda>made. case made of
            Inr u \<Rightarrow> ret ()
          | Inl e \<Rightarrow> if is_already_exists e then ret () else raise e))))"

definition gateLog :: "reconciler \<Rightarrow> job \<Rightarrow> string act" where
  "gateLog r j =
     (if \<not> with_logs r then raise (ErrMsg ''no pod log reader is configured'')
      else call (\<lambda>t. read_logs_reply r t (UidLogs (j_uid j) gateLogTail)) (ReadLogs (UidLogs (j_uid j) gateLogTail)))"

definition deleteGateProbe :: "reconciler \<Rightarrow> string \<Rightarrow> unit act" where
  "deleteGateProbe r name = ignore_not_found (delete_job r Background name)"

definition deleteGateJob :: "reconciler \<Rightarrow> int32 \<Rightarrow> unit act" where
  "deleteGateJob r n = with_m (\<lambda>m. deleteGateProbe r (gateJobName m n))"

definition deleteStrayProbes :: "reconciler \<Rightarrow> unit act" where
  "deleteStrayProbes r = with_m (\<lambda>m.
     bnd (list_jobs_uncached r)
       (each (\<lambda>j. do_when (has_prefix (j_name j) (m_name m @ ''-gate-'')) (deleteGateProbe r (j_name j)))))"

text \<open>\<^verbatim>\<open>return held, false, r.updateStatus(...)\<close>.\<close>

definition held_for :: "reconciler \<Rightarrow> duration \<Rightarrow> (result \<times> bool) act" where
  "held_for r d = seq (updateStatus r) (ret (RequeueAfter d, False))"

definition delete_and_probe_again :: "reconciler \<Rightarrow> job \<Rightarrow> string \<Rightarrow> (result \<times> bool) act" where
  "delete_and_probe_again r j msg =
     seq (deleteGateProbe r (j_name j)) (seq (probing r msg) (held_for r retryGateInterval))"

definition hold_message :: "reconciler \<Rightarrow> job \<Rightarrow> bool \<Rightarrow> err + string \<Rightarrow> reason option \<times> string \<Rightarrow> reason \<times> string" where
  "hold_message r j ok logged verdict =
     (let (reason, msg) = (case logged of
              Inl e \<Rightarrow> (ReasonProbeFailed, ''The log of probe Job '' @ j_name j @ '' was not readable: '' @
                         go_truncate (err_text e) maxDetailLen)
            | Inr _ \<Rightarrow> (case verdict of
                (None, _) \<Rightarrow> (ReasonProbeFailed, ''The probe logged a pass'')
              | (Some rs, msg) \<Rightarrow> (rs, msg)))
      in (reason, if \<not> ok \<and> reason = ReasonProbeFailed
                  then msg @ ''. Job '' @ j_name j @ '' failed: '' @ failureReason j else msg))"

text \<open>After a probe that did not pass: the hold, and the failed probe kept a while.\<close>

definition hold_on_probe :: "reconciler \<Rightarrow> gate_inputs \<Rightarrow> time \<Rightarrow> job \<Rightarrow> bool \<Rightarrow> err + string \<Rightarrow> gate_result \<Rightarrow>
    (result \<times> bool) act" where
  "hold_on_probe r inp now j ok logged g = with_m (\<lambda>m.
     (let (reason, msg) = hold_message r j ok logged (hold g inp (target (spec m)));
          keep = jobFinishedAt j + retryGateInterval - now
      in seq (setHold r reason msg)
          (if 0 < keep then held_for r (min keep retryGateInterval)
           else seq (deleteGateProbe r (j_name j)) (held_for r retryGateInterval))))"

definition read_text :: "err + string \<Rightarrow> string" where
  "read_text res = (case res of Inr t \<Rightarrow> t | Inl _ \<Rightarrow> [])"

text \<open>A finished probe that did not pass: its census may decide the failed attempt, then the hold.\<close>

definition judge_failed_probe :: "reconciler \<Rightarrow> gate_inputs \<Rightarrow> time \<Rightarrow> job \<Rightarrow> bool \<Rightarrow> bool \<Rightarrow> err + string \<Rightarrow> string \<Rightarrow>
    (result \<times> bool) act" where
  "judge_failed_probe r inp now j ok current logged msg = with_m (\<lambda>m.
     (let g = parseGateLog (read_text logged)
      in bnd (case (retryGate (status m), g_Census g) of
                (Some rg, Some c) \<Rightarrow>
                  if onFailurePath m \<and> rg_exemption rg = RetryGateUndecided
                  then decide r (exemptionVerdict c (rg_failedAt rg)) else ret False
              | _ \<Rightarrow> ret False)
          (\<lambda>failed.
             if failed then ret (Done, False)
             else if \<not> current then delete_and_probe_again r j msg
             else hold_on_probe r inp now j ok logged g)))"

definition judgeProbe :: "reconciler \<Rightarrow> job \<Rightarrow> string \<Rightarrow> (result \<times> bool) act" where
  "judgeProbe r j msg = bnd (currentTime r) (\<lambda>now. with_m (\<lambda>m.
     (let ok = snd (jobFinished j);
          inp = gateInputsFor r m;
          current = (lookup (j_annotations j) annotationRetryGateInputs = gate_inputs_string inp)
      in if ok \<and> (\<not> current \<or> jobFinishedAt j + gatePassFreshness < now) then delete_and_probe_again r j msg
         else bnd (attempt (gateLog r j)) (\<lambda>logged.
           if ok \<and> \<not> isl logged \<and> passed (parseGateLog (read_text logged)) inp then ret (Done, True)
           else judge_failed_probe r inp now j ok current logged msg))))"

section \<open>The gate\<close>

definition msg_pod_remains :: "pod \<Rightarrow> string \<Rightarrow> int32 \<Rightarrow> string" where
  "msg_pod_remains p of_what n = ''Pod '' @ pd_name p @ '' '' @ of_what @ '' is '' @ podState p @ '' on node '' @
     podNode p @ ''; attempt '' @ itoa n @ '' waits until it has ended, because it may still hold sessions''"

definition msg_probing :: "migration \<Rightarrow> int32 \<Rightarrow> string" where
  "msg_probing m n = ''Attempt '' @ itoa n @ '' waits for the retry gate: probe Job '' @ gateJobName m n @
     '' checks the target''"

text \<open>The pods that may still hold sessions: the previous worker's, then a rehearsal's.\<close>

definition blocking_pod :: "reconciler \<Rightarrow> int32 \<Rightarrow> (pod \<times> string) option act" where
  "blocking_pod r n = bnd (previousWorkerPod r n) (\<lambda>po. case po of
       Some p \<Rightarrow> ret (Some (p, ''of attempt '' @ itoa (n - 1)))
     | None \<Rightarrow> bnd (rehearsalPod r) (\<lambda>qo. ret (map_option (\<lambda>q. (q, ''of the verification rehearsal'')) qo)))"

definition probe_step :: "reconciler \<Rightarrow> int32 \<Rightarrow> (result \<times> bool) act" where
  "probe_step r n = with_m (\<lambda>m.
     (let name = gateJobName m n; msg = msg_probing m n
      in bnd (attempt (get_job_uncached r name)) (\<lambda>got. case got of
           Inl e \<Rightarrow>
             if is_not_found e
             then seq (createGateJob r n) (seq (probing r msg) (held_for r retryGateInterval))
             else raise e
         | Inr j \<Rightarrow>
             if j_deleting j then seq (probing r msg) (held_for r retryGateInterval)
             else if \<not> fst (jobFinished j) then
               bnd (podWaitDetail r (ByControllerUid (j_uid j))) (\<lambda>detail.
                 seq (if detail \<noteq> []
                      then setHold r ReasonProbeFailed (''The pod of probe Job '' @ name @ '' cannot start: '' @
                             go_truncate detail maxDetailLen)
                      else probing r msg)
                   (held_for r retryGateInterval))
             else judgeProbe r j msg)))"

definition retryGate_pass :: "reconciler \<Rightarrow> int32 \<Rightarrow> (result \<times> bool) act" where
  "retryGate_pass r n = with_m (\<lambda>m.
     bnd (if onFailurePath m then bnd (currentTime r)
            (\<lambda>now. if verdictOverdue (retryGate (status m)) now then decide r RetryGateCounted else ret False)
          else ret False)
       (\<lambda>failed. if failed then ret (Done, False)
          else bnd (blocking_pod r n) (\<lambda>po. case po of
                 Some (p, of_what) \<Rightarrow>
                   seq (setHold r ReasonWorkerPodRemains (msg_pod_remains p of_what n)) (held_for r retryGateInterval)
               | None \<Rightarrow> probe_step r n)))"

end
