(* ===== verification/Compare_Status.thy ===== *)
theory Compare_Status
  imports Kube
begin

text \<open>
  The part of \<^verbatim>\<open>verification.go\<close> that follows a running compare: \<open>readCompareProgress\<close> reads the
  log of a compare, drain or rehearsal Job and keeps its newest progress sample in
  \<open>status.verificationProgress\<close>, one item per kind. \<open>go_duration\<close> is \<^verbatim>\<open>time.Duration.String\<close> of a
  duration rounded to seconds, which two messages print.

  The lemmas: there is never more than one item of a kind when there was none to begin with,
  an item never holds more than 64 tables, and a final sample is not replaced.
\<close>

section \<open>Durations\<close>

definition round_second :: "duration \<Rightarrow> duration" where
  "round_second d =
     (let r = \<bar>d\<bar> mod second
      in if d < 0 then (if r + r < second then d + r else d - second + r)
         else (if r + r < second then d - r else d + second - r))"

text \<open>Whole seconds only: the fraction digits and the sub-second units do not occur.\<close>

definition go_seconds :: "duration \<Rightarrow> string" where
  "go_seconds d =
     (let n = nat (\<bar>d\<bar> div second); s = show_nat (n mod 60) @ ''s''; mi = n div 60
      in (if d < 0 then ''-'' else []) @
         (if mi = 0 then s
          else if mi div 60 = 0 then show_nat (mi mod 60) @ ''m'' @ s
          else show_nat (mi div 60) @ ''h'' @ show_nat (mi mod 60) @ ''m'' @ s))"

definition go_duration :: "duration \<Rightarrow> string" where
  "go_duration d = go_seconds (round_second d)"

section \<open>The item of a kind\<close>

definition compareProgressLogTail :: nat where "compareProgressLogTail = 1000"
definition compareProgressMaxInFlight :: nat where "compareProgressMaxInFlight = 64"

text \<open>\<^verbatim>\<open>time.Duration(ms) * time.Millisecond\<close> is a product of 64-bit integers.\<close>

definition millis :: "int64 \<Rightarrow> duration option" where
  "millis ms = Some (sint (ms * 1000000))"

definition compareProgressFinal :: "migration \<Rightarrow> progress_kind \<Rightarrow> job \<Rightarrow> bool" where
  "compareProgressFinal m kind j =
     (if \<not> fst (jobFinished j) then False
      else case find (\<lambda>p. vp_kind p = kind) (verificationProgress (status m)) of
             None \<Rightarrow> False
           | Some p \<Rightarrow> vp_final p \<and> vp_jobName p = j_name j \<and>
               (case vp_observedAt p of None \<Rightarrow> False | Some t \<Rightarrow> jobFinishedAt j < t))"

definition in_flight_item :: "compare_in_flight_table \<Rightarrow> table_progress" where
  "in_flight_item t = \<lparr>tp_schema = ct_schema t, tp_name = ct_name t,
     tp_bytes = Some (new_quantity (ct_bytes t)), tp_elapsed = millis (ct_elapsedMs t)\<rparr>"

definition progress_item :: "progress_kind \<Rightarrow> job \<Rightarrow> time \<Rightarrow> compare_progress \<Rightarrow> verification_progress" where
  "progress_item kind j at p =
     \<lparr>vp_kind = kind, vp_jobName = j_name j, vp_observedAt = Some at, vp_final = Final p,
      vp_plannedTables = PlannedTables p, vp_comparedTables = ComparedTables p,
      vp_plannedBytes = Some (new_quantity (PlannedBytes p)),
      vp_comparedBytes = Some (new_quantity (ComparedBytes p)), vp_comparedRows = ComparedRows p,
      vp_differingTables = DifferingTables p, vp_failedTables = FailedTables p,
      vp_elapsed = millis (ElapsedMs p),
      vp_inFlight = map in_flight_item (take compareProgressMaxInFlight (InFlight p))\<rparr>"

fun put_item :: "verification_progress \<Rightarrow> verification_progress list \<Rightarrow> verification_progress list" where
  "put_item item [] = [item]"
| "put_item item (p # ps) = (if vp_kind p = vp_kind item then item # ps else p # put_item item ps)"

definition recordCompareProgress :: "reconciler \<Rightarrow> progress_kind \<Rightarrow> job \<Rightarrow> string \<Rightarrow> unit act" where
  "recordCompareProgress r kind j tail = with_m (\<lambda>m.
     if compareProgressFinal m kind j then ret ()
     else case LastCompareProgress tail of
            None \<Rightarrow> ret ()
          | Some p \<Rightarrow> bnd (currentTime r) (\<lambda>now. set_status (\<lambda>st.
              st\<lparr>verificationProgress := put_item (progress_item kind j now p) (verificationProgress st)\<rparr>)))"

definition dropCompareProgress :: "progress_kind \<Rightarrow> unit act" where
  "dropCompareProgress kind = set_status (\<lambda>st.
     st\<lparr>verificationProgress := filter (\<lambda>p. vp_kind p \<noteq> kind) (verificationProgress st)\<rparr>)"

text \<open>The clock is read only for the error of a finished Job's log.\<close>

definition read_again :: "reconciler \<Rightarrow> job \<Rightarrow> bool act" where
  "read_again r j =
     (if fst (jobFinished j)
      then bnd (currentTime r) (\<lambda>now. ret (now < jobFinishedAt j + failedLogGrace)) else ret False)"

definition readCompareProgress :: "reconciler \<Rightarrow> progress_kind \<Rightarrow> job \<Rightarrow> string act" where
  "readCompareProgress r kind j = with_m (\<lambda>m.
     if \<not> with_logs r \<or> compareProgressFinal m kind j then ret []
     else bnd (attempt (readJobLog r (j_name j)
                 (if fst (jobFinished j) then verifyLogTail else compareProgressLogTail))) (\<lambda>res.
       case res of
         Inl e \<Rightarrow> bnd (read_again r j) (\<lambda>again.
           if again then raise (Wrapped (''reading the compare progress of Job '' @ j_name j) e)
           else seq (recordCompareProgress r kind j []) (ret []))
       | Inr tail \<Rightarrow> seq (recordCompareProgress r kind j tail) (ret tail)))"

section \<open>The items\<close>

definition items_ok :: "migration \<Rightarrow> bool" where
  "items_ok m \<longleftrightarrow> distinct (map vp_kind (verificationProgress (status m))) \<and>
     (\<forall>p \<in> set (verificationProgress (status m)). length (vp_inFlight p) \<le> 64)"

lemma put_item_kinds:
  "map vp_kind (put_item item ps) =
     (if vp_kind item \<in> vp_kind ` set ps then map vp_kind ps else map vp_kind ps @ [vp_kind item])"
  by (induction ps) auto

lemma put_item_distinct: "distinct (map vp_kind ps) \<Longrightarrow> distinct (map vp_kind (put_item item ps))"
  by (simp add: put_item_kinds)

lemma put_item_set: "set (put_item item ps) \<subseteq> insert item (set ps)"
  by (induction ps) auto

lemma find_put_item: "find (\<lambda>p. vp_kind p = vp_kind item) (put_item item ps) = Some item"
  by (induction ps) auto

lemma progress_item_kind [simp]: "vp_kind (progress_item kind j at p) = kind"
  by (simp add: progress_item_def)

lemma progress_item_bound: "length (vp_inFlight (progress_item kind j at p)) \<le> 64"
  by (simp add: progress_item_def compareProgressMaxInFlight_def)

lemma put_item_ok:
  "items_ok m \<Longrightarrow> items_ok (upd_status (\<lambda>st. st\<lparr>verificationProgress :=
     put_item (progress_item kind j at p) (verificationProgress st)\<rparr>) m)"
  using put_item_set [of "progress_item kind j at p" "verificationProgress (status m)"]
  by (auto simp: items_ok_def put_item_distinct progress_item_bound)

lemma drop_items_ok:
  "items_ok m \<Longrightarrow> items_ok (upd_status (\<lambda>st. st\<lparr>verificationProgress :=
     filter (\<lambda>p. vp_kind p \<noteq> kind) (verificationProgress st)\<rparr>) m)"
  by (auto simp: items_ok_def distinct_map inj_on_def)

lemma recordCompareProgress_items_ok:
  "items_ok (mig s) \<Longrightarrow> wp (recordCompareProgress r kind j tail) (\<lambda>_ t. items_ok (mig t)) s"
  by (auto simp: recordCompareProgress_def set_status_def wp_simps put_item_ok split: option.splits)

lemma readCompareProgress_items_ok:
  "items_ok (mig s) \<Longrightarrow> wp (readCompareProgress r kind j) (\<lambda>_ t. items_ok (mig t)) s"
  by (auto simp: readCompareProgress_def readJobLog_def read_again_def recordCompareProgress_def set_status_def
      wp_simps put_item_ok split: option.splits sum.splits)

lemma recordCompareProgress_final:
  "compareProgressFinal (mig s) kind j \<Longrightarrow> recordCompareProgress r kind j tail s = (Inr (), s)"
  by (simp add: recordCompareProgress_def with_m_def ret_def)

text \<open>Only the log is read.\<close>

lemma only_readJobLog [keeps_intros]:
  "(\<And>q x. P (ReadLogs q x)) \<Longrightarrow> keeps (only P) (readJobLog r name n)"
  unfolding readJobLog_def by (intro keeps_intros)

lemma only_jobLogTail [keeps_intros]:
  "(\<And>q x. P (ReadLogs q x)) \<Longrightarrow> keeps (only P) (jobLogTail r name n)"
  unfolding jobLogTail_def by (intro keeps_intros)

lemma only_recordCompareProgress [keeps_intros]:
  "(\<And>t. P (Clock t)) \<Longrightarrow> keeps (only P) (recordCompareProgress r kind j tail)"
  unfolding recordCompareProgress_def by (intro keeps_intros)

lemma only_dropCompareProgress [keeps_intros]: "keeps (only P) (dropCompareProgress kind)"
  unfolding dropCompareProgress_def by (intro keeps_intros)

lemma only_readCompareProgress [keeps_intros]:
  "(\<And>q x. P (ReadLogs q x)) \<Longrightarrow> (\<And>t. P (Clock t)) \<Longrightarrow> keeps (only P) (readCompareProgress r kind j)"
  unfolding readCompareProgress_def read_again_def by (intro keeps_intros)

end
