(* ===== verification/Rehearsal.thy ===== *)
theory Rehearsal
  imports Retry_Gate Compare_Status
begin

text \<open>
  \<^verbatim>\<open>rehearsal.go\<close>: the verification rehearsal, one \<^verbatim>\<open>compare data\<close> Job beside a streaming worker.
  Its state is \<open>status.verificationRehearsal\<close>: \<open>rh_armed\<close> keeps a run from starting twice for one
  change of the request, \<open>rh_outcome\<close> is Running from start to end of a run.

  The Jobs a rehearsal creates are stated in theory \<open>Pass_Calls\<close>.
\<close>

definition rehearsalRequested :: "migration \<Rightarrow> bool" where
  "rehearsalRequested m = (case verification (spec m) of None \<Rightarrow> False | Some v \<Rightarrow> vo_rehearsal v)"

definition armed :: "migration \<Rightarrow> bool" where
  "armed m = (case verificationRehearsal (status m) of None \<Rightarrow> False | Some st \<Rightarrow> rh_armed st)"

definition set_rehearsal :: "(rehearsal_status \<Rightarrow> rehearsal_status) \<Rightarrow> unit act" where
  "set_rehearsal f = set_status (\<lambda>st. st\<lparr>verificationRehearsal := map_option f (verificationRehearsal st)\<rparr>)"

definition empty_rehearsal :: rehearsal_status where
  "empty_rehearsal = \<lparr>rh_armed = False, rh_run = 0, rh_jobName = [], rh_startedAt = None,
     rh_completedAt = None, rh_outcome = RehearsalUnset, rh_message = []\<rparr>"

definition rehearsalNotStarted :: "string \<Rightarrow> unit act" where
  "rehearsalNotStarted why = set_status (\<lambda>st. st\<lparr>verificationRehearsal := Some
     ((case verificationRehearsal st of None \<Rightarrow> empty_rehearsal | Some rh \<Rightarrow> rh)\<lparr>rh_message := why\<rparr>)\<rparr>)"

definition lastLines :: "string \<Rightarrow> nat \<Rightarrow> string" where
  "lastLines s n = (let lines = split_on newline s in join (drop (length lines - n) lines) [newline])"

text \<open>The Job, or \<open>None\<close> once the API server, and not only the cache, has none.\<close>

definition rehearsalJob :: "reconciler \<Rightarrow> string \<Rightarrow> job option act" where
  "rehearsalJob r name = bnd (attempt (get_job r name)) (\<lambda>res.
     bnd (case res of
            Inr j \<Rightarrow> ret (Inr j)
          | Inl e \<Rightarrow> if is_not_found e then attempt (get_job_uncached r name) else ret (Inl e))
       (\<lambda>final. case final of
          Inr j \<Rightarrow> ret (Some j)
        | Inl e \<Rightarrow> if is_not_found e then ret None else raise e))"

definition deleteRehearsalJob :: "reconciler \<Rightarrow> string \<Rightarrow> unit act" where
  "deleteRehearsalJob r name = ignore_not_found (delete_job r Foreground name)"

section \<open>Recording a run\<close>

definition rehearsal_took :: "time option \<Rightarrow> time option \<Rightarrow> string" where
  "rehearsal_took started completed = (case (started, completed) of
       (Some a, Some b) \<Rightarrow> '' in '' @ go_duration (b - a)
     | _ \<Rightarrow> [])"

definition record_job :: "job \<Rightarrow> string \<Rightarrow> rehearsal_status \<Rightarrow> rehearsal_status" where
  "record_job j tail st0 =
     (let st = st0\<lparr>rh_startedAt := j_startTime j\<rparr>; (done, ok) = jobFinished j
      in if \<not> done then st
         else let st = st\<lparr>rh_completedAt := statusTime (jobFinishedAt j)\<rparr>
           in if \<not> ok then
                (let detail = go_truncate (LastErrorLine (lastLines tail workerLogTail)) maxDetailLen
                 in st\<lparr>rh_outcome := RehearsalFailed,
                       rh_message := ''rehearsal Job '' @ j_name j @ '' wrote no compare report: '' @ failureReason j @
                         (if detail \<noteq> [] then ''; last error: '' @ detail else [])\<rparr>)
              else st\<lparr>rh_outcome := RehearsalCompleted,
                      rh_message := ''pgcopydb compare data finished'' @
                        rehearsal_took (rh_startedAt st) (rh_completedAt st) @
                        '' while the migration streamed; tables that differ are expected then and are no verdict''\<rparr>)"

definition recordRehearsal :: "job \<Rightarrow> string \<Rightarrow> unit act" where
  "recordRehearsal j tail = with_m (\<lambda>m. case verificationRehearsal (status m) of
       None \<Rightarrow> raise NilDeref
     | Some st \<Rightarrow> set_rehearsal (record_job j tail))"

definition observeRehearsal :: "reconciler \<Rightarrow> unit act" where
  "observeRehearsal r = with_m (\<lambda>m. case verificationRehearsal (status m) of
       None \<Rightarrow> raise NilDeref
     | Some st \<Rightarrow>
         if rh_outcome st \<noteq> RehearsalRunning then ret ()
         else bnd (rehearsalJob r (rh_jobName st)) (\<lambda>jo. case jo of
           None \<Rightarrow> bnd (currentTime r) (\<lambda>now. set_rehearsal (\<lambda>st. st\<lparr>rh_outcome := RehearsalFailed,
               rh_message := ''rehearsal Job '' @ rh_jobName st @ '' was deleted before it finished'',
               rh_completedAt := statusTime now\<rparr>))
         | Some j \<Rightarrow> bnd (readCompareProgress r VerificationProgressRehearsal j) (recordRehearsal j)))"

section \<open>Canceling\<close>

definition end_canceled :: "reconciler \<Rightarrow> string \<Rightarrow> (rehearsal_status \<Rightarrow> rehearsal_status) \<Rightarrow> unit act" where
  "end_canceled r reason f =
     seq (set_rehearsal (\<lambda>st. (f st)\<lparr>rh_outcome := RehearsalCanceled, rh_message := ''canceled: '' @ reason\<rparr>))
       (bnd (currentTime r) (\<lambda>now. set_rehearsal (\<lambda>st. st\<lparr>rh_completedAt := statusTime now\<rparr>)))"

definition cancelRecordedRehearsal :: "reconciler \<Rightarrow> string \<Rightarrow> unit act" where
  "cancelRecordedRehearsal r reason = with_m (\<lambda>m. case verificationRehearsal (status m) of
       None \<Rightarrow> ret ()
     | Some st \<Rightarrow>
         if rh_outcome st \<noteq> RehearsalRunning then ret ()
         else bnd (rehearsalJob r (rh_jobName st)) (\<lambda>jo. case jo of
           None \<Rightarrow> end_canceled r reason (\<lambda>st. st)
         | Some j \<Rightarrow>
             if fst (jobFinished j) then
               bnd (attempt (readCompareProgress r VerificationProgressRehearsal j))
                 (\<lambda>res. recordRehearsal j (read_text res))
             else seq (do_when (\<not> j_deleting j) (deleteRehearsalJob r (j_name j)))
                   (end_canceled r reason (\<lambda>st. st\<lparr>rh_startedAt := j_startTime j\<rparr>))))"

definition live_rehearsal :: "migration \<Rightarrow> job \<Rightarrow> bool" where
  "live_rehearsal m j \<longleftrightarrow> \<not> fst (jobFinished j) \<and> \<not> j_deleting j \<and> has_prefix (j_name j) (rehearsal_prefix m)"

definition cancelRehearsal :: "reconciler \<Rightarrow> string \<Rightarrow> unit act" where
  "cancelRehearsal r reason =
     seq (cancelRecordedRehearsal r reason)
       (with_m (\<lambda>m. bnd (list_jobs_uncached r)
          (each (\<lambda>j. do_when (live_rehearsal m j) (deleteRehearsalJob r (j_name j))))))"

section \<open>Starting\<close>

definition next_run :: "migration \<Rightarrow> int32" where
  "next_run m = (case verificationRehearsal (status m) of None \<Rightarrow> 1 | Some prev \<Rightarrow> rh_run prev + 1)"

definition startRehearsal :: "reconciler \<Rightarrow> unit act" where
  "startRehearsal r = with_m (\<lambda>m.
     (let run = next_run m; name = rehearsalJobName m run
      in seq (case verificationRehearsal (status m) of
                None \<Rightarrow> ret ()
              | Some prev \<Rightarrow> do_when (rh_jobName prev \<noteq> [] \<and> rh_jobName prev \<noteq> name)
                               (deleteRehearsalJob r (rh_jobName prev)))
          (bnd (ensureJob r name (\<lambda>m. buildRehearsalJob m (RunnerImage r) run)) (\<lambda>_.
            seq (dropCompareProgress VerificationProgressRehearsal)
              (set_status (\<lambda>st. st\<lparr>verificationRehearsal := Some
                 \<lparr>rh_armed = True, rh_run = run, rh_jobName = name, rh_startedAt = None,
                  rh_completedAt = None, rh_outcome = RehearsalRunning,
                  rh_message = ''pgcopydb compare data runs as Job '' @ name @ '' while the migration streams''\<rparr>\<rparr>))))))"

definition disarm :: "reconciler \<Rightarrow> unit act" where
  "disarm r = bnd (rehearsalPod r) (\<lambda>po. case po of
       Some p \<Rightarrow> ret ()
     | None \<Rightarrow> set_rehearsal (\<lambda>st. st\<lparr>rh_armed := False\<rparr>))"

definition reconcileRehearsal :: "reconciler \<Rightarrow> unit act" where
  "reconcileRehearsal r = with_m (\<lambda>m.
     if \<not> rehearsalRequested m then
       (if \<not> armed m then ret ()
        else seq (cancelRehearsal r ''spec.verification.rehearsal was set to false'') (disarm r))
     else if phase (status m) = PhaseCuttingOver then cancelRehearsal r ''the cutover started''
     else if armed m then observeRehearsal r
     else if phase (status m) \<noteq> PhaseStreaming \<and> phase (status m) \<noteq> PhaseCutoverPending then ret ()
     else if cut_mode (cutover (spec m)) = CutoverAutomatic then
       rehearsalNotStarted (''no run starts: a rehearsal needs spec.cutover.mode Manual, '' @
         ''because an Automatic cutover starts at catch-up and cancels it'')
     else bnd (attempt (startRehearsal r)) (\<lambda>res. case res of
         Inr u \<Rightarrow> ret ()
       | Inl e \<Rightarrow> seq (rehearsalNotStarted (''the next run did not start, the operator retries: '' @
                          go_truncate (err_text e) maxDetailLen)) (raise e)))"

section \<open>Before the drain verification\<close>

definition drainWaitsForRehearsal :: "reconciler \<Rightarrow> bool act" where
  "drainWaitsForRehearsal r = with_m (\<lambda>m.
     (let cur = find_c r m ConditionCutoverComplete;
          waited = (case cur of None \<Rightarrow> False | Some c \<Rightarrow> c_reason c = ReasonRehearsalPodRemains)
      in if (case cur of None \<Rightarrow> False | Some c \<Rightarrow> c_status c = ConditionTrue) then ret False
         else bnd (rehearsalPod r) (\<lambda>po. case po of
           None \<Rightarrow>
             seq (do_when waited (set_status (\<lambda>st. st\<lparr>conditions :=
                    remove_cond r ConditionCutoverComplete (conditions st)\<rparr>)))
               (ret False)
         | Some p \<Rightarrow>
             (let msg = ''The drain verification waits for pod '' @ pd_name p @
                    '' of the canceled verification rehearsal, which is '' @ podState p @ '' on node '' @
                    podNode p @ '', because its scans would stretch the write-downtime window''
              in seq (do_when (\<not> waited) (event True ''RehearsalPodRemains'' ''Cutover'' msg))
                  (seq (setCondition r ConditionCutoverComplete ConditionUnknown ReasonRehearsalPodRemains msg)
                    (ret True))))))"

end
