(* ===== verification/Reown.thy ===== *)
theory Reown
  imports Retry_Gate Compare_Status
begin

text \<open>
  The Go side of \<^verbatim>\<open>reown.go\<close>: the ownership handover Job (\<open>spec.clone.ownerAfterRestore\<close>). The
  finished Job is the stage's memory. \<open>reownGate\<close> ends the pass (\<open>Some\<close>) while the Job runs or
  when it failed; \<open>None\<close> lets the caller go on.

  The Jobs the stage creates are stated in theory \<open>Pass_Calls\<close>.
\<close>

definition reown_failed :: "migration \<Rightarrow> string \<Rightarrow> string" where
  "reown_failed m failNote =
     ''the data is on the target and only the ownership handover to '' @ owner_after_restore (clone (spec m)) @
     '' failed. The handover is re-runnable and may be partly applied; finish it by hand with the statements in the log of Job '' @
     reownJobName m @ '', see docs/troubleshooting.md'' @ failNote"

text \<open>Done, and the failure message.\<close>

definition ensureReown :: "reconciler \<Rightarrow> string \<Rightarrow> (bool \<times> string) act" where
  "ensureReown r failNote = with_m (\<lambda>m.
     (let owner = owner_after_restore (clone (spec m))
      in bnd (ensureJob r (reownJobName m) (\<lambda>m. buildReownJob m (RunnerImage r))) (\<lambda>(jo, created).
           seq (do_when created (event False ''OwnershipStarted'' ''Reown''
                 (''handing the restored objects to role '' @ owner @ '' as Job '' @ reownJobName m)))
             (case (case jo of None \<Rightarrow> (False, False) | Some j \<Rightarrow> jobFinished j) of
                (done, ok) \<Rightarrow>
                  if \<not> done then
                    seq (setCondition r ConditionOwnershipApplied ConditionUnknown ReasonOwnershipRunning
                           (''ownership handover Job '' @ reownJobName m @ '' is running''))
                      (ret (False, []))
                  else if ok then
                    seq (with_m (\<lambda>m. do_when (\<not> is_true r m ConditionOwnershipApplied)
                           (event False ''OwnershipApplied'' ''Reown'' (''restored objects now owned by '' @ owner))))
                      (seq (setCondition r ConditionOwnershipApplied ConditionTrue ReasonOwnershipApplied
                              (''restored objects now owned by '' @ owner))
                        (ret (True, [])))
                  else bnd (jobLogTail r (reownJobName m) preflightLogTail) (\<lambda>tail.
                    ret (False, reown_failed m failNote @ (if tail \<noteq> [] then '':'' @ [newline] @ tail else [])))))))"

definition reownGate :: "reconciler \<Rightarrow> migration_phase \<Rightarrow> string \<Rightarrow> result option act" where
  "reownGate r running failNote = with_m (\<lambda>m.
     if \<not> reownRequested m then ret None
     else bnd (ensureReown r failNote) (\<lambda>(done, failMsg).
       if failMsg \<noteq> [] then
         seq (setCondition r ConditionOwnershipApplied ConditionFalse ReasonOwnershipFailed failMsg)
           (seq (fail_with r ReasonOwnershipFailed ''Reown'' failMsg)
             (seq (updateStatus r) (ret (Some Done))))
       else if \<not> done then
         seq (set_status (\<lambda>st. st\<lparr>phase := running\<rparr>))
           (seq (updateStatus r) (ret (Some (RequeueAfter pollInterval))))
       else ret None))"

definition reownJobExists :: "reconciler \<Rightarrow> bool act" where
  "reownJobExists r = with_m (\<lambda>m.
     if \<not> reownRequested m then ret False
     else bnd (attempt (get_job r (reownJobName m))) (\<lambda>res. case res of
         Inr j \<Rightarrow> ret True
       | Inl e \<Rightarrow> if is_not_found e then ret False else raise e))"

end
