(* ===== verification/Verification.thy ===== *)
theory Verification
  imports Reown Progress_Sample
begin

text \<open>
  \<^verbatim>\<open>verification.go\<close>: the end of a clone-only Migration (\<open>finishClone\<close>) and the compare checks of
  either kind (\<open>ensureVerification\<close>), one Job per check in a fixed order, re-derived from the Jobs
  on every pass. The catalog check that stands between the worker's exit 0 and CloneCompleted
  is \<open>ensureCatalogCheck\<close>; the counters come from a finished Job's log (\<open>cloneProgressFromLog\<close>).

  What \<open>ensureVerification\<close> leaves in the status when it is done is in theory \<open>Outcomes\<close>.
\<close>

section \<open>Copy counters from a log\<close>

text \<open>\<open>verify_Job_progress_prefix\<close> is \<^verbatim>\<open>verifyProgressPrefix\<close> of \<^verbatim>\<open>resources.go\<close>.\<close>

definition verifyProgressPrefix :: string where
  "verifyProgressPrefix = ''clone-progress: ''"

definition first_progress :: "string \<Rightarrow> (err + clone_progress) option" where
  "first_progress tail =
     (case concat (map (\<lambda>l. option_list (cut_prefix l verifyProgressPrefix)) (split_on newline tail)) of
        [] \<Rightarrow> None
      | raw # _ \<Rightarrow> Some (ParseListProgress raw))"

definition cloneProgressFromLog :: "string \<Rightarrow> bool act" where
  "cloneProgressFromLog tail = (case first_progress tail of
       Some (Inr cp) \<Rightarrow> seq (set_status (\<lambda>st. st\<lparr>progress := Some cp\<rparr>)) (ret True)
     | _ \<Rightarrow> ret False)"

definition recordCloneProgress :: "reconciler \<Rightarrow> string \<Rightarrow> bool act" where
  "recordCloneProgress r name =
     (if \<not> with_logs r then ret False
      else bnd (jobLogTail r name verifyLogTail) cloneProgressFromLog)"

definition progressGate :: "reconciler \<Rightarrow> string" where
  "progressGate r = (if with_progress r then gate_script r else [])"

section \<open>The catalog check\<close>

text \<open>The tables owed, once checked.\<close>

definition ensureCatalogCheck :: "reconciler \<Rightarrow> string \<Rightarrow> int64 option act" where
  "ensureCatalogCheck r gate = with_m (\<lambda>m.
     bnd (ensureJob r (catalogJobName m) (\<lambda>m. buildCatalogJob m (RunnerImage r) gate)) (\<lambda>(jo, created).
       case jo of
         None \<Rightarrow> ret None
       | Some j \<Rightarrow>
           if \<not> fst (jobFinished j) then ret None
           else bnd (recordCloneProgress r (j_name j)) (\<lambda>found.
             if \<not> found then ret (Some 0)
             else with_m (\<lambda>m1. case progress (status m1) of
                 None \<Rightarrow> raise NilDeref
               | Some p \<Rightarrow> ret (Some (cp_tablesTotal p - cp_tablesDone p))))))"

section \<open>The compare checks\<close>

definition verificationRequested :: "migration \<Rightarrow> bool" where
  "verificationRequested m = (case verification (spec m) of None \<Rightarrow> False | Some v \<Rightarrow> vo_schema v \<or> vo_data v)"

definition enabledChecks :: "migration \<Rightarrow> string list" where
  "enabledChecks m = (case verification (spec m) of None \<Rightarrow> []
     | Some v \<Rightarrow> (if vo_schema v then [compareSchema] else []) @ (if vo_data v then [compareData] else []))"

definition verdict_of :: "string \<Rightarrow> job \<Rightarrow> verification_result" where
  "verdict_of check j = \<lparr>vr_check = check, vr_passed = snd (jobFinished j), vr_startedAt = j_startTime j,
     vr_completedAt = statusTime (jobFinishedAt j)\<rparr>"

text \<open>One check: true once its Job finished and its verdict is recorded.\<close>

definition check_once :: "reconciler \<Rightarrow> string \<Rightarrow> bool act" where
  "check_once r check = with_m (\<lambda>m.
     bnd (ensureJob r (compareJobName m check) (\<lambda>m. buildCompareJob m (RunnerImage r) check)) (\<lambda>(jo, created).
       case jo of
         None \<Rightarrow>
           seq (setCondition r ConditionVerified ConditionUnknown ReasonVerificationRunning
                  (''pgcopydb compare '' @ check @ '' running''))
            (seq (do_when created
                   (seq (event False ''VerificationStarted'' ''Verify'' (''running pgcopydb compare '' @ check))
                     (do_when (check = compareData) (dropCompareProgress VerificationProgressData))))
              (ret False))
       | Some j \<Rightarrow>
           seq (do_when (check = compareData)
                  (bnd (readCompareProgress r VerificationProgressData j) (\<lambda>_. ret ())))
             (if \<not> fst (jobFinished j) then ret False
              else seq (set_status (\<lambda>st. st\<lparr>verification_results := verification_results st @ [verdict_of check j]\<rparr>))
                     (ret True))))"

fun check_all :: "reconciler \<Rightarrow> string list \<Rightarrow> bool act" where
  "check_all r [] = ret True"
| "check_all r (c # cs) = bnd (check_once r c) (\<lambda>done. if done then check_all r cs else ret False)"

definition mismatched :: "migration \<Rightarrow> string list" where
  "mismatched m = map vr_check (filter (\<lambda>v. \<not> vr_passed v) (verification_results (status m)))"

text \<open>Go prints a string slice with \<^verbatim>\<open>%v\<close> in brackets, its elements apart by a blank.\<close>

definition mismatch_message :: "string list \<Rightarrow> string" where
  "mismatch_message checks = ''pgcopydb compare reported differences (['' @ join checks '' '' @
     '']); details are in the compare Job logs. The transfer itself finished; on a follow migration, '' @
     ''writes reaching the target after cutover also show up here''"

definition report_checks :: "reconciler \<Rightarrow> unit act" where
  "report_checks r = with_m (\<lambda>m. case mismatched m of
       [] \<Rightarrow>
         seq (setCondition r ConditionVerified ConditionTrue ReasonComparePassed
                ''pgcopydb compare found source and target matching'')
           (event False ''Verified'' ''Verify'' ''pgcopydb compare found source and target matching'')
     | c # cs \<Rightarrow>
         seq (setCondition r ConditionVerified ConditionFalse
                (if c = compareSchema then ReasonSchemaMismatch else ReasonDataMismatch) (mismatch_message (c # cs)))
           (event True ''VerificationMismatch'' ''Verify'' (mismatch_message (c # cs))))"

definition ensureVerification :: "reconciler \<Rightarrow> bool act" where
  "ensureVerification r = with_m (\<lambda>m.
     if \<not> verificationRequested m then ret True
     else seq (set_status (\<lambda>st. st\<lparr>phase := PhaseVerifying, verification_results := []\<rparr>))
            (bnd (check_all r (enabledChecks m)) (\<lambda>done.
              if done then seq (report_checks r) (ret True) else ret False)))"

section \<open>The end of a clone\<close>

definition incomplete_message :: "clone_progress option \<Rightarrow> string" where
  "incomplete_message po = (case po of None \<Rightarrow> [] | Some p \<Rightarrow>
     ''pgcopydb exited 0 but its catalog counts '' @ show_int (sint (cp_tablesDone p)) @ '' of '' @
     show_int (sint (cp_tablesTotal p)) @ '' tables done; do not use the target as a complete copy'')"

text \<open>\<^verbatim>\<open>now := metav1.Now()\<close> and the final status of either kind of Migration.\<close>

definition complete :: "reconciler \<Rightarrow> string \<Rightarrow> string \<Rightarrow> result act" where
  "complete r cond_message note =
     bnd (currentTime r) (\<lambda>now.
       seq (set_status (\<lambda>st. st\<lparr>completedAt := Some now, phase := PhaseCompleted\<rparr>))
        (seq (setCondition r ConditionComplete ConditionTrue ReasonMigrationSucceeded cond_message)
          (seq (event False ''Completed'' ''Complete'' note)
            (finish r Done))))"

text \<open>Without the catalog, or with CloneCompleted True already, nothing is owed.\<close>

definition owed_by_catalog :: "reconciler \<Rightarrow> int64 option act" where
  "owed_by_catalog r = with_m (\<lambda>m.
     if is_true r m ConditionCloneCompleted \<or> all_databases (clone (spec m)) \<or> progressGate r = []
     then ret (Some 0) else ensureCatalogCheck r (progressGate r))"

definition finish_copied :: "reconciler \<Rightarrow> result act" where
  "finish_copied r =
     seq (setCondition r ConditionCloneCompleted ConditionTrue ReasonCloneSucceeded ''pgcopydb clone finished'')
      (bnd (reownGate r PhaseFinalizing []) (\<lambda>handled. case handled of
         Some res \<Rightarrow> ret res
       | None \<Rightarrow> bnd (ensureVerification r) (\<lambda>done.
           if \<not> done then finish r (RequeueAfter pollInterval)
           else complete r ''migration finished'' ''pgcopydb clone finished'')))"

definition finishClone :: "reconciler \<Rightarrow> result act" where
  "finishClone r = bnd (owed_by_catalog r) (\<lambda>owed. case owed of
       None \<Rightarrow> finish r (RequeueAfter pollInterval)
     | Some n \<Rightarrow>
         if 0 < sint n then with_m (\<lambda>m.
           (let msg = incomplete_message (progress (status m))
            in seq (setCondition r ConditionCloneCompleted ConditionFalse ReasonCloneIncomplete msg)
                (seq (fail_with r ReasonCloneIncomplete ''Fail'' msg) (finish r Done))))
         else finish_copied r)"

end
