(* ===== verification/Follow.thy ===== *)
theory Follow
  imports Rehearsal Verification
begin

text \<open>
  \<^verbatim>\<open>follow.go\<close>: live migrations. \<open>reconcileFollowRunning\<close> reads the sentinel of the running worker,
  publishes the stream's position, and freezes the stream when the cutover is wanted and the
  lag was measured below the threshold in two consecutive samples. \<open>finishFollow\<close> runs after the
  worker exited 0: drain verification, handover, cleanup of the slot, compare checks, Complete.
  \<open>reconcileDeletion\<close> holds the finalizer until the cleanup has run.

  The rules of the stream are in theory \<open>Stream_Rules\<close>, the order of drain and cleanup in
  \<open>Drain_Gate\<close>, the deletion in \<open>Pass_Guards\<close>.
\<close>

definition finalizerName :: string where
  "finalizerName = ''pgcopydb-operator.io/cleanup''"

definition defaultMaxCatchupLag :: int64 where
  "defaultMaxCatchupLag = push_bit 20 16"

definition maxCatchupLagBytes :: "migration \<Rightarrow> int64" where
  "maxCatchupLagBytes m = (case follow (spec m) of
       None \<Rightarrow> defaultMaxCatchupLag
     | Some f \<Rightarrow> (case fo_max_catchup_lag f of None \<Rightarrow> defaultMaxCatchupLag | Some q \<Rightarrow> q_value q))"

definition cutoverWanted :: "migration \<Rightarrow> bool \<Rightarrow> bool" where
  "cutoverWanted m caughtUp =
     (case cut_mode (cutover (spec m)) of
        CutoverAutomatic \<Rightarrow> caughtUp
      | _ \<Rightarrow> cut_approved (cutover (spec m)) \<and> caughtUp)"

definition ensureFinalizer :: "reconciler \<Rightarrow> unit act" where
  "ensureFinalizer r = with_m (\<lambda>m.
     if \<not> followEnabled m \<or> has_finalizer r (m_finalizers m) finalizerName then ret ()
     else patch_meta r True (\<lambda>m. m\<lparr>m_finalizers := add_finalizer r finalizerName (m_finalizers m)\<rparr>))"

section \<open>The running stream\<close>

text \<open>What a sample did not read keeps the previous status.\<close>

definition carry :: "replication_status option \<Rightarrow> replication_status \<Rightarrow> replication_status" where
  "carry po rs = (case po of None \<Rightarrow> rs | Some prev \<Rightarrow>
     rs\<lparr>rs_endpos := (if rs_endpos rs = [] then rs_endpos prev else rs_endpos rs),
        rs_replayLSN := (if rs_replayLSN rs = [] then rs_replayLSN prev else rs_replayLSN rs),
        rs_lagBytes := (case rs_lagBytes rs of None \<Rightarrow> rs_lagBytes prev | Some l \<Rightarrow> Some l)\<rparr>)"

definition lag_below :: "migration \<Rightarrow> replication_status \<Rightarrow> bool" where
  "lag_below m rs = (case rs_lagBytes rs of None \<Rightarrow> False | Some l \<Rightarrow> sint l \<le> sint (maxCatchupLagBytes m))"

definition caughtUp :: "reconciler \<Rightarrow> migration \<Rightarrow> replication_status \<Rightarrow> bool" where
  "caughtUp r m rs \<longleftrightarrow> lag_below m rs \<and> lagSeenBelow r m"

definition report_lag :: "reconciler \<Rightarrow> bool \<Rightarrow> bool \<Rightarrow> unit act" where
  "report_lag r caught below =
     (if caught then setCondition r ConditionCaughtUp ConditionTrue ReasonLagBelowThreshold
        ''replication lag is below spec.follow.maxCatchupLag''
      else if below then setCondition r ConditionCaughtUp ConditionFalse ReasonConfirmingCatchUp
        ''one sample measured the lag below spec.follow.maxCatchupLag; CaughtUp turns true when the next one agrees''
      else setCondition r ConditionCaughtUp ConditionFalse ReasonLagging
        ''replication lag is above spec.follow.maxCatchupLag or unknown'')"

definition set_phase :: "migration_phase \<Rightarrow> unit act" where
  "set_phase p = set_status (\<lambda>st. st\<lparr>phase := p\<rparr>)"

definition set_endpos_current :: "reconciler \<Rightarrow> string \<Rightarrow> string act" where
  "set_endpos_current r name = call (\<lambda>t. set_endpos_reply r t name) (SentinelSetEndpos name)"

definition nudge_endpos :: "reconciler \<Rightarrow> string \<Rightarrow> unit act" where
  "nudge_endpos r name = with_m (\<lambda>m. do_when (phase (status m) = PhaseCuttingOver)
     (bnd (attempt (call (\<lambda>t. nudge_reply r t name) (SentinelNudge name))) (\<lambda>_. ret ())))"

definition start_cutover :: "reconciler \<Rightarrow> string \<Rightarrow> unit act" where
  "start_cutover r name = bnd (attempt (set_endpos_current r name)) (\<lambda>res. case res of
       Inl e \<Rightarrow> event True ''CutoverRetry'' ''Cutover'' (''setting endpos failed, retrying: '' @ err_text e)
     | Inr lsn \<Rightarrow>
         seq (do_when (EndposSet lsn) (set_status (\<lambda>st. st\<lparr>replication :=
                map_option (\<lambda>rs. rs\<lparr>rs_endpos := lsn\<rparr>) (replication st)\<rparr>)))
          (seq (set_phase PhaseCuttingOver)
            (seq (event False ''CutoverStarted'' ''Cutover'' (''stream frozen at endpos '' @ lsn @ '', draining''))
              (nudge_endpos r name))))"

text \<open>The stream is acted on once the base copy is confirmed.\<close>

definition drive_stream :: "reconciler \<Rightarrow> string \<Rightarrow> replication_status \<Rightarrow> unit act" where
  "drive_stream r name rs =
     seq (setCondition r ConditionStreaming ConditionTrue ReasonReplaying
            ''logical replication is applying changes'')
      (seq (set_phase PhaseStreaming)
        (with_m (\<lambda>m.
          (let caught = caughtUp r m rs
           in seq (report_lag r caught (lag_below m rs))
               (if EndposSet (rs_endpos rs) then seq (set_phase PhaseCuttingOver) (nudge_endpos r name)
                else if cutoverWanted m caught then start_cutover r name
                else seq (do_when caught (set_phase PhaseCutoverPending)) (nudge_endpos r name))))))"

definition sentinel_read :: "reconciler \<Rightarrow> string \<Rightarrow> string \<Rightarrow> Sentinel.state option act" where
  "sentinel_read r name slot = call (\<lambda>t. sentinel_read_reply r t name slot) (SentinelRead name slot)"

definition reconcileFollowRunning :: "reconciler \<Rightarrow> string \<Rightarrow> bool \<Rightarrow> unit act" where
  "reconcileFollowRunning r name cloneDone = with_m (\<lambda>m.
     if \<not> with_sentinel r then ret ()
     else bnd (attempt (sentinel_read r name (effectiveSlotName m))) (\<lambda>res. case res of
         Inl e \<Rightarrow> ret ()
       | Inr None \<Rightarrow> ret ()
       | Inr (Some st) \<Rightarrow>
           (let rs = carry (replication (status m)) (ToStatus st (effectiveSlotName m))
            in seq (set_status (\<lambda>ms. ms\<lparr>replication := Some rs\<rparr>))
                (if \<not> cloneDone then ret () else drive_stream r name rs))))"

section \<open>Preflight, drain verification and cleanup Jobs\<close>

text \<open>Passed, and the failure message; neither while the check runs.\<close>

definition preflight_failure :: "reconciler \<Rightarrow> job \<Rightarrow> (bool \<times> string) act" where
  "preflight_failure r j = bnd (attempt (readJobLog r (j_name j) preflightLogTail)) (\<lambda>res.
     case res of
       Inl e \<Rightarrow>
         bnd (if with_logs r then bnd (currentTime r) (\<lambda>now. ret (now < jobFailedAt j + failedLogGrace)) else ret False)
           (\<lambda>again.
             if again then raise (Wrapped (''reading the log of preflight Job '' @ j_name j) e)
             else ret (False, ''preflight failed; the check output was not readable ('' @
                    go_truncate (err_text e) maxDetailLen @ ''), inspect the logs of Job '' @ j_name j))
     | Inr tail \<Rightarrow>
         if tail = [] then ret (False, ''preflight failed; Job '' @ j_name j @ '' printed no check output'')
         else ret (False, ''preflight failed:'' @ [newline] @ tail))"

definition ensurePreflight :: "reconciler \<Rightarrow> (bool \<times> string) act" where
  "ensurePreflight r = with_m (\<lambda>m.
     bnd (ensureJob r (preflightJobName m) (\<lambda>m. buildPreflightJob m (RunnerImage r))) (\<lambda>(jo, created).
       seq (do_when created (event False ''PreflightStarted'' ''Preflight''
             (''running preflight checks as Job '' @ preflightJobName m)))
         (case jo of
            None \<Rightarrow> ret (False, [])
          | Some j \<Rightarrow>
              if \<not> fst (jobFinished j) then ret (False, [])
              else if snd (jobFinished j) then ret (True, [])
              else preflight_failure r j)))"

datatype drain = DrainRunning | DrainVerified | DrainRefuted

definition drain_counters :: "reconciler \<Rightarrow> job \<Rightarrow> unit act" where
  "drain_counters r j = do_when (with_logs r)
     (bnd (jobLogTail r (j_name j) verifyLogTail) (\<lambda>tail.
       bnd (cloneProgressFromLog tail) (\<lambda>_.
         recordCompareProgress r VerificationProgressDrain j tail)))"

definition ensureVerify :: "reconciler \<Rightarrow> drain act" where
  "ensureVerify r = with_m (\<lambda>m.
     bnd (ensureJob r (verifyJobName m) (\<lambda>m. buildVerifyJob m (RunnerImage r) (progressGate r))) (\<lambda>(jo, created).
       seq (do_when created (dropCompareProgress VerificationProgressDrain))
         (case jo of
            None \<Rightarrow> ret DrainRunning
          | Some j \<Rightarrow>
              if \<not> fst (jobFinished j) then
                bnd (attempt (readCompareProgress r VerificationProgressDrain j)) (\<lambda>_. ret DrainRunning)
              else seq (drain_counters r j)
                     (ret (if snd (jobFinished j) then DrainVerified else DrainRefuted)))))"

text \<open>\<^verbatim>\<open>%q\<close> of printable ASCII, which slot names are.\<close>

definition quoted :: "string \<Rightarrow> string" where
  "quoted s = [CHR 0x22] @ concat (map (\<lambda>c. if c \<in> {CHR 0x22, CHR 0x5C} then [CHR 0x5C, c] else [c]) s) @ [CHR 0x22]"

definition ensureCleanup :: "reconciler \<Rightarrow> bool act" where
  "ensureCleanup r = with_m (\<lambda>m.
     bnd (attempt (ensureJob r (cleanupJobName m) (\<lambda>m. buildCleanupJob m (RunnerImage r)))) (\<lambda>res. case res of
       Inl e \<Rightarrow>
         if api_kind_of e = Some (Forbidden True) then
           seq (event True ''CleanupFailed'' ''Cleanup''
                 (''namespace '' @ m_namespace m @ '' is terminating, so the cleanup Job could not be created; '' @
                  ''a source inside this namespace is deleted with it, but a source outside it may retain replication slot '' @
                  quoted (effectiveSlotName m) @ '' and needs manual removal''))
             (ret True)
         else raise e
     | Inr (jo, created) \<Rightarrow>
         seq (do_when created (event False ''CleanupStarted'' ''Cleanup''
               ''dropping replication slot, publication, and origin''))
           (case jo of
              None \<Rightarrow> ret False
            | Some j \<Rightarrow>
                if \<not> fst (jobFinished j) then ret False
                else seq (do_when (\<not> snd (jobFinished j)) (event True ''CleanupFailed'' ''Cleanup''
                       (''stream cleanup failed after retries; the replication slot '' @
                        quoted (effectiveSlotName m) @
                        '' may be leaking WAL on the source and needs manual removal'')))
                  (ret True))))"

section \<open>After the worker's exit 0\<close>

definition refute_drain :: "reconciler \<Rightarrow> result act" where
  "refute_drain r =
     seq (setCondition r ConditionCutoverComplete ConditionFalse ReasonDrainIncomplete
           (''drain verification did not show the target holding every change below endpos; the replication slot '' @
            ''is kept so the data is recoverable, and it retains WAL on the source until resolved''))
      (seq (fail_with r ReasonDrainIncomplete ''Verify''
             ''cutover drain verification refuted completeness; do not switch applications to the target'')
        (finish r Done))"

definition after_handover :: "reconciler \<Rightarrow> result act" where
  "after_handover r =
     seq (setCondition r ConditionCutoverComplete ConditionTrue ReasonDrainVerified
            ''drain verified on the target; changes applied up to endpos, sequences synced'')
      (bnd (ensureCleanup r) (\<lambda>cleaned.
        if \<not> cleaned then finish r (RequeueAfter pollInterval)
        else bnd (ensureVerification r) (\<lambda>checked.
          if \<not> checked then finish r (RequeueAfter pollInterval)
          else complete r ''live migration finished'' ''live migration finished'')))"

definition slot_kept_note :: string where
  "slot_kept_note = ''; the replication slot is kept, so the migration stays recoverable. '' @
     ''Deleting the Migration runs the cleanup Job and releases the slot''"

definition finishFollow :: "reconciler \<Rightarrow> result act" where
  "finishFollow r =
     seq (with_m (\<lambda>m. do_when (\<not> tablesEmptySeen r m)
            (setCondition r ConditionCloneCompleted ConditionTrue ReasonBaseCopyDone ''base copy finished'')))
      (seq (set_phase PhaseCuttingOver)
        (seq (cancelRehearsal r ''the cutover started'')
          (bnd (drainWaitsForRehearsal r) (\<lambda>wait.
            if wait then finish r (RequeueAfter pollInterval)
            else bnd (ensureVerify r) (\<lambda>d. case d of
                DrainRefuted \<Rightarrow> refute_drain r
              | DrainRunning \<Rightarrow> finish r (RequeueAfter pollInterval)
              | DrainVerified \<Rightarrow> bnd (reownGate r PhaseCuttingOver slot_kept_note) (\<lambda>handled. case handled of
                    Some res \<Rightarrow> ret res
                  | None \<Rightarrow> after_handover r))))))"

section \<open>Deletion\<close>

definition release_finalizer :: "reconciler \<Rightarrow> result act" where
  "release_finalizer r =
     seq (patch_meta r True (\<lambda>m. m\<lparr>m_finalizers := remove_finalizer r finalizerName (m_finalizers m)\<rparr>))
       (with_m (\<lambda>m. seq (gauges (Forget (m_namespace m) (m_name m))) (ret Done)))"

text \<open>True: a live worker was there and is being deleted.\<close>

definition stop_worker :: "reconciler \<Rightarrow> bool act" where
  "stop_worker r = with_m (\<lambda>m.
     if jobName (status m) = [] then ret False
     else bnd (attempt (get_job r (jobName (status m)))) (\<lambda>res. case res of
         Inr w \<Rightarrow> if j_deleting w then ret False
                  else seq (ignore_not_found (delete_job r Foreground (jobName (status m)))) (ret True)
       | Inl e \<Rightarrow> ret False))"

definition reconcileDeletion :: "reconciler \<Rightarrow> result act" where
  "reconcileDeletion r =
     seq (cancelRehearsal r ''the Migration is being deleted'')
      (with_m (\<lambda>m.
        if \<not> has_finalizer r (m_finalizers m) finalizerName then
          seq (gauges (Forget (m_namespace m) (m_name m))) (ret Done)
        else if 0 < sint (attempts (status m)) then
          bnd (stop_worker r) (\<lambda>stopping.
            if stopping then ret (RequeueAfter pollInterval)
            else bnd (ensureCleanup r) (\<lambda>done.
              if \<not> done then ret (RequeueAfter pollInterval) else release_finalizer r))
        else release_finalizer r))"

end
