(* ===== verification/Observe.thy ===== *)
theory Observe
  imports Follow
begin

text \<open>
  A pass that finds a running worker (\<^verbatim>\<open>observeRunningJob\<close> of \<^verbatim>\<open>migration_controller.go\<close>) and
  \<open>applyCommitsBlocked\<close> of \<^verbatim>\<open>syncrep.go\<close>: one log read, one sample of both databases, the
  conditions they give, the follow step, the rehearsal step, the status patch, and the removal
  of a zombie worker. The debug timings of the source are left out; of its clock reads those
  that a value depends on are kept.

  The table of CommitsBlocked and the confirmation of the base copy are in theory \<open>Outcomes\<close>.
\<close>

section \<open>Samples\<close>

text \<open>The pass's own sample carries no confirmation of a SyncRep wait.\<close>

definition own_sample :: "reconciler \<Rightarrow> string \<Rightarrow> sampler_hint \<Rightarrow> sampled act" where
  "own_sample r name hint = with_m (\<lambda>m. bnd (currentTime r) (\<lambda>at.
     bnd (attempt (call (\<lambda>t. progress_reply r t name) (ProgressSample name))) (\<lambda>res.
       (let s = (case res of Inr s \<Rightarrow> s | Inl e \<Rightarrow> None);
            seen = (case s of None \<Rightarrow> False | Some x \<Rightarrow> CopyStarted x);
            got = \<lparr>sm_sample = s, sm_err = (case res of Inr _ \<Rightarrow> None | Inl e \<Rightarrow> Some e), sm_at = at,
                   sm_copySeen = seen, sm_syncRepConfirmed = False\<rparr>
        in seq (gauges (recordSizes (m_namespace m, m_name m) s (sh_copyStarted hint \<or> seen)))
            (seq (gauges (RecordSyncRepWaits (m_namespace m) (m_name m) (syncRepWait s)))
              (ret got))))))"

definition sampler_observe :: "reconciler \<Rightarrow> string \<Rightarrow> sampler_hint \<Rightarrow> sampled option act" where
  "sampler_observe r name hint = call (\<lambda>t. Inr (observe_reply r t name hint)) (SamplerObserve name hint)"

definition sampler_sample_now :: "reconciler \<Rightarrow> string \<Rightarrow> sampled act" where
  "sampler_sample_now r name = call (\<lambda>t. Inr (sample_now_reply r t name)) (SamplerSampleNow name)"

definition progressSample :: "reconciler \<Rightarrow> string \<Rightarrow> bool \<Rightarrow> sampled act" where
  "progressSample r name now = with_m (\<lambda>m.
     if \<not> with_progress r then ret no_sampled
     else (let hint = hintFor r m
           in bnd (if with_sampler r then sampler_observe r name hint else ret None) (\<lambda>got. case got of
                Some g \<Rightarrow> if now then sampler_sample_now r name else ret g
              | None \<Rightarrow> own_sample r name hint)))"

section \<open>What a sample tells\<close>

definition blocked_message :: "sync_rep_wait \<Rightarrow> string" where
  "blocked_message w = ''target sessions of the migration role waiting for synchronous replication: '' @
     show_int (sint (Waiting w)) @ '', '' @ show_int (sint (PgcopydbNamed w)) @ '' of them pgcopydb's, the oldest for '' @
     show_int (sint (OldestSeconds w)) @ ''s; their commits wait until a synchronous standby confirms them''"

definition applyCommitsBlocked :: "reconciler \<Rightarrow> sampled \<Rightarrow> unit act" where
  "applyCommitsBlocked r got = with_m (\<lambda>m.
     if sm_at got = zero_time then ret ()
     else case syncRepWait (sm_sample got) of
         None \<Rightarrow> do_when (\<not> is_true r m ConditionCommitsBlocked)
           (setCondition r ConditionCommitsBlocked ConditionUnknown ReasonSyncRepUnobserved
             ''the last progress sample could not read the target's synchronous replication waits'')
       | Some w \<Rightarrow>
           if sm_syncRepConfirmed got then
             seq (do_when (\<not> is_true r m ConditionCommitsBlocked)
                   (event True ''CommitsBlocked'' ''Sample'' (go_truncate (blocked_message w) maxDetailLen)))
               (setCondition r ConditionCommitsBlocked ConditionTrue ReasonSyncRepWait (blocked_message w))
           else do_when (\<not> syncRepOver (Some w))
             (setCondition r ConditionCommitsBlocked ConditionFalse ReasonNoSyncRepWait
               (''no target session of the migration role has waited '' @ go_duration syncRepThreshold @
                '' or more for synchronous replication'')))"

definition applyStage :: "reconciler \<Rightarrow> progress_sample \<Rightarrow> bool \<Rightarrow> unit act" where
  "applyStage r s started =
     seq (with_m (\<lambda>m. do_when (started \<and> cond_false r (conditions (status m)) ConditionCloneCompleted \<and>
              \<not> tablesEmptySeen r m)
            (setCondition r ConditionCloneCompleted ConditionFalse ReasonCopyingData
              ''base copy started, pgcopydb's copy workers reached the target'')))
       (with_m (\<lambda>m. if Copying s then set_phase PhaseCloning
                   else do_when (Finalizing s \<and> copySeen r m) (set_phase PhaseFinalizing)))"

definition counted :: "relation_counts \<Rightarrow> time \<Rightarrow> clone_progress" where
  "counted c at = \<lparr>cp_tablesTotal = TablesTotal c, cp_tablesDone = TablesDone c,
     cp_indexesTotal = IndexesTotal c, cp_indexesDone = IndexesDone c,
     cp_bytesTotal = Some (new_quantity (BytesTotal c)), cp_bytesDone = Some (new_quantity (BytesDone c)),
     cp_observedAt = Some at\<rparr>"

definition applyCounts :: "relation_counts \<Rightarrow> time \<Rightarrow> unit act" where
  "applyCounts c at = set_status (\<lambda>st. st\<lparr>progress := Some (counted c at)\<rparr>)"

definition empty_tables_message :: "relation_counts \<Rightarrow> string" where
  "empty_tables_message c =
     ''pgcopydb logged the base copy finished, but '' @ show_int (sint (TablesTotal c - TablesDone c)) @ '' of '' @
     show_int (sint (TablesTotal c)) @ '' in-scope tables hold rows on the source and none on the target'' @
     (if EmptyOnTarget c \<noteq> [] then '': '' @ go_truncate (EmptyOnTarget c) maxDetailLen else []) @
     ''; the copy is not reported complete until a sample finds a row in each of them''"

definition tables_owed :: "relation_counts option \<Rightarrow> bool" where
  "tables_owed co = (case co of None \<Rightarrow> False | Some c \<Rightarrow> sint (TablesDone c) < sint (TablesTotal c))"

definition confirmBaseCopy :: "reconciler \<Rightarrow> relation_counts option \<Rightarrow> bool act" where
  "confirmBaseCopy r co = with_m (\<lambda>m.
     case co of
       Some c \<Rightarrow>
         if tables_owed co then
           seq (do_when (\<not> tablesEmptySeen r m)
                  (event True ''TablesEmptyOnTarget'' ''Clone'' (empty_tables_message c)))
            (seq (setCondition r ConditionCloneCompleted ConditionFalse ReasonTablesEmptyOnTarget (empty_tables_message c))
              (ret False))
         else seq (setCondition r ConditionCloneCompleted ConditionTrue ReasonBaseCopyDone
                    ''base copy finished (worker logged clone completion), replaying changes'') (ret True)
     | None \<Rightarrow>
         if tablesEmptySeen r m then ret False
         else seq (setCondition r ConditionCloneCompleted ConditionTrue ReasonBaseCopyDone
                    ''base copy finished (worker logged clone completion), replaying changes'') (ret True))"

section \<open>Zombies\<close>

definition reapZombieWorker :: "reconciler \<Rightarrow> string \<Rightarrow> string \<Rightarrow> result option act" where
  "reapZombieWorker r name raw = with_m (\<lambda>m.
     if \<not> followEnabled m \<or> raw = [] then ret None
     else case SupervisorDeath raw of
         None \<Rightarrow> ret None
       | Some died \<Rightarrow> bnd (currentTime r) (\<lambda>now.
           if now - died < zombieGrace then ret (Some (RequeueAfter pollInterval))
           else seq (deleteJobPods r name)
             (seq (event True ''WorkerZombie'' ''Reap''
                    (''pgcopydb supervisor died but a child process kept the pod alive (upstream defect); '' @
                     ''worker pod removed so the normal retry path resumes the migration''))
               (ret (Some (RequeueAfter pollInterval))))))"

section \<open>The pass\<close>

definition activePollDelay :: "reconciler \<Rightarrow> time \<Rightarrow> duration act" where
  "activePollDelay r start = bnd (currentTime r) (\<lambda>now.
     ret (let delay = pollInterval - (now - start) in if delay \<le> 0 then 1 else delay))"

definition follow_log :: "reconciler \<Rightarrow> string \<Rightarrow> string act" where
  "follow_log r name = with_m (\<lambda>m.
     if followEnabled m \<and> with_logs r then
       bnd (attempt (call (\<lambda>t. read_logs_reply r t (TimestampLogs name zombieLogTail))
              (ReadLogs (TimestampLogs name zombieLogTail)))) (\<lambda>res. ret (read_text res))
     else ret [])"

definition judge_marker :: "reconciler \<Rightarrow> migration \<Rightarrow> string \<Rightarrow> bool" where
  "judge_marker r m logTail \<longleftrightarrow> followEnabled m \<and> \<not> is_true r m ConditionCloneCompleted \<and>
     (CloneDone logTail \<or> tablesEmptySeen r m)"

definition apply_sample :: "reconciler \<Rightarrow> sampled \<Rightarrow> unit act" where
  "apply_sample r got =
     seq (applyCommitsBlocked r got)
       (case sm_sample got of
          None \<Rightarrow> ret ()
        | Some s \<Rightarrow> seq (applyStage r s (sm_copySeen got))
            (case Counts s of None \<Rightarrow> ret () | Some c \<Rightarrow> applyCounts c (sm_at got)))"

definition sample_counts :: "sampled \<Rightarrow> relation_counts option" where
  "sample_counts got = (case sm_sample got of None \<Rightarrow> None | Some s \<Rightarrow> Counts s)"

text \<open>A failed rehearsal step must not stop the worker's observation.\<close>

definition follow_step :: "reconciler \<Rightarrow> string \<Rightarrow> bool \<Rightarrow> unit act" where
  "follow_step r name cloneDone = with_m (\<lambda>m. do_when (followEnabled m)
     (seq (reconcileFollowRunning r name cloneDone)
       (bnd (attempt (reconcileRehearsal r)) (\<lambda>_. ret ()))))"

definition attempt_runs :: "migration \<Rightarrow> string \<Rightarrow> string" where
  "attempt_runs m name = ''Attempt '' @ itoa (attempts (status m)) @ '' runs as Job '' @ name"

definition after_sample :: "reconciler \<Rightarrow> string \<Rightarrow> string \<Rightarrow> time \<Rightarrow> result act" where
  "after_sample r name logTail start =
     seq (with_m (\<lambda>m. endHold r ReasonGatePassed (attempt_runs m name)))
      (seq (updateStatus r)
        (bnd (reapZombieWorker r name logTail) (\<lambda>handled. case handled of
           Some res \<Rightarrow> ret res
         | None \<Rightarrow> seq (deleteStrayProbes r)
             (bnd (activePollDelay r start) (\<lambda>d. ret (RequeueAfter d))))))"

definition observeRunningJob :: "reconciler \<Rightarrow> string \<Rightarrow> time \<Rightarrow> result act" where
  "observeRunningJob r name start = bnd (follow_log r name) (\<lambda>logTail. with_m (\<lambda>m.
     (let judge = judge_marker r m logTail
      in bnd (progressSample r name judge) (\<lambda>got.
         seq (apply_sample r got)
          (bnd (if judge then confirmBaseCopy r (sample_counts got)
                else ret (is_true r m ConditionCloneCompleted)) (\<lambda>cloneDone.
            seq (follow_step r name cloneDone) (after_sample r name logTail start)))))))"

end
