(* ===== verification/Attempts.thy ===== *)
theory Attempts
  imports Observe
begin

text \<open>
  The attempts of the worker (\<^verbatim>\<open>migration_controller.go\<close>): the objects it needs, the preflight before
  the first attempt, starting an attempt, recording it, judging a failed one, suspending.

  What stands before a worker is in theory \<open>Worker_Start\<close>, how an attempt spends the budget in
  \<open>Budget_Machine\<close>, when one must start in \<open>First_Attempt\<close>.
\<close>

section \<open>Owned objects\<close>

fun owned_name :: "owned_object \<Rightarrow> string" where
  "owned_name (OwnedPVC p) = pvc_name p"
| "owned_name (OwnedConfigMap c) = cm_name c"

fun owned_kind :: "owned_object \<Rightarrow> string" where
  "owned_kind (OwnedPVC p) = ''PersistentVolumeClaim''"
| "owned_kind (OwnedConfigMap c) = ''ConfigMap''"

text \<open>\<open>GetOwned\<close> answers whether this Migration controls the object of that name.\<close>

definition createStrictlyOwned :: "reconciler \<Rightarrow> owned_object \<Rightarrow> unit act" where
  "createStrictlyOwned r obj =
     bnd (attempt (call (\<lambda>t. create_owned_reply r t obj) (CreateOwned obj))) (\<lambda>res. case res of
       Inr u \<Rightarrow> ret ()
     | Inl e \<Rightarrow>
         if \<not> is_already_exists e then raise e
         else bnd (call (\<lambda>t. get_owned_reply r t (owned_name obj)) (GetOwned (owned_name obj))) (\<lambda>mine.
           if mine then ret ()
           else raise (ErrMsg (owned_kind obj @ '' '' @ quoted (owned_name obj) @
                  '' exists but belongs to another owner (stale object awaiting garbage collection?)''))))"

definition ensureOwned :: "reconciler \<Rightarrow> unit act" where
  "ensureOwned r = with_m (\<lambda>m.
     seq (set_owner r (workPVCName m))
      (seq (createStrictlyOwned r (OwnedPVC (buildWorkPVC m)))
        (case buildFiltersConfigMap m of
           None \<Rightarrow> ret ()
         | Some cm \<Rightarrow> seq (set_owner r (cm_name cm)) (createStrictlyOwned r (OwnedConfigMap cm)))))"

definition newer_pod :: "string \<Rightarrow> pod option \<Rightarrow> pod \<Rightarrow> pod option" where
  "newer_pod claim newest p =
     (if pd_node p \<noteq> [] \<and> claim \<in> set (pd_claims p) \<and>
         (case newest of None \<Rightarrow> True | Some q \<Rightarrow> pd_created q < pd_created p)
      then Some p else newest)"

definition set_annotation :: "string \<Rightarrow> string \<Rightarrow> migration \<Rightarrow> migration" where
  "set_annotation k v m = m\<lparr>m_annotations := (k, v) # filter (\<lambda>kv. fst kv \<noteq> k) (m_annotations m)\<rparr>"

definition recordWorkNode :: "reconciler \<Rightarrow> unit act" where
  "recordWorkNode r = with_m (\<lambda>m. bnd (attempt (list_pods r ByManaged)) (\<lambda>res. case res of
       Inl e \<Rightarrow> ret ()
     | Inr pods \<Rightarrow> (case foldl (newer_pod (workPVCName m)) None pods of
           None \<Rightarrow> ret ()
         | Some p \<Rightarrow>
             if lookup (m_annotations m) annotationWorkNode = pd_node p then ret ()
             else bnd (attempt (patch_meta r False (set_annotation annotationWorkNode (pd_node p)))) (\<lambda>_. ret ()))))"

section \<open>The preflight\<close>

definition lines_after :: "string \<Rightarrow> string \<Rightarrow> string list" where
  "lines_after pre tail = concat (map (\<lambda>l. option_list (cut_prefix l pre)) (split_on newline tail))"

definition emit_bundle :: "string \<Rightarrow> string \<Rightarrow> string list \<Rightarrow> unit act" where
  "emit_bundle reason action stmts = do_when (stmts \<noteq> [])
     (event False reason action (go_truncate (join stmts [newline]) remediatedNoteLen))"

definition preflight_summary :: "nat \<Rightarrow> nat \<Rightarrow> nat \<Rightarrow> string" where
  "preflight_summary checks grants would =
     (if 0 < would then show_nat checks @ '' checks passed, '' @ show_nat would @ '' grants would be applied''
      else if 0 < checks \<or> 0 < grants then show_nat checks @ '' checks passed, '' @ show_nat grants @ '' grants applied''
      else ''all preflight checks passed'')"

text \<open>The prefixes exclude each other, so each of the five lists is a filter of its own.\<close>

definition emitPreflightOutcome :: "reconciler \<Rightarrow> unit act" where
  "emitPreflightOutcome r = with_m (\<lambda>m.
     bnd (jobLogTail r (preflightJobName m) preflightOkLogTail) (\<lambda>tail.
       (let warns = lines_after warnPrefix tail;
            clone = lines_after remPrefixClone tail; follow = lines_after remPrefixFollow tail;
            wouldClone = lines_after wouldPrefixClone tail; wouldFollow = lines_after wouldPrefixFollow tail
        in seq (do_when (warns \<noteq> []) (event True ''PreflightWarning'' ''Preflight''
                  (go_truncate (join warns [newline]) maxDetailLen)))
            (seq (emit_bundle ''PreflightRemediated'' ''RemediateClone'' clone)
              (seq (emit_bundle ''PreflightRemediated'' ''RemediateFollow'' follow)
                (seq (emit_bundle ''PreflightWouldRemediate'' ''RemediateClone'' wouldClone)
                  (seq (emit_bundle ''PreflightWouldRemediate'' ''RemediateFollow'' wouldFollow)
                    (event False ''PreflightPassed'' ''Preflight''
                      (preflight_summary (length (lines_after ''ok: '' tail)) (length clone + length follow)
                        (length wouldClone + length wouldFollow))))))))))"

definition preflightGate :: "reconciler \<Rightarrow> result option act" where
  "preflightGate r = with_m (\<lambda>m.
     if attempts (status m) \<noteq> 0 then ret None
     else bnd (ensurePreflight r) (\<lambda>(ok, failMsg).
       if failMsg \<noteq> [] then
         seq (setCondition r ConditionValidated ConditionFalse ReasonPreflightFailed failMsg)
          (seq (fail_with r ReasonPreflightFailed ''Preflight'' failMsg)
            (seq (updateStatus r) (ret (Some Done))))
       else if \<not> ok then
         bnd (podWaitDetail r (ByJobName (preflightJobName m))) (\<lambda>detail.
           seq (setCondition r ConditionValidated ConditionUnknown ReasonPreflightRunning
                 (if detail \<noteq> [] then ''preflight Job '' @ preflightJobName m @ '' cannot start: '' @
                    go_truncate detail maxDetailLen
                  else ''preflight Job '' @ preflightJobName m @ '' is running''))
             (seq (set_phase PhaseValidating)
               (seq (updateStatus r) (ret (Some (RequeueAfter pollInterval))))))
       else seq (with_m (\<lambda>m. do_when (\<not> is_true r m ConditionValidated) (emitPreflightOutcome r)))
              (ret None)))"

section \<open>Recording an attempt\<close>

definition held_note :: "reconciler \<Rightarrow> string act" where
  "held_note r = with_m (\<lambda>m. case find_c r m ConditionRetryHeld of
       None \<Rightarrow> ret []
     | Some held \<Rightarrow>
         if c_status held \<noteq> ConditionTrue then ret []
         else bnd (currentTime r) (\<lambda>now.
           ret (''; the retry gate held it for '' @ go_duration (max (now - c_transition held) 0))))"

definition exempt_note :: "migration \<Rightarrow> string" where
  "exempt_note m = (case retryGate (status m) of
       None \<Rightarrow> []
     | Some rg \<Rightarrow> if rg_exemption rg = RetryGateExempt
         then ''; attempt '' @ itoa (rg_failedAttempt rg) @ '' did not count against backoffLimit: its sessions '' @
              ''waited for synchronous replication''
         else [])"

definition set_started :: "reconciler \<Rightarrow> unit act" where
  "set_started r = with_m (\<lambda>m. do_when (startedAt (status m) = None)
     (bnd (currentTime r) (\<lambda>now. set_status (\<lambda>st. st\<lparr>startedAt := Some now\<rparr>))))"

definition recordAttempt :: "reconciler \<Rightarrow> string \<Rightarrow> bool \<Rightarrow> result act" where
  "recordAttempt r name announce = with_m (\<lambda>m0.
     (let n = attempts (status m0) + 1
      in bnd (held_note r) (\<lambda>held.
         (let note = ''attempt '' @ itoa n @ '' as Job '' @ name @ held @ exempt_note m0
          in seq (set_started r)
              (seq (set_m (\<lambda>m. upd_status (\<lambda>st. st\<lparr>attempts := n, jobName := name, phase := attemptPhase r m\<rparr>) m))
                (seq (with_m (\<lambda>m. do_when (\<not> is_true r m ConditionCloneCompleted)
                        (setCondition r ConditionCloneCompleted ConditionFalse ReasonCloneRunning
                          (''attempt '' @ itoa n @ '' running as Job '' @ name))))
                  (seq (do_when (1 < sint n)
                          (seq (set_status (\<lambda>st. st\<lparr>retryGate := None\<rparr>))
                            (setCondition r ConditionRetryHeld ConditionFalse ReasonGatePassed
                              (''Attempt '' @ itoa n @ '' runs as Job '' @ name))))
                    (seq (do_when announce (event False ''AttemptStarted'' ''StartAttempt'' note))
                      (seq (updateStatus r)
                        (seq (do_when (1 < sint n) (deleteGateJob r n))
                          (ret (RequeueAfter pollInterval))))))))))))"

section \<open>Starting an attempt\<close>

text \<open>The worker's Job: created, or found to exist already.\<close>

definition create_worker :: "reconciler \<Rightarrow> int32 \<Rightarrow> result act" where
  "create_worker r n = with_m (\<lambda>m.
     bnd (lift_sum (buildJob (snapshotLost r m) m (RunnerImage r) n)) (\<lambda>j.
       seq (set_owner r (j_name j))
         (bnd (attempt (create_job r j)) (\<lambda>made. case made of
            Inr u \<Rightarrow> recordAttempt r (j_name j) True
          | Inl e \<Rightarrow> if is_already_exists e then recordAttempt r (j_name j) False else raise e))))"

definition gate_and_settle :: "reconciler \<Rightarrow> int32 \<Rightarrow> result act" where
  "gate_and_settle r n = bnd (retryGate_pass r n) (\<lambda>(res, pass).
     if \<not> pass then ret res
     else bnd (settleBudget r) (\<lambda>failed. if failed then ret Done else create_worker r n))"

text \<open>A worker of this attempt that an earlier pass created and did not record.\<close>

definition unrecorded_worker :: "reconciler \<Rightarrow> int32 \<Rightarrow> job option act" where
  "unrecorded_worker r n = with_m (\<lambda>m.
     if \<not> 1 < sint n then ret None
     else bnd (attempt (get_job_uncached r (worker_job_name m n))) (\<lambda>res. case res of
         Inr j \<Rightarrow> ret (Some j)
       | Inl e \<Rightarrow> if is_not_found e then ret None else raise e))"

definition budget_final :: "migration \<Rightarrow> bool" where
  "budget_final m \<longleftrightarrow> (\<not> onFailurePath m \<or> \<not> undecided m) \<and> budgetSpent m"

definition startAttempt :: "reconciler \<Rightarrow> result act" where
  "startAttempt r = with_m (\<lambda>m.
     (let n = attempts (status m) + 1
      in bnd (unrecorded_worker r n) (\<lambda>jo. case jo of
           Some j \<Rightarrow> recordAttempt r (j_name j) False
         | None \<Rightarrow>
             if budget_final m then seq (failBudget r) (finish r Done)
             else if 1 < sint n then gate_and_settle r n
             else create_worker r n)))"

definition nextAttempt :: "reconciler \<Rightarrow> result act" where
  "nextAttempt r =
     seq (cancelRehearsal r ''the worker Job is gone'')
       (bnd (reownJobExists r) (\<lambda>exists. with_m (\<lambda>m.
         if \<not> followEnabled m \<and> (exists \<or> is_true r m ConditionCloneCompleted) then finishClone r
         else if exists then finishFollow r
         else startAttempt r)))"

section \<open>A failed attempt\<close>

text \<open>The terminal cause a log shows: reason, what it is, the line, and the remedy; an empty line is none.\<close>

definition failure_cause :: "string \<Rightarrow> reason \<times> string \<times> string \<times> string" where
  "failure_cause tail =
     (if PermissionDeniedLine tail \<noteq> [] then
        (ReasonPermissionDenied, ''a permission error'', PermissionDeniedLine tail, [])
      else if DiskFullLine tail \<noteq> [] then
        (ReasonDiskFull, ''a full work volume'', DiskFullLine tail, [])
      else if SchemaDriftLine tail \<noteq> [] then
        (ReasonSchemaDrift, ''a missing target column'', SchemaDriftLine tail,
         ''; DDL is not replicated: create a new Migration, which copies the schema from the source again,'' @
         '' and run no DDL during the migration window'')
      else
        (ReasonSnapshotLost, ''a lost copy snapshot'', SnapshotLostLine tail,
         ''; starting over needs spec.clone.dropIfExists because the target holds the earlier attempts' objects:'' @
         '' create a new Migration with spec.clone.dropIfExists: true, or one against an empty target''))"

text \<open>The log of the failed worker, and what to say when it was not readable.\<close>

definition failed_log :: "reconciler \<Rightarrow> job \<Rightarrow> (string \<times> string) act" where
  "failed_log r j = bnd (attempt (readJobLog r (j_name j) workerLogTail)) (\<lambda>res. case res of
       Inr tail \<Rightarrow> ret (tail, [])
     | Inl e \<Rightarrow>
         if \<not> with_logs r then ret ([], [])
         else bnd (currentTime r) (\<lambda>now.
           if now < jobFailedAt j + failedLogGrace
           then raise (Wrapped (''reading the log of worker Job '' @ j_name j) e)
           else ret ([], ''; the pod log was not readable ('' @ go_truncate (err_text e) maxDetailLen @ '')'')))"

definition fail_terminal :: "reconciler \<Rightarrow> reason \<times> string \<times> string \<times> string \<Rightarrow> string \<Rightarrow> result act" where
  "fail_terminal r cause why = (case cause of (terminal, what, line, remedy) \<Rightarrow> with_m (\<lambda>m.
     seq (setCondition r ConditionCloneCompleted ConditionFalse ReasonCloneFailed why)
      (seq (fail_with r terminal ''Fail'' (''attempt '' @ itoa (attempts (status m)) @ '' failed on '' @ what @
              '' retries cannot fix: '' @ go_truncate line maxDetailLen @ remedy))
        (finish r Done))))"

definition announce_retry :: "reconciler \<Rightarrow> bool \<Rightarrow> string \<Rightarrow> unit act" where
  "announce_retry r startOver why = with_m (\<lambda>m.
     (let failed = ''attempt '' @ itoa (attempts (status m)) @ '' failed ('' @ why @ '')''
      in if startOver then
           seq (setCondition r ConditionCloneCompleted ConditionFalse ReasonSnapshotLost
                  (failed @ ''; the next attempt starts over''))
             (event True ''SnapshotLost'' ''Retry'' (failed @
                ''; a retry waits for the retry gate and starts over: it drops the slot and runs --restart --drop-if-exists''))
         else event True ''AttemptFailed'' ''Retry'' (failed @ ''; a retry with --resume waits for the retry gate'')))"

definition failed_at :: "reconciler \<Rightarrow> job \<Rightarrow> time act" where
  "failed_at r j = (if jobFailedAt j = zero_time then currentTime r else ret (jobFailedAt j))"

definition queue_retry :: "reconciler \<Rightarrow> job \<Rightarrow> bool \<Rightarrow> string \<Rightarrow> string \<Rightarrow> result act" where
  "queue_retry r j startOver why tail =
     seq (announce_retry r startOver why)
      (bnd (failed_at r j) (\<lambda>at.
        seq (set_status (\<lambda>st. st\<lparr>retryGate := Some
               \<lparr>rg_failedAttempt = attempts st, rg_failedAt = at, rg_failure = go_truncate why maxDetailLen,
                rg_exemption = RetryGateUndecided, rg_cloneDoneSeen = CloneDone tail\<rparr>\<rparr>))
         (seq (with_m (\<lambda>m. setHold r ReasonGateProbing (''Attempt '' @ itoa (attempts (status m) + 1) @
                 '' waits for the retry gate to probe the target'')))
           (seq (set_status (\<lambda>st. st\<lparr>jobName := []\<rparr>))
             (finish r Requeue)))))"

definition failed_why :: "job \<Rightarrow> string \<Rightarrow> string \<Rightarrow> string" where
  "failed_why j tail unreadable =
     (let detail = go_truncate (LastErrorLine tail) maxDetailLen
      in failureReason j @ unreadable @ (if detail \<noteq> [] then ''; last error: '' @ detail else []))"

definition handleFailedJob :: "reconciler \<Rightarrow> job \<Rightarrow> result act" where
  "handleFailedJob r j =
     seq (with_m (\<lambda>m. cancelRehearsal r (''worker attempt '' @ itoa (attempts (status m)) @ '' failed'')))
      (bnd (failed_log r j) (\<lambda>(tail, unreadable). with_m (\<lambda>m.
        (let why = failed_why j tail unreadable;
             cause = failure_cause tail;
             found = (fst (snd (snd cause)) \<noteq> []);
             startOver = (found \<and> fst cause = ReasonSnapshotLost \<and> drop_if_exists (clone (spec m)))
         in if found \<and> \<not> startOver then fail_terminal r cause why
            else queue_retry r j startOver why tail))))"

section \<open>Suspending\<close>

definition suspend_worker :: "reconciler \<Rightarrow> unit act" where
  "suspend_worker r = with_m (\<lambda>m. do_when (jobName (status m) \<noteq> [])
     (seq (bnd (attempt (get_job r (jobName (status m)))) (\<lambda>res. case res of
            Inl e \<Rightarrow> if is_not_found e then ret () else raise e
          | Inr j \<Rightarrow>
              seq (ignore_not_found (delete_job r Foreground (jobName (status m))))
               (seq (event False ''Suspended'' ''Suspend'' ''worker Job deleted, work volume kept'')
                 (do_when (followEnabled m) (event True ''SlotRetained'' ''Suspend''
                   ''the replication slot stays open while suspended and retains WAL on the source'')))))
       (set_status (\<lambda>st. st\<lparr>jobName := []\<rparr>))))"

definition suspend_preflight :: "reconciler \<Rightarrow> unit act" where
  "suspend_preflight r = with_m (\<lambda>m. do_when (attempts (status m) = 0)
     (bnd (attempt (get_job r (preflightJobName m))) (\<lambda>res. case res of
        Inl e \<Rightarrow> if is_not_found e then ret () else raise e
      | Inr j \<Rightarrow>
          seq (ignore_not_found (delete_job r Background (preflightJobName m)))
            (event False ''Suspended'' ''Suspend'' ''preflight Job deleted; the gate re-runs on resume''))))"

definition suspend_reown :: "reconciler \<Rightarrow> unit act" where
  "suspend_reown r = with_m (\<lambda>m. do_when (reownRequested m)
     (bnd (attempt (get_job r (reownJobName m))) (\<lambda>res. case res of
        Inl e \<Rightarrow> if is_not_found e then ret () else raise e
      | Inr j \<Rightarrow>
          do_when (\<not> fst (jobFinished j))
            (seq (ignore_not_found (delete_job r Foreground (reownJobName m)))
              (seq (setCondition r ConditionOwnershipApplied ConditionUnknown ReasonOwnershipSuspended
                      ''ownership handover stopped by suspend; it re-runs on resume and picks up what is left'')
                (event False ''Suspended'' ''Suspend'' ''ownership handover Job deleted; it re-runs on resume''))))))"

definition reconcileSuspended :: "reconciler \<Rightarrow> result act" where
  "reconcileSuspended r =
     seq (cancelRehearsal r ''spec.suspend stopped the worker'')
      (seq (suspend_worker r)
        (seq (suspend_preflight r)
          (seq (suspend_reown r)
            (with_m (\<lambda>m. seq (deleteGateJob r (attempts (status m) + 1))
              (seq (endHold r ReasonHoldSuspended (''Attempt '' @ itoa (attempts (status m) + 1) @
                     '' waits for a resume: spec.suspend stopped the retry gate''))
                (seq (set_phase PhaseSuspended) (finish r Done))))))))"

end
