(* ===== verification/Reconcile_Pass.thy ===== *)
theory Reconcile_Pass
  imports Attempts
begin

text \<open>
  \<^verbatim>\<open>Reconcile\<close> of \<^verbatim>\<open>migration_controller.go\<close>: one pass from the fetch of the Migration to the
  delay of the next look. \<open>pass_step\<close> is everything up to the observation of a running worker,
  which alone keeps the sampler; every other way out stops it.

  Whole passes are the subject of the theories \<open>Worker_Start\<close>, \<open>Drain_Gate\<close>, \<open>Pass_Guards\<close>,
  \<open>Worker_Count\<close> and \<open>First_Attempt\<close>.
\<close>

datatype step = Finished result | ObserveWorker string

definition get_migration :: "reconciler \<Rightarrow> unit act" where
  "get_migration r = (\<lambda>s.
     (let res = get_migration_reply r (tr s); s1 = s\<lparr>tr := GetMigration res # tr s\<rparr>
      in case res of Inl e \<Rightarrow> (Inl e, s1) | Inr m \<Rightarrow> (Inr (), s1\<lparr>mig := m, pbase := m\<rparr>)))"

definition stopSampling :: "reconciler \<Rightarrow> unit act" where
  "stopSampling r = do_when (with_sampler r) (log_entry SamplerStop)"

definition statusIsEmpty :: "migration \<Rightarrow> bool" where
  "statusIsEmpty m \<longleftrightarrow> status m = empty_status"

definition ended_migration :: "reconciler \<Rightarrow> migration \<Rightarrow> bool" where
  "ended_migration r m \<longleftrightarrow> is_true r m ConditionComplete \<or> is_true r m ConditionFailed"

definition rehearsal_running :: "migration \<Rightarrow> bool" where
  "rehearsal_running m = (case verificationRehearsal (status m) of
       None \<Rightarrow> False | Some st \<Rightarrow> rh_outcome st = RehearsalRunning)"

definition end_pass :: "reconciler \<Rightarrow> result act" where
  "end_pass r = with_m (\<lambda>m.
     if rehearsal_running m then seq (cancelRehearsal r ''the Migration ended'') (finish r Done)
     else seq (gauges (Record (find_cond r) m)) (ret Done))"

definition first_pass :: "reconciler \<Rightarrow> result act" where
  "first_pass r =
     seq (set_m (\<lambda>m. upd_status (\<lambda>st. st\<lparr>phase := PhasePending, observedGeneration := m_generation m\<rparr>) m))
      (seq (patch_status r True)
        (with_m (\<lambda>m. seq (gauges (Record (find_cond r) m)) (ret (RequeueAfter 1)))))"

definition completeDryRun :: "reconciler \<Rightarrow> result act" where
  "completeDryRun r =
     (let msg = ''dry run: preflight passed, no worker Job created''
      in bnd (currentTime r) (\<lambda>now.
           seq (set_status (\<lambda>st. st\<lparr>completedAt := Some now, phase := PhaseCompleted\<rparr>))
            (seq (setCondition r ConditionComplete ConditionTrue ReasonDryRunSucceeded msg)
              (seq (event False ''DryRunSucceeded'' ''Complete'' msg)
                (finish r Done)))))"

definition worker_succeeded :: "reconciler \<Rightarrow> result act" where
  "worker_succeeded r =
     seq (with_m (\<lambda>m. do_when (find_c r m ConditionCommitsBlocked \<noteq> None)
            (setCondition r ConditionCommitsBlocked ConditionFalse ReasonWorkerSucceeded
              ''the worker exited 0, so every commit it sent has returned'')))
       (with_m (\<lambda>m. if followEnabled m then finishFollow r else finishClone r))"

definition finished_step :: "result act \<Rightarrow> step act" where
  "finished_step f = bnd f (\<lambda>res. ret (Finished res))"

definition worker_step :: "reconciler \<Rightarrow> step act" where
  "worker_step r = with_m (\<lambda>m.
     if jobName (status m) = [] then finished_step (nextAttempt r)
     else bnd (attempt (get_job r (jobName (status m)))) (\<lambda>res. case res of
         Inl e \<Rightarrow> if is_not_found e then finished_step (nextAttempt r) else raise e
       | Inr j \<Rightarrow>
           if fst (jobFinished j)
           then finished_step (if snd (jobFinished j) then worker_succeeded r else handleFailedJob r j)
           else ret (ObserveWorker (j_name j))))"

definition gated_step :: "reconciler \<Rightarrow> step act" where
  "gated_step r =
     seq (setCondition r ConditionValidated ConditionTrue ReasonSpecValid
            ''connection and clone options materialize cleanly and the preflight passed'')
      (with_m (\<lambda>m. if dryRun (spec m) then finished_step (completeDryRun r) else worker_step r))"

definition validated_step :: "reconciler \<Rightarrow> step act" where
  "validated_step r =
     seq (ensureFinalizer r)
      (seq (ensureOwned r)
        (seq (recordWorkNode r)
          (bnd (preflightGate r) (\<lambda>handled. case handled of
             Some res \<Rightarrow> ret (Finished res)
           | None \<Rightarrow> gated_step r))))"

definition invalid_spec :: "reconciler \<Rightarrow> string \<Rightarrow> result act" where
  "invalid_spec r msg =
     seq (setCondition r ConditionValidated ConditionFalse ReasonInvalidSpec msg)
      (seq (fail_with r ReasonInvalidSpec ''Validate'' msg) (finish r Done))"

definition live_step :: "reconciler \<Rightarrow> step act" where
  "live_step r = with_m (\<lambda>m.
     if ended_migration r m then finished_step (end_pass r)
     else if statusIsEmpty m then finished_step (first_pass r)
     else if suspend (spec m) then finished_step (reconcileSuspended r)
     else case buildJob (snapshotLost r m) m (RunnerImage r) 1 of
         Inl e \<Rightarrow> finished_step (invalid_spec r (err_text e))
       | Inr j \<Rightarrow> validated_step r)"

definition pass_step :: "reconciler \<Rightarrow> string \<times> string \<Rightarrow> step act" where
  "pass_step r key = bnd (attempt (get_migration r)) (\<lambda>res. case res of
       Inl e \<Rightarrow>
         if is_not_found e
         then seq (stopSampling r) (seq (gauges (Forget (fst key) (snd key))) (ret (Finished Done)))
         else raise e
     | Inr u \<Rightarrow> with_m (\<lambda>m.
         if m_deleting m then seq (stopSampling r) (finished_step (reconcileDeletion r))
         else live_step r))"

definition reconcile :: "reconciler \<Rightarrow> string \<times> string \<Rightarrow> result act" where
  "reconcile r key = bnd (currentTime r) (\<lambda>start. bnd (attempt (pass_step r key)) (\<lambda>step. case step of
       Inl e \<Rightarrow> seq (stopSampling r) (raise e)
     | Inr (Finished res) \<Rightarrow> seq (stopSampling r) (ret res)
     | Inr (ObserveWorker name) \<Rightarrow> observeRunningJob r name start))"

definition Reconcile :: "reconciler \<Rightarrow> string \<times> string \<Rightarrow> result act" where
  "Reconcile r key = bnd (attempt (reconcile r key)) (\<lambda>res. case res of
       Inr x \<Rightarrow> ret x
     | Inl e \<Rightarrow> if is_conflict e then ret Requeue else raise e)"

end
