(* ===== verification/Pass_Calls.thy ===== *)
theory Pass_Calls
  imports Reconcile_Pass
begin

text \<open>
  The Jobs a pass may create, handler by handler. \<open>creating A\<close> holds of a call unless it creates a
  Job outside \<open>A\<close>; \<open>makes A f\<close> says that \<open>f\<close> creates Jobs in \<open>A\<close> only. Handlers without a create
  satisfy it for every \<open>A\<close>; the others for an \<open>A\<close> that allows what their builders give.

  The rules are collected in \<open>makes_intros\<close> (through \<open>keeps_intros\<close>) and compose up to
  \<open>pass_step\<close> and \<open>observeRunningJob\<close>.
\<close>

definition creating :: "(job \<Rightarrow> bool) \<Rightarrow> entry \<Rightarrow> bool" where
  "creating A e = (case e of CreateJob j res \<Rightarrow> A j | _ \<Rightarrow> True)"

abbreviation makes :: "(job \<Rightarrow> bool) \<Rightarrow> 'a act \<Rightarrow> bool" where
  "makes A f \<equiv> keeps (only (creating A)) f"

lemma creating_simps [simp]:
  "creating A (GetMigration a1)" "creating A (GetJob b n a2)" "creating A (ListJobs b a3)"
  "creating A (ListPods q a4)" "creating A (SetOwner n a5)" "creating A (CreateJob j a6) \<longleftrightarrow> A j"
  "creating A (CreateOwned ob a5)" "creating A (GetOwned n a7)" "creating A (DeleteJob pol n a5)"
  "creating A (DeletePod n a5)" "creating A (PatchStatus b m m' a1)" "creating A (PatchMeta b m m' a1)"
  "creating A (ReadLogs lr a8)" "creating A (ProgressSample n a9)" "creating A (SamplerObserve n h a10)"
  "creating A (SamplerSampleNow n a11)" "creating A SamplerStop" "creating A (SentinelRead n n' a12)"
  "creating A (SentinelSetEndpos n a8)" "creating A (SentinelNudge n a5)" "creating A (Event w s1 s2 s3)"
  "creating A (Gauges gs)" "creating A (Clock t)"
  by (simp_all add: creating_def)

lemma only_mono: "keeps (only P) f \<Longrightarrow> (\<And>e. P e \<Longrightarrow> Q e) \<Longrightarrow> keeps (only Q) f"
  unfolding keeps_def only_def by (metis list.pred_mono_strong)

definition no_job :: "job \<Rightarrow> bool" where "no_job j = False"

lemma makes_mono: "makes A f \<Longrightarrow> (\<And>j. A j \<Longrightarrow> B j) \<Longrightarrow> makes B f"
  by (erule only_mono) (simp add: creating_def split: entry.splits)

section \<open>Primitive helpers\<close>

lemma makes_get_job [keeps_intros]: "makes A (get_job r n)"
  unfolding get_job_def by (intro keeps_intros) simp

lemma makes_get_job_uncached [keeps_intros]: "makes A (get_job_uncached r n)"
  unfolding get_job_uncached_def by (intro keeps_intros) simp

lemma makes_list_jobs_uncached [keeps_intros]: "makes A (list_jobs_uncached r)"
  unfolding list_jobs_uncached_def by (intro keeps_intros) simp

lemma makes_list_pods [keeps_intros]: "makes A (list_pods r sel)"
  unfolding list_pods_def by (intro keeps_intros) simp

lemma makes_set_owner [keeps_intros]: "makes A (set_owner r n)"
  unfolding set_owner_def by (intro keeps_intros) simp

lemma makes_create_job: "A j \<Longrightarrow> makes A (create_job r j)"
  unfolding create_job_def by (intro keeps_intros) simp

lemma makes_delete_job [keeps_intros]: "makes A (delete_job r pol n)"
  unfolding delete_job_def by (intro keeps_intros) simp

lemma makes_ignore_not_found [keeps_intros]: "makes A f \<Longrightarrow> makes A (ignore_not_found f)"
  unfolding ignore_not_found_def by (intro keeps_intros)

lemma makes_ensureJob:
  assumes "\<And>m j. build m = Inr j \<Longrightarrow> A j"
  shows "makes A (ensureJob r name build)"
  unfolding ensureJob_def bnd_lift_sum by (intro keeps_intros makes_create_job) (erule assms)

lemma makes_podWaitDetail [keeps_intros]: "makes A (podWaitDetail r sel)"
  unfolding podWaitDetail_def by (intro keeps_intros)

lemma makes_deleteJobPods [keeps_intros]: "makes A (deleteJobPods r n)"
  unfolding deleteJobPods_def delete_live_pod_def by (intro keeps_intros) simp

lemma makes_updateStatus [keeps_intros]: "makes A (updateStatus r)"
  by (rule only_updateStatus) simp_all

lemma makes_finish [keeps_intros]: "makes A (finish r res)"
  by (rule only_finish) simp_all

lemma makes_readJobLog [keeps_intros]: "makes A (readJobLog r n k)"
  by (rule only_readJobLog) simp

lemma makes_jobLogTail [keeps_intros]: "makes A (jobLogTail r n k)"
  by (rule only_jobLogTail) simp

lemma makes_currentTime [keeps_intros]: "makes A (currentTime r)"
  by (rule only_currentTime) simp

lemma makes_event [keeps_intros]: "makes A (event w a b c)"
  by (rule only_event) simp

lemma makes_gauges [keeps_intros]: "makes A (gauges cs)"
  by (rule only_gauges) simp

lemma makes_readCompareProgress [keeps_intros]: "makes A (readCompareProgress r k j)"
  by (rule only_readCompareProgress) simp_all

lemma makes_recordCompareProgress [keeps_intros]: "makes A (recordCompareProgress r k j tail)"
  by (rule only_recordCompareProgress) simp

lemma makes_patchStatusLocked [keeps_intros]: "makes A (patchStatusLocked r)"
  by (rule only_patchStatusLocked) simp_all

lemma makes_patch_status [keeps_intros]: "makes A (patch_status r locked)"
  by (rule only_patch_status) simp

lemma makes_patch_meta [keeps_intros]: "makes A (patch_meta r locked f)"
  by (rule only_patch_meta) simp

section \<open>The gate\<close>

lemma makes_setHold [keeps_intros]: "makes A (setHold r reason msg)"
  unfolding setHold_def Let_def by (intro keeps_intros)

lemma makes_probing [keeps_intros]: "makes A (probing r msg)"
  unfolding probing_def by (intro keeps_intros)

lemma makes_endHold [keeps_intros]: "makes A (endHold r reason msg)"
  unfolding endHold_def by (intro keeps_intros)

lemma makes_fail_with [keeps_intros]: "makes A (fail_with r reason a msg)"
  unfolding fail_with_def by (intro keeps_intros)

lemma makes_failBudget [keeps_intros]: "makes A (failBudget r)"
  unfolding failBudget_def by (intro keeps_intros)

lemma makes_decide [keeps_intros]: "makes A (decide r v)"
  unfolding decide_def recordVerdict_def Let_def by (intro keeps_intros)

lemma makes_settleBudget [keeps_intros]: "makes A (settleBudget r)"
  unfolding settleBudget_def by (intro keeps_intros)

lemma makes_blocking_pod [keeps_intros]: "makes A (blocking_pod r n)"
  unfolding blocking_pod_def previousWorkerPod_def rehearsalPod_def by (intro keeps_intros)

lemma makes_rehearsalPod [keeps_intros]: "makes A (rehearsalPod r)"
  unfolding rehearsalPod_def by (intro keeps_intros)

lemma makes_createGateJob:
  assumes "\<And>d m img n j. buildGateJob d m img n = Inr j \<Longrightarrow> A j"
  shows "makes A (createGateJob r n)"
  unfolding createGateJob_def bnd_lift_sum by (intro keeps_intros makes_create_job) (erule assms)

lemma makes_deleteGateProbe [keeps_intros]: "makes A (deleteGateProbe r n)"
  unfolding deleteGateProbe_def by (intro keeps_intros)

lemma makes_deleteGateJob [keeps_intros]: "makes A (deleteGateJob r n)"
  unfolding deleteGateJob_def by (intro keeps_intros)

lemma makes_deleteStrayProbes [keeps_intros]: "makes A (deleteStrayProbes r)"
  unfolding deleteStrayProbes_def by (intro keeps_intros)

lemma makes_held_for [keeps_intros]: "makes A (held_for r d)"
  unfolding held_for_def by (intro keeps_intros)

lemma makes_gateLog [keeps_intros]: "makes A (gateLog r j)"
  unfolding gateLog_def by (intro keeps_intros) simp

lemma makes_judgeProbe [keeps_intros]: "makes A (judgeProbe r j msg)"
  unfolding judgeProbe_def judge_failed_probe_def delete_and_probe_again_def hold_on_probe_def Let_def by (intro keeps_intros)

lemma makes_retryGate:
  assumes "\<And>d m img n j. buildGateJob d m img n = Inr j \<Longrightarrow> A j"
  shows "makes A (retryGate_pass r n)"
  unfolding retryGate_pass_def probe_step_def Let_def
  by (intro keeps_intros makes_createGateJob assms)

section \<open>Rehearsal, handover, verification\<close>

lemma makes_cancelRehearsal [keeps_intros]: "makes A (cancelRehearsal r why)"
  unfolding cancelRehearsal_def cancelRecordedRehearsal_def end_canceled_def rehearsalJob_def
    deleteRehearsalJob_def recordRehearsal_def set_rehearsal_def
  by (intro keeps_intros)

lemma makes_reconcileRehearsal:
  assumes "\<And>m img n j. buildRehearsalJob m img n = Inr j \<Longrightarrow> A j"
  shows "makes A (reconcileRehearsal r)"
  unfolding reconcileRehearsal_def startRehearsal_def observeRehearsal_def disarm_def rehearsalNotStarted_def
    rehearsalJob_def deleteRehearsalJob_def recordRehearsal_def set_rehearsal_def Let_def
  by (intro keeps_intros makes_ensureJob) (erule assms)

lemma makes_drainWaits [keeps_intros]: "makes A (drainWaitsForRehearsal r)"
  unfolding drainWaitsForRehearsal_def Let_def by (intro keeps_intros)

lemma makes_reownGate:
  assumes "\<And>m img j. buildReownJob m img = Inr j \<Longrightarrow> A j"
  shows "makes A (reownGate r running note)"
  unfolding reownGate_def ensureReown_def Let_def
  by (intro keeps_intros makes_ensureJob) (erule assms)

lemma makes_reownJobExists [keeps_intros]: "makes A (reownJobExists r)"
  unfolding reownJobExists_def by (intro keeps_intros)

lemma makes_cloneProgressFromLog [keeps_intros]: "makes A (cloneProgressFromLog tail)"
  unfolding cloneProgressFromLog_def by (auto split: option.splits sum.splits intro!: keeps_intros)

lemma makes_recordCloneProgress [keeps_intros]: "makes A (recordCloneProgress r n)"
  unfolding recordCloneProgress_def by (intro keeps_intros)

lemma makes_check_once:
  assumes "\<And>m img c j. buildCompareJob m img c = Inr j \<Longrightarrow> A j"
  shows "makes A (check_once r c)"
  unfolding check_once_def by (intro keeps_intros makes_ensureJob) (erule assms)

lemma makes_check_all:
  assumes "\<And>m img c j. buildCompareJob m img c = Inr j \<Longrightarrow> A j"
  shows "makes A (check_all r cs)"
  by (induction cs) (auto intro!: keeps_intros makes_check_once assms)

lemma makes_ensureVerification:
  assumes "\<And>m img c j. buildCompareJob m img c = Inr j \<Longrightarrow> A j"
  shows "makes A (ensureVerification r)"
proof -
  have "makes A (report_checks r)"
    unfolding report_checks_def by (intro keeps_intros)
  then show ?thesis
    unfolding ensureVerification_def by (intro keeps_intros makes_check_all) (erule assms)
qed

lemma makes_complete [keeps_intros]: "makes A (complete r a b)"
  unfolding complete_def by (intro keeps_intros)

section \<open>Live migrations\<close>

lemma makes_ensureCleanup:
  assumes "\<And>m img j. buildCleanupJob m img = Inr j \<Longrightarrow> A j"
  shows "makes A (ensureCleanup r)"
  unfolding ensureCleanup_def by (intro keeps_intros makes_ensureJob) (erule assms)

lemma makes_ensureVerify:
  assumes "\<And>m img g j. buildVerifyJob m img g = Inr j \<Longrightarrow> A j"
  shows "makes A (ensureVerify r)"
  unfolding ensureVerify_def drain_counters_def by (intro keeps_intros makes_ensureJob) (erule assms)

lemma makes_ensurePreflight:
  assumes "\<And>m img j. buildPreflightJob m img = Inr j \<Longrightarrow> A j"
  shows "makes A (ensurePreflight r)"
  unfolding ensurePreflight_def preflight_failure_def by (intro keeps_intros makes_ensureJob) (erule assms)

lemma makes_set_phase [keeps_intros]: "makes A (set_phase p)"
  unfolding set_phase_def by (intro keeps_intros)

lemma makes_report_lag [keeps_intros]: "makes A (report_lag r a b)"
  unfolding report_lag_def by (intro keeps_intros)

lemma makes_nudge [keeps_intros]: "makes A (nudge_endpos r n)"
  unfolding nudge_endpos_def by (intro keeps_intros) simp

lemma makes_start_cutover [keeps_intros]: "makes A (start_cutover r n)"
  unfolding start_cutover_def set_endpos_current_def by (intro keeps_intros) simp

lemma makes_reconcileFollowRunning [keeps_intros]: "makes A (reconcileFollowRunning r n d)"
  unfolding reconcileFollowRunning_def drive_stream_def sentinel_read_def Let_def by (intro keeps_intros) simp

lemma makes_finishFollow:
  assumes "\<And>m img g j. buildVerifyJob m img g = Inr j \<Longrightarrow> A j"
    and "\<And>m img j. buildReownJob m img = Inr j \<Longrightarrow> A j"
    and "\<And>m img j. buildCleanupJob m img = Inr j \<Longrightarrow> A j"
    and "\<And>m img c j. buildCompareJob m img c = Inr j \<Longrightarrow> A j"
  shows "makes A (finishFollow r)"
proof -
  have drain: "makes A (case d of DrainRefuted \<Rightarrow> f | DrainRunning \<Rightarrow> g | DrainVerified \<Rightarrow> h)"
    if "makes A f" "makes A g" "makes A h" for d and f g h :: "result act"
    using that by (cases d) simp_all
  show ?thesis
    unfolding finishFollow_def refute_drain_def after_handover_def
    by (intro drain keeps_intros makes_ensureVerify makes_reownGate makes_ensureCleanup makes_ensureVerification)
      (erule assms)+
qed

lemma makes_reconcileDeletion:
  assumes "\<And>m img j. buildCleanupJob m img = Inr j \<Longrightarrow> A j"
  shows "makes A (reconcileDeletion r)"
  unfolding reconcileDeletion_def stop_worker_def release_finalizer_def
  by (intro keeps_intros makes_ensureCleanup) (erule assms)

lemma makes_ensureFinalizer [keeps_intros]: "makes A (ensureFinalizer r)"
  unfolding ensureFinalizer_def by (intro keeps_intros)

lemma makes_finishClone:
  assumes "\<And>m img g j. buildCatalogJob m img g = Inr j \<Longrightarrow> A j"
    and "\<And>m img j. buildReownJob m img = Inr j \<Longrightarrow> A j"
    and "\<And>m img c j. buildCompareJob m img c = Inr j \<Longrightarrow> A j"
  shows "makes A (finishClone r)"
  unfolding finishClone_def owed_by_catalog_def ensureCatalogCheck_def finish_copied_def Let_def
  by (intro keeps_intros makes_ensureJob makes_reownGate makes_ensureVerification) (erule assms)+

section \<open>Observing a worker\<close>

lemma makes_progressSample [keeps_intros]: "makes A (progressSample r n b)"
  unfolding progressSample_def own_sample_def sampler_observe_def sampler_sample_now_def Let_def
  by (intro keeps_intros) simp_all

lemma makes_apply_sample [keeps_intros]: "makes A (apply_sample r got)"
  unfolding apply_sample_def applyCommitsBlocked_def applyStage_def applyCounts_def by (intro keeps_intros)

lemma makes_confirmBaseCopy [keeps_intros]: "makes A (confirmBaseCopy r c)"
  unfolding confirmBaseCopy_def by (intro keeps_intros)

lemma makes_observeRunningJob:
  assumes "\<And>m img n j. buildRehearsalJob m img n = Inr j \<Longrightarrow> A j"
  shows "makes A (observeRunningJob r n start)"
  unfolding observeRunningJob_def follow_log_def follow_step_def after_sample_def reapZombieWorker_def
    activePollDelay_def Let_def
  by (intro keeps_intros makes_reconcileRehearsal) (simp | erule assms)+

section \<open>Attempts\<close>

lemma makes_ensureOwned [keeps_intros]: "makes A (ensureOwned r)"
  unfolding ensureOwned_def createStrictlyOwned_def by (intro keeps_intros) simp_all

lemma makes_recordWorkNode [keeps_intros]: "makes A (recordWorkNode r)"
  unfolding recordWorkNode_def by (intro keeps_intros)

lemma makes_preflightGate:
  assumes "\<And>m img j. buildPreflightJob m img = Inr j \<Longrightarrow> A j"
  shows "makes A (preflightGate r)"
  unfolding preflightGate_def emitPreflightOutcome_def emit_bundle_def Let_def
  by (intro keeps_intros makes_ensurePreflight) (erule assms)

lemma makes_recordAttempt [keeps_intros]: "makes A (recordAttempt r n b)"
  unfolding recordAttempt_def held_note_def set_started_def Let_def by (intro keeps_intros)

lemma makes_create_worker:
  assumes "\<And>lost m img n j. buildJob lost m img n = Inr j \<Longrightarrow> A j"
  shows "makes A (create_worker r n)"
  unfolding create_worker_def bnd_lift_sum by (intro keeps_intros makes_create_job) (erule assms)

lemma makes_startAttempt:
  assumes "\<And>lost m img n j. buildJob lost m img n = Inr j \<Longrightarrow> A j"
    and "\<And>d m img n j. buildGateJob d m img n = Inr j \<Longrightarrow> A j"
  shows "makes A (startAttempt r)"
  unfolding startAttempt_def gate_and_settle_def unrecorded_worker_def Let_def
  by (intro keeps_intros makes_create_worker makes_retryGate) (erule assms)+

lemma makes_handleFailedJob [keeps_intros]: "makes A (handleFailedJob r j)"
  unfolding handleFailedJob_def failed_log_def fail_terminal_def queue_retry_def announce_retry_def failed_at_def Let_def
  by (intro keeps_intros)

lemma makes_reconcileSuspended [keeps_intros]: "makes A (reconcileSuspended r)"
  unfolding reconcileSuspended_def suspend_worker_def suspend_preflight_def suspend_reown_def
  by (intro keeps_intros)

section \<open>The pass\<close>

lemma makes_stopSampling [keeps_intros]: "makes A (stopSampling r)"
  unfolding stopSampling_def by (intro keeps_intros) simp

lemma makes_get_migration [keeps_intros]: "makes A (get_migration r)"
  unfolding get_migration_def by (rule keepsI) (auto simp: only_def Let_def split: sum.splits)

lemma makes_end_pass [keeps_intros]: "makes A (end_pass r)"
  unfolding end_pass_def by (intro keeps_intros)

lemma makes_first_pass [keeps_intros]: "makes A (first_pass r)"
  unfolding first_pass_def by (intro keeps_intros)

lemma makes_completeDryRun [keeps_intros]: "makes A (completeDryRun r)"
  unfolding completeDryRun_def Let_def by (intro keeps_intros)

lemma makes_invalid_spec [keeps_intros]: "makes A (invalid_spec r msg)"
  unfolding invalid_spec_def by (intro keeps_intros)

lemma makes_finished_step [keeps_intros]: "makes A f \<Longrightarrow> makes A (finished_step f)"
  unfolding finished_step_def by (intro keeps_intros)

end
