(* ===== verification/Runs.thy ===== *)
theory Runs
  imports Pass_Calls
begin

text \<open>
  Inverting a run. \<open>run_simps\<close> turns \<open>f s = (Inr x, t)\<close>, a handler that returned \<open>x\<close>, into what
  its parts returned; a handler's fact about one of its results is then a case analysis. The
  collection is for runs that return; \<open>wp\<close> and \<open>keeps\<close> cover errors too.
\<close>

named_theorems run_simps

lemma run_ret [run_simps]: "ret y s = (Inr x, t) \<longleftrightarrow> x = y \<and> t = s"
  by (auto simp: ret_def)

lemma run_raise [run_simps]: "raise e s = (Inr x, t) \<longleftrightarrow> False"
  by (simp add: raise_def)

lemma run_bnd [run_simps]: "bnd f k s = (Inr y, t) \<longleftrightarrow> (\<exists>x u. f s = (Inr x, u) \<and> k x u = (Inr y, t))"
  by (auto simp: bnd_def split: prod.splits sum.splits)

lemma run_seq [run_simps]: "seq f g s = (Inr y, t) \<longleftrightarrow> (\<exists>x u. f s = (Inr x, u) \<and> g u = (Inr y, t))"
  by (simp add: seq_def run_bnd)

lemma run_attempt [run_simps]: "attempt f s = (Inr x, t) \<longleftrightarrow> f s = (x, t)"
  by (auto simp: attempt_def split: prod.splits)

text \<open>To be unfolded before the general rule for \<open>bnd\<close> applies.\<close>

lemma run_attempt_case:
  "bnd (attempt f) (\<lambda>res. case res of Inl e \<Rightarrow> g e | Inr y \<Rightarrow> h y) s = (Inr x, t) \<longleftrightarrow>
     (\<exists>e u. f s = (Inl e, u) \<and> g e u = (Inr x, t)) \<or> (\<exists>y u. f s = (Inr y, u) \<and> h y u = (Inr x, t))"
proof (cases "f s")
  case (Pair v u)
  then show ?thesis by (cases v) (simp_all add: run_bnd run_attempt)
qed

lemma run_with_m [run_simps]: "with_m k s = (Inr x, t) \<longleftrightarrow> k (mig s) s = (Inr x, t)"
  by (simp add: with_m_def)

lemma run_set_m [run_simps]: "set_m f s = (Inr x, t) \<longleftrightarrow> t = s\<lparr>mig := f (mig s)\<rparr>"
  by (auto simp: set_m_def)

lemma run_do_when [run_simps]: "do_when b f s = (Inr x, t) \<longleftrightarrow> (if b then f s = (Inr x, t) else t = s)"
  by (simp add: do_when_def run_ret)

lemma run_call [run_simps]:
  "call f mk s = (Inr x, t) \<longleftrightarrow> f (tr s) = Inr x \<and> t = s\<lparr>tr := mk (Inr x) # tr s\<rparr>"
  by (auto simp: call_def)

lemma run_call_attempted [run_simps]:
  "call f mk s = (Inl e, t) \<longleftrightarrow> f (tr s) = Inl e \<and> t = s\<lparr>tr := mk (Inl e) # tr s\<rparr>"
  by (auto simp: call_def)

lemma run_currentTime [run_simps]:
  "currentTime r s = (Inr x, t) \<longleftrightarrow> x = now_at r (tr s) \<and> t = s\<lparr>tr := Clock x # tr s\<rparr>"
  by (auto simp: currentTime_def)

lemma run_log_entry [run_simps]: "log_entry e s = (Inr x, t) \<longleftrightarrow> t = s\<lparr>tr := e # tr s\<rparr>"
  by (auto simp: log_entry_def)

lemma run_lift_sum [run_simps]: "lift_sum v s = (Inr x, t) \<longleftrightarrow> v = Inr x \<and> t = s"
  by (auto simp: lift_sum_def)

lemma run_if [run_simps]: "(if b then f else g) s = (Inr x, t) \<longleftrightarrow> (if b then f s = (Inr x, t) else g s = (Inr x, t))"
  by simp

lemma run_case_option [run_simps]:
  "(case v of None \<Rightarrow> f | Some y \<Rightarrow> g y) s = (Inr x, t) \<longleftrightarrow>
     (case v of None \<Rightarrow> f s = (Inr x, t) | Some y \<Rightarrow> g y s = (Inr x, t))"
  by (cases v) simp_all

lemma run_case_sum [run_simps]:
  "(case v of Inl e \<Rightarrow> f e | Inr y \<Rightarrow> g y) s = (Inr x, t) \<longleftrightarrow>
     (case v of Inl e \<Rightarrow> f e s = (Inr x, t) | Inr y \<Rightarrow> g y s = (Inr x, t))"
  by (cases v) simp_all

lemma run_case_prod [run_simps]:
  "(case v of (a, b) \<Rightarrow> f a b) s = (Inr x, t) \<longleftrightarrow> (case v of (a, b) \<Rightarrow> f a b s = (Inr x, t))"
  by (cases v) simp

lemma run_patch_status [run_simps]:
  "patch_status r locked s = (Inr x, t) \<longleftrightarrow>
     (\<exists>m. patch_status_reply r (tr s) locked (pbase s) (mig s) = Inr m \<and>
        t = s\<lparr>tr := PatchStatus locked (pbase s) (mig s) (Inr m) # tr s, mig := m\<rparr>)"
  by (auto simp: patch_status_def Let_def split: sum.splits)

lemma run_put_condition [run_simps]:
  "put_condition r c s = (Inr x, t) \<longleftrightarrow> t = s\<lparr>mig := upd_status (\<lambda>st. st\<lparr>conditions :=
     put_cond r (tr s) c (conditions st)\<rparr>) (mig s)\<rparr>"
  by (auto simp: put_condition_def)

lemma run_set_status [run_simps]: "set_status f s = (Inr x, t) \<longleftrightarrow> t = s\<lparr>mig := upd_status f (mig s)\<rparr>"
  by (simp add: set_status_def run_set_m)

lemma ensureJob_run:
  assumes "ensureJob r name build s = (Inr (jo, created), t)"
  shows "case jo of None \<Rightarrow> True | Some j \<Rightarrow> \<not> created \<and> t = s\<lparr>tr := GetJob False name (Inr j) # tr s\<rparr>"
  using assms unfolding ensureJob_def get_job_def run_attempt_case
  by (auto simp: run_simps split: if_split_asm sum.split_asm)

text \<open>A handler's results outside \<open>R\<close> do not occur.\<close>

lemma gives_run: "gives R f \<Longrightarrow> f s = (x, t) \<Longrightarrow> R x"
  unfolding gives_def by (metis fst_conv)

text \<open>The history only grows.\<close>

lemma makes_grows: "makes A f \<Longrightarrow> f s = (x, t) \<Longrightarrow> set (tr s) \<subseteq> set (tr t)"
  unfolding keeps_def only_def by (metis Un_iff set_append snd_conv subsetI)

end
