(* ===== verification/Worker_Start.thy ===== *)
theory Worker_Start
  imports Runs
begin

text \<open>
  When a worker starts. \<open>runs_clone\<close> recognises a Job that runs \<^verbatim>\<open>pgcopydb clone\<close> by its program;
  only \<open>buildJob\<close> gives one. \<open>justified\<close> says of a history that every such Job in it was created
  after the evidence its attempt needs: a preflight Job that succeeded for attempt 1, for a
  later attempt \<open>gate_evidence\<close> and the locked patch that settled the budget. As the relation
  "a justified history stays justified" is reflexive and transitive, it is a \<open>frame\<close>, and every
  handler that creates no worker keeps it by the rules of \<open>Pass_Calls\<close>.
\<close>

section \<open>Which Jobs run pgcopydb clone\<close>

definition runs_clone :: "job \<Rightarrow> bool" where
  "runs_clone j = (case js_program (j_spec j) of Pgcopydb (a # as) \<Rightarrow> a = ''clone'' | _ \<Rightarrow> False)"

abbreviation no_worker :: "job \<Rightarrow> bool" where
  "no_worker j \<equiv> \<not> runs_clone j"

lemma scriptJob_program:
  "scriptJob m img name scr sc extras = Inr j \<Longrightarrow> js_program (j_spec j) = Shell scr"
  by (auto simp: scriptJob_def addConnectTimeout_def jobSkeleton_fields)

lemma shell_no_worker: "js_program (j_spec j) = Shell scr \<Longrightarrow> no_worker j"
  by (simp add: runs_clone_def)

lemma worker_runs_clone: "buildJob lost m img n = Inr j \<Longrightarrow> runs_clone j"
  by (auto dest!: buildJob_args(1) simp: runs_clone_def CloneArgs_def Let_def)

lemma others_no_worker:
  "buildGateJob d m img n = Inr j \<Longrightarrow> no_worker j"
  "buildRehearsalJob m img n = Inr j \<Longrightarrow> no_worker j"
  "buildReownJob m img = Inr j \<Longrightarrow> no_worker j"
  "buildVerifyJob m img g = Inr j \<Longrightarrow> no_worker j"
  "buildCatalogJob m img g = Inr j \<Longrightarrow> no_worker j"
  "buildPreflightJob m img = Inr j \<Longrightarrow> no_worker j"
  "buildCleanupJob m img = Inr j \<Longrightarrow> no_worker j"
  "buildCompareJob m img c = Inr j \<Longrightarrow> no_worker j"
  by (auto simp: buildGateJob_def buildRehearsalJob_def buildReownJob_def buildVerifyJob_def buildCatalogJob_def
      buildPreflightJob_def buildCleanupJob_def buildCompareJob_def runs_clone_def addConnectTimeout_def cleanupArgs_def
      CompareSchemaArgs_def Let_def jobSkeleton_fields dest!: scriptJob_program split: if_splits)

section \<open>Histories\<close>

definition gate_evidence :: "reconciler \<Rightarrow> int32 \<Rightarrow> migration \<Rightarrow> trace \<Rightarrow> bool" where
  "gate_evidence r n m h \<longleftrightarrow>
     (\<exists>ps. ListPods (ByJobName (worker_job_name m (n - 1))) (Inr ps) \<in> set h \<and> (\<forall>p \<in> set ps. ended p)) \<and>
     (\<exists>ps. ListPods ByMigration (Inr ps) \<in> set h \<and>
        (\<forall>p \<in> set ps. has_prefix (pd_job_label p) (rehearsal_prefix m) \<longrightarrow> ended p)) \<and>
     (\<exists>u j text now. GetJob u (gateJobName m n) (Inr j) \<in> set h \<and> \<not> j_deleting j \<and> jobFinished j = (True, True) \<and>
        lookup (j_annotations j) annotationRetryGateInputs = gate_inputs_string (gateInputsFor r m) \<and>
        Clock now \<in> set h \<and> now \<le> jobFinishedAt j + gatePassFreshness \<and>
        ReadLogs (UidLogs (j_uid j) gateLogTail) (Inr text) \<in> set h \<and>
        passed (parseGateLog text) (gateInputsFor r m))"

text \<open>The locked patch sent \<open>m\<close> with the verdict settled and the budget not spent; \<open>m'\<close> is the reply.\<close>

definition settled :: "reconciler \<Rightarrow> migration \<Rightarrow> migration \<Rightarrow> trace \<Rightarrow> bool" where
  "settled r m m' h \<longleftrightarrow> (\<exists>base. PatchStatus True base m (Inr m') \<in> set h) \<and>
     \<not> (onFailurePath m \<and> undecided m) \<and> \<not> budgetSpent m"

definition preflight_evidence :: "migration \<Rightarrow> trace \<Rightarrow> bool" where
  "preflight_evidence m h \<longleftrightarrow>
     (\<exists>j. GetJob False (preflightJobName m) (Inr j) \<in> set h \<and> jobFinished j = (True, True))"

definition worker_allowed :: "reconciler \<Rightarrow> job \<Rightarrow> trace \<Rightarrow> bool" where
  "worker_allowed r j h \<longleftrightarrow> (\<exists>m n. buildJob (snapshotLost r m) m (RunnerImage r) n = Inr j \<and>
     (n = 1 \<longrightarrow> preflight_evidence m h) \<and>
     (1 < sint n \<longrightarrow> (\<exists>m0. gate_evidence r n m0 h \<and> settled r m0 m h)))"

definition justified :: "reconciler \<Rightarrow> trace \<Rightarrow> bool" where
  "justified r t \<longleftrightarrow> (\<forall>later j x h. t = later @ CreateJob j x # h \<longrightarrow> runs_clone j \<longrightarrow> worker_allowed r j h)"

lemma justified_Nil [simp]: "justified r []"
  by (simp add: justified_def)

lemma justified_Cons:
  "justified r (e # t) \<longleftrightarrow> justified r t \<and> (\<forall>j x. e = CreateJob j x \<longrightarrow> runs_clone j \<longrightarrow> worker_allowed r j t)"
  unfolding justified_def by (auto simp: Cons_eq_append_conv)

definition stays_justified :: "reconciler \<Rightarrow> pass \<Rightarrow> pass \<Rightarrow> bool" where
  "stays_justified r s t \<longleftrightarrow> (justified r (tr s) \<longrightarrow> justified r (tr t))"

interpretation justified: frame "stays_justified r" for r
  by unfold_locales (auto simp: stays_justified_def)

lemmas justified_intros = justified.keeps_bnd justified.keeps_ret justified.keeps_raise justified.keeps_attempt
  justified.keeps_lift_sum keeps_if keeps_case_option keeps_case_sum keeps_case_prod

lemma justified_append: "justified r t \<Longrightarrow> list_all (creating no_worker) new \<Longrightarrow> justified r (new @ t)"
  by (induction new) (auto simp: justified_Cons)

lemma no_worker_justified: "makes no_worker f \<Longrightarrow> keeps (stays_justified r) f"
  unfolding keeps_def only_def stays_justified_def by (metis justified_append)

lemma justified_with_m: "(\<And>m. keeps (stays_justified r) (k m)) \<Longrightarrow> keeps (stays_justified r) (with_m k)"
  by (rule keepsI) (auto simp: with_m_def dest: keepsD)

lemma justified_seq: "keeps (stays_justified r) f \<Longrightarrow> keeps (stays_justified r) g \<Longrightarrow> keeps (stays_justified r) (seq f g)"
  by (simp add: seq_def justified.keeps_bnd)

section \<open>The gate's evidence\<close>

lemma find_None_all: "find P xs = None \<longleftrightarrow> (\<forall>x \<in> set xs. \<not> P x)"
  by (auto simp: find_None_iff)

lemma None_find_all: "None = find P xs \<longleftrightarrow> (\<forall>x \<in> set xs. \<not> P x)"
  by (metis find_None_all)

lemma blocking_pod_None:
  assumes "blocking_pod r n s = (Inr None, t)"
  shows "mig t = mig s" and "set (tr s) \<subseteq> set (tr t)"
    and "\<exists>ps. ListPods (ByJobName (worker_job_name (mig s) (n - 1))) (Inr ps) \<in> set (tr t) \<and> (\<forall>p \<in> set ps. ended p)"
    and "\<exists>ps. ListPods ByMigration (Inr ps) \<in> set (tr t) \<and>
        (\<forall>p \<in> set ps. has_prefix (pd_job_label p) (rehearsal_prefix (mig s)) \<longrightarrow> ended p)"
  using assms unfolding blocking_pod_def previousWorkerPod_def rehearsalPod_def list_pods_def
  by (auto simp: run_simps find_None_all None_find_all split: option.splits)

definition no_pass :: "err + result \<times> bool \<Rightarrow> bool" where
  "no_pass res \<longleftrightarrow> (\<forall>x. res \<noteq> Inr (x, True))"

lemma no_pass_simps [simp]: "no_pass (Inl e)" "no_pass (Inr (x, False))" "\<not> no_pass (Inr (x, True))"
  by (simp_all add: no_pass_def)

lemma no_pass_held_for [gives_intros]: "gives no_pass (held_for r d)"
  unfolding held_for_def by (intro gives_intros) simp_all

lemma no_pass_again [gives_intros]: "gives no_pass (delete_and_probe_again r j msg)"
  unfolding delete_and_probe_again_def by (intro gives_intros) simp_all

lemma no_pass_hold [gives_intros]: "gives no_pass (hold_on_probe r inp now j ok logged g)"
  unfolding hold_on_probe_def Let_def by (intro gives_intros) simp_all

lemma no_pass_judge [gives_intros]: "gives no_pass (judge_failed_probe r inp now j ok current logged msg)"
  unfolding judge_failed_probe_def Let_def by (intro gives_intros) simp_all

lemma no_pass_False: "gives no_pass f \<Longrightarrow> f s = (Inr (x, True), t) \<longleftrightarrow> False"
  by (auto dest: gives_run)

lemmas no_pass_runs = no_pass_held_for [THEN no_pass_False] no_pass_again [THEN no_pass_False]
  no_pass_judge [THEN no_pass_False]

lemma judgeProbe_pass:
  assumes "judgeProbe r j msg s = (Inr (x, True), t)"
  shows "mig t = mig s" and "set (tr s) \<subseteq> set (tr t)" and "snd (jobFinished j)"
    and "lookup (j_annotations j) annotationRetryGateInputs = gate_inputs_string (gateInputsFor r (mig s))"
    and "\<exists>now. Clock now \<in> set (tr t) \<and> now \<le> jobFinishedAt j + gatePassFreshness"
    and "\<exists>text. ReadLogs (UidLogs (j_uid j) gateLogTail) (Inr text) \<in> set (tr t) \<and>
        passed (parseGateLog text) (gateInputsFor r (mig s))"
  using assms unfolding judgeProbe_def gateLog_def Let_def
  by (auto simp: run_simps no_pass_runs read_text_def raise_def not_less split: if_splits sum.splits)

lemma probe_step_pass:
  assumes "probe_step r n s = (Inr (x, True), t)"
  shows "mig t = mig s" and "set (tr s) \<subseteq> set (tr t)"
    and "\<exists>u j text now. GetJob u (gateJobName (mig s) n) (Inr j) \<in> set (tr t) \<and> \<not> j_deleting j \<and>
        jobFinished j = (True, True) \<and>
        lookup (j_annotations j) annotationRetryGateInputs = gate_inputs_string (gateInputsFor r (mig s)) \<and>
        Clock now \<in> set (tr t) \<and> now \<le> jobFinishedAt j + gatePassFreshness \<and>
        ReadLogs (UidLogs (j_uid j) gateLogTail) (Inr text) \<in> set (tr t) \<and>
        passed (parseGateLog text) (gateInputsFor r (mig s))"
proof -
  let ?k = "\<lambda>got. case got of
           Inl e \<Rightarrow>
             if is_not_found e
             then seq (createGateJob r n) (seq (probing r (msg_probing (mig s) n)) (held_for r retryGateInterval))
             else raise e
         | Inr j \<Rightarrow>
             if j_deleting j then seq (probing r (msg_probing (mig s) n)) (held_for r retryGateInterval)
             else if \<not> fst (jobFinished j) then
               bnd (podWaitDetail r (ByControllerUid (j_uid j))) (\<lambda>detail.
                 seq (if detail \<noteq> []
                      then setHold r ReasonProbeFailed (''The pod of probe Job '' @ gateJobName (mig s) n @ '' cannot start: '' @
                             go_truncate detail maxDetailLen)
                      else probing r (msg_probing (mig s) n))
                   (held_for r retryGateInterval))
             else judgeProbe r j (msg_probing (mig s) n)"
  obtain got u where got: "get_job_uncached r (gateJobName (mig s) n) s = (got, u)" and k: "?k got u = (Inr (x, True), t)"
    using assms unfolding probe_step_def Let_def run_with_m run_bnd run_attempt by blast
  then obtain j where j: "get_job_uncached r (gateJobName (mig s) n) s = (Inr j, u)" "\<not> j_deleting j" "fst (jobFinished j)"
    and judge: "judgeProbe r j (msg_probing (mig s) n) u = (Inr (x, True), t)"
    by (cases got) (simp_all add: run_simps no_pass_runs split: if_splits)
  from j(1) have u: "mig u = mig s" "tr u = GetJob (with_api_reader r) (gateJobName (mig s) n) (Inr j) # tr s"
    by (auto simp: get_job_uncached_def run_simps)
  note pass = judgeProbe_pass [OF judge]
  have "jobFinished j = (True, True)" using j(3) pass(3) by (cases "jobFinished j") simp
  with pass u j(2) show "mig t = mig s" and "set (tr s) \<subseteq> set (tr t)"
    and "\<exists>u j text now. GetJob u (gateJobName (mig s) n) (Inr j) \<in> set (tr t) \<and> \<not> j_deleting j \<and>
        jobFinished j = (True, True) \<and>
        lookup (j_annotations j) annotationRetryGateInputs = gate_inputs_string (gateInputsFor r (mig s)) \<and>
        Clock now \<in> set (tr t) \<and> now \<le> jobFinishedAt j + gatePassFreshness \<and>
        ReadLogs (UidLogs (j_uid j) gateLogTail) (Inr text) \<in> set (tr t) \<and>
        passed (parseGateLog text) (gateInputsFor r (mig s))"
    by auto
qed

lemma not_Some_pair: "(\<forall>a b. v \<noteq> Some (a, b)) \<longleftrightarrow> v = None"
  by (cases v) auto

lemma retryGate_evidence:
  assumes "retryGate_pass r n s = (Inr (x, True), t)"
  shows "gate_evidence r n (mig t) (tr t)"
proof -
  let ?pods = "bnd (blocking_pod r n) (\<lambda>po. case po of
                 Some (p, of_what) \<Rightarrow>
                   seq (setHold r ReasonWorkerPodRemains (msg_pod_remains p of_what n)) (held_for r retryGateInterval)
               | None \<Rightarrow> probe_step r n)"
  obtain failed u where "(if failed then ret (Done, False) else ?pods) u = (Inr (x, True), t)"
    using assms unfolding retryGate_pass_def run_with_m run_bnd [of _ "\<lambda>failed. if failed then _ else _"] by blast
  then have "?pods u = (Inr (x, True), t)" by (cases failed) (simp_all add: run_simps)
  then obtain po v where "blocking_pod r n u = (Inr po, v)" and
    "(case po of Some (p, of_what) \<Rightarrow>
        seq (setHold r ReasonWorkerPodRemains (msg_pod_remains p of_what n)) (held_for r retryGateInterval)
      | None \<Rightarrow> probe_step r n) v = (Inr (x, True), t)"
    unfolding run_bnd by blast
  then have "blocking_pod r n u = (Inr None, v)" and "probe_step r n v = (Inr (x, True), t)"
    by (cases po; auto simp: run_seq no_pass_runs)+
  note pods = blocking_pod_None [OF this(1)] and probe = probe_step_pass [OF this(2)]
  have kept: "e \<in> set (tr v) \<Longrightarrow> e \<in> set (tr t)" for e using probe(2) by blast
  show ?thesis
    unfolding gate_evidence_def probe(1) pods(1)
    using pods(3,4) probe(3) unfolding pods(1) by (blast intro: kept)
qed

section \<open>Creating the worker\<close>

lemma gate_evidence_mono:
  assumes "gate_evidence r n m h" and "set h \<subseteq> set h'"
  shows "gate_evidence r n m h'"
proof -
  have kept: "e \<in> set h \<Longrightarrow> e \<in> set h'" for e using assms(2) by blast
  show ?thesis using assms(1) unfolding gate_evidence_def by (blast intro: kept)
qed

lemma settled_mono: "settled r m m' h \<Longrightarrow> set h \<subseteq> set h' \<Longrightarrow> settled r m m' h'"
  unfolding settled_def by blast

lemma preflight_evidence_mono: "preflight_evidence m h \<Longrightarrow> set h \<subseteq> set h' \<Longrightarrow> preflight_evidence m h'"
  unfolding preflight_evidence_def by blast

lemma gate_evidence_settle:
  "gate_evidence r n (upd_status (set_exemption v) m) h = gate_evidence r n m h"
  "gate_evidence r n (upd_status (\<lambda>st. st\<lparr>observedGeneration := g\<rparr>) m) h = gate_evidence r n m h"
  by (simp_all add: gate_evidence_def set_exemption_def gateInputsFor_def copyDoneForGate_def attemptPhase_def is_true_def
      tablesEmptySeen_def latched_def find_c_def worker_job_name_def rehearsal_prefix_def gateJobName_def
      gateInputs_of_def option.case_eq_if option.map_sel)

lemma same_mig [simp]: "s\<lparr>mig := mig s\<rparr> = (s :: pass)"
  by (cases s) simp

lemma patchStatusLocked_runs:
  assumes "patchStatusLocked r s = (Inr (), t)"
  shows "\<exists>base. PatchStatus True base (upd_status (\<lambda>st. st\<lparr>observedGeneration := m_generation (mig s)\<rparr>) (mig s))
      (Inr (mig t)) \<in> set (tr t)"
    and "set (tr s) \<subseteq> set (tr t)"
  using assms unfolding patchStatusLocked_def gauges_def by (auto simp: run_simps)

lemma seq_set_status:
  "seq (with_m (\<lambda>m. do_when (b m) (set_status f))) g s =
     g (s\<lparr>mig := if b (mig s) then upd_status f (mig s) else mig s\<rparr>)"
  by (cases "b (mig s)") (simp_all add: seq_def bnd_def with_m_def do_when_def set_status_def set_m_def ret_def)

lemma settleBudget_runs:
  assumes "settleBudget r s = (Inr False, t)" and "gate_evidence r n (mig s) (tr s)"
  shows "\<exists>m0. gate_evidence r n m0 (tr t) \<and> settled r m0 (mig t) (tr t)"
proof -
  define m where "m = (if onFailurePath (mig s) \<and> undecided (mig s) then upd_status (set_exemption RetryGateCounted) (mig s) else mig s)"
  define m0 where "m0 = upd_status (\<lambda>st. st\<lparr>observedGeneration := m_generation m\<rparr>) m"
  have run: "settleBudget r s = with_m (\<lambda>m. seq (do_when (budgetSpent m) (failBudget r))
                     (seq (patchStatusLocked r) (ret (budgetSpent m)))) (s\<lparr>mig := m\<rparr>)"
    by (simp add: settleBudget_def m_def seq_set_status)
  have unspent: "\<not> budgetSpent m" and patch: "patchStatusLocked r (s\<lparr>mig := m\<rparr>) = (Inr (), t)"
    using assms(1) unfolding run by (auto simp: run_simps)
  note sent = patchStatusLocked_runs [OF patch, simplified, folded m0_def]
  have "gate_evidence r n m0 (tr t)"
    using gate_evidence_mono [OF assms(2) sent(2)] by (simp add: gate_evidence_settle m0_def m_def)
  moreover have "\<not> (onFailurePath m0 \<and> undecided m0)"
    by (auto simp: m0_def m_def onFailurePath_def undecided_def set_exemption_def split: option.splits)
  moreover have "\<not> budgetSpent m0"
    using unspent by (simp add: m0_def budgetSpent_def countedAttempts_def)
  ultimately show ?thesis using sent(1) unfolding settled_def by blast
qed

lemma create_worker_justified:
  assumes "justified r (tr s)"
    and first: "n = 1 \<Longrightarrow> preflight_evidence (mig s) (tr s)"
    and later: "1 < sint n \<Longrightarrow> \<exists>m0. gate_evidence r n m0 (tr s) \<and> settled r m0 (mig s) (tr s)"
    and run: "create_worker r n s = (x, t)"
  shows "justified r (tr t)"
proof (cases "buildJob (snapshotLost r (mig s)) (mig s) (RunnerImage r) n")
  case (Inl e)
  then have "t = s" using run by (simp add: create_worker_def with_m_def bnd_lift_sum raise_def)
  with assms(1) show ?thesis by simp
next
  case (Inr j)
  let ?rec = "\<lambda>made. case made of
            Inr u \<Rightarrow> recordAttempt r (j_name j) True
          | Inl e \<Rightarrow> if is_already_exists e then recordAttempt r (j_name j) False else raise e"
  have rest: "?rec made v = (x, t) \<Longrightarrow> justified r (tr v) \<Longrightarrow> justified r (tr t)" for made v
  proof -
    have "keeps (stays_justified r) (?rec made)" by (intro no_worker_justified keeps_intros)
    then show "?rec made v = (x, t) \<Longrightarrow> justified r (tr v) \<Longrightarrow> justified r (tr t)"
      by (auto dest: keepsD simp: stays_justified_def)
  qed
  obtain o1 u where owner: "set_owner r (j_name j) s = (o1, u)" by fastforce
  then have u: "mig u = mig s" "tr u = SetOwner (j_name j) o1 # tr s"
    by (auto simp: set_owner_def call_def)
  have grown: "set (tr s) \<subseteq> set (tr u)" using u(2) by auto
  have "worker_allowed r j (tr u)"
    unfolding worker_allowed_def
    using Inr first later preflight_evidence_mono [OF _ grown] gate_evidence_mono [OF _ grown] settled_mono [OF _ grown]
    by blast
  then have made: "justified r (tr v)" if "create_job r j u = (y, v)" for y v
    using that assms(1) by (auto simp: create_job_def call_def justified_Cons u(2))
  have "justified r (tr u)" using assms(1) by (simp add: u(2) justified_Cons)
  moreover have "(case o1 of Inl e \<Rightarrow> (Inl e, u) | Inr _ \<Rightarrow>
      (case create_job r j u of (y, v) \<Rightarrow> ?rec y v)) = (x, t)"
  proof -
    have "seq (set_owner r (j_name j)) (bnd (attempt (create_job r j)) ?rec) s = (x, t)"
      using run Inr by (simp add: create_worker_def with_m_def bnd_lift_sum)
    then show ?thesis using owner by (cases o1; cases "create_job r j u") (simp_all add: seq_def bnd_def attempt_def)
  qed
  ultimately consider "t = u" "justified r (tr u)" | y v where "create_job r j u = (y, v)" "?rec y v = (x, t)"
    by (cases o1; cases "create_job r j u") auto
  then show ?thesis
  proof cases
    case 2
    then show ?thesis using rest [OF 2(2) made] by simp
  qed simp
qed

lemma gate_and_settle_justified:
  assumes "justified r (tr s)" and "1 < sint n" and run: "gate_and_settle r n s = (x, t)"
  shows "justified r (tr t)"
proof -
  obtain y u where gate: "retryGate_pass r n s = (y, u)" by fastforce
  have u: "justified r (tr u)"
    using keepsD [OF no_worker_justified [OF makes_retryGate [OF others_no_worker(1)]] gate] assms(1)
    by (simp add: stays_justified_def)
  show ?thesis
  proof (cases "\<exists>res. y = Inr (res, True)")
    case True
    then have evidence: "gate_evidence r n (mig u) (tr u)" using gate retryGate_evidence by blast
    obtain z v where settle: "settleBudget r u = (z, v)" by fastforce
    have v: "justified r (tr v)"
      using keepsD [OF no_worker_justified [OF makes_settleBudget] settle] u by (simp add: stays_justified_def)
    from True run gate settle
    have "(case z of Inl e \<Rightarrow> (Inl e, v) | Inr failed \<Rightarrow> (if failed then ret Done else create_worker r n) v) = (x, t)"
      by (auto simp: gate_and_settle_def bnd_def)
    then consider "t = v" | "z = Inr False" "create_worker r n v = (x, t)"
      by (auto simp: ret_def split: sum.splits if_splits)
    then show ?thesis
    proof cases
      case 2
      then have "\<exists>m0. gate_evidence r n m0 (tr v) \<and> settled r m0 (mig v) (tr v)"
        using settleBudget_runs [OF _ evidence] settle by simp
      with v 2 assms(2) show ?thesis by (intro create_worker_justified [OF v _ _ 2(2)]) auto
    qed (simp add: v)
  next
    case False
    then have "t = u" using run gate by (auto simp: gate_and_settle_def bnd_def ret_def split: sum.splits prod.splits)
    with u show ?thesis by simp
  qed
qed

section \<open>What a pass keeps\<close>

text \<open>The attempt counter and the name, while the history grows.\<close>

definition steady :: "pass \<Rightarrow> pass \<Rightarrow> bool" where
  "steady s t \<longleftrightarrow> attempts (status (mig t)) = attempts (status (mig s)) \<and> m_name (mig t) = m_name (mig s) \<and>
     set (tr s) \<subseteq> set (tr t)"

interpretation steady: frame steady
  by unfold_locales (auto simp: steady_def)

named_theorems steady_intros

lemmas steady_control [steady_intros] = steady.keeps_ret steady.keeps_raise steady.keeps_lift_sum steady.keeps_bnd
  steady.keeps_attempt steady.keeps_each keeps_if keeps_case_option keeps_case_sum keeps_case_prod keeps_case_list

lemma steady_call [steady_intros]: "keeps steady (call f mk)"
  by (rule keepsI) (auto simp: call_def steady_def)

lemma steady_log_entry [steady_intros]: "keeps steady (log_entry e)"
  by (rule keepsI) (auto simp: log_entry_def steady_def)

lemma steady_with_m [steady_intros]: "(\<And>m. keeps steady (k m)) \<Longrightarrow> keeps steady (with_m k)"
  by (rule keepsI) (auto simp: with_m_def dest: keepsD)

lemma steady_seq [steady_intros]: "keeps steady f \<Longrightarrow> keeps steady g \<Longrightarrow> keeps steady (seq f g)"
  by (simp add: seq_def steady.keeps_bnd)

lemma steady_when [steady_intros]: "(b \<Longrightarrow> keeps steady f) \<Longrightarrow> keeps steady (do_when b f)"
  by (simp add: do_when_def steady.keeps_ret)

lemma steady_set_status [steady_intros]: "(\<And>st. attempts (f st) = attempts st) \<Longrightarrow> keeps steady (set_status f)"
  by (rule keepsI) (auto simp: set_status_def set_m_def steady_def)

lemma steady_setCondition [steady_intros]: "keeps steady (setCondition r t st reason msg)"
  by (rule keepsI) (auto simp: setCondition_def with_m_def put_condition_def steady_def)

lemma steady_currentTime [steady_intros]: "keeps steady (currentTime r)"
  by (rule keepsI) (auto simp: currentTime_def steady_def)

lemma steady_event [steady_intros]: "keeps steady (event w a b c)"
  unfolding event_def by (intro steady_intros)

lemma steady_jobs [steady_intros]:
  "keeps steady (get_job r n)" "keeps steady (get_job_uncached r n)" "keeps steady (list_jobs_uncached r)"
  "keeps steady (delete_job r pol n)" "keeps steady (list_pods r sel)"
  unfolding get_job_def get_job_uncached_def list_jobs_uncached_def delete_job_def list_pods_def
  by (intro steady_intros)+

lemma steady_logs [steady_intros]:
  "keeps steady (readJobLog r n k)" "keeps steady (jobLogTail r n k)"
proof -
  show *: "keeps steady (readJobLog r n k)" unfolding readJobLog_def by (intro steady_intros)
  show "keeps steady (jobLogTail r n k)" unfolding jobLogTail_def by (intro steady_intros *)
qed

lemma steady_readCompareProgress [steady_intros]: "keeps steady (readCompareProgress r k j)"
  unfolding readCompareProgress_def read_again_def recordCompareProgress_def by (intro steady_intros) simp_all

lemma steady_cancelRehearsal [steady_intros]: "keeps steady (cancelRehearsal r why)"
  unfolding cancelRehearsal_def cancelRecordedRehearsal_def end_canceled_def rehearsalJob_def
    deleteRehearsalJob_def recordRehearsal_def set_rehearsal_def ignore_not_found_def
  by (intro steady_intros) simp_all

lemma steady_reownJobExists [steady_intros]: "keeps steady (reownJobExists r)"
  unfolding reownJobExists_def by (intro steady_intros)

lemma steady_emitPreflightOutcome [steady_intros]: "keeps steady (emitPreflightOutcome r)"
  unfolding emitPreflightOutcome_def emit_bundle_def Let_def by (intro steady_intros)

section \<open>The whole pass\<close>

text \<open>The precondition of a first attempt: with no attempt counted, the preflight is known to have succeeded.\<close>

definition preflighted :: "pass \<Rightarrow> bool" where
  "preflighted s \<longleftrightarrow> (attempts (status (mig s)) = 0 \<longrightarrow> preflight_evidence (mig s) (tr s))"

lemma preflighted_steady: "preflighted s \<Longrightarrow> steady s t \<Longrightarrow> preflighted t"
  by (auto simp: preflighted_def steady_def preflight_evidence_def preflightJobName_def)

definition ready :: "reconciler \<Rightarrow> pass \<Rightarrow> bool" where
  "ready r s \<longleftrightarrow> justified r (tr s) \<and> preflighted s"

text \<open>\<open>starts_well r f\<close>: from a ready state, \<open>f\<close> creates no unjustified worker.\<close>

definition starts_well :: "reconciler \<Rightarrow> 'a act \<Rightarrow> bool" where
  "starts_well r f \<longleftrightarrow> (\<forall>s. ready r s \<longrightarrow> justified r (tr (snd (f s))))"

lemma starts_wellI: "(\<And>s x t. ready r s \<Longrightarrow> f s = (x, t) \<Longrightarrow> justified r (tr t)) \<Longrightarrow> starts_well r f"
  by (simp add: starts_well_def) (metis prod.collapse)

lemma starts_wellD: "starts_well r f \<Longrightarrow> ready r s \<Longrightarrow> f s = (x, t) \<Longrightarrow> justified r (tr t)"
  unfolding starts_well_def by (metis snd_conv)

lemma starts_well_no_worker: "makes no_worker f \<Longrightarrow> starts_well r f"
  by (rule starts_wellI) (auto dest!: no_worker_justified [THEN keepsD] simp: stays_justified_def ready_def)

lemma starts_well_bnd:
  assumes "keeps steady f" and "makes no_worker f" and "\<And>x. starts_well r (k x)"
  shows "starts_well r (bnd f k)"
proof (rule starts_wellI)
  fix s x t
  assume s: "ready r s" and run: "bnd f k s = (x, t)"
  obtain y u where f: "f s = (y, u)" by fastforce
  have "steady s u" using assms(1) f by (rule keepsD)
  moreover have "justified r (tr u)"
    using s keepsD [OF no_worker_justified [OF assms(2)] f] by (simp add: ready_def stays_justified_def)
  ultimately have u: "ready r u" using s preflighted_steady by (auto simp: ready_def)
  show "justified r (tr t)"
  proof (cases y)
    case (Inl e)
    then show ?thesis using run f u by (simp add: bnd_def ready_def)
  next
    case (Inr z)
    then show ?thesis using run f u starts_wellD [OF assms(3)] by (simp add: bnd_def)
  qed
qed

lemma starts_well_seq:
  "keeps steady f \<Longrightarrow> makes no_worker f \<Longrightarrow> starts_well r g \<Longrightarrow> starts_well r (seq f g)"
  by (simp add: seq_def starts_well_bnd)

lemma starts_well_with_m: "(\<And>m. starts_well r (k m)) \<Longrightarrow> starts_well r (with_m k)"
  by (simp add: starts_well_def with_m_def)

lemmas starts_well_intros = starts_well_bnd starts_well_seq starts_well_with_m

lemma gate_and_settle_stays: "1 < sint n \<Longrightarrow> keeps (stays_justified r) (gate_and_settle r n)"
  by (rule keepsI) (auto simp: stays_justified_def intro: gate_and_settle_justified)

lemma startAttempt_well: "starts_well r (startAttempt r)"
proof (rule starts_wellI)
  fix s x t
  assume s: "ready r s" and run: "startAttempt r s = (x, t)"
  let ?n = "attempts (status (mig s)) + 1"
  note quiet = no_worker_justified [OF makes_recordAttempt] no_worker_justified [OF makes_failBudget]
    no_worker_justified [OF makes_finish]
  show "justified r (tr t)"
  proof (cases "1 < sint ?n")
    case True
    have "keeps (stays_justified r) (unrecorded_worker r ?n)"
      unfolding unrecorded_worker_def by (intro no_worker_justified keeps_intros)
    then have "keeps (stays_justified r) (bnd (unrecorded_worker r ?n) (\<lambda>jo. case jo of
           Some j \<Rightarrow> recordAttempt r (j_name j) False
         | None \<Rightarrow> if budget_final (mig s) then seq (failBudget r) (finish r Done)
             else if 1 < sint ?n then gate_and_settle r ?n else create_worker r ?n))"
      using True by (intro justified_intros justified_seq quiet gate_and_settle_stays) simp_all
    then show ?thesis
      using run s by (auto simp: startAttempt_def with_m_def Let_def ready_def stays_justified_def dest: keepsD)
  next
    case False
    then have run: "(if budget_final (mig s) then seq (failBudget r) (finish r Done) else create_worker r ?n) s = (x, t)"
      using run by (simp add: startAttempt_def with_m_def Let_def bnd_def unrecorded_worker_def ret_def split: if_split_asm)
    have fail: "keeps (stays_justified r) (seq (failBudget r) (finish r Done))" by (intro justified_seq quiet)
    have "?n = 1 \<Longrightarrow> preflight_evidence (mig s) (tr s)"
      using s by (simp add: ready_def preflighted_def)
    then show ?thesis
      using run False s create_worker_justified [of r s ?n x t] keepsD [OF fail, of s x t]
      by (auto simp: ready_def stays_justified_def split: if_splits)
  qed
qed

lemma nextAttempt_well: "starts_well r (nextAttempt r)"
proof -
  have "starts_well r (if b then finishClone r else if c then finishFollow r else startAttempt r)" for b c
    by (auto intro!: startAttempt_well starts_well_no_worker makes_finishClone makes_finishFollow
        dest: others_no_worker)
  then show ?thesis
    unfolding nextAttempt_def by (intro starts_well_intros steady_intros keeps_intros)
qed

lemma finished_step_well: "starts_well r f \<Longrightarrow> starts_well r (finished_step f)"
  unfolding starts_well_def finished_step_def bnd_def ret_def by (auto split: prod.splits sum.splits)

lemma gated_step_well: "starts_well r (gated_step r)"
proof -
  have attempt: "starts_well r (finished_step (nextAttempt r))"
    by (intro finished_step_well nextAttempt_well)
  have succeeded: "makes no_worker (worker_succeeded r)"
    unfolding worker_succeeded_def
    by (intro keeps_intros makes_finishClone makes_finishFollow) (auto dest: others_no_worker)
  have "starts_well r (worker_step r)"
    unfolding worker_step_def
  proof (rule starts_well_with_m)
    fix m
    have "starts_well r (case res of
         Inl e \<Rightarrow> if is_not_found e then finished_step (nextAttempt r) else raise e
       | Inr j \<Rightarrow>
           if fst (jobFinished j)
           then finished_step (if snd (jobFinished j) then worker_succeeded r else handleFailedJob r j)
           else ret (ObserveWorker (j_name j)))" for res
      by (cases res) (auto intro!: attempt finished_step_well starts_well_no_worker succeeded keeps_intros)
    then show "starts_well r (if jobName (status m) = [] then finished_step (nextAttempt r)
       else bnd (attempt (get_job r (jobName (status m)))) (\<lambda>res. case res of
         Inl e \<Rightarrow> if is_not_found e then finished_step (nextAttempt r) else raise e
       | Inr j \<Rightarrow>
           if fst (jobFinished j)
           then finished_step (if snd (jobFinished j) then worker_succeeded r else handleFailedJob r j)
           else ret (ObserveWorker (j_name j))))"
      using attempt by (auto intro!: starts_well_intros steady_intros keeps_intros)
  qed
  moreover have "starts_well r (finished_step (completeDryRun r))"
    by (intro finished_step_well starts_well_no_worker keeps_intros)
  ultimately have "starts_well r (if b then finished_step (completeDryRun r) else worker_step r)" for b by simp
  then show ?thesis unfolding gated_step_def by (intro starts_well_intros steady_intros keeps_intros)
qed

lemma ensurePreflight_ok:
  assumes "ensurePreflight r s = (Inr (True, msg), t)"
  shows "preflight_evidence (mig t) (tr t) \<and> attempts (status (mig t)) = attempts (status (mig s)) \<and> m_name (mig t) = m_name (mig s)"
proof -
  have never: "gives (\<lambda>res. \<forall>msg. res \<noteq> Inr (True, msg)) (preflight_failure r j)" for j
    unfolding preflight_failure_def by (intro gives_intros) simp_all
  let ?started = "\<lambda>c. do_when c (event False ''PreflightStarted'' ''Preflight''
      (''running preflight checks as Job '' @ preflightJobName (mig s)))"
  obtain jo c u where job: "ensureJob r (preflightJobName (mig s)) (\<lambda>m. buildPreflightJob m (RunnerImage r)) s = (Inr (jo, c), u)"
    and rest: "seq (?started c) (case jo of None \<Rightarrow> ret (False, [])
          | Some j \<Rightarrow>
              if \<not> fst (jobFinished j) then ret (False, [])
              else if snd (jobFinished j) then ret (True, [])
              else preflight_failure r j) u = (Inr (True, msg), t)"
    using assms unfolding ensurePreflight_def run_with_m run_bnd by auto
  from rest obtain v where ev: "?started c u = (Inr (), v)" and k: "(case jo of None \<Rightarrow> ret (False, [])
          | Some j \<Rightarrow>
              if \<not> fst (jobFinished j) then ret (False, [])
              else if snd (jobFinished j) then ret (True, [])
              else preflight_failure r j) v = (Inr (True, msg), t)"
    unfolding run_seq by auto
  have failed: "preflight_failure r j v = (Inr (True, msg), t) \<longleftrightarrow> False" for j
    using gives_run [OF never] by blast
  from k obtain j where jo: "jo = Some j" and "v = t" and "fst (jobFinished j)" "snd (jobFinished j)"
    by (cases jo) (auto simp: run_simps failed split: if_split_asm)
  then have fin: "jobFinished j = (True, True)" by (simp add: prod_eq_iff)
  note job = job [unfolded jo]
  from ensureJob_run [OF job] ev \<open>v = t\<close> have "t = u" by (simp add: run_simps)
  with ensureJob_run [OF job] fin show ?thesis
    by (auto simp: preflight_evidence_def)
qed

lemma preflightGate_None:
  assumes "preflightGate r s = (Inr None, t)"
  shows "preflighted t"
proof (cases "attempts (status (mig s)) = 0")
  case False
  then have "t = s" using assms by (simp add: preflightGate_def with_m_def ret_def)
  with False show ?thesis by (simp add: preflighted_def)
next
  case True
  let ?emit = "with_m (\<lambda>m. do_when (\<not> is_true r m ConditionValidated) (emitPreflightOutcome r))"
  let ?k = "\<lambda>ok failMsg. if failMsg \<noteq> [] then
         seq (setCondition r ConditionValidated ConditionFalse ReasonPreflightFailed failMsg)
          (seq (fail_with r ReasonPreflightFailed ''Preflight'' failMsg)
            (seq (updateStatus r) (ret (Some Done))))
       else if \<not> ok then
         bnd (podWaitDetail r (ByJobName (preflightJobName (mig s)))) (\<lambda>detail.
           seq (setCondition r ConditionValidated ConditionUnknown ReasonPreflightRunning
                 (if detail \<noteq> [] then ''preflight Job '' @ preflightJobName (mig s) @ '' cannot start: '' @
                    go_truncate detail maxDetailLen
                  else ''preflight Job '' @ preflightJobName (mig s) @ '' is running''))
             (seq (set_phase PhaseValidating)
               (seq (updateStatus r) (ret (Some (RequeueAfter pollInterval))))))
       else seq ?emit (ret None)"
  have "bnd (ensurePreflight r) (\<lambda>(ok, failMsg). ?k ok failMsg) s = (Inr None, t)"
    using assms True by (simp add: preflightGate_def with_m_def)
  then obtain y u where "ensurePreflight r s = (Inr y, u)" and "(case y of (ok, failMsg) \<Rightarrow> ?k ok failMsg) u = (Inr None, t)"
    unfolding run_bnd by blast
  then obtain ok failMsg where pre: "ensurePreflight r s = (Inr (ok, failMsg), u)" and k: "?k ok failMsg u = (Inr None, t)"
    by (cases y) simp
  have ok: "ok" and emit: "?emit u = (Inr (), t)"
    using k by (auto simp: run_simps split: if_split_asm)
  have "keeps steady ?emit" by (intro steady_intros)
  then have "steady u t" using emit by (rule keepsD)
  moreover have "preflighted u"
    using ensurePreflight_ok pre ok by (auto simp: preflighted_def)
  ultimately show ?thesis by (rule preflighted_steady [rotated])
qed

lemma validated_step_stays: "keeps (stays_justified r) (validated_step r)"
proof -
  have gate: "makes no_worker (preflightGate r)"
    by (intro makes_preflightGate) (rule others_no_worker)
  have "keeps (stays_justified r) (bnd (preflightGate r) (\<lambda>handled. case handled of
             Some res \<Rightarrow> ret (Finished res) | None \<Rightarrow> gated_step r))"
  proof (rule keepsI, unfold stays_justified_def, rule impI)
    fix s x t
    assume s: "justified r (tr s)" and run: "bnd (preflightGate r) (\<lambda>handled. case handled of
             Some res \<Rightarrow> ret (Finished res) | None \<Rightarrow> gated_step r) s = (x, t)"
    obtain y u where pre: "preflightGate r s = (y, u)" by fastforce
    have u: "justified r (tr u)"
      using s keepsD [OF no_worker_justified [OF gate] pre] by (simp add: stays_justified_def)
    show "justified r (tr t)"
    proof (cases "y = Inr None")
      case True
      then have "ready r u" using u preflightGate_None pre by (simp add: ready_def)
      moreover have "gated_step r u = (x, t)" using run pre True by (simp add: bnd_def)
      ultimately show ?thesis by (rule starts_wellD [OF gated_step_well])
    next
      case False
      then have "t = u" using run pre by (auto simp: bnd_def ret_def split: sum.splits option.splits)
      with u show ?thesis by simp
    qed
  qed
  note inner = this
  show ?thesis
    unfolding validated_step_def
    by (rule justified_seq, (rule no_worker_justified, intro keeps_intros))+ (rule inner)
qed

lemma live_step_stays: "keeps (stays_justified r) (live_step r)"
  unfolding live_step_def
  by (intro justified_with_m justified_intros validated_step_stays)
    (intro no_worker_justified keeps_intros)+

lemma pass_step_stays: "keeps (stays_justified r) (pass_step r key)"
proof -
  have gone: "makes no_worker (seq (stopSampling r) (seq (gauges (Forget (fst key) (snd key))) (ret (Finished Done))))"
    by (intro keeps_intros)
  have deleted: "makes no_worker (seq (stopSampling r) (finished_step (reconcileDeletion r)))"
    by (intro keeps_intros makes_reconcileDeletion) (rule others_no_worker)
  have fetch: "makes no_worker (get_migration r)" by (intro keeps_intros)
  show ?thesis
    unfolding pass_step_def
    by (intro justified_intros justified_with_m live_step_stays no_worker_justified [OF gone]
        no_worker_justified [OF deleted] no_worker_justified [OF fetch])
qed

lemma reconcile_stays: "keeps (stays_justified r) (reconcile r key)"
proof -
  have observe: "makes no_worker (observeRunningJob r name start)" for name start
    by (intro makes_observeRunningJob) (rule others_no_worker)
  have stop: "makes no_worker (stopSampling r)" and clock: "makes no_worker (currentTime r)"
    by (intro keeps_intros)+
  have step: "keeps (stays_justified r) (case step of Finished res \<Rightarrow> seq (stopSampling r) (ret res)
      | ObserveWorker name \<Rightarrow> observeRunningJob r name start)" for step start
    by (cases step; simp) (intro justified_seq justified_intros no_worker_justified [OF stop] no_worker_justified [OF observe])+
  have eq: "reconcile r key = bnd (currentTime r) (\<lambda>start. bnd (attempt (pass_step r key)) (\<lambda>res. case res of
       Inl e \<Rightarrow> seq (stopSampling r) (raise e)
     | Inr step \<Rightarrow> (case step of Finished res \<Rightarrow> seq (stopSampling r) (ret res)
         | ObserveWorker name \<Rightarrow> observeRunningJob r name start)))"
    by (simp add: reconcile_def cong: sum.case_cong)
  show ?thesis
    unfolding eq
    by (intro justified_intros justified_seq pass_step_stays step no_worker_justified [OF stop] no_worker_justified [OF clock])
qed

lemma Reconcile_justified:
  assumes "tr s = []" and "Reconcile r key s = (x, t)"
  shows "justified r (tr t)"
proof -
  have "keeps (stays_justified r) (Reconcile r key)"
    unfolding Reconcile_def by (intro justified_intros reconcile_stays)
  with assms show ?thesis by (auto simp: stays_justified_def dest: keepsD)
qed

end
