(* ===== verification/History.thy ===== *)
theory History
  imports Worker_Start
begin

text \<open>
  Orders within one history. \<open>before W E t\<close>: whenever a call in \<open>W\<close> was made, \<open>E\<close> holds of it and of
  the history up to it. \<open>waits\<close> says a handler keeps such an order; the rules compose it, and a
  handler that makes no call in \<open>W\<close> keeps every order on \<open>W\<close>.
\<close>

definition before :: "(entry \<Rightarrow> bool) \<Rightarrow> (entry \<Rightarrow> trace \<Rightarrow> bool) \<Rightarrow> trace \<Rightarrow> bool" where
  "before W E t \<longleftrightarrow> (\<forall>later e h. t = later @ e # h \<longrightarrow> W e \<longrightarrow> E e h)"

lemma before_Nil [simp]: "before W E []"
  by (simp add: before_def)

lemma before_Cons [simp]: "before W E (e # t) \<longleftrightarrow> before W E t \<and> (W e \<longrightarrow> E e t)"
  unfolding before_def by (auto simp: Cons_eq_append_conv)

lemma before_append: "before W E t \<Longrightarrow> list_all (\<lambda>e. \<not> W e) new \<Longrightarrow> before W E (new @ t)"
  by (induction new) auto

definition waits :: "(entry \<Rightarrow> bool) \<Rightarrow> (entry \<Rightarrow> trace \<Rightarrow> bool) \<Rightarrow> pass \<Rightarrow> pass \<Rightarrow> bool" where
  "waits W E s t \<longleftrightarrow> (before W E (tr s) \<longrightarrow> before W E (tr t))"

interpretation waits: frame "waits W E" for W E
  by unfold_locales (auto simp: waits_def)

named_theorems waits_intros

lemmas waits_control [waits_intros] = waits.keeps_bnd waits.keeps_ret waits.keeps_raise waits.keeps_attempt
  waits.keeps_lift_sum keeps_if keeps_case_option keeps_case_sum keeps_case_prod

lemma waits_quiet: "keeps (only (\<lambda>e. \<not> W e)) f \<Longrightarrow> keeps (waits W E) f"
  unfolding keeps_def only_def waits_def by (metis before_append)

lemma waits_with_m [waits_intros]: "(\<And>m. keeps (waits W E) (k m)) \<Longrightarrow> keeps (waits W E) (with_m k)"
  by (rule keepsI) (auto simp: with_m_def dest: keepsD)

lemma waits_seq [waits_intros]: "keeps (waits W E) f \<Longrightarrow> keeps (waits W E) g \<Longrightarrow> keeps (waits W E) (seq f g)"
  by (simp add: seq_def waits.keeps_bnd)

lemma waitsD: "keeps (waits W E) f \<Longrightarrow> f s = (x, t) \<Longrightarrow> before W E (tr s) \<Longrightarrow> before W E (tr t)"
  by (auto simp: waits_def dest: keepsD)

lemma waits_snd: "keeps (waits W E) f \<Longrightarrow> before W E (tr s) \<Longrightarrow> before W E (tr (snd (f s)))"
  by (rule waitsD [OF _ prod.collapse [symmetric]])

lemma keeps_snd: "keeps R f \<Longrightarrow> R s (snd (f s))"
  by (metis keepsD prod.collapse)

text \<open>Orders that a handler keeps from states in \<open>P\<close> only; \<open>P\<close> survives the frame \<open>R\<close>.\<close>

definition waits_from :: "(pass \<Rightarrow> bool) \<Rightarrow> (entry \<Rightarrow> bool) \<Rightarrow> (entry \<Rightarrow> trace \<Rightarrow> bool) \<Rightarrow> 'a act \<Rightarrow> bool" where
  "waits_from P W E f \<longleftrightarrow> (\<forall>s. P s \<longrightarrow> before W E (tr s) \<longrightarrow> before W E (tr (snd (f s))))"

lemma waits_fromI:
  "(\<And>s x t. P s \<Longrightarrow> before W E (tr s) \<Longrightarrow> f s = (x, t) \<Longrightarrow> before W E (tr t)) \<Longrightarrow> waits_from P W E f"
  by (simp add: waits_from_def) (metis prod.collapse)

lemma waits_fromD:
  "waits_from P W E f \<Longrightarrow> P s \<Longrightarrow> before W E (tr s) \<Longrightarrow> f s = (x, t) \<Longrightarrow> before W E (tr t)"
  unfolding waits_from_def by (metis snd_conv)

lemma waits_from_waits: "keeps (waits W E) f \<Longrightarrow> waits_from P W E f"
  by (rule waits_fromI) (rule waitsD)

lemma waits_from_with_m: "(\<And>m. waits_from P W E (k m)) \<Longrightarrow> waits_from P W E (with_m k)"
  by (simp add: waits_from_def with_m_def)

lemma waits_from_bnd_frame:
  assumes "\<And>s t. P s \<Longrightarrow> R s t \<Longrightarrow> P t"
    and "keeps R f" and "keeps (waits W E) f" and "\<And>x. waits_from P W E (k x)"
  shows "waits_from P W E (bnd f k)"
proof (rule waits_fromI)
  fix s x t
  assume P: "P s" and s: "before W E (tr s)" and run: "bnd f k s = (x, t)"
  obtain y u where f: "f s = (y, u)" by fastforce
  have "P u" using assms(1) [OF P keepsD [OF assms(2) f]] .
  moreover have "before W E (tr u)" using waitsD [OF assms(3) f s] .
  ultimately show "before W E (tr t)"
    using run f waits_fromD [OF assms(4)] by (cases y) (auto simp: bnd_def)
qed

lemma waits_from_seq_frame:
  assumes "\<And>s t. P s \<Longrightarrow> R s t \<Longrightarrow> P t"
    and "keeps R f" and "keeps (waits W E) f" and "waits_from P W E g"
  shows "waits_from P W E (seq f g)"
  unfolding seq_def using assms by (rule waits_from_bnd_frame)

lemmas waits_from_bnd = waits_from_bnd_frame [where R = steady]

lemmas waits_from_seq = waits_from_seq_frame [where R = steady]

text \<open>What a pass does with the Migration it fetched.\<close>

definition fetched :: "reconciler \<Rightarrow> pass \<Rightarrow> err + migration" where
  "fetched r s = get_migration_reply r (Clock (now_at r (tr s)) # tr s)"

definition after_fetch :: "reconciler \<Rightarrow> migration \<Rightarrow> pass \<Rightarrow> pass" where
  "after_fetch r m s = s\<lparr>tr := GetMigration (Inr m) # Clock (now_at r (tr s)) # tr s, mig := m, pbase := m\<rparr>"

definition handler :: "reconciler \<Rightarrow> migration \<Rightarrow> step act" where
  "handler r m = (if m_deleting m then seq (stopSampling r) (finished_step (reconcileDeletion r)) else live_step r)"

definition after_step :: "reconciler \<Rightarrow> time \<Rightarrow> err + step \<Rightarrow> result act" where
  "after_step r start step = (case step of
       Inl e \<Rightarrow> seq (stopSampling r) (raise e)
     | Inr (Finished res) \<Rightarrow> seq (stopSampling r) (ret res)
     | Inr (ObserveWorker name) \<Rightarrow> observeRunningJob r name start)"

lemma Reconcile_fetched:
  assumes "fetched r s = Inr m"
  shows "snd (Reconcile r key s) =
    snd (bnd (attempt (handler r m)) (after_step r (now_at r (tr s))) (after_fetch r m s))"
proof -
  have get: "get_migration r (s\<lparr>tr := Clock (now_at r (tr s)) # tr s\<rparr>) = (Inr (), after_fetch r m s)"
    using assms by (simp add: get_migration_def fetched_def after_fetch_def Let_def)
  have fold: "reconcile r key = bnd (currentTime r) (\<lambda>start. bnd (attempt (pass_step r key)) (after_step r start))"
    by (simp add: reconcile_def after_step_def [abs_def])
  have "reconcile r key s = bnd (attempt (handler r m)) (after_step r (now_at r (tr s))) (after_fetch r m s)"
    unfolding fold pass_step_def
    by (simp add: bnd_def attempt_def currentTime_def get with_m_def handler_def after_fetch_def)
  moreover have "snd (Reconcile r key s) = snd (reconcile r key s)"
    unfolding Reconcile_def by (auto simp: bnd_def attempt_def ret_def raise_def split: prod.split sum.split)
  ultimately show ?thesis by simp
qed

lemma makes_after_step [keeps_intros]:
  assumes "\<And>m img n j. buildRehearsalJob m img n = Inr j \<Longrightarrow> A j"
  shows "makes A (after_step r start step)"
proof (cases step)
  case (Inl e)
  then show ?thesis by (simp add: after_step_def) (intro keeps_intros)
next
  case (Inr st)
  then show ?thesis
    using assms by (cases st) (auto simp: after_step_def intro!: keeps_intros makes_observeRunningJob)
qed

text \<open>A fact about the handler and what follows it is one about the whole pass.\<close>

lemma Reconcile_keeps:
  assumes "keeps R (bnd (attempt (handler r m)) (after_step r (now_at r (tr s))))" and "fetched r s = Inr m"
  shows "R (after_fetch r m s) (snd (Reconcile r key s))"
  unfolding Reconcile_fetched [OF assms(2)] using assms(1) by (rule keeps_snd)

end
