(* ===== verification/Drain_Gate.thy ===== *)
theory Drain_Gate
  imports History
begin

text \<open>
  The cutover of a live Migration (\<open>finishFollow\<close> of \<^verbatim>\<open>follow.go\<close>): outside of a deletion, the cleanup
  Job is created only in a pass that read the drain verification's Job finished and successful,
  because until then the slot is what keeps the source's changes. The only other Job that drops the
  slot is the worker of an attempt that starts over, after the evidence of \<open>Worker_Start\<close>.
\<close>

section \<open>Which Jobs drop the slot\<close>

text \<open>
  \<^verbatim>\<open>pgcopydb stream cleanup\<close> drops the slot. A Job may run it as its program or before it, among the
  steps of its setup; the worker of an attempt that starts over does the latter.
\<close>

definition stream_cleanup :: "string list \<Rightarrow> bool" where
  "stream_cleanup args = (case args of a # b # as \<Rightarrow> a = ''stream'' \<and> b = ''cleanup'' | _ \<Rightarrow> False)"

definition drops_slot :: "job \<Rightarrow> bool" where
  "drops_slot j \<longleftrightarrow> (case js_program (j_spec j) of Pgcopydb args \<Rightarrow> stream_cleanup args | _ \<Rightarrow> False) \<or>
     list_ex (\<lambda>st. case st of RunPgcopydb args \<Rightarrow> stream_cleanup args | _ \<Rightarrow> False) (js_setup (j_spec j))"

abbreviation keeps_slot :: "job \<Rightarrow> bool" where
  "keeps_slot j \<equiv> drops_slot j \<longrightarrow> runs_clone j"

lemma scratch_setup [simp]: "js_setup (j_spec (scratch_workdir j)) = js_setup (j_spec j)"
  by (simp add: scratch_workdir_def upd_spec_def)

lemma shell_keeps_slot: "js_program (j_spec j) = Shell scr \<Longrightarrow> js_setup (j_spec j) = [] \<Longrightarrow> keeps_slot j"
  by (simp add: drops_slot_def)

lemma others_keep_slot:
  "buildGateJob d m img n = Inr j \<Longrightarrow> keeps_slot j"
  "buildRehearsalJob m img n = Inr j \<Longrightarrow> keeps_slot j"
  "buildReownJob m img = Inr j \<Longrightarrow> keeps_slot j"
  "buildVerifyJob m img g = Inr j \<Longrightarrow> keeps_slot j"
  "buildCatalogJob m img g = Inr j \<Longrightarrow> keeps_slot j"
  "buildPreflightJob m img = Inr j \<Longrightarrow> keeps_slot j"
  "buildCompareJob m img c = Inr j \<Longrightarrow> keeps_slot j"
  by (auto simp: buildGateJob_def buildRehearsalJob_def buildReownJob_def buildVerifyJob_def buildCatalogJob_def
      buildPreflightJob_def buildCompareJob_def drops_slot_def addConnectTimeout_def scriptJob_def stream_cleanup_def
      CompareSchemaArgs_def Let_def jobSkeleton_fields split: if_splits)

lemma worker_keeps_slot: "buildJob lost m img n = Inr j \<Longrightarrow> keeps_slot j"
  by (simp add: worker_runs_clone)

lemma worker_job_setup:
  "buildJob lost m img n = Inr j \<Longrightarrow> js_setup (j_spec j) =
     (if fresh_start lost m n \<and> 1 < sint n then [RunPgcopydb (cleanupArgs m)] else []) @ publicationDropGuard m n"
  by (auto simp: buildJob_def map_inr_def upd_spec_def add_env_def Let_def jobSkeleton_fields split: option.splits sum.splits if_splits)

lemma guard_keeps_slot: "\<not> list_ex (\<lambda>st. case st of RunPgcopydb args \<Rightarrow> stream_cleanup args | _ \<Rightarrow> False) (publicationDropGuard m n)"
  by (simp add: publicationDropGuard_def split: option.split)

lemma cleanup_args_drop: "stream_cleanup (cleanupArgs m)"
  by (simp add: stream_cleanup_def cleanupArgs_def Let_def)

lemma clone_args_keep: "\<not> stream_cleanup (CloneArgs sp a b c @ xs)"
  by (auto simp: stream_cleanup_def CloneArgs_def Let_def split: list.splits)

lemma worker_drops_slot:
  assumes "buildJob lost m img n = Inr j"
  shows "drops_slot j \<longleftrightarrow> fresh_start lost m n \<and> 1 < sint n"
  using buildJob_args(1) [OF assms] guard_keeps_slot [of m n]
  by (simp add: drops_slot_def worker_job_setup [OF assms] clone_args_keep cleanup_args_drop)

lemma cleanup_drops_slot: "buildCleanupJob m img = Inr j \<Longrightarrow> drops_slot j"
  by (auto simp: buildCleanupJob_def drops_slot_def stream_cleanup_def cleanupArgs_def addConnectTimeout_def Let_def jobSkeleton_fields)

section \<open>The order\<close>

definition control_drop :: "entry \<Rightarrow> bool" where
  "control_drop e = (case e of CreateJob j x \<Rightarrow> drops_slot j \<and> \<not> runs_clone j | _ \<Rightarrow> False)"

definition drain_evidence :: "migration \<Rightarrow> trace \<Rightarrow> bool" where
  "drain_evidence m h \<longleftrightarrow>
     (\<exists>j. GetJob False (verifyJobName m) (Inr j) \<in> set h \<and> jobFinished j = (True, True))"

definition cleanup_allowed :: "reconciler \<Rightarrow> entry \<Rightarrow> trace \<Rightarrow> bool" where
  "cleanup_allowed r e h \<longleftrightarrow> (\<exists>j x m. e = CreateJob j x \<and> buildCleanupJob m (RunnerImage r) = Inr j \<and> drain_evidence m h)"

abbreviation cleaned_in_order :: "reconciler \<Rightarrow> trace \<Rightarrow> bool" where
  "cleaned_in_order r \<equiv> before control_drop (cleanup_allowed r)"

abbreviation stays_drained :: "reconciler \<Rightarrow> pass \<Rightarrow> pass \<Rightarrow> bool" where
  "stays_drained r \<equiv> waits control_drop (cleanup_allowed r)"

lemma not_control_drop: "creating keeps_slot e \<longleftrightarrow> \<not> control_drop e"
  by (cases e) (simp_all add: control_drop_def)

lemma quiet_drained: "makes keeps_slot f \<Longrightarrow> keeps (stays_drained r) f"
  by (rule waits_quiet) (simp add: not_control_drop [abs_def, symmetric] cong: only_def)

definition drain_verified :: "pass \<Rightarrow> bool" where
  "drain_verified s \<longleftrightarrow> drain_evidence (mig s) (tr s)"

lemma drain_verified_steady: "drain_verified s \<Longrightarrow> steady s t \<Longrightarrow> drain_verified t"
  by (auto simp: drain_verified_def steady_def drain_evidence_def verifyJobName_def)

section \<open>The drain verification\<close>

lemma steady_drop [steady_intros]: "keeps steady (dropCompareProgress kind)"
  unfolding dropCompareProgress_def by (intro steady_intros) simp

lemma steady_counters [steady_intros]: "keeps steady (drain_counters r j)"
proof -
  have "keeps steady (cloneProgressFromLog tail)" for tail
    unfolding cloneProgressFromLog_def by (auto split: option.splits sum.splits intro!: steady_intros)
  then show ?thesis
    unfolding drain_counters_def recordCompareProgress_def by (intro steady_intros) simp_all
qed

lemma ensureVerify_verified:
  assumes "ensureVerify r s = (Inr DrainVerified, t)"
  shows "drain_verified t"
proof -
  let ?look = "\<lambda>jo. case jo of
            None \<Rightarrow> ret DrainRunning
          | Some j \<Rightarrow>
              if \<not> fst (jobFinished j) then
                bnd (attempt (readCompareProgress r VerificationProgressDrain j)) (\<lambda>_. ret DrainRunning)
              else seq (drain_counters r j)
                     (ret (if snd (jobFinished j) then DrainVerified else DrainRefuted))"
  obtain jo c u where job: "ensureJob r (verifyJobName (mig s)) (\<lambda>m. buildVerifyJob m (RunnerImage r) (progressGate r)) s = (Inr (jo, c), u)"
    and rest: "seq (do_when c (dropCompareProgress VerificationProgressDrain)) (?look jo) u = (Inr DrainVerified, t)"
    using assms unfolding ensureVerify_def run_with_m run_bnd by auto
  from rest obtain v where drop: "do_when c (dropCompareProgress VerificationProgressDrain) u = (Inr (), v)"
    and look: "?look jo v = (Inr DrainVerified, t)"
    unfolding run_seq by auto
  from look obtain j where jo: "jo = Some j" and "fst (jobFinished j)" "snd (jobFinished j)"
    and cnt: "drain_counters r j v = (Inr (), t)"
    by (cases jo) (auto simp: run_simps split: if_split_asm)
  then have fin: "jobFinished j = (True, True)" by (simp add: prod_eq_iff)
  have u: "\<not> c" "u = s\<lparr>tr := GetJob False (verifyJobName (mig s)) (Inr j) # tr s\<rparr>"
    using ensureJob_run [OF job] jo by simp_all
  then have "drain_verified u" using fin by (auto simp: drain_verified_def drain_evidence_def)
  moreover have "keeps steady (do_when c (dropCompareProgress VerificationProgressDrain))"
    "keeps steady (drain_counters r j)" by (intro steady_intros)+
  then have "steady u v" "steady v t" using drop cnt by (blast intro: keepsD)+
  ultimately show ?thesis using drain_verified_steady by blast
qed

lemma cleanup_allowed_now:
  assumes "drain_verified s" and "buildCleanupJob (mig s) (RunnerImage r) = Inr j"
  shows "cleanup_allowed r (CreateJob j x) (SetOwner n y # GetJob b k z # tr s)"
  using assms by (auto simp: cleanup_allowed_def drain_verified_def drain_evidence_def)

lemma ensureCleanup_drained: "waits_from drain_verified control_drop (cleanup_allowed r) (ensureCleanup r)"
proof (rule waits_fromI)
  fix s x t
  assume ok: "drain_verified s" and s: "cleaned_in_order r (tr s)" and run: "ensureCleanup r s = (x, t)"
  let ?job = "ensureJob r (cleanupJobName (mig s)) (\<lambda>m. buildCleanupJob m (RunnerImage r))"
  have job: "cleaned_in_order r (tr (snd (?job s)))"
    using s ok cleanup_allowed_now [OF ok]
    by (auto simp: ensureJob_def get_job_def set_owner_def create_job_def call_def bnd_def attempt_def seq_def with_m_def
        lift_sum_def ret_def raise_def control_drop_def split: prod.splits sum.splits if_splits)
  have rest: "keeps (stays_drained r) (case res of
       Inl e \<Rightarrow> if api_kind_of e = Some (Forbidden True) then
           seq (event True ''CleanupFailed'' ''Cleanup'' msg) (ret True) else raise e
     | Inr (jo, created) \<Rightarrow>
         seq (do_when created (event False ''CleanupStarted'' ''Cleanup'' a))
           (case jo of
              None \<Rightarrow> ret False
            | Some j \<Rightarrow>
                if \<not> fst (jobFinished j) then ret False
                else seq (do_when (\<not> snd (jobFinished j)) (event True ''CleanupFailed'' ''Cleanup'' b))
                  (ret True)))" for res msg a b
    by (rule quiet_drained) (intro keeps_intros)
  show "cleaned_in_order r (tr t)"
    using run waitsD [OF rest _ job]
    unfolding ensureCleanup_def by (auto simp: with_m_def bnd_def attempt_def split: prod.splits)
qed

section \<open>The whole pass\<close>

lemma steady_reown_None:
  assumes "reownGate r running msg s = (Inr None, t)"
  shows "steady s t"
proof -
  have *: "keeps steady (ensureReown r msg)"
    unfolding ensureReown_def ensureJob_def set_owner_def create_job_def Let_def by (intro steady_intros)
  show ?thesis
    using assms unfolding reownGate_def
    by (auto simp: run_simps split: if_split_asm prod.split_asm intro: keepsD [OF *] steady.R_refl)
qed

lemma after_handover_drained: "waits_from drain_verified control_drop (cleanup_allowed r) (after_handover r)"
proof -
  have checks: "makes keeps_slot (ensureVerification r)" by (intro makes_ensureVerification) (rule others_keep_slot)
  have rest: "keeps (stays_drained r) (if \<not> cleaned then finish r (RequeueAfter pollInterval)
        else bnd (ensureVerification r) (\<lambda>checked.
          if \<not> checked then finish r (RequeueAfter pollInterval)
          else complete r ''live migration finished'' ''live migration finished''))" for cleaned
    by (intro quiet_drained keeps_intros checks)
  have "waits_from drain_verified control_drop (cleanup_allowed r) (bnd (ensureCleanup r) (\<lambda>cleaned.
        if \<not> cleaned then finish r (RequeueAfter pollInterval)
        else bnd (ensureVerification r) (\<lambda>checked.
          if \<not> checked then finish r (RequeueAfter pollInterval)
          else complete r ''live migration finished'' ''live migration finished'')))"
  proof (rule waits_fromI)
    fix s x t
    assume P: "drain_verified s" and s: "cleaned_in_order r (tr s)" and run: "bnd (ensureCleanup r) (\<lambda>cleaned.
        if \<not> cleaned then finish r (RequeueAfter pollInterval)
        else bnd (ensureVerification r) (\<lambda>checked.
          if \<not> checked then finish r (RequeueAfter pollInterval)
          else complete r ''live migration finished'' ''live migration finished'')) s = (x, t)"
    obtain y u where clean: "ensureCleanup r s = (y, u)" by fastforce
    have "cleaned_in_order r (tr u)" using waits_fromD [OF ensureCleanup_drained P s clean] .
    then show "cleaned_in_order r (tr t)"
      using run clean waitsD [OF rest] by (cases y) (auto simp: bnd_def)
  qed
  note tail = this
  show ?thesis
    unfolding after_handover_def
    by (rule waits_from_seq [OF drain_verified_steady steady_setCondition _ tail])
      (assumption | rule quiet_drained, intro keeps_intros)+
qed

lemma finishFollow_drained: "keeps (stays_drained r) (finishFollow r)"
proof -
  have verify: "makes keeps_slot (ensureVerify r)" by (intro makes_ensureVerify) (rule others_keep_slot)
  have reown: "makes keeps_slot (reownGate r p msg)" for p msg by (intro makes_reownGate) (rule others_keep_slot)
  let ?after = "bnd (reownGate r PhaseCuttingOver slot_kept_note) (\<lambda>handled. case handled of
                    Some res \<Rightarrow> ret res | None \<Rightarrow> after_handover r)"
  have handover: "waits_from drain_verified control_drop (cleanup_allowed r) ?after"
  proof (rule waits_fromI)
    fix s x t
    assume P: "drain_verified s" and s: "cleaned_in_order r (tr s)" and run: "?after s = (x, t)"
    obtain y u where gate: "reownGate r PhaseCuttingOver slot_kept_note s = (y, u)" by fastforce
    have u: "cleaned_in_order r (tr u)" using waitsD [OF quiet_drained [OF reown] gate s] .
    show "cleaned_in_order r (tr t)"
    proof (cases "y = Inr None")
      case True
      then have "drain_verified u" using drain_verified_steady [OF P] steady_reown_None gate by blast
      moreover have "after_handover r u = (x, t)" using run gate True by (simp add: bnd_def)
      ultimately show ?thesis using u waits_fromD [OF after_handover_drained] by blast
    next
      case False
      then have "t = u" using run gate by (auto simp: bnd_def ret_def split: sum.splits option.splits)
      with u show ?thesis by simp
    qed
  qed
  let ?next = "\<lambda>d. case d of
                DrainRefuted \<Rightarrow> refute_drain r
              | DrainRunning \<Rightarrow> finish r (RequeueAfter pollInterval)
              | DrainVerified \<Rightarrow> ?after"
  have step: "keeps (stays_drained r) (bnd (ensureVerify r) ?next)"
  proof (rule keepsI)
    fix s x t
    assume run: "bnd (ensureVerify r) ?next s = (x, t)"
    obtain y u where v: "ensureVerify r s = (y, u)" by fastforce
    have quiet: "keeps (stays_drained r) (refute_drain r)"
      "keeps (stays_drained r) (finish r (RequeueAfter pollInterval))"
      unfolding refute_drain_def by (rule quiet_drained, intro keeps_intros)+
    show "stays_drained r s t"
      unfolding waits_def
    proof
      assume s: "cleaned_in_order r (tr s)"
      have u: "cleaned_in_order r (tr u)" using waitsD [OF quiet_drained [OF verify] v s] .
      show "cleaned_in_order r (tr t)"
      proof (cases y)
        case (Inl e)
        then show ?thesis using run v u by (simp add: bnd_def)
      next
        case (Inr d)
        then have run: "?next d u = (x, t)" using run v by (simp add: bnd_def)
        show ?thesis
        proof (cases d)
          case DrainVerified
          then have "drain_verified u" using v Inr by (auto intro: ensureVerify_verified)
          then show ?thesis using run u DrainVerified waits_fromD [OF handover] by auto
        qed (use run u waitsD [OF quiet(1)] waitsD [OF quiet(2)] in auto)
      qed
    qed
  qed
  show ?thesis
    unfolding finishFollow_def
    by (intro waits_intros quiet_drained [OF makes_cancelRehearsal] quiet_drained [OF makes_drainWaits] step)
      (rule quiet_drained, intro keeps_intros)+
qed

lemma nextAttempt_drained: "keeps (stays_drained r) (nextAttempt r)"
proof -
  have clone: "keeps (stays_drained r) (finishClone r)"
    by (intro quiet_drained makes_finishClone) (erule others_keep_slot)+
  have start: "keeps (stays_drained r) (startAttempt r)"
    by (intro quiet_drained makes_startAttempt) (rule worker_keeps_slot others_keep_slot; assumption)+
  show ?thesis
    unfolding nextAttempt_def
    by (intro waits_intros quiet_drained [OF makes_cancelRehearsal] quiet_drained [OF makes_reownJobExists]
        clone start finishFollow_drained)
qed

lemma worker_step_drained: "keeps (stays_drained r) (worker_step r)"
proof -
  have clone: "keeps (stays_drained r) (finishClone r)"
    by (intro quiet_drained makes_finishClone) (erule others_keep_slot)+
  have succeeded: "keeps (stays_drained r) (worker_succeeded r)"
    unfolding worker_succeeded_def
    by (intro waits_intros clone finishFollow_drained) (rule quiet_drained, intro keeps_intros)
  show ?thesis
    unfolding worker_step_def finished_step_def
    by (intro waits_intros nextAttempt_drained succeeded quiet_drained [OF makes_get_job]
        quiet_drained [OF makes_handleFailedJob])
qed

lemma live_step_drained: "keeps (stays_drained r) (live_step r)"
proof -
  have gate: "makes keeps_slot (preflightGate r)" by (intro makes_preflightGate) (rule others_keep_slot)
  have gated: "keeps (stays_drained r) (gated_step r)"
    unfolding gated_step_def
    by (intro waits_intros worker_step_drained) (rule quiet_drained, intro keeps_intros)+
  have validated: "keeps (stays_drained r) (validated_step r)"
    unfolding validated_step_def
    by (intro waits_intros gated quiet_drained [OF gate]) (rule quiet_drained, intro keeps_intros)+
  show ?thesis
    unfolding live_step_def
    by (intro waits_intros validated) (rule quiet_drained, intro keeps_intros)+
qed

lemma Reconcile_cleaned_in_order:
  assumes "tr s = []" and "fetched r s = Inr m" and "\<not> m_deleting m"
  shows "cleaned_in_order r (tr (snd (Reconcile r key s)))"
proof -
  have "keeps (stays_drained r) (handler r m)"
    using assms(3) live_step_drained by (simp add: handler_def)
  moreover have "keeps (stays_drained r) (after_step r n step)" for n step
    by (rule quiet_drained) (intro keeps_intros, erule others_keep_slot)
  ultimately have "keeps (stays_drained r) (bnd (attempt (handler r m)) (after_step r (now_at r (tr s))))"
    by (intro waits_intros)
  from Reconcile_keeps [OF this assms(2)] show ?thesis
    using assms(1) by (simp add: waits_def after_fetch_def control_drop_def)
qed

section \<open>The worker of a start-over\<close>

definition slot_drop :: "entry \<Rightarrow> bool" where
  "slot_drop e = (case e of CreateJob j x \<Rightarrow> drops_slot j | _ \<Rightarrow> False)"

text \<open>
  The worker of a later attempt that starts over: the status records that the copy lost its
  snapshot, the spec allows to drop what the target holds, and the gate's evidence for this attempt
  and the settled budget came before it.
\<close>

definition starts_over :: "reconciler \<Rightarrow> job \<Rightarrow> trace \<Rightarrow> bool" where
  "starts_over r j h \<longleftrightarrow> (\<exists>m n m0. buildJob True m (RunnerImage r) n = Inr j \<and> 1 < sint n \<and>
     snapshotLost r m \<and> drop_if_exists (clone (spec m)) \<and> gate_evidence r n m0 h \<and> settled r m0 m h)"

definition drop_allowed :: "reconciler \<Rightarrow> entry \<Rightarrow> trace \<Rightarrow> bool" where
  "drop_allowed r e h \<longleftrightarrow> (\<exists>j x. e = CreateJob j x \<and>
     ((\<exists>m. buildCleanupJob m (RunnerImage r) = Inr j \<and> drain_evidence m h) \<or> starts_over r j h))"

lemma worker_allowed_drop:
  assumes "worker_allowed r j h" and "drops_slot j"
  shows "starts_over r j h"
proof -
  obtain m n where w: "buildJob (snapshotLost r m) m (RunnerImage r) n = Inr j"
    and later: "1 < sint n \<longrightarrow> (\<exists>m0. gate_evidence r n m0 h \<and> settled r m0 m h)"
    using assms(1) unfolding worker_allowed_def by blast
  have "fresh_start (snapshotLost r m) m n" and n: "1 < sint n" using worker_drops_slot [OF w] assms(2) by simp_all
  then have "snapshotLost r m" "drop_if_exists (clone (spec m))" by (auto simp: fresh_start_def)
  with w n later show ?thesis unfolding starts_over_def by auto
qed

lemma before_slot_drop:
  assumes "cleaned_in_order r t" and "justified r t"
  shows "before slot_drop (drop_allowed r) t"
  unfolding before_def
proof (intro allI impI)
  fix later e h
  assume t: "t = later @ e # h" and "slot_drop e"
  then obtain j x where e: "e = CreateJob j x" and drop: "drops_slot j"
    by (cases e) (auto simp: slot_drop_def)
  show "drop_allowed r e h"
  proof (cases "runs_clone j")
    case True
    then have "worker_allowed r j h" using assms(2) t e unfolding justified_def by blast
    then show ?thesis using worker_allowed_drop drop e by (auto simp: drop_allowed_def)
  next
    case False
    then have "cleanup_allowed r e h" using assms(1) t e drop by (simp add: before_def control_drop_def)
    then show ?thesis using e by (auto simp: drop_allowed_def cleanup_allowed_def)
  qed
qed

lemma Reconcile_slot_drops:
  assumes "tr s = []" and "fetched r s = Inr m" and "\<not> m_deleting m"
  shows "before slot_drop (drop_allowed r) (tr (snd (Reconcile r key s)))"
  using before_slot_drop [OF Reconcile_cleaned_in_order [OF assms] Reconcile_justified [OF assms(1) prod.collapse [symmetric]]] .

end
