(* ===== verification/Pass_Guards.thy ===== *)
theory Pass_Guards
  imports Drain_Gate
begin

text \<open>
  What a pass may do given the Migration it fetched: an ended or suspended one creates no Job, a
  deleted one creates the cleanup Job at most and releases the finalizer only behind it, a dry
  run creates no worker, and no pass creates two workers.
\<close>

section \<open>Ended and suspended Migrations\<close>

text \<open>When the handler cannot ask for an observation, what follows it creates nothing.\<close>

definition no_observation :: "err + step \<Rightarrow> bool" where
  "no_observation step \<longleftrightarrow> (\<forall>name. step \<noteq> Inr (ObserveWorker name))"

lemma no_observation_simps [simp]: "no_observation (Inl e)" "no_observation (Inr (Finished res))"
  by (simp_all add: no_observation_def)

lemma no_observation_finished [gives_intros]: "gives no_observation (finished_step f)"
  unfolding finished_step_def by (intro gives_intros) simp_all

lemma Reconcile_makes_quiet:
  assumes "fetched r s = Inr m" and "handler r m (after_fetch r m s) = f (after_fetch r m s)"
    and "makes A f" and "gives no_observation f"
  shows "only (creating A) (after_fetch r m s) (snd (Reconcile r key s))"
proof -
  obtain x u where f: "f (after_fetch r m s) = (x, u)" by fastforce
  have x: "no_observation x" using gives_run [OF assms(4) f] .
  have "makes A (after_step r (now_at r (tr s)) x)"
    using x by (auto simp: after_step_def no_observation_def split: sum.split step.split intro!: keeps_intros)
  from keeps_snd [OF this] have "only (creating A) u (snd (after_step r (now_at r (tr s)) x u))" .
  moreover have "only (creating A) (after_fetch r m s) u" using assms(3) f by (rule keepsD)
  ultimately show ?thesis
    unfolding Reconcile_fetched [OF assms(1)] by (auto simp: bnd_def attempt_def assms(2) f intro: only_trans)
qed

lemma after_fetch_mig [simp]: "mig (after_fetch r m s) = m"
  by (simp add: after_fetch_def)

lemma live_step_stopped:
  assumes "ended_migration r m \<or> statusIsEmpty m \<or> suspend (spec m)"
  shows "live_step r (after_fetch r m s) = finished_step
     (if ended_migration r m then end_pass r else if statusIsEmpty m then first_pass r else reconcileSuspended r)
     (after_fetch r m s)"
  using assms by (auto simp: live_step_def with_m_def)

text \<open>An ended, a new and a suspended Migration: no Job at all.\<close>

lemma stopped_creates_nothing:
  assumes "fetched r s = Inr m" and "\<not> m_deleting m"
    and "ended_migration r m \<or> statusIsEmpty m \<or> suspend (spec m)"
  shows "only (creating no_job) (after_fetch r m s) (snd (Reconcile r key s))"
proof (rule Reconcile_makes_quiet [OF assms(1)])
  let ?f = "finished_step
     (if ended_migration r m then end_pass r else if statusIsEmpty m then first_pass r else reconcileSuspended r)"
  show "handler r m (after_fetch r m s) = ?f (after_fetch r m s)"
    using assms(2) live_step_stopped [OF assms(3)] by (simp add: handler_def)
  show "makes no_job ?f" by (intro keeps_intros)
  show "gives no_observation ?f" by (intro gives_intros)
qed

section \<open>Deleted Migrations\<close>

text \<open>The Jobs of a deletion: the cleanup Job.\<close>

definition cleanup_job :: "reconciler \<Rightarrow> job \<Rightarrow> bool" where
  "cleanup_job r j \<longleftrightarrow> (\<exists>m. buildCleanupJob m (RunnerImage r) = Inr j)"

lemma makes_deletion: "makes (cleanup_job r) (reconcileDeletion r)"
  unfolding reconcileDeletion_def stop_worker_def release_finalizer_def ensureCleanup_def
  by (intro keeps_intros makes_ensureJob) (auto simp: cleanup_job_def)

lemma deleted_creates_cleanup:
  assumes "fetched r s = Inr m" and "m_deleting m"
  shows "only (creating (cleanup_job r)) (after_fetch r m s) (snd (Reconcile r key s))"
proof (rule Reconcile_makes_quiet [OF assms(1)])
  show "handler r m (after_fetch r m s) = handler r m (after_fetch r m s)" ..
  show "makes (cleanup_job r) (handler r m)"
    using assms(2) by (simp add: handler_def) (intro keeps_intros makes_deletion)
  show "gives no_observation (handler r m)"
    using assms(2) by (simp add: handler_def) (intro gives_intros; simp)
qed

text \<open>Metadata patches: in a deletion, the release of the finalizer.\<close>

fun meta_patch :: "entry \<Rightarrow> bool" where
  "meta_patch (PatchMeta l b m x) \<longleftrightarrow> True"
| "meta_patch e \<longleftrightarrow> False"

text \<open>The API server refused a call because the namespace is terminating.\<close>

definition refused_terminating :: "trace \<Rightarrow> bool" where
  "refused_terminating h \<longleftrightarrow> (\<exists>e n j. api_kind_of e = Some (Forbidden True) \<and>
     (GetJob False n (Inl e) \<in> set h \<or> SetOwner n (Inl e) \<in> set h \<or> CreateJob j (Inl e) \<in> set h))"

definition cleanup_over :: "string \<Rightarrow> trace \<Rightarrow> bool" where
  "cleanup_over name h \<longleftrightarrow>
     (\<exists>j. GetJob False (name @ ''-cleanup'') (Inr j) \<in> set h \<and> fst (jobFinished j)) \<or> refused_terminating h"

lemma connection_errors:
  "Materialize sd c = Inl e \<Longrightarrow> api_kind_of e = None"
  by (auto simp: Materialize_def ComposeURI_def Let_def split: if_splits sum.splits option.splits prod.splits)

lemma jobSkeleton_errors: "jobSkeleton m img name prog st b fs extras = Inl e \<Longrightarrow> api_kind_of e = None"
  by (auto simp: jobSkeleton_def Let_def split: sum.splits dest: connection_errors)

lemma buildCleanupJob_errors: "buildCleanupJob m img = Inl e \<Longrightarrow> api_kind_of e = None"
  by (auto simp: buildCleanupJob_def dest: jobSkeleton_errors)

lemma ensureJob_refused:
  assumes "ensureJob r name build s = (Inl e, t)" and "api_kind_of e = Some (Forbidden True)"
    and "\<And>m e. build m = Inl e \<Longrightarrow> api_kind_of e = None"
  shows "refused_terminating (tr t)"
  using assms unfolding ensureJob_def get_job_def set_owner_def create_job_def call_def
  by (fastforce simp: bnd_def attempt_def with_m_def seq_def lift_sum_def ret_def raise_def refused_terminating_def
      split: sum.split_asm if_split_asm prod.split_asm)

lemma ensureCleanup_over:
  assumes "ensureCleanup r s = (Inr True, t)"
  shows "cleanup_over (m_name (mig s)) (tr t)"
proof -
  let ?job = "ensureJob r (cleanupJobName (mig s)) (\<lambda>m. buildCleanupJob m (RunnerImage r)) s"
  from assms consider e u where "?job = (Inl e, u)" "api_kind_of e = Some (Forbidden True)" "set (tr u) \<subseteq> set (tr t)"
    | j c u where "?job = (Inr (Some j, c), u)" "fst (jobFinished j)" "set (tr u) \<subseteq> set (tr t)"
    unfolding ensureCleanup_def run_with_m run_attempt_case
    by (auto simp: run_simps event_def split: if_split_asm option.split_asm)
  then show ?thesis
  proof cases
    case 1
    then have "refused_terminating (tr u)" by (auto intro: ensureJob_refused buildCleanupJob_errors)
    with 1(3) show ?thesis by (auto simp: cleanup_over_def refused_terminating_def)
  next
    case 2
    with ensureJob_run [OF 2(1)] have "GetJob False (cleanupJobName (mig s)) (Inr j) \<in> set (tr t)" by auto
    with 2 show ?thesis by (auto simp: cleanup_over_def cleanupJobName_def)
  qed
qed

lemma no_meta_cancelRehearsal: "keeps (only (\<lambda>e. \<not> meta_patch e)) (cancelRehearsal r why)"
  unfolding cancelRehearsal_def cancelRecordedRehearsal_def end_canceled_def rehearsalJob_def
    deleteRehearsalJob_def recordRehearsal_def set_rehearsal_def ignore_not_found_def get_job_def get_job_uncached_def
    delete_job_def list_jobs_uncached_def
  by (intro keeps_intros) simp_all

lemma no_meta_stop_worker: "keeps (only (\<lambda>e. \<not> meta_patch e)) (stop_worker r)"
  unfolding stop_worker_def ignore_not_found_def get_job_def delete_job_def by (intro keeps_intros) simp_all

lemma no_meta_ensureCleanup: "keeps (only (\<lambda>e. \<not> meta_patch e)) (ensureCleanup r)"
  unfolding ensureCleanup_def ensureJob_def get_job_def set_owner_def create_job_def by (intro keeps_intros) simp_all

text \<open>A Migration that ran: the finalizer goes after the cleanup.\<close>

definition ran :: "string \<Rightarrow> pass \<Rightarrow> bool" where
  "ran name s \<longleftrightarrow> 0 < sint (attempts (status (mig s))) \<and> m_name (mig s) = name"

lemma ran_steady: "ran name s \<Longrightarrow> steady s t \<Longrightarrow> ran name t"
  by (simp add: ran_def steady_def)

abbreviation released_after :: "string \<Rightarrow> trace \<Rightarrow> bool" where
  "released_after name \<equiv> before meta_patch (\<lambda>e. cleanup_over name)"

lemma steady_stop_worker: "keeps steady (stop_worker r)"
  unfolding stop_worker_def ignore_not_found_def by (intro steady_intros)

lemma release_after_cleanup:
  "waits_from (ran name) meta_patch (\<lambda>e. cleanup_over name)
     (bnd (ensureCleanup r) (\<lambda>done. if \<not> done then ret (RequeueAfter pollInterval) else release_finalizer r))"
  (is "waits_from _ _ _ (bnd _ ?k)")
proof (rule waits_fromI)
  fix s x t
  assume P: "ran name s" and s: "released_after name (tr s)" and run: "bnd (ensureCleanup r) ?k s = (x, t)"
  obtain y u where clean: "ensureCleanup r s = (y, u)" by fastforce
  have u: "released_after name (tr u)" using waitsD [OF waits_quiet [OF no_meta_ensureCleanup] clean s] .
  show "released_after name (tr t)"
  proof (cases "y = Inr True")
    case True
    then have "cleanup_over name (tr u)" using ensureCleanup_over clean P by (auto simp: ran_def)
    moreover have "release_finalizer r u = (x, t)" using run clean True by (simp add: bnd_def)
    ultimately show ?thesis
      using u by (auto simp: release_finalizer_def seq_def bnd_def patch_meta_def with_m_def gauges_def log_entry_def
          ret_def Let_def split: sum.split_asm)
  next
    case False
    then have "t = u" using run clean by (auto simp: bnd_def ret_def split: sum.splits)
    with u show ?thesis by simp
  qed
qed

lemma deletion_released: "waits_from (ran name) meta_patch (\<lambda>e. cleanup_over name) (reconcileDeletion r)"
proof -
  let ?gone = "\<lambda>m. seq (gauges (Forget (m_namespace m) (m_name m))) (ret Done)"
  let ?worker = "bnd (stop_worker r) (\<lambda>stopping. if stopping then ret (RequeueAfter pollInterval)
      else bnd (ensureCleanup r) (\<lambda>done. if \<not> done then ret (RequeueAfter pollInterval) else release_finalizer r))"
  have quiet: "keeps (waits meta_patch E) (?gone m)" "keeps (waits meta_patch E) (ret y)" for E m and y :: result
    by (rule waits_quiet, intro keeps_intros, simp)+ (rule waits_quiet, intro keeps_intros)
  have worker: "waits_from (ran name) meta_patch (\<lambda>e. cleanup_over name) ?worker"
  proof (rule waits_from_bnd [OF ran_steady steady_stop_worker waits_quiet [OF no_meta_stop_worker]])
    fix stopping
    show "waits_from (ran name) meta_patch (\<lambda>e. cleanup_over name) (if stopping then ret (RequeueAfter pollInterval)
      else bnd (ensureCleanup r) (\<lambda>done. if \<not> done then ret (RequeueAfter pollInterval) else release_finalizer r))"
      using release_after_cleanup waits_from_waits [OF quiet(2)] by simp
  qed
  have body: "waits_from (ran name) meta_patch (\<lambda>e. cleanup_over name) (with_m (\<lambda>m.
        if \<not> has_finalizer r (m_finalizers m) finalizerName then ?gone m
        else if 0 < sint (attempts (status m)) then ?worker else release_finalizer r))"
  proof (rule waits_fromI)
    fix s x t
    assume P: "ran name s" and s: "released_after name (tr s)" and "with_m (\<lambda>m.
        if \<not> has_finalizer r (m_finalizers m) finalizerName then ?gone m
        else if 0 < sint (attempts (status m)) then ?worker else release_finalizer r) s = (x, t)"
    then show "released_after name (tr t)"
      using waitsD [OF quiet(1), of _ s x t] waits_fromD [OF worker P s, of x t]
      by (auto simp: with_m_def ran_def split: if_split_asm)
  qed
  show ?thesis
    unfolding reconcileDeletion_def
    by (rule waits_from_seq [OF ran_steady steady_cancelRehearsal waits_quiet [OF no_meta_cancelRehearsal] body])
qed

lemma Reconcile_released:
  assumes "tr s = []" and "fetched r s = Inr m" and "m_deleting m" and "0 < sint (attempts (status m))"
  shows "released_after (m_name m) (tr (snd (Reconcile r key s)))"
proof -
  let ?P = "ran (m_name m)" and ?E = "\<lambda>e. cleanup_over (m_name m)"
  have stop: "keeps steady (stopSampling r)" "keeps (waits meta_patch ?E) (stopSampling r)"
    unfolding stopSampling_def by (intro steady_intros) (rule waits_quiet, intro keeps_intros, simp)
  have fin: "waits_from ?P meta_patch ?E (finished_step f)" if "waits_from ?P meta_patch ?E f" for f
    using that unfolding waits_from_def finished_step_def bnd_def ret_def by (auto split: prod.splits sum.splits)
  have h: "waits_from ?P meta_patch ?E (handler r m)"
    using assms(3) waits_from_seq [OF ran_steady stop fin [OF deletion_released]] by (simp add: handler_def)
  obtain x u where run: "handler r m (after_fetch r m s) = (x, u)" by fastforce
  have "released_after (m_name m) (tr u)"
    using assms h by (rule_tac waits_fromD [OF h _ _ run]) (simp_all add: ran_def after_fetch_def)
  moreover have "gives no_observation (handler r m)"
    using assms(3) by (simp add: handler_def) (intro gives_intros; simp)
  from gives_run [OF this run] have "no_observation x" .
  then have "keeps (waits meta_patch ?E) (after_step r (now_at r (tr s)) x)"
    by (auto simp: after_step_def no_observation_def split: sum.split step.split intro!: waits_intros stop(2))
  ultimately have "released_after (m_name m) (tr (snd (after_step r (now_at r (tr s)) x u)))"
    by (intro waits_snd)
  then show ?thesis
    unfolding Reconcile_fetched [OF assms(2)] by (simp add: bnd_def attempt_def run)
qed

text \<open>A worker Job that is being deleted, its pods still running, does not hold the cleanup back.\<close>

lemma cleanup_beside_worker:
  assumes "verificationRehearsal (status (mig s)) = None" and "list_jobs_reply r (tr s) (with_api_reader r) = Inr []"
    and "has_finalizer r (m_finalizers (mig s)) finalizerName" and "0 < sint (attempts (status (mig s)))"
    and "jobName (status (mig s)) \<noteq> []"
    and "get_job_reply r (ListJobs (with_api_reader r) (Inr []) # tr s) False (jobName (status (mig s))) = Inr w"
    and "j_deleting w"
    and "get_job_reply r (GetJob False (jobName (status (mig s))) (Inr w) # ListJobs (with_api_reader r) (Inr []) # tr s)
           False (cleanupJobName (mig s)) = Inl e" and "is_not_found e"
    and "buildCleanupJob (mig s) (RunnerImage r) = Inr j"
    and "\<And>h. set_owner_reply r h (j_name j) = Inr ()" and "\<And>h. create_job_reply r h j = Inr ()"
  shows "CreateJob j (Inr ()) \<in> set (tr (snd (reconcileDeletion r s)))"
  using assms
  by (simp add: reconcileDeletion_def cancelRehearsal_def cancelRecordedRehearsal_def list_jobs_uncached_def stop_worker_def
      ensureCleanup_def ensureJob_def get_job_def set_owner_def create_job_def call_def seq_def bnd_def with_m_def attempt_def
      ret_def raise_def lift_sum_def do_when_def event_def log_entry_def split: if_split)

end
