(* ===== verification/Worker_Count.thy ===== *)
theory Worker_Count
  imports Pass_Guards
begin

text \<open>
  How many workers a pass creates: one at most (\<open>spends\<close> bounds the number for a handler and adds up
  over sequences), and none for a dry run whose \<open>spec.dryRun\<close> the API server keeps, as the rule on
  the field in the CRD makes it do.
\<close>

section \<open>One worker per pass\<close>

fun worker_start :: "entry \<Rightarrow> bool" where
  "worker_start (CreateJob j x) \<longleftrightarrow> runs_clone j"
| "worker_start e \<longleftrightarrow> False"

definition workers :: "trace \<Rightarrow> nat" where
  "workers t = length (filter worker_start t)"

definition spends :: "nat \<Rightarrow> 'a act \<Rightarrow> bool" where
  "spends n f \<longleftrightarrow> (\<forall>s. workers (tr (snd (f s))) \<le> workers (tr s) + n)"

lemma spendsI: "(\<And>s x t. f s = (x, t) \<Longrightarrow> workers (tr t) \<le> workers (tr s) + n) \<Longrightarrow> spends n f"
  by (simp add: spends_def) (metis prod.collapse)

lemma spendsD: "spends n f \<Longrightarrow> f s = (x, t) \<Longrightarrow> workers (tr t) \<le> workers (tr s) + n"
  unfolding spends_def by (metis snd_conv)

named_theorems spends_intros

lemma creating_no_worker: "creating no_worker e \<longleftrightarrow> \<not> worker_start e"
  by (cases e) simp_all

lemma spends_none: "makes no_worker f \<Longrightarrow> spends n f"
  by (rule spendsI)
    (fastforce simp: only_def workers_def creating_no_worker [abs_def] list_all_iff dest!: keepsD [of "only (creating no_worker)"])

lemma spends_bnd: "spends 0 f \<Longrightarrow> (\<And>x. spends n (k x)) \<Longrightarrow> spends n (bnd f k)"
  by (rule spendsI) (fastforce simp: bnd_def split: prod.split_asm sum.split_asm dest: spendsD)

lemma spends_bnd_last: "spends n f \<Longrightarrow> (\<And>x. spends 0 (k x)) \<Longrightarrow> spends n (bnd f k)"
  by (rule spendsI) (fastforce simp: bnd_def split: prod.split_asm sum.split_asm dest: spendsD)

lemma spends_attempt [spends_intros]: "spends n f \<Longrightarrow> spends n (attempt f)"
  by (rule spendsI) (auto simp: attempt_def split: prod.split_asm dest: spendsD)

lemma spends_bnd_quiet [spends_intros]: "makes no_worker f \<Longrightarrow> (\<And>x. spends n (k x)) \<Longrightarrow> spends n (bnd f k)"
  by (rule spends_bnd) (rule spends_none)

lemma spends_seq_quiet [spends_intros]: "makes no_worker f \<Longrightarrow> spends n g \<Longrightarrow> spends n (seq f g)"
  by (simp add: seq_def spends_bnd_quiet)

lemma spends_with_m [spends_intros]: "(\<And>m. spends n (k m)) \<Longrightarrow> spends n (with_m k)"
  by (simp add: spends_def with_m_def)

lemma spends_if [spends_intros]: "(b \<Longrightarrow> spends n f) \<Longrightarrow> (\<not> b \<Longrightarrow> spends n g) \<Longrightarrow> spends n (if b then f else g)"
  by simp

lemma spends_case_option [spends_intros]:
  "spends n f \<Longrightarrow> (\<And>y. spends n (g y)) \<Longrightarrow> spends n (case x of None \<Rightarrow> f | Some y \<Rightarrow> g y)"
  by (cases x) simp_all

lemma spends_case_sum [spends_intros]:
  "(\<And>a. spends n (f a)) \<Longrightarrow> (\<And>b. spends n (g b)) \<Longrightarrow> spends n (case x of Inl a \<Rightarrow> f a | Inr b \<Rightarrow> g b)"
  by (cases x) simp_all

lemma spends_case_prod [spends_intros]: "(\<And>a b. spends n (f a b)) \<Longrightarrow> spends n (case p of (a, b) \<Rightarrow> f a b)"
  by (cases p) simp

lemma spends_create_job: "spends 1 (create_job r j)"
  by (rule spendsI) (auto simp: create_job_def call_def workers_def)

lemma spends_finished_step: "spends n f \<Longrightarrow> spends n (finished_step f)"
  unfolding finished_step_def by (rule spends_bnd_last) (auto intro: spends_none keeps_intros)

lemma spends_create_worker: "spends 1 (create_worker r n)"
proof -
  have made: "spends 1 (bnd (attempt (create_job r j)) (\<lambda>made. case made of
            Inr u \<Rightarrow> recordAttempt r name True
          | Inl e \<Rightarrow> if is_already_exists e then recordAttempt r name False else raise e))" for j name
    by (rule spends_bnd_last [OF spends_attempt [OF spends_create_job]]) (rule spends_none, intro keeps_intros)
  show ?thesis
    unfolding create_worker_def bnd_lift_sum
    by (intro spends_with_m spends_case_sum spends_seq_quiet makes_set_owner made)
      (rule spends_none, intro keeps_intros)
qed

lemma spends_startAttempt: "spends 1 (startAttempt r)"
proof -
  have gate: "makes no_worker (retryGate_pass r n)" for n
    by (intro makes_retryGate) (rule others_no_worker)
  have quiet: "makes no_worker (recordAttempt r n b)" "makes no_worker (seq (failBudget r) (finish r Done))"
    "makes no_worker (unrecorded_worker r k)" "makes no_worker (ret y)" for n b k and y :: result
    unfolding unrecorded_worker_def by (intro keeps_intros)+
  show ?thesis
    unfolding startAttempt_def gate_and_settle_def Let_def
    by (intro spends_intros gate quiet makes_settleBudget spends_create_worker spends_none [OF quiet(1)]
        spends_none [OF quiet(2)] spends_none [OF quiet(4)])
qed

lemma spends_live_step: "spends 1 (live_step r)"
proof -
  have finish: "makes no_worker (finishClone r)" "makes no_worker (finishFollow r)"
    by (intro makes_finishClone makes_finishFollow; erule others_no_worker)+
  have next_: "spends 1 (nextAttempt r)"
    unfolding nextAttempt_def
    by (intro spends_intros spends_startAttempt spends_none [OF finish(1)] spends_none [OF finish(2)] keeps_intros)
  have succeeded: "makes no_worker (worker_succeeded r)"
    unfolding worker_succeeded_def by (intro keeps_intros finish)
  have worker: "spends 1 (worker_step r)"
    unfolding worker_step_def
    by (intro spends_with_m spends_if spends_bnd_quiet spends_case_sum spends_finished_step [OF next_]
        only.keeps_attempt makes_get_job) (rule spends_none, intro keeps_intros succeeded)+
  have gate: "makes no_worker (preflightGate r)" by (intro makes_preflightGate) (rule others_no_worker)
  have gated: "spends 1 (gated_step r)"
    unfolding gated_step_def
    by (intro spends_seq_quiet spends_with_m spends_if worker only_setCondition) (rule spends_none, intro keeps_intros)
  have validated: "spends 1 (validated_step r)"
    unfolding validated_step_def
    by (intro spends_seq_quiet spends_bnd_quiet spends_case_option gated gate makes_ensureFinalizer makes_ensureOwned
        makes_recordWorkNode) (rule spends_none, intro keeps_intros)
  show ?thesis
    unfolding live_step_def by (intro spends_intros validated) (rule spends_none, intro keeps_intros)+
qed

lemma Reconcile_one_worker: "workers (tr (snd (Reconcile r key s))) \<le> workers (tr s) + 1"
proof -
  have fetch: "makes no_worker (get_migration r)" by (intro keeps_intros)
  have step: "spends 1 (pass_step r key)"
    unfolding pass_step_def
    by (intro spends_bnd_quiet spends_case_sum spends_with_m spends_if spends_live_step only.keeps_attempt fetch)
      (rule spends_none, intro keeps_intros makes_reconcileDeletion, (erule others_no_worker)?)+
  have after: "spends 0 (after_step r start x)" for start x
    by (rule spends_none) (intro keeps_intros others_no_worker)
  have "reconcile r key = bnd (currentTime r) (\<lambda>start. bnd (attempt (pass_step r key)) (after_step r start))"
    by (simp add: reconcile_def after_step_def [abs_def])
  moreover have "spends 1 (bnd (currentTime r) (\<lambda>start. bnd (attempt (pass_step r key)) (after_step r start)))"
    by (intro spends_bnd_quiet makes_currentTime spends_bnd_last [OF spends_attempt [OF step] after])
  ultimately have "spends 1 (reconcile r key)" by simp
  then have "spends 1 (Reconcile r key)"
    unfolding Reconcile_def
    by (intro spends_bnd_last [OF spends_attempt]) (assumption | rule spends_none, intro keeps_intros)+
  then show ?thesis by (simp add: spends_def)
qed

section \<open>Dry runs\<close>

text \<open>The API server's replies to patches keep \<open>spec.dryRun\<close>, which the CRD makes immutable.\<close>

definition dry_run_immutable :: "reconciler \<Rightarrow> bool" where
  "dry_run_immutable r \<longleftrightarrow>
     (\<forall>h l b m m'. patch_status_reply r h l b m = Inr m' \<longrightarrow> dryRun (spec m') = dryRun (spec m)) \<and>
     (\<forall>h l b m m'. patch_meta_reply r h l b m = Inr m' \<longrightarrow> dryRun (spec m') = dryRun (spec m))"

definition same_dry_run :: "pass \<Rightarrow> pass \<Rightarrow> bool" where
  "same_dry_run s t \<longleftrightarrow> dryRun (spec (mig t)) = dryRun (spec (mig s))"

interpretation same_dry_run: frame same_dry_run
  by unfold_locales (simp_all add: same_dry_run_def)

named_theorems dry_intros

lemmas dry_control [dry_intros] = same_dry_run.keeps_ret same_dry_run.keeps_raise same_dry_run.keeps_lift_sum
  same_dry_run.keeps_bnd same_dry_run.keeps_attempt same_dry_run.keeps_each keeps_if keeps_case_option keeps_case_sum
  keeps_case_prod keeps_case_list

lemma dry_call [dry_intros]: "keeps same_dry_run (call f mk)"
  by (rule keepsI) (auto simp: call_def same_dry_run_def)

lemma dry_log_entry [dry_intros]: "keeps same_dry_run (log_entry e)"
  by (rule keepsI) (auto simp: log_entry_def same_dry_run_def)

lemma dry_with_m [dry_intros]: "(\<And>m. keeps same_dry_run (k m)) \<Longrightarrow> keeps same_dry_run (with_m k)"
  by (rule keepsI) (auto simp: with_m_def dest: keepsD)

lemma dry_seq [dry_intros]: "keeps same_dry_run f \<Longrightarrow> keeps same_dry_run g \<Longrightarrow> keeps same_dry_run (seq f g)"
  by (simp add: seq_def same_dry_run.keeps_bnd)

lemma dry_when [dry_intros]: "(b \<Longrightarrow> keeps same_dry_run f) \<Longrightarrow> keeps same_dry_run (do_when b f)"
  by (simp add: do_when_def same_dry_run.keeps_ret)

lemma dry_set_m: "(\<And>m. dryRun (spec (f m)) = dryRun (spec m)) \<Longrightarrow> keeps same_dry_run (set_m f)"
  by (rule keepsI) (auto simp: set_m_def same_dry_run_def)

lemma dry_set_status [dry_intros]: "keeps same_dry_run (set_status f)"
  unfolding set_status_def by (rule dry_set_m) simp

lemma dry_setCondition [dry_intros]: "keeps same_dry_run (setCondition r t st reason msg)"
  by (rule keepsI) (auto simp: setCondition_def with_m_def put_condition_def same_dry_run_def)

lemma dry_currentTime [dry_intros]: "keeps same_dry_run (currentTime r)"
  by (rule keepsI) (auto simp: currentTime_def same_dry_run_def)

lemma dry_patch_status [dry_intros]: "dry_run_immutable r \<Longrightarrow> keeps same_dry_run (patch_status r locked)"
  by (rule keepsI) (auto simp: patch_status_def Let_def same_dry_run_def dry_run_immutable_def split: sum.split_asm)

lemma dry_patch_meta [dry_intros]:
  "dry_run_immutable r \<Longrightarrow> (\<And>m. dryRun (spec (f m)) = dryRun (spec m)) \<Longrightarrow> keeps same_dry_run (patch_meta r locked f)"
  by (rule keepsI) (auto simp: patch_meta_def Let_def same_dry_run_def dry_run_immutable_def split: sum.split_asm)

lemma dry_updateStatus [dry_intros]: "dry_run_immutable r \<Longrightarrow> keeps same_dry_run (updateStatus r)"
  unfolding updateStatus_def gauges_def by (intro dry_intros dry_set_m) simp_all

lemma dry_preparation:
  assumes "dry_run_immutable r"
  shows "keeps same_dry_run (ensureFinalizer r)" "keeps same_dry_run (ensureOwned r)"
    "keeps same_dry_run (recordWorkNode r)" "keeps same_dry_run (preflightGate r)"
proof -
  have job: "keeps same_dry_run (ensureJob r name build)" for name build
    unfolding ensureJob_def get_job_def set_owner_def create_job_def by (intro dry_intros)
  have logs: "keeps same_dry_run (readJobLog r n k)" "keeps same_dry_run (jobLogTail r n k)" for n k
    unfolding readJobLog_def jobLogTail_def by (intro dry_intros)+
  show "keeps same_dry_run (ensureFinalizer r)"
    unfolding ensureFinalizer_def by (intro dry_intros assms) simp
  show "keeps same_dry_run (ensureOwned r)"
    unfolding ensureOwned_def createStrictlyOwned_def set_owner_def by (intro dry_intros)
  show "keeps same_dry_run (recordWorkNode r)"
    unfolding recordWorkNode_def list_pods_def by (intro dry_intros assms) (simp add: set_annotation_def)
  have pre: "keeps same_dry_run (ensurePreflight r)"
    unfolding ensurePreflight_def preflight_failure_def event_def by (intro dry_intros job logs)
  show "keeps same_dry_run (preflightGate r)"
    unfolding preflightGate_def emitPreflightOutcome_def emit_bundle_def fail_with_def set_phase_def podWaitDetail_def
      endHold_def list_pods_def event_def Let_def
    by (intro dry_intros assms pre logs)
qed

text \<open>With \<open>dryRun\<close> set, the gated step completes the Migration instead of looking at a worker.\<close>

definition dry :: "pass \<Rightarrow> bool" where
  "dry s \<longleftrightarrow> dryRun (spec (mig s))"

lemma dry_same: "dry s \<Longrightarrow> same_dry_run s t \<Longrightarrow> dry t"
  by (simp add: dry_def same_dry_run_def)

lemma dry_gated_step: "waits_from dry worker_start E (gated_step r)"
proof (rule waits_fromI)
  fix s x t
  assume P: "dry s" and s: "before worker_start E (tr s)" and run: "gated_step r s = (x, t)"
  have quiet: "makes no_worker (finished_step (completeDryRun r))" by (intro keeps_intros)
  let ?set = "setCondition r ConditionValidated ConditionTrue ReasonSpecValid
            ''connection and clone options materialize cleanly and the preflight passed''"
  obtain u where set: "?set s = (Inr (), u)" by (simp add: setCondition_def with_m_def put_condition_def)
  then have u: "tr u = tr s" "dry u"
    using P by (auto simp: setCondition_def with_m_def put_condition_def dry_def)
  then have "finished_step (completeDryRun r) u = (x, t)"
    using run set by (simp add: gated_step_def seq_def bnd_def with_m_def dry_def)
  then show "before worker_start E (tr t)"
    using waitsD [OF waits_quiet [OF quiet [unfolded creating_no_worker [abs_def]]]] s u(1) by metis
qed

lemma quiet_no_worker: "makes no_worker f \<Longrightarrow> keeps (waits worker_start E) f"
  by (rule waits_quiet) (simp add: creating_no_worker [abs_def])

lemmas dry_bnd = waits_from_bnd_frame [where R = same_dry_run, OF dry_same]

lemmas dry_then = waits_from_seq_frame [where R = same_dry_run, OF dry_same]

lemma dry_validated_step:
  assumes "dry_run_immutable r"
  shows "waits_from dry worker_start E (validated_step r)"
proof -
  have gate: "makes no_worker (preflightGate r)" by (intro makes_preflightGate) (rule others_no_worker)
  have gated: "waits_from dry worker_start E (case handled of Some res \<Rightarrow> ret (Finished res) | None \<Rightarrow> gated_step r)" for handled
    by (cases handled) (simp_all add: dry_gated_step waits_from_waits waits.keeps_ret)
  note prep = dry_preparation [OF assms]
  have "waits_from dry worker_start E (bnd (preflightGate r) (\<lambda>handled. case handled of
             Some res \<Rightarrow> ret (Finished res) | None \<Rightarrow> gated_step r))"
    by (rule dry_bnd [OF _ _ prep(4) quiet_no_worker [OF gate] gated])
  then show ?thesis
    unfolding validated_step_def
    by (intro dry_then [OF _ _ prep(1)] dry_then [OF _ _ prep(2)] dry_then [OF _ _ prep(3)]
        quiet_no_worker makes_ensureFinalizer makes_ensureOwned makes_recordWorkNode)
qed

lemma workers_none: "before worker_start (\<lambda>e h. False) t \<longleftrightarrow> workers t = 0"
  by (induction t) (auto simp: workers_def)

text \<open>A dry run starts no worker, whatever the API server, its caches and the clock answer.\<close>

lemma Reconcile_dry_run:
  assumes "dry_run_immutable r" and "tr s = []" and "fetched r s = Inr m" and "dryRun (spec m)"
  shows "workers (tr (snd (Reconcile r key s))) = 0"
proof -
  let ?E = "\<lambda>e h. False" and ?s = "after_fetch r m s"
  have s: "before worker_start ?E (tr ?s)" using assms(2) by (simp add: after_fetch_def)
  obtain x u where run: "handler r m ?s = (x, u)" by fastforce
  have "waits_from dry worker_start ?E (handler r m)"
  proof (cases "m_deleting m")
    case True
    then have "makes no_worker (handler r m)"
      by (simp add: handler_def) (intro keeps_intros makes_reconcileDeletion, erule others_no_worker)
    then show ?thesis by (intro waits_from_waits quiet_no_worker)
  next
    case False
    have "waits_from dry worker_start ?E (live_step r)"
      unfolding live_step_def
    proof (rule waits_from_with_m)
      fix m
      note quiet = waits_from_waits [OF quiet_no_worker]
      have "makes no_worker (finished_step (end_pass r))" "makes no_worker (finished_step (first_pass r))"
        "makes no_worker (finished_step (reconcileSuspended r))" "makes no_worker (finished_step (invalid_spec r msg))" for msg
        by (intro keeps_intros)+
      then show "waits_from dry worker_start ?E
         (if ended_migration r m then finished_step (end_pass r)
          else if statusIsEmpty m then finished_step (first_pass r)
          else if suspend (spec m) then finished_step (reconcileSuspended r)
          else case buildJob (snapshotLost r m) m (RunnerImage r) 1 of
              Inl e \<Rightarrow> finished_step (invalid_spec r (err_text e))
            | Inr j \<Rightarrow> validated_step r)"
        by (cases "buildJob (snapshotLost r m) m (RunnerImage r) 1")
          (simp_all add: quiet dry_validated_step [OF assms(1)])
    qed
    with False show ?thesis by (simp add: handler_def)
  qed
  then have "before worker_start ?E (tr u)"
    using run s assms(4) by (intro waits_fromD [of dry worker_start ?E "handler r m" ?s x u]) (simp_all add: dry_def)
  moreover have "makes no_worker (after_step r (now_at r (tr s)) x)" by (intro keeps_intros) (erule others_no_worker)
  ultimately have "before worker_start ?E (tr (snd (after_step r (now_at r (tr s)) x u)))"
    by (intro waits_snd quiet_no_worker)
  then show ?thesis
    unfolding Reconcile_fetched [OF assms(3)] by (simp add: bnd_def attempt_def run workers_none)
qed

end
