(* ===== verification/Stream_Rules.thy ===== *)
theory Stream_Rules
  imports Worker_Count
begin

text \<open>
  The running stream of a live Migration (\<open>reconcileFollowRunning\<close> of \<^verbatim>\<open>follow.go\<close>): exactly when a
  pass freezes the stream at an endpos, that a recorded endpos stays recorded, and what a sample
  without a lag figure does to the two-sample rule.
\<close>

definition asks_endpos :: "trace \<Rightarrow> bool" where
  "asks_endpos h \<longleftrightarrow> (\<exists>name x. SentinelSetEndpos name x \<in> set h)"

lemma asks_endpos_simps [simp]:
  "\<not> asks_endpos []"
  "asks_endpos (e # h) \<longleftrightarrow> (\<exists>name x. e = SentinelSetEndpos name x) \<or> asks_endpos h"
  by (auto simp: asks_endpos_def)

lemma setCondition_ok:
  "setCondition r t st reason msg s = (Inr (), s\<lparr>mig := upd_status (\<lambda>ms. ms\<lparr>conditions := put_cond r (tr s)
     \<lparr>c_type = t, c_status = st, c_reason = reason, c_message = msg, c_generation = m_generation (mig s),
      c_transition = zero_time\<rparr> (conditions ms)\<rparr>) (mig s)\<rparr>)"
  by (simp add: setCondition_def with_m_def put_condition_def)

lemma set_status_ok: "set_status f s = (Inr (), s\<lparr>mig := upd_status f (mig s)\<rparr>)"
  by (simp add: set_status_def set_m_def)

section \<open>Nothing but the sentinel is asked\<close>

lemma nudge_ok: "\<exists>t. nudge_endpos r name s = (Inr (), t) \<and> mig t = mig s \<and> (asks_endpos (tr t) \<longleftrightarrow> asks_endpos (tr s))"
  by (simp add: nudge_endpos_def with_m_def do_when_def bnd_def attempt_def call_def ret_def)

lemma report_lag_ok:
  "\<exists>ms. report_lag r a b s = (Inr (), s\<lparr>mig := upd_status (\<lambda>st. st\<lparr>conditions := ms\<rparr>) (mig s)\<rparr>)"
  by (auto simp: report_lag_def setCondition_ok)

lemma start_cutover_asks: "asks_endpos (tr (snd (start_cutover r name s)))"
proof -
  have keep: "asks_endpos (tr (snd (nudge_endpos r name t)))" if "asks_endpos (tr t)" for t
    using nudge_ok [of r name t] that by auto
  show ?thesis
    by (cases "set_endpos_reply r (tr s) name")
      (auto simp: start_cutover_def set_endpos_current_def call_def bnd_def attempt_def seq_def set_phase_def set_status_ok
        do_when_def event_def log_entry_def ret_def intro!: keep)
qed

section \<open>When the stream is frozen\<close>

text \<open>The lag verdict reads the condition \<open>CaughtUp\<close>, which \<open>Streaming\<close> does not touch.\<close>

lemma caughtUp_cong:
  assumes "spec m' = spec m" and "find_c r m' ConditionCaughtUp = find_c r m ConditionCaughtUp"
  shows "caughtUp r m' rs \<longleftrightarrow> caughtUp r m rs" and "lag_below m' rs \<longleftrightarrow> lag_below m rs"
  using assms by (simp_all add: caughtUp_def lag_below_def lagSeenBelow_def maxCatchupLagBytes_def cong: option.case_cong)

definition freezes :: "reconciler \<Rightarrow> migration \<Rightarrow> replication_status \<Rightarrow> bool" where
  "freezes r m rs \<longleftrightarrow> \<not> EndposSet (rs_endpos rs) \<and> lag_below m rs \<and> lagSeenBelow r m \<and>
     (cut_mode (cutover (spec m)) = CutoverAutomatic \<or> cut_approved (cutover (spec m)))"

lemma cutoverWanted_iff:
  "cutoverWanted m (caughtUp r m rs) \<longleftrightarrow> lag_below m rs \<and> lagSeenBelow r m \<and>
     (cut_mode (cutover (spec m)) = CutoverAutomatic \<or> cut_approved (cutover (spec m)))"
  by (auto simp: cutoverWanted_def caughtUp_def split: cutover_mode.split)

lemma drive_stream_asks:
  assumes "meta_ok r" and "\<not> asks_endpos (tr s)"
  shows "asks_endpos (tr (snd (drive_stream r name rs s))) \<longleftrightarrow> freezes r (mig s) rs"
proof -
  let ?streaming = "setCondition r ConditionStreaming ConditionTrue ReasonReplaying ''logical replication is applying changes''"
  obtain u where s1: "?streaming s = (Inr (), u)" and u: "tr u = tr s" "spec (mig u) = spec (mig s)"
      "find_c r (mig u) ConditionCaughtUp = find_c r (mig s) ConditionCaughtUp"
    using find_put_other [OF assms(1), of ConditionCaughtUp]
    by (auto simp: setCondition_ok find_c_def)
  obtain v where s2: "set_phase PhaseStreaming u = (Inr (), v)" and v: "tr v = tr s" "spec (mig v) = spec (mig s)"
      "find_c r (mig v) ConditionCaughtUp = find_c r (mig s) ConditionCaughtUp"
    using u by (auto simp: set_phase_def set_status_ok find_c_def)
  note same = caughtUp_cong [OF v(2,3), of rs]
  obtain w where s3: "report_lag r (caughtUp r (mig v) rs) (lag_below (mig v) rs) v = (Inr (), w)" and w: "tr w = tr s"
    using report_lag_ok [of r "caughtUp r (mig v) rs" "lag_below (mig v) rs" v] v by auto
  have nudge: "asks_endpos (tr (snd (nudge_endpos r name x))) \<longleftrightarrow> asks_endpos (tr x)" for x
    using nudge_ok [of r name x] by auto
  have "drive_stream r name rs s = (if EndposSet (rs_endpos rs) then seq (set_phase PhaseCuttingOver) (nudge_endpos r name)
      else if cutoverWanted (mig v) (caughtUp r (mig v) rs) then start_cutover r name
      else seq (do_when (caughtUp r (mig v) rs) (set_phase PhaseCutoverPending)) (nudge_endpos r name)) w"
    using s1 s2 s3 by (simp add: drive_stream_def with_m_def Let_def seq_def bnd_def)
  moreover have "cutoverWanted (mig v) (caughtUp r (mig v) rs) \<longleftrightarrow> cutoverWanted (mig s) (caughtUp r (mig s) rs)"
    using v(2) same by (simp add: cutoverWanted_def split: cutover_mode.split)
  moreover have "\<not> asks_endpos (tr (snd (seq (do_when b (set_phase p)) (nudge_endpos r name) w)))" for b p
    using assms(2) w nudge by (cases b) (simp_all add: do_when_def set_phase_def set_status_def set_m_def seq_def bnd_def ret_def)
  moreover from this [of True] have "\<not> asks_endpos (tr (snd (seq (set_phase p) (nudge_endpos r name) w)))" for p
    by (simp add: do_when_def)
  ultimately show ?thesis
    using start_cutover_asks [of r name w] by (auto simp: freezes_def cutoverWanted_iff)
qed

text \<open>The status a read of the sentinel gives.\<close>

definition next_replication :: "migration \<Rightarrow> Sentinel.state \<Rightarrow> replication_status" where
  "next_replication m st = carry (replication (status m)) (ToStatus st (effectiveSlotName m))"

definition after_read :: "reconciler \<Rightarrow> string \<Rightarrow> Sentinel.state \<Rightarrow> pass \<Rightarrow> pass" where
  "after_read r name st s =
     s\<lparr>tr := SentinelRead name (effectiveSlotName (mig s)) (Inr (Some st)) # tr s,
       mig := upd_status (\<lambda>ms. ms\<lparr>replication := Some (next_replication (mig s) st)\<rparr>) (mig s)\<rparr>"

lemma follow_running_read:
  assumes "with_sentinel r" and "sentinel_read_reply r (tr s) name (effectiveSlotName (mig s)) = Inr (Some st)"
  shows "reconcileFollowRunning r name cloneDone s =
    (if \<not> cloneDone then ret () else drive_stream r name (next_replication (mig s) st)) (after_read r name st s)"
  using assms
  by (simp add: reconcileFollowRunning_def with_m_def sentinel_read_def call_def bnd_def attempt_def Let_def
      seq_def set_status_def set_m_def next_replication_def after_read_def)

lemma follow_running_unread:
  assumes "\<not> (with_sentinel r \<and> (\<exists>st. sentinel_read_reply r (tr s) name (effectiveSlotName (mig s)) = Inr (Some st)))"
  shows "mig (snd (reconcileFollowRunning r name cloneDone s)) = mig s \<and>
    (asks_endpos (tr (snd (reconcileFollowRunning r name cloneDone s))) \<longleftrightarrow> asks_endpos (tr s))"
  using assms
  by (auto simp: reconcileFollowRunning_def with_m_def sentinel_read_def call_def bnd_def attempt_def ret_def
      split: sum.split option.split)

lemma follow_running_asks:
  assumes "meta_ok r" and "\<not> asks_endpos (tr s)"
  shows "asks_endpos (tr (snd (reconcileFollowRunning r name cloneDone s))) \<longleftrightarrow>
     with_sentinel r \<and> cloneDone \<and>
     (\<exists>st. sentinel_read_reply r (tr s) name (effectiveSlotName (mig s)) = Inr (Some st) \<and>
        freezes r (mig s) (next_replication (mig s) st))"
proof (cases "with_sentinel r \<and> (\<exists>st. sentinel_read_reply r (tr s) name (effectiveSlotName (mig s)) = Inr (Some st))")
  case False
  then show ?thesis using follow_running_unread [OF False, of cloneDone] assms(2) by auto
next
  case True
  then obtain st where st: "with_sentinel r" "sentinel_read_reply r (tr s) name (effectiveSlotName (mig s)) = Inr (Some st)"
    by blast
  let ?rs = "next_replication (mig s) st" and ?t = "after_read r name st s"
  have t: "\<not> asks_endpos (tr ?t)" using assms(2) by (simp add: after_read_def)
  have same: "freezes r (mig ?t) ?rs \<longleftrightarrow> freezes r (mig s) ?rs"
    by (simp add: freezes_def lag_below_def lagSeenBelow_def find_c_def maxCatchupLagBytes_def after_read_def
        cong: option.case_cong)
  show ?thesis
    using st t drive_stream_asks [OF assms(1) t, of name ?rs] same
    by (auto simp: follow_running_read [OF st] ret_def)
qed

section \<open>A recorded endpos stays\<close>

definition endpos_recorded :: "pass \<Rightarrow> bool" where
  "endpos_recorded s \<longleftrightarrow> (case replication (status (mig s)) of None \<Rightarrow> False | Some rs \<Rightarrow> EndposSet (rs_endpos rs))"

lemma carry_endpos:
  assumes "EndposSet (rs_endpos prev)"
  shows "EndposSet (rs_endpos (carry (Some prev) (ToStatus st slot)))"
  using assms by (auto simp: carry_def ToStatus_def EndposSet_def)

definition keeps_endpos :: "pass \<Rightarrow> pass \<Rightarrow> bool" where
  "keeps_endpos s t \<longleftrightarrow> (endpos_recorded s \<longrightarrow> endpos_recorded t)"

interpretation keeps_endpos: frame keeps_endpos
  by unfold_locales (auto simp: keeps_endpos_def)

named_theorems endpos_intros

lemmas endpos_control [endpos_intros] = keeps_endpos.keeps_ret keeps_endpos.keeps_raise keeps_endpos.keeps_bnd
  keeps_endpos.keeps_attempt keeps_if keeps_case_option keeps_case_sum

lemma endpos_call [endpos_intros]: "keeps keeps_endpos (call f mk)"
  by (rule keepsI) (auto simp: call_def keeps_endpos_def endpos_recorded_def)

lemma endpos_log_entry [endpos_intros]: "keeps keeps_endpos (log_entry e)"
  by (rule keepsI) (auto simp: log_entry_def keeps_endpos_def endpos_recorded_def)

lemma endpos_with_m [endpos_intros]: "(\<And>m. keeps keeps_endpos (k m)) \<Longrightarrow> keeps keeps_endpos (with_m k)"
  by (rule keepsI) (auto simp: with_m_def dest: keepsD)

lemma endpos_seq [endpos_intros]: "keeps keeps_endpos f \<Longrightarrow> keeps keeps_endpos g \<Longrightarrow> keeps keeps_endpos (seq f g)"
  by (simp add: seq_def keeps_endpos.keeps_bnd)

lemma endpos_when [endpos_intros]: "(b \<Longrightarrow> keeps keeps_endpos f) \<Longrightarrow> keeps keeps_endpos (do_when b f)"
  by (simp add: do_when_def keeps_endpos.keeps_ret)

lemma endpos_set_status: "(\<And>st. replication (f st) = replication st) \<Longrightarrow> keeps keeps_endpos (set_status f)"
  by (rule keepsI) (auto simp: set_status_ok keeps_endpos_def endpos_recorded_def)

lemma endpos_setCondition [endpos_intros]: "keeps keeps_endpos (setCondition r t st reason msg)"
  by (rule keepsI) (auto simp: setCondition_ok keeps_endpos_def endpos_recorded_def)

lemma endpos_start_cutover [endpos_intros]: "keeps keeps_endpos (start_cutover r name)"
proof -
  have stored: "keeps keeps_endpos (set_status (\<lambda>st. st\<lparr>replication :=
                map_option (\<lambda>rs. rs\<lparr>rs_endpos := lsn\<rparr>) (replication st)\<rparr>))" if "EndposSet lsn" for lsn
    using that by (intro keepsI) (auto simp: set_status_ok keeps_endpos_def endpos_recorded_def split: option.splits)
  show ?thesis
    unfolding start_cutover_def set_endpos_current_def set_phase_def nudge_endpos_def event_def
    by (intro endpos_intros endpos_set_status stored) simp_all
qed

lemma endpos_drive_stream: "keeps keeps_endpos (drive_stream r name rs)"
  unfolding drive_stream_def report_lag_def set_phase_def nudge_endpos_def Let_def
  by (intro endpos_intros endpos_set_status) simp_all

lemma endpos_follow_running: "keeps keeps_endpos (reconcileFollowRunning r name cloneDone)"
proof (rule keepsI, unfold keeps_endpos_def, rule impI)
  fix s x t
  assume s: "endpos_recorded s" and run: "reconcileFollowRunning r name cloneDone s = (x, t)"
  show "endpos_recorded t"
  proof (cases "with_sentinel r \<and> (\<exists>st. sentinel_read_reply r (tr s) name (effectiveSlotName (mig s)) = Inr (Some st))")
    case False
    then show ?thesis using follow_running_unread [OF False, of cloneDone] run s by (simp add: endpos_recorded_def)
  next
    case True
    then obtain st where st: "with_sentinel r" "sentinel_read_reply r (tr s) name (effectiveSlotName (mig s)) = Inr (Some st)"
      by blast
    have "endpos_recorded (after_read r name st s)"
      using s carry_endpos by (auto simp: endpos_recorded_def after_read_def next_replication_def split: option.split_asm)
    then show ?thesis
      using run keepsD [OF endpos_drive_stream]
      by (auto simp: follow_running_read [OF st] ret_def keeps_endpos_def split: if_split_asm)
  qed
qed

text \<open>Without a lag of its own a sample repeats the previous figure.\<close>

lemma next_replication_lag:
  "rs_lagBytes (next_replication m st) =
     (if sint (Lag st) \<ge> 0 then Some (Lag st)
      else case replication (status m) of None \<Rightarrow> None | Some prev \<Rightarrow> rs_lagBytes prev)"
  by (auto simp: next_replication_def carry_def ToStatus_def split: option.split)

lemma next_replication_endpos:
  "rs_endpos (next_replication m st) = (if lsnSet (Endpos st) then Endpos st
     else case replication (status m) of None \<Rightarrow> [] | Some prev \<Rightarrow> rs_endpos prev)"
  by (auto simp: next_replication_def carry_def ToStatus_def lsnSet_def split: option.split)

text \<open>
  One figure below the threshold and one sample without a figure: the stream is frozen, although
  the lag was measured once.
\<close>

lemma frozen_on_one_measurement:
  assumes "meta_ok r" and "\<not> asks_endpos (tr s)" and "with_sentinel r"
    and "sentinel_read_reply r (tr s) name (effectiveSlotName (mig s)) = Inr (Some st)"
    and "sint (Lag st) < 0" and "Endpos st = []"
    and "replication (status (mig s)) = Some prev" and "rs_lagBytes prev = Some l" and "\<not> EndposSet (rs_endpos prev)"
    and "sint l \<le> sint (maxCatchupLagBytes (mig s))"
    and "find_c r (mig s) ConditionCaughtUp = Some c" and "c_reason c = ReasonConfirmingCatchUp"
    and "cut_mode (cutover (spec (mig s))) = CutoverAutomatic"
  shows "asks_endpos (tr (snd (reconcileFollowRunning r name True s)))"
  using assms follow_running_asks [OF assms(1,2), of name True]
  by (simp add: freezes_def next_replication_endpos next_replication_lag lag_below_def lagSeenBelow_def lsnSet_def)

end
