(* ===== verification/Budget_Machine.thy ===== *)
theory Budget_Machine
  imports Stream_Rules
begin

text \<open>
  The retry budget as a state machine over unbounded integers, and the operations of the controller
  as its steps. \<open>budget_step\<close> is what the budget promises: an attempt starts only from a settled
  failure and within the limit, a failure waits for one verdict, and a verdict of exempt gives
  the attempt back. The limit may be changed at any time, up to a cap. The invariant, by rule
  induction over the reachable states, bounds the counted attempts. The refinement lemmas take the status a handler sends to the API server
  through \<open>budget_of\<close>.
\<close>

section \<open>The machine\<close>

datatype verdict = NoFailure | Undecided | Exempted | Counted

record budget =
  bg_attempts :: int
  bg_exempt :: int
  bg_limit :: int
  bg_running :: bool
  bg_verdict :: verdict

inductive budget_step :: "budget \<Rightarrow> budget \<Rightarrow> bool" where
  start: "\<not> bg_running b \<Longrightarrow> bg_verdict b \<noteq> Undecided \<Longrightarrow> bg_attempts b - bg_exempt b \<le> bg_limit b \<Longrightarrow>
    budget_step b (b\<lparr>bg_attempts := bg_attempts b + 1, bg_running := True, bg_verdict := NoFailure\<rparr>)"
| failed: "bg_running b \<Longrightarrow> budget_step b (b\<lparr>bg_running := False, bg_verdict := Undecided\<rparr>)"
| exempt: "bg_verdict b = Undecided \<Longrightarrow> budget_step b (b\<lparr>bg_exempt := bg_exempt b + 1, bg_verdict := Exempted\<rparr>)"
| count: "bg_verdict b = Undecided \<Longrightarrow> budget_step b (b\<lparr>bg_verdict := Counted\<rparr>)"
| stop: "budget_step b (b\<lparr>bg_running := False\<rparr>)"

inductive_cases budget_stepE: "budget_step b c"

definition new_budget :: "int \<Rightarrow> budget" where
  "new_budget limit = \<lparr>bg_attempts = 0, bg_exempt = 0, bg_limit = limit, bg_running = False, bg_verdict = NoFailure\<rparr>"

text \<open>A new budget, its steps, and changes of the limit within the cap.\<close>

inductive reachable :: "int \<Rightarrow> budget \<Rightarrow> bool" for cap where
  fresh: "0 \<le> l \<Longrightarrow> l \<le> cap \<Longrightarrow> reachable cap (new_budget l)"
| step: "reachable cap b \<Longrightarrow> budget_step b c \<Longrightarrow> reachable cap c"
| relimit: "reachable cap b \<Longrightarrow> 0 \<le> l \<Longrightarrow> l \<le> cap \<Longrightarrow> reachable cap (b\<lparr>bg_limit := l\<rparr>)"

text \<open>An attempt that runs, and a failure without a verdict, may still become exempt.\<close>

definition open_attempt :: "budget \<Rightarrow> bool" where
  "open_attempt b \<longleftrightarrow> bg_running b \<or> bg_verdict b = Undecided"

definition budget_inv :: "int \<Rightarrow> budget \<Rightarrow> bool" where
  "budget_inv cap b \<longleftrightarrow> 0 \<le> bg_limit b \<and> bg_limit b \<le> cap \<and> 0 \<le> bg_exempt b \<and>
     bg_exempt b + (if open_attempt b then 1 else 0) \<le> bg_attempts b \<and>
     (bg_running b \<longrightarrow> bg_verdict b = NoFailure) \<and> (bg_verdict b \<noteq> NoFailure \<longrightarrow> 1 \<le> bg_attempts b) \<and>
     bg_attempts b - bg_exempt b \<le> cap + 1"

lemma budget_inv_step: "budget_inv cap b \<Longrightarrow> budget_step b c \<Longrightarrow> budget_inv cap c"
  by (erule budget_stepE) (auto simp: budget_inv_def open_attempt_def split: if_split_asm)

lemma reachable_inv:
  assumes "reachable cap b"
  shows "budget_inv cap b"
  using assms
proof (induction rule: reachable.induct)
  case (fresh l)
  then show ?case by (simp add: new_budget_def budget_inv_def open_attempt_def)
next
  case (step b c)
  then show ?case by (auto intro: budget_inv_step)
next
  case (relimit b l)
  then show ?case by (simp add: budget_inv_def open_attempt_def)
qed

section \<open>The budget of a Migration\<close>

definition verdict_of_status :: "retry_gate_status option \<Rightarrow> verdict" where
  "verdict_of_status rgo = (case rgo of
       None \<Rightarrow> NoFailure
     | Some rg \<Rightarrow> (case rg_exemption rg of
         RetryGateUndecided \<Rightarrow> Undecided | RetryGateExempt \<Rightarrow> Exempted | RetryGateCounted \<Rightarrow> Counted))"

lemma verdict_none_iff [simp]: "verdict_of_status rgo = NoFailure \<longleftrightarrow> rgo = None"
  by (simp add: verdict_of_status_def split: option.split exemption.split)

lemma verdict_undecided_iff:
  "verdict_of_status rgo = Undecided \<longleftrightarrow> (\<exists>g. rgo = Some g \<and> rg_exemption g = RetryGateUndecided)"
  by (simp add: verdict_of_status_def split: option.split exemption.split)

definition budget_of :: "migration \<Rightarrow> budget" where
  "budget_of m = \<lparr>bg_attempts = sint (attempts (status m)), bg_exempt = sint (exemptAttempts (status m)),
     bg_limit = sint (backoffLimit (spec m)), bg_running = (jobName (status m) \<noteq> []),
     bg_verdict = verdict_of_status (retryGate (status m))\<rparr>"

lemma reachable_counted:
  "reachable cap (budget_of m) \<Longrightarrow> sint (attempts (status m)) - sint (exemptAttempts (status m)) \<le> cap + 1"
  using reachable_inv [of cap "budget_of m"] by (simp add: budget_inv_def budget_of_def)

text \<open>The Migrations sent in status patches, newest first.\<close>

fun sent :: "trace \<Rightarrow> migration list" where
  "sent [] = []"
| "sent (PatchStatus l b m x # h) = m # sent h"
| "sent (e # h) = sent h"

text \<open>
  What the budget depends on in a Migration, and \<open>quiet\<close>: a handler that leaves it alone, in memory
  and, where it may patch the status at all, in what it sends.
\<close>

record account =
  ac_attempts :: int32
  ac_exempt :: int32
  ac_job :: string
  ac_gate :: "retry_gate_status option"
  ac_spec :: migration_spec
  ac_name :: string

definition account_of :: "migration \<Rightarrow> account" where
  "account_of m = \<lparr>ac_attempts = attempts (status m), ac_exempt = exemptAttempts (status m), ac_job = jobName (status m),
     ac_gate = retryGate (status m), ac_spec = spec m, ac_name = m_name m\<rparr>"

lemma account_fields:
  assumes "account_of m = account_of m'"
  shows "attempts (status m) = attempts (status m')" and "exemptAttempts (status m) = exemptAttempts (status m')"
    and "jobName (status m) = jobName (status m')" and "retryGate (status m) = retryGate (status m')"
    and "spec m = spec m'" and "m_name m = m_name m'"
  using assms by (simp_all add: account_of_def)

lemma budget_of_account:
  assumes "account_of m = account_of m'"
  shows "budget_of m = budget_of m'"
  unfolding budget_of_def account_fields [OF assms] ..

definition quiet :: "bool \<Rightarrow> pass \<Rightarrow> pass \<Rightarrow> bool" where
  "quiet b s t \<longleftrightarrow> account_of (mig t) = account_of (mig s) \<and>
     (\<exists>ms. sent (tr t) = ms @ sent (tr s) \<and> (\<forall>m \<in> set ms. b \<and> account_of m = account_of (mig s)))"

interpretation quiet: frame "quiet b" for b
proof unfold_locales
  fix s t u
  assume st: "quiet b s t" and tu: "quiet b t u"
  obtain ms where ms: "sent (tr t) = ms @ sent (tr s)" "\<forall>m \<in> set ms. b \<and> account_of m = account_of (mig s)"
    using st by (auto simp: quiet_def)
  obtain ns where "sent (tr u) = ns @ sent (tr t)" "\<forall>m \<in> set ns. b \<and> account_of m = account_of (mig t)"
    using tu by (auto simp: quiet_def)
  with ms st tu show "quiet b s u" by (auto simp: quiet_def)
qed (simp add: quiet_def)

text \<open>Replies to patches carry the account that was sent, and the specification it was read with.\<close>

definition echoes :: "reconciler \<Rightarrow> bool" where
  "echoes r \<longleftrightarrow>
     (\<forall>h l b m m'. patch_status_reply r h l b m = Inr m' \<longrightarrow> account_of m' = account_of m) \<and>
     (\<forall>h l b m m'. patch_meta_reply r h l b m = Inr m' \<longrightarrow> account_of m' = account_of m)"

named_theorems quiet_intros

lemmas quiet_control [quiet_intros] = quiet.keeps_bnd quiet.keeps_ret quiet.keeps_raise quiet.keeps_attempt
  quiet.keeps_lift_sum quiet.keeps_each keeps_if keeps_case_option keeps_case_sum keeps_case_prod keeps_case_list

lemma quiet_call [quiet_intros]: "(\<And>x h. sent (mk x # h) = sent h) \<Longrightarrow> keeps (quiet b) (call f mk)"
  by (rule keepsI) (auto simp: call_def quiet_def)

lemma quiet_log_entry [quiet_intros]: "(\<And>h. sent (e # h) = sent h) \<Longrightarrow> keeps (quiet b) (log_entry e)"
  by (rule keepsI) (auto simp: log_entry_def quiet_def)

lemma quiet_with_m [quiet_intros]: "(\<And>m. keeps (quiet b) (k m)) \<Longrightarrow> keeps (quiet b) (with_m k)"
  by (rule keepsI) (auto simp: with_m_def dest: keepsD)

lemma quiet_seq [quiet_intros]: "keeps (quiet b) f \<Longrightarrow> keeps (quiet b) g \<Longrightarrow> keeps (quiet b) (seq f g)"
  unfolding seq_def by (rule quiet.keeps_bnd)

lemma quiet_when [quiet_intros]: "(c \<Longrightarrow> keeps (quiet b) f) \<Longrightarrow> keeps (quiet b) (do_when c f)"
  by (simp add: do_when_def quiet.keeps_ret)

lemma quiet_set_m: "(\<And>m. account_of (f m) = account_of m) \<Longrightarrow> keeps (quiet b) (set_m f)"
  by (rule keepsI) (auto simp: set_m_def quiet_def)

lemma quiet_set_status [quiet_intros]:
  "(\<And>m. account_of (upd_status f m) = account_of m) \<Longrightarrow> keeps (quiet b) (set_status f)"
  unfolding set_status_def by (rule quiet_set_m) simp

lemma quiet_put_condition [quiet_intros]: "keeps (quiet b) (put_condition r c)"
  by (rule keepsI) (auto simp: put_condition_def quiet_def account_of_def)

lemma quiet_setCondition [quiet_intros]: "keeps (quiet b) (setCondition r t st reason msg)"
  unfolding setCondition_def by (intro quiet_intros)

lemma quiet_currentTime [quiet_intros]: "keeps (quiet b) (currentTime r)"
  by (rule keepsI) (auto simp: currentTime_def quiet_def)

lemma quiet_event [quiet_intros]: "keeps (quiet b) (event w a1 a2 a3)"
  unfolding event_def by (intro quiet_intros) simp

lemma quiet_gauges [quiet_intros]: "keeps (quiet b) (gauges cs)"
  unfolding gauges_def by (intro quiet_intros) simp

lemma quiet_patch_status: "echoes r \<Longrightarrow> keeps (quiet True) (patch_status r locked)"
  by (rule keepsI) (auto simp: patch_status_def Let_def quiet_def echoes_def split: sum.split_asm)

lemma quiet_patch_meta:
  "echoes r \<Longrightarrow> (\<And>m. account_of (f m) = account_of m) \<Longrightarrow> keeps (quiet b) (patch_meta r locked f)"
  by (rule keepsI) (auto simp: patch_meta_def Let_def quiet_def echoes_def split: sum.split_asm)

text \<open>\<open>acts F f\<close>: \<open>f\<close> returns, changes the account by \<open>F\<close> and sends nothing.\<close>

definition acts :: "(account \<Rightarrow> account) \<Rightarrow> 'a act \<Rightarrow> bool" where
  "acts F f \<longleftrightarrow> (\<forall>s. \<exists>x t. f s = (Inr x, t) \<and> account_of (mig t) = F (account_of (mig s)) \<and> sent (tr t) = sent (tr s))"

named_theorems acts_intros

lemma actsI:
  "(\<And>s. \<exists>x t. f s = (Inr x, t) \<and> account_of (mig t) = F (account_of (mig s)) \<and> sent (tr t) = sent (tr s)) \<Longrightarrow> acts F f"
  by (simp add: acts_def)

lemma acts_ret [acts_intros]: "acts id (ret x)"
  by (rule actsI) (simp add: ret_def)

lemma acts_bnd:
  assumes "acts F f" and "\<And>x. acts G (k x)"
  shows "acts (G \<circ> F) (bnd f k)"
proof (rule actsI)
  fix s
  obtain x t where 1: "f s = (Inr x, t)" "account_of (mig t) = F (account_of (mig s))" "sent (tr t) = sent (tr s)"
    using assms(1) unfolding acts_def by blast
  obtain y u where "k x t = (Inr y, u)" "account_of (mig u) = G (account_of (mig t))" "sent (tr u) = sent (tr t)"
    using assms(2) unfolding acts_def by blast
  with 1 show "\<exists>y u. bnd f k s = (Inr y, u) \<and> account_of (mig u) = (G \<circ> F) (account_of (mig s)) \<and> sent (tr u) = sent (tr s)"
    by (simp add: bnd_def)
qed

lemma acts_seq: "acts F f \<Longrightarrow> acts G g \<Longrightarrow> acts (G \<circ> F) (seq f g)"
  unfolding seq_def by (rule acts_bnd)

lemma acts_bnd_id [acts_intros]: "acts id f \<Longrightarrow> (\<And>x. acts id (k x)) \<Longrightarrow> acts id (bnd f k)"
  using acts_bnd [of id f id k] by simp

lemma acts_seq_id [acts_intros]: "acts id f \<Longrightarrow> acts id g \<Longrightarrow> acts id (seq f g)"
  unfolding seq_def by (rule acts_bnd_id)

lemma acts_with_m [acts_intros]: "(\<And>m. acts F (k m)) \<Longrightarrow> acts F (with_m k)"
  by (simp add: acts_def with_m_def)

lemma acts_when [acts_intros]: "acts id f \<Longrightarrow> acts id (do_when b f)"
  by (simp add: do_when_def acts_ret)

lemma acts_if [acts_intros]: "acts F f \<Longrightarrow> acts F g \<Longrightarrow> acts F (if b then f else g)"
  by simp

lemma acts_case_option [acts_intros]:
  "acts F f \<Longrightarrow> (\<And>y. acts F (g y)) \<Longrightarrow> acts F (case v of None \<Rightarrow> f | Some y \<Rightarrow> g y)"
  by (cases v) simp_all

lemma acts_log_entry [acts_intros]: "(\<And>h. sent (e # h) = sent h) \<Longrightarrow> acts id (log_entry e)"
  by (rule actsI) (simp add: log_entry_def)

lemma acts_event [acts_intros]: "acts id (event w a b c)"
  unfolding event_def by (intro acts_intros) simp

lemma acts_gauges [acts_intros]: "acts id (gauges cs)"
  unfolding gauges_def by (intro acts_intros) simp

lemma acts_currentTime [acts_intros]: "acts id (currentTime r)"
  by (rule actsI) (simp add: currentTime_def)

lemma acts_set_status:
  "(\<And>m. account_of (upd_status f m) = F (account_of m)) \<Longrightarrow> acts F (set_status f)"
  by (rule actsI) (simp add: set_status_ok)

lemma acts_put_condition [acts_intros]: "acts id (put_condition r c)"
  by (rule actsI) (simp add: put_condition_def account_of_def)

lemma acts_setCondition [acts_intros]: "acts id (setCondition r t st reason msg)"
  unfolding setCondition_def by (intro acts_intros)

lemma acts_quiet: "acts F f \<Longrightarrow> (\<And>a. F a = a) \<Longrightarrow> keeps (quiet b) f"
  unfolding acts_def by (intro keepsI) (metis append_Nil empty_iff list.set(1) prod.inject quiet_def)

text \<open>
  \<open>sends e F f\<close>: \<open>f\<close> sends one patch, whose account is \<open>F\<close> of the one it started from; with replies
  that echo (\<open>e\<close>), so is the one it leaves in memory.
\<close>

definition sends :: "bool \<Rightarrow> (account \<Rightarrow> account) \<Rightarrow> 'a act \<Rightarrow> bool" where
  "sends e F f \<longleftrightarrow> (\<forall>s. \<exists>m. sent (tr (snd (f s))) = m # sent (tr s) \<and> account_of m = F (account_of (mig s)) \<and>
     (e \<longrightarrow> account_of (mig (snd (f s))) = F (account_of (mig s))))"

named_theorems sends_intros

lemma sends_bnd [sends_intros]:
  assumes "acts F f" and "\<And>x. sends e G (k x)"
  shows "sends e (G \<circ> F) (bnd f k)"
  unfolding sends_def
proof
  fix s
  obtain x t where 1: "f s = (Inr x, t)" "account_of (mig t) = F (account_of (mig s))" "sent (tr t) = sent (tr s)"
    using assms(1) unfolding acts_def by blast
  obtain m where "sent (tr (snd (k x t))) = m # sent (tr t)" "account_of m = G (account_of (mig t))"
      "e \<longrightarrow> account_of (mig (snd (k x t))) = G (account_of (mig t))"
    using assms(2) unfolding sends_def by blast
  with 1 show "\<exists>m. sent (tr (snd (bnd f k s))) = m # sent (tr s) \<and> account_of m = (G \<circ> F) (account_of (mig s)) \<and>
      (e \<longrightarrow> account_of (mig (snd (bnd f k s))) = (G \<circ> F) (account_of (mig s)))"
    by (simp add: bnd_def)
qed

lemma sends_seq [sends_intros]: "acts F f \<Longrightarrow> sends e G g \<Longrightarrow> sends e (G \<circ> F) (seq f g)"
  unfolding seq_def by (rule sends_bnd)

lemma sends_then:
  assumes "sends e F f" and "keeps (quiet False) g"
  shows "sends e F (seq f g)"
  unfolding sends_def
proof
  fix s
  obtain x t where f: "f s = (x, t)" by fastforce
  obtain m where m: "sent (tr t) = m # sent (tr s)" "account_of m = F (account_of (mig s))"
      "e \<longrightarrow> account_of (mig t) = F (account_of (mig s))"
    using assms(1) f unfolding sends_def by (metis snd_conv)
  have "quiet False t (snd (g t))" using assms(2) by (rule keeps_snd)
  then have "sent (tr (snd (g t))) = sent (tr t)" "account_of (mig (snd (g t))) = account_of (mig t)"
    by (auto simp: quiet_def)
  with f m show "\<exists>m. sent (tr (snd (seq f g s))) = m # sent (tr s) \<and> account_of m = F (account_of (mig s)) \<and>
      (e \<longrightarrow> account_of (mig (snd (seq f g s))) = F (account_of (mig s)))"
    by (cases x) (simp_all add: seq_def bnd_def)
qed

lemma sends_with_m [sends_intros]: "(\<And>m. sends e F (k m)) \<Longrightarrow> sends e F (with_m k)"
  by (simp add: sends_def with_m_def)

lemma sends_cong: "sends e F f \<Longrightarrow> F = G \<Longrightarrow> sends e G f"
  by simp

lemma sends_patch_status: "sends (echoes r) id (patch_status r locked)"
  by (auto simp: sends_def patch_status_def Let_def echoes_def split: sum.split)

lemma acts_set_m: "(\<And>m. account_of (f m) = F (account_of m)) \<Longrightarrow> acts F (set_m f)"
  by (rule actsI) (simp add: set_m_def)

lemma sends_updateStatus: "sends (echoes r) id (updateStatus r)"
proof -
  have "sends (echoes r) ((id \<circ> id) \<circ> id) (updateStatus r)"
    unfolding updateStatus_def
    by (intro sends_seq acts_set_m acts_with_m acts_gauges sends_patch_status) (simp add: account_of_def)
  then show ?thesis by simp
qed

lemma sends_patchStatusLocked: "sends (echoes r) id (patchStatusLocked r)"
proof -
  have rebase: "keeps (quiet False) (\<lambda>s. (Inr (), s\<lparr>pbase := mig s\<rparr>))"
    by (rule keepsI) (auto simp: quiet_def)
  have "sends (echoes r) (id \<circ> id) (patchStatusLocked r)"
    unfolding patchStatusLocked_def
    by (intro sends_seq acts_set_m sends_then [OF sends_patch_status] quiet_intros rebase) (simp add: account_of_def)
  then show ?thesis by simp
qed

lemma sends_finish [sends_intros]: "sends (echoes r) id (finish r res)"
  unfolding finish_def by (intro sends_then sends_updateStatus quiet.keeps_ret)

lemma quiet_deleteGateJob [quiet_intros]: "keeps (quiet b) (deleteGateJob r n)"
  unfolding deleteGateJob_def deleteGateProbe_def ignore_not_found_def delete_job_def
  by (intro quiet_intros; simp)

section \<open>The operations\<close>

lemma acts_setHold [acts_intros]: "acts id (setHold r reason msg)"
  unfolding setHold_def Let_def by (intro acts_intros acts_set_status) (simp add: account_of_def)

lemma acts_fail_with [acts_intros]: "acts id (fail_with r reason a msg)"
  unfolding fail_with_def endHold_def by (intro acts_intros acts_set_status) (simp add: account_of_def)

lemma acts_failBudget [acts_intros]: "acts id (failBudget r)"
  unfolding failBudget_def by (intro acts_intros)

definition started :: "int32 \<Rightarrow> string \<Rightarrow> account \<Rightarrow> account" where
  "started n name a = a\<lparr>ac_attempts := n, ac_job := name, ac_gate := (if 1 < sint n then None else ac_gate a)\<rparr>"

lemma recordAttempt_sends:
  "\<exists>m. sent (tr (snd (recordAttempt r name announce s))) = m # sent (tr s) \<and>
     account_of m = started (attempts (status (mig s)) + 1) name (account_of (mig s)) \<and>
     (echoes r \<longrightarrow> account_of (mig (snd (recordAttempt r name announce s))) =
        started (attempts (status (mig s)) + 1) name (account_of (mig s)))"
proof -
  have held: "acts id (held_note r)" unfolding held_note_def by (intro acts_intros)
  have begun: "acts id (set_started r)"
    unfolding set_started_def by (intro acts_intros acts_set_status) (simp add: account_of_def)
  have assign: "acts (\<lambda>a. a\<lparr>ac_attempts := n, ac_job := name\<rparr>)
      (set_m (\<lambda>m. upd_status (\<lambda>st. st\<lparr>attempts := n, jobName := name, phase := attemptPhase r m\<rparr>) m))" for n
    by (rule acts_set_m) (simp add: account_of_def)
  have clear: "acts (\<lambda>a. a\<lparr>ac_gate := (if 1 < sint n then None else ac_gate a)\<rparr>) (do_when (1 < sint n)
      (seq (set_status (\<lambda>st. st\<lparr>retryGate := None\<rparr>)) (setCondition r ConditionRetryHeld ConditionFalse reason msg)))" for n reason msg
    by (rule actsI) (simp add: do_when_def ret_def seq_def bnd_def set_status_ok setCondition_ok account_of_def)
  have tidy: "keeps (quiet False) (seq (do_when b (deleteGateJob r n)) (ret x))" for b n and x :: result
    by (intro quiet_intros)
  have rest: "sends (echoes r) (started n name) (bnd (held_note r) (\<lambda>held.
         (let note = ''attempt '' @ itoa n @ '' as Job '' @ name @ held @ exempt_note m0
          in seq (set_started r)
              (seq (set_m (\<lambda>m. upd_status (\<lambda>st. st\<lparr>attempts := n, jobName := name, phase := attemptPhase r m\<rparr>) m))
                (seq (with_m (\<lambda>m. do_when (\<not> is_true r m ConditionCloneCompleted)
                        (setCondition r ConditionCloneCompleted ConditionFalse ReasonCloneRunning
                          (''attempt '' @ itoa n @ '' running as Job '' @ name))))
                  (seq (do_when (1 < sint n)
                          (seq (set_status (\<lambda>st. st\<lparr>retryGate := None\<rparr>))
                            (setCondition r ConditionRetryHeld ConditionFalse ReasonGatePassed
                              (''Attempt '' @ itoa n @ '' runs as Job '' @ name))))
                    (seq (do_when announce (event False ''AttemptStarted'' ''StartAttempt'' note))
                      (seq (updateStatus r)
                        (seq (do_when (1 < sint n) (deleteGateJob r n))
                          (ret (RequeueAfter pollInterval)))))))))))" (is "sends _ _ ?body") for n m0
  proof -
    have "sends (echoes r) (((((id \<circ> id) \<circ> (\<lambda>a. a\<lparr>ac_gate := (if 1 < sint n then None else ac_gate a)\<rparr>)) \<circ> id) \<circ>
        (\<lambda>a. a\<lparr>ac_attempts := n, ac_job := name\<rparr>)) \<circ> id \<circ> id) ?body"
      unfolding Let_def
      by (intro sends_bnd sends_seq held begun assign clear acts_with_m acts_when acts_setCondition acts_event
          sends_then [OF sends_updateStatus tidy])
    moreover have "((((id \<circ> id) \<circ> (\<lambda>a. a\<lparr>ac_gate := (if 1 < sint n then None else ac_gate a)\<rparr>)) \<circ> id) \<circ>
        (\<lambda>a. a\<lparr>ac_attempts := n, ac_job := name\<rparr>)) \<circ> id \<circ> id = started n name"
      by (simp add: fun_eq_iff started_def)
    ultimately show ?thesis by simp
  qed
  show ?thesis
    using rest [of "attempts (status (mig s)) + 1" "mig s"]
    unfolding recordAttempt_def sends_def Let_def with_m_def by blast
qed

text \<open>A failure that waits for its verdict, of the attempt in the status.\<close>

definition fresh_failure :: "account \<Rightarrow> retry_gate_status \<Rightarrow> bool" where
  "fresh_failure a g \<longleftrightarrow> rg_failedAttempt g = ac_attempts a \<and> rg_exemption g = RetryGateUndecided"

lemma queue_retry_sends:
  "\<exists>m g. sent (tr (snd (queue_retry r j startOver why tail s))) = m # sent (tr s) \<and> fresh_failure (account_of (mig s)) g \<and>
     account_of m = (account_of (mig s))\<lparr>ac_job := [], ac_gate := Some g\<rparr> \<and>
     (echoes r \<longrightarrow> account_of (mig (snd (queue_retry r j startOver why tail s))) = account_of m)"
proof -
  have "acts id (seq (announce_retry r startOver why) (failed_at r j))"
    unfolding announce_retry_def failed_at_def Let_def by (intro acts_intros)
  then obtain at u where u: "seq (announce_retry r startOver why) (failed_at r j) s = (Inr at, u)"
      "account_of (mig u) = account_of (mig s)" "sent (tr u) = sent (tr s)"
    unfolding acts_def by (metis id_apply)
  let ?g = "\<lambda>n. \<lparr>rg_failedAttempt = n, rg_failedAt = at, rg_failure = go_truncate why maxDetailLen,
                rg_exemption = RetryGateUndecided, rg_cloneDoneSeen = CloneDone tail\<rparr>"
  have fail: "acts (\<lambda>a. a\<lparr>ac_gate := Some (?g (ac_attempts a))\<rparr>) (set_status (\<lambda>st. st\<lparr>retryGate := Some (?g (attempts st))\<rparr>))"
    by (rule acts_set_status) (simp add: account_of_def)
  have hold: "acts id (with_m (\<lambda>m. setHold r reason (msg m)))" for reason msg by (intro acts_intros)
  have clear: "acts (\<lambda>a. a\<lparr>ac_job := []\<rparr>) (set_status (\<lambda>st. st\<lparr>jobName := []\<rparr>))"
    by (rule acts_set_status) (simp add: account_of_def)
  have rest: "sends (echoes r) (((id \<circ> (\<lambda>a. a\<lparr>ac_job := []\<rparr>)) \<circ> id) \<circ> (\<lambda>a. a\<lparr>ac_gate := Some (?g (ac_attempts a))\<rparr>))
      (seq (set_status (\<lambda>st. st\<lparr>retryGate := Some (?g (attempts st))\<rparr>))
         (seq (with_m (\<lambda>m. setHold r ReasonGateProbing (''Attempt '' @ itoa (attempts (status m) + 1) @
                 '' waits for the retry gate to probe the target'')))
           (seq (set_status (\<lambda>st. st\<lparr>jobName := []\<rparr>)) (finish r Requeue))))" (is "sends _ _ ?rest")
    by (intro sends_seq fail hold clear sends_finish)
  have "queue_retry r j startOver why tail s = ?rest u"
  proof -
    have "queue_retry r j startOver why tail = bnd (seq (announce_retry r startOver why) (failed_at r j)) (\<lambda>at.
        seq (set_status (\<lambda>st. st\<lparr>retryGate := Some
               \<lparr>rg_failedAttempt = attempts st, rg_failedAt = at, rg_failure = go_truncate why maxDetailLen,
                rg_exemption = RetryGateUndecided, rg_cloneDoneSeen = CloneDone tail\<rparr>\<rparr>))
         (seq (with_m (\<lambda>m. setHold r ReasonGateProbing (''Attempt '' @ itoa (attempts (status m) + 1) @
                 '' waits for the retry gate to probe the target'')))
           (seq (set_status (\<lambda>st. st\<lparr>jobName := []\<rparr>)) (finish r Requeue))))"
      unfolding queue_retry_def by (auto simp: fun_eq_iff seq_def bnd_def split: sum.split prod.split)
    with u show ?thesis by (simp add: bnd_def)
  qed
  moreover obtain m where "sent (tr (snd (?rest u))) = m # sent (tr u)"
      "account_of m = (account_of (mig u))\<lparr>ac_job := [], ac_gate := Some (?g (ac_attempts (account_of (mig u))))\<rparr>"
      "echoes r \<longrightarrow> account_of (mig (snd (?rest u))) = account_of m"
    using rest unfolding sends_def by (auto dest: spec [of _ u])
  moreover have "fresh_failure (account_of (mig s)) (?g (ac_attempts (account_of (mig s))))"
    by (simp add: fresh_failure_def)
  ultimately show ?thesis using u by (intro exI [of _ m] exI [of _ "?g (ac_attempts (account_of (mig s)))"]) simp
qed

lemma seq_run: "f s = (Inr u, t) \<Longrightarrow> seq f g s = g t"
  by (simp add: seq_def bnd_def)

text \<open>A verdict; exempt gives the attempt back.\<close>

definition judged :: "exemption \<Rightarrow> account \<Rightarrow> account" where
  "judged v a = a\<lparr>ac_exempt := ac_exempt a + (if v = RetryGateExempt then 1 else 0),
     ac_gate := map_option (\<lambda>rg. rg\<lparr>rg_exemption := v\<rparr>) (ac_gate a)\<rparr>"

lemma recordVerdict_sends:
  assumes "retryGate (status (mig s)) \<noteq> None"
  shows "\<exists>m. sent (tr (snd (recordVerdict r v s))) = m # sent (tr s) \<and> account_of m = judged v (account_of (mig s)) \<and>
    (echoes r \<longrightarrow> account_of (mig (snd (recordVerdict r v s))) = account_of m)"
proof -
  let ?t = "s\<lparr>mig := upd_status (\<lambda>st. (set_exemption v st)\<lparr>exemptAttempts := exemptAttempts st +
      (if v = RetryGateExempt then 1 else 0)\<rparr>) (mig s)\<rparr>"
  have "recordVerdict r v s = patchStatusLocked r ?t"
    using assms
    by (auto simp: recordVerdict_def with_m_def seq_def bnd_def set_status_ok do_when_def ret_def set_exemption_def)
  moreover have "account_of (mig ?t) = judged v (account_of (mig s))"
    by (simp add: judged_def account_of_def set_exemption_def)
  moreover obtain m where "sent (tr (snd (patchStatusLocked r ?t))) = m # sent (tr ?t)" "account_of m = account_of (mig ?t)"
      "echoes r \<longrightarrow> account_of (mig (snd (patchStatusLocked r ?t))) = account_of (mig ?t)"
    using sends_patchStatusLocked [of r] unfolding sends_def id_apply by blast
  ultimately show ?thesis by simp
qed

text \<open>The patch before a worker starts: an open failure of this attempt is counted.\<close>

definition settled_account :: "account \<Rightarrow> account" where
  "settled_account a = (case ac_gate a of
       Some g \<Rightarrow> if rg_failedAttempt g = ac_attempts a \<and> rg_exemption g = RetryGateUndecided
                 then judged RetryGateCounted a else a
     | None \<Rightarrow> a)"

lemma settleBudget_sends: "sends (echoes r) settled_account (settleBudget r)"
proof -
  have count: "acts settled_account (with_m (\<lambda>m. do_when (onFailurePath m \<and> undecided m) (set_status (set_exemption RetryGateCounted))))"
    by (rule actsI)
      (auto simp: with_m_def do_when_def ret_def set_status_ok settled_account_def judged_def account_of_def set_exemption_def
        onFailurePath_def undecided_def split: option.splits)
  have rest: "sends (echoes r) id (with_m (\<lambda>m. seq (do_when (budgetSpent m) (failBudget r))
                     (seq (patchStatusLocked r) (ret (budgetSpent m)))))" (is "sends _ _ ?rest")
  proof -
    have "sends (echoes r) (id \<circ> id) (seq (do_when (budgetSpent m) (failBudget r)) (seq (patchStatusLocked r) (ret (budgetSpent m))))" for m
      by (intro sends_seq acts_when acts_failBudget sends_then [OF sends_patchStatusLocked quiet.keeps_ret])
    then show ?thesis by (intro sends_with_m) simp
  qed
  have "sends (echoes r) (id \<circ> settled_account) (settleBudget r)"
    unfolding settleBudget_def by (rule sends_seq [OF count rest])
  then show ?thesis by simp
qed

section \<open>Steps of the machine\<close>

lemma queue_retry_refines:
  assumes "jobName (status (mig s)) \<noteq> []"
  shows "\<exists>m. sent (tr (snd (queue_retry r j startOver why tail s))) = m # sent (tr s) \<and>
    budget_step (budget_of (mig s)) (budget_of m)"
proof -
  obtain m g where m: "sent (tr (snd (queue_retry r j startOver why tail s))) = m # sent (tr s)"
      "fresh_failure (account_of (mig s)) g" "account_of m = (account_of (mig s))\<lparr>ac_job := [], ac_gate := Some g\<rparr>"
    using queue_retry_sends by blast
  then have "budget_of m = (budget_of (mig s))\<lparr>bg_running := False, bg_verdict := Undecided\<rparr>"
    by (simp add: account_of_def budget_of_def verdict_of_status_def fresh_failure_def)
  moreover have "bg_running (budget_of (mig s))" using assms by (simp add: budget_of_def)
  ultimately show ?thesis using budget_step.failed [of "budget_of (mig s)"] m(1) by auto
qed

lemma judged_step:
  assumes "account_of m' = judged v (account_of m)" and "undecided m"
    and "sint (exemptAttempts (status m)) < 2 ^ 31 - 1" and "v \<noteq> RetryGateUndecided"
  shows "budget_step (budget_of m) (budget_of m')"
proof -
  obtain rg where rg: "retryGate (status m) = Some rg" "rg_exemption rg = RetryGateUndecided"
    using assms(2) by (auto simp: undecided_def split: option.split_asm)
  then have u: "bg_verdict (budget_of m) = Undecided" by (simp add: budget_of_def verdict_of_status_def)
  have "budget_of m' = (case v of
       RetryGateExempt \<Rightarrow> (budget_of m)\<lparr>bg_exempt := bg_exempt (budget_of m) + 1, bg_verdict := Exempted\<rparr>
     | _ \<Rightarrow> (budget_of m)\<lparr>bg_verdict := Counted\<rparr>)"
    using assms rg sint32_succ [OF assms(3)]
    by (cases v) (simp_all add: budget_of_def account_of_def judged_def verdict_of_status_def)
  then show ?thesis using assms(4) budget_step.exempt [OF u] budget_step.count [OF u] by (cases v) simp_all
qed

lemma recordVerdict_refines:
  assumes "undecided (mig s)" and "sint (exemptAttempts (status (mig s))) < 2 ^ 31 - 1" and "v \<noteq> RetryGateUndecided"
  shows "\<exists>m. sent (tr (snd (recordVerdict r v s))) = m # sent (tr s) \<and> budget_step (budget_of (mig s)) (budget_of m)"
proof -
  have "retryGate (status (mig s)) \<noteq> None" using assms(1) by (auto simp: undecided_def split: option.split_asm)
  from recordVerdict_sends [OF this] obtain m where
    "sent (tr (snd (recordVerdict r v s))) = m # sent (tr s)" "account_of m = judged v (account_of (mig s))" by blast
  with judged_step [OF _ assms] show ?thesis by blast
qed

text \<open>An attempt: from a running or a stopped budget.\<close>

lemma started_step:
  assumes "account_of m' = started (attempts (status m) + 1) name (account_of m)" and "name \<noteq> []"
    and "verdict_of_status (retryGate (status m)) \<noteq> Undecided" and "\<not> budgetSpent m"
    and "counters_ok m" and "sint (backoffLimit (spec m)) < 2 ^ 31 - 1" and "sint (attempts (status m)) < 2 ^ 31 - 1"
    and "attempts (status m) = 0 \<longrightarrow> retryGate (status m) = None"
  shows "budget_step ((budget_of m)\<lparr>bg_running := False\<rparr>) (budget_of m')"
proof -
  let ?b = "budget_of m"
  have n: "sint (attempts (status m) + 1) = bg_attempts ?b + 1"
    using sint32_succ [OF assms(7)] by (simp add: budget_of_def)
  have first: "\<not> 1 < bg_attempts ?b + 1 \<Longrightarrow> retryGate (status m) = None"
  proof -
    assume "\<not> 1 < bg_attempts ?b + 1"
    then have "attempts (status m) = 0"
      using assms(5) by (simp add: counters_ok_def budget_of_def signed_eq_0_iff [where 'a = int, symmetric])
    then show ?thesis using assms(8) by simp
  qed
  have "budget_of m' = ?b\<lparr>bg_attempts := bg_attempts ?b + 1, bg_running := True, bg_verdict := NoFailure\<rparr>"
    using first assms(1,2) n
    by (cases "1 < bg_attempts ?b + 1")
      (simp_all add: budget_of_def account_of_def started_def verdict_of_status_def)
  moreover have "budget_step (?b\<lparr>bg_running := False\<rparr>)
      (?b\<lparr>bg_running := False, bg_attempts := bg_attempts ?b + 1, bg_running := True, bg_verdict := NoFailure\<rparr>)"
    using budget_step.start [of "?b\<lparr>bg_running := False\<rparr>"] assms(3,4) budgetSpent_exact [OF assms(5,6)]
    by (simp add: budget_of_def not_less)
  ultimately show ?thesis by simp
qed

lemma recordAttempt_refines:
  assumes "jobName (status (mig s)) = []" and "\<not> undecided (mig s)" and "\<not> budgetSpent (mig s)"
    and "counters_ok (mig s)" and "sint (backoffLimit (spec (mig s))) < 2 ^ 31 - 1"
    and "sint (attempts (status (mig s))) < 2 ^ 31 - 1"
    and "attempts (status (mig s)) = 0 \<longrightarrow> retryGate (status (mig s)) = None" and "name \<noteq> []"
  shows "\<exists>m. sent (tr (snd (recordAttempt r name announce s))) = m # sent (tr s) \<and>
    budget_step (budget_of (mig s)) (budget_of m)"
proof -
  obtain m where m: "sent (tr (snd (recordAttempt r name announce s))) = m # sent (tr s)"
      "account_of m = started (attempts (status (mig s)) + 1) name (account_of (mig s))"
    using recordAttempt_sends by blast
  have "verdict_of_status (retryGate (status (mig s))) \<noteq> Undecided"
    using assms(2) by (auto simp: verdict_of_status_def undecided_def split: option.splits exemption.splits)
  from started_step [OF m(2) assms(8) this assms(3-7)] show ?thesis
    using m(1) assms(1) by (auto simp: budget_of_def)
qed

end
