(* ===== verification/Outcomes.thy ===== *)
theory Outcomes
  imports Budget_Machine
begin

text \<open>
  What a handler leaves in the status: the verdict of the compare checks (\<open>ensureVerification\<close>), the
  condition CommitsBlocked after a sample (\<open>applyCommitsBlocked\<close>), the base copy's confirmation
  (\<open>confirmBaseCopy\<close>) and the end of an incomplete clone (\<open>finishClone\<close>).
\<close>

section \<open>Commits blocked on synchronous replication\<close>

text \<open>Status and reason after a sample; \<open>None\<close> leaves the condition as it is.\<close>

definition commits_blocked :: "bool \<Rightarrow> sampled \<Rightarrow> (condition_status \<times> reason) option" where
  "commits_blocked was_blocked got =
     (if sm_at got = zero_time then None
      else case syncRepWait (sm_sample got) of
          None \<Rightarrow> if was_blocked then None else Some (ConditionUnknown, ReasonSyncRepUnobserved)
        | Some w \<Rightarrow>
            if sm_syncRepConfirmed got then Some (ConditionTrue, ReasonSyncRepWait)
            else if syncRepOver (Some w) then None
            else Some (ConditionFalse, ReasonNoSyncRepWait))"

definition verdict_in :: "reconciler \<Rightarrow> migration \<Rightarrow> condition_type \<Rightarrow> (condition_status \<times> reason) option" where
  "verdict_in r m t = map_option (\<lambda>c. (c_status c, c_reason c)) (find_c r m t)"

lemma verdict_in_set:
  assumes "meta_ok r" and "setCondition r t st reason msg s = (x, u)"
  shows "verdict_in r (mig u) t' = (if t' = t then Some (st, reason) else verdict_in r (mig s) t')"
proof -
  let ?c = "\<lparr>c_type = t, c_status = st, c_reason = reason, c_message = msg, c_generation = m_generation (mig s),
      c_transition = zero_time\<rparr>"
  have mig: "conditions (status (mig u)) = put_cond r (tr s) ?c (conditions (status (mig s)))"
    using assms(2) by (auto simp: setCondition_ok)
  obtain d where "find_cond r (conditions (status (mig u))) t = Some d" "c_status d = st" "c_reason d = reason"
    using find_put_same [OF assms(1), of "tr s" ?c "conditions (status (mig s))"] by (auto simp: mig)
  moreover have "t' \<noteq> t \<Longrightarrow> find_cond r (conditions (status (mig u))) t' = find_cond r (conditions (status (mig s))) t'"
    using find_put_other [OF assms(1), of t' ?c] by (simp add: mig)
  ultimately show ?thesis by (cases "t' = t") (simp_all add: verdict_in_def find_c_def)
qed

lemma do_when_simps [simp]: "do_when True f = f" "do_when False f = ret ()"
  by (simp_all add: do_when_def)

lemma ret_apply [simp]: "ret x s = (Inr x, s)"
  by (simp add: ret_def)

lemma seq_ret [simp]: "seq (ret ()) g = g"
  by (simp add: seq_def bnd_def ret_def)

lemma mig_seq_event [simp]: "mig (snd (seq (event w a b c) g s)) = mig (snd (g (s\<lparr>tr := Event w a b c # tr s\<rparr>)))"
  by (simp add: seq_def bnd_def event_def log_entry_def)

lemma applyCommitsBlocked_table:
  assumes "meta_ok r"
  shows "verdict_in r (mig (snd (applyCommitsBlocked r got s))) ConditionCommitsBlocked =
    (case commits_blocked (is_true r (mig s) ConditionCommitsBlocked) got of
       None \<Rightarrow> verdict_in r (mig s) ConditionCommitsBlocked | Some v \<Rightarrow> Some v)"
proof -
  have set_: "verdict_in r (mig (snd (setCondition r ConditionCommitsBlocked st reason msg u))) ConditionCommitsBlocked =
      Some (st, reason)" for st reason msg u
    using verdict_in_set [OF assms prod.collapse [symmetric]] by simp
  have told: "verdict_in r (mig (snd (seq (do_when b (event w a1 a2 a3)) (setCondition r ConditionCommitsBlocked st reason msg) u)))
      ConditionCommitsBlocked = Some (st, reason)" for b w a1 a2 a3 st reason msg u
    using set_ by (cases b) simp_all
  show ?thesis
    by (cases "is_true r (mig s) ConditionCommitsBlocked"; cases "syncRepWait (sm_sample got)")
      (auto simp: applyCommitsBlocked_def with_m_def commits_blocked_def set_ told do_when_def split: if_split)
qed

section \<open>The base copy of a live migration\<close>

text \<open>Confirmed without counts unless an earlier pass saw tables empty; with counts, when none is owed.\<close>

definition base_copy_ok :: "bool \<Rightarrow> relation_counts option \<Rightarrow> bool" where
  "base_copy_ok seen_empty co = (case co of None \<Rightarrow> \<not> seen_empty | Some c \<Rightarrow> \<not> tables_owed co)"

lemma confirmBaseCopy_outcome:
  assumes "meta_ok r" and "confirmBaseCopy r co s = (x, t)"
  shows "x = Inr (base_copy_ok (tablesEmptySeen r (mig s)) co)"
    and "base_copy_ok (tablesEmptySeen r (mig s)) co \<Longrightarrow>
      verdict_in r (mig t) ConditionCloneCompleted = Some (ConditionTrue, ReasonBaseCopyDone)"
    and "\<not> base_copy_ok (tablesEmptySeen r (mig s)) co \<Longrightarrow>
      verdict_in r (mig t) ConditionCloneCompleted = Some (ConditionFalse, ReasonTablesEmptyOnTarget)"
proof -
  have set_: "verdict_in r (mig (snd (setCondition r ConditionCloneCompleted st reason msg u))) ConditionCloneCompleted =
      Some (st, reason)" for st reason msg u
    using verdict_in_set [OF assms(1) prod.collapse [symmetric]] by simp
  have seen: "tablesEmptySeen r (mig s) \<Longrightarrow>
      verdict_in r (mig s) ConditionCloneCompleted = Some (ConditionFalse, ReasonTablesEmptyOnTarget)"
    by (auto simp: tablesEmptySeen_def latched_def verdict_in_def split: option.split_asm)
  have last: "seq (setCondition r ct st reason msg) (ret b) u = (Inr b, snd (setCondition r ct st reason msg u))"
    for ct st reason msg and b :: bool and u
    by (simp add: seq_def bnd_def setCondition_ok ret_def)
  have told: "seq (do_when b1 (event w a1 a2 a3)) (seq (setCondition r ct st reason msg) (ret b2)) u =
      (Inr b2, snd (setCondition r ct st reason msg (if b1 then u\<lparr>tr := Event w a1 a2 a3 # tr u\<rparr> else u)))"
    for b1 w a1 a2 a3 ct st reason msg and b2 :: bool and u
    by (simp add: seq_def bnd_def do_when_def event_def log_entry_def setCondition_ok ret_def)
  note defs = confirmBaseCopy_def with_m_def last told base_copy_ok_def
  show "x = Inr (base_copy_ok (tablesEmptySeen r (mig s)) co)"
    using assms(2) by (cases co) (auto simp: defs split: if_split_asm)
  show "base_copy_ok (tablesEmptySeen r (mig s)) co \<Longrightarrow>
      verdict_in r (mig t) ConditionCloneCompleted = Some (ConditionTrue, ReasonBaseCopyDone)"
    using assms(2) by (cases co) (auto simp: defs set_ split: if_split_asm)
  show "\<not> base_copy_ok (tablesEmptySeen r (mig s)) co \<Longrightarrow>
      verdict_in r (mig t) ConditionCloneCompleted = Some (ConditionFalse, ReasonTablesEmptyOnTarget)"
    using assms(2) seen by (cases co) (auto simp: defs set_ split: if_split_asm)
qed

section \<open>The compare checks\<close>

text \<open>What the checks of one pass leave alone.\<close>

definition same_checks :: "pass \<Rightarrow> pass \<Rightarrow> bool" where
  "same_checks s t \<longleftrightarrow> m_name (mig t) = m_name (mig s) \<and>
     verification_results (status (mig t)) = verification_results (status (mig s)) \<and> set (tr s) \<subseteq> set (tr t)"

interpretation same_checks: frame same_checks
  by unfold_locales (auto simp: same_checks_def)

named_theorems checks_intros

lemmas checks_control [checks_intros] = same_checks.keeps_ret same_checks.keeps_raise same_checks.keeps_bnd
  same_checks.keeps_attempt keeps_if keeps_case_option keeps_case_sum

lemma checks_call [checks_intros]: "keeps same_checks (call f mk)"
  by (rule keepsI) (auto simp: call_def same_checks_def)

lemma checks_with_m [checks_intros]: "(\<And>m. keeps same_checks (k m)) \<Longrightarrow> keeps same_checks (with_m k)"
  by (rule keepsI) (auto simp: with_m_def dest: keepsD)

lemma checks_seq [checks_intros]: "keeps same_checks f \<Longrightarrow> keeps same_checks g \<Longrightarrow> keeps same_checks (seq f g)"
  by (simp add: seq_def same_checks.keeps_bnd)

lemma checks_when [checks_intros]: "keeps same_checks f \<Longrightarrow> keeps same_checks (do_when b f)"
  by (simp add: do_when_def same_checks.keeps_ret)

lemma checks_set_status [checks_intros]:
  "(\<And>st. verification_results (f st) = verification_results st) \<Longrightarrow> keeps same_checks (set_status f)"
  by (rule keepsI) (auto simp: set_status_ok same_checks_def)

lemma checks_currentTime [checks_intros]: "keeps same_checks (currentTime r)"
  by (rule keepsI) (auto simp: currentTime_def same_checks_def)

lemma checks_readCompareProgress [checks_intros]: "keeps same_checks (readCompareProgress r kind j)"
  unfolding readCompareProgress_def read_again_def recordCompareProgress_def readJobLog_def by (intro checks_intros) simp_all

text \<open>A recorded verdict is that of a finished Job which this pass read.\<close>

definition read_verdict :: "migration \<Rightarrow> trace \<Rightarrow> string \<Rightarrow> bool \<Rightarrow> bool" where
  "read_verdict m h check ok \<longleftrightarrow>
     (\<exists>j. GetJob False (compareJobName m check) (Inr j) \<in> set h \<and> jobFinished j = (True, ok))"

lemma check_once_verdict:
  assumes "check_once r check s = (Inr True, t)"
  shows "\<exists>v. verification_results (status (mig t)) = verification_results (status (mig s)) @ [v] \<and>
      vr_check v = check \<and> read_verdict (mig s) (tr t) check (vr_passed v)"
    and "m_name (mig t) = m_name (mig s)" and "set (tr s) \<subseteq> set (tr t)"
proof -
  let ?none = "\<lambda>c. seq (setCondition r ConditionVerified ConditionUnknown ReasonVerificationRunning
                  (''pgcopydb compare '' @ check @ '' running''))
            (seq (do_when c
                   (seq (event False ''VerificationStarted'' ''Verify'' (''running pgcopydb compare '' @ check))
                     (do_when (check = compareData) (dropCompareProgress VerificationProgressData))))
              (ret False))"
  let ?some = "\<lambda>j. seq (do_when (check = compareData)
                  (bnd (readCompareProgress r VerificationProgressData j) (\<lambda>_. ret ())))
             (if \<not> fst (jobFinished j) then ret False
              else seq (set_status (\<lambda>st. st\<lparr>verification_results := verification_results st @ [verdict_of check j]\<rparr>))
                     (ret True))"
  obtain jo c u where job: "ensureJob r (compareJobName (mig s) check) (\<lambda>m. buildCompareJob m (RunnerImage r) check) s = (Inr (jo, c), u)"
    and k: "(case jo of None \<Rightarrow> ?none c | Some j \<Rightarrow> ?some j) u = (Inr True, t)"
    using assms unfolding check_once_def run_with_m run_bnd by auto
  have "?none c u \<noteq> (Inr True, t)" by (auto simp: run_simps)
  then obtain j where jo: "jo = Some j" and k: "?some j u = (Inr True, t)" using k by (cases jo) auto
  have u: "u = s\<lparr>tr := GetJob False (compareJobName (mig s) check) (Inr j) # tr s\<rparr>"
    using ensureJob_run [OF job] jo by simp
  from k obtain v where read: "do_when (check = compareData)
      (bnd (readCompareProgress r VerificationProgressData j) (\<lambda>_. ret ())) u = (Inr (), v)"
    and fin: "fst (jobFinished j)" and t: "t = v\<lparr>mig := upd_status (\<lambda>st. st\<lparr>verification_results :=
      verification_results st @ [verdict_of check j]\<rparr>) (mig v)\<rparr>"
    unfolding run_seq by (auto simp: run_simps set_status_ok split: if_split_asm)
  have "keeps same_checks (do_when (check = compareData) (bnd (readCompareProgress r VerificationProgressData j) (\<lambda>_. ret ())))"
    by (intro checks_intros)
  then have "same_checks u v" using read by (rule keepsD)
  then have v: "m_name (mig v) = m_name (mig s)" "verification_results (status (mig v)) = verification_results (status (mig s))"
      "insert (GetJob False (compareJobName (mig s) check) (Inr j)) (set (tr s)) \<subseteq> set (tr v)"
    by (simp_all add: same_checks_def u)
  have "jobFinished j = (True, vr_passed (verdict_of check j))"
    using fin by (simp add: verdict_of_def prod_eq_iff)
  then have "read_verdict (mig s) (tr t) check (vr_passed (verdict_of check j))"
    using v(3) by (auto simp: read_verdict_def t)
  with v show "\<exists>v. verification_results (status (mig t)) = verification_results (status (mig s)) @ [v] \<and>
      vr_check v = check \<and> read_verdict (mig s) (tr t) check (vr_passed v)"
    by (intro exI [of _ "verdict_of check j"]) (simp add: t verdict_of_def)
  show "m_name (mig t) = m_name (mig s)" using v by (simp add: t)
  show "set (tr s) \<subseteq> set (tr t)" using v(3) by (auto simp: t)
qed

lemma check_all_verdicts:
  assumes "check_all r cs s = (Inr True, t)"
  shows "\<exists>vs. verification_results (status (mig t)) = verification_results (status (mig s)) @ vs \<and>
      map vr_check vs = cs \<and> (\<forall>v \<in> set vs. read_verdict (mig s) (tr t) (vr_check v) (vr_passed v))"
    and "set (tr s) \<subseteq> set (tr t)"
proof -
  have "(\<exists>vs. verification_results (status (mig t)) = verification_results (status (mig s)) @ vs \<and>
      map vr_check vs = cs \<and> (\<forall>v \<in> set vs. read_verdict (mig s) (tr t) (vr_check v) (vr_passed v))) \<and> set (tr s) \<subseteq> set (tr t)"
    using assms
  proof (induction cs arbitrary: s)
    case Nil
    then show ?case by (simp add: run_ret)
  next
    case (Cons c cs)
    from Cons.prems obtain u where c: "check_once r c s = (Inr True, u)" and cs: "check_all r cs u = (Inr True, t)"
      by (auto simp: run_simps split: if_split_asm)
    note 1 = check_once_verdict [OF c]
    from 1(1) obtain v where v: "verification_results (status (mig u)) = verification_results (status (mig s)) @ [v]"
        "vr_check v = c" "read_verdict (mig s) (tr u) c (vr_passed v)" by blast
    from Cons.IH [OF cs] obtain vs where vs: "verification_results (status (mig t)) = verification_results (status (mig u)) @ vs"
        "map vr_check vs = cs" "\<forall>v \<in> set vs. read_verdict (mig u) (tr t) (vr_check v) (vr_passed v)"
        "set (tr u) \<subseteq> set (tr t)" by blast
    have "read_verdict (mig s) (tr t) c (vr_passed v)" using v(3) vs(4) by (auto simp: read_verdict_def)
    moreover have "read_verdict (mig s) h c ok \<longleftrightarrow> read_verdict (mig u) h c ok" for h c ok
      using 1(2) by (simp add: read_verdict_def compareJobName_def)
    ultimately show ?case using v vs 1(3) by (intro conjI exI [of _ "v # vs"]) auto
  qed
  then show "\<exists>vs. verification_results (status (mig t)) = verification_results (status (mig s)) @ vs \<and>
      map vr_check vs = cs \<and> (\<forall>v \<in> set vs. read_verdict (mig s) (tr t) (vr_check v) (vr_passed v))"
    and "set (tr s) \<subseteq> set (tr t)" by blast+
qed

text \<open>Done: a verdict for every enabled check, in order, and Verified says whether all passed.\<close>

lemma report_checks_verified:
  assumes "meta_ok r" and "report_checks r s = (x, t)"
  shows "verification_results (status (mig t)) = verification_results (status (mig s))"
    and "verdict_in r (mig t) ConditionVerified = Some (case mismatched (mig s) of
       [] \<Rightarrow> (ConditionTrue, ReasonComparePassed)
     | c # cs \<Rightarrow> (ConditionFalse, if c = compareSchema then ReasonSchemaMismatch else ReasonDataMismatch))"
proof -
  have set_: "seq (setCondition r ct st reason msg) (event w a b c) u = (Inr (), (snd (setCondition r ct st reason msg u))
      \<lparr>tr := Event w a b c # tr (snd (setCondition r ct st reason msg u))\<rparr>)" for ct st reason msg w a b c u
    by (simp add: seq_def bnd_def setCondition_ok event_def log_entry_def)
  have v: "verdict_in r (mig (snd (setCondition r ConditionVerified st reason msg u))) ConditionVerified = Some (st, reason)"
    for st reason msg u
    using verdict_in_set [OF assms(1) prod.collapse [symmetric]] by simp
  show "verification_results (status (mig t)) = verification_results (status (mig s))"
    using assms(2) by (auto simp: report_checks_def with_m_def set_ setCondition_ok split: list.split_asm)
  show "verdict_in r (mig t) ConditionVerified = Some (case mismatched (mig s) of
       [] \<Rightarrow> (ConditionTrue, ReasonComparePassed)
     | c # cs \<Rightarrow> (ConditionFalse, if c = compareSchema then ReasonSchemaMismatch else ReasonDataMismatch))"
    using assms(2) by (auto simp: report_checks_def with_m_def set_ v split: list.split_asm list.split)
qed

definition verification_reported :: "reconciler \<Rightarrow> migration \<Rightarrow> pass \<Rightarrow> bool" where
  "verification_reported r m t \<longleftrightarrow>
     map vr_check (verification_results (status (mig t))) = enabledChecks m \<and>
     (\<forall>v \<in> set (verification_results (status (mig t))). read_verdict m (tr t) (vr_check v) (vr_passed v)) \<and>
     verdict_in r (mig t) ConditionVerified = Some (case mismatched (mig t) of
       [] \<Rightarrow> (ConditionTrue, ReasonComparePassed)
     | c # cs \<Rightarrow> (ConditionFalse, if c = compareSchema then ReasonSchemaMismatch else ReasonDataMismatch))"

lemma ensureVerification_reported:
  assumes "meta_ok r" and "ensureVerification r s = (Inr True, t)" and "verificationRequested (mig s)"
  shows "verification_reported r (mig s) t"
proof -
  let ?s = "s\<lparr>mig := upd_status (\<lambda>st. st\<lparr>phase := PhaseVerifying, verification_results := []\<rparr>) (mig s)\<rparr>"
  obtain u where all: "check_all r (enabledChecks (mig s)) ?s = (Inr True, u)" and rep: "report_checks r u = (Inr (), t)"
    using assms(2,3) unfolding ensureVerification_def by (auto simp: run_simps split: if_split_asm)
  from check_all_verdicts(1) [OF all] obtain vs where vs: "verification_results (status (mig u)) = vs"
      "map vr_check vs = enabledChecks (mig s)" "\<forall>v \<in> set vs. read_verdict (mig ?s) (tr u) (vr_check v) (vr_passed v)"
    by auto
  have results: "verification_results (status (mig t)) = vs" using report_checks_verified(1) [OF assms(1) rep] vs(1) by simp
  have "set (tr u) \<subseteq> set (tr t)"
    using rep by (auto simp: report_checks_def with_m_def seq_def bnd_def setCondition_ok event_def log_entry_def split: list.split_asm)
  then have "read_verdict (mig ?s) (tr u) c ok \<Longrightarrow> read_verdict (mig s) (tr t) c ok" for c ok
    by (auto simp: read_verdict_def compareJobName_def)
  then have "\<forall>v \<in> set vs. read_verdict (mig s) (tr t) (vr_check v) (vr_passed v)"
    using vs(3) by blast
  moreover have "mismatched (mig u) = mismatched (mig t)" using results vs(1) by (simp add: mismatched_def)
  ultimately show ?thesis
    using vs(2) results report_checks_verified(2) [OF assms(1) rep] by (simp add: verification_reported_def)
qed

end
