(* ===== verification/First_Attempt.thy ===== *)
theory First_Attempt
  imports Outcomes
begin

text \<open>
  What a pass does when nothing stands in its way. \<open>calm_cluster\<close> is an environment in which the
  preflight Job finished well, no other Job and no pod exists, and every write succeeds. There a
  new Migration's pass creates its first worker, and with the largest backoffLimit it fails the
  Migration instead, before any attempt.
\<close>

section \<open>Steps that only leave traces\<close>

text \<open>\<open>calm P f x\<close>: from a Migration in \<open>P\<close>, \<open>f\<close> returns \<open>x\<close> and changes nothing but the history.\<close>

definition calm :: "(migration \<Rightarrow> bool) \<Rightarrow> 'a act \<Rightarrow> 'a \<Rightarrow> bool" where
  "calm P f x \<longleftrightarrow> (\<forall>s. P (mig s) \<longrightarrow> (\<exists>h. f s = (Inr x, s\<lparr>tr := h @ tr s\<rparr>)))"

lemma calmI: "(\<And>s. P (mig s) \<Longrightarrow> \<exists>h. f s = (Inr x, s\<lparr>tr := h @ tr s\<rparr>)) \<Longrightarrow> calm P f x"
  by (simp add: calm_def)

lemma calm_ret: "calm P (ret x) x"
  by (rule calmI) (auto intro: exI [of _ "[]"])

lemma calm_bnd:
  assumes "calm P f x" and "calm P (k x) y"
  shows "calm P (bnd f k) y"
proof (rule calmI)
  fix s :: pass
  assume P: "P (mig s)"
  then obtain h where h: "f s = (Inr x, s\<lparr>tr := h @ tr s\<rparr>)" using assms(1) unfolding calm_def by blast
  let ?t = "s\<lparr>tr := h @ tr s\<rparr>"
  have "P (mig ?t)" using P by simp
  then obtain g where "k x ?t = (Inr y, ?t\<lparr>tr := g @ tr ?t\<rparr>)" using assms(2) unfolding calm_def by blast
  with h have "bnd f k s = (Inr y, s\<lparr>tr := (g @ h) @ tr s\<rparr>)" by (simp add: bnd_def)
  then show "\<exists>h. bnd f k s = (Inr y, s\<lparr>tr := h @ tr s\<rparr>)" by blast
qed

lemma calm_seq: "calm P f () \<Longrightarrow> calm P g y \<Longrightarrow> calm P (seq f g) y"
  unfolding seq_def by (rule calm_bnd)

lemma calm_with_m: "(\<And>m. P m \<Longrightarrow> calm (\<lambda>m'. m' = m) (k m) x) \<Longrightarrow> calm P (with_m k) x"
  by (simp add: calm_def with_m_def)

lemma calm_weaken: "calm P f x \<Longrightarrow> (\<And>m. Q m \<Longrightarrow> P m) \<Longrightarrow> calm Q f x"
  by (simp add: calm_def)

lemma calm_call: "(\<And>h. f h = Inr x) \<Longrightarrow> calm P (call f mk) x"
  by (rule calmI) (auto simp: call_def intro: exI [of _ "[e]" for e])

lemma calm_attempt_call: "(\<And>h. f h = y) \<Longrightarrow> calm P (attempt (call f mk)) y"
  by (rule calmI) (auto simp: call_def attempt_def intro: exI [of _ "[e]" for e])

lemma calm_log_entry: "calm P (log_entry e) ()"
  by (rule calmI) (auto simp: log_entry_def intro: exI [of _ "[e]"])

lemma calm_event: "calm P (event w a b c) ()"
  unfolding event_def by (rule calm_log_entry)

lemma calm_when: "(b \<Longrightarrow> calm P f ()) \<Longrightarrow> calm P (do_when b f) ()"
  by (simp add: do_when_def calm_ret)

lemma calm_run: "calm P f x \<Longrightarrow> P (mig s) \<Longrightarrow> \<exists>h. f s = (Inr x, s\<lparr>tr := h @ tr s\<rparr>)"
  by (simp add: calm_def)

section \<open>The environment\<close>

definition calm_cluster :: "reconciler \<Rightarrow> string \<Rightarrow> job \<Rightarrow> bool" where
  "calm_cluster r name j \<longleftrightarrow> meta_ok r \<and> jobFinished j = (True, True) \<and>
     (\<forall>h u n. get_job_reply r h u n = (if n = name then Inr j else Inl (ApiErr NotFound ''not found''))) \<and>
     (\<forall>h u. list_jobs_reply r h u = Inr []) \<and> (\<forall>h sel. list_pods_reply r h sel = Inr []) \<and>
     (\<forall>h n. set_owner_reply r h n = Inr ()) \<and> (\<forall>h ob. create_owned_reply r h ob = Inr ()) \<and>
     (\<forall>h j. create_job_reply r h j = Inr ()) \<and> (\<forall>h l b m. patch_status_reply r h l b m = Inr m) \<and>
     (\<forall>h l b m. patch_meta_reply r h l b m = Inr m)"

text \<open>A Migration whose first attempt is due, and a pass that may still refuse to look at it.\<close>

definition due :: "reconciler \<Rightarrow> migration \<Rightarrow> bool" where
  "due r m \<longleftrightarrow> \<not> dryRun (spec m) \<and> buildable m \<and> attempts (status m) = 0 \<and> exemptAttempts (status m) = 0 \<and>
     jobName (status m) = [] \<and> retryGate (status m) = None \<and> verificationRehearsal (status m) = None \<and>
     \<not> is_true r m ConditionCloneCompleted"

definition open_to_work :: "reconciler \<Rightarrow> migration \<Rightarrow> bool" where
  "open_to_work r m \<longleftrightarrow> \<not> m_deleting m \<and> \<not> ended_migration r m \<and> \<not> statusIsEmpty m \<and> \<not> suspend (spec m)"

section \<open>Up to the attempt\<close>

lemma calm_get_job_missing:
  "calm_cluster r name j \<Longrightarrow> n \<noteq> name \<Longrightarrow> calm P (attempt (get_job r n)) (Inl (ApiErr NotFound ''not found''))"
  unfolding get_job_def by (rule calm_attempt_call) (simp add: calm_cluster_def)

lemma calm_ensureOwned:
  assumes "calm_cluster r name j"
  shows "calm P (ensureOwned r) ()"
proof -
  have own: "calm Q (set_owner r n) ()" for Q n
    unfolding set_owner_def using assms by (intro calm_call) (simp add: calm_cluster_def)
  have strict: "calm Q (createStrictlyOwned r ob) ()" for Q ob
    unfolding createStrictlyOwned_def
    using assms by (intro calm_bnd [OF calm_attempt_call [where y = "Inr ()"]]) (simp_all add: calm_cluster_def calm_ret)
  show ?thesis
    unfolding ensureOwned_def
    by (intro calm_with_m calm_seq own strict) (auto split: option.split intro: calm_seq own strict calm_ret)
qed

lemma calm_recordWorkNode:
  assumes "calm_cluster r name j"
  shows "calm P (recordWorkNode r) ()"
  unfolding recordWorkNode_def list_pods_def
  using assms by (intro calm_with_m calm_bnd [OF calm_attempt_call [where y = "Inr []"]]) (simp_all add: calm_cluster_def calm_ret)

lemma calm_emitPreflightOutcome: "\<exists>h. emitPreflightOutcome r s = (Inr (), s\<lparr>tr := h @ tr s\<rparr>)"
proof -
  have emit: "calm P (emit_bundle reason a stmts) ()" for P reason a stmts
    unfolding emit_bundle_def by (intro calm_when calm_event)
  have tail: "calm P (let warns = lines_after warnPrefix tail;
            clone = lines_after remPrefixClone tail; follow = lines_after remPrefixFollow tail;
            wouldClone = lines_after wouldPrefixClone tail; wouldFollow = lines_after wouldPrefixFollow tail
        in seq (do_when (warns \<noteq> []) (event True ''PreflightWarning'' ''Preflight''
                  (go_truncate (join warns [newline]) maxDetailLen)))
            (seq (emit_bundle ''PreflightRemediated'' ''RemediateClone'' clone)
              (seq (emit_bundle ''PreflightRemediated'' ''RemediateFollow'' follow)
                (seq (emit_bundle ''PreflightWouldRemediate'' ''RemediateClone'' wouldClone)
                  (seq (emit_bundle ''PreflightWouldRemediate'' ''RemediateFollow'' wouldFollow)
                    (event False ''PreflightPassed'' ''Preflight''
                      (preflight_summary (length (lines_after ''ok: '' tail)) (length clone + length follow)
                        (length wouldClone + length wouldFollow)))))))) ()" (is "calm P (?k tail) ()") for P tail
    unfolding Let_def by (intro calm_seq calm_when calm_event emit)
  have "\<exists>tail h. jobLogTail r n k s = (Inr tail, s\<lparr>tr := h @ tr s\<rparr>)" for n k
  proof (cases "with_logs r")
    case True
    then show ?thesis
      by (cases "read_logs_reply r (tr s) (PlainLogs n k)")
        (auto simp: jobLogTail_def readJobLog_def call_def bnd_def attempt_def intro: exI [of _ "[e]" for e])
  next
    case False
    then show ?thesis by (auto simp: jobLogTail_def readJobLog_def bnd_def attempt_def raise_def intro: exI [of _ "[]"])
  qed
  then obtain tail h where log: "jobLogTail r (preflightJobName (mig s)) preflightOkLogTail s = (Inr tail, s\<lparr>tr := h @ tr s\<rparr>)"
    by blast
  obtain g where "?k tail (s\<lparr>tr := h @ tr s\<rparr>) = (Inr (), (s\<lparr>tr := h @ tr s\<rparr>)\<lparr>tr := g @ tr (s\<lparr>tr := h @ tr s\<rparr>)\<rparr>)"
    using calm_run [OF tail [of "\<lambda>m. True"]] by blast
  then have "emitPreflightOutcome r s = (Inr (), s\<lparr>tr := (g @ h) @ tr s\<rparr>)"
    by (simp add: emitPreflightOutcome_def with_m_def bnd_def log)
  then show ?thesis by blast
qed

lemma calm_preflightGate:
  assumes "calm_cluster r (preflightJobName m) j" and "attempts (status m) = 0"
  shows "calm (\<lambda>m'. m' = m) (preflightGate r) None"
proof -
  have job: "calm (\<lambda>m'. m' = m) (ensureJob r (preflightJobName m) b) (Some j, False)" for b
    unfolding ensureJob_def get_job_def
    using assms by (intro calm_bnd [OF calm_attempt_call [where y = "Inr j"]]) (simp_all add: calm_cluster_def calm_ret)
  have fin: "jobFinished j = (True, True)" using assms by (simp add: calm_cluster_def)
  have pre: "calm (\<lambda>m'. m' = m) (ensurePreflight r) (True, [])"
    unfolding ensurePreflight_def
    by (rule calm_with_m, clarify, rule calm_bnd [OF job]) (simp add: fin calm_ret)
  have emit: "calm P (with_m (\<lambda>m. do_when (\<not> is_true r m ConditionValidated) (emitPreflightOutcome r))) ()" for P
    by (intro calm_with_m calm_when calmI calm_emitPreflightOutcome)
  show ?thesis
    unfolding preflightGate_def
    by (rule calm_with_m, clarify, simp add: assms(2), rule calm_bnd [OF pre]) (simp add: calm_seq [OF emit calm_ret])
qed

section \<open>The attempt\<close>

lemma calm_cancelRehearsal:
  assumes "calm_cluster r name j"
  shows "calm (\<lambda>m. verificationRehearsal (status m) = None) (cancelRehearsal r why) ()"
proof -
  have rec: "calm (\<lambda>m. verificationRehearsal (status m) = None) (cancelRecordedRehearsal r why) ()"
    unfolding cancelRecordedRehearsal_def by (rule calm_with_m) (simp add: calm_ret)
  have jobs: "calm Q (list_jobs_uncached r) []" for Q
    unfolding list_jobs_uncached_def using assms by (intro calm_call) (simp add: calm_cluster_def)
  have none: "calm Q (each f []) ()" for Q and f :: "job \<Rightarrow> unit act" by (simp add: calm_ret)
  show ?thesis
    unfolding cancelRehearsal_def by (intro calm_seq rec calm_with_m calm_bnd [OF jobs] none)
qed

lemma calm_reownJobExists:
  assumes "calm_cluster r (preflightJobName m) j"
  shows "calm (\<lambda>m'. m' = m) (reownJobExists r) False"
proof -
  have "reownJobName m \<noteq> preflightJobName m" by (simp add: reownJobName_def preflightJobName_def)
  note get = calm_get_job_missing [OF assms this]
  show ?thesis
    unfolding reownJobExists_def
    by (rule calm_with_m, clarify, cases "reownRequested m") (simp_all add: calm_ret calm_bnd [OF get])
qed

lemma nextAttempt_due:
  assumes "calm_cluster r (preflightJobName (mig s)) j" and "due r (mig s)"
  shows "\<exists>h. nextAttempt r s = startAttempt r (s\<lparr>tr := h @ tr s\<rparr>)"
proof -
  obtain h where 1: "cancelRehearsal r ''the worker Job is gone'' s = (Inr (), s\<lparr>tr := h @ tr s\<rparr>)"
    using calm_run [OF calm_cancelRehearsal [OF assms(1)], of s] assms(2) by (auto simp: due_def)
  obtain g where 2: "reownJobExists r (s\<lparr>tr := h @ tr s\<rparr>) = (Inr False, s\<lparr>tr := g @ h @ tr s\<rparr>)"
    using calm_run [OF calm_reownJobExists [OF assms(1)], of "s\<lparr>tr := h @ tr s\<rparr>"] by auto
  have "nextAttempt r s = startAttempt r (s\<lparr>tr := (g @ h) @ tr s\<rparr>)"
    using assms(2) by (simp add: nextAttempt_def seq_def bnd_def 1 2 with_m_def due_def)
  then show ?thesis by blast
qed

lemma startAttempt_due:
  assumes "due r (mig s)"
  shows "startAttempt r s = (if budgetSpent (mig s) then seq (failBudget r) (finish r Done) s else create_worker r 1 s)"
  using assms
  by (simp add: startAttempt_def with_m_def Let_def due_def unrecorded_worker_def bnd_def budget_final_def onFailurePath_def)

lemma create_worker_creates:
  assumes "calm_cluster r name j" and "buildable (mig s)"
  shows "\<exists>w. buildJob (snapshotLost r (mig s)) (mig s) (RunnerImage r) n = Inr w \<and>
    CreateJob w (Inr ()) \<in> set (tr (snd (create_worker r n s)))"
proof -
  obtain w where w: "buildJob (snapshotLost r (mig s)) (mig s) (RunnerImage r) n = Inr w"
    using buildJob_ok assms(2) by blast
  let ?s = "s\<lparr>tr := CreateJob w (Inr ()) # SetOwner (j_name w) (Inr ()) # tr s\<rparr>"
  have "create_worker r n s = recordAttempt r (j_name w) True ?s"
    using assms(1)
    by (simp add: create_worker_def with_m_def w lift_sum_def bnd_def seq_def set_owner_def call_def attempt_def
        create_job_def calm_cluster_def)
  moreover obtain x t where run: "recordAttempt r (j_name w) True ?s = (x, t)" by fastforce
  have "makes (\<lambda>j. True) (recordAttempt r (j_name w) True)" by (intro keeps_intros)
  from makes_grows [OF this run] have "CreateJob w (Inr ()) \<in> set (tr t)" by auto
  ultimately show ?thesis using w run by auto
qed

text \<open>The patch of a spent budget.\<close>

lemma failBudget_sends_failed:
  assumes "meta_ok r" and "retryGate (status (mig s)) = None"
  shows "\<exists>m. sent (tr (snd (seq (failBudget r) (finish r res) s))) = m # sent (tr s) \<and>
    verdict_in r m ConditionFailed = Some (ConditionTrue, ReasonBackoffLimitExceeded) \<and> phase (status m) = PhaseFailed"
proof -
  let ?m1 = "upd_status (\<lambda>st. st\<lparr>phase := PhaseFailed\<rparr>) (mig s)"
  let ?s1 = "s\<lparr>mig := ?m1\<rparr>"
  let ?fail = "setCondition r ConditionFailed ConditionTrue ReasonBackoffLimitExceeded (budgetMessage (mig s))"
  obtain s2 where s2: "?fail ?s1 = (Inr (), s2)" and t2: "tr s2 = tr s" "phase (status (mig s2)) = PhaseFailed"
    by (simp add: setCondition_ok)
  have f2: "verdict_in r (mig s2) ConditionFailed = Some (ConditionTrue, ReasonBackoffLimitExceeded)"
    using verdict_in_set [OF assms(1) s2] by simp
  have "\<exists>s3. endHold r reason msg s2 = (Inr (), s3) \<and> tr s3 = tr s2 \<and> phase (status (mig s3)) = PhaseFailed \<and>
      verdict_in r (mig s3) ConditionFailed = Some (ConditionTrue, ReasonBackoffLimitExceeded)" for reason msg
  proof (cases "is_true r (mig s2) ConditionRetryHeld")
    case True
    then have e: "endHold r reason msg s2 = setCondition r ConditionRetryHeld ConditionFalse reason msg s2"
      by (simp add: endHold_def with_m_def)
    obtain s3 where s3: "setCondition r ConditionRetryHeld ConditionFalse reason msg s2 = (Inr (), s3)"
        "tr s3 = tr s2" "phase (status (mig s3)) = PhaseFailed"
      using t2 by (simp add: setCondition_ok)
    then show ?thesis using e f2 verdict_in_set [OF assms(1) s3(1)] by auto
  next
    case False
    then show ?thesis using f2 t2 by (simp add: endHold_def with_m_def)
  qed
  then obtain s3 where s3: "endHold r ReasonHoldMigrationFailed (''Attempt '' @ itoa (attempts (status (mig s2)) + 1) @
                '' does not start: the Migration failed with '' @ reason_str ReasonBackoffLimitExceeded) s2 = (Inr (), s3)"
      "tr s3 = tr s2" "phase (status (mig s3)) = PhaseFailed"
      "verdict_in r (mig s3) ConditionFailed = Some (ConditionTrue, ReasonBackoffLimitExceeded)" by blast
  let ?s4 = "s3\<lparr>tr := Event True (reason_str ReasonBackoffLimitExceeded) ''Fail'' (go_truncate (budgetMessage (mig s)) maxDetailLen) # tr s3\<rparr>"
  have "failBudget r s = (Inr (), ?s4)"
    using assms(2) s2 s3(1)
    by (simp add: failBudget_def with_m_def fail_with_def seq_def bnd_def set_status_ok event_def log_entry_def)
  moreover have "\<exists>m. sent (tr (snd (finish r res u))) = m # sent (tr u) \<and> status m = (status (mig u))\<lparr>observedGeneration := m_generation (mig u)\<rparr>" for u
    by (simp add: finish_def updateStatus_def seq_def bnd_def set_m_def with_m_def gauges_def log_entry_def patch_status_def
        Let_def split: sum.split)
  then obtain m where m: "sent (tr (snd (finish r res ?s4))) = m # sent (tr ?s4)"
      "status m = (status (mig ?s4))\<lparr>observedGeneration := m_generation (mig ?s4)\<rparr>" by blast
  ultimately show ?thesis
    using s3 t2 by (intro exI [of _ m]) (simp add: seq_def bnd_def verdict_in_def find_c_def)
qed

section \<open>The whole pass\<close>

text \<open>What the steps before the attempt keep of the fetched Migration.\<close>

definition ready :: "reconciler \<Rightarrow> migration \<Rightarrow> migration \<Rightarrow> bool" where
  "ready r m0 m \<longleftrightarrow> due r m \<and> spec m = spec m0 \<and> m_name m = m_name m0"

lemma ready_preflight: "ready r m0 m \<Longrightarrow> preflightJobName m = preflightJobName m0"
  by (simp add: ready_def preflightJobName_def)

lemma buildable_cong: "spec m = spec m0 \<Longrightarrow> buildable m = buildable m0"
  by (simp add: buildable_def all_databases_conflict_def followEnabled_def)

lemma ready_finalizers: "ready r m0 m \<Longrightarrow> ready r m0 (m\<lparr>m_finalizers := fs\<rparr>)"
  using buildable_cong [of "m\<lparr>m_finalizers := fs\<rparr>" m]
  by (auto simp: ready_def due_def find_c_def is_true_def)

lemma ready_setCondition:
  assumes "meta_ok r" and "setCondition r ConditionValidated st reason msg s = (x, u)" and "ready r m0 (mig s)"
  shows "ready r m0 (mig u)"
proof -
  have u: "mig u = upd_status (\<lambda>ms. ms\<lparr>conditions := put_cond r (tr s)
      \<lparr>c_type = ConditionValidated, c_status = st, c_reason = reason, c_message = msg,
       c_generation = m_generation (mig s), c_transition = zero_time\<rparr> (conditions ms)\<rparr>) (mig s)"
    using assms(2) by (auto simp: setCondition_ok)
  then have "buildable (mig u) = buildable (mig s)" by (intro buildable_cong) simp
  then show ?thesis
    using assms(1,3) u by (auto simp: ready_def due_def is_true_def cond_true_iff find_put_other)
qed

lemma ensureFinalizer_ready:
  assumes "calm_cluster r name j" and "ready r m0 (mig s)"
  shows "\<exists>h u. ensureFinalizer r s = (Inr (), u) \<and> tr u = h @ tr s \<and> ready r m0 (mig u)"
  using assms ready_finalizers
  by (auto simp: ensureFinalizer_def with_m_def patch_meta_def calm_cluster_def Let_def)

lemma gated_step_ready:
  assumes "calm_cluster r (preflightJobName m0) j" and "ready r m0 (mig s)"
  shows "\<exists>h u. gated_step r s = finished_step (startAttempt r) u \<and> tr u = h @ tr s \<and> ready r m0 (mig u)"
proof -
  obtain u where u: "setCondition r ConditionValidated ConditionTrue ReasonSpecValid
      ''connection and clone options materialize cleanly and the preflight passed'' s = (Inr (), u)" and tu: "tr u = tr s"
    by (simp add: setCondition_ok)
  have meta: "meta_ok r" using assms(1) by (simp add: calm_cluster_def)
  have rdy: "ready r m0 (mig u)" using ready_setCondition [OF meta u assms(2)] .
  then have due: "due r (mig u)" by (simp add: ready_def)
  then have "gated_step r s = finished_step (nextAttempt r) u"
    by (simp add: gated_step_def seq_def bnd_def u with_m_def worker_step_def due_def)
  moreover obtain h where "nextAttempt r u = startAttempt r (u\<lparr>tr := h @ tr u\<rparr>)"
    using nextAttempt_due [OF _ due] assms(1) ready_preflight [OF rdy] by metis
  ultimately have "gated_step r s = finished_step (startAttempt r) (u\<lparr>tr := h @ tr u\<rparr>)"
    by (simp add: finished_step_def bnd_def)
  then show ?thesis
    using rdy tu by (intro exI [of _ h] exI [of _ "u\<lparr>tr := h @ tr u\<rparr>"]) simp
qed

lemma validated_step_ready:
  assumes "calm_cluster r (preflightJobName m0) j" and "ready r m0 (mig s)"
  shows "\<exists>h u. validated_step r s = finished_step (startAttempt r) u \<and> tr u = h @ tr s \<and> ready r m0 (mig u)"
proof -
  obtain h1 u where u: "ensureFinalizer r s = (Inr (), u)" "tr u = h1 @ tr s" and rdy: "ready r m0 (mig u)"
    using ensureFinalizer_ready [OF assms] by blast
  have cl: "calm_cluster r (preflightJobName (mig u)) j" using assms(1) ready_preflight [OF rdy] by simp
  have att: "attempts (status (mig u)) = 0" using rdy by (simp add: ready_def due_def)
  obtain h2 where 2: "ensureOwned r u = (Inr (), u\<lparr>tr := h2 @ tr u\<rparr>)"
    using calm_run [OF calm_ensureOwned [OF cl], where P = "\<lambda>m. True"] by blast
  obtain h3 where 3: "recordWorkNode r (u\<lparr>tr := h2 @ tr u\<rparr>) = (Inr (), u\<lparr>tr := h3 @ h2 @ tr u\<rparr>)"
    using calm_run [OF calm_recordWorkNode [OF cl], where P = "\<lambda>m. True" and s = "u\<lparr>tr := h2 @ tr u\<rparr>"] by auto
  obtain h4 where 4: "preflightGate r (u\<lparr>tr := h3 @ h2 @ tr u\<rparr>) = (Inr None, u\<lparr>tr := h4 @ h3 @ h2 @ tr u\<rparr>)"
    using calm_run [OF calm_preflightGate [OF cl att], of "u\<lparr>tr := h3 @ h2 @ tr u\<rparr>"] by auto
  let ?v = "u\<lparr>tr := h4 @ h3 @ h2 @ tr u\<rparr>"
  have "validated_step r s = gated_step r ?v"
    by (simp add: validated_step_def seq_def bnd_def u(1) 2 3 4)
  moreover obtain h w where "gated_step r ?v = finished_step (startAttempt r) w" "tr w = h @ tr ?v" "ready r m0 (mig w)"
    using gated_step_ready [OF assms(1), of ?v] rdy by auto
  ultimately show ?thesis using u(2) by (intro exI [of _ "h @ h4 @ h3 @ h2 @ h1"] exI [of _ w]) simp
qed

text \<open>The pass runs \<open>startAttempt\<close>, and the history keeps what that left.\<close>

lemma Reconcile_attempts:
  assumes "fetched r s = Inr m" and "open_to_work r m" and "due r m" and "calm_cluster r (preflightJobName m) j"
  shows "\<exists>u. ready r m (mig u) \<and> set (tr (snd (startAttempt r u))) \<subseteq> set (tr (snd (Reconcile r key s)))"
proof -
  have build: "\<exists>w. buildJob (snapshotLost r m) m (RunnerImage r) 1 = Inr w"
    using buildJob_ok assms(3) by (simp add: due_def)
  have "handler r m (after_fetch r m s) = validated_step r (after_fetch r m s)"
    using assms(2) build by (auto simp: handler_def open_to_work_def live_step_def with_m_def)
  moreover have "ready r m (mig (after_fetch r m s))" using assms(3) by (simp add: ready_def)
  ultimately obtain h u where u: "handler r m (after_fetch r m s) = finished_step (startAttempt r) u" "ready r m (mig u)"
    using validated_step_ready [OF assms(4), of "after_fetch r m s"] by metis
  obtain x v where v: "startAttempt r u = (x, v)" by fastforce
  obtain y where y: "finished_step (startAttempt r) u = (y, v)"
    using v by (cases x) (simp_all add: finished_step_def bnd_def)
  have "makes (\<lambda>j. True) (after_step r (now_at r (tr s)) y)" by (intro makes_after_step) simp
  from makes_grows [OF this prod.collapse [symmetric]]
  have "set (tr v) \<subseteq> set (tr (snd (after_step r (now_at r (tr s)) y v)))" .
  moreover have "snd (Reconcile r key s) = snd (after_step r (now_at r (tr s)) y v)"
    unfolding Reconcile_fetched [OF assms(1)] by (simp add: bnd_def attempt_def u y)
  ultimately show ?thesis using u(2) v by (intro exI [of _ u]) simp
qed

text \<open>With budget left, the pass creates the worker of attempt 1.\<close>

lemma first_attempt_starts:
  assumes "fetched r s = Inr m" and "open_to_work r m" and "due r m" and "calm_cluster r (preflightJobName m) j"
    and "\<not> budgetSpent m"
  shows "\<exists>m' w. spec m' = spec m \<and> m_name m' = m_name m \<and>
    buildJob (snapshotLost r m') m' (RunnerImage r) 1 = Inr w \<and>
    CreateJob w (Inr ()) \<in> set (tr (snd (Reconcile r key s)))"
proof -
  obtain u where rdy: "ready r m (mig u)" and sub: "set (tr (snd (startAttempt r u))) \<subseteq> set (tr (snd (Reconcile r key s)))"
    using Reconcile_attempts [OF assms(1-4)] by blast
  have "countedAttempts (mig u) = countedAttempts m"
    using rdy assms(3) by (simp add: ready_def due_def countedAttempts_def)
  then have "\<not> budgetSpent (mig u)" using assms(5) rdy by (simp add: budgetSpent_def ready_def)
  then have "startAttempt r u = create_worker r 1 u" using startAttempt_due [of r u] rdy by (simp add: ready_def)
  moreover have "buildable (mig u)" using rdy by (simp add: ready_def due_def)
  ultimately show ?thesis
    using create_worker_creates [OF assms(4), of u 1] rdy sub
    by (intro exI [of _ "mig u"]) (auto simp: ready_def)
qed

text \<open>The largest backoffLimit: the budget counts as spent before any attempt.\<close>

lemma sent_mono: "set (tr s) \<subseteq> set (tr t) \<Longrightarrow> set (sent (tr s)) \<subseteq> set (sent (tr t))"
proof -
  have "m \<in> set (sent h) \<longleftrightarrow> (\<exists>l b x. PatchStatus l b m x \<in> set h)" for m h
    by (induction h rule: sent.induct) auto
  then show "set (tr s) \<subseteq> set (tr t) \<Longrightarrow> set (sent (tr s)) \<subseteq> set (sent (tr t))" by blast
qed

lemma spent_budget_fails_first:
  assumes "fetched r s = Inr m" and "open_to_work r m" and "due r m" and "calm_cluster r (preflightJobName m) j"
    and "budgetSpent m"
  shows "\<exists>m' \<in> set (sent (tr (snd (Reconcile r key s)))).
    verdict_in r m' ConditionFailed = Some (ConditionTrue, ReasonBackoffLimitExceeded) \<and> phase (status m') = PhaseFailed"
proof -
  obtain u where rdy: "ready r m (mig u)" and sub: "set (tr (snd (startAttempt r u))) \<subseteq> set (tr (snd (Reconcile r key s)))"
    using Reconcile_attempts [OF assms(1-4)] by blast
  have "countedAttempts (mig u) = countedAttempts m"
    using rdy assms(3) by (simp add: ready_def due_def countedAttempts_def)
  then have "budgetSpent (mig u)" using assms(5) rdy by (simp add: budgetSpent_def ready_def)
  then have st: "startAttempt r u = seq (failBudget r) (finish r Done) u"
    using startAttempt_due [of r u] rdy by (simp add: ready_def)
  obtain m' where m': "sent (tr (snd (startAttempt r u))) = m' # sent (tr u)"
      "verdict_in r m' ConditionFailed = Some (ConditionTrue, ReasonBackoffLimitExceeded)" "phase (status m') = PhaseFailed"
    using failBudget_sends_failed [of r u Done] assms(4) rdy st by (auto simp: calm_cluster_def ready_def due_def)
  then show ?thesis using sent_mono [OF sub] by (intro bexI [of _ m']) auto
qed

lemma largest_backoff_spent: "due r m \<Longrightarrow> backoffLimit (spec m) = 2147483647 \<Longrightarrow> budgetSpent m"
  by (simp add: due_def budgetSpent_def countedAttempts_def)

end
