(* ===== verification/Sample_Cluster.thy ===== *)
theory Sample_Cluster
  imports First_Attempt "HOL-Library.Code_Target_Nat"
begin

text \<open>
  A concrete environment: condition lists as apimachinery keeps them, a clock that stands at noon, an
  API server that has no objects, accepts every create and patch and answers a patch with what
  it was sent. The examples change single replies of it. \<open>cluster_meta_ok\<close> shows that these
  condition lists satisfy what the development assumes of the library.
\<close>

definition sample_put :: "time \<Rightarrow> condition \<Rightarrow> condition list \<Rightarrow> condition list" where
  "sample_put now c cs =
     (if find (\<lambda>d. c_type d = c_type c) cs = None then cs @ [c\<lparr>c_transition := now\<rparr>]
      else map (\<lambda>d. if c_type d = c_type c
                    then c\<lparr>c_transition := (if c_status d = c_status c then c_transition d else now)\<rparr> else d) cs)"

definition sample_now :: time where
  "sample_now = 1000000000000"

definition sample_script :: string where
  "sample_script = ''gate script''"

definition cluster :: reconciler where
  "cluster = \<lparr>
     find_cond = (\<lambda>cs t. find (\<lambda>c. c_type c = t) cs),
     cond_true = (\<lambda>cs t. case find (\<lambda>c. c_type c = t) cs of None \<Rightarrow> False | Some c \<Rightarrow> c_status c = ConditionTrue),
     cond_false = (\<lambda>cs t. case find (\<lambda>c. c_type c = t) cs of None \<Rightarrow> False | Some c \<Rightarrow> c_status c = ConditionFalse),
     put_cond = (\<lambda>h. sample_put sample_now),
     remove_cond = (\<lambda>t. filter (\<lambda>c. c_type c \<noteq> t)),
     has_finalizer = (\<lambda>fs f. List.member fs f),
     add_finalizer = (\<lambda>f fs. fs @ [f]),
     remove_finalizer = (\<lambda>f. filter (\<lambda>g. g \<noteq> f)),
     now_at = (\<lambda>h. sample_now),
     get_migration_reply = (\<lambda>h. Inl (ApiErr NotFound ''not found'')),
     get_job_reply = (\<lambda>h u n. Inl (ApiErr NotFound ''not found'')),
     list_jobs_reply = (\<lambda>h u. Inr []),
     list_pods_reply = (\<lambda>h sel. Inr []),
     set_owner_reply = (\<lambda>h n. Inr ()),
     create_job_reply = (\<lambda>h j. Inr ()),
     create_owned_reply = (\<lambda>h ob. Inr ()),
     get_owned_reply = (\<lambda>h n. Inr True),
     delete_job_reply = (\<lambda>h n. Inr ()),
     delete_pod_reply = (\<lambda>h n. Inr ()),
     patch_status_reply = (\<lambda>h l b m. Inr m),
     patch_meta_reply = (\<lambda>h l b m. Inr m),
     read_logs_reply = (\<lambda>h q. Inr []),
     progress_reply = (\<lambda>h n. Inr None),
     observe_reply = (\<lambda>h n hint. None),
     sample_now_reply = (\<lambda>h n. no_sampled),
     sentinel_read_reply = (\<lambda>h n slot. Inr None),
     set_endpos_reply = (\<lambda>h n. Inr ''0/2000000''),
     nudge_reply = (\<lambda>h n. Inr ()),
     gate_script = sample_script,
     RunnerImage = ''runner:1'',
     with_api_reader = True,
     with_logs = True,
     with_progress = False,
     with_sampler = False,
     with_sentinel = True\<rparr>"

lemma find_sample_put_same:
  "find (\<lambda>d. c_type d = c_type c) (sample_put now c cs) \<noteq> None"
  by (auto simp: sample_put_def find_None_iff)

lemma find_sample_put:
  "find (\<lambda>d. c_type d = t) (sample_put now c cs) =
     (if t = c_type c then Some (c\<lparr>c_transition := (case find (\<lambda>d. c_type d = t) cs of
          None \<Rightarrow> now | Some d \<Rightarrow> if c_status d = c_status c then c_transition d else now)\<rparr>)
      else find (\<lambda>d. c_type d = t) cs)"
proof -
  have app: "find P (cs @ [x]) = (case find P cs of None \<Rightarrow> if P x then Some x else None | Some y \<Rightarrow> Some y)"
    for P and x :: condition by (induction cs) auto
  show ?thesis
  proof (cases "find (\<lambda>d. c_type d = c_type c) cs = None")
    case True
    then show ?thesis by (auto simp: sample_put_def app split: option.split)
  next
    case False
    have "find (\<lambda>d. c_type d = t) (map (\<lambda>d. if c_type d = c_type c
          then c\<lparr>c_transition := (if c_status d = c_status c then c_transition d else now)\<rparr> else d) ds) =
      (if t = c_type c then map_option (\<lambda>d. c\<lparr>c_transition := (if c_status d = c_status c then c_transition d else now)\<rparr>)
          (find (\<lambda>d. c_type d = t) ds)
       else find (\<lambda>d. c_type d = t) ds)" for ds
      by (induction ds) auto
    with False show ?thesis by (auto simp: sample_put_def split: option.split)
  qed
qed

lemma find_filter_type:
  "find (\<lambda>c. c_type c = u) (filter (\<lambda>c. c_type c \<noteq> t) cs) = (if u = t then None else find (\<lambda>c. c_type c = u) cs)"
  by (induction cs) (auto simp: find_None_iff)

lemma cluster_meta_ok: "meta_ok cluster"
  unfolding meta_ok_def cluster_def
  by (auto simp: find_sample_put find_filter_type split: option.splits)

text \<open>Single replies of the environment changed.\<close>

definition fetching :: "migration \<Rightarrow> reconciler \<Rightarrow> reconciler" where
  "fetching m r = r\<lparr>get_migration_reply := (\<lambda>h. Inr m)\<rparr>"

definition having_jobs :: "(string \<times> job) list \<Rightarrow> reconciler \<Rightarrow> reconciler" where
  "having_jobs js r = r\<lparr>get_job_reply := (\<lambda>h u n. case map_of js n of
     None \<Rightarrow> Inl (ApiErr NotFound ''not found'') | Some j \<Rightarrow> Inr j)\<rparr>"

lemma meta_ok_cong:
  "find_cond r = find_cond q \<Longrightarrow> cond_true r = cond_true q \<Longrightarrow> cond_false r = cond_false q \<Longrightarrow>
   put_cond r = put_cond q \<Longrightarrow> remove_cond r = remove_cond q \<Longrightarrow> meta_ok r \<longleftrightarrow> meta_ok q"
  by (simp add: meta_ok_def)

lemma meta_ok_changed [simp]:
  "meta_ok (fetching m r) \<longleftrightarrow> meta_ok r" "meta_ok (having_jobs js r) \<longleftrightarrow> meta_ok r"
  by (rule meta_ok_cong; simp add: fetching_def having_jobs_def)+

section \<open>A Migration and its Jobs\<close>

definition sample_connection :: "string \<Rightarrow> postgres_connection" where
  "sample_connection secret = \<lparr>pc_host = [], pc_port = 0, pc_database = [], pc_username = [],
     pc_password_secret_ref = None, pc_ssl_mode = [], pc_tls = None,
     pc_uri_secret_ref = Some \<lparr>sk_name = secret, sk_key = ''uri'', sk_optional = None\<rparr>,
     pc_secret_ref = None, pc_superuser_secret_ref = None, pc_synchronous_commit = []\<rparr>"

definition sample_clone :: clone_options where
  "sample_clone = \<lparr>all_databases = False, table_jobs = 4, index_jobs = 4, restore_jobs = 4, large_objects_jobs = 4,
     split_tables_larger_than = Some (new_quantity 5), split_max_parts = 0, estimate_table_sizes = False, drop_if_exists = False,
     roles = False, no_role_passwords = False, no_owner = False, owner_after_restore = [], no_acl = False,
     no_comments = False, no_tablespaces = False, use_copy_binary = None, fail_fast = False, defer_indexes = False,
     skip = [], clone_filters = None\<rparr>"

definition sample_follow :: follow_options where
  "sample_follow = \<lparr>fo_enabled = True, fo_plugin = ''pgoutput'', fo_slot_name = ''slot1'', fo_publication = [],
     fo_wal2json_numeric_as_string = False, fo_replay_no_op_updates = False, fo_apply_group_transactions = 0,
     fo_allow_missing_replica_identity = [], fo_max_catchup_lag = None\<rparr>"

definition sample_spec :: migration_spec where
  "sample_spec = \<lparr>source = sample_connection ''old'', target = sample_connection ''new'', clone = sample_clone,
     follow = None, cutover = \<lparr>cut_mode = CutoverModeUnset, cut_approved = False\<rparr>, verification = None,
     workVolume = \<lparr>wv_storage_class_name = None, wv_size = new_quantity 1024\<rparr>,
     runner = \<lparr>rn_image = [], rn_resources = \<lparr>rr_requests = None, rr_limits = None\<rparr>, rn_node_selector = [],
       rn_tolerations = [], rn_affinity = None\<rparr>,
     suspend = False, dryRun = False, preflight = None, backoffLimit = 3, ttlSecondsAfterFinished = None\<rparr>"

definition sample_migration :: migration where
  "sample_migration = \<lparr>m_name = ''shop'', m_namespace = ''db'', m_uid = ''u1'', m_generation = 1, m_resourceVersion = 7,
     m_deleting = False, m_finalizers = [], m_labels = [], m_annotations = [], spec = sample_spec,
     status = empty_status\<lparr>phase := PhasePending\<rparr>\<rparr>"

definition live_migration :: migration where
  "live_migration = sample_migration\<lparr>m_finalizers := [finalizerName], spec := sample_spec\<lparr>follow := Some sample_follow\<rparr>,
     status := empty_status\<lparr>phase := PhaseStreaming, attempts := 1, jobName := ''shop-run-1''\<rparr>\<rparr>"

definition pass_of :: "migration \<Rightarrow> pass" where
  "pass_of m = \<lparr>tr = [], mig = m, pbase = m\<rparr>"

definition sample_job :: "string \<Rightarrow> job_condition_type list \<Rightarrow> job" where
  "sample_job name conds = \<lparr>j_name = name, j_uid = ''j1'', j_labels = [], j_annotations = [], j_deleting = False,
     j_conditions = map (\<lambda>c. \<lparr>jc_type = c, jc_status = ConditionTrue, jc_reason = [], jc_message = [],
       jc_transition = sample_now\<rparr>) conds,
     j_startTime = None, j_completionTime = Some sample_now,
     j_spec = \<lparr>js_backoff = 0, js_deadline = None, js_ttl = None, js_image = ''runner:1'', js_program = Pgcopydb [],
       js_preludes = [], js_passfiles = [], js_setup = [], js_env = [], js_volumes = [], js_mounts = [],
       js_resources = \<lparr>rr_requests = None, rr_limits = None\<rparr>, js_node_selector = [], js_tolerations = [],
       js_affinity = None\<rparr>\<rparr>"

lemma fetched_fetching [simp]: "fetched (fetching m r) s = Inr m"
  by (simp add: fetched_def fetching_def)

section \<open>Variants\<close>

definition dry_migration :: migration where
  "dry_migration = sample_migration\<lparr>spec := sample_spec\<lparr>dryRun := True\<rparr>\<rparr>"

definition suspended_migration :: migration where
  "suspended_migration = live_migration\<lparr>spec := sample_spec\<lparr>suspend := True\<rparr>\<rparr>"

definition deleted_migration :: migration where
  "deleted_migration = live_migration\<lparr>m_deleting := True\<rparr>"

definition terminating_worker :: job where
  "terminating_worker = (sample_job ''shop-run-1'' [])\<lparr>j_deleting := True\<rparr>"

lemma sample_buildable: "pc_uri_secret_ref c \<noteq> None \<Longrightarrow> pc_secret_ref c = None \<Longrightarrow> pc_synchronous_commit c = [] \<Longrightarrow>
  connection_ok sd c"
  by (auto simp: connection_ok_def)

lemma deleted_cleanup_builds: "\<exists>j. buildCleanupJob deleted_migration ''runner:1'' = Inr j"
  by (rule control_jobs_ok(1))
    (simp add: buildable_def deleted_migration_def live_migration_def sample_migration_def sample_spec_def sample_connection_def
      sample_clone_def all_databases_conflict_def sample_buildable)

text \<open>A stream whose lag was measured once, and a target that does not answer.\<close>

definition measured_once :: replication_status where
  "measured_once = \<lparr>rs_slotName = ''slot1'', rs_writeLSN = ''0/2000000'', rs_replayLSN = ''0/1FFFC00'', rs_endpos = [],
     rs_lagBytes = Some 1024\<rparr>"

definition confirming_condition :: condition where
  "confirming_condition = \<lparr>c_type = ConditionCaughtUp, c_status = ConditionFalse, c_reason = ReasonConfirmingCatchUp,
     c_message = [], c_generation = 1, c_transition = sample_now\<rparr>"

definition confirming_migration :: migration where
  "confirming_migration = live_migration\<lparr>spec := sample_spec\<lparr>follow := Some sample_follow,
       cutover := \<lparr>cut_mode = CutoverAutomatic, cut_approved = False\<rparr>\<rparr>,
     status := (status live_migration)\<lparr>replication := Some measured_once, conditions := [confirming_condition]\<rparr>\<rparr>"

definition no_replay :: Sentinel.state where
  "no_replay = \<lparr>WriteLSN = ''0/9000000'', ReplayLSN = [], Endpos = [], SourceHead = ''0/9000000''\<rparr>"

lemma no_replay_lag: "sint (Lag no_replay) < 0"
proof -
  have "ParseLSN [] = None" by code_simp
  then show ?thesis by (simp add: Lag_def no_replay_def split: option.split)
qed

definition unanswered_target :: reconciler where
  "unanswered_target = cluster\<lparr>sentinel_read_reply := (\<lambda>h n slot. Inr (Some no_replay))\<rparr>"

lemma unanswered_meta_ok: "meta_ok unanswered_target"
  using cluster_meta_ok by (simp add: unanswered_target_def meta_ok_def)

section \<open>A first attempt that is due\<close>

definition ready_cluster :: reconciler where
  "ready_cluster = having_jobs [(''shop-preflight'', sample_job ''shop-preflight'' [JobComplete])] cluster"

definition patient_migration :: migration where
  "patient_migration = sample_migration\<lparr>spec := sample_spec\<lparr>backoffLimit := 2147483647\<rparr>\<rparr>"

lemma calm_ready_cluster:
  "calm_cluster (fetching m ready_cluster) ''shop-preflight'' (sample_job ''shop-preflight'' [JobComplete])"
  by (simp add: calm_cluster_def ready_cluster_def cluster_meta_ok)
    (simp add: fetching_def having_jobs_def cluster_def sample_job_def jobFinished_def)

lemma sample_spec_buildable:
  "spec m = sample_spec\<lparr>backoffLimit := b\<rparr> \<Longrightarrow> buildable m"
  by (simp add: buildable_def sample_spec_def sample_connection_def sample_clone_def all_databases_conflict_def sample_buildable)

lemma due_sample:
  assumes "spec m = sample_spec\<lparr>backoffLimit := b\<rparr>" and "status m = status sample_migration"
  shows "due (fetching n ready_cluster) m"
  using sample_spec_buildable [OF assms(1)] assms
  by (simp add: due_def is_true_def sample_spec_def sample_migration_def empty_status_def fetching_def ready_cluster_def
      having_jobs_def cluster_def)

lemma open_sample:
  assumes "\<not> suspend (spec m)" and "\<not> m_deleting m" and "status m = status sample_migration"
  shows "open_to_work (fetching n ready_cluster) m"
  using assms
  by (simp add: open_to_work_def ended_migration_def statusIsEmpty_def is_true_def sample_migration_def empty_status_def
      fetching_def ready_cluster_def having_jobs_def cluster_def)

lemma sample_due: "due (fetching n ready_cluster) sample_migration"
  by (rule due_sample [where b = 3]) (simp_all add: sample_migration_def sample_spec_def)

lemma patient_due: "due (fetching n ready_cluster) patient_migration"
  by (rule due_sample [where b = 2147483647]) (simp_all add: patient_migration_def)

lemma sample_open: "open_to_work (fetching n ready_cluster) sample_migration"
  by (rule open_sample) (simp_all add: sample_migration_def sample_spec_def)

lemma patient_open: "open_to_work (fetching n ready_cluster) patient_migration"
  by (rule open_sample) (simp_all add: patient_migration_def sample_migration_def sample_spec_def)

lemma ready_cluster_calm: "calm_cluster (fetching n ready_cluster) (preflightJobName sample_migration)
    (sample_job ''shop-preflight'' [JobComplete])"
  using calm_ready_cluster by (simp add: preflightJobName_def sample_migration_def)

lemma patient_cluster_calm: "calm_cluster (fetching n ready_cluster) (preflightJobName patient_migration)
    (sample_job ''shop-preflight'' [JobComplete])"
  using calm_ready_cluster by (simp add: preflightJobName_def patient_migration_def sample_migration_def)

lemma sample_budget: "\<not> budgetSpent sample_migration"
  by (simp add: sample_migration_def sample_spec_def empty_status_def budgetSpent_def countedAttempts_def)

definition failed_migration :: migration where
  "failed_migration = sample_migration\<lparr>status := empty_status\<lparr>phase := PhaseCloning, attempts := 1,
     retryGate := Some \<lparr>rg_failedAttempt = 1, rg_failedAt = sample_now, rg_failure = ''worker Job failed'',
       rg_exemption = RetryGateUndecided, rg_cloneDoneSeen = False\<rparr>\<rparr>\<rparr>"

section \<open>Outcomes\<close>

definition verified_migration :: migration where
  "verified_migration = sample_migration\<lparr>spec := sample_spec\<lparr>verification :=
     Some \<lparr>vo_schema = True, vo_data = False, vo_rehearsal = False\<rparr>\<rparr>\<rparr>"

definition compared_cluster :: reconciler where
  "compared_cluster = having_jobs [(''shop-compare-schema'', sample_job ''shop-compare-schema'' [JobFailed])] cluster"

lemma compared_meta_ok: "meta_ok compared_cluster"
  by (simp add: compared_cluster_def cluster_meta_ok)

lemma verified_requested: "verificationRequested verified_migration"
  by (simp add: verificationRequested_def verified_migration_def)

lemma compared_done: "fst (ensureVerification compared_cluster (pass_of verified_migration)) = Inr True"
proof -
  have get: "get_job_reply compared_cluster h u ''shop-compare-schema'' = Inr (sample_job ''shop-compare-schema'' [JobFailed])" for h u
    by (simp add: compared_cluster_def having_jobs_def)
  have fin: "jobFinished (sample_job ''shop-compare-schema'' [JobFailed]) = (True, False)"
    by (simp add: jobFinished_def sample_job_def)
  have name: "compareJobName m compareSchema = ''shop-compare-schema''" if "m_name m = ''shop''" for m
    using that by (simp add: compareJobName_def compareSchema_def)
  have other: "compareSchema \<noteq> compareData" by (simp add: compareSchema_def compareData_def)
  let ?m = "upd_status (\<lambda>st. st\<lparr>phase := PhaseVerifying, verification_results := []\<rparr>) verified_migration"
  let ?s = "(pass_of verified_migration)\<lparr>mig := ?m\<rparr>"
  have "m_name ?m = ''shop''" by (simp add: verified_migration_def sample_migration_def)
  from name [OF this] get fin have "\<exists>t. check_all compared_cluster [compareSchema] ?s = (Inr True, t)"
    by (simp add: check_once_def with_m_def ensureJob_def get_job_def call_def bnd_def attempt_def seq_def
        set_status_def set_m_def other)
  then obtain t where t: "check_all compared_cluster [compareSchema] ?s = (Inr True, t)" by blast
  have "\<exists>u. report_checks compared_cluster t = (Inr (), u)"
    by (auto simp: report_checks_def with_m_def seq_def bnd_def setCondition_ok event_def log_entry_def split: list.splits)
  then obtain u where u: "report_checks compared_cluster t = (Inr (), u)" by blast
  have checks: "enabledChecks verified_migration = [compareSchema]" by (simp add: enabledChecks_def verified_migration_def)
  have mig: "mig (pass_of verified_migration) = verified_migration" by (simp add: pass_of_def)
  show ?thesis
    unfolding ensureVerification_def with_m_def mig
    using t u by (simp add: verified_requested seq_def set_status_ok bnd_def checks mig)
qed

definition owed_counts :: relation_counts where
  "owed_counts = \<lparr>TablesTotal = 7, TablesDone = 6, IndexesTotal = 0, IndexesDone = 0, BytesTotal = 0, BytesDone = 0,
     EmptyOnTarget = ''public.orders''\<rparr>"

definition unobserved_sample :: sampled where
  "unobserved_sample = no_sampled\<lparr>sm_at := sample_now\<rparr>"

section \<open>A probe log\<close>

definition passing_log :: string where
  "passing_log = ''gate: census total=0 syncrep=0 named=no syncrep_since=0 gate_waiting=0'' @ newline # ''gate: pass'' @ [newline]"

lemma passing_log_passes: "passed (parseGateLog passing_log) \<lparr>CommitTest = False, ExpectLocal = False\<rparr>"
  by code_simp

section \<open>Two samples of one run\<close>

definition sampled_once :: sampler where
  "sampled_once = sampler_exec NewSampler
     [OpStart, OpObserve (''db'', ''shop'') ''shop-run-1'' False \<lparr>sh_copyStarted = False, sh_dataAcross = False\<rparr>,
      OpLoop (''db'', ''shop'') 0 None None 100]"

definition sampled_run :: sampler_run where
  "sampled_run = the (sp_runs sampled_once (''db'', ''shop''))"

definition sampled_ops :: "sampler_op list" where
  "sampled_ops = [OpSampleNow (''db'', ''shop'') ''shop-run-1'' None None 300, OpLoop (''db'', ''shop'') 0 None None 200]"

definition sampled_twice :: "mkey \<Rightarrow> sampler_run option" where
  "sampled_twice = sp_runs (sampler_exec sampled_once sampled_ops)"

lemma sampled_once_ok: "sampler_ok sampled_once"
  unfolding sampled_once_def by (rule sampler_exec_ok [OF NewSampler_ok])

lemma sampled_once_run: "sp_runs sampled_once (''db'', ''shop'') = Some sampled_run"
proof -
  have "sp_runs sampled_once (''db'', ''shop'') \<noteq> None" by code_simp
  then show ?thesis by (simp add: sampled_run_def option.expand)
qed

lemma sampled_twice_run:
  "sp_runs (sampler_exec sampled_once sampled_ops) (''db'', ''shop'') = Some (the (sampled_twice (''db'', ''shop'')))"
proof -
  have "sp_runs (sampler_exec sampled_once sampled_ops) (''db'', ''shop'') \<noteq> None" by code_simp
  then show ?thesis by (simp add: sampled_twice_def option.expand)
qed

lemma sampled_same_run: "run_id (the (sampled_twice (''db'', ''shop''))) = run_id sampled_run"
  by code_simp

section \<open>A connection by host, and a worker log\<close>

definition host_connection :: postgres_connection where
  "host_connection = (sample_connection [])\<lparr>pc_uri_secret_ref := None, pc_host := ''db.example'', pc_port := 5432,
     pc_username := ''app@corp'', pc_database := ''shop''\<rparr>"

lemma host_composes: "\<exists>uri. ComposeURI Source host_connection = Inr uri"
proof -
  have "case ComposeURI Source host_connection of Inl _ \<Rightarrow> False | Inr _ \<Rightarrow> True" by code_simp
  then show ?thesis by (simp split: sum.splits)
qed

definition host_materialized_as :: materialized where
  "host_materialized_as = (case Materialize Source host_connection of Inr mz \<Rightarrow> mz)"

lemma host_materialized: "Materialize Source host_connection = Inr host_materialized_as"
proof -
  have "connection_ok Source host_connection" by (simp add: connection_ok_def host_connection_def sample_connection_def)
  then obtain mz where "Materialize Source host_connection = Inr mz" using Materialize_ok by blast
  then show ?thesis by (simp add: host_materialized_as_def)
qed

definition host_variable :: env_var where
  "host_variable = hd (mz_env host_materialized_as)"

lemma host_variable_in: "host_variable \<in> set (mz_env host_materialized_as)"
proof -
  have "mz_env host_materialized_as \<noteq> []" by code_simp
  then show ?thesis by (simp add: host_variable_def)
qed

lemma host_variable_literal:
  "ev_value host_variable = EnvLiteral (case ev_value host_variable of EnvLiteral v \<Rightarrow> v | _ \<Rightarrow> [])"
proof -
  have "case ev_value host_variable of EnvLiteral v \<Rightarrow> True | _ \<Rightarrow> False" by code_simp
  then show ?thesis by (simp split: env_value.splits)
qed

lemma sample_worker_builds: "\<exists>j. buildJob False sample_migration ''runner:1'' 1 = Inr j"
  using buildJob_ok sample_spec_buildable [of sample_migration 3] by (simp add: sample_migration_def sample_spec_def)

definition severe_line :: "string \<Rightarrow> string" where
  "severe_line msg = CHR ''{'' # CHR 0x22 # ''error_severity'' @ CHR 0x22 # CHR '':'' # CHR 0x22 # ''ERROR'' @
     CHR 0x22 # CHR '','' # CHR 0x22 # ''message'' @ CHR 0x22 # CHR '':'' # CHR 0x22 # msg @ CHR 0x22 # ''}'' @ [newline]"

definition drift_log :: string where
  "drift_log = severe_line ''[TARGET 12] [42703] column v2 does not exist'' @
     severe_line ''[TARGET 12] Context: Failed to receive pipeline sync''"

lemma drift_log_found: "SchemaDriftLine drift_log \<noteq> []"
  by code_simp

end
