(* ===== verification/Quiet_Handlers.thy ===== *)
theory Quiet_Handlers
  imports Outcomes
begin

text \<open>
  The handlers that leave the retry budget alone, in memory and in what they send: everything but the
  attempts themselves, the verdicts on failures and the suspension.
\<close>

lemma quiet_get_job [quiet_intros]: "keeps (quiet b) (get_job r n)"
  unfolding get_job_def by (intro quiet_intros) simp

lemma quiet_get_job_uncached [quiet_intros]: "keeps (quiet b) (get_job_uncached r n)"
  unfolding get_job_uncached_def by (intro quiet_intros) simp

lemma quiet_list_jobs_uncached [quiet_intros]: "keeps (quiet b) (list_jobs_uncached r)"
  unfolding list_jobs_uncached_def by (intro quiet_intros) simp

lemma quiet_list_pods [quiet_intros]: "keeps (quiet b) (list_pods r sel)"
  unfolding list_pods_def by (intro quiet_intros) simp

lemma quiet_set_owner [quiet_intros]: "keeps (quiet b) (set_owner r n)"
  unfolding set_owner_def by (intro quiet_intros) simp

lemma quiet_create_job [quiet_intros]: "keeps (quiet b) (create_job r j)"
  unfolding create_job_def by (intro quiet_intros) simp

lemma quiet_delete_job [quiet_intros]: "keeps (quiet b) (delete_job r pol n)"
  unfolding delete_job_def by (intro quiet_intros) simp

lemma quiet_ignore_not_found [quiet_intros]: "keeps (quiet b) f \<Longrightarrow> keeps (quiet b) (ignore_not_found f)"
  unfolding ignore_not_found_def by (intro quiet_intros)

lemma quiet_ensureJob [quiet_intros]: "keeps (quiet b) (ensureJob r name build)"
  unfolding ensureJob_def by (intro quiet_intros)

lemma quiet_podWaitDetail [quiet_intros]: "keeps (quiet b) (podWaitDetail r sel)"
  unfolding podWaitDetail_def by (intro quiet_intros)

lemma quiet_deleteJobPods [quiet_intros]: "keeps (quiet b) (deleteJobPods r n)"
  unfolding deleteJobPods_def delete_live_pod_def by (intro quiet_intros) simp

lemma quiet_readJobLog [quiet_intros]: "keeps (quiet b) (readJobLog r n k)"
  unfolding readJobLog_def by (intro quiet_intros) simp

lemma quiet_jobLogTail [quiet_intros]: "keeps (quiet b) (jobLogTail r n k)"
  unfolding jobLogTail_def by (intro quiet_intros)

lemma quiet_updateStatus [quiet_intros]: "echoes r \<Longrightarrow> keeps (quiet True) (updateStatus r)"
  unfolding updateStatus_def
  by (intro quiet_intros quiet_set_m quiet_patch_status; simp add: account_of_def)

lemma quiet_finish [quiet_intros]: "echoes r \<Longrightarrow> keeps (quiet True) (finish r res)"
  unfolding finish_def by (intro quiet_intros)

lemma quiet_patchStatusLocked [quiet_intros]: "echoes r \<Longrightarrow> keeps (quiet True) (patchStatusLocked r)"
proof -
  have rebase: "keeps (quiet True) (\<lambda>s. (Inr (), s\<lparr>pbase := mig s\<rparr>))"
    by (rule keepsI) (auto simp: quiet_def)
  show "echoes r \<Longrightarrow> keeps (quiet True) (patchStatusLocked r)"
    unfolding patchStatusLocked_def
    by (intro quiet_intros quiet_set_m quiet_patch_status rebase; simp add: account_of_def)
qed

lemma quiet_recordCompareProgress [quiet_intros]: "keeps (quiet b) (recordCompareProgress r k j tail)"
  unfolding recordCompareProgress_def by (intro quiet_intros; simp add: account_of_def)

lemma quiet_dropCompareProgress [quiet_intros]: "keeps (quiet b) (dropCompareProgress k)"
  unfolding dropCompareProgress_def by (intro quiet_intros; simp add: account_of_def)

lemma quiet_readCompareProgress [quiet_intros]: "keeps (quiet b) (readCompareProgress r k j)"
  unfolding readCompareProgress_def read_again_def by (intro quiet_intros)

section \<open>The gate\<close>

lemma quiet_setHold [quiet_intros]: "keeps (quiet b) (setHold r reason msg)"
  using acts_setHold by (rule acts_quiet) simp

lemma quiet_probing [quiet_intros]: "keeps (quiet b) (probing r msg)"
  unfolding probing_def by (intro quiet_intros)

lemma quiet_endHold [quiet_intros]: "keeps (quiet b) (endHold r reason msg)"
  unfolding endHold_def by (intro quiet_intros)

lemma quiet_fail_with [quiet_intros]: "keeps (quiet b) (fail_with r reason a msg)"
  using acts_fail_with by (rule acts_quiet) simp

lemma quiet_failBudget [quiet_intros]: "keeps (quiet b) (failBudget r)"
  using acts_failBudget by (rule acts_quiet) simp

lemma quiet_blocking_pod [quiet_intros]: "keeps (quiet b) (blocking_pod r n)"
  unfolding blocking_pod_def previousWorkerPod_def rehearsalPod_def by (intro quiet_intros)

lemma quiet_rehearsalPod [quiet_intros]: "keeps (quiet b) (rehearsalPod r)"
  unfolding rehearsalPod_def by (intro quiet_intros)

lemma quiet_createGateJob [quiet_intros]: "keeps (quiet b) (createGateJob r n)"
  unfolding createGateJob_def by (intro quiet_intros)

lemma quiet_deleteGateProbe [quiet_intros]: "keeps (quiet b) (deleteGateProbe r n)"
  unfolding deleteGateProbe_def by (intro quiet_intros)

lemma quiet_deleteStrayProbes [quiet_intros]: "keeps (quiet b) (deleteStrayProbes r)"
  unfolding deleteStrayProbes_def by (intro quiet_intros)

lemma quiet_held_for [quiet_intros]: "echoes r \<Longrightarrow> keeps (quiet True) (held_for r d)"
  unfolding held_for_def by (intro quiet_intros)

lemma quiet_gateLog [quiet_intros]: "keeps (quiet b) (gateLog r j)"
  unfolding gateLog_def by (intro quiet_intros) simp

section \<open>Rehearsal, handover, verification\<close>

lemma quiet_set_rehearsal [quiet_intros]: "keeps (quiet b) (set_rehearsal f)"
  unfolding set_rehearsal_def by (intro quiet_intros; simp add: account_of_def)

lemma quiet_rehearsalJob [quiet_intros]: "keeps (quiet b) (rehearsalJob r n)"
  unfolding rehearsalJob_def by (intro quiet_intros)

lemma quiet_deleteRehearsalJob [quiet_intros]: "keeps (quiet b) (deleteRehearsalJob r n)"
  unfolding deleteRehearsalJob_def by (intro quiet_intros)

lemma quiet_recordRehearsal [quiet_intros]: "keeps (quiet b) (recordRehearsal j tail)"
  unfolding recordRehearsal_def by (intro quiet_intros; simp add: account_of_def)

lemma quiet_cancelRehearsal [quiet_intros]: "keeps (quiet b) (cancelRehearsal r why)"
  unfolding cancelRehearsal_def cancelRecordedRehearsal_def end_canceled_def by (intro quiet_intros; simp add: account_of_def)

lemma quiet_reconcileRehearsal [quiet_intros]: "keeps (quiet b) (reconcileRehearsal r)"
  unfolding reconcileRehearsal_def startRehearsal_def observeRehearsal_def disarm_def rehearsalNotStarted_def Let_def
  by (intro quiet_intros; simp add: account_of_def)

lemma quiet_drainWaits [quiet_intros]: "keeps (quiet b) (drainWaitsForRehearsal r)"
  unfolding drainWaitsForRehearsal_def Let_def by (intro quiet_intros; simp add: account_of_def)

lemma quiet_reownGate [quiet_intros]: "echoes r \<Longrightarrow> keeps (quiet True) (reownGate r running note)"
  unfolding reownGate_def ensureReown_def Let_def by (intro quiet_intros; simp add: account_of_def)

lemma quiet_reownJobExists [quiet_intros]: "keeps (quiet b) (reownJobExists r)"
  unfolding reownJobExists_def by (intro quiet_intros)

lemma quiet_cloneProgressFromLog [quiet_intros]: "keeps (quiet b) (cloneProgressFromLog tail)"
  unfolding cloneProgressFromLog_def
  by (auto split: option.splits sum.splits intro!: quiet_intros simp: account_of_def)

lemma quiet_recordCloneProgress [quiet_intros]: "keeps (quiet b) (recordCloneProgress r n)"
  unfolding recordCloneProgress_def by (intro quiet_intros; simp add: account_of_def)

lemma quiet_check_all [quiet_intros]: "keeps (quiet b) (check_all r cs)"
proof (induction cs)
  case (Cons c cs)
  have "keeps (quiet b) (check_once r c)"
    unfolding check_once_def by (intro quiet_intros; simp add: account_of_def)
  then show ?case unfolding check_all.simps by (intro quiet_intros Cons)
next
  case Nil
  show ?case unfolding check_all.simps by (intro quiet_intros)
qed

lemma quiet_ensureVerification [quiet_intros]: "keeps (quiet b) (ensureVerification r)"
  unfolding ensureVerification_def report_checks_def by (intro quiet_intros; simp add: account_of_def)

lemma quiet_complete [quiet_intros]: "echoes r \<Longrightarrow> keeps (quiet True) (complete r a c)"
  unfolding complete_def by (intro quiet_intros; simp add: account_of_def)

section \<open>Live migrations\<close>

lemma quiet_set_phase [quiet_intros]: "keeps (quiet b) (set_phase p)"
  unfolding set_phase_def by (intro quiet_intros; simp add: account_of_def)

lemma quiet_reconcileFollowRunning [quiet_intros]: "keeps (quiet b) (reconcileFollowRunning r n d)"
  unfolding reconcileFollowRunning_def drive_stream_def sentinel_read_def report_lag_def nudge_endpos_def start_cutover_def
    set_endpos_current_def Let_def
  by (intro quiet_intros; simp add: account_of_def)

lemma quiet_ensureCleanup [quiet_intros]: "keeps (quiet b) (ensureCleanup r)"
  unfolding ensureCleanup_def by (intro quiet_intros)

lemma quiet_finishFollow [quiet_intros]: "echoes r \<Longrightarrow> keeps (quiet True) (finishFollow r)"
proof -
  assume e: "echoes r"
  have drain: "keeps (quiet True) (case d of DrainRefuted \<Rightarrow> f | DrainRunning \<Rightarrow> g | DrainVerified \<Rightarrow> h)"
    if "keeps (quiet True) f" "keeps (quiet True) g" "keeps (quiet True) h" for d and f g h :: "result act"
    using that by (cases d) simp_all
  show ?thesis
    unfolding finishFollow_def refute_drain_def after_handover_def ensureVerify_def drain_counters_def
    by (intro drain quiet_intros; simp add: account_of_def e)
qed

lemma quiet_reconcileDeletion [quiet_intros]: "echoes r \<Longrightarrow> keeps (quiet True) (reconcileDeletion r)"
  unfolding reconcileDeletion_def stop_worker_def release_finalizer_def
  by (intro quiet_intros quiet_patch_meta; simp add: account_of_def)

lemma quiet_finishClone [quiet_intros]: "echoes r \<Longrightarrow> keeps (quiet True) (finishClone r)"
  unfolding finishClone_def owed_by_catalog_def ensureCatalogCheck_def finish_copied_def Let_def
  by (intro quiet_intros; simp add: account_of_def)

section \<open>Observing a worker\<close>

lemma quiet_progressSample [quiet_intros]: "keeps (quiet b) (progressSample r n now)"
  unfolding progressSample_def own_sample_def sampler_observe_def sampler_sample_now_def Let_def
  by (intro quiet_intros; simp)

lemma quiet_apply_sample [quiet_intros]: "keeps (quiet b) (apply_sample r got)"
  unfolding apply_sample_def applyCommitsBlocked_def applyStage_def applyCounts_def
  by (intro quiet_intros; simp add: account_of_def)

lemma quiet_confirmBaseCopy [quiet_intros]: "keeps (quiet b) (confirmBaseCopy r c)"
  unfolding confirmBaseCopy_def by (intro quiet_intros)

lemma quiet_observeRunningJob [quiet_intros]: "echoes r \<Longrightarrow> keeps (quiet True) (observeRunningJob r n start)"
  unfolding observeRunningJob_def follow_log_def follow_step_def after_sample_def reapZombieWorker_def activePollDelay_def Let_def
  by (intro quiet_intros; simp add: account_of_def)

section \<open>Around the attempts\<close>

lemma quiet_ensureFinalizer [quiet_intros]: "echoes r \<Longrightarrow> keeps (quiet True) (ensureFinalizer r)"
  unfolding ensureFinalizer_def by (intro quiet_intros quiet_patch_meta; simp add: account_of_def)

lemma quiet_ensureOwned [quiet_intros]: "keeps (quiet b) (ensureOwned r)"
  unfolding ensureOwned_def createStrictlyOwned_def by (intro quiet_intros; simp)

lemma quiet_recordWorkNode [quiet_intros]: "echoes r \<Longrightarrow> keeps (quiet True) (recordWorkNode r)"
  unfolding recordWorkNode_def by (intro quiet_intros quiet_patch_meta; simp add: account_of_def set_annotation_def)

lemma quiet_preflightGate [quiet_intros]: "echoes r \<Longrightarrow> keeps (quiet True) (preflightGate r)"
  unfolding preflightGate_def ensurePreflight_def preflight_failure_def emitPreflightOutcome_def emit_bundle_def Let_def
  by (intro quiet_intros; simp add: account_of_def)

lemma quiet_stopSampling [quiet_intros]: "keeps (quiet b) (stopSampling r)"
  unfolding stopSampling_def by (intro quiet_intros) simp

lemma quiet_end_pass [quiet_intros]: "echoes r \<Longrightarrow> keeps (quiet True) (end_pass r)"
  unfolding end_pass_def by (intro quiet_intros)

lemma quiet_first_pass [quiet_intros]: "echoes r \<Longrightarrow> keeps (quiet True) (first_pass r)"
  unfolding first_pass_def by (intro quiet_intros quiet_set_m quiet_patch_status; simp add: account_of_def)

lemma quiet_completeDryRun [quiet_intros]: "echoes r \<Longrightarrow> keeps (quiet True) (completeDryRun r)"
  unfolding completeDryRun_def Let_def by (intro quiet_intros; simp add: account_of_def)

lemma quiet_invalid_spec [quiet_intros]: "echoes r \<Longrightarrow> keeps (quiet True) (invalid_spec r msg)"
  unfolding invalid_spec_def by (intro quiet_intros)

lemma quiet_worker_succeeded [quiet_intros]: "echoes r \<Longrightarrow> keeps (quiet True) (worker_succeeded r)"
  unfolding worker_succeeded_def by (intro quiet_intros)

end
