(* ===== verification/Budget_Pass.thy ===== *)
theory Budget_Pass
  imports Quiet_Handlers
begin

text \<open>
  A whole pass and the retry budget. \<open>in_budget\<close> is the invariant of a stored Migration: its budget is
  reachable in the abstract machine of theory \<open>Budget_Machine\<close>, under the largest cap the counters can hold, and the failure and the worker
  in its status are those of its last attempt. \<open>Reconcile_in_budget\<close>: from such a Migration, every status patch of a
  pass carries one whose budget the machine reaches by steps from there.

  The environment: replies to patches echo what was sent (\<open>echoes\<close>), and a worker Job of the next
  attempt exists only if the stored Migration allowed it (\<open>recorded_first\<close>), which the order of
  calls in theory \<open>Worker_Start\<close> is there to ensure.
\<close>

section \<open>The invariant\<close>

definition status_current :: "migration \<Rightarrow> bool" where
  "status_current m \<longleftrightarrow> (\<forall>g. retryGate (status m) = Some g \<longrightarrow> rg_failedAttempt g = attempts (status m)) \<and>
     (jobName (status m) \<noteq> [] \<longrightarrow> jobName (status m) = worker_job_name m (attempts (status m)))"

definition in_budget :: "migration \<Rightarrow> bool" where
  "in_budget m \<longleftrightarrow> 0 \<le> sint (backoffLimit (spec m)) \<and> sint (backoffLimit (spec m)) < 2 ^ 31 - 1 \<and>
     reachable (2 ^ 31 - 2) (budget_of m) \<and> status_current m"

definition advances :: "migration \<Rightarrow> migration \<Rightarrow> bool" where
  "advances m m' \<longleftrightarrow> spec m' = spec m \<and> m_name m' = m_name m \<and> status_current m' \<and>
     budget_step\<^sup>*\<^sup>* (budget_of m) (budget_of m')"

lemma reachable_steps: "budget_step\<^sup>*\<^sup>* b c \<Longrightarrow> reachable cap b \<Longrightarrow> reachable cap c"
  by (induction rule: rtranclp_induct) (auto intro: reachable.step)

lemma advances_in_budget: "in_budget m \<Longrightarrow> advances m m' \<Longrightarrow> in_budget m'"
  by (auto simp: in_budget_def advances_def intro: reachable_steps)

lemma advances_refl: "in_budget m \<Longrightarrow> advances m m"
  by (simp add: in_budget_def advances_def)

lemma advances_trans: "advances m m' \<Longrightarrow> advances m' m'' \<Longrightarrow> advances m m''"
  by (auto simp: advances_def)

lemma worker_job_name_account:
  assumes "account_of m = account_of m'"
  shows "worker_job_name m n = worker_job_name m' n"
  unfolding worker_job_name_def account_fields [OF assms] ..

lemma status_current_account:
  assumes "account_of m = account_of m'"
  shows "status_current m = status_current m'"
  unfolding status_current_def worker_job_name_account [OF assms] account_fields [OF assms] ..

lemma advances_same:
  assumes "in_budget m" and "account_of m' = account_of m"
  shows "advances m m'"
  using assms status_current_account [OF assms(2)] budget_of_account [OF assms(2)] account_fields [OF assms(2)]
  by (simp add: in_budget_def advances_def)

lemma in_budget_inv:
  assumes "in_budget m"
  shows "0 \<le> sint (exemptAttempts (status m))"
    and "sint (exemptAttempts (status m)) \<le> sint (attempts (status m))"
    and "undecided m \<Longrightarrow> sint (exemptAttempts (status m)) + 1 \<le> sint (attempts (status m))"
    and "jobName (status m) \<noteq> [] \<Longrightarrow> retryGate (status m) = None \<or> \<not> undecided m"
    and "verdict_of_status (retryGate (status m)) \<noteq> NoFailure \<Longrightarrow> 1 \<le> sint (attempts (status m))"
    and "counters_ok m"
proof -
  have inv: "budget_inv (2 ^ 31 - 2) (budget_of m)" and lim: "0 \<le> sint (backoffLimit (spec m))"
    using reachable_inv assms by (auto simp: in_budget_def)
  have und: "undecided m \<Longrightarrow> bg_verdict (budget_of m) = Undecided"
    by (auto simp: undecided_def budget_of_def verdict_of_status_def split: option.splits)
  show "0 \<le> sint (exemptAttempts (status m))"
    and le: "sint (exemptAttempts (status m)) \<le> sint (attempts (status m))"
    using inv by (auto simp: budget_inv_def budget_of_def split: if_split_asm)
  then show "counters_ok m" using lim by (simp add: counters_ok_def)
  show "undecided m \<Longrightarrow> sint (exemptAttempts (status m)) + 1 \<le> sint (attempts (status m))"
    using inv und by (auto simp: budget_inv_def open_attempt_def budget_of_def)
  show "jobName (status m) \<noteq> [] \<Longrightarrow> retryGate (status m) = None \<or> \<not> undecided m"
    using inv und by (auto simp: budget_inv_def budget_of_def)
  show "verdict_of_status (retryGate (status m)) \<noteq> NoFailure \<Longrightarrow> 1 \<le> sint (attempts (status m))"
    using inv by (simp add: budget_inv_def budget_of_def)
qed

text \<open>The status that allows an attempt to start.\<close>

definition may_start :: "account \<Rightarrow> bool" where
  "may_start a \<longleftrightarrow> (\<forall>m. account_of m = a \<longrightarrow>
     \<not> budgetSpent m \<and> verdict_of_status (retryGate (status m)) \<noteq> Undecided)"

lemma budgetSpent_account:
  assumes "account_of m = account_of m'"
  shows "budgetSpent m = budgetSpent m'"
  unfolding budgetSpent_def countedAttempts_def account_fields [OF assms] ..

lemma may_startI:
  "\<not> budgetSpent m \<Longrightarrow> verdict_of_status (retryGate (status m)) \<noteq> Undecided \<Longrightarrow> account_of m = a \<Longrightarrow> may_start a"
  unfolding may_start_def using budgetSpent_account account_fields(4) by metis

section \<open>Triples on accounts\<close>

definition budgeted :: "pass \<Rightarrow> pass \<Rightarrow> bool" where
  "budgeted s t \<longleftrightarrow> advances (mig s) (mig t) \<and>
     (\<exists>ms. sent (tr t) = ms @ sent (tr s) \<and> (\<forall>m \<in> set ms. advances (mig s) m))"

lemma budgeted_trans:
  assumes "budgeted s t" and "budgeted t u"
  shows "budgeted s u"
proof -
  obtain ms ns where "sent (tr t) = ms @ sent (tr s)" "\<forall>m \<in> set ms. advances (mig s) m"
      "sent (tr u) = ns @ sent (tr t)" "\<forall>m \<in> set ns. advances (mig t) m"
    using assms by (auto simp: budgeted_def)
  then show ?thesis
    using assms by (auto simp: budgeted_def intro: advances_trans intro!: exI [of _ "ns @ ms"])
qed

lemma quiet_budgeted: "in_budget (mig s) \<Longrightarrow> quiet b s t \<Longrightarrow> budgeted s t"
  by (auto simp: quiet_def budgeted_def intro: advances_same)

definition accounts :: "(account \<Rightarrow> bool) \<Rightarrow> 'a act \<Rightarrow> ('a \<Rightarrow> account \<Rightarrow> bool) \<Rightarrow> bool" where
  "accounts P f Q \<longleftrightarrow> (\<forall>s x t. in_budget (mig s) \<longrightarrow> P (account_of (mig s)) \<longrightarrow> f s = (x, t) \<longrightarrow>
     budgeted s t \<and> (\<forall>y. x = Inr y \<longrightarrow> Q y (account_of (mig t))))"

lemma accountsI:
  "(\<And>s x t. in_budget (mig s) \<Longrightarrow> P (account_of (mig s)) \<Longrightarrow> f s = (x, t) \<Longrightarrow>
     budgeted s t \<and> (\<forall>y. x = Inr y \<longrightarrow> Q y (account_of (mig t)))) \<Longrightarrow> accounts P f Q"
  by (simp add: accounts_def)

lemma accountsD:
  "accounts P f Q \<Longrightarrow> in_budget (mig s) \<Longrightarrow> P (account_of (mig s)) \<Longrightarrow> f s = (x, t) \<Longrightarrow>
     budgeted s t \<and> (\<forall>y. x = Inr y \<longrightarrow> Q y (account_of (mig t)))"
  unfolding accounts_def by blast

lemma accounts_weaken:
  "accounts P f Q \<Longrightarrow> (\<And>a. P' a \<Longrightarrow> P a) \<Longrightarrow> (\<And>y a. Q y a \<Longrightarrow> Q' y a) \<Longrightarrow> accounts P' f Q'"
  unfolding accounts_def by blast

lemma accounts_quiet:
  assumes "keeps (quiet True) f" and "\<And>y a. P a \<Longrightarrow> Q y a"
  shows "accounts P f Q"
proof (rule accountsI)
  fix s x t
  assume s: "in_budget (mig s)" "P (account_of (mig s))" and run: "f s = (x, t)"
  have "quiet True s t" using assms(1) run by (rule keepsD)
  then show "budgeted s t \<and> (\<forall>y. x = Inr y \<longrightarrow> Q y (account_of (mig t)))"
    using s assms(2) quiet_budgeted [OF s(1)] by (metis quiet_def)
qed

lemma accounts_bnd:
  assumes "accounts P f Q" and "\<And>x. accounts (Q x) (k x) R"
  shows "accounts P (bnd f k) R"
proof (rule accountsI)
  fix s x t
  assume s: "in_budget (mig s)" "P (account_of (mig s))" and run: "bnd f k s = (x, t)"
  obtain y u where f: "f s = (y, u)" by fastforce
  note su = accountsD [OF assms(1) s f]
  show "budgeted s t \<and> (\<forall>y. x = Inr y \<longrightarrow> R y (account_of (mig t)))"
  proof (cases y)
    case (Inl e)
    then show ?thesis using run f su by (auto simp: bnd_def)
  next
    case (Inr v)
    then have "in_budget (mig u)" using su s(1) advances_in_budget by (auto simp: budgeted_def)
    moreover have "k v u = (x, t)" using run f Inr by (simp add: bnd_def)
    ultimately show ?thesis using accountsD [OF assms(2)] su Inr budgeted_trans by blast
  qed
qed

lemma accounts_seq: "accounts P f (\<lambda>_. Q) \<Longrightarrow> accounts Q g R \<Longrightarrow> accounts P (seq f g) R"
  unfolding seq_def by (rule accounts_bnd)

lemma accounts_with_m:
  assumes "\<And>m. in_budget m \<Longrightarrow> P (account_of m) \<Longrightarrow> accounts (\<lambda>a. a = account_of m) (k m) Q"
  shows "accounts P (with_m k) Q"
  using assms unfolding accounts_def with_m_def by blast

lemma accounts_ret: "(\<And>a. P a \<Longrightarrow> Q x a) \<Longrightarrow> accounts P (ret x) Q"
  by (rule accountsI) (auto simp: ret_def intro: quiet_budgeted [where b = True] quiet.R_refl)

lemma accounts_raise: "accounts P (raise e) Q"
  by (rule accountsI) (auto simp: raise_def intro: quiet_budgeted [where b = True] quiet.R_refl)

lemma accounts_attempt: "accounts P f Q \<Longrightarrow> accounts P (attempt f) (\<lambda>_ _. True)"
  by (rule accountsI) (auto simp: attempt_def split: prod.splits dest: accountsD)

lemma accounts_when: "(b \<Longrightarrow> accounts P f (\<lambda>_. Q)) \<Longrightarrow> (\<And>a. \<not> b \<Longrightarrow> P a \<Longrightarrow> Q a) \<Longrightarrow> accounts P (do_when b f) (\<lambda>_. Q)"
  by (cases b) (auto simp: do_when_def intro: accounts_ret)

text \<open>A handler that sends one patch is judged by what it does to the account.\<close>

lemma accounts_sends:
  assumes "\<And>s. P (account_of (mig s)) \<Longrightarrow> in_budget (mig s) \<Longrightarrow>
      \<exists>m. sent (tr (snd (f s))) = m # sent (tr s) \<and> advances (mig s) m \<and>
        account_of (mig (snd (f s))) = account_of m \<and> Q (account_of m)"
  shows "accounts P f (\<lambda>_. Q)"
proof (rule accountsI)
  fix s x t
  assume s: "in_budget (mig s)" "P (account_of (mig s))" and run: "f s = (x, t)"
  obtain m where m: "sent (tr t) = m # sent (tr s)" "advances (mig s) m" "account_of (mig t) = account_of m" "Q (account_of m)"
    using assms [OF s(2,1)] run by auto
  have "advances (mig s) (mig t)"
    using advances_trans [OF m(2) advances_same [OF advances_in_budget [OF s(1) m(2)] m(3)]] .
  then show "budgeted s t \<and> (\<forall>y. x = Inr y \<longrightarrow> Q (account_of (mig t)))"
    using m by (auto simp: budgeted_def intro: exI [of _ "[m]"])
qed

section \<open>Verdicts\<close>

lemma undecided_fields:
  "account_of m = a \<Longrightarrow> undecided m \<longleftrightarrow> (\<exists>g. ac_gate a = Some g \<and> rg_exemption g = RetryGateUndecided)"
  by (auto simp: undecided_def account_of_def split: option.splits)

lemma judged_advances:
  assumes "in_budget m" and "undecided m" and "v \<noteq> RetryGateUndecided" and "account_of m' = judged v (account_of m)"
  shows "advances m m'"
proof -
  have "sint (attempts (status m)) \<le> 2 ^ 31 - 1" using sint32_bounds(2) [of "attempts (status m)"] by simp
  then have "sint (exemptAttempts (status m)) < 2 ^ 31 - 1" using in_budget_inv(3) [OF assms(1,2)] by simp
  from judged_step [OF assms(4,2) this assms(3)] have "budget_step (budget_of m) (budget_of m')" .
  moreover have "spec m' = spec m" "m_name m' = m_name m" "attempts (status m') = attempts (status m)"
      "retryGate (status m') = map_option (\<lambda>rg. rg\<lparr>rg_exemption := v\<rparr>) (retryGate (status m))"
      "jobName (status m') = jobName (status m)"
    using assms(4) by (simp_all add: judged_def account_of_def)
  ultimately show ?thesis using assms(1) by (auto simp: advances_def in_budget_def status_current_def worker_job_name_def)
qed

text \<open>The attempts and the recorded worker, which a verdict leaves alone.\<close>

definition place :: "account \<Rightarrow> int32 \<times> string" where
  "place a = (ac_attempts a, ac_job a)"

lemma accounts_decide:
  assumes "echoes r" and "v \<noteq> RetryGateUndecided"
  shows "accounts (\<lambda>a. place a = p \<and> (\<exists>g. ac_gate a = Some g \<and> rg_exemption g = RetryGateUndecided))
    (decide r v) (\<lambda>_ a. place a = p)"
proof -
  let ?P = "\<lambda>a. place a = p \<and> (\<exists>g. ac_gate a = Some g \<and> rg_exemption g = RetryGateUndecided)"
  have verdict: "accounts ?P (recordVerdict r v) (\<lambda>_ a. place a = p)"
  proof (rule accounts_sends)
    fix s :: pass
    assume P: "?P (account_of (mig s))" and b: "in_budget (mig s)"
    then have u: "undecided (mig s)" using undecided_fields by blast
    then have "retryGate (status (mig s)) \<noteq> None" by (auto simp: undecided_def split: option.splits)
    from recordVerdict_sends [OF this] assms(1) obtain m where m: "sent (tr (snd (recordVerdict r v s))) = m # sent (tr s)"
        "account_of m = judged v (account_of (mig s))" "account_of (mig (snd (recordVerdict r v s))) = account_of m" by blast
    then show "\<exists>m. sent (tr (snd (recordVerdict r v s))) = m # sent (tr s) \<and> advances (mig s) m \<and>
        account_of (mig (snd (recordVerdict r v s))) = account_of m \<and> place (account_of m) = p"
      using judged_advances [OF b u assms(2) m(2)] P by (auto simp: judged_def place_def)
  qed
  show ?thesis
    unfolding decide_def Let_def
  proof (rule accounts_with_m)
    fix m
    assume P: "?P (account_of m)"
    show "accounts (\<lambda>a. a = account_of m) (seq (do_when (v = RetryGateCounted \<and> budgetSpent m) (failBudget r))
        (seq (recordVerdict r v) (ret (v = RetryGateCounted \<and> budgetSpent m)))) (\<lambda>_ a. place a = p)"
      by (rule accounts_seq [OF accounts_quiet accounts_seq [OF verdict accounts_ret]])
        (use P in \<open>auto intro!: quiet_intros\<close>)
  qed
qed

section \<open>The gate\<close>

lemma exemptionVerdict_decides: "exemptionVerdict c at \<noteq> RetryGateUndecided"
  by (simp add: exemptionVerdict_def)

lemma accounts_judge_failed_probe:
  assumes "echoes r"
  shows "accounts (\<lambda>a. place a = p) (judge_failed_probe r inp now j ok current logged msg) (\<lambda>_ a. place a = p)"
  unfolding judge_failed_probe_def Let_def
proof (rule accounts_with_m, rule accounts_bnd [where Q = "\<lambda>_ a. place a = p"])
  fix m
  assume n: "place (account_of m) = p"
  let ?c = "g_Census (parseGateLog (read_text logged))"
  show "accounts (\<lambda>a. a = account_of m) (case (retryGate (status m), ?c) of
      (Some rg, Some c) \<Rightarrow> if onFailurePath m \<and> rg_exemption rg = RetryGateUndecided
        then decide r (exemptionVerdict c (rg_failedAt rg)) else ret False
    | _ \<Rightarrow> ret False) (\<lambda>_ a. place a = p)"
    using n
    by (auto split: option.split intro!: accounts_ret accounts_weaken [OF accounts_decide [OF assms exemptionVerdict_decides]]
        simp: account_of_def)
next
  fix m failed
  have "keeps (quiet True) (if failed then ret (Done, False) else if \<not> current then delete_and_probe_again r j msg
      else hold_on_probe r inp now j ok logged (parseGateLog (read_text logged)))"
    unfolding delete_and_probe_again_def hold_on_probe_def Let_def by (intro quiet_intros assms)
  then show "accounts (\<lambda>a. place a = p) (if failed then ret (Done, False) else if \<not> current then delete_and_probe_again r j msg
      else hold_on_probe r inp now j ok logged (parseGateLog (read_text logged))) (\<lambda>_ a. place a = p)"
    by (rule accounts_quiet)
qed

lemma accounts_judgeProbe:
  assumes "echoes r"
  shows "accounts (\<lambda>a. place a = p) (judgeProbe r j msg) (\<lambda>_ a. place a = p)"
proof -
  have again: "keeps (quiet True) (delete_and_probe_again r j msg)"
    unfolding delete_and_probe_again_def by (intro quiet_intros assms)
  have body: "accounts (\<lambda>a. place a = p)
     (bnd (attempt (gateLog r j)) (\<lambda>logged.
           if ok \<and> \<not> isl logged \<and> passed (parseGateLog (read_text logged)) inp then ret (Done, True)
           else judge_failed_probe r inp now j ok current logged msg)) (\<lambda>_ a. place a = p)" for ok inp now current
    by (rule accounts_bnd [where Q = "\<lambda>_ a. place a = p"])
      (auto intro!: accounts_quiet [OF quiet.keeps_attempt] quiet_intros accounts_ret accounts_judge_failed_probe [OF assms])
  show ?thesis
    unfolding judgeProbe_def
    by (rule accounts_bnd [where Q = "\<lambda>_ a. place a = p"], rule accounts_quiet [OF quiet_currentTime], assumption,
        rule accounts_with_m)
      (auto simp: Let_def intro!: accounts_quiet [OF again] accounts_weaken [OF body])
qed

lemma accounts_probe_step:
  assumes "echoes r"
  shows "accounts (\<lambda>a. place a = p) (probe_step r k) (\<lambda>_ a. place a = p)"
proof -
  have rest: "keeps (quiet True) (seq (createGateJob r k) (seq (probing r msg) (held_for r d)))"
    "keeps (quiet True) (seq (probing r msg) (held_for r d))"
    "keeps (quiet True) (bnd (podWaitDetail r sel) (\<lambda>detail. seq (if detail \<noteq> [] then setHold r rs (m detail) else probing r msg)
       (held_for r d)))" for msg d sel rs m
    by (intro quiet_intros assms)+
  show ?thesis
    unfolding probe_step_def
    by (rule accounts_with_m, unfold Let_def,
        rule accounts_bnd [where Q = "\<lambda>_ a. place a = p", OF accounts_quiet [OF quiet.keeps_attempt [OF quiet_get_job_uncached]]],
        simp)
      (auto split: sum.split intro!: accounts_raise accounts_quiet [OF rest(1)] accounts_quiet [OF rest(2)]
        accounts_quiet [OF rest(3)] accounts_judgeProbe [OF assms])
qed

lemma accounts_retryGate:
  assumes "echoes r"
  shows "accounts (\<lambda>a. place a = p) (retryGate_pass r k) (\<lambda>_ a. place a = p)"
  unfolding retryGate_pass_def
proof (rule accounts_with_m, rule accounts_bnd [where Q = "\<lambda>_ a. place a = p"])
  fix m
  assume n: "place (account_of m) = p"
  have overdue: "verdictOverdue (retryGate (status m)) now \<Longrightarrow> \<exists>g. ac_gate (account_of m) = Some g \<and> rg_exemption g = RetryGateUndecided" for now
    by (auto simp: verdictOverdue_def account_of_def split: option.splits)
  show "accounts (\<lambda>a. a = account_of m) (if onFailurePath m then bnd (currentTime r)
            (\<lambda>now. if verdictOverdue (retryGate (status m)) now then decide r RetryGateCounted else ret False)
          else ret False) (\<lambda>_ a. place a = p)"
    using n overdue
    by (auto intro!: accounts_ret accounts_bnd [OF accounts_quiet [where Q = "\<lambda>_ a. a = account_of m", OF quiet_currentTime]]
        accounts_weaken [OF accounts_decide [OF assms]])
next
  fix m failed
  have hold: "keeps (quiet True) (seq (setHold r rs msg) (held_for r d))" for rs msg d by (intro quiet_intros assms)
  show "accounts (\<lambda>a. place a = p) (if failed then ret (Done, False)
          else bnd (blocking_pod r k) (\<lambda>po. case po of
                 Some (p, of_what) \<Rightarrow>
                   seq (setHold r ReasonWorkerPodRemains (msg_pod_remains p of_what k)) (held_for r retryGateInterval)
               | None \<Rightarrow> probe_step r k)) (\<lambda>_ a. place a = p)"
    by (auto split: option.split intro!: accounts_ret
        accounts_bnd [OF accounts_quiet [where Q = "\<lambda>_ a. place a = p", OF quiet_blocking_pod]]
        accounts_quiet [OF hold] accounts_probe_step [OF assms])
qed

section \<open>Settling\<close>

lemma settled_advances:
  assumes "in_budget m" and "account_of m' = settled_account (account_of m)"
  shows "advances m m'"
proof (cases "settled_account (account_of m) = account_of m")
  case True
  then show ?thesis using assms advances_same by simp
next
  case False
  then have "account_of m' = judged RetryGateCounted (account_of m)" "undecided m"
    using assms(2) by (auto simp: settled_account_def undecided_def account_of_def split: option.splits if_splits)
  then show ?thesis by (intro judged_advances [OF assms(1), of RetryGateCounted]) simp_all
qed

lemma settled_decided:
  assumes "in_budget m" and "account_of m = settled_account a"
  shows "verdict_of_status (retryGate (status m)) \<noteq> Undecided"
proof
  assume "verdict_of_status (retryGate (status m)) = Undecided"
  then obtain g where g: "retryGate (status m) = Some g" "rg_exemption g = RetryGateUndecided"
    by (auto simp: verdict_undecided_iff)
  have "rg_failedAttempt g = attempts (status m)" using assms(1) g(1) by (simp add: in_budget_def status_current_def)
  moreover have "retryGate (status m) = ac_gate (settled_account a)" "attempts (status m) = ac_attempts (settled_account a)"
    using assms(2) by (metis account.select_convs account_of_def)+
  ultimately show False
    using g by (auto simp: settled_account_def judged_def split: option.splits if_splits)
qed

text \<open>
  After \<open>settleBudget\<close> returned that the Migration did not fail, an attempt may start.
\<close>

lemma accounts_settleBudget:
  assumes "echoes r"
  shows "accounts (\<lambda>a. place a = p) (settleBudget r) (\<lambda>failed a. place a = p \<and> (\<not> failed \<longrightarrow> may_start a))"
proof (rule accountsI)
  fix s x t
  assume s: "in_budget (mig s)" "place (account_of (mig s)) = p" and run: "settleBudget r s = (x, t)"
  obtain m where m: "sent (tr t) = m # sent (tr s)" "account_of m = settled_account (account_of (mig s))"
      "account_of (mig t) = account_of m"
    using settleBudget_sends [of r] assms run unfolding sends_def by (auto dest: spec [of _ s])
  have adv: "advances (mig s) m" using settled_advances [OF s(1) m(2)] .
  have adv_t: "advances (mig s) (mig t)" using settled_advances [OF s(1)] m(2,3) by simp
  have "x = Inr failed \<Longrightarrow> failed = budgetSpent (mig t)" for failed
  proof -
    assume x: "x = Inr failed"
    let ?count = "with_m (\<lambda>m. do_when (onFailurePath m \<and> undecided m) (set_status (set_exemption RetryGateCounted)))"
    obtain u where u: "?count s = (Inr (), u)"
      by (cases "onFailurePath (mig s) \<and> undecided (mig s)") (simp_all add: with_m_def do_when_def ret_def set_status_ok)
    have "keeps (quiet True) (seq (do_when b (failBudget r)) (seq (patchStatusLocked r) (ret c)))" for b and c :: bool
      by (intro quiet_intros assms)
    moreover have run': "seq (do_when (budgetSpent (mig u)) (failBudget r)) (seq (patchStatusLocked r) (ret (budgetSpent (mig u)))) u = (x, t)"
      using run u by (simp add: settleBudget_def seq_def bnd_def with_m_def)
    ultimately have "account_of (mig t) = account_of (mig u)" using keepsD by (metis quiet_def)
    moreover have "failed = budgetSpent (mig u)"
      using run' x by (auto simp: seq_def bnd_def ret_def split: prod.splits sum.splits)
    ultimately show "failed = budgetSpent (mig t)" using budgetSpent_account by metis
  qed
  moreover have "verdict_of_status (retryGate (status (mig t))) \<noteq> Undecided"
    using settled_decided [OF advances_in_budget [OF s(1) adv_t]] m(2,3) by simp
  moreover have "place (account_of (mig t)) = p"
    using s(2) m(2,3) by (auto simp: settled_account_def judged_def place_def split: option.splits)
  ultimately show "budgeted s t \<and> (\<forall>y. x = Inr y \<longrightarrow> place (account_of (mig t)) = p \<and> (\<not> y \<longrightarrow> may_start (account_of (mig t))))"
    using m(1) adv adv_t by (auto simp: budgeted_def intro: may_startI intro!: exI [of _ "[m]"])
qed

section \<open>Starting an attempt\<close>

definition worker_of :: "account \<Rightarrow> string" where
  "worker_of a = ac_name a @ ''-run-'' @ itoa (ac_attempts a + 1)"

lemma worker_of_account: "worker_of (account_of m) = worker_job_name m (attempts (status m) + 1)"
  by (simp add: worker_of_def worker_job_name_def account_of_def)

lemma worker_of_nonempty: "worker_of a \<noteq> []"
  by (simp add: worker_of_def)

lemma accounts_recordAttempt:
  assumes "echoes r" and "sint n < 2 ^ 31 - 1"
  shows "accounts (\<lambda>a. ac_attempts a = n \<and> may_start a \<and> worker_of a = name) (recordAttempt r name announce) (\<lambda>_ _. True)"
proof (rule accounts_sends)
  fix s :: pass
  assume P: "ac_attempts (account_of (mig s)) = n \<and> may_start (account_of (mig s)) \<and> worker_of (account_of (mig s)) = name"
    and b: "in_budget (mig s)"
  have name: "name = worker_job_name (mig s) (attempts (status (mig s)) + 1)" "name \<noteq> []"
    using P worker_of_account [of "mig s"] worker_of_nonempty by auto
  obtain m where m: "sent (tr (snd (recordAttempt r name announce s))) = m # sent (tr s)"
      "account_of m = started (attempts (status (mig s)) + 1) name (account_of (mig s))"
      "account_of (mig (snd (recordAttempt r name announce s))) = account_of m"
    using recordAttempt_sends [of r name announce s] assms(1) by auto
  have att: "attempts (status (mig s)) = n" using P by (simp add: account_of_def)
  have ok: "\<not> budgetSpent (mig s)" "verdict_of_status (retryGate (status (mig s))) \<noteq> Undecided"
    using P by (auto simp: may_start_def)
  note inv = in_budget_inv [OF b]
  have first: "attempts (status (mig s)) = 0 \<longrightarrow> retryGate (status (mig s)) = None"
    using inv(5) by fastforce
  have lim: "sint (backoffLimit (spec (mig s))) < 2 ^ 31 - 1" using b by (simp add: in_budget_def)
  have "budget_step ((budget_of (mig s))\<lparr>bg_running := False\<rparr>) (budget_of m)"
    using started_step [OF m(2) name(2) ok(2,1) inv(6) lim _ first] att assms(2) by simp
  then have "budget_step\<^sup>*\<^sup>* (budget_of (mig s)) (budget_of m)"
    using budget_step.stop [of "budget_of (mig s)"] by (meson converse_rtranclp_into_rtranclp r_into_rtranclp)
  moreover have "status_current m"
  proof (cases "1 < sint (attempts (status (mig s)) + 1)")
    case True
    then show ?thesis using m(2) name(1)
      by (auto simp: account_of_def started_def status_current_def worker_job_name_def)
  next
    case False
    then have "\<not> 1 \<le> sint (attempts (status (mig s)))"
      using sint32_succ [of "attempts (status (mig s))"] att assms(2) by simp
    then have "retryGate (status (mig s)) = None"
      using inv(5) by fastforce
    then show ?thesis using m(2) name(1)
      by (auto simp: account_of_def started_def status_current_def worker_job_name_def)
  qed
  moreover have "spec m = spec (mig s)" "m_name m = m_name (mig s)"
    using m(2) by (simp_all add: account_of_def started_def)
  ultimately have "advances (mig s) m" by (simp add: advances_def)
  with m show "\<exists>m. sent (tr (snd (recordAttempt r name announce s))) = m # sent (tr s) \<and> advances (mig s) m \<and>
      account_of (mig (snd (recordAttempt r name announce s))) = account_of m \<and> True" by blast
qed

lemma accounts_create_worker:
  assumes "echoes r" and "sint n < 2 ^ 31 - 1"
  shows "accounts (\<lambda>a. ac_attempts a = n \<and> may_start a) (create_worker r (n + 1)) (\<lambda>_ _. True)"
  unfolding create_worker_def
proof (rule accounts_with_m)
  fix m
  assume P: "ac_attempts (account_of m) = n \<and> may_start (account_of m)"
  let ?Q = "\<lambda>a. ac_attempts a = n \<and> may_start a \<and> worker_of a = worker_of (account_of m)"
  show "accounts (\<lambda>a. a = account_of m) (bnd (lift_sum (buildJob (snapshotLost r m) m (RunnerImage r) (n + 1))) (\<lambda>j.
       seq (set_owner r (j_name j))
         (bnd (attempt (create_job r j)) (\<lambda>made. case made of
            Inr u \<Rightarrow> recordAttempt r (j_name j) True
          | Inl e \<Rightarrow> if is_already_exists e then recordAttempt r (j_name j) False else raise e)))) (\<lambda>_ _. True)"
  proof (cases "buildJob (snapshotLost r m) m (RunnerImage r) (n + 1)")
    case (Inl e)
    then show ?thesis by (simp add: lift_sum_def bnd_def) (rule accounts_raise [unfolded raise_def])
  next
    case (Inr j)
    then have name: "j_name j = worker_of (account_of m)"
      using built_names(1) P by (simp add: worker_of_account) (simp add: account_of_def)
    have rest: "accounts ?Q (seq (set_owner r (j_name j))
         (bnd (attempt (create_job r j)) (\<lambda>made. case made of
            Inr u \<Rightarrow> recordAttempt r (j_name j) True
          | Inl e \<Rightarrow> if is_already_exists e then recordAttempt r (j_name j) False else raise e))) (\<lambda>_ _. True)"
      by (rule accounts_seq [OF accounts_quiet accounts_bnd [OF accounts_quiet [where Q = "\<lambda>_. ?Q"]]])
        (auto simp: name split: sum.split intro!: quiet_intros accounts_raise accounts_recordAttempt assms)
    show ?thesis
      using P by (simp add: Inr lift_sum_def bnd_def [of "\<lambda>s. (Inr j, s)"]) (rule accounts_weaken [OF rest]; simp)
  qed
qed

lemma accounts_gate_and_settle:
  assumes "echoes r" and "sint n < 2 ^ 31 - 1"
  shows "accounts (\<lambda>a. place a = (n, jb)) (gate_and_settle r (n + 1)) (\<lambda>_ _. True)"
  unfolding gate_and_settle_def
proof (rule accounts_bnd [OF accounts_retryGate [OF assms(1)]], clarify)
  fix res pass
  show "accounts (\<lambda>a. place a = (n, jb)) (if \<not> pass then ret res
      else bnd (settleBudget r) (\<lambda>failed. if failed then ret Done else create_worker r (n + 1))) (\<lambda>_ _. True)"
    by (auto intro!: accounts_ret accounts_bnd [OF accounts_settleBudget [OF assms(1)]]
        accounts_weaken [OF accounts_create_worker [OF assms]]) (auto simp: place_def)
qed

text \<open>
  The environment shows a worker Job of the next attempt only for a Migration that may start one,
  and under its name.
\<close>

definition recorded_first :: "reconciler \<Rightarrow> migration \<Rightarrow> bool" where
  "recorded_first r m \<longleftrightarrow> (\<forall>h u j. get_job_reply r h u (worker_job_name m (attempts (status m) + 1)) = Inr j \<longrightarrow>
     j_name j = worker_job_name m (attempts (status m) + 1) \<and> may_start (account_of m))"

lemma recorded_first_account:
  assumes "account_of m = account_of m'"
  shows "recorded_first r m = recorded_first r m'"
  unfolding recorded_first_def worker_job_name_def account_fields [OF assms] assms ..

lemma accounts_unrecorded_worker:
  assumes "recorded_first r m"
  shows "accounts (\<lambda>a. a = account_of m) (unrecorded_worker r (attempts (status m) + 1))
    (\<lambda>jo a. a = account_of m \<and> (\<forall>j. jo = Some j \<longrightarrow> j_name j = worker_of a \<and> may_start a))"
proof (rule accountsI)
  fix s x t
  assume s: "in_budget (mig s)" "account_of (mig s) = account_of m"
    and run: "unrecorded_worker r (attempts (status m) + 1) s = (x, t)"
  have "keeps (quiet True) (unrecorded_worker r n)" for n
    unfolding unrecorded_worker_def by (intro quiet_intros)
  then have q: "quiet True s t" using run by (rule keepsD)
  then have "account_of (mig t) = account_of m" using s(2) by (simp add: quiet_def)
  moreover have "x = Inr (Some j) \<Longrightarrow> j_name j = worker_of (account_of m) \<and> may_start (account_of m)" for j
  proof -
    have name: "worker_job_name (mig s) n = worker_job_name m n" for n
      using account_fields(6) [OF s(2)] by (simp add: worker_job_name_def)
    assume "x = Inr (Some j)"
    then have "get_job_reply r (tr s) (with_api_reader r) (worker_job_name m (attempts (status m) + 1)) = Inr j"
      using run
      by (auto simp: unrecorded_worker_def with_m_def bnd_def attempt_def get_job_uncached_def call_def ret_def raise_def name
          split: if_split_asm sum.split_asm)
    then show ?thesis using assms unfolding recorded_first_def worker_of_account by blast
  qed
  ultimately show "budgeted s t \<and> (\<forall>y. x = Inr y \<longrightarrow> account_of (mig t) = account_of m \<and>
      (\<forall>j. y = Some j \<longrightarrow> j_name j = worker_of (account_of (mig t)) \<and> may_start (account_of (mig t))))"
    using quiet_budgeted [OF s(1) q] by simp
qed

lemma first_attempt_undecided:
  assumes "in_budget m" and "\<not> 1 < sint (attempts (status m) + 1)" and "sint (attempts (status m)) < 2 ^ 31 - 1"
  shows "retryGate (status m) = None"
proof -
  have "\<not> 1 \<le> sint (attempts (status m))" using assms(2) sint32_succ [OF assms(3)] by simp
  then show ?thesis using in_budget_inv(5) [OF assms(1)] by fastforce
qed

lemma accounts_startAttempt:
  assumes "echoes r" and "recorded_first r m0" and "sint (attempts (status m0)) < 2 ^ 31 - 1"
  shows "accounts (\<lambda>a. a = account_of m0) (startAttempt r) (\<lambda>_ _. True)"
  unfolding startAttempt_def
proof (rule accounts_with_m)
  fix m
  assume b: "in_budget m" and m: "account_of m = account_of m0"
  let ?n = "attempts (status m)"
  have rf: "recorded_first r m" using assms(2) recorded_first_account [OF m] by simp
  have att: "sint ?n < 2 ^ 31 - 1" using assms(3) account_fields(1) [OF m] by simp
  have spent: "accounts (\<lambda>a. a = account_of m) (seq (failBudget r) (finish r Done)) (\<lambda>_ _. True)"
    by (rule accounts_quiet) (intro quiet_intros assms(1), simp)
  have none: "accounts (\<lambda>a. a = account_of m) (if budget_final m then seq (failBudget r) (finish r Done)
      else if 1 < sint (?n + 1) then gate_and_settle r (?n + 1) else create_worker r (?n + 1)) (\<lambda>_ _. True)"
  proof (cases "budget_final m")
    case True
    then show ?thesis using spent by simp
  next
    case nf: False
    show ?thesis
    proof (cases "1 < sint (?n + 1)")
      case True
      then show ?thesis
        using nf by simp (rule accounts_weaken [OF accounts_gate_and_settle [OF assms(1) att, where jb = "jobName (status m)"]], simp_all add: account_of_def place_def)
    next
      case False
      have g: "retryGate (status m) = None" using first_attempt_undecided [OF b False att] .
      then have "\<not> budgetSpent m" using nf by (simp add: budget_final_def undecided_def)
      then have "may_start (account_of m)" using g by (intro may_startI) (simp_all add: verdict_undecided_iff)
      then show ?thesis
        using nf False by simp (rule accounts_weaken [OF accounts_create_worker [OF assms(1) att]], simp_all add: account_of_def)
    qed
  qed
  show "accounts (\<lambda>a. a = account_of m) (let n = ?n + 1
      in bnd (unrecorded_worker r n) (\<lambda>jo. case jo of
           Some j \<Rightarrow> recordAttempt r (j_name j) False
         | None \<Rightarrow>
             if budget_final m then seq (failBudget r) (finish r Done)
             else if 1 < sint n then gate_and_settle r n
             else create_worker r n)) (\<lambda>_ _. True)"
    unfolding Let_def
  proof (rule accounts_bnd [OF accounts_unrecorded_worker [OF rf]])
    fix jo
    show "accounts (\<lambda>a. a = account_of m \<and> (\<forall>j. jo = Some j \<longrightarrow> j_name j = worker_of a \<and> may_start a)) (case jo of
           Some j \<Rightarrow> recordAttempt r (j_name j) False
         | None \<Rightarrow> if budget_final m then seq (failBudget r) (finish r Done)
             else if 1 < sint (?n + 1) then gate_and_settle r (?n + 1) else create_worker r (?n + 1)) (\<lambda>_ _. True)"
    proof (cases jo)
      case None
      then show ?thesis using none by simp
    next
      case (Some j)
      then show ?thesis
        by simp (rule accounts_weaken [OF accounts_recordAttempt [OF assms(1) att]], auto simp: account_of_def)
    qed
  qed
qed

lemma accounts_nextAttempt:
  assumes "echoes r" and "recorded_first r m0" and "sint (attempts (status m0)) < 2 ^ 31 - 1"
  shows "accounts (\<lambda>a. a = account_of m0) (nextAttempt r) (\<lambda>_ _. True)"
proof -
  have clone: "keeps (quiet True) (finishClone r)" "keeps (quiet True) (finishFollow r)"
    by (intro quiet_intros assms(1))+
  show ?thesis
    unfolding nextAttempt_def
    by (rule accounts_seq [OF accounts_quiet [OF quiet_cancelRehearsal]], assumption,
        rule accounts_bnd [OF accounts_quiet [OF quiet_reownJobExists]], assumption, rule accounts_with_m)
      (auto intro!: accounts_quiet [OF clone(1)] accounts_quiet [OF clone(2)] accounts_weaken [OF accounts_startAttempt [OF assms]])
qed

section \<open>A failed worker\<close>

lemma accounts_queue_retry:
  assumes "echoes r"
  shows "accounts (\<lambda>a. ac_job a \<noteq> []) (queue_retry r j startOver why tail) (\<lambda>_ _. True)"
proof (rule accounts_sends)
  fix s :: pass
  assume job: "ac_job (account_of (mig s)) \<noteq> []" and b: "in_budget (mig s)"
  obtain m g where m: "sent (tr (snd (queue_retry r j startOver why tail s))) = m # sent (tr s)"
      "fresh_failure (account_of (mig s)) g" "account_of m = (account_of (mig s))\<lparr>ac_job := [], ac_gate := Some g\<rparr>"
      "account_of (mig (snd (queue_retry r j startOver why tail s))) = account_of m"
    using queue_retry_sends [of r j startOver why tail s] assms by auto
  have "budget_of m = (budget_of (mig s))\<lparr>bg_running := False, bg_verdict := Undecided\<rparr>"
    using m(2,3) by (simp add: account_of_def budget_of_def verdict_of_status_def fresh_failure_def)
  moreover have "bg_running (budget_of (mig s))" using job by (simp add: budget_of_def account_of_def)
  ultimately have "budget_step (budget_of (mig s)) (budget_of m)" using budget_step.failed by simp
  then have "advances (mig s) m"
    using m(2,3) by (auto simp: advances_def status_current_def account_of_def fresh_failure_def)
  with m show "\<exists>m. sent (tr (snd (queue_retry r j startOver why tail s))) = m # sent (tr s) \<and> advances (mig s) m \<and>
      account_of (mig (snd (queue_retry r j startOver why tail s))) = account_of m \<and> True" by blast
qed

lemma accounts_handleFailedJob:
  assumes "echoes r"
  shows "accounts (\<lambda>a. ac_job a \<noteq> []) (handleFailedJob r j) (\<lambda>_ _. True)"
proof -
  let ?J = "\<lambda>a. ac_job a \<noteq> []"
  have cancel: "keeps (quiet True) (with_m (\<lambda>m. cancelRehearsal r (''worker attempt '' @ itoa (attempts (status m)) @ '' failed'')))"
    and log: "keeps (quiet True) (failed_log r j)" and terminal: "keeps (quiet True) (fail_terminal r c w)" for c w
    unfolding failed_log_def fail_terminal_def by (intro quiet_intros assms)+
  show ?thesis
    unfolding handleFailedJob_def
    by (rule accounts_seq [OF accounts_quiet [OF cancel]], assumption,
        rule accounts_bnd [where Q = "\<lambda>_. ?J", OF accounts_quiet [OF log]], assumption)
      (auto simp: Let_def split: prod.split intro!: accounts_with_m accounts_quiet [OF terminal]
        accounts_weaken [OF accounts_queue_retry [OF assms]])
qed

section \<open>Suspension\<close>

lemma accounts_suspend_worker:
  assumes "echoes r"
  shows "accounts (\<lambda>_. True) (suspend_worker r) (\<lambda>_ _. True)"
proof -
  have clear: "accounts (\<lambda>_. True) (set_status (\<lambda>st. st\<lparr>jobName := []\<rparr>)) (\<lambda>_ _. True)"
  proof (rule accountsI)
    fix s x t
    assume b: "in_budget (mig s)" and run: "set_status (\<lambda>st. st\<lparr>jobName := []\<rparr>) s = (x, t)"
    have "budget_step (budget_of (mig s)) (budget_of (mig t))"
      using run budget_step.stop [of "budget_of (mig s)"] by (auto simp: set_status_ok budget_of_def)
    then show "budgeted s t \<and> (\<forall>y. x = Inr y \<longrightarrow> True)"
      using run b by (auto simp: set_status_ok budgeted_def advances_def in_budget_def status_current_def)
  qed
  have stop: "keeps (quiet True) (bnd (attempt (get_job r n)) (\<lambda>res. case res of
            Inl e \<Rightarrow> if is_not_found e then ret () else raise e
          | Inr j \<Rightarrow>
              seq (ignore_not_found (delete_job r Foreground n))
               (seq (event False ''Suspended'' ''Suspend'' ''worker Job deleted, work volume kept'')
                 (do_when b (event True ''SlotRetained'' ''Suspend''
                   ''the replication slot stays open while suspended and retains WAL on the source'')))))" for n b
    by (intro quiet_intros)
  show ?thesis
    unfolding suspend_worker_def
    by (intro accounts_with_m accounts_when accounts_weaken [OF accounts_seq [OF accounts_quiet [OF stop] clear]]) simp_all
qed

lemma accounts_reconcileSuspended:
  assumes "echoes r"
  shows "accounts (\<lambda>_. True) (reconcileSuspended r) (\<lambda>_ _. True)"
proof -
  have rest: "keeps (quiet True) (seq (suspend_preflight r)
          (seq (suspend_reown r)
            (with_m (\<lambda>m. seq (deleteGateJob r (attempts (status m) + 1))
              (seq (endHold r ReasonHoldSuspended (''Attempt '' @ itoa (attempts (status m) + 1) @
                     '' waits for a resume: spec.suspend stopped the retry gate''))
                (seq (set_phase PhaseSuspended) (finish r Done)))))))"
    unfolding suspend_preflight_def suspend_reown_def by (intro quiet_intros assms)
  show ?thesis
    unfolding reconcileSuspended_def
    by (rule accounts_seq [OF accounts_quiet [OF quiet_cancelRehearsal, where Q = "\<lambda>_ _. True"]
          accounts_seq [OF accounts_suspend_worker [OF assms] accounts_quiet [OF rest]]]) simp_all
qed

section \<open>The pass\<close>

lemma accounts_finished_step: "accounts P f Q \<Longrightarrow> accounts P (finished_step f) (\<lambda>_ _. True)"
  unfolding finished_step_def by (erule accounts_bnd) (simp add: accounts_ret)

lemma accounts_finished_quiet: "keeps (quiet True) f \<Longrightarrow> accounts P (finished_step f) (\<lambda>_ _. True)"
  by (rule accounts_finished_step [where Q = "\<lambda>_ _. True"], erule accounts_quiet) simp

lemma accounts_worker_step:
  assumes "echoes r" and "recorded_first r m0" and "sint (attempts (status m0)) < 2 ^ 31 - 1"
  shows "accounts (\<lambda>a. a = account_of m0) (worker_step r) (\<lambda>_ _. True)"
  unfolding worker_step_def
proof (rule accounts_with_m)
  fix m
  assume m: "account_of m = account_of m0"
  have next_: "accounts (\<lambda>a. a = account_of m) (finished_step (nextAttempt r)) (\<lambda>_ _. True)"
    by (rule accounts_finished_step) (rule accounts_weaken [OF accounts_nextAttempt [OF assms]], simp_all add: m)
  have won: "keeps (quiet True) (worker_succeeded r)" by (intro quiet_intros assms(1))
  show "accounts (\<lambda>a. a = account_of m) (if jobName (status m) = [] then finished_step (nextAttempt r)
     else bnd (attempt (get_job r (jobName (status m)))) (\<lambda>res. case res of
         Inl e \<Rightarrow> if is_not_found e then finished_step (nextAttempt r) else raise e
       | Inr j \<Rightarrow>
           if fst (jobFinished j)
           then finished_step (if snd (jobFinished j) then worker_succeeded r else handleFailedJob r j)
           else ret (ObserveWorker (j_name j)))) (\<lambda>_ _. True)"
  proof (cases "jobName (status m) = []")
    case True
    then show ?thesis using next_ by simp
  next
    case False
    then have job: "ac_job (account_of m) \<noteq> []" by (simp add: account_of_def)
    have lost: "accounts (\<lambda>a. a = account_of m) (finished_step (handleFailedJob r j)) (\<lambda>_ _. True)" for j
      by (rule accounts_finished_step) (rule accounts_weaken [OF accounts_handleFailedJob [OF assms(1)]], simp_all add: job)
    have "accounts (\<lambda>a. a = account_of m) (bnd (attempt (get_job r (jobName (status m)))) (\<lambda>res. case res of
         Inl e \<Rightarrow> if is_not_found e then finished_step (nextAttempt r) else raise e
       | Inr j \<Rightarrow>
           if fst (jobFinished j)
           then finished_step (if snd (jobFinished j) then worker_succeeded r else handleFailedJob r j)
           else ret (ObserveWorker (j_name j)))) (\<lambda>_ _. True)"
      by (rule accounts_bnd [OF accounts_quiet [OF quiet.keeps_attempt [OF quiet_get_job]]], assumption)
        (auto split: sum.split intro!: next_ lost accounts_raise accounts_ret accounts_finished_quiet [OF won])
    then show ?thesis using False by simp
  qed
qed

lemma accounts_validated_step:
  assumes "echoes r" and "recorded_first r m0" and "sint (attempts (status m0)) < 2 ^ 31 - 1"
  shows "accounts (\<lambda>a. a = account_of m0) (validated_step r) (\<lambda>_ _. True)"
proof -
  have dry: "keeps (quiet True) (completeDryRun r)" by (intro quiet_intros assms(1))
  have gated: "accounts (\<lambda>a. a = account_of m0) (gated_step r) (\<lambda>_ _. True)"
    unfolding gated_step_def
    by (rule accounts_seq [OF accounts_quiet [OF quiet_setCondition]], assumption, rule accounts_with_m)
      (auto intro!: accounts_finished_quiet [OF dry] accounts_weaken [OF accounts_worker_step [OF assms]])
  show ?thesis
    unfolding validated_step_def
    by (rule accounts_seq [OF accounts_quiet [OF quiet_ensureFinalizer [OF assms(1)]]], assumption,
        rule accounts_seq [OF accounts_quiet [OF quiet_ensureOwned]], assumption,
        rule accounts_seq [OF accounts_quiet [OF quiet_recordWorkNode [OF assms(1)]]], assumption,
        rule accounts_bnd [OF accounts_quiet [OF quiet_preflightGate [OF assms(1)]]], assumption)
      (auto split: option.split intro!: gated accounts_ret)
qed

lemma accounts_handler:
  assumes "echoes r" and "recorded_first r m0" and "sint (attempts (status m0)) < 2 ^ 31 - 1"
  shows "accounts (\<lambda>a. a = account_of m0) (handler r m) (\<lambda>_ _. True)"
proof -
  have quiet: "keeps (quiet True) (end_pass r)" "keeps (quiet True) (first_pass r)" "keeps (quiet True) (invalid_spec r msg)"
      "keeps (quiet True) (seq (stopSampling r) (finished_step (reconcileDeletion r)))" for msg
    unfolding finished_step_def by (intro quiet_intros assms(1))+
  have susp: "accounts (\<lambda>a. a = account_of m0) (finished_step (reconcileSuspended r)) (\<lambda>_ _. True)"
    by (rule accounts_finished_step) (rule accounts_weaken [OF accounts_reconcileSuspended [OF assms(1)]]; simp)
  have "accounts (\<lambda>a. a = account_of m0) (live_step r) (\<lambda>_ _. True)"
    unfolding live_step_def
    by (rule accounts_with_m)
      (auto split: sum.split intro!: accounts_finished_quiet [OF quiet(1)] accounts_finished_quiet [OF quiet(2)]
        accounts_finished_quiet [OF quiet(3)] accounts_weaken [OF susp] accounts_weaken [OF accounts_validated_step [OF assms]])
  moreover have "accounts (\<lambda>a. a = account_of m0) (seq (stopSampling r) (finished_step (reconcileDeletion r))) (\<lambda>_ _. True)"
    using quiet(4) by (rule accounts_quiet) simp
  ultimately show ?thesis by (simp add: handler_def)
qed

lemma quiet_after_step: "echoes r \<Longrightarrow> keeps (quiet True) (after_step r start step)"
  unfolding after_step_def by (auto split: sum.split step.split intro!: quiet_intros)

text \<open>Every status patch of a pass, from a Migration in budget.\<close>

lemma Reconcile_in_budget:
  assumes "echoes r" and "recorded_first r m" and "sint (attempts (status m)) < 2 ^ 31 - 1" and "in_budget m"
    and "fetched r s = Inr m" and "tr s = []"
  shows "\<forall>m' \<in> set (sent (tr (snd (Reconcile r key s)))). advances m m'"
proof -
  let ?s = "after_fetch r m s"
  have "accounts (\<lambda>a. a = account_of m) (bnd (attempt (handler r m)) (after_step r (now_at r (tr s)))) (\<lambda>_ _. True)"
    by (rule accounts_bnd [OF accounts_attempt [OF accounts_handler [OF assms(1-3)]]])
      (rule accounts_quiet [OF quiet_after_step [OF assms(1)]], simp)
  from accountsD [OF this, of ?s, OF _ _ prod.collapse [symmetric]] assms(4)
  have "budgeted ?s (snd (bnd (attempt (handler r m)) (after_step r (now_at r (tr s))) ?s))" by simp
  then show ?thesis
    unfolding Reconcile_fetched [OF assms(5)] using assms(6) by (auto simp: budgeted_def after_fetch_def)
qed

end
