(* ===== verification/Budget_World.thy ===== *)
theory Budget_World
  imports Budget_Pass
begin

text \<open>
  Passes in sequence. A \<open>world\<close> is the stored Migration and the names of the worker Jobs that exist.
  \<open>effects\<close> says what a call of the operator may leave in it: a patch that failed with anything but a
  conflict may have been applied, a Job whose creation failed may exist, a pass may be cut after
  any call. \<open>world_step\<close> interleaves passes with edits by others, of the limit too, and with Jobs that
  disappear. \<open>worlds_ok\<close>: the retry budget holds in every world such a sequence reaches, and no worker Job
  exists beyond the attempt the status records and the one it allows next.

  The invariant is kept call by call: \<open>guards\<close> is a triple on states of a pass whose safety part
  speaks about every prefix of the history.
\<close>

section \<open>Names\<close>

lemma digit_char_inj: "a < 10 \<Longrightarrow> b < 10 \<Longrightarrow> digit_char a = digit_char b \<longleftrightarrow> a = b"
  by (simp add: digit_char_def)

lemma show_nat_inj: "show_nat m = show_nat n \<Longrightarrow> m = n"
proof (induction n arbitrary: m rule: show_nat.induct)
  case (1 n)
  note eq = "1.prems"
  show ?case
  proof (cases "n < 10")
    case True
    then have "m < 10" using eq by (subst (asm) (1 2) show_nat.simps) (simp split: if_split_asm)
    with True eq show ?thesis by (subst (asm) (1 2) show_nat.simps) (simp add: digit_char_inj)
  next
    case False
    then have "\<not> m < 10" using eq
      by (subst (asm) (1 2) show_nat.simps) (auto split: if_split_asm dest: sym [of "[]"])
    with False eq have "show_nat (m div 10) = show_nat (n div 10)" "m mod 10 = n mod 10"
      by (subst (asm) (1 2) show_nat.simps; simp add: digit_char_inj)+
    with "1.IH" [OF False] show ?thesis by (metis div_mult_mod_eq)
  qed
qed

lemma show_int_inj: "show_int a = show_int b \<longleftrightarrow> a = b"
proof
  have minus: "show_nat n \<noteq> CHR ''-'' # xs" for n xs
    using show_nat_digits [of "CHR ''-''" n] by (auto simp: digit_val_def)
  assume "show_int a = show_int b"
  then show "a = b"
    using minus minus [symmetric] by (auto simp: show_int_def split: if_split_asm dest!: show_nat_inj)
qed simp

lemma worker_job_name_inj: "worker_job_name m n = worker_job_name m k \<longleftrightarrow> n = k"
  by (auto simp: worker_job_name_def itoa_def show_int_inj intro: signed_word_eqI)

section \<open>Worlds\<close>

type_synonym world = "migration \<times> string set"

definition effects :: "entry \<Rightarrow> world \<Rightarrow> world set" where
  "effects e w = (case w of (m, E) \<Rightarrow> (case e of
       PatchStatus locked base m1 (Inr m2) \<Rightarrow> {(m1, E)}
     | PatchStatus locked base m1 (Inl err) \<Rightarrow> if is_conflict err then {(m, E)} else {(m, E), (m1, E)}
     | CreateJob j (Inr u) \<Rightarrow> {(m, if runs_clone j then insert (j_name j) E else E)}
     | CreateJob j (Inl err) \<Rightarrow> {(m, E), (m, if runs_clone j then insert (j_name j) E else E)}
     | DeleteJob policy name res \<Rightarrow> {(m, E), (m, E - {name})}
     | _ \<Rightarrow> {(m, E)}))"

text \<open>The worlds after some calls, the newest call first.\<close>

fun after_calls :: "trace \<Rightarrow> world \<Rightarrow> world set" where
  "after_calls [] w = {w}"
| "after_calls (e # h) w = (\<Union>v \<in> after_calls h w. effects e v)"

definition world_ok :: "world \<Rightarrow> bool" where
  "world_ok w \<longleftrightarrow> (case w of (m, E) \<Rightarrow> in_budget m \<and>
     (\<forall>n. worker_job_name m n \<in> E \<longrightarrow> sint n \<le> sint (attempts (status m)) \<or>
        n = attempts (status m) + 1 \<and> may_start (account_of m) \<and> (jobName (status m) = [] \<or> jobName (status m) \<notin> E)))"

text \<open>Replies that agree with a world on its worker Jobs.\<close>

definition shows_world :: "reconciler \<Rightarrow> world \<Rightarrow> bool" where
  "shows_world r w \<longleftrightarrow> (case w of (m, E) \<Rightarrow>
     (\<forall>h u n j. get_job_reply r h u (worker_job_name m n) = Inr j \<longrightarrow>
        j_name j = worker_job_name m n \<and> worker_job_name m n \<in> E) \<and>
     (\<forall>h u n e. get_job_reply r h u (worker_job_name m n) = Inl e \<longrightarrow> is_not_found e \<longrightarrow> worker_job_name m n \<notin> E))"

text \<open>
  Others may change anything but the fields of the budget in the status and the name. The limit may
  be raised and lowered up to the cap, also below what is already counted; only while a worker
  exists that the status does not record yet, it must stay above the attempts counted so far,
  because the next pass records that worker whatever the limit says.
\<close>

definition edited :: "int \<Rightarrow> string set \<Rightarrow> migration \<Rightarrow> migration \<Rightarrow> bool" where
  "edited cap E m m' \<longleftrightarrow> attempts (status m') = attempts (status m) \<and> exemptAttempts (status m') = exemptAttempts (status m) \<and>
     jobName (status m') = jobName (status m) \<and> retryGate (status m') = retryGate (status m) \<and>
     m_name m' = m_name m \<and> 0 \<le> sint (backoffLimit (spec m')) \<and> sint (backoffLimit (spec m')) \<le> cap \<and>
     (worker_job_name m (attempts (status m) + 1) \<in> E \<longrightarrow> \<not> budgetSpent m')"

inductive world_step :: "int \<Rightarrow> world \<Rightarrow> world \<Rightarrow> bool" for cap where
  pass: "echoes r \<Longrightarrow> shows_world r (m, E) \<Longrightarrow> fetched r s = Inr m \<Longrightarrow> tr s = [] \<Longrightarrow>
    sint (attempts (status m)) < 2 ^ 31 - 1 \<Longrightarrow> tr (snd (Reconcile r key s)) = later @ h \<Longrightarrow>
    w \<in> after_calls h (m, E) \<Longrightarrow> world_step cap (m, E) w"
| edit: "edited cap E m m' \<Longrightarrow> world_step cap (m, E) (m', E)"
| vanish: "E' \<subseteq> E \<Longrightarrow> world_step cap (m, E) (m, E')"

section \<open>What a world depends on\<close>

lemma world_ok_account:
  assumes "world_ok (m, E)" and "account_of m' = account_of m" and "E' \<subseteq> E"
  shows "world_ok (m', E')"
proof -
  have "in_budget m \<Longrightarrow> in_budget m'"
    using status_current_account [OF assms(2)] budget_of_account [OF assms(2)] account_fields [OF assms(2)]
    by (simp add: in_budget_def)
  then show ?thesis
    using assms(1,3) unfolding world_ok_def prod.case worker_job_name_account [OF assms(2)] account_fields [OF assms(2)] assms(2)
    by blast
qed

definition good :: "string set \<Rightarrow> account \<Rightarrow> bool" where
  "good E a \<longleftrightarrow> (\<forall>m. account_of m = a \<longrightarrow> world_ok (m, E))"

lemma good_account: "good E (account_of m) \<longleftrightarrow> world_ok (m, E)"
  unfolding good_def using world_ok_account by blast

lemma good_mono: "good E a \<Longrightarrow> E' \<subseteq> E \<Longrightarrow> good E' a"
  unfolding good_def using world_ok_account by blast

text \<open>Worlds whose Migration has an account in \<open>A\<close>, and no Job outside \<open>E\<close>.\<close>

definition within :: "account set \<Rightarrow> string set \<Rightarrow> world \<Rightarrow> bool" where
  "within A E w \<longleftrightarrow> account_of (fst w) \<in> A \<and> snd w \<subseteq> E"

lemma within_good:
  assumes "within A E w" and "\<And>a. a \<in> A \<Longrightarrow> good E a"
  shows "world_ok w"
  using assms(1) good_mono [OF assms(2)] good_account by (cases w) (auto simp: within_def)

lemma effects_within:
  assumes "creating no_worker e" and "\<And>m. m \<in> set (sent [e]) \<Longrightarrow> account_of m \<in> A" and "within A E w" and "v \<in> effects e w"
  shows "within A E v"
  using assms by (cases w; cases e) (auto simp: effects_def within_def creating_def split: sum.splits if_splits)

lemma create_within:
  assumes "within A E w" and "A \<subseteq> B" and "v \<in> effects (CreateJob j res) w"
  shows "within B (insert (j_name j) E) v"
  using assms by (cases w) (auto simp: effects_def within_def split: sum.splits if_splits)

section \<open>Triples on a pass in its world\<close>

text \<open>Every world the history passed through is fine.\<close>

definition always :: "world \<Rightarrow> trace \<Rightarrow> bool" where
  "always w h \<longleftrightarrow> (\<forall>later h'. h = later @ h' \<longrightarrow> (\<forall>v \<in> after_calls h' w. world_ok v))"

lemma always_Cons: "always w (e # h) \<longleftrightarrow> always w h \<and> (\<forall>v \<in> after_calls (e # h) w. world_ok v)"
  unfolding always_def by (auto simp: Cons_eq_append_conv simp del: after_calls.simps)

lemma sent_append: "sent (new @ h) = sent new @ sent h"
  by (induction new rule: sent.induct) auto

lemma always_append:
  assumes "always w h" and "\<forall>v \<in> after_calls h w. within A E v" and "list_all (creating no_worker) new"
    and "\<And>m. m \<in> set (sent new) \<Longrightarrow> account_of m \<in> A" and "\<And>a. a \<in> A \<Longrightarrow> good E a"
  shows "always w (new @ h) \<and> (\<forall>v \<in> after_calls (new @ h) w. within A E v)"
  using assms(3,4)
proof (induction new)
  case Nil
  then show ?case using assms(1,2) by simp
next
  case (Cons e new)
  have e: "sent (e # new) = sent [e] @ sent new" using sent_append [of "[e]" new] by simp
  have "\<forall>v \<in> after_calls (e # new @ h) w. within A E v"
    using Cons e effects_within [of e A E] by auto
  moreover have "always w (new @ h)" using Cons e by auto
  ultimately show ?case using within_good [where A = A, OF _ assms(5)] by (simp add: always_Cons del: after_calls.simps)
qed

definition guards :: "world \<Rightarrow> (pass \<Rightarrow> bool) \<Rightarrow> 'a act \<Rightarrow> ('a \<Rightarrow> pass \<Rightarrow> bool) \<Rightarrow> bool" where
  "guards w P f Q \<longleftrightarrow> (\<forall>s x t. always w (tr s) \<longrightarrow> P s \<longrightarrow> f s = (x, t) \<longrightarrow>
     always w (tr t) \<and> (\<forall>y. x = Inr y \<longrightarrow> Q y t))"

lemma guardsI:
  "(\<And>s x t. always w (tr s) \<Longrightarrow> P s \<Longrightarrow> f s = (x, t) \<Longrightarrow> always w (tr t) \<and> (\<forall>y. x = Inr y \<longrightarrow> Q y t)) \<Longrightarrow> guards w P f Q"
  by (simp add: guards_def)

lemma guardsD:
  "guards w P f Q \<Longrightarrow> always w (tr s) \<Longrightarrow> P s \<Longrightarrow> f s = (x, t) \<Longrightarrow> always w (tr t) \<and> (\<forall>y. x = Inr y \<longrightarrow> Q y t)"
  unfolding guards_def by blast

lemma guards_weaken:
  "guards w P f Q \<Longrightarrow> (\<And>s. P' s \<Longrightarrow> P s) \<Longrightarrow> (\<And>y s. Q y s \<Longrightarrow> Q' y s) \<Longrightarrow> guards w P' f Q'"
  unfolding guards_def by blast

lemma guards_bnd:
  assumes "guards w P f Q" and "\<And>x. guards w (Q x) (k x) R"
  shows "guards w P (bnd f k) R"
proof (rule guardsI)
  fix s x t
  assume s: "always w (tr s)" "P s" and run: "bnd f k s = (x, t)"
  obtain y u where f: "f s = (y, u)" by fastforce
  note u = guardsD [OF assms(1) s f]
  show "always w (tr t) \<and> (\<forall>y. x = Inr y \<longrightarrow> R y t)"
  proof (cases y)
    case (Inl e)
    then show ?thesis using run f u by (auto simp: bnd_def)
  next
    case (Inr v)
    then show ?thesis using run f u guardsD [OF assms(2), of u v] by (simp add: bnd_def)
  qed
qed

lemma guards_seq: "guards w P f (\<lambda>_. Q) \<Longrightarrow> guards w Q g R \<Longrightarrow> guards w P (seq f g) R"
  unfolding seq_def by (rule guards_bnd)

lemma guards_with_m: "(\<And>m. guards w (\<lambda>s. P s \<and> mig s = m) (k m) Q) \<Longrightarrow> guards w P (with_m k) Q"
  unfolding guards_def with_m_def by blast

lemma guards_ret: "(\<And>s. P s \<Longrightarrow> Q x s) \<Longrightarrow> guards w P (ret x) Q"
  by (rule guardsI) (auto simp: ret_def)

lemma guards_raise: "guards w P (raise e) Q"
  by (rule guardsI) (auto simp: raise_def)

lemma guards_attempt: "guards w P f Q \<Longrightarrow> guards w P (attempt f) (\<lambda>res t. \<forall>y. res = Inr y \<longrightarrow> Q y t)"
  unfolding guards_def attempt_def by (auto split: prod.splits)

lemma guards_if:
  "(b \<Longrightarrow> guards w P f Q) \<Longrightarrow> (\<not> b \<Longrightarrow> guards w P g Q) \<Longrightarrow> guards w P (if b then f else g) Q"
  by simp

lemma guards_when:
  "guards w P f (\<lambda>_. Q) \<Longrightarrow> guards w P (ret ()) (\<lambda>_. Q) \<Longrightarrow> guards w P (do_when b f) (\<lambda>_. Q)"
  by (simp add: do_when_def)

lemma guards_pre: "(b \<Longrightarrow> guards w P f Q) \<Longrightarrow> guards w (\<lambda>s. P s \<and> b) f Q"
  unfolding guards_def by blast

section \<open>Assertions\<close>

text \<open>The pass works on the account \<open>a\<close> and so do its worlds; or it works on some good account.\<close>

definition working :: "world \<Rightarrow> account set \<Rightarrow> pass \<Rightarrow> bool" where
  "working w A s \<longleftrightarrow> advances (fst w) (mig s) \<and> account_of (mig s) \<in> A \<and> (\<forall>a \<in> A. good (snd w) a) \<and>
     (\<forall>v \<in> after_calls (tr s) w. within A (snd w) v)"

lemma no_worker_new:
  assumes "makes no_worker f" and "f s = (x, t)"
  obtains new where "tr t = new @ tr s" and "list_all (creating no_worker) new"
  using keepsD [OF assms] by (auto simp: only_def)

lemma always_start: "always w h \<Longrightarrow> world_ok w"
  unfolding always_def by (drule spec [of _ h], drule spec [of _ "[]"]) simp

lemma working_budget: "always (m, E) (tr s) \<Longrightarrow> working (m, E) A s \<Longrightarrow> in_budget m \<and> in_budget (mig s)"
  using advances_in_budget by (auto dest!: always_start simp: world_ok_def working_def)

lemma guards_quiet:
  assumes "keeps (quiet True) f" and "makes no_worker f"
  shows "guards (m, E) (\<lambda>s. working (m, E) A s \<and> P (account_of (mig s))) f
    (\<lambda>_ s. working (m, E) A s \<and> P (account_of (mig s)))"
proof (rule guardsI, elim conjE)
  fix s x t
  assume s: "always (m, E) (tr s)" "working (m, E) A s" "P (account_of (mig s))" and run: "f s = (x, t)"
  have q: "quiet True s t" using assms(1) run by (rule keepsD)
  obtain new where new: "tr t = new @ tr s" "list_all (creating no_worker) new"
    using no_worker_new [OF assms(2) run] .
  have "account_of m' \<in> A" if "m' \<in> set (sent new)" for m'
    using q s(2) that by (auto simp: quiet_def new sent_append working_def)
  with always_append [OF s(1) _ new(2), of A E] s(2) have "always (m, E) (tr t) \<and> (\<forall>v \<in> after_calls (tr t) (m, E). within A E v)"
    by (simp add: new(1) working_def)
  moreover have "advances (mig s) (mig t)"
    using quiet_budgeted [OF _ q] working_budget [OF s(1,2)] by (simp add: budgeted_def)
  ultimately show "always (m, E) (tr t) \<and> (\<forall>y. x = Inr y \<longrightarrow> working (m, E) A t \<and> P (account_of (mig t)))"
    using s(2,3) q advances_trans by (auto simp: working_def quiet_def)
qed

lemma guards_still:
  assumes "keeps (quiet True) f" and "makes no_worker f"
  shows "guards (m, E) (working (m, E) A) f (\<lambda>_. working (m, E) A)"
  using guards_quiet [OF assms, where P = "\<lambda>_. True"] by simp

lemma working_mono:
  "working w A s \<Longrightarrow> A \<subseteq> B \<Longrightarrow> (\<And>a. a \<in> B \<Longrightarrow> good (snd w) a) \<Longrightarrow> working w B s"
  unfolding working_def within_def by blast

section \<open>While no Job of the next attempt exists\<close>

lemma steps_attempts: "budget_step\<^sup>*\<^sup>* b c \<Longrightarrow> bg_attempts b \<le> bg_attempts c"
  by (induction rule: rtranclp_induct) (auto elim!: budget_stepE)

lemma advances_attempts: "advances m m' \<Longrightarrow> sint (attempts (status m)) \<le> sint (attempts (status m'))"
  by (auto simp: advances_def budget_of_def dest: steps_attempts)

lemma advances_name: "advances m m' \<Longrightarrow> worker_job_name m' n = worker_job_name m n"
  by (simp add: advances_def worker_job_name_def)

abbreviation next_worker :: "migration \<Rightarrow> string" where
  "next_worker m \<equiv> worker_job_name m (attempts (status m) + 1)"

lemma late_good:
  assumes "world_ok (m, E)" and "next_worker m \<notin> E" and "advances m m'"
  shows "good E (account_of m')"
  using assms(1,2) advances_in_budget [OF _ assms(3)] advances_attempts [OF assms(3)]
  unfolding good_account world_ok_def prod.case advances_name [OF assms(3)] by (metis order_trans)

lemma guards_late:
  assumes "accounts P f Q" and "makes no_worker f" and "next_worker m \<notin> E"
  shows "guards (m, E) (\<lambda>s. working (m, E) (Collect (good E)) s \<and> P (account_of (mig s))) f
    (\<lambda>y s. working (m, E) (Collect (good E)) s \<and> Q y (account_of (mig s)))"
proof (rule guardsI, elim conjE)
  fix s x t
  assume s: "always (m, E) (tr s)" "working (m, E) (Collect (good E)) s" "P (account_of (mig s))" and run: "f s = (x, t)"
  have adv: "advances m (mig s)" using s(2) by (simp add: working_def)
  have b: "budgeted s t" and post: "\<forall>y. x = Inr y \<longrightarrow> Q y (account_of (mig t))"
    using accountsD [OF assms(1) _ s(3) run] working_budget [OF s(1,2)] by blast+
  obtain new where new: "tr t = new @ tr s" "list_all (creating no_worker) new"
    using no_worker_new [OF assms(2) run] .
  note fine = late_good [OF always_start [OF s(1)] assms(3)]
  have "account_of m' \<in> Collect (good E)" if "m' \<in> set (sent new)" for m'
    using b that fine advances_trans [OF adv] by (auto simp: budgeted_def new sent_append)
  with always_append [OF s(1) _ new(2), of "Collect (good E)" E] s(2)
  have "always (m, E) (tr t) \<and> (\<forall>v \<in> after_calls (tr t) (m, E). within (Collect (good E)) E v)"
    by (simp add: new(1) working_def)
  moreover have "advances m (mig t)" using b advances_trans [OF adv] by (simp add: budgeted_def)
  ultimately show "always (m, E) (tr t) \<and> (\<forall>y. x = Inr y \<longrightarrow>
      working (m, E) (Collect (good E)) t \<and> Q y (account_of (mig t)))"
    using post fine by (simp add: working_def)
qed

section \<open>Recording and creating a worker\<close>

lemma guards_recordAttempt:
  assumes "echoes r" and "sint (attempts (status m)) < 2 ^ 31 - 1"
  shows "guards (m, E) (\<lambda>s. advances m (mig s) \<and> attempts (status (mig s)) = attempts (status m) \<and>
      may_start (account_of (mig s)) \<and>
      (\<forall>v \<in> after_calls (tr s) (m, E). within (Collect (good (insert (next_worker m) E))) (insert (next_worker m) E) v))
    (recordAttempt r (next_worker m) announce) (\<lambda>_ _. True)"
proof (rule guardsI, elim conjE)
  let ?E = "insert (next_worker m) E"
  fix s x t
  assume s: "always (m, E) (tr s)" "advances m (mig s)" "attempts (status (mig s)) = attempts (status m)"
      "may_start (account_of (mig s))" "\<forall>v \<in> after_calls (tr s) (m, E). within (Collect (good ?E)) ?E v"
    and run: "recordAttempt r (next_worker m) announce s = (x, t)"
  have ok: "world_ok (m, E)" using s(1) by (rule always_start)
  then have b: "in_budget (mig s)" using advances_in_budget [OF _ s(2)] by (simp add: world_ok_def)
  have "ac_attempts (account_of (mig s)) = attempts (status m) \<and> may_start (account_of (mig s)) \<and>
      worker_of (account_of (mig s)) = next_worker m"
    using s(3,4) worker_of_account [of "mig s"] advances_name [OF s(2)] by (simp add: account_of_def)
  from accountsD [OF accounts_recordAttempt [OF assms] b this run]
  have "budgeted s t" by blast
  moreover obtain m1 where m1: "sent (tr t) = m1 # sent (tr s)" "attempts (status m1) = attempts (status m) + 1"
    using recordAttempt_sends [of r "next_worker m" announce s] run s(3) by (auto simp: account_of_def started_def)
  ultimately have adv: "advances m m1" using advances_trans [OF s(2)] by (auto simp: budgeted_def)
  have "sint (attempts (status m) + 1) = sint (attempts (status m)) + 1" using assms(2) by (rule sint32_succ)
  moreover have "in_budget m1" using ok advances_in_budget [OF _ adv] by (simp add: world_ok_def)
  ultimately have "good ?E (account_of m1)"
    using ok m1(2) unfolding good_account world_ok_def prod.case advances_name [OF adv] by (auto simp: worker_job_name_inj)
  moreover obtain new where new: "tr t = new @ tr s" "list_all (creating no_worker) new"
    using no_worker_new [OF makes_recordAttempt run] .
  ultimately show "always (m, E) (tr t) \<and> (\<forall>y. x = Inr y \<longrightarrow> True)"
    using always_append [OF s(1,5) new(2)] m1(1) by (simp add: new(1) sent_append)
qed

lemma may_start_good:
  assumes "world_ok (m, E)" and "account_of m' = a" and "advances m m'" and "may_start a"
    and "ac_attempts a = attempts (status m)" and "ac_job a = [] \<or> ac_job a \<notin> E"
  shows "good (insert (next_worker m) E) a"
proof -
  have att: "attempts (status m') = attempts (status m)" using assms(2,5) by (auto simp: account_of_def)
  have "status_current m'" using assms(3) by (simp add: advances_def)
  moreover have "jobName (status m') = ac_job a" using assms(2) by (auto simp: account_of_def)
  ultimately have "ac_job a = [] \<or> ac_job a = worker_job_name m (attempts (status m))"
    using att advances_name [OF assms(3)] by (auto simp: status_current_def)
  then have "ac_job a = [] \<or> ac_job a \<notin> insert (next_worker m) E"
    using assms(6) by (auto simp: worker_job_name_inj)
  then have "world_ok (m', insert (next_worker m) E)"
    using assms(1,4) assms(2) advances_in_budget [OF _ assms(3)]
    unfolding world_ok_def prod.case advances_name [OF assms(3)] att assms(2) \<open>jobName (status m') = ac_job a\<close>
    by (auto simp: worker_job_name_inj)
  then show ?thesis using good_account assms(2) by metis
qed

lemma guards_create_worker:
  assumes "echoes r" and "sint (attempts (status m)) < 2 ^ 31 - 1" and "may_start a"
    and "ac_attempts a = attempts (status m)" and "ac_job a = [] \<or> ac_job a \<notin> E"
  shows "guards (m, E) (working (m, E) {a}) (create_worker r (attempts (status m) + 1)) (\<lambda>_ _. True)"
proof -
  let ?E = "insert (next_worker m) E"
  let ?P = "\<lambda>s. advances m (mig s) \<and> attempts (status (mig s)) = attempts (status m) \<and>
      may_start (account_of (mig s)) \<and> (\<forall>v \<in> after_calls (tr s) (m, E). within (Collect (good ?E)) ?E v)"
  have owner: "guards (m, E) (working (m, E) {a}) (set_owner r n) (\<lambda>_. working (m, E) {a})" for n
    by (rule guards_still) (intro quiet_intros keeps_intros)+
  have create: "guards (m, E) (working (m, E) {a}) (attempt (create_job r j)) (\<lambda>_. ?P)" if name: "j_name j = next_worker m" for j
  proof (rule guardsI)
    fix s x t
    assume s: "always (m, E) (tr s)" "working (m, E) {a} s" and run: "attempt (create_job r j) s = (x, t)"
    obtain res where t: "t = s\<lparr>tr := CreateJob j res # tr s\<rparr>"
      using run by (auto simp: attempt_def create_job_def call_def)
    have g: "good ?E a"
      using may_start_good [OF always_start [OF s(1)] _ _ assms(3-5), of "mig s"] s(2) by (simp add: working_def)
    have "within (Collect (good ?E)) ?E v" if v: "v \<in> after_calls (tr t) (m, E)" for v
    proof -
      obtain v0 where "v0 \<in> after_calls (tr s) (m, E)" "v \<in> effects (CreateJob j res) v0" using v by (auto simp: t)
      then show ?thesis using create_within [of "{a}" E v0 "Collect (good ?E)" v j res] s(2) g by (auto simp: working_def name)
    qed
    then have "\<forall>v \<in> after_calls (tr t) (m, E). within (Collect (good ?E)) ?E v" by blast
    moreover from this have "always (m, E) (tr t)"
      using s(1) within_good [of "Collect (good ?E)" ?E] by (simp add: t always_Cons del: after_calls.simps)
    ultimately show "always (m, E) (tr t) \<and> (\<forall>y. x = Inr y \<longrightarrow> ?P t)"
      using s(2) assms(3,4) by (auto simp: t working_def account_of_def simp del: after_calls.simps)
  qed
  show ?thesis
    unfolding create_worker_def
  proof (rule guards_with_m)
    fix m1
    show "guards (m, E) (\<lambda>s. working (m, E) {a} s \<and> mig s = m1)
        (bnd (lift_sum (buildJob (snapshotLost r m1) m1 (RunnerImage r) (attempts (status m) + 1))) (\<lambda>j.
       seq (set_owner r (j_name j))
         (bnd (attempt (create_job r j)) (\<lambda>made. case made of
            Inr u \<Rightarrow> recordAttempt r (j_name j) True
          | Inl e \<Rightarrow> if is_already_exists e then recordAttempt r (j_name j) False else raise e)))) (\<lambda>_ _. True)"
    proof (cases "buildJob (snapshotLost r m1) m1 (RunnerImage r) (attempts (status m) + 1)")
      case (Inl e)
      then show ?thesis by (auto intro!: guardsI simp: lift_sum_def bnd_def)
    next
      case (Inr j)
      show ?thesis
      proof (cases "worker_job_name m1 = worker_job_name m")
        case True
        then have name: "j_name j = next_worker m" using built_names(1) [OF Inr] by simp
        have "guards (m, E) (working (m, E) {a}) (seq (set_owner r (j_name j))
         (bnd (attempt (create_job r j)) (\<lambda>made. case made of
            Inr u \<Rightarrow> recordAttempt r (j_name j) True
          | Inl e \<Rightarrow> if is_already_exists e then recordAttempt r (j_name j) False else raise e))) (\<lambda>_ _. True)"
          unfolding name
          by (rule guards_seq [OF owner guards_bnd [OF create [OF name]]])
            (auto split: sum.split intro!: guards_raise guards_recordAttempt [OF assms(1,2)])
        then show ?thesis
          by (auto simp: Inr lift_sum_def bnd_def [of "\<lambda>s. (Inr j, s)"] elim: guards_weaken)
      next
        case False
        then show ?thesis
          using advances_name [of m m1] by (auto simp: guards_def working_def)
      qed
    qed
  qed
qed

section \<open>Settling the budget\<close>

lemma settleBudget_agrees:
  assumes "settleBudget r s = (Inr False, t)" and "echoes r" and "v \<in> after_calls (tr t) w"
  shows "\<exists>v0 \<in> after_calls (tr s) w. account_of (fst v) = account_of (mig t) \<and> snd v = snd v0"
proof -
  have locked: "\<exists>g base m. tr t = Gauges g # PatchStatus True base m (Inr (mig t)) # tr u \<and> account_of (mig t) = account_of m"
    if "patchStatusLocked r u = (Inr (), t)" for u
    using that assms(2) unfolding patchStatusLocked_def gauges_def by (auto simp: run_simps echoes_def)
  obtain m1 where "patchStatusLocked r (s\<lparr>mig := m1\<rparr>) = (Inr (), t)"
    using assms(1) unfolding settleBudget_def seq_set_status by (auto simp: run_simps)
  from locked [OF this] assms(3) show ?thesis by (force simp: effects_def)
qed

lemma guards_settleBudget:
  assumes "echoes r" and "next_worker m \<notin> E"
  shows "guards (m, E) (\<lambda>s. working (m, E) (Collect (good E)) s \<and> place (account_of (mig s)) = p) (settleBudget r)
    (\<lambda>failed s. \<not> failed \<longrightarrow> working (m, E) {account_of (mig s)} s \<and> may_start (account_of (mig s)) \<and> place (account_of (mig s)) = p)"
proof (rule guardsI)
  fix s x t
  assume s: "always (m, E) (tr s)" "working (m, E) (Collect (good E)) s \<and> place (account_of (mig s)) = p"
    and run: "settleBudget r s = (x, t)"
  note late = guardsD [OF guards_late [OF accounts_settleBudget [OF assms(1)] makes_settleBudget assms(2)] s run]
  have "working (m, E) {account_of (mig t)} t" if x: "x = Inr False"
  proof -
    have "within {account_of (mig t)} E v" if v: "v \<in> after_calls (tr t) (m, E)" for v
      using settleBudget_agrees [OF _ assms(1) v, of s] run x s(2) by (auto simp: working_def within_def)
    then show ?thesis using late x by (auto simp: working_def)
  qed
  then show "always (m, E) (tr t) \<and> (\<forall>y. x = Inr y \<longrightarrow> \<not> y \<longrightarrow> working (m, E) {account_of (mig t)} t \<and>
      may_start (account_of (mig t)) \<and> place (account_of (mig t)) = p)"
    using late by auto
qed

lemma guards_gate_and_settle:
  assumes "echoes r" and "sint (attempts (status m)) < 2 ^ 31 - 1" and "next_worker m \<notin> E"
    and "jobName (status m) = [] \<or> jobName (status m) \<notin> E"
  shows "guards (m, E) (\<lambda>s. working (m, E) (Collect (good E)) s \<and> place (account_of (mig s)) = place (account_of m))
    (gate_and_settle r (attempts (status m) + 1)) (\<lambda>_ _. True)"
proof -
  have gate: "makes no_worker (retryGate_pass r n)" for n
    by (intro makes_retryGate) (rule others_no_worker)
  have create: "guards (m, E) (\<lambda>s. \<not> failed \<longrightarrow> working (m, E) {account_of (mig s)} s \<and> may_start (account_of (mig s)) \<and>
      place (account_of (mig s)) = place (account_of m))
    (if failed then ret Done else create_worker r (attempts (status m) + 1)) (\<lambda>_ _. True)" for failed
  proof (cases failed)
    case False
    have "guards (m, E) (working (m, E) {a}) (create_worker r (attempts (status m) + 1)) (\<lambda>_ _. True)"
      if "may_start a" "place a = place (account_of m)" for a
      using that assms(4) by (intro guards_create_worker assms(1,2)) (simp_all add: place_def account_of_def)
    then show ?thesis using False by (simp add: guards_def) blast
  qed (simp add: guards_ret)
  show ?thesis
    unfolding gate_and_settle_def
    by (rule guards_bnd [OF guards_late [OF accounts_retryGate [OF assms(1)] gate assms(3)]])
      (auto split: prod.split intro!: guards_ret guards_bnd [OF guards_settleBudget [OF assms(1,3)] create])
qed

section \<open>The attempt\<close>

definition pass_in :: "reconciler \<Rightarrow> migration \<Rightarrow> string set \<Rightarrow> bool" where
  "pass_in r m E \<longleftrightarrow> echoes r \<and> shows_world r (m, E) \<and> sint (attempts (status m)) < 2 ^ 31 - 1"

abbreviation alone :: "migration \<Rightarrow> string set \<Rightarrow> pass \<Rightarrow> bool" where
  "alone m E \<equiv> working (m, E) {account_of m}"

lemma alone_good: "always (m, E) (tr s) \<Longrightarrow> alone m E s \<Longrightarrow> working (m, E) (Collect (good E)) s \<and> account_of (mig s) = account_of m"
  by (auto simp: working_def within_def)

lemma guards_unrecorded_worker:
  assumes "shows_world r (m, E)"
  shows "guards (m, E) (alone m E) (unrecorded_worker r (attempts (status m) + 1))
    (\<lambda>jo s. alone m E s \<and> (case jo of Some j \<Rightarrow> j_name j = next_worker m \<and> next_worker m \<in> E
       | None \<Rightarrow> 1 < sint (attempts (status m) + 1) \<longrightarrow> next_worker m \<notin> E))"
proof (rule guardsI)
  fix s x t
  assume s: "always (m, E) (tr s)" "alone m E s" and run: "unrecorded_worker r (attempts (status m) + 1) s = (x, t)"
  have still: "guards (m, E) (alone m E) (unrecorded_worker r (attempts (status m) + 1)) (\<lambda>_. alone m E)"
    unfolding unrecorded_worker_def by (rule guards_still) (intro quiet_intros keeps_intros)+
  have "account_of (mig s) = account_of m" using s(2) by (simp add: working_def)
  then have "worker_job_name (mig s) n = worker_job_name m n" for n by (rule worker_job_name_account)
  then have "case jo of Some j \<Rightarrow> j_name j = next_worker m \<and> next_worker m \<in> E
       | None \<Rightarrow> 1 < sint (attempts (status m) + 1) \<longrightarrow> next_worker m \<notin> E" if "x = Inr jo" for jo
    using run that assms
    by (auto simp: unrecorded_worker_def with_m_def bnd_def attempt_def get_job_uncached_def call_def ret_def raise_def
        shows_world_def split: if_split_asm sum.split_asm)
  then show "always (m, E) (tr t) \<and> (\<forall>jo. x = Inr jo \<longrightarrow> alone m E t \<and>
      (case jo of Some j \<Rightarrow> j_name j = next_worker m \<and> next_worker m \<in> E
       | None \<Rightarrow> 1 < sint (attempts (status m) + 1) \<longrightarrow> next_worker m \<notin> E))"
    using guardsD [OF still s run] by blast
qed

lemma found_may_start:
  assumes "world_ok (m, E)" and "next_worker m \<in> E" and "sint (attempts (status m)) < 2 ^ 31 - 1"
  shows "may_start (account_of m)"
  using assms sint32_succ [OF assms(3)] by (fastforce simp: world_ok_def)

lemma guards_startAttempt:
  assumes "pass_in r m E" and "jobName (status m) = [] \<or> jobName (status m) \<notin> E"
  shows "guards (m, E) (alone m E) (startAttempt r) (\<lambda>_ _. True)"
  unfolding startAttempt_def
proof (rule guards_with_m)
  have r: "echoes r" "shows_world r (m, E)" "sint (attempts (status m)) < 2 ^ 31 - 1" using assms(1) by (simp_all add: pass_in_def)
  fix m1
  have fail: "guards (m, E) (alone m E) (seq (failBudget r) (finish r Done)) (\<lambda>_. alone m E)"
    by (rule guards_still) (intro quiet_intros keeps_intros r(1))+
  have found: "guards (m, E) (\<lambda>s. alone m E s \<and> j_name j = next_worker m \<and> next_worker m \<in> E)
      (recordAttempt r (j_name j) False) (\<lambda>_ _. True)" for j
  proof (rule guardsI, elim conjE)
    fix s x t
    assume s: "always (m, E) (tr s)" "alone m E s" and j: "j_name j = next_worker m" "next_worker m \<in> E"
      and run: "recordAttempt r (j_name j) False s = (x, t)"
    have "may_start (account_of m)" using found_may_start [OF always_start [OF s(1)] j(2) r(3)] .
    then have "advances m (mig s) \<and> attempts (status (mig s)) = attempts (status m) \<and> may_start (account_of (mig s)) \<and>
      (\<forall>v \<in> after_calls (tr s) (m, E). within (Collect (good (insert (next_worker m) E))) (insert (next_worker m) E) v)"
      using s(2) account_fields(1) [of "mig s" m] by (auto simp: working_def within_def insert_absorb [OF j(2)])
    from guardsD [OF guards_recordAttempt [OF r(1,3)] s(1) this run [unfolded j(1)]]
    show "always (m, E) (tr t) \<and> (\<forall>y. x = Inr y \<longrightarrow> True)" by simp
  qed
  show "guards (m, E) (\<lambda>s. alone m E s \<and> mig s = m1) (let n = attempts (status m1) + 1
      in bnd (unrecorded_worker r n) (\<lambda>jo. case jo of
           Some j \<Rightarrow> recordAttempt r (j_name j) False
         | None \<Rightarrow>
             if budget_final m1 then seq (failBudget r) (finish r Done)
             else if 1 < sint n then gate_and_settle r n
             else create_worker r n)) (\<lambda>_ _. True)"
  proof (cases "account_of m1 = account_of m")
    case same: True
    have n: "attempts (status m1) = attempts (status m)" using account_fields(1) [OF same] .
    have final: "budget_final m1 = budget_final m"
      unfolding budget_final_def onFailurePath_def undecided_def budgetSpent_account [OF same] account_fields [OF same] ..
    have none: "guards (m, E) (\<lambda>s. alone m E s \<and> (1 < sint (attempts (status m) + 1) \<longrightarrow> next_worker m \<notin> E))
        (if budget_final m then seq (failBudget r) (finish r Done)
         else if 1 < sint (attempts (status m) + 1) then gate_and_settle r (attempts (status m) + 1)
         else create_worker r (attempts (status m) + 1)) (\<lambda>_ _. True)"
    proof (intro guards_if)
      show "guards (m, E) (\<lambda>s. alone m E s \<and> (1 < sint (attempts (status m) + 1) \<longrightarrow> next_worker m \<notin> E))
          (seq (failBudget r) (finish r Done)) (\<lambda>_ _. True)"
        by (rule guards_weaken [OF fail]) simp_all
    next
      assume later: "1 < sint (attempts (status m) + 1)"
      show "guards (m, E) (\<lambda>s. alone m E s \<and> (1 < sint (attempts (status m) + 1) \<longrightarrow> next_worker m \<notin> E))
          (gate_and_settle r (attempts (status m) + 1)) (\<lambda>_ _. True)"
      proof (cases "next_worker m \<in> E")
        case False
        show ?thesis
          by (rule guards_weaken [OF guards_gate_and_settle [OF r(1,3) False assms(2)]])
            (auto simp: working_def within_def)
      qed (simp add: guards_def later)
    next
      assume first: "\<not> budget_final m" "\<not> 1 < sint (attempts (status m) + 1)"
      have "may_start (account_of m)" if "world_ok (m, E)"
      proof -
        have "retryGate (status m) = None" using that first_attempt_undecided [OF _ first(2) r(3)] by (simp add: world_ok_def)
        then show ?thesis using first(1) by (intro may_startI) (simp_all add: budget_final_def undecided_def verdict_undecided_iff)
      qed
      then show "guards (m, E) (\<lambda>s. alone m E s \<and> (1 < sint (attempts (status m) + 1) \<longrightarrow> next_worker m \<notin> E))
          (create_worker r (attempts (status m) + 1)) (\<lambda>_ _. True)"
        using guards_create_worker [OF r(1,3), of "account_of m" E] assms(2) always_start
        unfolding guards_def by (simp add: account_of_def)
    qed
    have "guards (m, E) (alone m E) (bnd (unrecorded_worker r (attempts (status m) + 1)) (\<lambda>jo. case jo of
           Some j \<Rightarrow> recordAttempt r (j_name j) False
         | None \<Rightarrow>
             if budget_final m then seq (failBudget r) (finish r Done)
             else if 1 < sint (attempts (status m) + 1) then gate_and_settle r (attempts (status m) + 1)
             else create_worker r (attempts (status m) + 1))) (\<lambda>_ _. True)"
      by (rule guards_bnd [OF guards_unrecorded_worker [OF r(2)]], rename_tac jo, case_tac jo)
        (simp_all only: option.case none found)
    then show ?thesis unfolding Let_def n final by (rule guards_weaken) simp_all
  next
    case False
    then show ?thesis by (auto simp: guards_def working_def)
  qed
qed

lemma guards_quiet_branch:
  assumes "keeps (quiet True) f" and "makes no_worker f"
  shows "guards (m, E) (alone m E) f (\<lambda>_ _. True)"
  by (rule guards_weaken [OF guards_still [OF assms]]) simp_all

lemma guards_then:
  assumes "keeps (quiet True) f" and "makes no_worker f" and "\<And>x. guards (m, E) (alone m E) (k x) Q"
  shows "guards (m, E) (alone m E) (bnd f k) Q"
  by (rule guards_bnd [OF guards_still [OF assms(1,2)] assms(3)])

lemma guards_seq_then:
  assumes "keeps (quiet True) f" and "makes no_worker f" and "guards (m, E) (alone m E) g Q"
  shows "guards (m, E) (alone m E) (seq f g) Q"
  unfolding seq_def by (rule guards_then [OF assms])

lemma guards_with_alone:
  "(\<And>m1. guards (m, E) (alone m E) (k m1) Q) \<Longrightarrow> guards (m, E) (alone m E) (with_m k) Q"
  unfolding guards_def with_m_def by blast

lemma guards_nextAttempt:
  assumes "pass_in r m E" and "jobName (status m) = [] \<or> jobName (status m) \<notin> E"
  shows "guards (m, E) (alone m E) (nextAttempt r) (\<lambda>_ _. True)"
proof -
  have r: "echoes r" using assms(1) by (simp add: pass_in_def)
  have ends: "guards (m, E) (alone m E) (finishClone r) (\<lambda>_ _. True)" "guards (m, E) (alone m E) (finishFollow r) (\<lambda>_ _. True)"
    by (intro guards_quiet_branch quiet_intros r makes_finishClone makes_finishFollow; erule others_no_worker)+
  show ?thesis
    unfolding nextAttempt_def
    by (rule guards_seq_then [OF quiet_cancelRehearsal makes_cancelRehearsal
          guards_then [OF quiet_reownJobExists makes_reownJobExists guards_with_alone]])
      (intro guards_if ends guards_startAttempt [OF assms])
qed

section \<open>The pass\<close>

definition observes :: "migration \<Rightarrow> string set \<Rightarrow> step \<Rightarrow> pass \<Rightarrow> bool" where
  "observes m E st s \<longleftrightarrow> (\<forall>n. st = ObserveWorker n \<longrightarrow> alone m E s)"

lemma observes_alone: "alone m E s \<Longrightarrow> observes m E st s"
  by (simp add: observes_def)

lemma guards_finished_step: "guards w P f (\<lambda>_ _. True) \<Longrightarrow> guards w P (finished_step f) (observes m E)"
  unfolding finished_step_def by (erule guards_bnd) (rule guards_ret, simp add: observes_def)

lemma guards_finished_quiet:
  "keeps (quiet True) f \<Longrightarrow> makes no_worker f \<Longrightarrow> guards (m, E) (alone m E) (finished_step f) (observes m E)"
  by (intro guards_finished_step guards_quiet_branch)

lemma makes_ends: "makes no_worker (worker_succeeded r)" "makes no_worker (preflightGate r)" "makes no_worker (reconcileDeletion r)"
    "makes no_worker (observeRunningJob r n start)"
proof -
  have finish: "makes no_worker (finishClone r)" "makes no_worker (finishFollow r)"
    by (intro makes_finishClone makes_finishFollow; erule others_no_worker)+
  show "makes no_worker (worker_succeeded r)"
    unfolding worker_succeeded_def by (intro keeps_intros finish)
qed (intro makes_preflightGate makes_reconcileDeletion makes_observeRunningJob; (erule others_no_worker | rule others_no_worker))+

lemma guards_handleFailedJob:
  assumes "pass_in r m E" and "jobName (status m) \<noteq> []" and "jobName (status m) \<in> E"
  shows "guards (m, E) (alone m E) (handleFailedJob r j) (\<lambda>_ _. True)"
proof (rule guardsI)
  fix s x t
  assume s: "always (m, E) (tr s)" "alone m E s" and run: "handleFailedJob r j s = (x, t)"
  have r: "echoes r" "sint (attempts (status m)) < 2 ^ 31 - 1" using assms(1) by (simp_all add: pass_in_def)
  have "next_worker m \<notin> E"
    using always_start [OF s(1)] assms(2,3) sint32_succ [OF r(2)] by (fastforce simp: world_ok_def)
  note late = guards_late [OF accounts_handleFailedJob [OF r(1)] makes_handleFailedJob this]
  have "working (m, E) (Collect (good E)) s \<and> ac_job (account_of (mig s)) \<noteq> []"
    using alone_good [OF s] assms(2) by (simp add: account_of_def)
  from guardsD [OF late s(1) this run] show "always (m, E) (tr t) \<and> (\<forall>y. x = Inr y \<longrightarrow> True)" by simp
qed

lemma guards_worker_step:
  assumes "pass_in r m E" and "status_current m"
  shows "guards (m, E) (alone m E) (worker_step r) (observes m E)"
  unfolding worker_step_def
proof (rule guards_with_m)
  have r: "echoes r" "shows_world r (m, E)" using assms(1) by (simp_all add: pass_in_def)
  fix m1
  show "guards (m, E) (\<lambda>s. alone m E s \<and> mig s = m1) (if jobName (status m1) = [] then finished_step (nextAttempt r)
     else bnd (attempt (get_job r (jobName (status m1)))) (\<lambda>res. case res of
         Inl e \<Rightarrow> if is_not_found e then finished_step (nextAttempt r) else raise e
       | Inr j \<Rightarrow>
           if fst (jobFinished j)
           then finished_step (if snd (jobFinished j) then worker_succeeded r else handleFailedJob r j)
           else ret (ObserveWorker (j_name j)))) (observes m E)"
  proof (cases "account_of m1 = account_of m")
    case same: True
    let ?job = "jobName (status m)"
    have job: "jobName (status m1) = ?job" using account_fields(3) [OF same] .
    have known: "?job = worker_job_name m (attempts (status m))" if "?job \<noteq> []"
      using assms(2) that by (simp add: status_current_def)
    let ?found = "\<lambda>res. ?job \<noteq> [] \<longrightarrow> (case res of Inl e \<Rightarrow> is_not_found e \<longrightarrow> ?job \<notin> E | Inr j \<Rightarrow> ?job \<in> E)"
    have get: "guards (m, E) (alone m E) (attempt (get_job r ?job)) (\<lambda>res s. alone m E s \<and> ?found res)"
    proof (rule guardsI)
      fix s x t
      assume s: "always (m, E) (tr s)" "alone m E s" and run: "attempt (get_job r ?job) s = (x, t)"
      have still: "guards (m, E) (alone m E) (attempt (get_job r ?job)) (\<lambda>_. alone m E)"
        by (rule guards_still) (intro quiet_intros keeps_intros only.keeps_attempt)+
      have "?found (get_job_reply r (tr s) False ?job)"
        using r(2) known unfolding shows_world_def by (auto split: sum.split)
      then show "always (m, E) (tr t) \<and> (\<forall>y. x = Inr y \<longrightarrow> alone m E t \<and> ?found y)"
        using guardsD [OF still s run] run by (auto simp: attempt_def get_job_def call_def)
    qed
    have next_: "?job = [] \<or> ?job \<notin> E \<Longrightarrow> guards (m, E) (alone m E) (finished_step (nextAttempt r)) (observes m E)"
      by (intro guards_finished_step guards_nextAttempt [OF assms(1)])
    have won: "guards (m, E) (alone m E) (finished_step (worker_succeeded r)) (observes m E)"
      by (intro guards_finished_quiet quiet_intros makes_ends r(1))
    have lost: "?job \<noteq> [] \<Longrightarrow> ?job \<in> E \<Longrightarrow> guards (m, E) (alone m E) (finished_step (handleFailedJob r j)) (observes m E)" for j
      by (intro guards_finished_step guards_handleFailedJob [OF assms(1)])
    have branch: "?job \<noteq> [] \<Longrightarrow> guards (m, E) (\<lambda>s. alone m E s \<and> ?found res) (case res of
         Inl e \<Rightarrow> if is_not_found e then finished_step (nextAttempt r) else raise e
       | Inr j \<Rightarrow>
           if fst (jobFinished j)
           then finished_step (if snd (jobFinished j) then worker_succeeded r else handleFailedJob r j)
           else ret (ObserveWorker (j_name j))) (observes m E)" for res
      by (rule guards_pre) (auto split: sum.split_asm intro!: guards_raise guards_ret observes_alone won next_ lost split: sum.split)
    have "guards (m, E) (alone m E) (if ?job = [] then finished_step (nextAttempt r)
     else bnd (attempt (get_job r ?job)) (\<lambda>res. case res of
         Inl e \<Rightarrow> if is_not_found e then finished_step (nextAttempt r) else raise e
       | Inr j \<Rightarrow>
           if fst (jobFinished j)
           then finished_step (if snd (jobFinished j) then worker_succeeded r else handleFailedJob r j)
           else ret (ObserveWorker (j_name j)))) (observes m E)"
      by (intro guards_if next_ guards_bnd [OF get branch]) simp_all
    then show ?thesis unfolding job by (rule guards_weaken) simp_all
  next
    case False
    then show ?thesis by (auto simp: guards_def working_def)
  qed
qed

lemma guards_suspended:
  assumes "echoes r"
  shows "guards (m, E) (alone m E) (reconcileSuspended r) (\<lambda>_ _. True)"
proof -
  let ?a = "account_of m"
  let ?A = "{?a, ?a\<lparr>ac_job := []\<rparr>}"
  let ?work = "\<lambda>m1. bnd (attempt (get_job r (jobName (status m1)))) (\<lambda>res. case res of
            Inl e \<Rightarrow> if is_not_found e then ret () else raise e
          | Inr j \<Rightarrow>
              seq (ignore_not_found (delete_job r Foreground (jobName (status m1))))
               (seq (event False ''Suspended'' ''Suspend'' ''worker Job deleted, work volume kept'')
                 (do_when (followEnabled m1) (event True ''SlotRetained'' ''Suspend''
                   ''the replication slot stays open while suspended and retains WAL on the source''))))"
  have cleared: "good E (?a\<lparr>ac_job := []\<rparr>)" if "world_ok (m, E)"
  proof -
    let ?m = "upd_status (\<lambda>st. st\<lparr>jobName := []\<rparr>) m"
    have acc: "account_of ?m = ?a\<lparr>ac_job := []\<rparr>" by (simp add: account_of_def)
    have "budget_step (budget_of m) (budget_of ?m)"
      using budget_step.stop [of "budget_of m"] by (simp add: budget_of_def)
    then have "in_budget ?m" using that by (auto simp: world_ok_def in_budget_def status_current_def intro: reachable.step)
    moreover have "may_start (account_of m) \<Longrightarrow> may_start (account_of ?m)"
      by (rule may_startI) (auto simp: may_start_def budgetSpent_def countedAttempts_def)
    ultimately have "world_ok (?m, E)" using that by (auto simp: world_ok_def worker_job_name_def)
    then show ?thesis using good_account acc by metis
  qed
  have clear: "guards (m, E) (alone m E) (set_status (\<lambda>st. st\<lparr>jobName := []\<rparr>)) (\<lambda>_. working (m, E) ?A)"
  proof (rule guardsI)
    fix s x t
    assume s: "always (m, E) (tr s)" "alone m E s" and run: "set_status (\<lambda>st. st\<lparr>jobName := []\<rparr>) s = (x, t)"
    have t: "t = s\<lparr>mig := upd_status (\<lambda>st. st\<lparr>jobName := []\<rparr>) (mig s)\<rparr>" using run by (simp add: set_status_ok)
    have "budget_step (budget_of (mig s)) (budget_of (mig t))"
      using budget_step.stop [of "budget_of (mig s)"] by (simp add: t budget_of_def)
    then have "advances (mig s) (mig t)"
      using working_budget [OF s] s(2) by (auto simp: t advances_def status_current_def working_def)
    moreover have "account_of (mig t) = ?a\<lparr>ac_job := []\<rparr>" using s(2) by (simp add: t working_def account_of_def)
    moreover have "within ?A E v" if "v \<in> after_calls (tr t) (m, E)" for v
      using s(2) that by (auto simp: t working_def within_def)
    ultimately show "always (m, E) (tr t) \<and> (\<forall>y. x = Inr y \<longrightarrow> working (m, E) ?A t)"
      using s cleared [OF always_start [OF s(1)]] advances_trans by (auto simp: t working_def)
  qed
  have worker: "guards (m, E) (alone m E) (suspend_worker r) (\<lambda>_. working (m, E) ?A)"
    unfolding suspend_worker_def
  proof (rule guards_with_alone)
    fix m1
    have "alone m E s \<Longrightarrow> always (m, E) (tr s) \<Longrightarrow> working (m, E) ?A s" for s
      using cleared always_start by (auto simp: working_def within_def)
    then have none: "guards (m, E) (alone m E) (ret ()) (\<lambda>_. working (m, E) ?A)"
      by (auto simp: guards_def ret_def)
    show "guards (m, E) (alone m E) (do_when (jobName (status m1) \<noteq> []) (seq (?work m1)
       (set_status (\<lambda>st. st\<lparr>jobName := []\<rparr>)))) (\<lambda>_. working (m, E) ?A)"
      by (rule guards_when [OF guards_seq_then [OF _ _ clear] none]) (intro quiet_intros keeps_intros)+
  qed
  have "keeps (quiet True) (seq (suspend_preflight r)
          (seq (suspend_reown r)
            (with_m (\<lambda>m. seq (deleteGateJob r (attempts (status m) + 1))
              (seq (endHold r ReasonHoldSuspended (''Attempt '' @ itoa (attempts (status m) + 1) @
                     '' waits for a resume: spec.suspend stopped the retry gate''))
                (seq (set_phase PhaseSuspended) (finish r Done)))))))" (is "keeps _ ?rest")
    unfolding suspend_preflight_def suspend_reown_def by (intro quiet_intros assms)
  moreover have "makes no_worker ?rest"
    unfolding suspend_preflight_def suspend_reown_def by (intro keeps_intros)
  ultimately have rest: "guards (m, E) (working (m, E) ?A) ?rest (\<lambda>_ _. True)"
    by (rule guards_weaken [OF guards_still]) simp_all
  show ?thesis
    unfolding reconcileSuspended_def
    by (rule guards_seq_then [OF quiet_cancelRehearsal makes_cancelRehearsal guards_seq [OF worker rest]])
qed

lemma guards_validated_step:
  assumes "pass_in r m E" and "status_current m"
  shows "guards (m, E) (alone m E) (validated_step r) (observes m E)"
proof -
  have r: "echoes r" using assms(1) by (simp add: pass_in_def)
  have dry: "guards (m, E) (alone m E) (finished_step (completeDryRun r)) (observes m E)"
    by (intro guards_finished_quiet quiet_intros keeps_intros r)
  have gated: "guards (m, E) (alone m E) (gated_step r) (observes m E)"
    unfolding gated_step_def
    by (rule guards_seq_then [OF quiet_setCondition only_setCondition guards_with_alone])
      (intro guards_if dry guards_worker_step [OF assms])
  have "guards (m, E) (alone m E) (case handled of Some res \<Rightarrow> ret (Finished res) | None \<Rightarrow> gated_step r) (observes m E)" for handled
    by (auto split: option.split intro!: gated guards_ret observes_alone)
  then show ?thesis
    unfolding validated_step_def
    by (intro guards_seq_then guards_then quiet_intros r keeps_intros makes_ends)
qed

lemma guards_handler:
  assumes "pass_in r m E" and "status_current m"
  shows "guards (m, E) (alone m E) (handler r m1) (observes m E)"
proof -
  have r: "echoes r" using assms(1) by (simp add: pass_in_def)
  have quiet: "guards (m, E) (alone m E) (finished_step (end_pass r)) (observes m E)"
      "guards (m, E) (alone m E) (finished_step (first_pass r)) (observes m E)"
      "guards (m, E) (alone m E) (finished_step (invalid_spec r msg)) (observes m E)"
      "guards (m, E) (alone m E) (finished_step (reconcileDeletion r)) (observes m E)" for msg
    by (intro guards_finished_quiet quiet_intros keeps_intros makes_ends r)+
  have live: "guards (m, E) (alone m E) (live_step r) (observes m E)"
    unfolding live_step_def
    by (rule guards_with_alone)
      (auto split: sum.split intro!: quiet guards_finished_step [OF guards_suspended [OF r]] guards_validated_step [OF assms])
  have "guards (m, E) (alone m E) (seq (stopSampling r) (finished_step (reconcileDeletion r))) (observes m E)"
    by (intro guards_seq_then quiet quiet_intros keeps_intros)
  with live show ?thesis by (simp add: handler_def)
qed

lemma always_now: "always w h \<Longrightarrow> v \<in> after_calls h w \<Longrightarrow> world_ok v"
  unfolding always_def by (drule spec [of _ "[]"], drule spec [of _ h]) simp

lemma always_neutral: "(\<And>v. effects e v = {v}) \<Longrightarrow> always w h \<Longrightarrow> always w (e # h)"
  using always_now by (auto simp: always_Cons)

lemma always_stopSampling: "always w (tr s) \<Longrightarrow> stopSampling r s = (x, t) \<Longrightarrow> always w (tr t)"
  by (auto simp: stopSampling_def do_when_def ret_def log_entry_def effects_def split: if_split_asm
      intro!: always_neutral)

lemma guards_after_step:
  assumes "echoes r"
  shows "guards (m, E) (\<lambda>s. \<forall>st. res = Inr st \<longrightarrow> observes m E st s) (after_step r start res) (\<lambda>_ _. True)"
proof -
  have stop: "guards (m, E) P (seq (stopSampling r) (raise e)) (\<lambda>_ _. True)"
      "guards (m, E) P (seq (stopSampling r) (ret y)) (\<lambda>_ _. True)" for P e and y :: result
    by (auto intro!: guardsI simp: seq_def bnd_def raise_def ret_def split: prod.split_asm sum.split_asm dest: always_stopSampling)
  have watch: "guards (m, E) (alone m E) (observeRunningJob r n start) (\<lambda>_ _. True)" for n
    by (intro guards_quiet_branch quiet_intros makes_ends assms)
  show ?thesis
    by (cases res; simp add: after_step_def)
      (auto split: step.split intro!: stop intro: guards_weaken [OF stop(1)] guards_weaken [OF watch] simp: observes_def)
qed

text \<open>A pass keeps its world fine, after every one of its calls.\<close>

lemma Reconcile_always:
  assumes "pass_in r m E" and "world_ok (m, E)" and "fetched r s = Inr m" and "tr s = []"
  shows "always (m, E) (tr (snd (Reconcile r key s)))"
proof -
  let ?s = "after_fetch r m s"
  have r: "echoes r" using assms(1) by (simp add: pass_in_def)
  have cur: "in_budget m" "status_current m" using assms(2) by (simp_all add: world_ok_def in_budget_def)
  have "always (m, E) []" using assms(2) by (simp add: always_def)
  then have start: "always (m, E) (tr ?s)"
    by (auto simp: after_fetch_def assms(4) effects_def intro!: always_neutral)
  have "alone m E ?s"
    using advances_refl [OF cur(1)] assms(2)
    by (simp add: working_def after_fetch_def assms(4) effects_def within_def good_account)
  moreover have "guards (m, E) (alone m E) (bnd (attempt (handler r m)) (after_step r (now_at r (tr s)))) (\<lambda>_ _. True)"
    by (rule guards_bnd [OF guards_attempt [OF guards_handler [OF assms(1) cur(2)]] guards_after_step [OF r]])
  ultimately have "always (m, E) (tr (snd (bnd (attempt (handler r m)) (after_step r (now_at r (tr s))) ?s)))"
    using guardsD [OF _ start _ prod.collapse [symmetric]] by blast
  then show ?thesis unfolding Reconcile_fetched [OF assms(3)] .
qed

section \<open>Sequences of passes\<close>

lemma edited_budget: "edited cap E m m' \<Longrightarrow> budget_of m' = (budget_of m)\<lparr>bg_limit := sint (backoffLimit (spec m'))\<rparr>"
  by (simp add: edited_def budget_of_def)

lemma edited_ok:
  assumes "edited cap E m m'" and "world_ok (m, E)" and "cap < 2 ^ 31 - 1"
  shows "world_ok (m', E)"
proof -
  have b: "in_budget m" using assms(2) by (simp add: world_ok_def)
  have lim: "0 \<le> sint (backoffLimit (spec m'))" "sint (backoffLimit (spec m')) < 2 ^ 31 - 1"
    using assms(1,3) by (simp_all add: edited_def)
  have "reachable (2 ^ 31 - 2) (budget_of m')"
    unfolding edited_budget [OF assms(1)] using b lim by (intro reachable.relimit) (simp_all add: in_budget_def)
  moreover have "status_current m'"
    using b assms(1) by (simp add: in_budget_def status_current_def edited_def worker_job_name_def)
  ultimately have "in_budget m'" using lim by (simp add: in_budget_def)
  moreover have "may_start (account_of m) \<Longrightarrow> worker_job_name m (attempts (status m) + 1) \<in> E \<Longrightarrow> may_start (account_of m')"
    using assms(1) by (intro may_startI) (auto simp: may_start_def edited_def)
  ultimately show ?thesis
    using assms(1,2) by (auto simp: world_ok_def edited_def worker_job_name_def)
qed

lemma world_step_ok: "world_step cap w w' \<Longrightarrow> cap < 2 ^ 31 - 1 \<Longrightarrow> world_ok w \<Longrightarrow> world_ok w'"
proof (induction rule: world_step.induct)
  case (pass r m E s key later h w)
  then have "always (m, E) (later @ h)"
    using Reconcile_always [of r m E s key] by (simp add: pass_in_def)
  then show ?case using pass(7) by (simp add: always_def)
next
  case (edit E m m')
  show ?case by (rule edited_ok [OF edit(1,3,2)])
next
  case (vanish E' E m)
  then show ?case using world_ok_account by blast
qed

text \<open>The Migration of a world is the stored one or one the pass sent, so its budget advanced.\<close>

lemma after_calls_sent: "v \<in> after_calls h (m, E) \<Longrightarrow> fst v = m \<or> fst v \<in> set (sent h)"
proof (induction h arbitrary: v)
  case (Cons e h)
  then obtain u where u: "u \<in> after_calls h (m, E)" "v \<in> effects e u" by auto
  have "fst v = fst u \<or> fst v \<in> set (sent [e])"
  proof (cases e)
    case (PatchStatus locked base m1 res)
    then show ?thesis using u(2) by (cases u; cases res) (auto simp: effects_def split: if_splits)
  next
    case (CreateJob j res)
    then show ?thesis using u(2) by (cases u; cases res) (auto simp: effects_def)
  next
    case (DeleteJob policy name res)
    then show ?thesis using u(2) by (cases u) (auto simp: effects_def)
  qed (use u(2) in \<open>cases u; simp add: effects_def\<close>)+
  moreover have "sent (e # h) = sent [e] @ sent h" using sent_append [of "[e]" h] by simp
  ultimately show ?case using Cons.IH [OF u(1)] by (metis Un_iff set_append)
qed simp

lemma recorded_in_world: "pass_in r m E \<Longrightarrow> world_ok (m, E) \<Longrightarrow> recorded_first r m"
  unfolding recorded_first_def pass_in_def shows_world_def using found_may_start by auto

lemma world_step_reachable:
  assumes "world_step cap w w'" and "world_ok w" and "reachable cap (budget_of (fst w))"
  shows "reachable cap (budget_of (fst w'))"
  using assms
proof (induction rule: world_step.induct)
  case (pass r m E s key later h w)
  have in_world: "pass_in r m E" using pass(1,2,5) by (simp add: pass_in_def)
  have "in_budget m" using pass(8) by (simp add: world_ok_def)
  from Reconcile_in_budget [OF pass(1) recorded_in_world [OF in_world pass(8)] pass(5) this pass(3,4), of key]
  have "\<forall>m' \<in> set (sent (later @ h)). advances m m'" unfolding pass(6) .
  then have "fst w = m \<or> advances m (fst w)" using after_calls_sent [OF pass(7)] by (auto simp: sent_append)
  then show ?case using pass(9) by (auto simp: advances_def intro: reachable_steps)
next
  case (edit E m m')
  then show ?case using edited_budget [OF edit(1)] by (auto simp: edited_def intro: reachable.relimit)
next
  case (vanish E' E m)
  then show ?case by simp
qed

lemma worlds_ok:
  assumes "(world_step cap)\<^sup>*\<^sup>* w w'" and "cap < 2 ^ 31 - 1" and "world_ok w" and "reachable cap (budget_of (fst w))"
  shows "world_ok w' \<and> reachable cap (budget_of (fst w'))"
  using assms(1)
proof (induction rule: rtranclp_induct)
  case base
  then show ?case using assms(3,4) by simp
next
  case (step u v)
  then show ?case using world_step_ok [OF step(2) assms(2)] world_step_reachable [OF step(2)] by blast
qed

text \<open>A Migration nobody worked on yet, with a limit up to the cap.\<close>

definition fresh_migration :: "int \<Rightarrow> migration \<Rightarrow> bool" where
  "fresh_migration cap m \<longleftrightarrow> budget_of m = new_budget (sint (backoffLimit (spec m))) \<and>
     0 \<le> sint (backoffLimit (spec m)) \<and> sint (backoffLimit (spec m)) \<le> cap"

lemma fresh_reachable: "fresh_migration cap m \<Longrightarrow> reachable cap (budget_of m)"
  using reachable.fresh [of "sint (backoffLimit (spec m))" cap] by (simp add: fresh_migration_def)

lemma fresh_world_ok: "fresh_migration cap m \<Longrightarrow> cap < 2 ^ 31 - 1 \<Longrightarrow> world_ok (m, {})"
  using fresh_reachable [of "2 ^ 31 - 2" m]
  by (simp add: fresh_migration_def world_ok_def in_budget_def status_current_def)
    (simp add: budget_of_def new_budget_def)

lemma world_ok_next:
  "world_ok (m, E) \<Longrightarrow> worker_job_name m n \<in> E \<Longrightarrow>
     sint n \<le> sint (attempts (status m)) \<or> n = attempts (status m) + 1 \<and> \<not> budgetSpent m"
  by (auto simp: world_ok_def may_start_def)

text \<open>A pass that created a worker and was cut right after: one of its worlds has the Job.\<close>

lemma effects_nonempty: "effects e w \<noteq> {}"
  by (cases w; cases e) (auto simp: effects_def split: sum.split)

lemma after_calls_nonempty: "after_calls h w \<noteq> {}"
  by (induction h) (auto simp: effects_nonempty)

lemma created_in_world:
  assumes "pass_in r m {}" and "fetched r s = Inr m" and "tr s = []"
    and "CreateJob j (Inr ()) \<in> set (tr (snd (Reconcile r key s)))" and "runs_clone j"
  shows "\<exists>m' E'. world_step cap (m, {}) (m', E') \<and> j_name j \<in> E'"
proof -
  obtain later h where tr: "tr (snd (Reconcile r key s)) = later @ CreateJob j (Inr ()) # h"
    using assms(4) by (meson split_list)
  obtain m1 E1 where "(m1, E1) \<in> after_calls h (m, {})" using after_calls_nonempty by fastforce
  then have "(m1, insert (j_name j) E1) \<in> after_calls (CreateJob j (Inr ()) # h) (m, {})"
    using assms(5) by (force simp: effects_def)
  then have "world_step cap (m, {}) (m1, insert (j_name j) E1)"
    using world_step.pass [of r m "{}" s key later "CreateJob j (Inr ()) # h"] assms(1,2,3) tr
    by (simp add: pass_in_def)
  then show ?thesis by blast
qed

end
