(* ===== verification/Sample_Worlds.thy ===== *)
theory Sample_Worlds
  imports Sample_Cluster Budget_World
begin

text \<open>
  A concrete world: the new Migration of \<open>Sample_Cluster\<close> in the cluster whose preflight is done. One pass
  creates its first worker.
\<close>

lemma sample_fresh: "fresh_migration 5 sample_migration"
  by (simp add: fresh_migration_def budget_of_def new_budget_def sample_migration_def sample_spec_def empty_status_def)

lemma sample_pass_in: "pass_in (fetching sample_migration ready_cluster) sample_migration {}"
  by (auto simp: pass_in_def echoes_def shows_world_def fetching_def ready_cluster_def having_jobs_def cluster_def
      worker_job_name_def sample_migration_def empty_status_def)

lemma sample_world_starts: "\<exists>m E. world_step cap (sample_migration, {}) (m, E) \<and> ''shop-run-1'' \<in> E"
proof -
  obtain m' w where w: "m_name m' = m_name sample_migration"
      "buildJob (snapshotLost (fetching sample_migration ready_cluster) m') m' (RunnerImage (fetching sample_migration ready_cluster)) 1 = Inr w"
      "CreateJob w (Inr ()) \<in> set (tr (snd (Reconcile (fetching sample_migration ready_cluster) (''db'', ''shop'') (pass_of sample_migration))))"
    using first_attempt_starts [OF fetched_fetching sample_open sample_due ready_cluster_calm sample_budget] by blast
  have "itoa 1 = ''1''" by code_simp
  then have "j_name w = ''shop-run-1''"
    using built_names(1) [OF w(2)] w(1) by (simp add: worker_job_name_def sample_migration_def)
  then show ?thesis
    using created_in_world [OF sample_pass_in fetched_fetching _ w(3) worker_runs_clone [OF w(2)]] by (auto simp: pass_of_def)
qed

end
