(* ===== verification/Worker_Exec.thy ===== *)
theory Worker_Exec
  imports Sentinel Progress_Sample Conn
begin

text \<open>
  \<^verbatim>\<open>internal/podexec/podexec.go\<close> and the methods that run commands in a worker pod through it: \<open>Read\<close>,
  \<open>SetEndposCurrent\<close> and \<open>NudgeEndpos\<close> of \<^verbatim>\<open>sentinel.go\<close>, \<open>Sample\<close> of \<^verbatim>\<open>progress.go\<close>. The API server
  answers the pod lists and the log reads, the kubelet the execs: the argument \<open>t\<close>, which is
  given the history of calls. A script is a constructor; what it does is theory \<open>Pod_Scripts\<close>. Below \<open>InPod\<close>
  the transport (WebSocket, SPDY, time limits) is one reply.

  The lemmas: commands and log reads reach only pods that a list of the same Job returned just
  before, running ones for a command; the log read is the newest pod's; a sentinel read fails only
  when the pod lookup fails; the poller turns a failed exec into no sample exactly when the pod
  is gone.
\<close>

section \<open>Calls and replies\<close>

record exec_pod =
  ep_name :: string
  ep_created :: time

datatype pod_labels = JobNameIs string | ControllerUidIs string

datatype pod_script = SentinelRead string | SetEndposCurrentScript | NudgeEndposScript | ProgressScript bool

datatype exec_call =
    ListRunningPods string pod_labels "err + exec_pod list"
  | ListAllPods string pod_labels "err + exec_pod list"
  | PodLogs string string int64 bool "err + string"
  | PodExec string string bool pod_script "err + string"

record transport =
  running_pods_reply :: "exec_call list \<Rightarrow> string \<Rightarrow> pod_labels \<Rightarrow> err + exec_pod list"
  all_pods_reply :: "exec_call list \<Rightarrow> string \<Rightarrow> pod_labels \<Rightarrow> err + exec_pod list"
  pod_logs_reply :: "exec_call list \<Rightarrow> string \<Rightarrow> string \<Rightarrow> int64 \<Rightarrow> bool \<Rightarrow> err + string"
  pod_exec_reply :: "exec_call list \<Rightarrow> string \<Rightarrow> string \<Rightarrow> bool \<Rightarrow> pod_script \<Rightarrow> err + string"

text \<open>The state: the calls made so far, newest first, and the outages the poller has logged.\<close>

record exec_state =
  ec_calls :: "exec_call list"
  ec_lost :: "string set"

type_synonym 'a exec = "(exec_state, 'a) eff"

definition pod_call :: "(exec_call list \<Rightarrow> err + 'a) \<Rightarrow> (err + 'a \<Rightarrow> exec_call) \<Rightarrow> 'a exec" where
  "pod_call f mk = (\<lambda>s. (f (ec_calls s), s\<lparr>ec_calls := mk (f (ec_calls s)) # ec_calls s\<rparr>))"

section \<open>podexec\<close>

definition RunningPod :: "transport \<Rightarrow> string \<Rightarrow> string \<Rightarrow> string exec" where
  "RunningPod t namespace job_name =
     bnd (pod_call (\<lambda>h. running_pods_reply t h namespace (JobNameIs job_name))
            (ListRunningPods namespace (JobNameIs job_name)))
       (\<lambda>pods. ret (case pods of [] \<Rightarrow> [] | p # _ \<Rightarrow> ep_name p))"

fun newest_pod :: "exec_pod \<Rightarrow> exec_pod list \<Rightarrow> exec_pod" where
  "newest_pod newest [] = newest"
| "newest_pod newest (p # ps) = newest_pod (if ep_created newest < ep_created p then p else newest) ps"

definition newestPodLogs :: "transport \<Rightarrow> string \<Rightarrow> pod_labels \<Rightarrow> string \<Rightarrow> int64 \<Rightarrow> bool \<Rightarrow> string exec" where
  "newestPodLogs t namespace selector job tailLines timestamps =
     bnd (pod_call (\<lambda>h. all_pods_reply t h namespace selector) (ListAllPods namespace selector))
       (\<lambda>pods. case pods of
            [] \<Rightarrow> raise (ErrMsg (''no pods found for '' @ job))
          | p # ps \<Rightarrow>
              pod_call (\<lambda>h. pod_logs_reply t h namespace (ep_name (newest_pod p ps)) tailLines timestamps)
                (PodLogs namespace (ep_name (newest_pod p ps)) tailLines timestamps))"

definition JobLogs :: "transport \<Rightarrow> string \<Rightarrow> string \<Rightarrow> int64 \<Rightarrow> string exec" where
  "JobLogs t namespace job_name tailLines =
     newestPodLogs t namespace (JobNameIs job_name) (''Job '' @ job_name) tailLines False"

definition JobLogsTimestamps :: "transport \<Rightarrow> string \<Rightarrow> string \<Rightarrow> int64 \<Rightarrow> string exec" where
  "JobLogsTimestamps t namespace job_name tailLines =
     newestPodLogs t namespace (JobNameIs job_name) (''Job '' @ job_name) tailLines True"

definition JobLogsByUID :: "transport \<Rightarrow> string \<Rightarrow> string \<Rightarrow> int64 \<Rightarrow> string exec" where
  "JobLogsByUID t namespace uid tailLines =
     newestPodLogs t namespace (ControllerUidIs uid) (''Job UID '' @ uid) tailLines False"

text \<open>\<^verbatim>\<open>sh -c\<close> with \<^verbatim>\<open>conn.URIRecover()\<close> before the script, which the flag records.\<close>

definition inPodSh :: "transport \<Rightarrow> string \<Rightarrow> string \<Rightarrow> pod_script \<Rightarrow> string exec" where
  "inPodSh t namespace pod script =
     pod_call (\<lambda>h. pod_exec_reply t h namespace pod True script) (PodExec namespace pod True script)"

section \<open>The sentinel\<close>

definition Read :: "transport \<Rightarrow> string \<Rightarrow> string \<Rightarrow> string \<Rightarrow> state option exec" where
  "Read t namespace job_name slotName =
     bnd (RunningPod t namespace job_name) (\<lambda>pod.
       if pod = [] then ret None
       else bnd (attempt (inPodSh t namespace pod (SentinelRead slotName))) (\<lambda>res.
         case res of Inl e \<Rightarrow> ret None | Inr out \<Rightarrow> ret (parseSample out)))"

definition SetEndposCurrent :: "transport \<Rightarrow> string \<Rightarrow> string \<Rightarrow> string exec" where
  "SetEndposCurrent t namespace job_name =
     bnd (RunningPod t namespace job_name) (\<lambda>pod.
       if pod = [] then raise (ErrMsg (''no running worker pod for Job '' @ job_name))
       else bnd (inPodSh t namespace pod SetEndposCurrentScript) (\<lambda>out. ret (trim_space out)))"

definition NudgeEndpos :: "transport \<Rightarrow> string \<Rightarrow> string \<Rightarrow> unit exec" where
  "NudgeEndpos t namespace job_name =
     bnd (RunningPod t namespace job_name) (\<lambda>pod.
       if pod = [] then ret ()
       else bnd (inPodSh t namespace pod NudgeEndposScript) (\<lambda>_. ret ()))"

section \<open>The poller\<close>

definition log_lost :: "string \<Rightarrow> (string \<times> string) list \<Rightarrow> unit exec" where
  "log_lost job lost = (\<lambda>s. (Inr (), s\<lparr>ec_lost := fst (logLost job lost (ec_lost s))\<rparr>))"

definition Sample :: "transport \<Rightarrow> string \<Rightarrow> string \<Rightarrow> bool \<Rightarrow> progress_sample option exec" where
  "Sample t namespace job_name allDatabases =
     bnd (RunningPod t namespace job_name) (\<lambda>pod.
       if pod = [] then ret None
       else bnd (attempt (inPodSh t namespace pod (ProgressScript allDatabases))) (\<lambda>res.
         case res of
           Inl e \<Rightarrow> bnd (attempt (RunningPod t namespace job_name)) (\<lambda>again.
                       if again = Inr [] then ret None else raise e)
         | Inr out \<Rightarrow>
             bnd (log_lost (namespace @ ''/'' @ job_name) (Lost (parseSample_progress out)))
               (\<lambda>_. ret (Some (parseSample_progress out)))))"

section \<open>The newest pod\<close>

lemma newest_pod_in: "newest_pod p ps \<in> set (p # ps)"
  by (induction p ps rule: newest_pod.induct) auto

lemma newest_pod_ge: "q \<in> set (p # ps) \<Longrightarrow> ep_created q \<le> ep_created (newest_pod p ps)"
proof (induction p ps arbitrary: q rule: newest_pod.induct)
  case (2 newest p ps)
  let ?n = "if ep_created newest < ep_created p then p else newest"
  have top: "ep_created ?n \<le> ep_created (newest_pod ?n ps)" using "2.IH" [of ?n] by simp
  show ?case
  proof (cases "q \<in> set ps")
    case True
    then show ?thesis using "2.IH" [of q] by simp
  next
    case False
    then have "ep_created q \<le> ep_created ?n" using "2.prems" by auto
    with top show ?thesis by simp
  qed
qed simp

text \<open>Of several pods created at the same time, the first in the list.\<close>

lemma newest_pod_first:
  "\<exists>older newer. p # ps = older @ newest_pod p ps # newer \<and>
     (\<forall>q \<in> set older. ep_created q < ep_created (newest_pod p ps)) \<and>
     (\<forall>q \<in> set newer. ep_created q \<le> ep_created (newest_pod p ps))"
proof (induction p ps rule: newest_pod.induct)
  case (2 newest p ps)
  let ?n = "if ep_created newest < ep_created p then p else newest"
  let ?m = "newest_pod ?n ps"
  have m: "newest_pod newest (p # ps) = ?m" by simp
  obtain older newer where s: "?n # ps = older @ ?m # newer"
      "\<forall>q \<in> set older. ep_created q < ep_created ?m" "\<forall>q \<in> set newer. ep_created q \<le> ep_created ?m"
    using 2 by blast
  have ge: "ep_created ?n \<le> ep_created ?m" using newest_pod_ge [of ?n ?n ps] by simp
  show ?case
  proof (cases "ep_created newest < ep_created p")
    case True
    then have "ep_created newest < ep_created ?m" using ge by simp
    then show ?thesis
      unfolding m using s True by (intro exI [of _ "newest # older"] exI [of _ newer]) (simp del: newest_pod.simps)
  next
    case False
    show ?thesis
    proof (cases older)
      case Nil
      then show ?thesis
        unfolding m using s False ge by (intro exI [of _ "[]"] exI [of _ "p # newer"]) (auto simp del: newest_pod.simps)
    next
      case (Cons o' os)
      then have "ep_created newest < ep_created ?m" using s False by auto
      moreover from this have "ep_created p < ep_created ?m" using False by simp
      ultimately show ?thesis
        unfolding m using s False Cons by (intro exI [of _ "newest # p # os"] exI [of _ newer]) (auto simp del: newest_pod.simps)
    qed
  qed
qed (auto intro: exI [of _ "[]"])

section \<open>Which pods are reached\<close>

text \<open>
  A command runs in a pod that the list just before returned for a Job in the same namespace, among
  the running pods; a log is read from a pod of the list just before.
\<close>

fun reaches :: "exec_call \<Rightarrow> exec_call list \<Rightarrow> bool" where
  "reaches (PodExec ns pod recovered script x) (ListRunningPods ns' l (Inr (p # ps)) # h) \<longleftrightarrow>
     ns' = ns \<and> pod = ep_name p \<and> recovered"
| "reaches (PodExec ns pod recovered script x) h \<longleftrightarrow> False"
| "reaches (PodLogs ns pod k b x) (ListAllPods ns' l (Inr (p # ps)) # h) \<longleftrightarrow> ns' = ns \<and> pod = ep_name (newest_pod p ps)"
| "reaches (PodLogs ns pod k b x) h \<longleftrightarrow> False"
| "reaches e h \<longleftrightarrow> True"

fun well_reached :: "exec_call list \<Rightarrow> bool" where
  "well_reached [] \<longleftrightarrow> True"
| "well_reached (e # h) \<longleftrightarrow> reaches e h \<and> well_reached h"

definition stays_reached :: "exec_state \<Rightarrow> exec_state \<Rightarrow> bool" where
  "stays_reached s u \<longleftrightarrow> (well_reached (ec_calls s) \<longrightarrow> well_reached (ec_calls u))"

interpretation reached: frame stays_reached
  by unfold_locales (auto simp: stays_reached_def)

lemma RunningPod_run:
  "RunningPod t ns job s = (Inr pod, u) \<Longrightarrow> pod \<noteq> [] \<Longrightarrow>
     \<exists>p ps. ec_calls u = ListRunningPods ns (JobNameIs job) (Inr (p # ps)) # ec_calls s \<and> pod = ep_name p"
  by (auto simp: RunningPod_def bnd_def pod_call_def ret_def split: sum.splits list.splits)

lemma RunningPod_reached: "keeps stays_reached (RunningPod t ns job)"
  unfolding RunningPod_def
  by (rule reached.keeps_bnd [OF keepsI reached.keeps_ret]) (auto simp: pod_call_def stays_reached_def)

text \<open>Looking the pod up and then running a script in it.\<close>

lemma in_running_pod:
  assumes "\<And>pod. pod \<noteq> [] \<Longrightarrow> \<exists>script g. k pod = bnd (attempt (inPodSh t ns pod script)) g \<and> (\<forall>x. keeps stays_reached (g x))"
    and "keeps stays_reached (k [])"
  shows "keeps stays_reached (bnd (RunningPod t ns job) k)"
proof (rule keepsI)
  fix s x v
  assume run: "bnd (RunningPod t ns job) k s = (x, v)"
  obtain y u where y: "RunningPod t ns job s = (y, u)" by fastforce
  have su: "stays_reached s u" using keepsD [OF RunningPod_reached y] .
  show "stays_reached s v"
  proof (cases y)
    case (Inl e)
    then show ?thesis using run y su by (simp add: bnd_def)
  next
    case (Inr pod)
    show ?thesis
    proof (cases "pod = []")
      case True
      then show ?thesis
        using run y Inr su keepsD [OF assms(2)] reached.R_trans by (fastforce simp: bnd_def)
    next
      case False
      obtain script g where k: "k pod = bnd (attempt (inPodSh t ns pod script)) g" and g: "\<And>x. keeps stays_reached (g x)"
        using assms(1) [OF False] by blast
      obtain p ps where p: "ec_calls u = ListRunningPods ns (JobNameIs job) (Inr (p # ps)) # ec_calls s" "pod = ep_name p"
        using RunningPod_run y Inr False by blast
      let ?x = "pod_exec_reply t (ec_calls u) ns pod True script"
      let ?w = "u\<lparr>ec_calls := PodExec ns pod True script ?x # ec_calls u\<rparr>"
      have "bnd (RunningPod t ns job) k s = g ?x ?w"
        by (simp add: bnd_def y Inr k attempt_def inPodSh_def pod_call_def)
      then have "g ?x ?w = (x, v)" using run by simp
      then have "stays_reached ?w v" by (rule keepsD [OF g])
      moreover have "stays_reached s ?w" using p by (simp add: stays_reached_def)
      ultimately show ?thesis using reached.R_trans by blast
    qed
  qed
qed

lemma bnd_attempt: "bnd f k = bnd (attempt f) (case_sum raise k)"
  by (rule ext) (auto simp: bnd_def attempt_def raise_def split: sum.split prod.split)

lemma Read_reached: "keeps stays_reached (Read t ns job slot)"
  unfolding Read_def
  by (rule in_running_pod) (auto intro!: exI reached.keeps_ret split: sum.split)

lemma SetEndposCurrent_reached: "keeps stays_reached (SetEndposCurrent t ns job)"
  unfolding SetEndposCurrent_def
  by (rule in_running_pod)
    (auto intro!: exI bnd_attempt reached.keeps_ret reached.keeps_raise split: sum.split)

lemma NudgeEndpos_reached: "keeps stays_reached (NudgeEndpos t ns job)"
  unfolding NudgeEndpos_def
  by (rule in_running_pod)
    (auto intro!: exI bnd_attempt reached.keeps_ret reached.keeps_raise split: sum.split)

lemma Sample_reached: "keeps stays_reached (Sample t ns job alldb)"
proof -
  have lost: "keeps stays_reached (log_lost j l)" for j l
    by (rule keepsI) (auto simp: log_lost_def stays_reached_def)
  show ?thesis
    unfolding Sample_def
    by (rule in_running_pod)
      (auto intro!: exI reached.keeps_ret reached.keeps_bnd reached.keeps_attempt reached.keeps_raise
        RunningPod_reached lost split: sum.split)
qed

lemma newestPodLogs_reached: "keeps stays_reached (newestPodLogs t ns sel job k b)"
  unfolding newestPodLogs_def
  by (rule keepsI)
    (auto simp: bnd_def pod_call_def raise_def stays_reached_def split: sum.splits list.splits)

section \<open>What the calls return\<close>

lemma Read_fails_iff:
  "(\<exists>e. fst (Read t ns job slot s) = Inl e) \<longleftrightarrow>
     (\<exists>e. running_pods_reply t (ec_calls s) ns (JobNameIs job) = Inl e)"
  by (auto simp: Read_def RunningPod_def bnd_def pod_call_def attempt_def ret_def inPodSh_def
      split: sum.splits list.splits)

lemma Read_readable:
  "fst (Read t ns job slot s) = Inr (Some st) \<Longrightarrow>
     ParseLSN (WriteLSN st) \<noteq> None \<and> readable_or_empty (ReplayLSN st) \<and> readable_or_empty (SourceHead st) \<and> Endpos st = []"
  by (auto simp: Read_def RunningPod_def bnd_def pod_call_def attempt_def ret_def inPodSh_def
      dest: parseSample_readable split: sum.splits list.splits if_splits)

text \<open>A failed exec is no sample exactly when the pod is gone by then; else it is the error.\<close>

lemma Sample_failed_exec:
  assumes "running_pods_reply t (ec_calls s) ns (JobNameIs job) = Inr (p # ps)" and "ep_name p \<noteq> []"
    and "pod_exec_reply t (ListRunningPods ns (JobNameIs job) (Inr (p # ps)) # ec_calls s) ns (ep_name p) True
           (ProgressScript alldb) = Inl e"
  shows "fst (Sample t ns job alldb s) =
    (if \<exists>q. running_pods_reply t (PodExec ns (ep_name p) True (ProgressScript alldb) (Inl e) #
           ListRunningPods ns (JobNameIs job) (Inr (p # ps)) # ec_calls s) ns (JobNameIs job) = Inr q \<and>
         (q = [] \<or> ep_name (hd q) = [])
     then Inr None else Inl e)"
  using assms
  by (auto simp: Sample_def RunningPod_def bnd_def pod_call_def attempt_def ret_def raise_def inPodSh_def
      split: sum.splits list.splits)

end
