(* ===== verification/Conn_Passfile.thy ===== *)
theory Conn_Passfile
  imports Conn_Shell
begin

text \<open>
  The passfile the prelude assembles, read back. The reader is the one the repository's test
  checks the escaping with (\<^verbatim>\<open>libpqPassfileFields\<close> in \<^verbatim>\<open>internal/conn/conn_test.go\<close>): a
  backslash escapes the next character, an unescaped colon ends a field; libpq takes the
  password of the first line whose fields match, \<open>*\<close> matching anything.

  The lemmas: a line reads back as the host, the user and the password it was written for;
  the file as a whole is the map from a host and a user to the first password written for
  them; which login every snippet and every static entry writes.
\<close>

section \<open>The reader\<close>

fun passfile_fields :: "string \<Rightarrow> string \<Rightarrow> string list" where
  "passfile_fields acc [] = [acc]"
| "passfile_fields acc (c # cs) =
     (if c = backslash then (case cs of [] \<Rightarrow> [acc] | d # ds \<Rightarrow> passfile_fields (acc @ [d]) ds)
      else if c = CHR '':'' then acc # passfile_fields [] cs
      else passfile_fields (acc @ [c]) cs)"

definition field_matches :: "string \<Rightarrow> string \<Rightarrow> bool" where
  "field_matches f x \<longleftrightarrow> f = ''*'' \<or> f = x"

definition line_password :: "string \<Rightarrow> string \<Rightarrow> string \<Rightarrow> string \<Rightarrow> string \<Rightarrow> string option" where
  "line_password host port db user line = (case passfile_fields [] line of
       [h, p, d, u, pw] \<Rightarrow>
         if field_matches h host \<and> field_matches p port \<and> field_matches d db \<and> field_matches u user
         then Some pw else None
     | _ \<Rightarrow> None)"

fun first_password :: "(string \<Rightarrow> string option) \<Rightarrow> string list \<Rightarrow> string option" where
  "first_password f [] = None"
| "first_password f (l # ls) = (case f l of Some pw \<Rightarrow> Some pw | None \<Rightarrow> first_password f ls)"

definition passfile_password :: "string \<Rightarrow> string \<Rightarrow> string \<Rightarrow> string \<Rightarrow> string \<Rightarrow> string option" where
  "passfile_password host port db user text =
     first_password (line_password host port db user) (split_on newline text)"

section \<open>A line\<close>

lemma fields_escape: "passfile_fields acc (pf_escape s @ r) = passfile_fields (acc @ s) r"
  by (induction s arbitrary: acc) (auto simp: pf_escape_def esc_char_def)

definition plain_field :: "string \<Rightarrow> bool" where
  "plain_field s \<longleftrightarrow> CHR '':'' \<notin> set s \<and> backslash \<notin> set s"

lemma pf_escape_plain: "plain_field s \<Longrightarrow> pf_escape s = s"
  by (induction s) (auto simp: plain_field_def pf_escape_def esc_char_def)

lemma set_pf_escape: "set (pf_escape s) \<subseteq> insert backslash (set s)"
  by (auto simp: pf_escape_def esc_char_def split: if_splits)

type_synonym login = "string \<times> string \<times> string"

definition login_body :: "login \<Rightarrow> string" where
  "login_body e = (case e of (h, u, pw) \<Rightarrow> pf_escape h @ '':*:*:'' @ pf_escape u @ '':'' @ pf_escape pw)"

definition login_line :: "login \<Rightarrow> string" where
  "login_line e = login_body e @ [newline]"

lemma login_fields: "passfile_fields [] (login_body (h, u, pw)) = [h, ''*'', ''*'', u, pw]"
  using fields_escape [of "[]" pw "[]"] by (simp add: login_body_def fields_escape)

definition one_line :: "login \<Rightarrow> bool" where
  "one_line e \<longleftrightarrow> (case e of (h, u, pw) \<Rightarrow> newline \<notin> set h \<and> newline \<notin> set u \<and> newline \<notin> set pw
     \<and> h \<noteq> ''*'' \<and> u \<noteq> ''*'')"

lemma login_body_newline: "one_line e \<Longrightarrow> newline \<notin> set (login_body e)"
  using set_pf_escape by (fastforce simp: one_line_def login_body_def)

lemma login_password:
  "one_line (h, u, pw) \<Longrightarrow>
   line_password host port db user (login_body (h, u, pw)) = (if (h, u) = (host, user) then Some pw else None)"
  by (auto simp: line_password_def login_fields field_matches_def one_line_def)

text \<open>A colon that nothing escapes ends its field, so the line has a field too many and matches no login.\<close>

lemma fields_stop: "plain_field x \<Longrightarrow> passfile_fields acc (x @ CHR '':'' # r) = (acc @ x) # passfile_fields [] r"
  by (induction x arbitrary: acc) (auto simp: plain_field_def)

lemma fields_step: "passfile_fields acc (c # cs) \<noteq> []"
  if "\<And>acc ds. length ds < length (c # cs) \<Longrightarrow> passfile_fields acc ds \<noteq> []"
  using that [of "tl cs" "acc @ [hd cs]"] that [of cs "acc @ [c]"] by (cases cs) simp_all

lemma fields_some: "passfile_fields acc x \<noteq> []"
proof (induction x arbitrary: acc rule: length_induct)
  case (1 x)
  then show ?case using fields_step by (cases x) (simp, blast)
qed

lemma fields_two: "backslash \<notin> set x \<Longrightarrow> 2 \<le> length (passfile_fields acc (x @ CHR '':'' # r))"
proof (induction x arbitrary: acc)
  case Nil
  show ?case using fields_some [of "[]" r] by (cases "passfile_fields [] r") simp_all
next
  case (Cons c x)
  then have "2 \<le> length (passfile_fields [] (x @ CHR '':'' # r))" "2 \<le> length (passfile_fields (acc @ [c]) (x @ CHR '':'' # r))"
    by simp_all
  moreover have "c \<noteq> backslash" using Cons.prems by auto
  ultimately show ?case by simp
qed

lemma colon_in_role:
  assumes "plain_field h" and "backslash \<notin> set u" and "CHR '':'' \<in> set u"
  shows "line_password host port db user (h @ '':*:*:'' @ u @ '':'' @ pw) = None"
proof -
  obtain a b where u: "u = a @ CHR '':'' # b" "CHR '':'' \<notin> set a" using split_list_first [OF assms(3)] by blast
  then have a: "plain_field a" and b: "backslash \<notin> set b" using assms(2) by (auto simp: plain_field_def)
  have "passfile_fields [] (h @ '':*:*:'' @ u @ '':'' @ pw) =
      h # ''*'' # ''*'' # a # passfile_fields [] (b @ CHR '':'' # pw)"
    using fields_stop [OF assms(1)] fields_stop [OF a] by (simp add: u(1))
  with fields_two [OF b, of "[]" pw] show ?thesis
    by (auto simp: line_password_def split: list.splits)
qed

section \<open>The file\<close>

lemma split_on_line: "c \<notin> set body \<Longrightarrow> split_on c (body @ c # r) = body # split_on c r"
  by (induction body) auto

definition login_map :: "login list \<Rightarrow> string \<times> string \<rightharpoonup> string" where
  "login_map es = map_of (map (\<lambda>(h, u, pw). ((h, u), pw)) es)"

lemma passfile_of_logins:
  assumes "\<forall>e \<in> set es. one_line e"
  shows "passfile_password host port db user (concat (map login_line es)) = login_map es (host, user)"
  using assms
proof (induction es)
  case Nil
  show ?case by (simp add: passfile_password_def login_map_def line_password_def)
next
  case (Cons e es)
  obtain h u pw where e: "e = (h, u, pw)" by (cases e)
  have "split_on newline (concat (map login_line (e # es))) = login_body e # split_on newline (concat (map login_line es))"
    using Cons.prems by (simp add: login_line_def split_on_line login_body_newline)
  with Cons show ?case
    using login_password [of h u pw host port db user]
    by (auto simp: passfile_password_def login_map_def e split: option.splits)
qed

section \<open>What the prelude writes\<close>

lemma subst_out_snoc: "subst_out (s @ [c]) = (if c = newline then subst_out s else s @ [c])"
  by (simp add: subst_out_def trim_right_char_def)

lemma subst_out_escape: "subst_out (pf_escape s) = pf_escape (subst_out s)"
proof (induction s rule: rev_induct)
  case (snoc c s)
  consider "c = newline" | "c = backslash" | "c = CHR '':''" | "c \<notin> {newline, backslash, CHR '':''}" by blast
  then show ?case
  proof cases
    case 1
    with snoc show ?thesis by (simp add: pf_escape_def esc_char_def subst_out_snoc)
  next
    case 2
    have "subst_out (pf_escape s @ [backslash, backslash]) = pf_escape s @ [backslash, backslash]"
      using subst_out_snoc [of "pf_escape s @ [backslash]" backslash] by simp
    with 2 show ?thesis by (simp add: pf_escape_def esc_char_def subst_out_snoc)
  next
    case 3
    have "subst_out (pf_escape s @ [backslash, CHR '':'']) = pf_escape s @ [backslash, CHR '':'']"
      using subst_out_snoc [of "pf_escape s @ [backslash]" "CHR '':''"] by simp
    with 3 show ?thesis by (simp add: pf_escape_def esc_char_def subst_out_snoc)
  next
    case 4
    then show ?thesis by (simp add: pf_escape_def esc_char_def subst_out_snoc)
  qed
qed (simp add: pf_escape_def subst_out_def trim_right_char_def)

lemma subst_out_idem: "subst_out (subst_out s) = subst_out s"
proof (induction s rule: rev_induct)
  case (snoc c s)
  then show ?case by (simp add: subst_out_snoc)
qed (simp add: subst_out_def trim_right_char_def)

lemma subst_out_id: "newline \<notin> set s \<Longrightarrow> subst_out s = s"
  by (cases s rule: rev_cases) (auto simp: subst_out_snoc subst_out_def trim_right_char_def)

lemma pf_esc_simp: "newline \<notin> set s \<Longrightarrow> pf_esc s = pf_escape s"
  by (simp add: pf_esc_def subst_out_escape subst_out_id)

lemma pf_esc_password: "pf_esc (subst_out s) = pf_escape (subst_out s)"
  by (simp add: pf_esc_def subst_out_escape subst_out_idem)

text \<open>The login a snippet writes, and the ones a run of the snippets writes.\<close>

fun snippet_login :: "prelude \<Rightarrow> shell \<Rightarrow> login" where
  "snippet_login (SecretRefPrelude s sslmode tls pwFile pwKey syncLocal) sh =
     (case secret_endpoint s pwKey (var_or_empty sh (pgmEnv s ''DB'')) (var_or_empty sh (pgmEnv s ''USER''))
         (var_or_empty sh (pgmEnv s ''HOST'')) of
        Inl e \<Rightarrow> ([], [], [])
      | Inr (uri, user, hostport) \<Rightarrow> (before_char (CHR '':'') hostport, user, subst_out (file_text sh pwFile)))"
| "snippet_login (SuperPrelude s pwFile pwKey) sh =
     (case super_endpoint s (var_or_empty sh (uriEnv s)) (var_or_empty sh (pgmEnv s ''SUPER_USER''))
         (var_or_empty sh (pgmEnv s ''SUPER_HOST'')) of
        Inl e \<Rightarrow> ([], [], [])
      | Inr (uri, host) \<Rightarrow> (host, var_or_empty sh (pgmEnv s ''SUPER_USER''), subst_out (file_text sh pwFile)))"

fun snippet_logins :: "prelude list \<Rightarrow> shell \<Rightarrow> login list" where
  "snippet_logins [] sh = []"
| "snippet_logins (p # ps) sh =
     snippet_login p sh # (case run_snippet p sh of Inl e \<Rightarrow> [] | Inr sh \<Rightarrow> snippet_logins ps sh)"

definition static_login :: "shell \<Rightarrow> passfile \<Rightarrow> login" where
  "static_login sh e = (pw_host e, pw_user e, subst_out (file_text sh (pw_file e)))"

fun password_file :: "prelude \<Rightarrow> string" where
  "password_file (SecretRefPrelude s sslmode tls pwFile pwKey syncLocal) = pwFile"
| "password_file (SuperPrelude s pwFile pwKey) = pwFile"

definition own_files :: "string set" where
  "own_files = {PgpassPath, URIFile Source, URIFile Target, SuperURIFile Source, SuperURIFile Target}"

lemma own_files_distinct [simp]:
  "URIFile s \<noteq> PgpassPath" "SuperURIFile s \<noteq> PgpassPath" "PgpassPath \<noteq> URIFile s" "PgpassPath \<noteq> SuperURIFile s"
  by (cases s; simp add: URIFile_def SuperURIFile_def PgpassPath_def)+

lemma own_files_all [simp]: "URIFile s \<in> own_files" "SuperURIFile s \<in> own_files" "PgpassPath \<in> own_files"
  by (cases s; simp add: own_files_def)+

lemmas shell_simps = export_def write_file_def append_file_def file_text_def

text \<open>What a snippet that succeeds has done.\<close>

lemma secretRefPrelude_ok:
  assumes "secretRefPrelude s sslmode tls pwFile pwKey syncLocal sh = Inr sh'"
  obtains db uri0 user hostport uri pw where "sh_env sh (pgmEnv s ''DB'') = Some db"
    and "secret_endpoint s pwKey db (var_or_empty sh (pgmEnv s ''USER'')) (var_or_empty sh (pgmEnv s ''HOST'')) =
      Inr (uri0, user, hostport)"
    and "complete_uri s sslmode tls syncLocal uri0 = Inr uri"
    and "sh_files (write_file (URIFile s) uri (export (uriEnv s) uri sh)) pwFile = Some pw"
    and "sh' = append_file PgpassPath (passfile_line (pf_esc (before_char (CHR '':'') hostport)) (pf_esc user)
      (pf_esc (subst_out pw))) (write_file (URIFile s) uri (export (uriEnv s) uri sh))"
  using assms unfolding secretRefPrelude_def refuse_def Let_def
  by (simp split: option.splits sum.splits prod.splits)

lemma superPrelude_ok:
  assumes "superPrelude s pwFile pwKey sh = Inr sh'"
  obtains uri host pw where "super_endpoint s (var_or_empty sh (uriEnv s)) (var_or_empty sh (pgmEnv s ''SUPER_USER''))
      (var_or_empty sh (pgmEnv s ''SUPER_HOST'')) = Inr (uri, host)"
    and "sh_files (write_file (SuperURIFile s) uri (export (SuperURIEnv s) uri sh)) pwFile = Some pw"
    and "sh' = append_file PgpassPath (passfile_line (pf_esc host) (pf_esc (var_or_empty sh (pgmEnv s ''SUPER_USER'')))
      (pf_esc (subst_out pw))) (write_file (SuperURIFile s) uri (export (SuperURIEnv s) uri sh))"
  using assms unfolding superPrelude_def refuse_super_def Let_def
  by (simp split: option.splits sum.splits prod.splits)

lemma written_line:
  "one_line (h, u, subst_out pw) \<Longrightarrow>
   passfile_line (pf_esc h) (pf_esc u) (pf_esc (subst_out pw)) = login_line (h, u, subst_out pw)"
  by (simp add: one_line_def passfile_line_def login_line_def login_body_def pf_esc_simp pf_esc_password)

text \<open>A snippet appends its login to the passfile and leaves every other file alone but its own.\<close>

lemma append_file_text: "file_text (append_file f v sh) f = file_text sh f @ v"
  by (simp add: append_file_def write_file_def file_text_def)

lemma run_snippet_login:
  assumes "run_snippet p sh = Inr sh'" and "password_file p \<notin> own_files" and "one_line (snippet_login p sh)"
  shows "file_text sh' PgpassPath = file_text sh PgpassPath @ login_line (snippet_login p sh)"
proof (cases p)
  case (SecretRefPrelude s sslmode tls pwFile pwKey syncLocal)
  with assms have run: "secretRefPrelude s sslmode tls pwFile pwKey syncLocal sh = Inr sh'"
      and own: "pwFile \<noteq> URIFile s" by auto
  from run own assms(3) show ?thesis
    by (elim secretRefPrelude_ok)
      (simp add: SecretRefPrelude written_line var_or_empty_def shell_simps)
next
  case (SuperPrelude s pwFile pwKey)
  with assms have run: "superPrelude s pwFile pwKey sh = Inr sh'"
      and own: "pwFile \<noteq> SuperURIFile s" by auto
  from run own assms(3) show ?thesis
    by (elim superPrelude_ok)
      (simp add: SuperPrelude written_line shell_simps)
qed

lemma run_snippet_files:
  assumes "run_snippet p sh = Inr sh'" and "f \<notin> own_files"
  shows "sh_files sh' f = sh_files sh f"
proof -
  have f: "f \<noteq> PgpassPath" "f \<noteq> URIFile s" "f \<noteq> SuperURIFile s" for s
    using assms(2) by auto
  show ?thesis
  proof (cases p)
    case (SecretRefPrelude s sslmode tls pwFile pwKey syncLocal)
    with assms(1) have "secretRefPrelude s sslmode tls pwFile pwKey syncLocal sh = Inr sh'" by simp
    then show ?thesis by (elim secretRefPrelude_ok) (simp add: shell_simps f)
  next
    case (SuperPrelude s pwFile pwKey)
    with assms(1) have "superPrelude s pwFile pwKey sh = Inr sh'" by simp
    then show ?thesis by (elim superPrelude_ok) (simp add: shell_simps f)
  qed
qed

lemma run_snippets_logins:
  assumes "run_snippets ps sh = Inr sh'" and "\<forall>p \<in> set ps. password_file p \<notin> own_files"
    and "\<forall>e \<in> set (snippet_logins ps sh). one_line e"
  shows "file_text sh' PgpassPath = file_text sh PgpassPath @ concat (map login_line (snippet_logins ps sh))"
  using assms
proof (induction ps arbitrary: sh)
  case (Cons p ps)
  then obtain sh1 where sh1: "run_snippet p sh = Inr sh1" "run_snippets ps sh1 = Inr sh'"
    by (auto split: sum.splits)
  with Cons show ?case
    using run_snippet_login [of p sh sh1] by simp
qed simp

definition static_plain :: "passfile \<Rightarrow> bool" where
  "static_plain e \<longleftrightarrow> plain_field (pw_host e) \<and> plain_field (pw_user e) \<and> pw_file e \<notin> own_files"

abbreviation write_statics :: "passfile list \<Rightarrow> shell \<Rightarrow> shell" where
  "write_statics entries sh \<equiv> fold (\<lambda>e sh. append_file PgpassPath (static_line sh e) sh) entries sh"

lemma static_line_login: "static_plain e \<Longrightarrow> static_line sh e = login_line (static_login sh e)"
  by (simp add: static_plain_def static_line_def passfile_line_def login_line_def login_body_def static_login_def
      pf_escape_plain subst_out_escape)

lemma static_logins_same:
  assumes "\<And>f. f \<notin> own_files \<Longrightarrow> sh_files sh1 f = sh_files sh f" and "\<forall>e \<in> set entries. static_plain e"
  shows "map (static_login sh1) entries = map (static_login sh) entries"
  using assms by (auto simp: static_login_def file_text_def static_plain_def)

lemma write_statics_keeps:
  "f \<noteq> PgpassPath \<Longrightarrow> sh_files (write_statics entries sh) f = sh_files sh f"
  "sh_env (write_statics entries sh) = sh_env sh"
  by (induction entries arbitrary: sh) (simp_all add: append_file_def write_file_def)

lemma write_statics_logins:
  assumes "\<forall>e \<in> set entries. static_plain e"
  shows "file_text (write_statics entries sh) PgpassPath =
      file_text sh PgpassPath @ concat (map login_line (map (static_login sh) entries))"
  using assms
proof (induction entries arbitrary: sh)
  case (Cons e es)
  let ?sh = "append_file PgpassPath (static_line sh e) sh"
  have same: "map (static_login ?sh) es = map (static_login sh) es"
    using Cons.prems by (intro static_logins_same) (auto simp: append_file_def write_file_def)
  have "file_text (write_statics es ?sh) PgpassPath =
      file_text ?sh PgpassPath @ concat (map login_line (map (static_login sh) es))"
    using Cons.IH [of ?sh] Cons.prems unfolding same by simp
  with Cons.prems show ?case by (simp add: append_file_text static_line_login)
qed simp

text \<open>The logins of a whole prelude: the static entries first, then the snippets' in order.\<close>

definition passfile_start :: "passfile list \<Rightarrow> shell \<Rightarrow> shell" where
  "passfile_start entries sh = write_statics entries (write_file PgpassPath [] sh)"

definition prelude_logins :: "prelude list \<Rightarrow> passfile list \<Rightarrow> shell \<Rightarrow> login list" where
  "prelude_logins preludes entries sh =
     map (static_login sh) entries @ snippet_logins preludes (passfile_start entries sh)"

lemma PreludeScript_runs:
  assumes "PreludeScript preludes entries sh = Inr sh'" and "entries \<noteq> [] \<or> preludes \<noteq> []"
  shows "\<exists>sh1. run_snippets preludes (passfile_start entries sh) = Inr sh1 \<and> sh' = export ''PGPASSFILE'' PgpassPath sh1"
  using assms by (auto simp: PreludeScript_def passfile_start_def Let_def split: sum.splits)

lemma PreludeScript_logins:
  assumes run: "PreludeScript preludes entries sh = Inr sh'" and "entries \<noteq> [] \<or> preludes \<noteq> []"
    and statics: "\<forall>e \<in> set entries. static_plain e" and files: "\<forall>p \<in> set preludes. password_file p \<notin> own_files"
    and one_line: "\<forall>e \<in> set (prelude_logins preludes entries sh). one_line e"
  shows "passfile_password host port db user (file_text sh' PgpassPath) =
     login_map (prelude_logins preludes entries sh) (host, user)"
proof -
  let ?sh = "write_file PgpassPath [] sh"
  obtain sh1 where sh1: "run_snippets preludes (passfile_start entries sh) = Inr sh1"
      and sh': "sh' = export ''PGPASSFILE'' PgpassPath sh1"
    using PreludeScript_runs assms(1,2) by blast
  have same: "map (static_login ?sh) entries = map (static_login sh) entries"
    using statics by (intro static_logins_same) (auto simp: write_file_def)
  have "file_text ?sh PgpassPath = []" by (simp add: write_file_def file_text_def)
  then have "file_text (passfile_start entries sh) PgpassPath = concat (map login_line (map (static_login sh) entries))"
    using write_statics_logins [OF statics, of ?sh] unfolding same passfile_start_def by simp
  then have "file_text sh' PgpassPath = concat (map login_line (prelude_logins preludes entries sh))"
    using run_snippets_logins [OF sh1 files] one_line by (simp add: sh' prelude_logins_def export_def file_text_def)
  with passfile_of_logins [OF one_line] show ?thesis by simp
qed

end
