(* ===== verification/Conn_Compose.thy ===== *)
theory Conn_Compose
  imports Conn_Passfile
begin

text \<open>
  The URIs the prelude composes. The lemmas: \<open>fillParams\<close> appends exactly the parameters whose
  key the URI does not set; an accepted DB URI splits into scheme, user, host part and tail,
  and the exported URI keeps the first three; the superuser URI is the primary one with
  another user; an exec'd shell reads back what the prelude exported.
\<close>

section \<open>Filling gaps\<close>

definition plain_param :: "string \<Rightarrow> bool" where
  "plain_param kv \<longleftrightarrow> CHR ''?'' \<notin> set kv \<and> CHR ''&'' \<notin> set kv \<and> CHR ''='' \<in> set kv"

lemma contains_delim:
  assumes "d \<notin> set kv" and "e \<notin> set key"
  shows "contains (uri @ e # kv) (d # key) \<longleftrightarrow> contains uri (d # key) \<or> d = e \<and> has_prefix kv key"
proof
  assume "contains (uri @ e # kv) (d # key)"
  then obtain a b where "uri @ e # kv = a @ (d # key) @ b" by (auto simp: contains_iff)
  then consider us where "uri = a @ us" "us @ e # kv = (d # key) @ b" | us where "a = uri @ us" "e # kv = us @ (d # key) @ b"
    unfolding append_eq_append_conv2 by blast
  then show "contains uri (d # key) \<or> d = e \<and> has_prefix kv key"
  proof cases
    case 1
    then consider ys where "us = (d # key) @ ys" | ys where "us @ ys = d # key" "e # kv = ys @ b"
      unfolding append_eq_append_conv2 by blast
    then show ?thesis
    proof cases
      case 1
      with \<open>uri = a @ us\<close> have "uri = a @ (d # key) @ ys" by simp
      then show ?thesis unfolding contains_iff by blast
    next
      case 2
      show ?thesis
      proof (cases us)
        case Nil
        with 1 2 show ?thesis by (auto simp: has_prefix_iff)
      next
        case (Cons x xs)
        with 2 assms(2) have "ys = []" by (cases ys) auto
        with 2(1) have "uri = a @ (d # key) @ []" using \<open>uri = a @ us\<close> by simp
        then show ?thesis unfolding contains_iff by blast
      qed
    qed
  next
    case 2
    then show ?thesis using assms(1) by (cases us) (auto simp: has_prefix_iff)
  qed
next
  assume "contains uri (d # key) \<or> d = e \<and> has_prefix kv key"
  then show "contains (uri @ e # kv) (d # key)"
  proof (elim disjE conjE)
    assume "contains uri (d # key)"
    then obtain a b where "uri = a @ (d # key) @ b" by (auto simp: contains_iff)
    then have "uri @ e # kv = a @ (d # key) @ (b @ e # kv)" by simp
    then show ?thesis unfolding contains_iff by blast
  next
    assume "d = e" and "has_prefix kv key"
    then obtain r where "uri @ e # kv = uri @ (d # key) @ r" by (auto simp: has_prefix_iff)
    then show ?thesis unfolding contains_iff by blast
  qed
qed

lemma param_key_prefix:
  assumes "CHR ''='' \<notin> set key"
  shows "has_prefix kv (key @ ''='') \<longleftrightarrow> CHR ''='' \<in> set kv \<and> param_key kv = key"
proof
  assume "has_prefix kv (key @ ''='')"
  then obtain r where "kv = key @ CHR ''='' # r" by (auto simp: has_prefix_iff)
  moreover have "takeWhile (\<lambda>x. x \<noteq> CHR ''='') key = key"
    using assms by (auto simp: takeWhile_eq_all_conv)
  ultimately show "CHR ''='' \<in> set kv \<and> param_key kv = key"
    using assms by (auto simp: param_key_def before_char_def takeWhile_append)
next
  assume kv: "CHR ''='' \<in> set kv \<and> param_key kv = key"
  then have rest: "dropWhile (\<lambda>x. x \<noteq> CHR ''='') kv \<noteq> []" by (auto simp: dropWhile_eq_Nil_conv)
  from hd_dropWhile [OF this] have "hd (dropWhile (\<lambda>x. x \<noteq> CHR ''='') kv) = CHR ''=''" by simp
  with rest obtain r where "dropWhile (\<lambda>x. x \<noteq> CHR ''='') kv = CHR ''='' # r"
    by (metis list.collapse)
  with kv have "kv = (key @ ''='') @ r"
    using takeWhile_dropWhile_id [of "\<lambda>x. x \<noteq> CHR ''=''" kv] by (simp add: param_key_def before_char_def)
  then show "has_prefix kv (key @ ''='')" by (metis has_prefix_iff)
qed

definition plain_key :: "string \<Rightarrow> bool" where
  "plain_key key \<longleftrightarrow> CHR ''?'' \<notin> set key \<and> CHR ''&'' \<notin> set key \<and> CHR ''='' \<notin> set key"

lemma sets_append_param:
  assumes "plain_param kv" and "plain_key key"
  shows "sets_param (append_param kv uri) key \<longleftrightarrow> sets_param uri key \<or> param_key kv = key"
  using assms contains_delim [of _ kv _ "key @ ''=''" uri]
  by (auto simp: sets_param_def append_param_def plain_param_def plain_key_def param_key_prefix)

lemma plain_param_key: "plain_param kv \<Longrightarrow> plain_key (param_key kv)"
  by (auto simp: plain_param_def plain_key_def param_key_def before_char_def dest: set_takeWhileD)

text \<open>The parameters of a query whose key a URI does not set.\<close>

definition gaps :: "string \<Rightarrow> string list \<Rightarrow> string list" where
  "gaps uri kvs = filter (\<lambda>kv. \<not> sets_param uri (param_key kv)) kvs"

lemma fill_gaps:
  assumes "\<forall>kv \<in> set kvs. plain_param kv" and "distinct (map param_key kvs)"
  shows "fold fill_param kvs uri = fold append_param (gaps uri kvs) uri"
  using assms
proof (induction kvs arbitrary: uri)
  case (Cons kv kvs)
  have "gaps (append_param kv uri) kvs = gaps uri kvs"
    unfolding gaps_def using Cons.prems
    by (intro filter_cong) (auto simp: sets_append_param plain_param_key image_iff)
  with Cons show ?case by (simp add: gaps_def fill_param_def)
qed (simp add: gaps_def)

lemma fill_sets:
  assumes "\<forall>kv \<in> set kvs. plain_param kv" and "plain_key key"
  shows "sets_param (fold fill_param kvs uri) key \<longleftrightarrow> sets_param uri key \<or> key \<in> param_key ` set kvs"
  using assms
proof (induction kvs arbitrary: uri)
  case (Cons kv kvs)
  then show ?case by (auto simp: fill_param_def sets_append_param)
qed simp

lemma default_params_plain:
  "\<forall>kv \<in> set (split_on (CHR ''&'') (defaultParams s)). plain_param kv"
  "distinct (map param_key (split_on (CHR ''&'') (defaultParams s)))"
  by (cases s; simp add: keepaliveParams_def sourceTimeout_def plain_param_def param_key_def before_char_def)+

lemma fold_append_prefix: "prefix uri (fold append_param kvs uri)"
proof (induction kvs arbitrary: uri)
  case (Cons kv kvs)
  have "prefix uri (append_param kv uri)" by (simp add: append_param_def)
  with Cons [of "append_param kv uri"] show ?case using prefix_order.trans by fastforce
qed simp

lemma fill_defaults:
  "fillParams (defaultParams s) uri = fold append_param (gaps uri (split_on (CHR ''&'') (defaultParams s))) uri \<and>
   prefix uri (fillParams (defaultParams s) uri) \<and>
   list_all (\<lambda>kv. sets_param (fillParams (defaultParams s) uri) (param_key kv)) (split_on (CHR ''&'') (defaultParams s))"
proof -
  let ?kvs = "split_on (CHR ''&'') (defaultParams s)"
  have fill: "fillParams (defaultParams s) uri = fold append_param (gaps uri ?kvs) uri"
    unfolding fillParams_def using fill_gaps default_params_plain by blast
  moreover have "sets_param (fillParams (defaultParams s) uri) (param_key kv)" if "kv \<in> set ?kvs" for kv
    unfolding fillParams_def
    using fill_sets [OF default_params_plain(1)] plain_param_key default_params_plain(1) that by blast
  ultimately show ?thesis using fold_append_prefix by (simp add: list_all_iff)
qed

lemma fill_chars:
  "set (fold fill_param kvs uri) \<subseteq> set uri \<union> \<Union> (set ` set kvs) \<union> set ''?&''"
proof (induction kvs arbitrary: uri)
  case (Cons kv kvs)
  have "set (fill_param kv uri) \<subseteq> set uri \<union> set kv \<union> set ''?&''"
    by (auto simp: fill_param_def append_param_def)
  with Cons [of "fill_param kv uri"] show ?case by auto
qed auto

text \<open>Without \<open>syncLocal\<close> every default is set in the end; nothing the URI held is lost.\<close>

definition appended :: "string \<Rightarrow> string \<Rightarrow> bool" where
  "appended uri uri' \<longleftrightarrow> (\<exists>q. uri' = uri @ q \<and> (q = [] \<or> hd q = (if CHR ''?'' \<in> set uri then CHR ''&'' else CHR ''?'')))"

lemma appended_refl: "appended uri uri"
  by (simp add: appended_def)

lemma appended_trans: "appended a b \<Longrightarrow> appended b c \<Longrightarrow> appended a c"
  unfolding appended_def by (elim exE conjE, rename_tac q r, rule_tac x = "q @ r" in exI, case_tac q) auto

lemma appended_param: "appended uri (append_param kv uri)"
  by (simp add: appended_def append_param_def)

lemma appended_fill: "appended uri (fold fill_param kvs uri)"
proof (induction kvs arbitrary: uri)
  case (Cons kv kvs)
  have "appended uri (fill_param kv uri)"
    by (simp add: fill_param_def appended_refl appended_param)
  with Cons show ?case using appended_trans by fastforce
qed (simp add: appended_refl)

lemma appended_step: "appended uri (if b then append_param kv uri else uri)"
  by (simp add: appended_refl appended_param)

lemma appended_fill_step: "appended uri (if b then fillParams q uri else uri)"
  by (simp add: appended_refl appended_fill fillParams_def)

lemma complete_uri_appends:
  assumes "complete_uri s sslmode tls syncLocal uri0 = Inr uri"
  shows "appended (drop_dangling uri0) uri"
proof -
  define uri1 where "uri1 = drop_dangling uri0"
  define uri2 where "uri2 = (if tls \<noteq> [] then append_param tls uri1 else uri1)"
  define uri3 where "uri3 = (if sslmode \<noteq> [] then fillParams sslmode uri2 else uri2)"
  define uri4 where "uri4 = (if True then fillParams (defaultParams s) uri3 else uri3)"
  have "uri = (if syncLocal then append_param SyncCommitLocalParam uri4 else uri4)"
    using assms by (auto simp: complete_uri_def Let_def refuse_def uri1_def uri2_def uri3_def uri4_def split: if_splits)
  then have "appended uri4 uri" by (simp add: appended_refl appended_param)
  moreover have "appended uri1 uri2" "appended uri2 uri3" "appended uri3 uri4"
    unfolding uri2_def uri3_def uri4_def by (rule appended_step appended_fill_step)+
  ultimately show ?thesis unfolding uri1_def [symmetric] by (meson appended_trans)
qed

section \<open>The parts of a URI\<close>

definition tail_ok :: "string \<Rightarrow> bool" where
  "tail_ok r \<longleftrightarrow> r = [] \<or> hd r \<in> {CHR ''/'', CHR ''?''}"

definition uri_with :: "string \<Rightarrow> string \<Rightarrow> string \<Rightarrow> string \<Rightarrow> string" where
  "uri_with sch user hostport r = sch @ ''://'' @ user @ ''@'' @ hostport @ r"

definition host_part_chars :: "string \<Rightarrow> bool" where
  "host_part_chars x \<longleftrightarrow> CHR ''@'' \<notin> set x \<and> CHR ''/'' \<notin> set x \<and> CHR ''?'' \<notin> set x"

definition schemes :: "string set" where
  "schemes = {''postgresql'', ''postgres''}"

text \<open>The reference reader: the host and the user a URI names.\<close>

definition uri_host_part :: "string \<Rightarrow> string" where
  "uri_host_part uri = before_char (CHR ''/'') (before_char (CHR ''?'') (after_scheme uri))"

definition uri_login :: "string \<Rightarrow> string \<times> string" where
  "uri_login uri = (before_char (CHR '':'') (after_last (CHR ''@'') (uri_host_part uri)),
     before_char (CHR ''@'') (uri_host_part uri))"

lemma before_char_simps [simp]:
  "before_char c [] = []"
  "before_char c (x # s) = (if x = c then [] else x # before_char c s)"
  by (simp_all add: before_char_def)

lemma before_char_append: "c \<notin> set a \<Longrightarrow> before_char c (a @ b) = a @ before_char c b"
  by (induction a) (auto simp: before_char_def)

lemma before_char_id: "c \<notin> set a \<Longrightarrow> before_char c a = a"
  using before_char_append [of c a "[]"] by (simp add: before_char_def)

lemma before_char_at: "c \<notin> set a \<Longrightarrow> before_char c (a @ c # b) = a"
  using before_char_append [of c a "c # b"] by (simp add: before_char_def)

lemma before_char_notin: "c \<notin> set (before_char c s)"
  by (auto simp: before_char_def dest: set_takeWhileD)

lemma before_char_subset: "set (before_char c s) \<subseteq> set s"
  by (auto simp: before_char_def dest: set_takeWhileD)

lemma before_char_rest: "\<exists>r. s = before_char c s @ r \<and> (r = [] \<or> hd r = c)"
proof (induction s)
  case (Cons x s)
  then show ?case by (cases "x = c") (auto simp: before_char_def)
qed (simp add: before_char_def)

lemma after_last_append: "c \<notin> set b \<Longrightarrow> after_last c (a @ c # b) = b"
  using before_char_at [of c "rev b" "rev a"] by (simp add: after_last_def before_char_def)

lemma after_last_split: "c \<in> set s \<Longrightarrow> \<exists>i. s = i @ after_last c s \<and> (i = [] \<or> last i = c)"
proof -
  obtain r where r: "rev s = before_char c (rev s) @ r" "r = [] \<or> hd r = c"
    using before_char_rest by blast
  from r(1) have "s = rev r @ after_last c s"
    by (metis after_last_def before_char_def rev_append rev_rev_ident)
  with r(2) show ?thesis by (intro exI [of _ "rev r"]) (auto simp: last_rev)
qed

lemma after_last_notin: "c \<notin> set (after_last c s)"
  by (auto simp: after_last_def dest: set_takeWhileD)

lemma after_scheme_uri: "sch \<in> schemes \<Longrightarrow> after_scheme (sch @ ''://'' @ r) = r"
  by (auto simp: schemes_def after_scheme_def has_prefix_def)

lemma scheme_of_uri: "sch \<in> schemes \<Longrightarrow> scheme_of (sch @ ''://'' @ r) = sch"
  by (auto simp: schemes_def scheme_of_def has_prefix_def)

lemma is_uri_scheme: "is_uri db \<Longrightarrow> \<exists>sch \<in> schemes. \<exists>r. db = sch @ ''://'' @ r"
  by (auto simp: is_uri_def has_prefix_iff schemes_def)

lemma host_part_tail:
  assumes "CHR ''/'' \<notin> set x" and "CHR ''?'' \<notin> set x" and "tail_ok r"
  shows "before_char (CHR ''/'') (before_char (CHR ''?'') (x @ r)) = x"
proof (cases r)
  case Nil
  with assms show ?thesis by (simp add: before_char_id)
next
  case (Cons c cs)
  with assms have "c = CHR ''/'' \<or> c = CHR ''?''" by (auto simp: tail_ok_def)
  with assms Cons show ?thesis
    by (auto simp: before_char_at before_char_append before_char_id)
qed

lemma host_part_split:
  "\<exists>r. s = before_char (CHR ''/'') (before_char (CHR ''?'') s) @ r \<and> tail_ok r"
proof -
  obtain q where q: "s = before_char (CHR ''?'') s @ q" "q = [] \<or> hd q = CHR ''?''"
    using before_char_rest by blast
  obtain p where p: "before_char (CHR ''?'') s = before_char (CHR ''/'') (before_char (CHR ''?'') s) @ p"
      "p = [] \<or> hd p = CHR ''/''"
    using before_char_rest by blast
  have "s = before_char (CHR ''/'') (before_char (CHR ''?'') s) @ p @ q"
    using q(1) p(1) by (metis append.assoc)
  moreover have "tail_ok (p @ q)" using q(2) p(2) by (cases p) (auto simp: tail_ok_def)
  ultimately show ?thesis by blast
qed

lemma uri_login_with:
  assumes "sch \<in> schemes" and "host_part_chars user" and "host_part_chars hostport" and "tail_ok r"
  shows "uri_login (uri_with sch user hostport r) = (before_char (CHR '':'') hostport, user)"
proof -
  have "after_scheme (uri_with sch user hostport r) = (user @ CHR ''@'' # hostport) @ r"
    using after_scheme_uri [OF assms(1), of "user @ CHR ''@'' # hostport @ r"] by (simp add: uri_with_def)
  then have "uri_host_part (uri_with sch user hostport r) = user @ CHR ''@'' # hostport"
    unfolding uri_host_part_def
    using host_part_tail [of "user @ CHR ''@'' # hostport" r] assms by (simp add: host_part_chars_def)
  then show ?thesis
    using assms by (simp add: uri_login_def after_last_append before_char_at host_part_chars_def)
qed

text \<open>An accepted endpoint: the URI has the parts the passfile line is written for.\<close>

lemma plain_endpoint_ok: "plain_endpoint s r = Inr r' \<Longrightarrow> r' = r \<and> CHR ''%'' \<notin> set (fst (snd r) @ snd (snd r))"
  by (auto simp: plain_endpoint_def refuse_def split: prod.splits if_splits)

lemma contains_any_iff: "contains_any s chars \<longleftrightarrow> (\<exists>c \<in> set s. c \<in> set chars)"
  by (auto simp: contains_any_def list_ex_iff)

lemma user_chars:
  "\<not> contains_any user uri_syntax \<Longrightarrow> host_part_chars user \<and> CHR '':'' \<notin> set user \<and> CHR ''%'' \<notin> set user"
  by (auto simp: contains_any_iff uri_syntax_def host_part_chars_def)

lemma host_chars:
  "\<not> contains_any host ''@/?#%&'' \<Longrightarrow> host_part_chars host \<and> CHR ''&'' \<notin> set host \<and> CHR ''%'' \<notin> set host"
  by (auto simp: contains_any_iff host_part_chars_def)

lemma host_part_plain:
  "CHR ''/'' \<notin> set (before_char (CHR ''/'') (before_char (CHR ''?'') r)) \<and>
   CHR ''?'' \<notin> set (before_char (CHR ''/'') (before_char (CHR ''?'') r))"
  using before_char_notin before_char_subset by blast

lemma after_last_subset: "set (after_last c s) \<subseteq> set s"
  by (auto simp: after_last_def dest: set_takeWhileD)

lemma secret_endpoint_parts:
  assumes "secret_endpoint s pwKey db user0 host0 = Inr (uri, user, hostport)"
  shows "\<exists>sch \<in> schemes. \<exists>r. uri = uri_with sch user hostport r \<and> tail_ok r \<and> host_part_chars user \<and>
    host_part_chars hostport \<and> CHR '':'' \<notin> set user \<and> CHR ''%'' \<notin> set (user @ hostport) \<and> (is_uri db \<or> CHR ''&'' \<notin> set hostport) \<and>
    (is_uri db \<longrightarrow> (\<exists>p. db = p @ hostport @ r \<and> CHR ''?'' \<notin> set p))"
proof (cases "is_uri db")
  case True
  let ?rest = "after_scheme db"
  let ?hp = "before_char (CHR ''/'') (before_char (CHR ''?'') ?rest)"
  obtain sch where sch: "sch \<in> schemes" "db = sch @ ''://'' @ ?rest"
    using is_uri_scheme [OF True] after_scheme_uri by metis
  obtain r where r: "?rest = ?hp @ r" "tail_ok r" using host_part_split by blast
  show ?thesis
  proof (cases "CHR ''@'' \<in> set ?hp")
    case at: True
    have parts: "user = before_char (CHR ''@'') ?hp" "hostport = after_last (CHR ''@'') ?hp" "uri = db"
        "CHR '':'' \<notin> set user" "user @ ''@'' @ hostport = ?hp"
        "CHR ''%'' \<notin> set (user @ hostport)"
      using assms True at
      by (auto simp: secret_endpoint_def Let_def refuse_def split: if_splits dest!: plain_endpoint_ok)
    have chars: "host_part_chars user" "host_part_chars hostport"
      unfolding host_part_chars_def parts(1,2)
      using host_part_plain [of ?rest] before_char_notin before_char_subset after_last_notin after_last_subset
      by blast+
    have db: "db = (sch @ ''://'' @ user @ ''@'') @ hostport @ r"
      using sch(2) r(1) parts(5) by (metis append.assoc)
    have "CHR ''?'' \<notin> set (sch @ ''://'' @ user @ ''@'')"
      using sch(1) chars by (auto simp: schemes_def host_part_chars_def)
    moreover have "uri = uri_with sch user hostport r" using db parts(3) by (simp add: uri_with_def)
    ultimately show ?thesis
      by (intro bexI [OF _ sch(1)] exI [of _ r]) (use db chars parts(4,6) r(2) True in blast)
  next
    case False
    then have *: "user = user0" "hostport = ?hp" "uri = ''postgresql://'' @ user @ ''@'' @ ?rest"
        "\<not> contains_any user uri_syntax" and pct: "CHR ''%'' \<notin> set (user @ hostport)"
      using assms True
      by (auto simp: secret_endpoint_def Let_def refuse_def split: if_splits dest!: plain_endpoint_ok)
    then have "host_part_chars hostport"
      using False host_part_plain [of ?rest] by (simp add: host_part_chars_def)
    moreover have "uri = uri_with ''postgresql'' user hostport r" using * r by (simp add: uri_with_def)
    moreover have "db = (sch @ ''://'') @ hostport @ r" using sch(2) r(1) *(2) by simp
    moreover have "CHR ''?'' \<notin> set (sch @ ''://'')" using sch(1) by (auto simp: schemes_def)
    moreover have "''postgresql'' \<in> schemes" by (simp add: schemes_def)
    ultimately show ?thesis
      by (intro bexI [of _ "''postgresql''"] exI [of _ r]) (use user_chars [OF *(4)] pct r(2) True in blast)+
  qed
next
  case False
  then have *: "user = user0" "hostport = (if CHR '':'' \<in> set host0 then host0 else host0 @ '':5432'')"
      "uri = ''postgresql://'' @ user @ ''@'' @ hostport @ ''/'' @ db" "\<not> contains_any user uri_syntax"
      "\<not> contains_any host0 ''@/?#%&''"
    using assms by (auto simp: secret_endpoint_def Let_def refuse_def split: if_splits)
  have "host_part_chars hostport \<and> CHR ''&'' \<notin> set hostport \<and> CHR ''%'' \<notin> set hostport"
    using host_chars [OF *(5)] *(2) by (auto simp: host_part_chars_def)
  with * user_chars [OF *(4)] False show ?thesis
    by (intro bexI [of _ "''postgresql''"] exI [of _ "''/'' @ db"])
      (auto simp: uri_with_def schemes_def tail_ok_def)
qed

lemma drop_dangling_with:
  assumes "uri = uri_with sch user hostport r" and "tail_ok r" and "host_part_chars hostport"
    and "r = [] \<Longrightarrow> hostport = [] \<or> last hostport \<noteq> CHR ''&''"
  shows "\<exists>r'. drop_dangling uri = uri_with sch user hostport r' \<and> tail_ok r' \<and> prefix r' r"
proof (cases "r = []")
  case True
  have "last uri = (if hostport = [] then CHR ''@'' else last hostport)"
    using True assms(1) by (simp add: uri_with_def)
  moreover have "last hostport \<noteq> CHR ''?''" if "hostport \<noteq> []"
    using last_in_set [OF that] assms(3) by (metis host_part_chars_def)
  ultimately have "last uri \<notin> set ''?&''" using True assms(4) by auto
  with True assms(1,2) show ?thesis by (intro exI [of _ "[]"]) (simp add: drop_dangling_def)
next
  case False
  then have "last uri = last r" "butlast uri = uri_with sch user hostport (butlast r)" "uri \<noteq> []"
    using assms(1) by (auto simp: uri_with_def butlast_append)
  moreover have "tail_ok (butlast r)" using assms(2) by (cases r) (auto simp: tail_ok_def)
  ultimately show ?thesis using assms(1,2) by (auto simp: drop_dangling_def intro: prefixeq_butlast)
qed

lemma appended_with:
  assumes "appended (uri_with sch user hostport r) uri" and "tail_ok r" and "sch \<in> schemes"
    and "host_part_chars user" and "host_part_chars hostport"
  shows "\<exists>q. uri = uri_with sch user hostport (r @ q) \<and> tail_ok (r @ q)"
proof -
  obtain q where q: "uri = uri_with sch user hostport r @ q"
      "q = [] \<or> hd q = (if CHR ''?'' \<in> set (uri_with sch user hostport r) then CHR ''&'' else CHR ''?'')"
    using assms(1) by (auto simp: appended_def)
  have "CHR ''?'' \<notin> set (uri_with sch user hostport [])"
    using assms(3-5) by (auto simp: uri_with_def schemes_def host_part_chars_def)
  with q(2) assms(2) have "tail_ok (r @ q)"
    by (cases r) (auto simp: tail_ok_def uri_with_def split: if_splits)
  with q(1) show ?thesis by (auto simp: uri_with_def)
qed

text \<open>The exported URI of a secretRef side has the user and the host of its passfile line in their places.\<close>

lemma uri_names_login:
  assumes "secret_endpoint s pwKey db user0 host0 = Inr (uri0, user, hostport)"
    and "complete_uri s sslmode tls syncLocal uri0 = Inr uri"
    and "last db = CHR ''&'' \<Longrightarrow> CHR ''?'' \<in> set db"
  shows "\<exists>sch \<in> schemes. \<exists>r. uri = uri_with sch user hostport r \<and> tail_ok r \<and> host_part_chars user \<and> host_part_chars hostport \<and>
    CHR '':'' \<notin> set user \<and> CHR ''%'' \<notin> set (user @ hostport)"
proof -
  obtain sch r where sch: "sch \<in> schemes" and uri0: "uri0 = uri_with sch user hostport r"
      and r: "tail_ok r" "host_part_chars user" "host_part_chars hostport" "CHR '':'' \<notin> set user"
      and pct: "CHR ''%'' \<notin> set (user @ hostport)" and amp: "is_uri db \<or> CHR ''&'' \<notin> set hostport"
      and db: "is_uri db \<longrightarrow> (\<exists>p. db = p @ hostport @ r \<and> CHR ''?'' \<notin> set p)"
    using secret_endpoint_parts [OF assms(1)] by blast
  have "hostport = [] \<or> last hostport \<noteq> CHR ''&''" if "r = []"
  proof (cases "is_uri db")
    case True
    with db that obtain p where "db = p @ hostport" "CHR ''?'' \<notin> set p" by auto
    with r(3) assms(3) show ?thesis by (cases "hostport = []") (auto simp: host_part_chars_def)
  next
    case False
    with amp show ?thesis using last_in_set by fastforce
  qed
  from drop_dangling_with [OF uri0 r(1,3) this] obtain r'
    where "drop_dangling uri0 = uri_with sch user hostport r'" "tail_ok r'" by blast
  with complete_uri_appends [OF assms(2)] appended_with sch r
  obtain q where "uri = uri_with sch user hostport (r' @ q)" "tail_ok (r' @ q)" by metis
  with sch r(2-4) pct show ?thesis by blast
qed

text \<open>The user and the host come from the three values of the Secret.\<close>

lemma secret_endpoint_values:
  assumes "secret_endpoint s pwKey db user0 host0 = Inr (uri, user, hostport)"
  shows "set user \<subseteq> set db \<union> set user0" and "set hostport \<subseteq> set db \<union> set host0 \<union> set '':5432''"
proof -
  have rest: "set (after_scheme db) \<subseteq> set db" if "is_uri db"
    using is_uri_scheme [OF that] after_scheme_uri by force
  let ?hp = "before_char (CHR ''/'') (before_char (CHR ''?'') (after_scheme db))"
  have hp: "set ?hp \<subseteq> set (after_scheme db)"
    using before_char_subset by (meson subset_trans)
  have sub: "set (before_char c ?hp) \<subseteq> set ?hp" "set (after_last c ?hp) \<subseteq> set ?hp" for c
    by (rule before_char_subset after_last_subset)+
  have "user \<in> {before_char (CHR ''@'') ?hp, user0} \<and> hostport \<in> {after_last (CHR ''@'') ?hp, ?hp}" if "is_uri db"
    using assms that by (auto simp: secret_endpoint_def Let_def refuse_def split: if_splits dest!: plain_endpoint_ok)
  moreover have "user = user0 \<and> hostport \<in> {host0, host0 @ '':5432''}" if "\<not> is_uri db"
    using assms that by (auto simp: secret_endpoint_def Let_def refuse_def split: if_splits)
  ultimately show "set user \<subseteq> set db \<union> set user0" and "set hostport \<subseteq> set db \<union> set host0 \<union> set '':5432''"
    using rest hp sub by (cases "is_uri db"; blast | force)+
qed

section \<open>The superuser URI\<close>

definition same_endpoint :: "string \<Rightarrow> string \<Rightarrow> bool" where
  "same_endpoint want hostport \<longleftrightarrow> want = [] \<or>
     want = (if CHR '':'' \<notin> set want then before_char (CHR '':'') hostport
       else if CHR '':'' \<in> set hostport then hostport else hostport @ '':5432'')"

text \<open>What may stand before the host: nothing, or text up to an at-sign that begins no path and no query.\<close>

definition user_info :: "string \<Rightarrow> bool" where
  "user_info info \<longleftrightarrow> (info = [] \<or> last info = CHR ''@'') \<and> CHR ''/'' \<notin> set info \<and> CHR ''?'' \<notin> set info"

lemma super_endpoint_parts:
  assumes "super_endpoint s base user want = Inr (uri, host)"
  shows "\<exists>sch \<in> schemes. \<exists>info hostport r. base = sch @ ''://'' @ info @ hostport @ r \<and> user_info info \<and> uri = uri_with sch user hostport r \<and> host = before_char (CHR '':'') hostport \<and>
    host_part_chars user \<and> CHR '':'' \<notin> set user \<and> host_part_chars hostport \<and> tail_ok r \<and> same_endpoint want hostport"
proof -
  let ?rest = "after_scheme base"
  let ?part = "before_char (CHR ''/'') (before_char (CHR ''?'') ?rest)"
  define hostport where "hostport = (if CHR ''@'' \<in> set ?part then after_last (CHR ''@'') ?part else ?part)"
  have ok: "is_uri base" "\<not> contains_any user uri_syntax" "host = before_char (CHR '':'') hostport"
      "uri = scheme_of base @ ''://'' @ user @ ''@'' @ hostport @ trim_prefix ?rest ?part"
    using assms unfolding super_endpoint_def Let_def refuse_super_def hostport_def [symmetric]
    by (auto split: if_splits)
  have want: "same_endpoint want hostport"
    using assms unfolding super_endpoint_def Let_def refuse_super_def hostport_def [symmetric] same_endpoint_def
    by (auto split: if_splits)
  obtain sch where sch: "sch \<in> schemes" "base = sch @ ''://'' @ ?rest"
    using is_uri_scheme [OF ok(1)] after_scheme_uri by metis
  obtain r where r: "?rest = ?part @ r" "tail_ok r" using host_part_split by blast
  have "trim_prefix ?rest ?part = r"
    using r(1) by (metis append_eq_conv_conj has_prefix_iff trim_prefix_def)
  with ok(4) sch have uri: "uri = uri_with sch user hostport r"
    using scheme_of_uri [OF sch(1), of ?rest] by (simp add: uri_with_def)
  have chars: "host_part_chars hostport"
    unfolding host_part_chars_def hostport_def
    using host_part_plain [of ?rest] after_last_notin [of "CHR ''@''" ?part] after_last_subset [of "CHR ''@''" ?part]
    by auto
  have "\<exists>info. ?part = info @ hostport \<and> (info = [] \<or> last info = CHR ''@'')"
    unfolding hostport_def using after_last_split by simp
  then obtain info where part: "?part = info @ hostport" and "info = [] \<or> last info = CHR ''@''" by blast
  then have info: "user_info info"
    using host_part_plain [of ?rest] unfolding user_info_def part by simp
  have "base = sch @ ''://'' @ info @ hostport @ r"
    using sch(2) r(1) part by (metis append.assoc)
  then show ?thesis
    using sch(1) info uri ok(3) user_chars [OF ok(2)] chars r(2) want by blast
qed

section \<open>Reading the URIs back\<close>

text \<open>
  Of every side, a shell has either no URI file and the pod's own value, or the file holds
  the value it exported.
\<close>

definition file_or_pod :: "shell \<Rightarrow> string \<Rightarrow> string \<Rightarrow> shell \<Rightarrow> bool" where
  "file_or_pod pod f x sh \<longleftrightarrow>
     sh_files sh f = None \<and> sh_env sh x = sh_env pod x \<or> sh_files sh f \<noteq> None \<and> sh_env sh x = sh_files sh f"

definition recoverable :: "shell \<Rightarrow> shell \<Rightarrow> bool" where
  "recoverable pod sh \<longleftrightarrow> (\<forall>s. file_or_pod pod (URIFile s) (uriEnv s) sh \<and>
     file_or_pod pod (SuperURIFile s) (SuperURIEnv s) sh)"

lemma own_names [simp]:
  "URIFile s = URIFile t \<longleftrightarrow> s = t" "SuperURIFile s = SuperURIFile t \<longleftrightarrow> s = t" "URIFile s \<noteq> SuperURIFile t"
  "SuperURIFile t \<noteq> URIFile s" "uriEnv s = uriEnv t \<longleftrightarrow> s = t" "SuperURIEnv s = SuperURIEnv t \<longleftrightarrow> s = t"
  "uriEnv s \<noteq> SuperURIEnv t" "SuperURIEnv t \<noteq> uriEnv s"
  "uriEnv s \<noteq> ''PGPASSFILE''" "SuperURIEnv s \<noteq> ''PGPASSFILE''"
  by (cases s; cases t; simp add: URIFile_def SuperURIFile_def SuperURIEnv_def pgmEnv_def)+

lemma recoverable_append: "recoverable pod sh \<Longrightarrow> recoverable pod (append_file PgpassPath v sh)"
  by (simp add: recoverable_def file_or_pod_def append_file_def write_file_def)

lemma recoverable_uri: "recoverable pod sh \<Longrightarrow> recoverable pod (write_file (URIFile s) v (export (uriEnv s) v sh))"
  by (auto simp: recoverable_def file_or_pod_def write_file_def export_def)

lemma recoverable_super:
  "recoverable pod sh \<Longrightarrow> recoverable pod (write_file (SuperURIFile s) v (export (SuperURIEnv s) v sh))"
  by (auto simp: recoverable_def file_or_pod_def write_file_def export_def)

lemma recoverable_snippet: "recoverable pod sh \<Longrightarrow> run_snippet p sh = Inr sh' \<Longrightarrow> recoverable pod sh'"
  by (cases p) (auto elim!: secretRefPrelude_ok superPrelude_ok
      intro: recoverable_append recoverable_uri recoverable_super)

lemma recoverable_snippets: "recoverable pod sh \<Longrightarrow> run_snippets ps sh = Inr sh' \<Longrightarrow> recoverable pod sh'"
  by (induction ps arbitrary: sh) (auto split: sum.splits dest: recoverable_snippet)

lemma recoverable_statics: "recoverable pod sh \<Longrightarrow> recoverable pod (write_statics entries sh)"
  by (induction entries arbitrary: sh) (auto intro: recoverable_append)

definition fresh_pod :: "shell \<Rightarrow> bool" where
  "fresh_pod pod \<longleftrightarrow> (\<forall>f \<in> own_files. sh_files pod f = None)"

lemma recoverable_prelude:
  assumes "PreludeScript preludes entries pod = Inr sh" and "fresh_pod pod"
  shows "recoverable pod sh"
proof -
  have start: "recoverable pod pod" using assms(2) by (simp add: recoverable_def file_or_pod_def fresh_pod_def)
  then have "recoverable pod (write_file PgpassPath [] pod)"
    by (simp add: recoverable_def file_or_pod_def write_file_def)
  then have "recoverable pod (passfile_start entries pod)"
    unfolding passfile_start_def by (rule recoverable_statics)
  then have "recoverable pod sh1" if "run_snippets preludes (passfile_start entries pod) = Inr sh1" for sh1
    using that by (rule recoverable_snippets)
  moreover have "recoverable pod (export ''PGPASSFILE'' PgpassPath sh1)" if "recoverable pod sh1" for sh1
    using that own_names by (simp add: recoverable_def file_or_pod_def export_def)
  moreover have "sh = pod" if "entries = []" "preludes = []"
    using assms(1) that by (simp add: PreludeScript_def)
  ultimately show ?thesis
    using PreludeScript_runs [OF assms(1)] start by blast
qed

lemma recover_file_env:
  "sh_env (recover_file f x sh) y =
     (if y = x then (case sh_files sh f of None \<Rightarrow> sh_env sh x | Some v \<Rightarrow> Some (subst_out v)) else sh_env sh y)"
  "sh_files (recover_file f x sh) = sh_files sh"
  by (auto simp: recover_file_def export_def split: option.splits)

lemma URIRecover_env:
  "sh_env (URIRecover sh) (uriEnv s) =
     (case sh_files sh (URIFile s) of None \<Rightarrow> sh_env sh (uriEnv s) | Some v \<Rightarrow> Some (subst_out v))"
  "sh_env (URIRecover sh) (SuperURIEnv s) =
     (case sh_files sh (SuperURIFile s) of None \<Rightarrow> sh_env sh (SuperURIEnv s) | Some v \<Rightarrow> Some (subst_out v))"
proof -
  have run: "URIRecover sh =
      recover_file (SuperURIFile Target) (SuperURIEnv Target) (recover_file (URIFile Target) (uriEnv Target)
        (recover_file (SuperURIFile Source) (SuperURIEnv Source) (recover_file (URIFile Source) (uriEnv Source) sh)))"
    by (simp add: URIRecover_def SuperURIEnv_def del: uriEnv.simps)
  note apart = own_names side.simps recover_file_env if_False if_True simp_thms not_False_eq_True
  show "sh_env (URIRecover sh) (uriEnv s) =
     (case sh_files sh (URIFile s) of None \<Rightarrow> sh_env sh (uriEnv s) | Some v \<Rightarrow> Some (subst_out v))"
    by (cases s) (simp_all only: run apart)
  show "sh_env (URIRecover sh) (SuperURIEnv s) =
     (case sh_files sh (SuperURIFile s) of None \<Rightarrow> sh_env sh (SuperURIEnv s) | Some v \<Rightarrow> Some (subst_out v))"
    by (cases s) (simp_all only: run apart)
qed

text \<open>The shell of a command exec'd into the pod: the pod's environment, the container's files.\<close>

definition exec_shell :: "shell \<Rightarrow> shell \<Rightarrow> shell" where
  "exec_shell pod sh = \<lparr>sh_env = sh_env pod, sh_files = sh_files sh\<rparr>"

lemma URIRecover_exec:
  assumes "recoverable pod sh" and "\<And>v. sh_env sh x = Some v \<Longrightarrow> newline \<notin> set v"
    and "x \<in> {uriEnv s, SuperURIEnv s}"
  shows "sh_env (URIRecover (exec_shell pod sh)) x = sh_env sh x"
  using assms subst_out_id
  by (auto simp: recoverable_def file_or_pod_def URIRecover_env exec_shell_def split: option.splits dest!: spec [of _ s])

end
