(* ===== verification/Job_Prelude.thy ===== *)
theory Job_Prelude
  imports Resources Conn_Compose
begin

text \<open>
  The prelude of a Job the operator builds: which snippets and static entries it carries, in
  which order, and what follows for the passfile the Job's pod assembles. A Job takes the
  source's part, the target's part and, for the preflight, the superusers' parts; every
  password is read from a file under the credentials directory, which no snippet writes.
\<close>

definition preludes_of :: "materialized list \<Rightarrow> prelude list" where
  "preludes_of sets = concat (map (\<lambda>s. option_list (mz_prelude s)) sets)"

definition passfiles_of :: "materialized list \<Rightarrow> passfile list" where
  "passfiles_of sets = concat (map (\<lambda>s. option_list (mz_passfile s)) sets)"

lemma in_parts:
  "p \<in> set (preludes_of sets) \<Longrightarrow> \<exists>x \<in> set sets. mz_prelude x = Some p"
  "e \<in> set (passfiles_of sets) \<Longrightarrow> \<exists>x \<in> set sets. mz_passfile x = Some e"
  by (auto simp: preludes_of_def passfiles_of_def option_list_def split: option.splits)

lemma jobSkeleton_sets:
  assumes "jobSkeleton m img name prog st b sc extras = Inr j"
  obtains src tgt where "Materialize Source (source (spec m)) = Inr src"
    and "Materialize Target (if sc then target (spec m) else (target (spec m))\<lparr>pc_synchronous_commit := []\<rparr>) = Inr tgt"
    and "js_preludes (j_spec j) = preludes_of ([src, tgt] @ extras)"
    and "js_passfiles (j_spec j) = passfiles_of ([src, tgt] @ extras)"
  using assms unfolding jobSkeleton_def
  by (auto simp: skeleton_job_def preludes_of_def passfiles_of_def Let_def split: sum.splits)

section \<open>Where the passwords are read\<close>

definition creds_file :: "string \<Rightarrow> string" where
  "creds_file pre = credsDir @ ''/'' @ pre @ ''-mnt/'' @ pre @ ''-password''"

lemma creds_file_not_own: "creds_file pre \<notin> own_files"
  by (simp add: creds_file_def own_files_def credsDir_def URIFile_def SuperURIFile_def PgpassPath_def)

lemma creds_range: "f \<in> range creds_file \<Longrightarrow> f \<notin> own_files"
  using creds_file_not_own by auto

lemma passwordVolume_file: "passwordVolume pre secret key opt = (v, mnt, f) \<Longrightarrow> f = creds_file pre"
  by (auto simp: passwordVolume_def Let_def creds_file_def)

definition reads_creds :: "materialized \<Rightarrow> bool" where
  "reads_creds mz \<longleftrightarrow> (\<forall>e. mz_passfile mz = Some e \<longrightarrow> pw_file e \<in> range creds_file) \<and>
     (\<forall>p. mz_prelude mz = Some p \<longrightarrow> password_file p \<in> range creds_file)"

lemma Materialize_reads_creds: "Materialize s c = Inr mz \<Longrightarrow> reads_creds mz"
  unfolding Materialize_def materializeSecretRef_def reads_creds_def Let_def
  by (auto split: option.splits prod.splits sum.splits if_splits dest!: passwordVolume_file)

lemma MaterializeSuperuser_reads_creds: "Some mz = MaterializeSuperuser s c \<Longrightarrow> reads_creds mz"
  unfolding MaterializeSuperuser_def reads_creds_def Let_def
  by (auto split: option.splits prod.splits dest!: passwordVolume_file)

lemma superuser_extras_reads_creds: "mz \<in> set (superuser_extras m) \<Longrightarrow> reads_creds mz"
  by (auto simp: superuser_extras_def option_list_def dest: MaterializeSuperuser_reads_creds split: option.splits if_splits)

text \<open>The Jobs the operator builds take no extras, or the superusers' parts.\<close>

definition operator_extras :: "migration \<Rightarrow> materialized list \<Rightarrow> bool" where
  "operator_extras m extras \<longleftrightarrow> extras = [] \<or> extras = superuser_extras m"

lemma job_reads_creds:
  assumes "jobSkeleton m img name prog st b sc extras = Inr j" and "operator_extras m extras"
  shows "\<forall>p \<in> set (js_preludes (j_spec j)). password_file p \<notin> own_files"
    and "\<forall>e \<in> set (js_passfiles (j_spec j)). pw_file e \<notin> own_files"
proof -
  obtain src tgt where mz: "Materialize Source (source (spec m)) = Inr src"
      "Materialize Target (if sc then target (spec m) else (target (spec m))\<lparr>pc_synchronous_commit := []\<rparr>) = Inr tgt"
      and js: "js_preludes (j_spec j) = preludes_of ([src, tgt] @ extras)"
        "js_passfiles (j_spec j) = passfiles_of ([src, tgt] @ extras)"
    using jobSkeleton_sets [OF assms(1)] .
  have creds: "reads_creds x" if "x \<in> set ([src, tgt] @ extras)" for x
    using that mz [THEN Materialize_reads_creds] superuser_extras_reads_creds assms(2)
    by (auto simp: operator_extras_def)
  show "\<forall>p \<in> set (js_preludes (j_spec j)). password_file p \<notin> own_files"
    using in_parts(1) [of _ "[src, tgt] @ extras"] creds creds_range
    unfolding js reads_creds_def by blast
  show "\<forall>e \<in> set (js_passfiles (j_spec j)). pw_file e \<notin> own_files"
    using in_parts(2) [of _ "[src, tgt] @ extras"] creds creds_range
    unfolding js reads_creds_def by blast
qed

section \<open>The passfile of a Job\<close>

definition job_prelude :: "job \<Rightarrow> shell \<Rightarrow> sh_exit + shell" where
  "job_prelude j = PreludeScript (js_preludes (j_spec j)) (js_passfiles (j_spec j))"

definition job_logins :: "job \<Rightarrow> shell \<Rightarrow> login list" where
  "job_logins j = prelude_logins (js_preludes (j_spec j)) (js_passfiles (j_spec j))"

text \<open>
  The static entries' hosts and roles hold nothing the passfile escapes, and every login fits on a
  line and is no wildcard.
\<close>

definition plain_job :: "job \<Rightarrow> shell \<Rightarrow> bool" where
  "plain_job j pod \<longleftrightarrow> (\<forall>e \<in> set (js_passfiles (j_spec j)). plain_field (pw_host e) \<and> plain_field (pw_user e)) \<and>
     (\<forall>e \<in> set (job_logins j pod). one_line e)"

lemma no_passfile: "passfile_password host port db user [] = None"
  by (simp add: passfile_password_def line_password_def)

lemma job_passfile:
  assumes "jobSkeleton m img name prog st b sc extras = Inr j" and "operator_extras m extras"
    and "job_prelude j pod = Inr sh" and "plain_job j pod"
    and "js_passfiles (j_spec j) = [] \<Longrightarrow> js_preludes (j_spec j) = [] \<Longrightarrow> fresh_pod pod"
  shows "passfile_password host port db user (file_text sh PgpassPath) = login_map (job_logins j pod) (host, user)"
proof (cases "js_passfiles (j_spec j) = [] \<and> js_preludes (j_spec j) = []")
  case True
  with assms(3-5) show ?thesis
    by (simp add: job_prelude_def job_logins_def PreludeScript_def prelude_logins_def no_passfile login_map_def
        plain_job_def fresh_pod_def file_text_def)
next
  case False
  then show ?thesis
    using PreludeScript_logins [of "js_preludes (j_spec j)" "js_passfiles (j_spec j)" pod sh] job_reads_creds [OF assms(1,2)] assms(3,4)
    by (auto simp: job_prelude_def job_logins_def static_plain_def plain_job_def)
qed

text \<open>The logins of a Job whose sides are both inline with a password.\<close>

definition inline_password :: "postgres_connection \<Rightarrow> bool" where
  "inline_password c \<longleftrightarrow> pc_secret_ref c = None \<and> pc_uri_secret_ref c = None \<and> pc_password_secret_ref c \<noteq> None"

definition side_file :: "side \<Rightarrow> string" where
  "side_file s = creds_file (side_str s)"

lemma inline_parts:
  assumes "Materialize s c = Inr mz" and "inline_password c"
  shows "mz_passfile mz = Some \<lparr>pw_host = pc_host c, pw_user = pc_username c, pw_file = side_file s\<rparr> \<and> mz_prelude mz = None"
  using assms unfolding Materialize_def inline_password_def Let_def side_file_def
  by (auto dest!: passwordVolume_file split: option.splits prod.splits sum.splits if_splits)

lemma inline_job:
  assumes "jobSkeleton m img name prog st b sc [] = Inr j"
    and "inline_password (source (spec m))" and "inline_password (target (spec m))"
  shows "js_preludes (j_spec j) = []" and "js_passfiles (j_spec j) =
    [\<lparr>pw_host = pc_host (source (spec m)), pw_user = pc_username (source (spec m)), pw_file = side_file Source\<rparr>,
     \<lparr>pw_host = pc_host (target (spec m)), pw_user = pc_username (target (spec m)), pw_file = side_file Target\<rparr>]"
proof -
  obtain src tgt where mz: "Materialize Source (source (spec m)) = Inr src"
      "Materialize Target (if sc then target (spec m) else (target (spec m))\<lparr>pc_synchronous_commit := []\<rparr>) = Inr tgt"
      and js: "js_preludes (j_spec j) = preludes_of ([src, tgt] @ [])" "js_passfiles (j_spec j) = passfiles_of ([src, tgt] @ [])"
    using jobSkeleton_sets [OF assms(1)] .
  have "inline_password (if sc then target (spec m) else (target (spec m))\<lparr>pc_synchronous_commit := []\<rparr>)"
    using assms(3) by (simp add: inline_password_def)
  from inline_parts [OF mz(1) assms(2)] inline_parts [OF mz(2) this]
  show "js_preludes (j_spec j) = []" and "js_passfiles (j_spec j) =
    [\<lparr>pw_host = pc_host (source (spec m)), pw_user = pc_username (source (spec m)), pw_file = side_file Source\<rparr>,
     \<lparr>pw_host = pc_host (target (spec m)), pw_user = pc_username (target (spec m)), pw_file = side_file Target\<rparr>]"
    by (simp_all add: js preludes_of_def passfiles_of_def option_list_def)
qed

lemma inline_logins:
  assumes "jobSkeleton m img name prog st b sc [] = Inr j"
    and "inline_password (source (spec m))" and "inline_password (target (spec m))"
  shows "job_logins j pod =
    [(pc_host (source (spec m)), pc_username (source (spec m)), subst_out (file_text pod (side_file Source))),
     (pc_host (target (spec m)), pc_username (target (spec m)), subst_out (file_text pod (side_file Target)))]"
  by (simp add: job_logins_def inline_job [OF assms] prelude_logins_def static_login_def)

text \<open>A name that the passfile holds as it is, and a side whose host and role are such names.\<close>

definition plain_name :: "string \<Rightarrow> bool" where
  "plain_name x \<longleftrightarrow> plain_field x \<and> newline \<notin> set x \<and> x \<noteq> ''*''"

definition plain_side :: "postgres_connection \<Rightarrow> bool" where
  "plain_side c \<longleftrightarrow> plain_name (pc_host c) \<and> plain_name (pc_username c)"

text \<open>What a session of a side is given, whose password has one line.\<close>

abbreviation secret_of :: "shell \<Rightarrow> side \<Rightarrow> string" where
  "secret_of pod s \<equiv> subst_out (file_text pod (side_file s))"

text \<open>Each inline side finds its own password, unless the source's line comes first for both.\<close>

lemma inline_passwords:
  assumes "jobSkeleton m img name prog st b sc [] = Inr j"
    and "inline_password (source (spec m))" and "inline_password (target (spec m))"
    and "job_prelude j pod = Inr sh" and "plain_side (source (spec m))" and "plain_side (target (spec m))"
    and "newline \<notin> set (secret_of pod Source)" and "newline \<notin> set (secret_of pod Target)"
  defines "ends \<equiv> \<lambda>c. (pc_host c, pc_username c)"
  shows "passfile_password (pc_host (source (spec m))) port db (pc_username (source (spec m))) (file_text sh PgpassPath) =
      Some (secret_of pod Source)"
    and "passfile_password (pc_host (target (spec m))) port db (pc_username (target (spec m))) (file_text sh PgpassPath) =
      Some (secret_of pod (if ends (target (spec m)) = ends (source (spec m)) then Source else Target))"
proof -
  note logins = inline_logins [OF assms(1-3), of pod]
  have "plain_job j pod"
    using assms(5-8) by (simp add: plain_job_def inline_job(2) [OF assms(1-3)] logins plain_side_def plain_name_def one_line_def)
  from job_passfile [OF assms(1) _ assms(4) this] logins inline_job(2) [OF assms(1-3)]
  show "passfile_password (pc_host (source (spec m))) port db (pc_username (source (spec m))) (file_text sh PgpassPath) =
      Some (secret_of pod Source)"
    and "passfile_password (pc_host (target (spec m))) port db (pc_username (target (spec m))) (file_text sh PgpassPath) =
      Some (secret_of pod (if ends (target (spec m)) = ends (source (spec m)) then Source else Target))"
    by (simp_all add: operator_extras_def login_map_def ends_def)
qed

text \<open>A role with a colon finds no password: nothing escapes it in its line.\<close>

lemma two_lines:
  assumes "newline \<notin> set a" and "newline \<notin> set b"
    and "line_password host port db user a = None" and "line_password host port db user b = None"
  shows "passfile_password host port db user ((a @ [newline]) @ b @ [newline]) = None"
proof -
  have "line_password host port db user [] = None" by (simp add: line_password_def)
  with assms show ?thesis by (simp add: passfile_password_def split_on_line)
qed

lemma inline_colon_role:
  assumes "jobSkeleton m img name prog st b sc [] = Inr j"
    and "inline_password (source (spec m))" and "inline_password (target (spec m))"
    and "job_prelude j pod = Inr sh" and "plain_name (pc_host (source (spec m)))" and "plain_side (target (spec m))"
    and "newline \<notin> set (secret_of pod Source)" and "newline \<notin> set (secret_of pod Target)"
    and "CHR '':'' \<in> set (pc_username (source (spec m)))" and "set (pc_username (source (spec m))) \<inter> {backslash, newline} = {}"
  shows "passfile_password (pc_host (source (spec m))) port db (pc_username (source (spec m))) (file_text sh PgpassPath) = None"
proof -
  let ?body = "\<lambda>c s. pc_host c @ '':*:*:'' @ pc_username c @ '':'' @ pf_escape (secret_of pod s)"
  have own: "side_file s \<noteq> PgpassPath" for s
    using creds_file_not_own [of "side_str s"] by (auto simp: side_file_def)
  have written: "file_text sh PgpassPath = (?body (source (spec m)) Source @ [newline]) @ ?body (target (spec m)) Target @ [newline]"
    using assms(4) own own [symmetric]
    by (auto simp: job_prelude_def inline_job [OF assms(1-3)] PreludeScript_def static_line_def passfile_line_def
        shell_simps subst_out_escape)
  have pw: "newline \<notin> set (pf_escape (secret_of pod s))" for s
    using assms(7,8) set_pf_escape [of "secret_of pod s"] by (cases s) auto
  have "line_password (pc_host (source (spec m))) port db (pc_username (source (spec m))) (?body (source (spec m)) Source) = None"
    using assms(5,9,10) by (intro colon_in_role) (auto simp: plain_name_def)
  moreover have "login_body (pc_host c, pc_username c, p) = pc_host c @ '':*:*:'' @ pc_username c @ '':'' @ pf_escape p"
    if "plain_side c" for c p
    using that by (simp add: login_body_def plain_side_def plain_name_def pf_escape_plain)
  from this [OF assms(6), of "secret_of pod Target"]
  have "line_password (pc_host (source (spec m))) port db (pc_username (source (spec m))) (?body (target (spec m)) Target) = None"
    using assms(6,8,9) login_password [of "pc_host (target (spec m))" "pc_username (target (spec m))" "secret_of pod Target"]
    by (auto simp: one_line_def plain_side_def plain_name_def plain_field_def)
  moreover have "newline \<notin> set (?body (source (spec m)) Source)" "newline \<notin> set (?body (target (spec m)) Target)"
    using assms(5,6,10) pw by (auto simp: plain_side_def plain_name_def)
  ultimately show ?thesis unfolding written by (intro two_lines)
qed

text \<open>A Job without snippets has its passfile; so does a snippet whose Secret is complete.\<close>

lemma static_prelude_runs: "\<exists>sh. PreludeScript [] entries pod = Inr sh"
  by (simp add: PreludeScript_def Let_def)

lemma complete_uri_runs: "\<exists>uri. complete_uri s sslmode tls False uri0 = Inr uri"
  by (simp add: complete_uri_def Let_def)

lemma worker_skeleton:
  assumes "buildJob lost m img n = Inr j"
  obtains j0 st prog where "jobSkeleton m img (worker_job_name m n) prog st 0 True [] = Inr j0"
    and "js_preludes (j_spec j) = js_preludes (j_spec j0)" and "js_passfiles (j_spec j) = js_passfiles (j_spec j0)"
proof -
  from assms have "all_databases_conflict m = None" by (simp add: buildJob_def split: option.splits)
  with assms show thesis
    by (simp add: buildJob_def Let_def) (elim exE conjE, rule that, assumption,
        simp_all add: upd_spec_def add_env_def split: option.splits if_splits)
qed

lemma same_prelude:
  assumes "js_preludes (j_spec j) = js_preludes (j_spec i)" and "js_passfiles (j_spec j) = js_passfiles (j_spec i)"
  shows "job_prelude j = job_prelude i" and "job_logins j = job_logins i" and "plain_job j = plain_job i"
  using assms by (simp_all add: fun_eq_iff job_prelude_def job_logins_def plain_job_def)

lemma worker_inline_passwords:
  assumes "buildJob lost m img n = Inr j" and "job_prelude j pod = Inr sh"
    and "inline_password (source (spec m))" and "inline_password (target (spec m))"
    and "plain_side (source (spec m))" and "plain_side (target (spec m))"
    and "newline \<notin> set (secret_of pod Source)" and "newline \<notin> set (secret_of pod Target)"
  shows "passfile_password (pc_host (source (spec m))) port db (pc_username (source (spec m))) (file_text sh PgpassPath) =
      Some (secret_of pod Source)"
    and "passfile_password (pc_host (target (spec m))) port db (pc_username (target (spec m))) (file_text sh PgpassPath) =
      Some (secret_of pod
        (if (pc_host (target (spec m)), pc_username (target (spec m))) = (pc_host (source (spec m)), pc_username (source (spec m)))
         then Source else Target))"
proof -
  obtain j0 st prog where j0: "jobSkeleton m img (worker_job_name m n) prog st 0 True [] = Inr j0"
      and same: "js_preludes (j_spec j) = js_preludes (j_spec j0)" "js_passfiles (j_spec j) = js_passfiles (j_spec j0)"
    using worker_skeleton [OF assms(1)] .
  have "job_prelude j0 pod = Inr sh" using assms(2) by (simp add: same_prelude [OF same])
  note found = inline_passwords [OF j0 assms(3,4) this assms(5-8)]
  show "passfile_password (pc_host (source (spec m))) port db (pc_username (source (spec m))) (file_text sh PgpassPath) =
      Some (secret_of pod Source)"
    by (rule found(1))
  show "passfile_password (pc_host (target (spec m))) port db (pc_username (target (spec m))) (file_text sh PgpassPath) =
      Some (secret_of pod
        (if (pc_host (target (spec m)), pc_username (target (spec m))) = (pc_host (source (spec m)), pc_username (source (spec m)))
         then Source else Target))"
    by (rule found(2))
qed

lemma worker_colon_role:
  assumes "buildJob lost m img n = Inr j" and "job_prelude j pod = Inr sh"
    and "inline_password (source (spec m))" and "inline_password (target (spec m))"
    and "plain_name (pc_host (source (spec m)))" and "plain_side (target (spec m))"
    and "newline \<notin> set (secret_of pod Source)" and "newline \<notin> set (secret_of pod Target)"
    and "CHR '':'' \<in> set (pc_username (source (spec m)))" and "set (pc_username (source (spec m))) \<inter> {backslash, newline} = {}"
  shows "passfile_password (pc_host (source (spec m))) port db (pc_username (source (spec m))) (file_text sh PgpassPath) = None"
proof -
  obtain j0 st prog where j0: "jobSkeleton m img (worker_job_name m n) prog st 0 True [] = Inr j0"
      and same: "js_preludes (j_spec j) = js_preludes (j_spec j0)" "js_passfiles (j_spec j) = js_passfiles (j_spec j0)"
    using worker_skeleton [OF assms(1)] .
  have "job_prelude j0 pod = Inr sh" using assms(2) by (simp add: same_prelude [OF same])
  then show ?thesis by (rule inline_colon_role [OF j0 assms(3,4) _ assms(5-10)])
qed

text \<open>What a secretRef snippet that succeeds has done, in terms of the URI it exported.\<close>

definition plain_value :: "string \<Rightarrow> bool" where
  "plain_value x \<longleftrightarrow> newline \<notin> set x \<and> CHR ''*'' \<notin> set x"

lemma secret_login_one_line:
  assumes "secret_endpoint s pwKey db user0 host0 = Inr (uri, user, hostport)" and "newline \<notin> set pw"
    and "plain_value db" and "plain_value user0" and "plain_value host0"
  shows "one_line (before_char (CHR '':'') hostport, user, pw)"
proof -
  have "newline \<notin> set user" "CHR ''*'' \<notin> set user"
    using secret_endpoint_values(1) [OF assms(1)] assms(3,4) by (auto simp: plain_value_def)
  moreover have "newline \<notin> set hostport" "CHR ''*'' \<notin> set hostport"
    using secret_endpoint_values(2) [OF assms(1)] assms(3,5) by (auto simp: plain_value_def)
  then have "newline \<notin> set (before_char (CHR '':'') hostport)" "CHR ''*'' \<notin> set (before_char (CHR '':'') hostport)"
    using before_char_subset by blast+
  ultimately show ?thesis using assms(2) by (auto simp: one_line_def)
qed

lemma secretRef_exports:
  assumes "secretRefPrelude s sslmode tls pwFile pwKey syncLocal sh = Inr sh'" and "pwFile \<notin> own_files"
    and "\<And>x. x \<in> {''DB'', ''USER'', ''HOST''} \<Longrightarrow> plain_value (var_or_empty sh (pgmEnv s x))"
    and "newline \<notin> set (subst_out (file_text sh pwFile))"
    and "last (var_or_empty sh (pgmEnv s ''DB'')) = CHR ''&'' \<Longrightarrow> CHR ''?'' \<in> set (var_or_empty sh (pgmEnv s ''DB''))"
  shows "\<exists>sch \<in> schemes. \<exists>user hostport r. sh_env sh' (uriEnv s) = Some (uri_with sch user hostport r) \<and> tail_ok r \<and>
     host_part_chars user \<and> host_part_chars hostport \<and> CHR '':'' \<notin> set user \<and> CHR ''%'' \<notin> set (user @ hostport) \<and>
     file_text sh' PgpassPath = file_text sh PgpassPath @
       login_line (before_char (CHR '':'') hostport, user, subst_out (file_text sh pwFile))"
  using assms(1)
proof (rule secretRefPrelude_ok)
  fix db uri0 user hostport uri pw
  assume db: "sh_env sh (pgmEnv s ''DB'') = Some db"
    and ep: "secret_endpoint s pwKey db (var_or_empty sh (pgmEnv s ''USER'')) (var_or_empty sh (pgmEnv s ''HOST'')) =
      Inr (uri0, user, hostport)"
    and uri: "complete_uri s sslmode tls syncLocal uri0 = Inr uri"
    and sh': "sh' = append_file PgpassPath (passfile_line (pf_esc (before_char (CHR '':'') hostport)) (pf_esc user)
      (pf_esc (subst_out pw))) (write_file (URIFile s) uri (export (uriEnv s) uri sh))"
  let ?p = "SecretRefPrelude s sslmode tls pwFile pwKey syncLocal"
  have login: "snippet_login ?p sh = (before_char (CHR '':'') hostport, user, subst_out (file_text sh pwFile))"
    using db ep by (simp add: var_or_empty_def)
  have "one_line (before_char (CHR '':'') hostport, user, subst_out (file_text sh pwFile))"
    using assms(3) [of "''DB''"] assms(3) [of "''USER''"] assms(3) [of "''HOST''"] assms(4) db
    by (intro secret_login_one_line [OF ep]) (simp_all add: var_or_empty_def)
  then have "file_text sh' PgpassPath =
      file_text sh PgpassPath @ login_line (before_char (CHR '':'') hostport, user, subst_out (file_text sh pwFile))"
    using run_snippet_login [of ?p sh sh'] assms(1,2) unfolding login by simp
  moreover have "sh_env sh' (uriEnv s) = Some uri"
    unfolding sh' by (simp add: append_file_def write_file_def export_def)
  ultimately show ?thesis
    using uri_names_login [OF ep uri] assms(5) db by (auto simp: var_or_empty_def)
qed

lemma super_exports:
  assumes "superPrelude s pwFile pwKey sh = Inr sh'"
  shows "\<exists>sch \<in> schemes. \<exists>info hostport r. \<exists>user. var_or_empty sh (uriEnv s) = sch @ ''://'' @ info @ hostport @ r \<and>
     user_info info \<and> host_part_chars hostport \<and> tail_ok r \<and> user = var_or_empty sh (pgmEnv s ''SUPER_USER'') \<and>
     sh_env sh' (SuperURIEnv s) = Some (uri_with sch user hostport r) \<and> host_part_chars user \<and> CHR '':'' \<notin> set user \<and>
     same_endpoint (var_or_empty sh (pgmEnv s ''SUPER_HOST'')) hostport"
  using assms
proof (rule superPrelude_ok)
  fix uri host pw
  assume ep: "super_endpoint s (var_or_empty sh (uriEnv s)) (var_or_empty sh (pgmEnv s ''SUPER_USER''))
      (var_or_empty sh (pgmEnv s ''SUPER_HOST'')) = Inr (uri, host)"
    and sh': "sh' = append_file PgpassPath (passfile_line (pf_esc host) (pf_esc (var_or_empty sh (pgmEnv s ''SUPER_USER'')))
      (pf_esc (subst_out pw))) (write_file (SuperURIFile s) uri (export (SuperURIEnv s) uri sh))"
  have "sh_env sh' (SuperURIEnv s) = Some uri"
    unfolding sh' by (simp add: append_file_def write_file_def export_def)
  then show ?thesis
    using super_endpoint_parts [OF ep] by blast
qed

text \<open>A command exec'd into the pod recovers the URIs the prelude exported.\<close>

lemma job_uris_recovered:
  assumes "job_prelude j pod = Inr sh" and "fresh_pod pod"
    and "\<And>x v. x \<in> {uriEnv s, SuperURIEnv s} \<Longrightarrow> sh_env sh x = Some v \<Longrightarrow> newline \<notin> set v"
  shows "sh_env (URIRecover (exec_shell pod sh)) (uriEnv s) = sh_env sh (uriEnv s)"
    and "sh_env (URIRecover (exec_shell pod sh)) (SuperURIEnv s) = sh_env sh (SuperURIEnv s)"
proof -
  have rec: "recoverable pod sh" using recoverable_prelude assms(1,2) unfolding job_prelude_def by blast
  show "sh_env (URIRecover (exec_shell pod sh)) (uriEnv s) = sh_env sh (uriEnv s)"
    by (rule URIRecover_exec [OF rec]) (use assms(3) in auto)
  show "sh_env (URIRecover (exec_shell pod sh)) (SuperURIEnv s) = sh_env sh (SuperURIEnv s)"
    by (rule URIRecover_exec [OF rec]) (use assms(3) in auto)
qed

end
