(* ===== verification/Sample_Pods.thy ===== *)
theory Sample_Pods
  imports Sample_Cluster Job_Prelude
begin

text \<open>
  Concrete pods: two inline databases behind one host name, on different ports, with the same
  role and different passwords; and the preludes of secretRef and superuser connections.
\<close>

definition inline_connection :: "int32 \<Rightarrow> string \<Rightarrow> postgres_connection" where
  "inline_connection port secret = (sample_connection secret)\<lparr>pc_host := ''pg'', pc_port := port, pc_database := ''shop'',
     pc_username := ''app'', pc_uri_secret_ref := None,
     pc_password_secret_ref := Some \<lparr>sk_name = secret, sk_key = ''pw'', sk_optional = None\<rparr>\<rparr>"

definition inline_migration :: migration where
  "inline_migration = sample_migration\<lparr>spec := sample_spec\<lparr>source := inline_connection 5432 ''old'',
     target := inline_connection 5433 ''new''\<rparr>\<rparr>"

lemma inline_migration_spec [simp]:
  "source (spec inline_migration) = inline_connection 5432 ''old''"
  "target (spec inline_migration) = inline_connection 5433 ''new''"
  by (simp_all add: inline_migration_def)

lemma inline_connection_fields [simp]:
  "pc_host (inline_connection p x) = ''pg''" "pc_username (inline_connection p x) = ''app''"
  "inline_password (inline_connection p x)"
  by (simp_all add: inline_connection_def sample_connection_def inline_password_def)

definition two_passwords :: shell where
  "two_passwords = \<lparr>sh_env = Map.empty, sh_files = [side_file Source \<mapsto> ''s3cret'', side_file Target \<mapsto> ''other'']\<rparr>"

lemma inline_worker: "\<exists>j. buildJob False inline_migration ''runner:1'' 1 = Inr j"
  unfolding buildJob_ok
  by (simp add: buildable_def connection_ok_def)
    (simp add: inline_migration_def inline_connection_def sample_connection_def sample_spec_def sample_clone_def
      all_databases_conflict_def)

lemma side_files: "side_file Source \<noteq> side_file Target" "side_file s \<notin> own_files"
  using creds_file_not_own by (simp_all add: side_file_def creds_file_def)

lemma fresh_two_passwords: "fresh_pod two_passwords"
  using side_files(2) by (auto simp: fresh_pod_def two_passwords_def)

lemma two_passwords_files:
  "file_text two_passwords (side_file Source) = ''s3cret''" "file_text two_passwords (side_file Target) = ''other''"
  using side_files(1) by (simp_all add: two_passwords_def file_text_def)

lemma inline_skeleton_logins:
  assumes "jobSkeleton inline_migration img name prog st b sc [] = Inr j"
  shows "job_logins j two_passwords = [(''pg'', ''app'', ''s3cret''), (''pg'', ''app'', ''other'')]"
  using inline_logins [OF assms, of two_passwords] by (simp add: two_passwords_files subst_out_id)

lemma inline_skeleton_pod:
  assumes "jobSkeleton inline_migration img name prog st b True [] = Inr j"
  shows "plain_job j two_passwords" and "\<exists>sh. job_prelude j two_passwords = Inr sh"
proof -
  obtain src tgt where mz: "Materialize Source (source (spec inline_migration)) = Inr src"
      "Materialize Target (if True then target (spec inline_migration)
         else (target (spec inline_migration))\<lparr>pc_synchronous_commit := []\<rparr>) = Inr tgt"
      and js: "js_preludes (j_spec j) = preludes_of ([src, tgt] @ [])" "js_passfiles (j_spec j) = passfiles_of ([src, tgt] @ [])"
    using jobSkeleton_sets [OF assms] .
  have parts: "mz_passfile src = Some \<lparr>pw_host = ''pg'', pw_user = ''app'', pw_file = side_file Source\<rparr>" "mz_prelude src = None"
      "mz_passfile tgt = Some \<lparr>pw_host = ''pg'', pw_user = ''app'', pw_file = side_file Target\<rparr>" "mz_prelude tgt = None"
    using inline_parts [OF mz(1)] inline_parts [OF mz(2)] by simp_all
  then show "plain_job j two_passwords"
    using inline_skeleton_logins [OF assms]
    by (simp add: plain_job_def js passfiles_of_def option_list_def plain_field_def one_line_def)
  have "js_preludes (j_spec j) = []" using parts by (simp add: js preludes_of_def option_list_def)
  then show "\<exists>sh. job_prelude j two_passwords = Inr sh"
    using static_prelude_runs by (simp add: job_prelude_def)
qed

lemma inline_skeleton:
  "\<exists>j st prog. jobSkeleton inline_migration ''runner:1'' (worker_job_name inline_migration 1) prog st 0 True [] = Inr j \<and>
     plain_job j two_passwords \<and> (\<exists>sh. job_prelude j two_passwords = Inr sh)"
  using inline_worker worker_skeleton inline_skeleton_pod by metis

lemma inline_pod:
  assumes "buildJob False inline_migration ''runner:1'' 1 = Inr j"
  shows "plain_job j two_passwords" and "\<exists>sh. job_prelude j two_passwords = Inr sh"
proof -
  obtain j0 st prog where j0: "jobSkeleton inline_migration ''runner:1'' (worker_job_name inline_migration 1) prog st 0 True [] = Inr j0"
      and same: "js_preludes (j_spec j) = js_preludes (j_spec j0)" "js_passfiles (j_spec j) = js_passfiles (j_spec j0)"
    using worker_skeleton [OF assms] .
  show "plain_job j two_passwords" "\<exists>sh. job_prelude j two_passwords = Inr sh"
    using inline_skeleton_pod [OF j0] by (simp_all add: same_prelude [OF same])
qed

text \<open>The same with a role that holds a colon on the source.\<close>

definition colon_migration :: migration where
  "colon_migration = inline_migration\<lparr>spec := (spec inline_migration)\<lparr>source := (inline_connection 5432 ''old'')\<lparr>pc_username := ''svc:app''\<rparr>\<rparr>\<rparr>"

lemma colon_sides [simp]:
  "source (spec colon_migration) = (inline_connection 5432 ''old'')\<lparr>pc_username := ''svc:app''\<rparr>"
  "target (spec colon_migration) = inline_connection 5433 ''new''"
  by (simp_all add: colon_migration_def)

lemma colon_inline: "inline_password ((inline_connection p x)\<lparr>pc_username := u\<rparr>)"
  using inline_connection_fields(3) [of p x] by (simp add: inline_password_def)

lemma colon_worker: "\<exists>j. buildJob False colon_migration ''runner:1'' 1 = Inr j"
  unfolding buildJob_ok
  by (simp add: buildable_def connection_ok_def)
    (simp add: colon_migration_def inline_migration_def inline_connection_def sample_connection_def sample_spec_def sample_clone_def
      all_databases_conflict_def)

lemma colon_pod:
  assumes "buildJob False colon_migration ''runner:1'' 1 = Inr j"
  shows "\<exists>sh. job_prelude j two_passwords = Inr sh"
proof -
  obtain j0 st prog where j0: "jobSkeleton colon_migration ''runner:1'' (worker_job_name colon_migration 1) prog st 0 True [] = Inr j0"
      and same: "js_preludes (j_spec j) = js_preludes (j_spec j0)" "js_passfiles (j_spec j) = js_passfiles (j_spec j0)"
    using worker_skeleton [OF assms] .
  have "js_preludes (j_spec j0) = []"
    using colon_inline by (intro inline_job(1) [OF j0]) simp_all
  then show ?thesis using static_prelude_runs by (simp add: job_prelude_def same)
qed

section \<open>A secretRef side and a superuser\<close>

definition secret_pod :: shell where
  "secret_pod = \<lparr>sh_env = [''PGM_SOURCE_DB'' \<mapsto> ''shop'', ''PGM_SOURCE_USER'' \<mapsto> ''app'', ''PGM_SOURCE_HOST'' \<mapsto> ''pg''],
     sh_files = [''/pw'' \<mapsto> ''s3cret'']\<rparr>"

lemma secret_pod_vars:
  "var_or_empty secret_pod (pgmEnv Source ''DB'') = ''shop''" "sh_env secret_pod (pgmEnv Source ''DB'') = Some ''shop''"
  "var_or_empty secret_pod (pgmEnv Source ''USER'') = ''app''" "var_or_empty secret_pod (pgmEnv Source ''HOST'') = ''pg''"
  by (simp_all add: secret_pod_def var_or_empty_def pgmEnv_def)

lemma secret_pod_endpoint:
  "secret_endpoint Source ''PW'' ''shop'' ''app'' ''pg'' = Inr (''postgresql://app@pg:5432/shop'', ''app'', ''pg:5432'')"
  by (simp add: secret_endpoint_def is_uri_def has_prefix_def contains_any_def uri_syntax_def)

lemma secret_pod_runs: "\<exists>sh. secretRefPrelude Source [] [] ''/pw'' ''PW'' False secret_pod = Inr sh"
proof -
  obtain uri where "complete_uri Source [] [] False ''postgresql://app@pg:5432/shop'' = Inr uri"
    using complete_uri_runs by blast
  then show ?thesis
    by (simp add: secretRefPrelude_def secret_pod_vars secret_pod_endpoint Let_def write_file_def export_def)
      (simp add: secret_pod_def URIFile_def)
qed

lemma secret_pod_fresh: "fresh_pod secret_pod"
  by (simp add: fresh_pod_def secret_pod_def own_files_def URIFile_def SuperURIFile_def PgpassPath_def)

definition secret_job :: job where
  "secret_job = (sample_job ''shop-run-1'' [])\<lparr>j_spec := (j_spec (sample_job ''shop-run-1'' []))
     \<lparr>js_preludes := [SecretRefPrelude Source [] [] ''/pw'' ''PW'' False]\<rparr>\<rparr>"

lemma default_params_one_line: "kv \<in> set (split_on (CHR ''&'') (defaultParams s)) \<Longrightarrow> newline \<notin> set kv"
  by (cases s) (auto simp: keepaliveParams_def sourceTimeout_def)

lemma secret_job_runs:
  "\<exists>sh. job_prelude secret_job secret_pod = Inr sh \<and> (\<forall>x v. sh_env sh x = Some v \<longrightarrow> newline \<notin> set v)"
proof -
  let ?pod = "write_file PgpassPath [] secret_pod"
  let ?uri = "Conn_Shell.fillParams (defaultParams Source) ''postgresql://app@pg:5432/shop''"
  have "complete_uri Source [] [] False ''postgresql://app@pg:5432/shop'' = Inr ?uri"
    by (simp add: complete_uri_def drop_dangling_def)
  moreover have "sh_env ?pod = sh_env secret_pod" "var_or_empty ?pod = var_or_empty secret_pod"
      "sh_files ?pod ''/pw'' = Some ''s3cret''"
    by (simp_all add: fun_eq_iff var_or_empty_def write_file_def) (simp add: secret_pod_def PgpassPath_def)
  ultimately have "\<exists>line. secretRefPrelude Source [] [] ''/pw'' ''PW'' False ?pod =
      Inr (append_file PgpassPath line (write_file (URIFile Source) ?uri (export (uriEnv Source) ?uri ?pod)))"
    by (simp add: secretRefPrelude_def secret_pod_vars secret_pod_endpoint Let_def write_file_def export_def)
      (simp add: URIFile_def, blast)
  then obtain line where run: "job_prelude secret_job secret_pod = Inr (export ''PGPASSFILE'' PgpassPath
      (append_file PgpassPath line (write_file (URIFile Source) ?uri (export (uriEnv Source) ?uri ?pod))))"
    by (auto simp: job_prelude_def secret_job_def PreludeScript_def sample_job_def Let_def)
  have "newline \<notin> set ?uri"
    using fill_chars [of "split_on (CHR ''&'') (defaultParams Source)" "''postgresql://app@pg:5432/shop''"]
      default_params_one_line by (fastforce simp: fillParams_def)
  then have "newline \<notin> set v" if "sh_env (export ''PGPASSFILE'' PgpassPath
      (append_file PgpassPath line (write_file (URIFile Source) ?uri (export (uriEnv Source) ?uri ?pod)))) x = Some v" for x v
    using that by (auto simp: export_def append_file_def write_file_def secret_pod_def PgpassPath_def split: if_splits)
  with run show ?thesis by blast
qed

lemma secret_pod_values:
  "x \<in> {''DB'', ''USER'', ''HOST''} \<Longrightarrow> plain_value (var_or_empty secret_pod (pgmEnv Source x))"
  "subst_out (file_text secret_pod ''/pw'') = ''s3cret''"
  by (auto simp: secret_pod_vars plain_value_def) (simp add: secret_pod_def file_text_def subst_out_id)

definition super_pod :: shell where
  "super_pod = \<lparr>sh_env = [''PGCOPYDB_TARGET_PGURI'' \<mapsto> ''postgresql://app@pg:5433/shop?user=app'',
       ''PGM_TARGET_SUPER_USER'' \<mapsto> ''postgres'', ''PGM_TARGET_SUPER_HOST'' \<mapsto> ''pg:5433''],
     sh_files = [''/pw'' \<mapsto> ''s3cret'']\<rparr>"

lemma super_pod_runs: "\<exists>sh. superPrelude Target ''/pw'' ''PW'' super_pod = Inr sh"
proof -
  have "var_or_empty super_pod (uriEnv Target) = ''postgresql://app@pg:5433/shop?user=app''"
      "var_or_empty super_pod (pgmEnv Target ''SUPER_USER'') = ''postgres''"
      "var_or_empty super_pod (pgmEnv Target ''SUPER_HOST'') = ''pg:5433''"
    by (simp_all add: super_pod_def var_or_empty_def pgmEnv_def)
  moreover have "\<exists>r. super_endpoint Target ''postgresql://app@pg:5433/shop?user=app'' ''postgres'' ''pg:5433'' = Inr r"
    by (simp add: super_endpoint_def is_uri_def has_prefix_def contains_any_def uri_syntax_def after_scheme_def
        scheme_of_def before_char_def after_last_def trim_prefix_def Let_def)
  ultimately show ?thesis
    by (auto simp: superPrelude_def Let_def write_file_def export_def split: prod.splits)
      (simp add: super_pod_def SuperURIFile_def)
qed

end
