(* ===== verification/Script_Shell.thy ===== *)
theory Script_Shell
  imports Resources Conn_Shell
begin

text \<open>
  The machine the operator's Job scripts run on. A script calls other programs (psql on one of
  the connections, pgcopydb, pg_restore); their answers are the parameter \<open>tools\<close>, which is given
  the whole history of calls, so an answer may change between two calls. A script is an effect
  on its state: the calls made so far, the lines printed on standard output, and the failure
  accounts of the preflight. A script that exits early is an error value; the exit code of all
  these exits is 1. Standard error is not modelled.
\<close>

datatype db = Primary side | Superuser side

text \<open>
  \<open>Query\<close> is psql with a statement and psql variables: the statement reaches the server as it
  stands, the variables only as values. \<open>ConnInfo\<close> is the pooler probe, \<open>Run\<close> any other program,
  \<open>IsFile\<close> the test \<^verbatim>\<open>[ -f ]\<close>.
\<close>

datatype tool_call =
    Query db string "(string \<times> string) list"
  | ConnInfo db
  | Run "string list"
  | IsFile string

record tool_reply =
  rp_code :: nat
  rp_out :: string
  rp_err :: string

type_synonym tool_history = "(tool_call \<times> tool_reply) list"

record tools =
  answer :: "tool_history \<Rightarrow> tool_call \<Rightarrow> tool_reply"
  pod_var :: "string \<Rightarrow> string"

record script_state =
  st_calls :: tool_history
  st_out :: "string list"
  st_fail :: bool
  st_fails :: string
  st_audit :: string
  st_hints :: string
  st_databases :: string
  st_tgt_user :: string

type_synonym 'a step_of = "(script_state, 'a) eff"

abbreviation sq :: string where
  "sq \<equiv> [CHR 0x27]"

definition script_start :: script_state where
  "script_start = \<lparr>st_calls = [], st_out = [], st_fail = False, st_fails = [], st_audit = [], st_hints = [],
     st_databases = [], st_tgt_user = []\<rparr>"

definition call_tool :: "tools \<Rightarrow> tool_call \<Rightarrow> tool_reply step_of" where
  "call_tool t c = (\<lambda>s. let r = answer t (st_calls s) c in (Inr r, s\<lparr>st_calls := st_calls s @ [(c, r)]\<rparr>))"

definition succeeded :: "tool_reply \<Rightarrow> bool" where
  "succeeded r \<longleftrightarrow> rp_code r = 0"

text \<open>The value of \<open>$(...)\<close>.\<close>

definition captured :: "tool_reply \<Rightarrow> string" where
  "captured r = subst_out (rp_out r)"

definition say :: "string \<Rightarrow> unit step_of" where
  "say line = upd (\<lambda>s. s\<lparr>st_out := st_out s @ [line]\<rparr>)"

definition exit1 :: "'a step_of" where
  "exit1 = raise (ErrMsg ''exit 1'')"

definition both :: "unit step_of \<Rightarrow> 'a step_of \<Rightarrow> 'a step_of" where
  "both f g = bnd f (\<lambda>_. g)"

definition nothing :: "unit step_of" where
  "nothing = ret ()"

definition on :: "bool \<Rightarrow> unit step_of \<Rightarrow> unit step_of" where
  "on b f = (if b then f else nothing)"

text \<open>\<^verbatim>\<open>check\<close> and \<^verbatim>\<open>checkv\<close> of the preflight: \<^verbatim>\<open>-c\<close>, or standard input with the variable \<open>list\<close>.\<close>

definition check :: "tools \<Rightarrow> db \<Rightarrow> string \<Rightarrow> tool_reply step_of" where
  "check t d sql = call_tool t (Query d sql [])"

definition checkv :: "tools \<Rightarrow> db \<Rightarrow> string \<Rightarrow> string \<Rightarrow> tool_reply step_of" where
  "checkv t d sql xs = call_tool t (Query d sql [(''list'', xs)])"

text \<open>\<^verbatim>\<open>note\<close>, \<^verbatim>\<open>note_audit\<close> and \<^verbatim>\<open>hint\<close>.\<close>

definition fail_note :: "string \<Rightarrow> unit step_of" where
  "fail_note msg = both (say msg) (upd (\<lambda>s. s\<lparr>st_fails := st_fails s @ msg @ [newline], st_fail := True\<rparr>))"

definition audit_note :: "string \<Rightarrow> unit step_of" where
  "audit_note msg = both (say msg) (upd (\<lambda>s. s\<lparr>st_audit := st_audit s @ msg @ [newline], st_fail := True\<rparr>))"

definition add_hint :: "string \<Rightarrow> unit step_of" where
  "add_hint msg = upd (\<lambda>s. s\<lparr>st_hints := st_hints s @ msg @ [newline]\<rparr>)"

text \<open>
  \<^verbatim>\<open>preflightScriptFooter\<close>: the failures again, the audit first and the hints last, and the exit
  code; \<^verbatim>\<open>preflightStopOnFailure\<close> is the same in the middle of the script.
\<close>

definition print_verdict :: "unit step_of" where
  "print_verdict = from_state (\<lambda>s. if \<not> st_fail s then say ''preflight: all checks passed''
     else say (''preflight failed:'' @ [newline] @ st_audit s @ st_fails s @ st_hints s))"

definition stop_on_failure :: "unit step_of" where
  "stop_on_failure = from_state (\<lambda>s. if st_fail s then both print_verdict exit1 else nothing)"

definition footer :: "unit step_of" where
  "footer = both print_verdict (from_state (\<lambda>s. if st_fail s then exit1 else nothing))"

section \<open>Probe, remedy, probe again\<close>

text \<open>
  \<^verbatim>\<open>remSingle\<close>: a right one statement gives. The messages are functions of the statement; \<open>rm_super\<close>
  is the connection the statement is applied over, if there is one.
\<close>

record rem_single =
  rm_probe :: tool_call
  rm_cmd :: bool
  rm_compose :: "tool_call option"
  rm_super :: "side option"
  rm_report :: bool
  rm_prefix :: string
  rm_ok :: string
  rm_missing :: "string \<Rightarrow> string"
  rm_apply :: "string \<Rightarrow> string"
  rm_still :: "string \<Rightarrow> string"
  rm_onProbe :: string
  rm_onComp :: string
  rm_hint :: string

definition wouldPrefix :: "string \<Rightarrow> string" where
  "wouldPrefix p = (if p = remPrefixFollow then wouldPrefixFollow
     else if p = remPrefixClone then wouldPrefixClone else [])"

definition remRecheck :: "tools \<Rightarrow> rem_single \<Rightarrow> string \<Rightarrow> unit step_of" where
  "remRecheck t c stmt = bnd (call_tool t (rm_probe c)) (\<lambda>r.
     if rm_cmd c then (if succeeded r then say (''ok: '' @ rm_ok c) else fail_note (rm_still c stmt))
     else if \<not> succeeded r then fail_note (rm_onProbe c)
     else if captured r \<noteq> ''1'' then fail_note (rm_still c stmt)
     else say (''ok: '' @ rm_ok c))"

definition rem_missing :: "tools \<Rightarrow> rem_single \<Rightarrow> unit step_of" where
  "rem_missing t c = (case rm_compose c of
       None \<Rightarrow> fail_note (rm_missing c [])
     | Some q \<Rightarrow> bnd (call_tool t q) (\<lambda>r.
         let stmt = captured r
         in if \<not> succeeded r then fail_note (rm_onComp c)
            else (case rm_super c of
                None \<Rightarrow> both (fail_note (rm_missing c stmt)) (on (rm_hint c \<noteq> []) (add_hint (rm_hint c)))
              | Some s \<Rightarrow>
                  if rm_report c then say (wouldPrefix (rm_prefix c) @ stmt)
                  else bnd (check t (Superuser s) stmt) (\<lambda>a.
                    if succeeded a then both (say (rm_prefix c @ stmt)) (remRecheck t c stmt)
                    else fail_note (rm_apply c stmt)))))"

definition remSingleBlock :: "tools \<Rightarrow> rem_single \<Rightarrow> unit step_of" where
  "remSingleBlock t c = bnd (call_tool t (rm_probe c)) (\<lambda>r.
     if rm_cmd c then (if succeeded r then say (''ok: '' @ rm_ok c) else rem_missing t c)
     else if \<not> succeeded r then fail_note (rm_onProbe c)
     else if captured r \<noteq> ''1'' then rem_missing t c
     else say (''ok: '' @ rm_ok c))"

text \<open>\<^verbatim>\<open>remAggregate\<close>: a query that composes the missing statements itself, nothing when none is.\<close>

record rem_aggregate =
  ra_query :: tool_call
  ra_super :: "side option"
  ra_report :: bool
  ra_prefix :: string
  ra_term :: string
  ra_ok :: string
  ra_missing :: "string \<Rightarrow> string"
  ra_apply :: "string \<Rightarrow> string"
  ra_still :: "string \<Rightarrow> string"
  ra_onProbe :: string
  ra_hint :: string

definition statements_of :: "string \<Rightarrow> string list" where
  "statements_of agg = filter (\<lambda>g. g \<noteq> [])
     (map (dropWhile (\<lambda>c. c = CHR '' '')) (split_on newline (map (\<lambda>c. if c = CHR '';'' then newline else c) agg)))"

definition remAggEcho :: "string \<Rightarrow> string \<Rightarrow> string \<Rightarrow> unit step_of" where
  "remAggEcho pre term agg = each (\<lambda>g. say (pre @ g @ term)) (statements_of agg)"

definition remAggBlock :: "tools \<Rightarrow> rem_aggregate \<Rightarrow> unit step_of" where
  "remAggBlock t c = bnd (call_tool t (ra_query c)) (\<lambda>r.
     let agg = captured r
     in if \<not> succeeded r then fail_note (ra_onProbe c)
        else if agg = [] then say (''ok: '' @ ra_ok c)
        else (case ra_super c of
            None \<Rightarrow> both (fail_note (ra_missing c agg)) (on (ra_hint c \<noteq> []) (add_hint (ra_hint c)))
          | Some s \<Rightarrow>
              if ra_report c then remAggEcho (wouldPrefix (ra_prefix c)) (ra_term c) agg
              else bnd (check t (Superuser s) agg) (\<lambda>a.
                if \<not> succeeded a then fail_note (ra_apply c agg)
                else both (remAggEcho (ra_prefix c) (ra_term c) agg)
                  (bnd (call_tool t (ra_query c)) (\<lambda>r.
                     let agg = captured r
                     in if \<not> succeeded r then fail_note (ra_onProbe c)
                        else if agg \<noteq> [] then fail_note (ra_still c agg)
                        else say (''ok: '' @ ra_ok c))))))"

end
