(* ===== verification/Preflight_Blocks.thy ===== *)
theory Preflight_Blocks
  imports Script_Shell
begin

text \<open>
  The blocks of the preflight script (\<^verbatim>\<open>internal/controller/resources.go\<close>), each as what its shell
  does: the statements it sends, as they reach the server, how it reads the answers, and what
  it prints. \<open>run_block\<close> gives the blocks that \<open>preflightScriptFor\<close> lists their meaning, and
  \<open>run_preflight\<close> runs the script of a Migration. Numbers in answers are compared as numbers.
\<close>

abbreviation src_db :: db where "src_db \<equiv> Primary Source"
abbreviation tgt_db :: db where "tgt_db \<equiv> Primary Target"

definition is_number :: "string \<Rightarrow> bool" where
  "is_number s \<longleftrightarrow> s \<noteq> [] \<and> list_all is_digit s"

definition number :: "string \<Rightarrow> nat" where
  "number s = (case parse_nat s of None \<Rightarrow> 0 | Some n \<Rightarrow> n)"

definition captured_or_empty :: "tool_reply \<Rightarrow> string" where
  "captured_or_empty r = (if succeeded r then captured r else [])"

section \<open>Connectivity\<close>

definition selectOneSQL :: string where
  "selectOneSQL = ''select 1''"

definition followed_by :: "string \<Rightarrow> string \<Rightarrow> string \<Rightarrow> bool" where
  "followed_by s a b \<longleftrightarrow> (case cut s a of None \<Rightarrow> False | Some (_, r) \<Rightarrow> contains r b)"

definition permanent_error :: "string \<Rightarrow> bool" where
  "permanent_error err \<longleftrightarrow> contains err ''password authentication failed'' \<or>
     followed_by err (''role \"'') (''\" does not exist'') \<or> followed_by err (''database \"'') (''\" does not exist'')"

text \<open>\<open>left\<close> counts the attempts that remain after this one, five at first; \<open>perm\<close> the permanent errors in a row.\<close>

fun connect_retry :: "tools \<Rightarrow> db \<Rightarrow> string \<Rightarrow> string \<Rightarrow> nat \<Rightarrow> nat \<Rightarrow> unit step_of" where
  "connect_retry t d what failure left perm = bnd (check t d selectOneSQL) (\<lambda>r.
     let err = subst_out (rp_err r); perm = (if permanent_error err then perm + 1 else 0)
     in if succeeded r then nothing
        else if 2 \<le> perm then both (say (failure @ (if err \<noteq> [] then '': '' @ err else []))) exit1
        else (case left of
            0 \<Rightarrow> both (say (failure @ (if err \<noteq> [] then '': '' @ err else []))) exit1
          | Suc k \<Rightarrow> both (say (''retry: '' @ what @ '' connectivity attempt '' @ show_nat (6 - left) @ '' failed''))
                      (connect_retry t d what failure k perm)))"

declare connect_retry.simps [simp del]

definition preflightHeader :: "tools \<Rightarrow> unit step_of" where
  "preflightHeader t = both (connect_retry t src_db ''source'' ''preflight: cannot connect to the source database'' 5 0)
     (say ''ok: connectivity source'')"

definition target_connect :: "tools \<Rightarrow> string \<Rightarrow> unit step_of" where
  "target_connect t failure = both (connect_retry t tgt_db ''target'' failure 5 0) (say ''ok: connectivity target'')"

text \<open>The key PgBouncer hands out is not the server's process number.\<close>

definition pooler_check :: "tools \<Rightarrow> side \<Rightarrow> unit step_of" where
  "pooler_check t s = (let name = side_str s; unsure = (\<lambda>why. fail_note
       (''preflight: cannot tell whether the '' @ name @
           '' connection goes through a connection pooler such as PgBouncer: '' @ why))
     in bnd (call_tool t (ConnInfo (Primary s))) (\<lambda>r.
       let ls = split_on newline (captured r);
           key = subst_out (join (concat (map (\<lambda>l. option_list (cut_prefix l ''Backend PID|'')) ls)) [newline]);
           pid = last ls
       in if \<not> succeeded r then unsure ''the probe connection failed''
          else if \<not> is_number (trim_prefix key ''-'')
          then unsure (''psql printed no Backend PID in '' @ [backslash] @
              ''conninfo; the runner image needs psql 18 or later'')
          else if \<not> is_number pid then unsure ''select pg_backend_pid() returned no PID''
          else if key = pid then say (''ok: no PgBouncer in the '' @ name @ '' connection'')
          else fail_note (''preflight: the '' @ name @
              '' connection goes through a connection pooler such as PgBouncer (the server's backend '' @
              ''PID is '' @ pid @ '', the connection reported '' @ key @
              ''); connect directly to PostgreSQL'')))"

definition poolerBlock :: "tools \<Rightarrow> unit step_of" where
  "poolerBlock t = both (pooler_check t Source) (pooler_check t Target)"

section \<open>Settings and versions\<close>

definition syncCommitSQL :: string where
  "syncCommitSQL = ''show synchronous_commit''"

definition syncCommitBlock :: "tools \<Rightarrow> unit step_of" where
  "syncCommitBlock t = bnd (check t tgt_db syncCommitSQL) (\<lambda>r. let v = captured_or_empty r in
     if v = ''local'' then say ''ok: target synchronous_commit local''
     else fail_note (''preflight: spec.target.synchronousCommit is local but the target connection reports '' @
         ''synchronous_commit='' @ (if v = [] then ''(unreadable)'' else v) @
         ''; a connection pooler or proxy dropped the libpq startup option; connect the target '' @
         ''directly or unset synchronousCommit''))"

definition temporaryPrivilegeSQL :: string where
  "temporaryPrivilegeSQL = (''select has_database_privilege(current_database(), 'TEMP')::int'')"

definition temporaryPrivilegeBlock :: "tools \<Rightarrow> unit step_of" where
  "temporaryPrivilegeBlock t = bnd (check t tgt_db temporaryPrivilegeSQL) (\<lambda>r. let v = captured_or_empty r in
     if v = ''1'' then nothing
     else if v = ''0'' then say (''warn: the migration role lacks TEMPORARY on the target database, so the retry gate's '' @
         ''test commit fails and holds any retry that runs it; run GRANT TEMPORARY ON DATABASE '' @
         ''<database> TO <role> on the target'')
     else say (''warn: could not read whether the migration role holds TEMPORARY on the target database, '' @
         ''which the retry gate's test commit needs''))"

definition DeferIndexesHelp :: string where
  "DeferIndexesHelp = ''Build indexes once all table data is copied''"

definition clone_help :: tool_call where
  "clone_help = Run [''pgcopydb'', ''clone'', ''--help'']"

text \<open>A line of either stream of \<^verbatim>\<open>pgcopydb clone --help\<close> that names the flag and carries our help text.\<close>

definition lists_defer_indexes :: "tool_reply \<Rightarrow> bool" where
  "lists_defer_indexes r \<longleftrightarrow> list_ex (\<lambda>l. contains l ''--defer-indexes'' \<and> contains l DeferIndexesHelp)
     (split_on newline (rp_out r) @ split_on newline (rp_err r))"

definition deferIndexesBlock :: "tools \<Rightarrow> unit step_of" where
  "deferIndexesBlock t = bnd (call_tool t clone_help) (\<lambda>r.
     if lists_defer_indexes r then say ''ok: runner pgcopydb accepts --defer-indexes''
     else fail_note (''preflight: spec.clone.deferIndexes needs pgcopydb 0.18.136.gb42f560 or later, and '' @
         ''runner image '' @ pod_var t ''PREFLIGHT_RUNNER_IMAGE'' @
         '' does not list its --defer-indexes; recreate the Migration without deferIndexes, or use '' @
         ''a runner with pgcopydb 0.18.136.gb42f560 or later''))"

definition majorVersionSQL :: string where
  "majorVersionSQL = (''select current_setting('server_version_num')::int / 10000'')"

definition majorVersionBlock :: "tools \<Rightarrow> unit step_of" where
  "majorVersionBlock t = bnd (check t src_db majorVersionSQL) (\<lambda>a. bnd (check t tgt_db majorVersionSQL) (\<lambda>b.
     let s = captured a; g = captured b
     in if s = [] \<or> g = []
        then fail_note ''preflight: cannot read the source and target major versions (spec.preflight.requireSameMajorVersion)''
        else if s \<noteq> g
        then fail_note (''preflight: source major '' @ s @ '' differs from target major '' @ g @
            '' (spec.preflight.requireSameMajorVersion)'')
        else say (''ok: major version source '' @ s @ '' target '' @ g)))"

text \<open>
  The pg_restore beside the psql that pgcopydb runs: the directory \<^verbatim>\<open>pg_config\<close> names when it
  holds a psql, else the first psql on the path.
\<close>

definition find_restore :: "tools \<Rightarrow> string step_of" where
  "find_restore t = (let config = pod_var t ''PG_CONFIG'';
       on_path = bnd (call_tool t (Run [''command'', ''-v'', ''psql''])) (\<lambda>r.
         if succeeded r
         then ret ((if CHR ''/'' \<in> set (captured r)
                    then rev (tl (dropWhile (\<lambda>c. c \<noteq> CHR ''/'') (rev (captured r)))) else captured r) @ ''/pg_restore'')
         else ret [])
     in if config = [] then on_path
        else bnd (call_tool t (IsFile config)) (\<lambda>f.
          if \<not> succeeded f then on_path
          else bnd (call_tool t (Run [config, ''--bindir''])) (\<lambda>d.
            if \<not> succeeded d then on_path
            else bnd (call_tool t (IsFile (captured d @ ''/psql''))) (\<lambda>p.
              if succeeded p then ret (captured d @ ''/pg_restore'') else on_path))))"

definition starts_digit :: "string \<Rightarrow> bool" where
  "starts_digit s \<longleftrightarrow> s \<noteq> [] \<and> is_digit (hd s)"

definition version_tail :: "string \<Rightarrow> bool" where
  "version_tail s \<longleftrightarrow> (case cut_prefix s ''.'' of Some r \<Rightarrow> starts_digit r | None \<Rightarrow> False) \<or> has_prefix s ''devel'' \<or>
     (case cut_prefix s ''beta'' of Some r \<Rightarrow> starts_digit r | None \<Rightarrow> False) \<or>
     (case cut_prefix s ''rc'' of Some r \<Rightarrow> starts_digit r | None \<Rightarrow> False)"

text \<open>One or two digits, the first not 0, then a minor version or a pre-release mark.\<close>

definition restore_major :: "string \<Rightarrow> string" where
  "restore_major ver = (if newline \<in> set ver then []
     else case cut_prefix ver ''pg_restore (PostgreSQL) '' of
       None \<Rightarrow> []
     | Some rest \<Rightarrow>
         (let d = takeWhile is_digit rest
          in if starts_digit rest \<and> hd rest \<noteq> CHR ''0'' \<and> length d \<le> 2 \<and> version_tail (drop (length d) rest) then d else []))"

definition restoreMajorBlock :: "tools \<Rightarrow> unit step_of" where
  "restoreMajorBlock t = bnd (find_restore t) (\<lambda>bin.
     bnd (if bin = [] then ret [] else bnd (call_tool t (Run [bin, ''--version''])) (\<lambda>r. ret (captured_or_empty r))) (\<lambda>ver.
     bnd (check t tgt_db majorVersionSQL) (\<lambda>r.
       let major = restore_major ver;
           target = (let v = captured_or_empty r in if is_number v then v else []);
           gate = (\<lambda>msg. both (fail_note msg) footer)
       in if major = [] then gate (''preflight: cannot read the major version of the runner's pg_restore: '' @
           (if bin = [] then ''pg_restore'' else bin) @
           '' --version did not print one line of the form pg_restore (PostgreSQL) <major>.<minor>'')
          else if target = [] then gate ''preflight: cannot read the target major version for the pg_restore check''
          else if 17 \<le> number major \<and> number target < 17
          then gate (''preflight: the runner's pg_restore '' @ major @
              '' cannot restore into the target's PostgreSQL '' @ target @
              '': pg_restore 17 and later send SET transaction_timeout = 0, which PostgreSQL 16 and '' @
              ''older reject, so every attempt fails at the pre-data restore; use a PostgreSQL 17 or '' @
              ''later target, or a custom spec.runner.image whose pg_restore major is not newer than 16'')
          else say (''ok: runner pg_restore '' @ major @ '' restores into target major '' @ target))))"

section \<open>Superusers\<close>

definition rolsuperSQL :: string where
  "rolsuperSQL = ''select rolsuper::int from pg_roles where rolname = current_user''"

definition superVerifyBlock :: "tools \<Rightarrow> side \<Rightarrow> bool \<Rightarrow> unit step_of" where
  "superVerifyBlock t s dryrun = (let name = side_str s in
     both (connect_retry t (Superuser s) (''superuser '' @ name)
             (''preflight: cannot connect to the '' @ name @
                 '' database as the superuserSecretRef user'') 5 0)
    (both (say (''ok: superuser '' @ name @ '' connected''))
    (bnd (check t (Superuser s) rolsuperSQL) (\<lambda>r.
       if captured r \<noteq> ''1''
       then say (''warn: '' @ name @ '' superuserSecretRef user lacks rolsuper; '' @
           (if dryrun then ''a real run would attempt remediation anyway'' else ''attempting remediation anyway''))
       else say (''ok: superuser '' @ name @ '' verified'')))))"

definition tgtSuperHint :: string where
  "tgtSuperHint = ''hint: spec.target.superuserSecretRef lets the operator apply this itself''"

text \<open>A probe without a remedy.\<close>

definition probe_only :: "tool_call \<Rightarrow> string \<Rightarrow> string \<Rightarrow> string \<Rightarrow> rem_single" where
  "probe_only q ok missing onProbe = \<lparr>rm_probe = q, rm_cmd = False, rm_compose = None, rm_super = None,
     rm_report = False, rm_prefix = [], rm_ok = ok, rm_missing = (\<lambda>_. missing), rm_apply = (\<lambda>_. []),
     rm_still = (\<lambda>_. []), rm_onProbe = onProbe, rm_onComp = [], rm_hint = []\<rparr>"

definition super_of :: "side \<Rightarrow> bool \<Rightarrow> side option" where
  "super_of s given = (if given then Some s else None)"

definition hint_unless :: "bool \<Rightarrow> string \<Rightarrow> string" where
  "hint_unless super h = (if super then [] else h)"

section \<open>The ownership handover\<close>

definition reownRoleExistsSQL :: string where
  "reownRoleExistsSQL = (''SELECT EXISTS (SELECT 1 FROM pg_catalog.pg_roles WHERE rolname = :'list')::int'')"

definition reownSetRoleSQL :: string where
  "reownSetRoleSQL = (''BEGIN; SET ROLE :\"list\"; ROLLBACK;'')"

definition reownGrantSQL :: string where
  "reownGrantSQL = (''SELECT format('GRANT %I TO %I', :'list', current_user)'')"

definition reown_role :: "string \<Rightarrow> rem_single" where
  "reown_role owner = probe_only (Query tgt_db reownRoleExistsSQL [(''list'', owner)]) ''ownerAfterRestore role''
     (''preflight: clone.ownerAfterRestore role \"'' @ owner @
         ''\" does not exist on the target: create it there, or name a role that exists'')
     ''preflight: probing the target for the clone.ownerAfterRestore role failed''"

definition reown_set_role :: "bool \<Rightarrow> bool \<Rightarrow> string \<Rightarrow> rem_single" where
  "reown_set_role super dryrun owner = \<lparr>rm_probe = Query tgt_db reownSetRoleSQL [(''list'', owner)], rm_cmd = True,
     rm_compose = Some (Query tgt_db reownGrantSQL [(''list'', owner)]), rm_super = super_of Target super, rm_report = dryrun,
     rm_prefix = remPrefixClone, rm_ok = ''ownerAfterRestore SET ROLE'',
     rm_missing = (\<lambda>stmt. (''preflight: the migration role cannot SET ROLE to \"'' @ owner @
         ''\", which the ownership handover needs: '' @ stmt)),
     rm_apply = (\<lambda>stmt. (''preflight: the migration role cannot SET ROLE to \"'' @ owner @ ''\" and applying '' @
         stmt @ '' via superuserSecretRef failed'')),
     rm_still = (\<lambda>stmt. (''preflight: the migration role still cannot SET ROLE to \"'' @ owner @
         ''\" after remediation ('' @ stmt @ '')'')),
     rm_onProbe = [], rm_onComp = ''preflight: composing the role GRANT failed'',
     rm_hint = hint_unless super tgtSuperHint\<rparr>"

definition ownerAfterRestoreBlock :: "tools \<Rightarrow> bool \<Rightarrow> bool \<Rightarrow> unit step_of" where
  "ownerAfterRestoreBlock t super dryrun = (let owner = pod_var t ''PREFLIGHT_OWNER_AFTER_RESTORE'' in
     both (remSingleBlock t (reown_role owner))
    (both stop_on_failure (remSingleBlock t (reown_set_role super dryrun owner))))"

section \<open>Rights of a clone\<close>

definition currentUserSQL :: string where
  "currentUserSQL = ''select current_user''"

definition resolve_tgt_user :: "tools \<Rightarrow> unit step_of" where
  "resolve_tgt_user t = bnd (check t tgt_db currentUserSQL) (\<lambda>r.
     both (upd (\<lambda>s. s\<lparr>st_tgt_user := captured r\<rparr>))
       (on (\<not> succeeded r) (fail_note ''preflight: could not resolve the target role'')))"

definition cloneDBCreateSQL :: string where
  "cloneDBCreateSQL = (''select has_database_privilege(current_user, current_database(), 'CREATE')::int'')"

definition cloneDBCreateGrantSQL :: string where
  "cloneDBCreateGrantSQL = (''select format('GRANT CREATE ON DATABASE %I TO %I', current_database(), current_user)'')"

definition cloneSchemasSQL :: string where
  "cloneSchemasSQL = (''select n.nspname from pg_namespace n where n.nspname !~ '^pg_' and n.nspname <> '' @ sq @
    ''information_schema' order by 1'')"

definition cloneSchemaGrantsSQL :: string where
  "cloneSchemaGrantsSQL = (''select string_agg(format('GRANT CREATE ON SCHEMA %I TO %I', n.nspname, current_user), '' @ sq @
    ''; ') from pg_namespace n where n.nspname = any(string_to_array(:'list', chr(10))) and '' @
    ''not has_schema_privilege(current_user, n.oid, 'CREATE')'')"

definition dbPropertiesSQL :: string where
  "dbPropertiesSQL = (''select (pg_has_role(current_user, (select datdba from pg_database where datname = '' @
    ''current_database()), 'USAGE') or (select rolsuper from pg_roles where rolname = '' @
    ''current_user))::int'')"

definition clone_database :: "bool \<Rightarrow> bool \<Rightarrow> string \<Rightarrow> rem_single" where
  "clone_database super dryrun user = \<lparr>rm_probe = Query tgt_db cloneDBCreateSQL [], rm_cmd = False,
     rm_compose = Some (Query tgt_db cloneDBCreateGrantSQL []), rm_super = super_of Target super, rm_report = dryrun,
     rm_prefix = remPrefixClone, rm_ok = ''clone rights database'',
     rm_missing = (\<lambda>stmt. (''preflight: target role \"'' @ user @ ''\" lacks CREATE on the target database: '' @ stmt)),
     rm_apply = (\<lambda>stmt. (''preflight: target role \"'' @ user @
         ''\" lacks CREATE on the target database and applying '' @ stmt @
         '' via superuserSecretRef failed'')),
     rm_still = (\<lambda>stmt. (''preflight: target role \"'' @ user @
         ''\" still lacks CREATE on the target database after remediation ('' @ stmt @ '')'')),
     rm_onProbe = ''preflight: probing CREATE on the target database failed'',
     rm_onComp = ''preflight: composing the database GRANT failed'', rm_hint = hint_unless super tgtSuperHint\<rparr>"

definition clone_schemas :: "bool \<Rightarrow> bool \<Rightarrow> string \<Rightarrow> string \<Rightarrow> rem_aggregate" where
  "clone_schemas super dryrun user xs = \<lparr>ra_query = Query tgt_db cloneSchemaGrantsSQL [(''list'', xs)],
     ra_super = super_of Target super, ra_report = dryrun, ra_prefix = remPrefixClone, ra_term = [],
     ra_ok = ''clone rights schemas'',
     ra_missing = (\<lambda>agg. (''preflight: target role \"'' @ user @
         ''\" lacks CREATE on schemas the restore targets, run on the target: '' @ agg)),
     ra_apply = (\<lambda>agg. (''preflight: target role \"'' @ user @
         ''\" lacks CREATE on schemas the restore targets and applying the grants via '' @
         ''superuserSecretRef failed: '' @ agg)),
     ra_still = (\<lambda>agg. (''preflight: target role \"'' @ user @
         ''\" still lacks CREATE on schemas the restore targets after remediation, run on the '' @
         ''target: '' @ agg)),
     ra_onProbe = (''preflight: probing CREATE on the restore's target schemas failed''),
     ra_hint = hint_unless super tgtSuperHint\<rparr>"

definition db_properties :: "string \<Rightarrow> rem_single" where
  "db_properties user = probe_only (Query tgt_db dbPropertiesSQL []) ''clone rights db-properties''
     (''preflight: target role \"'' @ user @
         ''\" cannot run ALTER DATABASE ... SET (the db-properties step needs ownership): make the '' @
         ''role a member of the owning role, or set clone.skip: [dbProperties]'')
     ''preflight: probing database ownership for the db-properties step failed''"

text \<open>The filter stays in the shell: an include list, when set, and an exclude list, whole lines.\<close>

definition restored_schemas :: "tools \<Rightarrow> string \<Rightarrow> string list" where
  "restored_schemas t listed =
     (let inc = pod_var t ''PREFLIGHT_SCHEMA_INCLUDE''; exc = pod_var t ''PREFLIGHT_SCHEMA_EXCLUDE''
      in filter (\<lambda>s. s \<noteq> [] \<and> (inc \<noteq> [] \<longrightarrow> s \<in> set (split_on newline inc)) \<and> s \<notin> set (split_on newline exc))
           (split_on newline listed))"

definition schema_lines :: "string list \<Rightarrow> string" where
  "schema_lines ss = concat (map (\<lambda>s. s @ [newline]) ss)"

definition with_tgt_user :: "(string \<Rightarrow> unit step_of) \<Rightarrow> unit step_of" where
  "with_tgt_user k = from_state (\<lambda>s. k (st_tgt_user s))"

definition clone_schema_rights :: "tools \<Rightarrow> bool \<Rightarrow> bool \<Rightarrow> unit step_of" where
  "clone_schema_rights t super dryrun = bnd (check t src_db cloneSchemasSQL) (\<lambda>r.
     if \<not> succeeded r then fail_note ''preflight: listing the source schemas for the clone-rights probe failed''
     else if restored_schemas t (captured r) = [] then say ''ok: clone rights schemas''
     else with_tgt_user (\<lambda>user. remAggBlock t
            (clone_schemas super dryrun user (schema_lines (restored_schemas t (captured r))))))"

definition cloneRightsBlock :: "tools \<Rightarrow> bool \<Rightarrow> bool \<Rightarrow> bool \<Rightarrow> unit step_of" where
  "cloneRightsBlock t super dbProperties dryrun =
     both (resolve_tgt_user t)
    (both (with_tgt_user (\<lambda>user. remSingleBlock t (clone_database super dryrun user)))
    (both (clone_schema_rights t super dryrun)
          (on dbProperties (with_tgt_user (\<lambda>user. remSingleBlock t (db_properties user))))))"

end
