(* ===== verification/Preflight_Script.thy ===== *)
theory Preflight_Script
  imports Preflight_Blocks
begin

text \<open>
  The rest of the preflight script: what a live migration needs, the audits of the source's
  tables, the extensions, the all-databases mode, and the script of a Migration as a whole.
\<close>

section \<open>Follow\<close>

definition walLevelSQL :: string where
  "walLevelSQL = ''show wal_level''"

definition walLevelBlock :: "tools \<Rightarrow> unit step_of" where
  "walLevelBlock t = bnd (check t src_db walLevelSQL) (\<lambda>r. let v = captured r in
     if v \<noteq> ''logical''
     then fail_note (''preflight: source wal_level is '' @ sq @ v @ sq @
         '', follow needs 'logical': set wal_level = logical on the source and restart it'')
     else say ''ok: source wal_level logical'')"

definition slotHeadroomSQL :: string where
  "slotHeadroomSQL = (''select current_setting('max_replication_slots')::int - count(*) from '' @ ''pg_replication_slots'')"

text \<open>\<^verbatim>\<open>${free_slots:-0}\<close> compared with \<^verbatim>\<open>-lt 1\<close>, on what psql prints of an integer.\<close>

definition slots_left :: "string \<Rightarrow> bool" where
  "slots_left v \<longleftrightarrow> (case parse_int64 v of None \<Rightarrow> v \<noteq> [] | Some n \<Rightarrow> 1 \<le> sint n)"

definition slotHeadroomBlock :: "tools \<Rightarrow> unit step_of" where
  "slotHeadroomBlock t = bnd (check t src_db slotHeadroomSQL) (\<lambda>r.
     if \<not> slots_left (captured r)
     then fail_note ''preflight: no free replication slot on the source: raise max_replication_slots or drop an unused slot from pg_replication_slots''
     else say ''ok: replication slot headroom'')"

definition walSenderTimeoutSQL :: string where
  "walSenderTimeoutSQL = (''select setting || '|' || current_setting('wal_sender_timeout') || '|' || '' @
    ''current_setting('server_version_num')::int / 10000 from pg_settings where name = '' @ sq @
    ''wal_sender_timeout'' @ sq)"

text \<open>\<^verbatim>\<open>${s%%|*}\<close> and \<^verbatim>\<open>${s#*|}\<close>.\<close>

definition after_bar :: "string \<Rightarrow> string" where
  "after_bar s = (case cut s ''|'' of None \<Rightarrow> s | Some (_, r) \<Rightarrow> r)"

definition walSenderTimeoutBlock :: "tools \<Rightarrow> unit step_of" where
  "walSenderTimeoutBlock t = bnd (check t src_db walSenderTimeoutSQL) (\<lambda>r.
     let wst = captured r; ms = before_char (CHR ''|'') wst; rest = after_bar wst; v = before_char (CHR ''|'') rest;
         uri_fix = (if is_number (after_bar rest) \<and> 12 \<le> number (after_bar rest)
                then ('', or append options=-c%20wal_sender_timeout%3D60s to the source URI query '' @
                    ''(uriSecretRef, or a secretRef DB key holding a URI)'')
                else [])
     in if \<not> is_number ms
        then say (''warn: could not read the source wal_sender_timeout; make sure it is 60s or more, a '' @
            ''lower value can stall the follow stream'')
        else if ms = ''0'' then say ''ok: source wal_sender_timeout disabled''
        else if number ms < 60000
        then say (''warn: source wal_sender_timeout is '' @ v @
            '', below 60s: a receive stall that long ends the follow stream; raise it on the source '' @
            ''server (on CloudNativePG, spec.postgresql.parameters)'' @ uri_fix)
        else say (''ok: source wal_sender_timeout '' @ v))"

definition replicationAttrSQL :: string where
  "replicationAttrSQL = (''select (rolreplication or rolsuper)::int from pg_roles where rolname = current_user'')"

definition replicationAttrGrantSQL :: string where
  "replicationAttrGrantSQL = (''select format('ALTER ROLE \"%s\" REPLICATION', replace(current_user::text, '\"', '\"\"'))'')"

definition replication_attr :: "bool \<Rightarrow> bool \<Rightarrow> string \<Rightarrow> rem_single" where
  "replication_attr super dryrun user = \<lparr>rm_probe = Query src_db replicationAttrSQL [], rm_cmd = False,
     rm_compose = Some (Query src_db replicationAttrGrantSQL []), rm_super = super_of Source super, rm_report = dryrun,
     rm_prefix = remPrefixFollow, rm_ok = ''source replication attribute'',
     rm_missing = (\<lambda>stmt. (''preflight: source role \"'' @ user @ ''\" lacks the REPLICATION attribute: '' @ stmt)),
     rm_apply = (\<lambda>stmt. (''preflight: source role \"'' @ user @ ''\" lacks the REPLICATION attribute and applying '' @
         stmt @ '' via superuserSecretRef failed'')),
     rm_still = (\<lambda>stmt. (''preflight: source role \"'' @ user @
         ''\" still lacks the REPLICATION attribute after remediation ('' @ stmt @ '')'')),
     rm_onProbe = ''preflight: probing the source REPLICATION attribute failed'',
     rm_onComp = ''preflight: composing the ALTER ROLE failed'',
     rm_hint = hint_unless super ''hint: spec.source.superuserSecretRef lets the operator apply this itself''\<rparr>"

definition replicationAttrBlock :: "tools \<Rightarrow> bool \<Rightarrow> bool \<Rightarrow> unit step_of" where
  "replicationAttrBlock t super dryrun = bnd (check t src_db currentUserSQL) (\<lambda>r.
     both (on (\<not> succeeded r) (fail_note ''preflight: could not resolve the source role''))
       (remSingleBlock t (replication_attr super dryrun (captured r))))"

definition originGrantsSQL :: string where
  "originGrantsSQL = (''select string_agg(format('GRANT EXECUTE ON FUNCTION %s TO %I;', p.oid::regprocedure, '' @
    ''current_user), ' ') from pg_proc p join pg_namespace n on n.oid = p.pronamespace where '' @
    ''n.nspname = 'pg_catalog' and p.proname in ('pg_replication_origin_oid', '' @ sq @
    ''pg_replication_origin_create', 'pg_replication_origin_drop', '' @ sq @
    ''pg_replication_origin_session_setup', 'pg_replication_origin_xact_setup', '' @ sq @
    ''pg_replication_origin_advance', 'pg_replication_origin_progress') and not '' @
    ''has_function_privilege(current_user, p.oid, 'execute')'')"

definition origin_grants :: "bool \<Rightarrow> bool \<Rightarrow> rem_aggregate" where
  "origin_grants super dryrun = \<lparr>ra_query = Query tgt_db originGrantsSQL [], ra_super = super_of Target super,
     ra_report = dryrun, ra_prefix = remPrefixFollow, ra_term = '';'', ra_ok = ''target origin function grants'',
     ra_missing = (\<lambda>agg. (''preflight: target role lacks EXECUTE on replication origin functions, run on the '' @
         ''target: '' @ agg)),
     ra_apply = (\<lambda>agg. (''preflight: target role lacks EXECUTE on replication origin functions and applying the '' @
         ''grants via superuserSecretRef failed: '' @ agg)),
     ra_still = (\<lambda>agg. (''preflight: target role still lacks EXECUTE on replication origin functions after '' @
         ''remediation, run on the target: '' @ agg)),
     ra_onProbe = ''preflight: probing the origin function grants failed'', ra_hint = hint_unless super tgtSuperHint\<rparr>"

definition originGrantsBlock :: "tools \<Rightarrow> bool \<Rightarrow> bool \<Rightarrow> unit step_of" where
  "originGrantsBlock t super dryrun = remAggBlock t (origin_grants super dryrun)"

definition srrProbeSQL :: string where
  "srrProbeSQL = (''begin; set session_replication_role = 'replica'; rollback;'')"

definition srrGrantSQL :: string where
  "srrGrantSQL = (''select format('GRANT SET ON PARAMETER session_replication_role TO \"%s\"', '' @
    ''replace(current_user::text, '\"', '\"\"'))'')"

definition session_role :: "bool \<Rightarrow> bool \<Rightarrow> string \<Rightarrow> rem_single" where
  "session_role super dryrun user = \<lparr>rm_probe = Query tgt_db srrProbeSQL [], rm_cmd = True,
     rm_compose = Some (Query tgt_db srrGrantSQL []), rm_super = super_of Target super, rm_report = dryrun,
     rm_prefix = remPrefixFollow, rm_ok = ''target session_replication_role'',
     rm_missing = (\<lambda>stmt. (''preflight: target role \"'' @ user @
         ''\" cannot SET session_replication_role, so pgcopydb would apply NOTHING while reporting '' @
         ''success: '' @ stmt @ '' (PostgreSQL 15+; older targets need a superuser role)'')),
     rm_apply = (\<lambda>stmt. (''preflight: target role \"'' @ user @
         ''\" cannot SET session_replication_role and applying '' @ stmt @
         '' via superuserSecretRef failed (the GRANT exists on PostgreSQL 15+ only)'')),
     rm_still = (\<lambda>stmt. (''preflight: target role \"'' @ user @
         ''\" still cannot SET session_replication_role after remediation ('' @ stmt @ '')'')),
     rm_onProbe = [], rm_onComp = ''preflight: composing the GRANT SET failed'', rm_hint = hint_unless super tgtSuperHint\<rparr>"

definition srrBlock :: "tools \<Rightarrow> bool \<Rightarrow> bool \<Rightarrow> unit step_of" where
  "srrBlock t super dryrun = both (resolve_tgt_user t)
     (with_tgt_user (\<lambda>user. remSingleBlock t (session_role super dryrun user)))"

section \<open>Audits of the tables\<close>

definition tableScopeSQL :: "string \<Rightarrow> string" where
  "tableScopeSQL included = (join [
      ''select string_agg(format('%I.%I', n.nspname, c.relname), ', ' order by n.nspname, '' @
      ''c.relname)'',
      ''from pg_class c join pg_namespace n on n.oid = c.relnamespace,'',
      ''(select :'list'::jsonb as f) s'',
      ''where n.nspname !~ '^pg_' and n.nspname not in ('information_schema', 'pgcopydb')'',
      ''and '' @ included,
      ''and not exists (select 1 from jsonb_array_elements(s.f->'exclude') e(v) where v->>0 = '' @
      ''n.nspname and coalesce(v->>1, c.relname) = c.relname)'',
      ''and ''] [newline])"

definition copyScope :: string where
  "copyScope = (join [
      ''(jsonb_array_length(s.f->'schemas') = 0 or exists (select 1 from '' @
      ''jsonb_array_elements(s.f->'schemas') e(v) where v->>0 = n.nspname))'',
      ''and (jsonb_array_length(s.f->'tables') = 0 or exists (select 1 from '' @
      ''jsonb_array_elements(s.f->'tables') e(v) where v->>0 = n.nspname and v->>1 = c.relname))''] [newline])"

definition publishScope :: string where
  "publishScope = (join [
      ''(jsonb_array_length(s.f->'publish') = 0 or exists (select 1'',
      ''  from (select c.oid as relid union select relid from pg_partition_ancestors(c.oid)) a'',
      ''  join pg_class ac on ac.oid = a.relid join pg_namespace an on an.oid = ac.relnamespace,'',
      ''  jsonb_array_elements(s.f->'publish') e(v) where v->>0 = an.nspname and '' @
      ''coalesce(v->>1, ac.relname) = ac.relname))''] [newline])"

definition rlsAuditSQL :: string where
  "rlsAuditSQL = tableScopeSQL copyScope @ (join [
      ''c.relkind = 'r' and c.relrowsecurity'',
      ''and not exists (select 1 from pg_depend d where d.classid = 'pg_class'::regclass and '' @
      ''d.objid = c.oid and d.deptype = 'e')'',
      ''and (c.relforcerowsecurity or not pg_has_role(current_user, c.relowner, 'USAGE'))'',
      ''and not (select rolsuper or rolbypassrls from pg_roles where rolname = current_user)'',
      ''and not exists (select 1 from jsonb_array_elements(s.f->'skipData') e(v) where v->>0 = '' @
      ''n.nspname and v->>1 = c.relname)''] [newline])"

definition unloggedAuditSQL :: string where
  "unloggedAuditSQL = tableScopeSQL publishScope @ (''c.relkind in ('r', 'p') and c.relpersistence = 'u'' @ sq)"

definition table_audit :: "tools \<Rightarrow> string \<Rightarrow> string \<Rightarrow> (string \<Rightarrow> string) \<Rightarrow> string \<Rightarrow> rem_aggregate" where
  "table_audit t sql ok missing onProbe = \<lparr>ra_query = Query src_db sql [(''list'', pod_var t ''PREFLIGHT_TABLE_SCOPE'')],
     ra_super = None, ra_report = False, ra_prefix = [], ra_term = [], ra_ok = ok, ra_missing = missing,
     ra_apply = (\<lambda>_. []), ra_still = (\<lambda>_. []), ra_onProbe = onProbe, ra_hint = []\<rparr>"

definition rlsAuditBlock :: "tools \<Rightarrow> unit step_of" where
  "rlsAuditBlock t = remAggBlock t (table_audit t rlsAuditSQL ''row-level security audit''
     (\<lambda>agg. (''preflight: row-level security hides rows of these tables from the source migration '' @
         ''role, so the copy would fail on them with the bundled runner, or copy and verify only '' @
         ''the rows the role sees with a runner before 0.18.34.g7fddd6f: '' @ agg @
         ''; grant the role BYPASSRLS, disable row-level security on them for the migration, or '' @
         ''leave them out with clone.filters''))
     ''preflight: probing row-level security on the source tables failed'')"

definition unloggedAuditBlock :: "tools \<Rightarrow> unit step_of" where
  "unloggedAuditBlock t = remAggBlock t (table_audit t unloggedAuditSQL ''unlogged table audit''
     (\<lambda>agg. (''preflight: follow cannot replicate unlogged tables, whose changes never reach the WAL: '' @
         agg @
         ''; run ALTER TABLE ... SET LOGGED on the source, or leave them out with clone.filters '' @
         ''excludeTables or excludeSchemas''))
     ''preflight: probing the source for unlogged tables failed'')"

definition riAuditSQL :: string where
  "riAuditSQL = (''select n.nspname || '.' || c.relname from pg_class c join pg_namespace n on n.oid = '' @
    ''c.relnamespace where c.relkind = 'r' and c.relpersistence = 'p' and n.nspname !~ '^pg_' '' @
    ''and n.nspname <> 'information_schema' and (c.relreplident = 'n' or (c.relreplident = '' @ sq @
    ''d' and not exists (select 1 from pg_index i where i.indrelid = c.oid and '' @
    ''i.indisprimary))) order by 1'')"

definition ri_table :: "tools \<Rightarrow> string \<Rightarrow> unit step_of" where
  "ri_table t tbl = (let allow = split_on newline (pod_var t ''PREFLIGHT_ALLOW_MISSING_RI'') in
     if ''*'' \<in> set allow \<or> tbl \<in> set allow
     then say (''preflight: warning: acknowledged table '' @ tbl @
         '' has no usable replica identity; UPDATE and DELETE on it will fail on the source during '' @
         ''the migration window'')
     else audit_note (''preflight: table '' @ tbl @
         '' has no replica identity usable for UPDATE/DELETE (the audit covers all user tables, '' @
         ''including ones excluded by clone.filters): ALTER TABLE '' @ tbl @
         '' REPLICA IDENTITY USING INDEX <unique index>, or ALTER TABLE '' @ tbl @
         '' REPLICA IDENTITY FULL, or acknowledge it in spec.follow.allowMissingReplicaIdentity''))"

definition riAuditBlock :: "tools \<Rightarrow> unit step_of" where
  "riAuditBlock t = bnd (check t src_db riAuditSQL) (\<lambda>r.
     if captured r \<noteq> [] then each (ri_table t) (split_on newline (captured r))
     else say ''ok: replica identity audit'')"

definition preflightWal2jsonNote :: "unit step_of" where
  "preflightWal2jsonNote = say (''preflight: note: wal2json presence on the source cannot be verified from SQL (a logical '' @
      ''decoding plugin registers no catalog entry); if it is not installed, the first attempt '' @
      ''fails at slot creation with: could not access file \"wal2json\"'')"

section \<open>Extensions\<close>

definition sourceExtensionsSQL :: string where
  "sourceExtensionsSQL = (join [
      ''SELECT COALESCE('',
      ''jsonb_agg(source_extension.extname ORDER BY source_extension.extname), '[]'::jsonb)'',
      ''FROM pg_catalog.pg_extension AS source_extension, (SELECT :'list'::jsonb AS filters) AS '' @
      ''input'',
      ''WHERE (jsonb_array_length(filters->'include') = 0 OR (filters->'include') ? '' @
      ''source_extension.extname::text)'',
      ''AND NOT ((filters->'exclude') ? source_extension.extname::text);''] [newline])"

definition ownedSourceExtensionsSQL :: string where
  "ownedSourceExtensionsSQL = butlast sourceExtensionsSQL @ [newline] @ ''AND source_extension.oid >= 16384;''"

definition extensionNamesValidSQL :: string where
  "extensionNamesValidSQL = (join [
      ''SELECT CASE WHEN jsonb_typeof(:'list'::jsonb) = 'array' THEN'',
      ''CASE WHEN NOT EXISTS (SELECT 1 FROM jsonb_array_elements(:'list'::jsonb) AS item WHERE '' @
      ''jsonb_typeof(item) <> 'string')'',
      ''THEN jsonb_array_length(:'list'::jsonb) ELSE -1 END ELSE -1 END;''] [newline])"

definition targetExtensionsSQL :: "bool \<Rightarrow> string" where
  "targetExtensionsSQL dropped = (let installed = (if dropped then ''false'' else ''installed.extname IS NOT NULL'') in
     (join [
      ''SELECT COALESCE(jsonb_agg(selected.name ORDER BY selected.name), '[]'::jsonb)'',
      ''FROM jsonb_array_elements_text(:'list'::jsonb) AS selected(name)'',
      ''LEFT JOIN pg_catalog.pg_extension AS installed ON installed.extname::text COLLATE \"C\" = '' @
      ''selected.name'',
      ''LEFT JOIN pg_catalog.pg_available_extensions AS available ON available.name::text '' @
      ''COLLATE \"C\" = selected.name'',
      ''WHERE NOT ('' @ installed @ '' OR available.default_version IS NOT NULL);''] [newline]))"

definition targetExtensionOwnershipSQL :: string where
  "targetExtensionOwnershipSQL = (join [
      ''SELECT COALESCE(jsonb_agg('',
      ''format('extension %I (owner %I, migration role %I)', installed.extname,'',
      ''pg_get_userbyid(installed.extowner), current_user) ORDER BY selected.name), '[]'::jsonb)'',
      ''FROM jsonb_array_elements_text(:'list'::jsonb) AS selected(name)'',
      ''JOIN pg_catalog.pg_extension AS installed ON installed.extname::text COLLATE \"C\" = '' @
      ''selected.name'',
      ''WHERE NOT (pg_has_role(current_user, installed.extowner, 'USAGE')'',
      ''OR (SELECT rolsuper FROM pg_catalog.pg_roles WHERE rolname = current_user));''] [newline])"

definition distinctExtensionsSQL :: string where
  "distinctExtensionsSQL = (''SELECT COALESCE(jsonb_agg(DISTINCT name), '[]'::jsonb) FROM '' @
    ''jsonb_array_elements(:'list'::jsonb) AS db(extensions), '' @
    ''jsonb_array_elements(db.extensions) AS ext(name)'')"

text \<open>\<open>extension_names_valid\<close>: the number of names, when the value is a JSON array of strings.\<close>

definition extension_names :: "tools \<Rightarrow> string \<Rightarrow> string option step_of" where
  "extension_names t names = (if names = [] then ret None
     else bnd (checkv t tgt_db extensionNamesValidSQL names) (\<lambda>r.
       ret (if succeeded r \<and> is_number (captured r) then Some (captured r) else None)))"

definition valid_names :: "tools \<Rightarrow> tool_reply \<Rightarrow> string option step_of" where
  "valid_names t r = (if succeeded r then extension_names t (captured r) else ret None)"

definition extension_target :: "tools \<Rightarrow> string \<Rightarrow> string \<Rightarrow> (string \<Rightarrow> string) \<Rightarrow> string \<Rightarrow> string \<Rightarrow> unit step_of" where
  "extension_target t sql ok missing targetCheck selected =
     bnd (checkv t tgt_db sql selected) (\<lambda>r. bnd (valid_names t r) (\<lambda>shape. case shape of
         None \<Rightarrow> fail_note (''preflight: target '' @ targetCheck @ '' probe failed'')
       | Some n \<Rightarrow> if n = ''0'' then say (''ok: '' @ ok) else fail_note (''preflight: '' @ missing (captured r))))"

definition extension_block :: "tools \<Rightarrow> tool_reply step_of \<Rightarrow> string \<Rightarrow> string \<Rightarrow> (string \<Rightarrow> unit step_of) \<Rightarrow> unit step_of" where
  "extension_block t selection selectionSide selectionCheck judge =
     bnd selection (\<lambda>r. bnd (valid_names t r) (\<lambda>shape. case shape of
         None \<Rightarrow> fail_note (''preflight: '' @ selectionSide @ '' '' @ selectionCheck @ '' probe failed'')
       | Some n \<Rightarrow> judge (captured r)))"

definition extensionFilters :: "tools \<Rightarrow> string" where
  "extensionFilters t = pod_var t ''PREFLIGHT_EXTENSION_FILTERS''"

definition unavailable_extensions :: "string \<Rightarrow> string" where
  "unavailable_extensions issues = (''selected extensions unavailable on target: '' @ issues @
      ''; install the required target extension package or choose a target that provides it'')"

definition unowned_extensions :: "bool \<Rightarrow> string \<Rightarrow> string" where
  "unowned_extensions dropped issues =
     (let (route, what) = (if dropped then (''DROP EXTENSION (dropIfExists: true)'', ''extensions'')
                           else (''COMMENT ON EXTENSION (dropIfExists: false)'', ''extensionComments''))
      in (''target extension ownership required for '' @ route @ '': '' @ issues @
          ''; use a migration role with the owner's privileges, or set clone.skip: ['' @ what @ '']''))"

text \<open>
  The three shapes the operator asks for: availability of the source's selection, ownership of
  it, and availability of what all databases select. Only the first exits without the verdict.
\<close>

definition extension_availability :: "tools \<Rightarrow> bool \<Rightarrow> unit step_of" where
  "extension_availability t dropped =
     both (extension_block t (checkv t src_db sourceExtensionsSQL (extensionFilters t)) ''source'' ''extension selection''
             (extension_target t (targetExtensionsSQL dropped) ''selected extensions available'' unavailable_extensions
               ''extension availability''))
          (from_state (\<lambda>s. if st_fail s then exit1 else nothing))"

definition extension_ownership :: "tools \<Rightarrow> bool \<Rightarrow> unit step_of" where
  "extension_ownership t dropped =
     both (extension_block t (checkv t src_db ownedSourceExtensionsSQL (extensionFilters t)) ''source'' ''extension ownership selection''
             (extension_target t targetExtensionOwnershipSQL ''selected extension ownership'' (unowned_extensions dropped)
               ''extension ownership''))
          stop_on_failure"

section \<open>All databases\<close>

definition databaseRowsSQL :: string where
  "databaseRowsSQL = (''SELECT value::text FROM jsonb_array_elements(:'list'::jsonb)'')"

text \<open>\<^verbatim>\<open>checkv_db\<close>: psql connects on to the database in the variable before it reads the statement.\<close>

definition connectDatabaseSQL :: string where
  "connectDatabaseSQL = (join [
      ''SELECT 'dbname=' || chr(39) || replace(replace(:'database'::jsonb #>> '' @ sq @ ''{'' @ ''}'' @
      sq @ '', chr(92), chr(92)||chr(92)), chr(39), chr(92)||chr(39)) || chr(39) AS dbconn '' @
      [backslash] @ ''gset'',
      [backslash] @ ''connect -reuse-previous=on :dbconn'',
      []] [newline])"

definition checkv_db :: "tools \<Rightarrow> string \<Rightarrow> string \<Rightarrow> string \<Rightarrow> tool_reply step_of" where
  "checkv_db t sql xs database =
     call_tool t (Query src_db (connectDatabaseSQL @ sql) [(''list'', xs), (''database'', database)])"

text \<open>One database: the arrays collected so far, or none once a database failed.\<close>

definition collect_database :: "tools \<Rightarrow> string \<Rightarrow> bool \<times> string \<Rightarrow> (bool \<times> string) step_of" where
  "collect_database t database acc = (case acc of (collected, arrays) \<Rightarrow>
     bnd (checkv_db t sourceExtensionsSQL (extensionFilters t) database) (\<lambda>r.
       if \<not> succeeded r
       then bnd (fail_note (''preflight: source extension selection probe failed for database '' @ database)) (\<lambda>_. ret (False, arrays))
       else bnd (extension_names t (captured r)) (\<lambda>shape. case shape of
           None \<Rightarrow> bnd (fail_note (''preflight: validating selected extensions on target failed for database '' @ database))
                     (\<lambda>_. ret (False, arrays))
         | Some n \<Rightarrow> ret (collected, arrays @ (if arrays \<noteq> [] then '','' else []) @ captured r))))"

fun collect_databases :: "tools \<Rightarrow> string list \<Rightarrow> bool \<times> string \<Rightarrow> (bool \<times> string) step_of" where
  "collect_databases t [] acc = ret acc"
| "collect_databases t (d # ds) acc =
     (if d = [] then collect_databases t ds acc
      else bnd (collect_database t d acc) (\<lambda>acc. collect_databases t ds acc))"

definition list_database_rows :: "tools \<Rightarrow> string \<Rightarrow> string step_of" where
  "list_database_rows t databases = (if databases = [] then ret []
     else bnd (checkv t src_db databaseRowsSQL databases) (\<lambda>r. ret (captured_or_empty r)))"

definition collect_extensions :: "tools \<Rightarrow> (bool \<times> string) step_of" where
  "collect_extensions t = from_state (\<lambda>s. bnd (list_database_rows t (st_databases s)) (\<lambda>rows.
     if rows = []
     then bnd (fail_note ''preflight: listing source databases for extension probes failed'') (\<lambda>_. ret (False, []))
     else collect_databases t (split_on newline rows) (True, [])))"

definition no_reply :: tool_reply where
  "no_reply = \<lparr>rp_code = 1, rp_out = [], rp_err = []\<rparr>"

definition extension_all_databases :: "tools \<Rightarrow> unit step_of" where
  "extension_all_databases t = bnd (collect_extensions t) (\<lambda>(collected, arrays).
     both stop_on_failure
    (both (extension_block t (if collected then checkv t tgt_db distinctExtensionsSQL (''['' @ arrays @ '']'') else ret no_reply)
             ''target'' ''extension selection''
             (extension_target t (targetExtensionsSQL True) ''selected extensions available'' unavailable_extensions
               ''extension availability''))
          stop_on_failure))"

definition extensionPreflightBlock :: "tools \<Rightarrow> bool \<Rightarrow> bool \<Rightarrow> bool \<Rightarrow> unit step_of" where
  "extensionPreflightBlock t dropped allDatabases ownership =
     (if allDatabases then extension_all_databases t
      else if ownership then extension_ownership t dropped else extension_availability t dropped)"

definition all_databases_superuser :: "side \<Rightarrow> rem_single" where
  "all_databases_superuser s = (let name = side_str s in
     probe_only (Query (Primary s) rolsuperSQL []) (''all-databases '' @ name @ '' superuser'')
       (''preflight: all-databases '' @ name @
           '' requires a superuser migration role (rolsuper): '' @
           (if s = Target then ''CREATE DATABASE, role restore and ALTER OWNER run across every database'' else ''role dump reads pg_authid and every database is dumped''))
       (''preflight: probing the all-databases '' @ name @ '' superuser requirement failed''))"

definition sourceDatabasesSQL :: string where
  "sourceDatabasesSQL = (''SELECT jsonb_agg(datname ORDER BY datname) FROM pg_database WHERE datname NOT IN '' @
    ''('template0', 'template1')'')"

definition existingDatabasesSQL :: string where
  "existingDatabasesSQL = (''SELECT COALESCE(jsonb_agg(datname ORDER BY datname), '[]'::jsonb) FROM pg_database '' @
    ''WHERE datname IN (SELECT jsonb_array_elements_text(:'list'::jsonb))'')"

definition list_databases :: "tools \<Rightarrow> unit step_of" where
  "list_databases t = bnd (check t src_db sourceDatabasesSQL) (\<lambda>r. let ds = captured r in
     if succeeded r \<and> ds \<noteq> [] \<and> ds \<noteq> ''[]''
     then both (upd (\<lambda>s. s\<lparr>st_databases := ds\<rparr>))
         (both (say (''ok: all-databases source databases: '' @ ds))
         (bnd (checkv t tgt_db existingDatabasesSQL ds) (\<lambda>e.
            if succeeded e \<and> captured e \<noteq> [] then say (''ok: all-databases existing target databases: '' @ captured e)
            else fail_note ''preflight: listing existing target databases failed'')))
     else both (upd (\<lambda>s. s\<lparr>st_databases := []\<rparr>))
         (fail_note ''preflight: listing source databases failed or found no databases''))"

definition allDatabasesPreflightBlock :: "tools \<Rightarrow> unit step_of" where
  "allDatabasesPreflightBlock t = both (remSingleBlock t (all_databases_superuser Source))
    (both (remSingleBlock t (all_databases_superuser Target))
    (both stop_on_failure (both (list_databases t) stop_on_failure)))"

section \<open>The script of a Migration\<close>

fun run_block :: "tools \<Rightarrow> preflight_block \<Rightarrow> unit step_of" where
  "run_block t PreflightHeader = preflightHeader t"
| "run_block t (TargetConnect failure) = target_connect t failure"
| "run_block t PoolerBlock = poolerBlock t"
| "run_block t SyncCommitBlock = syncCommitBlock t"
| "run_block t TemporaryPrivilegeBlock = temporaryPrivilegeBlock t"
| "run_block t DeferIndexesBlock = deferIndexesBlock t"
| "run_block t MajorVersionBlock = majorVersionBlock t"
| "run_block t PreflightStopOnFailure = stop_on_failure"
| "run_block t RestoreMajorBlock = restoreMajorBlock t"
| "run_block t AllDatabasesPreflightBlock = allDatabasesPreflightBlock t"
| "run_block t (ExtensionPreflightBlock dropped allDatabases ownership) = extensionPreflightBlock t dropped allDatabases ownership"
| "run_block t PreflightScriptFooter = footer"
| "run_block t (SuperVerifyBlock s dryrun) = superVerifyBlock t s dryrun"
| "run_block t (OwnerAfterRestoreBlock super dryrun) = ownerAfterRestoreBlock t super dryrun"
| "run_block t (CloneRightsBlock super dbProperties dryrun) = cloneRightsBlock t super dbProperties dryrun"
| "run_block t RlsAuditBlock = rlsAuditBlock t"
| "run_block t WalLevelBlock = walLevelBlock t"
| "run_block t SlotHeadroomBlock = slotHeadroomBlock t"
| "run_block t WalSenderTimeoutBlock = walSenderTimeoutBlock t"
| "run_block t (ReplicationAttrBlock super dryrun) = replicationAttrBlock t super dryrun"
| "run_block t (OriginGrantsBlock super dryrun) = originGrantsBlock t super dryrun"
| "run_block t (SrrBlock super dryrun) = srrBlock t super dryrun"
| "run_block t UnloggedAuditBlock = unloggedAuditBlock t"
| "run_block t RiAuditBlock = riAuditBlock t"
| "run_block t PreflightWal2jsonNote = preflightWal2jsonNote"

definition run_preflight :: "tools \<Rightarrow> migration \<Rightarrow> (err + unit) \<times> script_state" where
  "run_preflight t m = each (run_block t) (preflightScriptFor m) script_start"

text \<open>The Job succeeds when the script ends without an exit.\<close>

definition preflight_passes :: "tools \<Rightarrow> migration \<Rightarrow> bool" where
  "preflight_passes t m \<longleftrightarrow> fst (run_preflight t m) = Inr ()"

end
