(* ===== verification/Preflight_Calls.thy ===== *)
theory Preflight_Calls
  imports Preflight_Script
begin

text \<open>
  Which statements a preflight sends, and over which connection. A statement is one of the
  fixed texts of the script, whatever the Migration says: values of the specification and of the
  catalogs reach the servers as psql variables. Over a superuser connection the script sends two
  fixed probes and, unless it only reports, the statement that the previous call composed. Every
  statement it applied is printed.
\<close>

section \<open>The statements of the script\<close>

definition super_probes :: "string set" where
  "super_probes = {selectOneSQL, rolsuperSQL}"

definition composing :: "string set" where
  "composing = {reownGrantSQL, cloneDBCreateGrantSQL, cloneSchemaGrantsSQL, replicationAttrGrantSQL, originGrantsSQL,
     srrGrantSQL}"

definition probing_statements :: "string set" where
  "probing_statements = {selectOneSQL, rolsuperSQL, syncCommitSQL, temporaryPrivilegeSQL, majorVersionSQL, reownRoleExistsSQL,
     reownSetRoleSQL, currentUserSQL, cloneDBCreateSQL, cloneSchemasSQL, dbPropertiesSQL, walLevelSQL, slotHeadroomSQL,
     walSenderTimeoutSQL, replicationAttrSQL, srrProbeSQL, rlsAuditSQL, unloggedAuditSQL, riAuditSQL, sourceExtensionsSQL,
     ownedSourceExtensionsSQL, extensionNamesValidSQL, targetExtensionsSQL True, targetExtensionsSQL False,
     targetExtensionOwnershipSQL, distinctExtensionsSQL, databaseRowsSQL, connectDatabaseSQL @ sourceExtensionsSQL,
     sourceDatabasesSQL, existingDatabasesSQL}"

definition script_statements :: "string set" where
  "script_statements = probing_statements \<union> composing"

text \<open>What a call may be, after a history of calls.\<close>

definition remedy_of :: "tool_history \<Rightarrow> string \<Rightarrow> bool" where
  "remedy_of h sql \<longleftrightarrow> (\<exists>h' d q vs r. h = h' @ [(Query d q vs, r)] \<and> q \<in> composing \<and> succeeded r \<and> sql = captured r)"

definition may_send :: "bool \<Rightarrow> (side \<Rightarrow> bool) \<Rightarrow> tool_history \<Rightarrow> tool_call \<Rightarrow> bool" where
  "may_send dryrun super h c \<longleftrightarrow> (case c of
       Query (Primary s) sql vs \<Rightarrow> sql \<in> script_statements
     | Query (Superuser s) sql vs \<Rightarrow> super s \<and> vs = [] \<and> (sql \<in> super_probes \<or> \<not> dryrun \<and> remedy_of h sql)
     | ConnInfo d \<Rightarrow> \<exists>s. d = Primary s
     | Run p \<Rightarrow> True
     | IsFile f \<Rightarrow> True)"

definition disciplined :: "bool \<Rightarrow> (side \<Rightarrow> bool) \<Rightarrow> tool_history \<Rightarrow> bool" where
  "disciplined dryrun super h \<longleftrightarrow> (\<forall>i < length h. may_send dryrun super (take i h) (fst (h ! i)))"

lemma disciplined_snoc:
  "disciplined dryrun super (h @ [(c, r)]) \<longleftrightarrow> disciplined dryrun super h \<and> may_send dryrun super h c"
  by (auto simp: disciplined_def nth_append less_Suc_eq)

lemma disciplined_nil: "disciplined dryrun super []"
  by (simp add: disciplined_def)

text \<open>An applied statement is printed, as one line or a line for each of its statements.\<close>

definition printed :: "string \<Rightarrow> string list \<Rightarrow> bool" where
  "printed x ls \<longleftrightarrow> (\<exists>pre\<in>{remPrefixFollow, remPrefixClone}.
     pre @ x \<in> set ls \<or> (\<exists>trm. \<forall>g\<in>set (statements_of x). pre @ g @ trm \<in> set ls))"

definition announced :: "tool_history \<Rightarrow> string list \<Rightarrow> bool" where
  "announced h ls \<longleftrightarrow> (\<forall>s x vs r. (Query (Superuser s) x vs, r) \<in> set h \<longrightarrow> x \<notin> super_probes \<longrightarrow> succeeded r \<longrightarrow> printed x ls)"

lemma printed_more: "printed x ls \<Longrightarrow> printed x (ls @ ms)"
  by (auto simp: printed_def)

lemma announced_more: "announced h ls \<Longrightarrow> announced h (ls @ ms)"
  unfolding announced_def by (blast intro: printed_more)

lemma announced_snoc:
  "announced h ls \<Longrightarrow> (\<And>s x vs. c = Query (Superuser s) x vs \<Longrightarrow> x \<in> super_probes \<or> \<not> succeeded r \<or> printed x ls) \<Longrightarrow>
   announced (h @ [(c, r)]) ls"
  by (auto simp: announced_def)

section \<open>Blocks keep the discipline\<close>

definition in_order :: "bool \<Rightarrow> (side \<Rightarrow> bool) \<Rightarrow> script_state \<Rightarrow> bool" where
  "in_order dryrun super s \<longleftrightarrow> disciplined dryrun super (st_calls s) \<and> announced (st_calls s) (st_out s)"

definition keeps_calls :: "bool \<Rightarrow> (side \<Rightarrow> bool) \<Rightarrow> script_state \<Rightarrow> script_state \<Rightarrow> bool" where
  "keeps_calls dryrun super s s' \<longleftrightarrow> (in_order dryrun super s \<longrightarrow> in_order dryrun super s')"

lemma in_order_call:
  assumes "in_order dryrun super s" and "\<And>h. may_send dryrun super h c"
  shows "in_order dryrun super (s\<lparr>st_calls := st_calls s @ [(c, r)]\<rparr>)"
proof -
  have "x \<in> super_probes" if "c = Query (Superuser d) x vs" for d x vs
    using assms(2) [of "[]"] that by (simp add: may_send_def remedy_of_def)
  then have "announced (st_calls s @ [(c, r)]) (st_out s)"
    using assms(1) by (intro announced_snoc) (auto simp: in_order_def)
  then show ?thesis
    using assms by (simp add: in_order_def disciplined_snoc)
qed

interpretation sent: frame "keeps_calls dryrun super" for dryrun super
  by unfold_locales (auto simp: keeps_calls_def)

named_theorems sends

lemma sends_call [sends]:
  assumes "\<And>h. may_send dryrun super h c"
  shows "keeps (keeps_calls dryrun super) (call_tool t c)"
  using assms by (auto simp: keeps_def keeps_calls_def call_tool_def Let_def intro: in_order_call)

lemma sends_upd:
  assumes "\<And>s. st_calls (f s) = st_calls s" and "\<And>s. \<exists>ls. st_out (f s) = st_out s @ ls"
  shows "keeps (keeps_calls dryrun super) (upd f)"
  unfolding keeps_def keeps_calls_def in_order_def upd_def
  using assms by (metis announced_more snd_conv)

lemma sends_from_state [sends]:
  "(\<And>s. keeps (keeps_calls dryrun super) (k s)) \<Longrightarrow> keeps (keeps_calls dryrun super) (from_state k)"
  by (auto simp: keeps_def from_state_def)

lemma sends_both [sends]:
  "keeps (keeps_calls dryrun super) f \<Longrightarrow> keeps (keeps_calls dryrun super) g \<Longrightarrow> keeps (keeps_calls dryrun super) (both f g)"
  unfolding both_def by (rule sent.keeps_bnd)

lemma sends_say [sends]: "keeps (keeps_calls dryrun super) (say x)"
  unfolding say_def by (rule sends_upd) simp_all

lemma sends_quiet [sends]:
  "keeps (keeps_calls dryrun super) (fail_note x)" "keeps (keeps_calls dryrun super) (audit_note x)"
  "keeps (keeps_calls dryrun super) (add_hint x)" "keeps (keeps_calls dryrun super) nothing"
  "keeps (keeps_calls dryrun super) exit1"
  "keeps (keeps_calls dryrun super) (upd (\<lambda>s. s\<lparr>st_tgt_user := x\<rparr>))"
  "keeps (keeps_calls dryrun super) (upd (\<lambda>s. s\<lparr>st_databases := x\<rparr>))"
  unfolding fail_note_def audit_note_def add_hint_def nothing_def exit1_def
  by (intro sends_both sends_say sends_upd sent.keeps_ret sent.keeps_raise; simp)+

lemma sends_on [sends]: "(b \<Longrightarrow> keeps (keeps_calls dryrun super) f) \<Longrightarrow> keeps (keeps_calls dryrun super) (on b f)"
  by (simp add: on_def sends_quiet)

lemmas sends_frame = sent.keeps_bnd sent.keeps_ret sent.keeps_each keeps_if keeps_case_prod keeps_case_option

lemma sends_verdict [sends]:
  "keeps (keeps_calls dryrun super) print_verdict" "keeps (keeps_calls dryrun super) stop_on_failure"
  "keeps (keeps_calls dryrun super) footer"
  unfolding print_verdict_def stop_on_failure_def footer_def by (intro sends sends_frame)+

lemma sends_primary [sends]:
  "sql \<in> script_statements \<Longrightarrow> keeps (keeps_calls dryrun super) (check t (Primary s) sql)"
  "sql \<in> script_statements \<Longrightarrow> keeps (keeps_calls dryrun super) (checkv t (Primary s) sql xs)"
  unfolding check_def checkv_def by (rule sends_call, simp add: may_send_def)+

lemma sends_super_probe [sends]:
  "super s \<Longrightarrow> sql \<in> super_probes \<Longrightarrow> keeps (keeps_calls dryrun super) (check t (Superuser s) sql)"
  unfolding check_def by (rule sends_call) (simp add: may_send_def)

text \<open>The step after a call may send what the call composed.\<close>

definition keeps_after :: "bool \<Rightarrow> (side \<Rightarrow> bool) \<Rightarrow> tool_call \<Rightarrow> tool_reply \<Rightarrow> 'a step_of \<Rightarrow> bool" where
  "keeps_after dryrun super c r f \<longleftrightarrow>
     (\<forall>s h. st_calls s = h @ [(c, r)] \<longrightarrow> keeps_calls dryrun super s (snd (f s)))"

lemma after_keeps: "keeps (keeps_calls dryrun super) f \<Longrightarrow> keeps_after dryrun super c r f"
  by (simp add: keeps_after_def keeps_def)

lemma after_if:
  "(b \<Longrightarrow> keeps_after dryrun super c r f) \<Longrightarrow> (\<not> b \<Longrightarrow> keeps_after dryrun super c r g) \<Longrightarrow>
   keeps_after dryrun super c r (if b then f else g)"
  by simp

lemma after_case_option:
  "(x = None \<Longrightarrow> keeps_after dryrun super c r f) \<Longrightarrow> (\<And>y. x = Some y \<Longrightarrow> keeps_after dryrun super c r (g y)) \<Longrightarrow>
   keeps_after dryrun super c r (case x of None \<Rightarrow> f | Some y \<Rightarrow> g y)"
  by (cases x) simp_all

lemma sends_call_then:
  assumes "\<And>h. may_send dryrun super h c" and "\<And>r. keeps_after dryrun super c r (k r)"
  shows "keeps (keeps_calls dryrun super) (bnd (call_tool t c) k)"
  unfolding keeps_def
proof
  fix s :: script_state
  let ?r = "answer t (st_calls s) c"
  let ?s = "s\<lparr>st_calls := st_calls s @ [(c, ?r)]\<rparr>"
  have "keeps_calls dryrun super s ?s"
    using assms(1) by (simp add: keeps_calls_def in_order_call)
  moreover have "keeps_calls dryrun super ?s (snd (k ?r ?s))"
    using assms(2) [of ?r] by (simp add: keeps_after_def)
  ultimately show "keeps_calls dryrun super s (snd (bnd (call_tool t c) k s))"
    by (auto simp: keeps_calls_def bnd_def call_tool_def Let_def)
qed

text \<open>A remedy prints what it applied at once.\<close>

definition prints :: "string \<Rightarrow> unit step_of \<Rightarrow> bool" where
  "prints x p \<longleftrightarrow> (\<forall>s. \<exists>ls. p s = (Inr (), s\<lparr>st_out := st_out s @ ls\<rparr>) \<and> printed x ls)"

lemma prints_say: "pre \<in> {remPrefixFollow, remPrefixClone} \<Longrightarrow> prints x (say (pre @ x))"
  by (auto simp: prints_def say_def upd_def printed_def)

lemma each_say: "each (\<lambda>g. say (f g)) gs s = (Inr (), s\<lparr>st_out := st_out s @ map f gs\<rparr>)"
  by (induction gs arbitrary: s) (auto simp: bnd_def ret_def say_def upd_def)

lemma prints_echo: "pre \<in> {remPrefixFollow, remPrefixClone} \<Longrightarrow> prints x (remAggEcho pre trm x)"
  unfolding prints_def remAggEcho_def each_say printed_def by (intro allI exI conjI refl bexI disjI2 ballI) auto

lemma after_remedy:
  assumes "super s" and "\<not> dryrun" and "q \<in> composing" and "succeeded r"
    and "prints (captured r) p" and "keeps (keeps_calls dryrun super) rest" and "keeps (keeps_calls dryrun super) failed"
  shows "keeps_after dryrun super (Query d q vs) r
    (bnd (check t (Superuser s) (captured r)) (\<lambda>a. if succeeded a then both p rest else failed))"
  unfolding keeps_after_def
proof (intro allI impI)
  fix st :: script_state and h
  assume last: "st_calls st = h @ [(Query d q vs, r)]"
  let ?c = "Query (Superuser s) (captured r) []"
  define a where "a = answer t (st_calls st) ?c"
  define u where "u = st\<lparr>st_calls := st_calls st @ [(?c, a)]\<rparr>"
  have run: "bnd (check t (Superuser s) (captured r)) (\<lambda>a. if succeeded a then both p rest else failed) st =
      (if succeeded a then both p rest u else failed u)"
    by (simp add: bnd_def check_def call_tool_def Let_def a_def u_def)
  have "remedy_of (st_calls st) (captured r)"
    using assms(3,4) last by (auto simp: remedy_of_def)
  then have sent: "in_order dryrun super st \<Longrightarrow> disciplined dryrun super (st_calls u)"
    using assms(1,2) by (simp add: u_def in_order_def disciplined_snoc may_send_def)
  show "keeps_calls dryrun super st (snd (bnd (check t (Superuser s) (captured r)) (\<lambda>a. if succeeded a then both p rest else failed) st))"
  proof (cases "succeeded a")
    case False
    then have "in_order dryrun super st \<Longrightarrow> in_order dryrun super u"
      using sent by (auto simp: in_order_def u_def intro: announced_snoc)
    then show ?thesis
      unfolding run using False assms(7) by (simp add: keeps_def keeps_calls_def)
  next
    case True
    obtain ls where p: "p u = (Inr (), u\<lparr>st_out := st_out u @ ls\<rparr>)" and ls: "printed (captured r) ls"
      using assms(5) by (auto simp: prints_def)
    from ls have "printed (captured r) (ms @ ls)" for ms
      by (auto simp: printed_def)
    then have "in_order dryrun super st \<Longrightarrow> in_order dryrun super (u\<lparr>st_out := st_out u @ ls\<rparr>)"
      using sent by (auto simp: in_order_def u_def intro: announced_snoc announced_more)
    moreover have "both p rest u = rest (u\<lparr>st_out := st_out u @ ls\<rparr>)"
      by (simp add: both_def bnd_def p)
    ultimately show ?thesis
      unfolding run using True assms(6) by (simp add: keeps_def keeps_calls_def)
  qed
qed

lemma after_remedy_not:
  assumes "super s" and "\<not> dryrun" and "q \<in> composing" and "succeeded r"
    and "prints (captured r) p" and "keeps (keeps_calls dryrun super) rest" and "keeps (keeps_calls dryrun super) failed"
  shows "keeps_after dryrun super (Query d q vs) r
    (bnd (check t (Superuser s) (captured r)) (\<lambda>a. if \<not> succeeded a then failed else both p rest))"
proof -
  have "(\<lambda>a. if \<not> succeeded a then failed else both p rest) = (\<lambda>a. if succeeded a then both p rest else failed)"
    by (rule ext) simp
  then show ?thesis using after_remedy [OF assms] by simp
qed

section \<open>The remedy blocks\<close>

definition primary_query :: "string set \<Rightarrow> tool_call \<Rightarrow> bool" where
  "primary_query qs c \<longleftrightarrow> (\<exists>s q vs. c = Query (Primary s) q vs \<and> q \<in> qs)"

lemma primary_may_send: "primary_query qs c \<Longrightarrow> qs \<subseteq> script_statements \<Longrightarrow> may_send dryrun super h c"
  by (auto simp: primary_query_def may_send_def)

definition single_ok :: "bool \<Rightarrow> (side \<Rightarrow> bool) \<Rightarrow> rem_single \<Rightarrow> bool" where
  "single_ok dryrun super c \<longleftrightarrow> primary_query script_statements (rm_probe c) \<and>
     (\<forall>q. rm_compose c = Some q \<longrightarrow> primary_query composing q) \<and>
     (\<forall>s. rm_super c = Some s \<longrightarrow> super s \<and> rm_report c = dryrun \<and> rm_prefix c \<in> {remPrefixFollow, remPrefixClone})"

lemma composing_sent: "composing \<subseteq> script_statements"
  by (simp add: script_statements_def)

lemma sends_recheck: "single_ok dryrun super c \<Longrightarrow> keeps (keeps_calls dryrun super) (remRecheck t c stmt)"
  unfolding remRecheck_def single_ok_def
  by (intro sends sends_frame) (auto intro: primary_may_send)

lemma sends_missing: "single_ok dryrun super c \<Longrightarrow> keeps (keeps_calls dryrun super) (rem_missing t c)"
proof -
  assume ok: "single_ok dryrun super c"
  show ?thesis
  proof (cases "rm_compose c")
    case None
    then show ?thesis by (simp add: rem_missing_def sends)
  next
    case (Some q)
    with ok obtain s x vs where q: "q = Query (Primary s) x vs" "x \<in> composing"
      by (auto simp: single_ok_def primary_query_def)
    have send: "may_send dryrun super h q" for h
      using q composing_sent by (auto simp: may_send_def)
    show ?thesis
      unfolding rem_missing_def Some option.case Let_def
    proof (rule sends_call_then [OF send], rule after_if, rule after_keeps, rule sends, rule after_case_option)
      fix r
      show "keeps_after dryrun super q r (both (fail_note (rm_missing c (captured r))) (on (rm_hint c \<noteq> []) (add_hint (rm_hint c))))"
        by (intro after_keeps sends)
      fix d
      assume "\<not> \<not> succeeded r" and d: "rm_super c = Some d"
      then show "keeps_after dryrun super q r (if rm_report c then say (wouldPrefix (rm_prefix c) @ captured r)
          else bnd (check t (Superuser d) (captured r)) (\<lambda>a. if succeeded a
            then both (say (rm_prefix c @ captured r)) (remRecheck t c (captured r)) else fail_note (rm_apply c (captured r))))"
        unfolding q(1) using ok q(2)
        by (intro after_if after_keeps sends after_remedy prints_say sends_frame sends_recheck) (auto simp: single_ok_def)
    qed
  qed
qed

lemma sends_single [sends]: "single_ok dryrun super c \<Longrightarrow> keeps (keeps_calls dryrun super) (remSingleBlock t c)"
  unfolding remSingleBlock_def
  by (intro sends sends_frame sends_missing) (auto simp: single_ok_def intro: primary_may_send)

definition aggregate_ok :: "bool \<Rightarrow> (side \<Rightarrow> bool) \<Rightarrow> rem_aggregate \<Rightarrow> bool" where
  "aggregate_ok dryrun super c \<longleftrightarrow> primary_query script_statements (ra_query c) \<and>
     (\<forall>s. ra_super c = Some s \<longrightarrow> super s \<and> ra_report c = dryrun \<and> ra_prefix c \<in> {remPrefixFollow, remPrefixClone} \<and>
       primary_query composing (ra_query c))"

lemma sends_echo [sends]: "keeps (keeps_calls dryrun super) (remAggEcho pre trm agg)"
  unfolding remAggEcho_def by (intro sends sends_frame)

lemma sends_aggregate [sends]: "aggregate_ok dryrun super c \<Longrightarrow> keeps (keeps_calls dryrun super) (remAggBlock t c)"
proof -
  assume ok: "aggregate_ok dryrun super c"
  have send: "may_send dryrun super h (ra_query c)" for h
    using ok primary_may_send by (auto simp: aggregate_ok_def)
  show ?thesis
    unfolding remAggBlock_def Let_def
  proof (rule sends_call_then [OF send], rule after_if, rule after_keeps, rule sends, rule after_if, rule after_keeps, rule sends,
      rule after_case_option)
    fix r
    show "keeps_after dryrun super (ra_query c) r (both (fail_note (ra_missing c (captured r)))
        (on (ra_hint c \<noteq> []) (add_hint (ra_hint c))))"
      by (intro after_keeps sends)
    fix d
    assume "\<not> \<not> succeeded r" and d: "ra_super c = Some d"
    with ok obtain s x vs where q: "ra_query c = Query (Primary s) x vs" "x \<in> composing" "super d" "ra_report c = dryrun"
      "ra_prefix c \<in> {remPrefixFollow, remPrefixClone}"
      by (auto simp: aggregate_ok_def primary_query_def)
    have again: "keeps (keeps_calls dryrun super) (bnd (call_tool t (ra_query c)) (\<lambda>r.
        if \<not> succeeded r then fail_note (ra_onProbe c)
        else if captured r \<noteq> [] then fail_note (ra_still c (captured r)) else say (''ok: '' @ ra_ok c)))"
      using send by (intro sends sends_frame)
    show "keeps_after dryrun super (ra_query c) r (if ra_report c then remAggEcho (wouldPrefix (ra_prefix c)) (ra_term c) (captured r)
        else bnd (check t (Superuser d) (captured r)) (\<lambda>a. if \<not> succeeded a then fail_note (ra_apply c (captured r))
          else both (remAggEcho (ra_prefix c) (ra_term c) (captured r)) (bnd (call_tool t (ra_query c)) (\<lambda>r.
            if \<not> succeeded r then fail_note (ra_onProbe c)
            else if captured r \<noteq> [] then fail_note (ra_still c (captured r)) else say (''ok: '' @ ra_ok c)))))"
      using q(2-5) \<open>\<not> \<not> succeeded r\<close> again unfolding q(1)
      by (intro after_if after_keeps [OF sends_echo] after_remedy_not prints_echo sends_quiet) auto
  qed
qed

section \<open>The blocks\<close>

lemma probe_is_sent: "sql \<in> probing_statements \<Longrightarrow> sql \<in> script_statements"
  by (simp add: script_statements_def)

lemma sent_probes [simp]:
  "selectOneSQL \<in> script_statements" "rolsuperSQL \<in> script_statements" "syncCommitSQL \<in> script_statements"
  "temporaryPrivilegeSQL \<in> script_statements" "majorVersionSQL \<in> script_statements"
  "reownRoleExistsSQL \<in> script_statements" "reownSetRoleSQL \<in> script_statements" "currentUserSQL \<in> script_statements"
  "cloneDBCreateSQL \<in> script_statements" "cloneSchemasSQL \<in> script_statements" "dbPropertiesSQL \<in> script_statements"
  "walLevelSQL \<in> script_statements" "slotHeadroomSQL \<in> script_statements" "walSenderTimeoutSQL \<in> script_statements"
  "replicationAttrSQL \<in> script_statements" "srrProbeSQL \<in> script_statements" "rlsAuditSQL \<in> script_statements"
  "unloggedAuditSQL \<in> script_statements" "riAuditSQL \<in> script_statements" "sourceExtensionsSQL \<in> script_statements"
  "ownedSourceExtensionsSQL \<in> script_statements" "extensionNamesValidSQL \<in> script_statements"
  "targetExtensionOwnershipSQL \<in> script_statements" "distinctExtensionsSQL \<in> script_statements"
  "databaseRowsSQL \<in> script_statements" "connectDatabaseSQL @ sourceExtensionsSQL \<in> script_statements"
  "sourceDatabasesSQL \<in> script_statements" "existingDatabasesSQL \<in> script_statements"
  by (rule probe_is_sent, unfold probing_statements_def, blast)+

lemma sent_extensions [simp]: "targetExtensionsSQL b \<in> script_statements"
  by (rule probe_is_sent, unfold probing_statements_def, cases b, simp_all only:, blast+)

lemma composed [simp]:
  "reownGrantSQL \<in> composing" "cloneDBCreateGrantSQL \<in> composing" "cloneSchemaGrantsSQL \<in> composing"
  "replicationAttrGrantSQL \<in> composing" "originGrantsSQL \<in> composing" "srrGrantSQL \<in> composing"
  by (unfold composing_def, blast+)

lemma composed_sent [simp]: "q \<in> composing \<Longrightarrow> q \<in> script_statements"
  using composing_sent by blast

lemma super_probes [simp]: "selectOneSQL \<in> super_probes" "rolsuperSQL \<in> super_probes"
  by (unfold super_probes_def, blast+)

lemma primary_query_Query [simp]: "primary_query qs (Query (Primary s) q vs) \<longleftrightarrow> q \<in> qs"
  by (simp add: primary_query_def)

lemma sends_retry [sends]:
  "(\<And>h. may_send dryrun super h (Query d selectOneSQL [])) \<Longrightarrow> keeps (keeps_calls dryrun super) (connect_retry t d what failure left perm)"
proof (induction left arbitrary: perm)
  case 0
  then show ?case
    by (subst connect_retry.simps) (auto simp: check_def Let_def intro!: sends sends_frame)
next
  case (Suc left)
  then show ?case
    by (subst connect_retry.simps) (auto simp: check_def Let_def intro!: sends sends_frame)
qed

lemma sends_pooler [sends]: "keeps (keeps_calls dryrun super) (pooler_check t s)"
  unfolding pooler_check_def Let_def by (intro sends sends_frame) (simp add: may_send_def)

lemma sends_footer_gate: "keeps (keeps_calls dryrun super) (both (fail_note m) footer)"
  by (intro sends)

lemma sends_run [sends]: "keeps (keeps_calls dryrun super) (call_tool t (Run p))" "keeps (keeps_calls dryrun super) (call_tool t (IsFile f))"
  by (rule sends_call, simp add: may_send_def)+

lemma sends_find_restore [sends]: "keeps (keeps_calls dryrun super) (find_restore t)"
  unfolding find_restore_def Let_def by (intro sends sends_frame)

lemma sends_settings [sends]:
  "keeps (keeps_calls dryrun super) (preflightHeader t)" "keeps (keeps_calls dryrun super) (target_connect t failure)"
  "keeps (keeps_calls dryrun super) (poolerBlock t)" "keeps (keeps_calls dryrun super) (syncCommitBlock t)"
  "keeps (keeps_calls dryrun super) (temporaryPrivilegeBlock t)" "keeps (keeps_calls dryrun super) (deferIndexesBlock t)"
  "keeps (keeps_calls dryrun super) (majorVersionBlock t)" "keeps (keeps_calls dryrun super) (restoreMajorBlock t)"
  unfolding preflightHeader_def target_connect_def poolerBlock_def syncCommitBlock_def temporaryPrivilegeBlock_def
    deferIndexesBlock_def majorVersionBlock_def restoreMajorBlock_def clone_help_def Let_def
  by (intro sends sends_frame; simp add: may_send_def)+

text \<open>The single remedies and the aggregates of the blocks, with what each needs of the superuser.\<close>

lemma singles_ok [simp]:
  "single_ok dryrun super (reown_role owner)" "single_ok dryrun super (db_properties user)"
  "single_ok dryrun super (all_databases_superuser s)"
  "(given \<Longrightarrow> super Target \<and> report = dryrun) \<Longrightarrow> single_ok dryrun super (reown_set_role given report owner)"
  "(given \<Longrightarrow> super Target \<and> report = dryrun) \<Longrightarrow> single_ok dryrun super (clone_database given report user)"
  "(given \<Longrightarrow> super Target \<and> report = dryrun) \<Longrightarrow> single_ok dryrun super (session_role given report user)"
  "(given \<Longrightarrow> super Source \<and> report = dryrun) \<Longrightarrow> single_ok dryrun super (replication_attr given report user)"
  unfolding single_ok_def reown_role_def db_properties_def all_databases_superuser_def probe_only_def reown_set_role_def
    clone_database_def session_role_def replication_attr_def super_of_def Let_def
  by auto

lemma aggregates_ok [simp]:
  "(given \<Longrightarrow> super Target \<and> report = dryrun) \<Longrightarrow> aggregate_ok dryrun super (clone_schemas given report user xs)"
  "(given \<Longrightarrow> super Target \<and> report = dryrun) \<Longrightarrow> aggregate_ok dryrun super (origin_grants given report)"
  "sql \<in> script_statements \<Longrightarrow> aggregate_ok dryrun super (table_audit t sql ok missing onProbe)"
  unfolding aggregate_ok_def clone_schemas_def origin_grants_def table_audit_def super_of_def
  by auto

lemma sends_resolve [sends]: "keeps (keeps_calls dryrun super) (resolve_tgt_user t)"
  unfolding resolve_tgt_user_def by (intro sends sends_frame) simp

lemma sends_with_user [sends]:
  "(\<And>user. keeps (keeps_calls dryrun super) (k user)) \<Longrightarrow> keeps (keeps_calls dryrun super) (with_tgt_user k)"
  unfolding with_tgt_user_def by (intro sends)

lemma sends_rights [sends]:
  assumes "given \<Longrightarrow> super Target \<and> report = dryrun"
  shows "keeps (keeps_calls dryrun super) (ownerAfterRestoreBlock t given report)"
    "keeps (keeps_calls dryrun super) (cloneRightsBlock t given dbprops report)"
    "keeps (keeps_calls dryrun super) (originGrantsBlock t given report)"
    "keeps (keeps_calls dryrun super) (srrBlock t given report)"
  unfolding ownerAfterRestoreBlock_def cloneRightsBlock_def clone_schema_rights_def originGrantsBlock_def srrBlock_def Let_def
  by (intro sends sends_frame; simp add: assms)+

lemma sends_attr [sends]:
  assumes "given \<Longrightarrow> super Source \<and> report = dryrun"
  shows "keeps (keeps_calls dryrun super) (replicationAttrBlock t given report)"
  unfolding replicationAttrBlock_def by (intro sends sends_frame; simp add: assms)

lemma sends_super_verify [sends]:
  "super s \<Longrightarrow> keeps (keeps_calls dryrun super) (superVerifyBlock t s report)"
  unfolding superVerifyBlock_def Let_def by (intro sends sends_frame; simp add: may_send_def)

lemma sends_audits [sends]:
  "keeps (keeps_calls dryrun super) (rlsAuditBlock t)" "keeps (keeps_calls dryrun super) (unloggedAuditBlock t)"
  "keeps (keeps_calls dryrun super) (riAuditBlock t)" "keeps (keeps_calls dryrun super) preflightWal2jsonNote"
  "keeps (keeps_calls dryrun super) (walLevelBlock t)" "keeps (keeps_calls dryrun super) (slotHeadroomBlock t)"
  "keeps (keeps_calls dryrun super) (walSenderTimeoutBlock t)"
  unfolding rlsAuditBlock_def unloggedAuditBlock_def riAuditBlock_def ri_table_def preflightWal2jsonNote_def
    walLevelBlock_def slotHeadroomBlock_def walSenderTimeoutBlock_def Let_def
  by (intro sends sends_frame; simp)+

lemma sends_names [sends]:
  "keeps (keeps_calls dryrun super) (extension_names t names)" "keeps (keeps_calls dryrun super) (valid_names t r)"
  unfolding extension_names_def valid_names_def by (intro sends sends_frame; simp)+

lemma sends_extension_target [sends]:
  "sql \<in> script_statements \<Longrightarrow> keeps (keeps_calls dryrun super) (extension_target t sql ok missing targetCheck selected)"
  unfolding extension_target_def by (intro sends sends_frame)

lemma sends_extension_block [sends]:
  "keeps (keeps_calls dryrun super) selection \<Longrightarrow> (\<And>x. keeps (keeps_calls dryrun super) (judge x)) \<Longrightarrow>
   keeps (keeps_calls dryrun super) (extension_block t selection selectionSide selectionCheck judge)"
  unfolding extension_block_def by (intro sends sends_frame)

lemma sends_db [sends]:
  "connectDatabaseSQL @ sql \<in> script_statements \<Longrightarrow> keeps (keeps_calls dryrun super) (checkv_db t sql xs database)"
  unfolding checkv_db_def by (rule sends_call) (simp add: may_send_def)

lemma sends_collect [sends]: "keeps (keeps_calls dryrun super) (collect_databases t ds acc)"
proof (induction ds arbitrary: acc)
  case Nil
  show ?case by (simp add: sends_frame)
next
  case (Cons d ds)
  have "keeps (keeps_calls dryrun super) (collect_database t d acc)" for acc
    unfolding collect_database_def by (intro sends sends_frame) simp
  then show ?case using Cons.IH by (simp add: sends_frame)
qed

lemma sends_extensions [sends]: "keeps (keeps_calls dryrun super) (extensionPreflightBlock t dropped allDatabases ownership)"
  unfolding extensionPreflightBlock_def extension_all_databases_def extension_ownership_def extension_availability_def
    collect_extensions_def list_database_rows_def
  by (intro sends sends_frame; simp)

lemma sends_all_databases [sends]: "keeps (keeps_calls dryrun super) (allDatabasesPreflightBlock t)"
  unfolding allDatabasesPreflightBlock_def list_databases_def Let_def by (intro sends sends_frame; simp)

text \<open>What a block says of the Migration.\<close>

fun block_ok :: "bool \<Rightarrow> (side \<Rightarrow> bool) \<Rightarrow> preflight_block \<Rightarrow> bool" where
  "block_ok dryrun super (SuperVerifyBlock s report) = super s"
| "block_ok dryrun super (OwnerAfterRestoreBlock given report) = (given \<longrightarrow> super Target \<and> report = dryrun)"
| "block_ok dryrun super (CloneRightsBlock given dbProperties report) = (given \<longrightarrow> super Target \<and> report = dryrun)"
| "block_ok dryrun super (ReplicationAttrBlock given report) = (given \<longrightarrow> super Source \<and> report = dryrun)"
| "block_ok dryrun super (OriginGrantsBlock given report) = (given \<longrightarrow> super Target \<and> report = dryrun)"
| "block_ok dryrun super (SrrBlock given report) = (given \<longrightarrow> super Target \<and> report = dryrun)"
| "block_ok dryrun super b = True"

lemma sends_block: "block_ok dryrun super b \<Longrightarrow> keeps (keeps_calls dryrun super) (run_block t b)"
  by (cases b) (auto intro: sends)

definition superuser_given :: "migration \<Rightarrow> side \<Rightarrow> bool" where
  "superuser_given m s \<longleftrightarrow> (case s of Source \<Rightarrow> pc_superuser_secret_ref (source (spec m)) \<noteq> None
     | Target \<Rightarrow> pc_superuser_secret_ref (target (spec m)) \<noteq> None)"

lemma blocks_ok: "b \<in> set (preflightScriptFor m) \<Longrightarrow> block_ok (dryRun (spec m)) (superuser_given m) b"
  by (auto simp: preflightScriptFor_def preflightPrelude_def superuser_given_def Let_def split: if_splits)

lemma preflight_in_order: "in_order (dryRun (spec m)) (superuser_given m) (snd (run_preflight t m))"
proof -
  have "keeps (keeps_calls (dryRun (spec m)) (superuser_given m)) (each (run_block t) (preflightScriptFor m))"
    by (intro sends_frame sends_block blocks_ok)
  then show ?thesis
    by (simp add: keeps_def keeps_calls_def in_order_def run_preflight_def script_start_def disciplined_nil announced_def)
qed

end
