(* ===== verification/Script_Rules.thy ===== *)
theory Script_Rules
  imports Script_Shell
begin

text \<open>
  Rules for the scripts. \<open>line_frame\<close> is the locale of the relations that a call and a printed line
  respect, \<open>script_frame\<close> that of the relations the failure accounts of the preflight respect too; what a
  whole script respects follows step by step. \<open>grows\<close> is one: the history, the output and the fail flag
  only grow. \<open>ensures\<close> states what the calls of a step that passes show, and its rules go through a
  script branch by branch.
\<close>

locale line_frame = frame R for R :: "script_state \<Rightarrow> script_state \<Rightarrow> bool" +
  assumes R_call: "R s (s\<lparr>st_calls := st_calls s @ [(c, r)]\<rparr>)"
    and R_say: "R s (s\<lparr>st_out := st_out s @ [x]\<rparr>)"
begin

lemma call [keeps_intros]: "keeps R (call_tool t c)"
  by (simp add: keeps_def call_tool_def Let_def R_call)

lemma checks [keeps_intros]: "keeps R (check t d sql)" "keeps R (checkv t d sql xs)"
  unfolding check_def checkv_def by (rule call)+

lemma from_state [keeps_intros]: "(\<And>s. keeps R (k s)) \<Longrightarrow> keeps R (from_state k)"
  by (simp add: keeps_def from_state_def)

lemma both [keeps_intros]: "keeps R f \<Longrightarrow> keeps R g \<Longrightarrow> keeps R (both f g)"
  unfolding both_def by (rule keeps_bnd)

lemma upd: "(\<And>s. R s (f s)) \<Longrightarrow> keeps R (upd f)"
  by (simp add: keeps_def upd_def)

lemma lines [keeps_intros]: "keeps R (say x)" "keeps R nothing" "keeps R exit1"
  unfolding say_def nothing_def exit1_def by (intro upd R_say keeps_ret keeps_raise)+

lemma on [keeps_intros]: "keeps R f \<Longrightarrow> keeps R (on b f)"
  by (simp add: on_def lines)

end

locale script_frame = line_frame +
  assumes R_fail: "R s (s\<lparr>st_fails := st_fails s @ x @ [newline], st_fail := True\<rparr>)"
    and R_audit: "R s (s\<lparr>st_audit := st_audit s @ x @ [newline], st_fail := True\<rparr>)"
    and R_hint: "R s (s\<lparr>st_hints := x\<rparr>)"
    and R_databases: "R s (s\<lparr>st_databases := x\<rparr>)"
    and R_tgt_user: "R s (s\<lparr>st_tgt_user := x\<rparr>)"
begin

lemma accounts [keeps_intros]:
  "keeps R (fail_note x)" "keeps R (audit_note x)" "keeps R (add_hint x)"
  "keeps R (upd (\<lambda>s. s\<lparr>st_tgt_user := x\<rparr>))" "keeps R (upd (\<lambda>s. s\<lparr>st_databases := x\<rparr>))"
  unfolding fail_note_def audit_note_def add_hint_def
  by (intro both lines upd R_fail R_audit R_hint R_databases R_tgt_user)+

lemma verdicts [keeps_intros]: "keeps R print_verdict" "keeps R stop_on_failure" "keeps R footer"
  unfolding print_verdict_def stop_on_failure_def footer_def by (intro keeps_intros)+

lemma recheck [keeps_intros]: "keeps R (remRecheck t c stmt)"
  unfolding remRecheck_def by (intro keeps_intros)

lemma missing [keeps_intros]: "keeps R (rem_missing t c)"
  unfolding rem_missing_def Let_def by (intro keeps_intros)

lemma echo [keeps_intros]: "keeps R (remAggEcho pre trm agg)"
  unfolding remAggEcho_def by (intro keeps_intros)

lemma remedies [keeps_intros]: "keeps R (remSingleBlock t c)" "keeps R (remAggBlock t a)"
  unfolding remSingleBlock_def remAggBlock_def Let_def by (intro keeps_intros)+

end

section \<open>Accounts only grow\<close>

definition grows :: "script_state \<Rightarrow> script_state \<Rightarrow> bool" where
  "grows s s' \<longleftrightarrow> (\<exists>cs. st_calls s' = st_calls s @ cs) \<and> (\<exists>ls. st_out s' = st_out s @ ls) \<and> (st_fail s \<longrightarrow> st_fail s')"

interpretation gr: script_frame grows
  by unfold_locales (auto simp: grows_def)

definition same_flag :: "script_state \<Rightarrow> script_state \<Rightarrow> bool" where
  "same_flag s s' \<longleftrightarrow> st_fail s' = st_fail s"

interpretation sf: line_frame same_flag
  by unfold_locales (auto simp: same_flag_def)

type_synonym call_set = "(tool_call \<times> tool_reply) set"

definition answered :: "call_set \<Rightarrow> tool_call \<Rightarrow> (tool_reply \<Rightarrow> bool) \<Rightarrow> bool" where
  "answered C c P \<longleftrightarrow> (\<exists>r. (c, r) \<in> C \<and> P r)"

definition says :: "string \<Rightarrow> tool_reply \<Rightarrow> bool" where
  "says x r \<longleftrightarrow> succeeded r \<and> captured r = x"

section \<open>What a passing step establishes\<close>

definition ensures :: "'a step_of \<Rightarrow> ('a \<Rightarrow> call_set \<Rightarrow> bool) \<Rightarrow> bool" where
  "ensures f Q \<longleftrightarrow> (\<forall>s x s'. f s = (Inr x, s') \<longrightarrow> \<not> st_fail s' \<longrightarrow> Q x (set (st_calls s')))"

definition lasting :: "(call_set \<Rightarrow> bool) \<Rightarrow> bool" where
  "lasting P \<longleftrightarrow> (\<forall>C C'. P C \<longrightarrow> C \<subseteq> C' \<longrightarrow> P C')"

named_theorems sure

lemma ensures_weaken: "ensures f P \<Longrightarrow> (\<And>x C. P x C \<Longrightarrow> Q x C) \<Longrightarrow> ensures f Q"
  by (auto simp: ensures_def)

lemma ensures_ret: "(\<And>C. Q x C) \<Longrightarrow> ensures (ret x) Q"
  by (simp add: ensures_def ret_def)

lemma ensures_say: "(\<And>C. Q () C) \<Longrightarrow> ensures (say l) Q" "(\<And>C. Q () C) \<Longrightarrow> ensures nothing Q"
  by (auto simp: ensures_def say_def upd_def nothing_def ret_def)

lemma ensures_fail [sure]: "ensures (fail_note l) Q" "ensures (audit_note l) Q" "ensures exit1 P"
  by (auto simp: ensures_def fail_note_def audit_note_def exit1_def raise_def both_def bnd_def say_def upd_def)

lemma ensures_if [sure]:
  "(b \<Longrightarrow> ensures f Q) \<Longrightarrow> (\<not> b \<Longrightarrow> ensures g Q) \<Longrightarrow> ensures (if b then f else g) Q"
  by simp

lemma ensures_case_option [sure]:
  "(x = None \<Longrightarrow> ensures f Q) \<Longrightarrow> (\<And>y. x = Some y \<Longrightarrow> ensures (g y) Q) \<Longrightarrow>
   ensures (case x of None \<Rightarrow> f | Some y \<Rightarrow> g y) Q"
  by (cases x) simp_all

lemma ensures_from_state [sure]: "(\<And>s. ensures (k s) Q) \<Longrightarrow> ensures (from_state k) Q"
  by (simp add: ensures_def from_state_def)

text \<open>A failure stays, and so do the calls: what held half way still holds at the end.\<close>

lemma ensures_bnd:
  assumes f: "ensures f P" and k: "\<And>x. ensures (k x) (\<lambda>y C. P x C \<longrightarrow> Q y C)"
    and grow: "\<And>x. keeps grows (k x)" and lasting: "\<And>x. lasting (P x)"
  shows "ensures (bnd f k) Q"
  unfolding ensures_def
proof (intro allI impI)
  fix s y s'
  assume run: "bnd f k s = (Inr y, s')" and ok: "\<not> st_fail s'"
  from run obtain x u where fs: "f s = (Inr x, u)" and ku: "k x u = (Inr y, s')"
    by (auto simp: bnd_def split: prod.splits sum.splits)
  have gr: "grows u s'"
    using keepsD [OF grow ku] .
  with ok have "\<not> st_fail u" and sub: "set (st_calls u) \<subseteq> set (st_calls s')"
    by (auto simp: grows_def)
  with f fs have "P x (set (st_calls u))"
    unfolding ensures_def by blast
  with sub lasting have "P x (set (st_calls s'))"
    unfolding lasting_def by blast
  with k ku ok show "Q y (set (st_calls s'))"
    unfolding ensures_def by blast
qed

lemma lastingD: "lasting P \<Longrightarrow> P C \<Longrightarrow> C \<subseteq> C' \<Longrightarrow> P C'"
  unfolding lasting_def by blast

lemma lasting_facts [simp]: "lasting (\<lambda>C. answered C c P)" "lasting (\<lambda>C. b)" "lasting (\<lambda>C. p \<in> C)"
  by (auto simp: lasting_def answered_def)

lemma lasting_and: "lasting P \<Longrightarrow> lasting Q \<Longrightarrow> lasting (\<lambda>C. P C \<and> Q C)"
  by (auto simp: lasting_def)

lemma lasting_or: "lasting P \<Longrightarrow> lasting Q \<Longrightarrow> lasting (\<lambda>C. P C \<or> Q C)"
  by (auto simp: lasting_def)

lemma lasting_ex: "(\<And>x. lasting (P x)) \<Longrightarrow> lasting (\<lambda>C. \<exists>x. P x C)"
  unfolding lasting_def by blast

lemma lasting_all: "(\<And>x. lasting (P x)) \<Longrightarrow> lasting (\<lambda>C. \<forall>x. P x C)"
  unfolding lasting_def by blast

lemma ensures_call:
  assumes "\<And>r. ensures (k r) (\<lambda>x C. (c, r) \<in> C \<longrightarrow> Q x C)" and "\<And>r. keeps grows (k r)"
  shows "ensures (bnd (call_tool t c) k) Q"
proof (rule ensures_bnd [where P = "\<lambda>r C. (c, r) \<in> C"])
  show "ensures (call_tool t c) (\<lambda>r C. (c, r) \<in> C)"
    by (auto simp: ensures_def call_tool_def Let_def)
qed (simp_all add: assms)

lemma ensures_both:
  assumes "ensures f (\<lambda>_. P)" and "ensures g (\<lambda>_. Q)" and "keeps grows g" and "lasting P"
  shows "ensures (both f g) (\<lambda>_ C. P C \<and> Q C)"
  unfolding both_def
  by (rule ensures_bnd [where P = "\<lambda>_. P"]) (use assms in \<open>auto elim: ensures_weaken\<close>)

lemma ensures_second:
  assumes "ensures g Q" and "keeps grows g"
  shows "ensures (both f g) Q"
  unfolding both_def
  by (rule ensures_bnd [where P = "\<lambda>_ _. True"]) (use assms in \<open>auto simp: ensures_def\<close>)

lemma ensures_skip:
  assumes "\<And>x. ensures (k x) Q" and "\<And>x. keeps grows (k x)"
  shows "ensures (bnd f k) Q"
  by (rule ensures_bnd [where P = "\<lambda>_ _. True"]) (use assms in \<open>auto simp: ensures_def\<close>)

lemma ensures_first:
  assumes "ensures f (\<lambda>_. P)" and "keeps grows g" and "lasting P"
  shows "ensures (both f g) (\<lambda>_. P)"
  unfolding both_def
  by (rule ensures_bnd [where P = "\<lambda>_. P"]) (use assms in \<open>auto simp: ensures_def\<close>)

lemma ensures_implies: "ensures f Q \<Longrightarrow> ensures f (\<lambda>x C. P x C \<longrightarrow> Q x C)"
  by (erule ensures_weaken) simp

lemma ensures_failed: "keeps grows g \<Longrightarrow> ensures (both (fail_note l) g) Q"
proof -
  assume g: "keeps grows g"
  have "ensures (both (fail_note l) g) (\<lambda>_ C. False)"
    unfolding both_def
    by (rule ensures_bnd [where P = "\<lambda>_ _. False"]) (use g ensures_fail in \<open>auto simp: ensures_def lasting_def\<close>)
  then show ?thesis by (rule ensures_weaken) simp
qed

lemma ensures_each:
  assumes "\<And>x. x \<in> set xs \<Longrightarrow> ensures (f x) (\<lambda>_. P x)" and "\<And>x. keeps grows (f x)" and "\<And>x. lasting (P x)"
  shows "ensures (each f xs) (\<lambda>_ C. \<forall>x\<in>set xs. P x C)"
  using assms(1)
proof (induction xs)
  case Nil
  then show ?case by (simp add: ensures_ret)
next
  case (Cons x xs)
  have "ensures (both (f x) (each f xs)) (\<lambda>_ C. P x C \<and> (\<forall>y\<in>set xs. P y C))"
    using Cons assms(2,3) by (intro ensures_both gr.keeps_each) auto
  then show ?case
    by (simp add: both_def)
qed

end
