(* ===== verification/Preflight_Frame.thy ===== *)
theory Preflight_Frame
  imports Preflight_Script Script_Rules
begin

text \<open>
  Every block of the preflight script respects the relations of \<open>script_frame\<close>. One of them is
  that the fail flag says whether a failure is recorded.
\<close>

context script_frame begin

lemma checks_db [keeps_intros]: "keeps R (checkv_db t sql xs database)"
  unfolding checkv_db_def by (rule call)

lemma with_user [keeps_intros]: "(\<And>user. keeps R (k user)) \<Longrightarrow> keeps R (with_tgt_user k)"
  unfolding with_tgt_user_def by (intro keeps_intros)

lemma retry [keeps_intros]: "keeps R (connect_retry t d what failure left perm)"
proof (induction left arbitrary: perm)
  case 0
  show ?case by (subst connect_retry.simps) (auto simp: Let_def intro!: keeps_intros)
next
  case (Suc left)
  show ?case by (subst connect_retry.simps) (auto simp: Let_def intro!: keeps_intros Suc.IH)
qed

lemma restore [keeps_intros]: "keeps R (find_restore t)"
  unfolding find_restore_def Let_def by (intro keeps_intros)

lemma names [keeps_intros]: "keeps R (extension_names t names)" "keeps R (valid_names t r)"
  unfolding extension_names_def valid_names_def by (intro keeps_intros)+

lemma extension_steps [keeps_intros]:
  "keeps R (extension_target t sql ok missing targetCheck selected)"
  "keeps R selection \<Longrightarrow> (\<And>x. keeps R (judge x)) \<Longrightarrow> keeps R (extension_block t selection selectionSide selectionCheck judge)"
  unfolding extension_target_def extension_block_def by (intro keeps_intros)+

lemma collect [keeps_intros]: "keeps R (collect_database t d acc)" "keeps R (collect_databases t ds acc)"
proof -
  show one: "keeps R (collect_database t d acc)" for d acc
    unfolding collect_database_def by (intro keeps_intros)
  show "keeps R (collect_databases t ds acc)"
    by (induction ds arbitrary: acc) (auto intro!: keeps_intros one)
qed

lemma resolve [keeps_intros]: "keeps R (resolve_tgt_user t)"
  unfolding resolve_tgt_user_def by (intro keeps_intros)

lemma pooler [keeps_intros]: "keeps R (pooler_check t s)"
  unfolding pooler_check_def Let_def by (intro keeps_intros)

lemma settings [keeps_intros]:
  "keeps R (preflightHeader t)" "keeps R (target_connect t failure)" "keeps R (poolerBlock t)" "keeps R (syncCommitBlock t)"
  "keeps R (temporaryPrivilegeBlock t)" "keeps R (deferIndexesBlock t)" "keeps R (majorVersionBlock t)"
  "keeps R (restoreMajorBlock t)" "keeps R (superVerifyBlock t s report)"
  unfolding preflightHeader_def target_connect_def poolerBlock_def syncCommitBlock_def temporaryPrivilegeBlock_def
    deferIndexesBlock_def majorVersionBlock_def restoreMajorBlock_def superVerifyBlock_def Let_def
  by (intro keeps_intros)+

lemma rights [keeps_intros]:
  "keeps R (ownerAfterRestoreBlock t given report)" "keeps R (clone_schema_rights t given report)"
  "keeps R (cloneRightsBlock t given dbprops report)" "keeps R (replicationAttrBlock t given report)"
  "keeps R (originGrantsBlock t given report)" "keeps R (srrBlock t given report)"
  unfolding ownerAfterRestoreBlock_def clone_schema_rights_def cloneRightsBlock_def replicationAttrBlock_def
    originGrantsBlock_def srrBlock_def Let_def
  by (intro keeps_intros)+

lemma audits [keeps_intros]:
  "keeps R (rlsAuditBlock t)" "keeps R (unloggedAuditBlock t)" "keeps R (riAuditBlock t)" "keeps R preflightWal2jsonNote"
  "keeps R (walLevelBlock t)" "keeps R (slotHeadroomBlock t)" "keeps R (walSenderTimeoutBlock t)"
  unfolding rlsAuditBlock_def unloggedAuditBlock_def riAuditBlock_def ri_table_def preflightWal2jsonNote_def
    walLevelBlock_def slotHeadroomBlock_def walSenderTimeoutBlock_def Let_def
  by (intro keeps_intros)+

lemma collects [keeps_intros]: "keeps R (list_database_rows t ds)" "keeps R (collect_extensions t)"
  unfolding list_database_rows_def collect_extensions_def by (intro keeps_intros)+

lemma databases [keeps_intros]:
  "keeps R (extension_availability t dropped)" "keeps R (extension_ownership t dropped)" "keeps R (extension_all_databases t)"
  "keeps R (extensionPreflightBlock t dropped allDatabases ownership)" "keeps R (list_databases t)"
  "keeps R (allDatabasesPreflightBlock t)"
  unfolding extensionPreflightBlock_def extension_all_databases_def extension_ownership_def extension_availability_def
    allDatabasesPreflightBlock_def list_databases_def Let_def
  by (intro keeps_intros)+

lemma block [keeps_intros]: "keeps R (run_block t b)"
  by (cases b) (auto intro: keeps_intros)

lemma script [keeps_intros]: "keeps R (each (run_block t) bs)"
  by (intro keeps_intros)

end

section \<open>The fail flag\<close>

definition flag_true :: "script_state \<Rightarrow> bool" where
  "flag_true s \<longleftrightarrow> (st_fail s \<longleftrightarrow> st_fails s \<noteq> [] \<or> st_audit s \<noteq> [])"

definition keeps_flag :: "script_state \<Rightarrow> script_state \<Rightarrow> bool" where
  "keeps_flag s s' \<longleftrightarrow> (flag_true s \<longrightarrow> flag_true s')"

interpretation fl: script_frame keeps_flag
  by unfold_locales (auto simp: keeps_flag_def flag_true_def)

lemma preflight_flag: "flag_true (snd (run_preflight t m))"
  using fl.script [of t "preflightScriptFor m"]
  by (auto simp: keeps_def keeps_flag_def run_preflight_def flag_true_def script_start_def dest: spec [of _ script_start])

end
