(* ===== verification/Preflight_Evidence.thy ===== *)
theory Preflight_Evidence
  imports Preflight_Frame
begin

text \<open>
  What a preflight that succeeds has seen. \<open>block_evidence\<close> states for each block the answers that
  let it pass, over the calls the script made; a script that ends without an exit has made, for
  every block it consists of, the calls with these answers. Three blocks only warn and need no
  answer (\<open>block_evidence\<close> is \<open>True\<close>): the TEMPORARY privilege, \<^verbatim>\<open>wal_sender_timeout\<close> and the note on wal2json.
  Of the others, a query that failed counts as an answer in one place, the replica identity audit
  (\<open>failed_replica_audit\<close>). Also here: when the connectivity check gives up (\<open>retry_replies\<close>).
\<close>

section \<open>Connectivity and settings\<close>

definition connected :: "db \<Rightarrow> call_set \<Rightarrow> bool" where
  "connected d C \<longleftrightarrow> answered C (Query d selectOneSQL []) succeeded"

lemma lasting_connected [simp]: "lasting (connected d)"
  unfolding connected_def by simp

lemma sure_retry [sure]: "ensures (connect_retry t d what failure left perm) (\<lambda>_. connected d)"
proof (induction left arbitrary: perm)
  case 0
  show ?case
    by (subst connect_retry.simps, unfold check_def, rule ensures_call)
      (auto simp: Let_def connected_def answered_def intro!: ensures_if ensures_say ensures_second sure keeps_intros
        split: nat.splits)
next
  case (Suc left)
  show ?case
    by (subst connect_retry.simps, unfold check_def, rule ensures_call)
      (auto simp: Let_def connected_def answered_def intro!: ensures_if ensures_say ensures_second sure keeps_intros
        intro: ensures_weaken [OF Suc.IH])
qed

definition unpooled :: "tool_reply \<Rightarrow> bool" where
  "unpooled r \<longleftrightarrow> succeeded r \<and> is_number (last (split_on newline (captured r))) \<and>
     subst_out (join (concat (map (\<lambda>l. option_list (cut_prefix l ''Backend PID|'')) (split_on newline (captured r)))) [newline])
       = last (split_on newline (captured r))"

lemma sure_pooler [sure]: "ensures (pooler_check t s) (\<lambda>_ C. answered C (ConnInfo (Primary s)) unpooled)"
  unfolding pooler_check_def Let_def
  by (rule ensures_call) (auto simp: answered_def unpooled_def intro!: ensures_if ensures_say sure keeps_intros)

definition version_pair :: "string \<Rightarrow> string \<Rightarrow> call_set \<Rightarrow> bool" where
  "version_pair v w C \<longleftrightarrow> answered C (Query src_db majorVersionSQL []) (\<lambda>r. captured r = v) \<and>
     answered C (Query tgt_db majorVersionSQL []) (\<lambda>r. captured r = w)"

lemma sure_sync [sure]: "ensures (syncCommitBlock t) (\<lambda>_ C. answered C (Query tgt_db syncCommitSQL []) (says ''local''))"
  unfolding syncCommitBlock_def check_def Let_def
  by (rule ensures_call) (auto simp: answered_def says_def captured_or_empty_def intro!: ensures_say sure keeps_intros)

lemma sure_defer [sure]: "ensures (deferIndexesBlock t) (\<lambda>_ C. answered C clone_help lists_defer_indexes)"
  unfolding deferIndexesBlock_def
  by (rule ensures_call) (auto simp: answered_def intro!: ensures_say sure keeps_intros)

lemma sure_major [sure]: "ensures (majorVersionBlock t) (\<lambda>_ C. \<exists>v. v \<noteq> [] \<and> version_pair v v C)"
  unfolding majorVersionBlock_def check_def Let_def
  by (rule ensures_call, rule ensures_call)
    (auto simp: answered_def version_pair_def intro!: ensures_if ensures_say sure keeps_intros)

definition restores_into :: "call_set \<Rightarrow> bool" where
  "restores_into C \<longleftrightarrow> (\<exists>bin v w. v \<noteq> [] \<and> answered C (Run [bin, ''--version'']) (\<lambda>r. succeeded r \<and> restore_major (captured r) = v) \<and>
     is_number w \<and> answered C (Query tgt_db majorVersionSQL []) (says w) \<and> \<not> (17 \<le> number v \<and> number w < 17))"

lemma ensures_gate: "ensures (both (fail_note m) footer) Q"
proof -
  have "\<not> (fst (both (fail_note m) footer s) = Inr ())" for s
    by (simp add: both_def bnd_def fail_note_def say_def upd_def footer_def print_verdict_def from_state_def exit1_def raise_def)
  then show ?thesis
    by (auto simp: ensures_def) (metis fst_conv)
qed

lemma restore_major_nil [simp]: "restore_major [] = []"
  by (simp add: restore_major_def cut_prefix_def)

lemma sure_restore [sure]: "ensures (restoreMajorBlock t) (\<lambda>_. restores_into)"
proof -
  have judged: "ensures (bnd (check t tgt_db majorVersionSQL) (\<lambda>r.
       let major = restore_major ver; target = (let v = captured_or_empty r in if is_number v then v else []);
           gate = (\<lambda>msg. both (fail_note msg) footer)
       in if major = [] then gate m1 else if target = [] then gate m2
          else if 17 \<le> number major \<and> number target < 17 then gate (m3 major target) else say (m4 major target)))
     (\<lambda>_ C. \<exists>w. restore_major ver \<noteq> [] \<and> is_number w \<and> answered C (Query tgt_db majorVersionSQL []) (says w) \<and>
        \<not> (17 \<le> number (restore_major ver) \<and> number w < 17))" for ver m1 m2 m3 m4
    unfolding check_def Let_def
    by (rule ensures_call)
      (auto simp: answered_def says_def captured_or_empty_def is_number_def
         intro!: ensures_if ensures_gate ensures_say keeps_intros)
  define P where "P = (\<lambda>bin ver C. restore_major ver \<noteq> [] \<longrightarrow>
     answered C (Run [bin, ''--version'']) (\<lambda>r. succeeded r \<and> captured r = ver))"
  have version: "ensures (if bin = [] then ret [] else bnd (call_tool t (Run [bin, ''--version'']))
      (\<lambda>r. ret (captured_or_empty r))) (P bin)" for bin
    by (rule ensures_if, rule ensures_ret, simp add: P_def, rule ensures_call)
      (auto simp: P_def answered_def captured_or_empty_def intro!: ensures_ret keeps_intros)
  show ?thesis
    unfolding restoreMajorBlock_def
  proof (rule ensures_skip, rule ensures_bnd [OF version], rule ensures_weaken [OF judged])
    fix bin ver C
    assume "\<exists>w. restore_major ver \<noteq> [] \<and> is_number w \<and> answered C (Query tgt_db majorVersionSQL []) (says w) \<and>
        \<not> (17 \<le> number (restore_major ver) \<and> number w < 17)"
    then show "P bin ver C \<longrightarrow> restores_into C"
      by (auto simp: P_def restores_into_def answered_def)
  qed (auto simp: P_def answered_def lasting_def Let_def intro!: keeps_intros)
qed

section \<open>Rights\<close>

text \<open>
  A right is held when its probe answers so. A preflight that only reports, and could repair the
  right as a superuser, passes without it: then the statement that would give the right was composed.
\<close>

definition right_held :: "bool \<Rightarrow> bool \<Rightarrow> (tool_reply \<Rightarrow> bool) \<Rightarrow> tool_call \<Rightarrow> tool_call \<Rightarrow> call_set \<Rightarrow> bool" where
  "right_held super dryrun good probe compose C \<longleftrightarrow>
     answered C probe good \<or> super \<and> dryrun \<and> answered C compose succeeded"

definition single_good :: "bool \<Rightarrow> tool_reply \<Rightarrow> bool" where
  "single_good cmd r \<longleftrightarrow> (if cmd then succeeded r else says ''1'' r)"

definition single_evidence :: "rem_single \<Rightarrow> call_set \<Rightarrow> bool" where
  "single_evidence c C \<longleftrightarrow> answered C (rm_probe c) (single_good (rm_cmd c)) \<or>
     rm_super c \<noteq> None \<and> rm_report c \<and> (\<exists>q. rm_compose c = Some q \<and> answered C q succeeded)"

lemma sure_recheck: "ensures (remRecheck t c stmt) (\<lambda>_. single_evidence c)"
  unfolding remRecheck_def
  by (rule ensures_call)
    (auto simp: single_evidence_def answered_def single_good_def says_def intro!: ensures_if ensures_say sure keeps_intros)

lemma sure_missing: "ensures (rem_missing t c) (\<lambda>_. single_evidence c)"
proof (cases "rm_compose c")
  case None
  then show ?thesis by (simp add: rem_missing_def ensures_fail)
next
  case (Some q)
  have "ensures (bnd (call_tool t (Query (Superuser d) x [])) (\<lambda>a. if succeeded a
      then both (say (rm_prefix c @ x)) (remRecheck t c x) else fail_note (rm_apply c x))) (\<lambda>_. single_evidence c)" for d x
    by (rule ensures_skip) (auto intro!: ensures_if sure ensures_second sure_recheck keeps_intros)
  note applied = this
  show ?thesis
    unfolding rem_missing_def Some option.case Let_def check_def
  proof (rule ensures_call, rule ensures_if, rule sure, rule ensures_case_option, rule ensures_failed, intro keeps_intros,
      rule ensures_if, rule ensures_say, goal_cases)
    case (1 r d C)
    then show ?case by (auto simp: single_evidence_def Some answered_def)
  next
    case (2 r d)
    show ?case by (rule ensures_implies [OF applied])
  qed (intro keeps_intros)
qed

lemma sure_single: "ensures (remSingleBlock t c) (\<lambda>_. single_evidence c)"
  unfolding remSingleBlock_def
  by (rule ensures_call)
    (auto simp: single_evidence_def answered_def single_good_def says_def intro!: ensures_if ensures_say sure keeps_intros
       intro: ensures_weaken [OF sure_missing])

definition aggregate_evidence :: "rem_aggregate \<Rightarrow> call_set \<Rightarrow> bool" where
  "aggregate_evidence c C \<longleftrightarrow> answered C (ra_query c) (says []) \<or>
     ra_super c \<noteq> None \<and> ra_report c \<and> answered C (ra_query c) succeeded"

lemma ensures_echo: "(\<And>C. Q () C) \<Longrightarrow> ensures (remAggEcho pre trm agg) Q"
  unfolding ensures_def by auto

lemma sure_aggregate: "ensures (remAggBlock t c) (\<lambda>_. aggregate_evidence c)"
proof -
  have again: "ensures (bnd (call_tool t (ra_query c)) (\<lambda>r. if \<not> succeeded r then fail_note (ra_onProbe c)
      else if captured r \<noteq> [] then fail_note (ra_still c (captured r)) else say (''ok: '' @ ra_ok c))) (\<lambda>_. aggregate_evidence c)"
    by (rule ensures_call)
      (auto simp: aggregate_evidence_def answered_def says_def intro!: ensures_if ensures_say sure keeps_intros)
  have "ensures (bnd (call_tool t (Query (Superuser d) agg [])) (\<lambda>a. if \<not> succeeded a then fail_note (ra_apply c agg)
      else both (remAggEcho (ra_prefix c) (ra_term c) agg) (bnd (call_tool t (ra_query c)) (\<lambda>r.
        if \<not> succeeded r then fail_note (ra_onProbe c)
        else if captured r \<noteq> [] then fail_note (ra_still c (captured r)) else say (''ok: '' @ ra_ok c)))))
      (\<lambda>_. aggregate_evidence c)" for d agg
    by (rule ensures_skip) (auto intro!: ensures_if sure ensures_second again keeps_intros)
  note applied = this
  show ?thesis
    unfolding remAggBlock_def Let_def check_def
  proof (rule ensures_call, rule ensures_if, rule sure, rule ensures_if, rule ensures_say, goal_cases)
    case (1 r C)
    then show ?case by (auto simp: aggregate_evidence_def answered_def says_def)
  next
    case (2 r)
    show ?case
    proof (rule ensures_case_option, rule ensures_failed, intro keeps_intros, rule ensures_if, rule ensures_echo, goal_cases)
      case (1 d C)
      with 2 show ?case by (auto simp: aggregate_evidence_def answered_def)
    next
      case (2 d)
      show ?case by (rule ensures_implies [OF applied])
    qed
  qed (intro keeps_intros)
qed

lemma lasting_answers [simp]:
  "lasting (right_held super dryrun good probe compose)" "lasting (single_evidence c)" "lasting (aggregate_evidence a)"
  "lasting (version_pair v w)" "lasting restores_into"
  unfolding right_held_def single_evidence_def aggregate_evidence_def version_pair_def restores_into_def
  by (auto simp: lasting_def answered_def) blast+

lemma sure_with_user: "(\<And>user. ensures (k user) Q) \<Longrightarrow> ensures (with_tgt_user k) Q"
  unfolding with_tgt_user_def by (rule ensures_from_state)

definition schemas_open :: "tools \<Rightarrow> bool \<Rightarrow> bool \<Rightarrow> call_set \<Rightarrow> bool" where
  "schemas_open t super dryrun C \<longleftrightarrow> answered C (Query src_db cloneSchemasSQL []) (\<lambda>r. succeeded r \<and>
     (let names = restored_schemas t (captured r); q = Query tgt_db cloneSchemaGrantsSQL [(''list'', schema_lines names)]
      in names = [] \<or> right_held super dryrun (says []) q q C))"

fun may_lack_identity :: "tools \<Rightarrow> string \<Rightarrow> bool" where
  "may_lack_identity t tbl = (let allow = split_on newline (pod_var t ''PREFLIGHT_ALLOW_MISSING_RI'') in
     ''*'' \<in> set allow \<or> tbl \<in> set allow)"

text \<open>The named rights a block asks for.\<close>

definition database_open :: "bool \<Rightarrow> bool \<Rightarrow> call_set \<Rightarrow> bool" where
  "database_open super dryrun = right_held super dryrun (says ''1'') (Query tgt_db cloneDBCreateSQL []) (Query tgt_db cloneDBCreateGrantSQL [])"

definition owner_settable :: "tools \<Rightarrow> bool \<Rightarrow> bool \<Rightarrow> call_set \<Rightarrow> bool" where
  "owner_settable t super dryrun = (let owner = [(''list'', pod_var t ''PREFLIGHT_OWNER_AFTER_RESTORE'')] in
     right_held super dryrun succeeded (Query tgt_db reownSetRoleSQL owner) (Query tgt_db reownGrantSQL owner))"

definition table_audit_clear :: "tools \<Rightarrow> string \<Rightarrow> call_set \<Rightarrow> bool" where
  "table_audit_clear t sql C \<longleftrightarrow> answered C (Query src_db sql [(''list'', pod_var t ''PREFLIGHT_TABLE_SCOPE'')]) (says [])"

lemma single_held:
  "single_evidence c C \<Longrightarrow> rm_compose c = Some q \<Longrightarrow>
   right_held (rm_super c \<noteq> None) (rm_report c) (single_good (rm_cmd c)) (rm_probe c) q C"
  by (auto simp: single_evidence_def right_held_def)

lemma aggregate_held:
  "aggregate_evidence c C \<Longrightarrow> right_held (ra_super c \<noteq> None) (ra_report c) (says []) (ra_query c) (ra_query c) C"
  by (auto simp: aggregate_evidence_def right_held_def)

lemma good_kinds [simp]: "single_good True = succeeded" "single_good False = says ''1''"
  by (simp_all add: single_good_def fun_eq_iff)

lemma super_of_given [simp]: "(super_of s given \<noteq> None) = given" "(\<exists>y. super_of s given = Some y) = given"
  by (simp_all add: super_of_def)

lemma sure_owner: "ensures (ownerAfterRestoreBlock t super dryrun) (\<lambda>_ C.
    answered C (Query tgt_db reownRoleExistsSQL [(''list'', pod_var t ''PREFLIGHT_OWNER_AFTER_RESTORE'')]) (says ''1'') \<and>
    owner_settable t super dryrun C)"
proof -
  have "ensures (remSingleBlock t (reown_role owner)) (\<lambda>_ C. answered C (Query tgt_db reownRoleExistsSQL [(''list'', owner)]) (says ''1''))" for owner
    by (rule ensures_weaken [OF sure_single]) (simp add: single_evidence_def reown_role_def probe_only_def)
  moreover have "ensures (remSingleBlock t (reown_set_role super dryrun owner)) (\<lambda>_.
      right_held super dryrun succeeded (Query tgt_db reownSetRoleSQL [(''list'', owner)]) (Query tgt_db reownGrantSQL [(''list'', owner)]))" for owner
    by (rule ensures_weaken [OF sure_single], drule single_held) (auto simp: reown_set_role_def)
  ultimately show ?thesis
    unfolding ownerAfterRestoreBlock_def owner_settable_def Let_def
    by (intro ensures_both ensures_second keeps_intros) auto
qed

lemma sure_schemas: "ensures (clone_schema_rights t super dryrun) (\<lambda>_. schemas_open t super dryrun)"
proof -
  have "ensures (remAggBlock t (clone_schemas super dryrun user xs)) (\<lambda>_. right_held super dryrun (says [])
      (Query tgt_db cloneSchemaGrantsSQL [(''list'', xs)]) (Query tgt_db cloneSchemaGrantsSQL [(''list'', xs)]))" for user xs
    by (rule ensures_weaken [OF sure_aggregate], drule aggregate_held) (simp add: clone_schemas_def)
  note granted = this
  show ?thesis
    unfolding clone_schema_rights_def check_def
  proof (rule ensures_call, rule ensures_if, rule sure, rule ensures_if, rule ensures_say, goal_cases)
    case (1 r C)
    then show ?case by (auto simp: schemas_open_def answered_def Let_def)
  next
    case (2 r)
    then show ?case
      by (intro sure_with_user ensures_weaken [OF granted]) (auto simp: schemas_open_def answered_def Let_def)
  qed (intro keeps_intros)
qed

lemma sure_clone: "ensures (cloneRightsBlock t super dbProperties dryrun) (\<lambda>_ C. database_open super dryrun C \<and>
    schemas_open t super dryrun C \<and> (dbProperties \<longrightarrow> answered C (Query tgt_db dbPropertiesSQL []) (says ''1'')))"
proof -
  have "ensures (remSingleBlock t (clone_database super dryrun user)) (\<lambda>_. database_open super dryrun)" for user
    by (rule ensures_weaken [OF sure_single], drule single_held) (auto simp: clone_database_def database_open_def)
  moreover have "ensures (remSingleBlock t (db_properties user)) (\<lambda>_ C. answered C (Query tgt_db dbPropertiesSQL []) (says ''1''))" for user
    by (rule ensures_weaken [OF sure_single]) (simp add: single_evidence_def db_properties_def probe_only_def)
  moreover have "lasting (schemas_open t super dryrun)" "lasting (database_open super dryrun)"
    by (auto simp: lasting_def schemas_open_def database_open_def right_held_def answered_def Let_def)
  ultimately show ?thesis
    unfolding cloneRightsBlock_def on_def
    by (intro ensures_second [OF ensures_both [OF _ ensures_both]] sure_with_user sure_schemas keeps_intros ensures_if ensures_say)
      (auto elim: ensures_weaken intro!: sure_with_user)
qed

lemma sure_follow_rights:
  "ensures (replicationAttrBlock t super dryrun) (\<lambda>_. right_held super dryrun (says ''1'')
     (Query src_db replicationAttrSQL []) (Query src_db replicationAttrGrantSQL []))"
  "ensures (originGrantsBlock t super dryrun) (\<lambda>_. right_held super dryrun (says [])
     (Query tgt_db originGrantsSQL []) (Query tgt_db originGrantsSQL []))"
  "ensures (srrBlock t super dryrun) (\<lambda>_. right_held super dryrun succeeded
     (Query tgt_db srrProbeSQL []) (Query tgt_db srrGrantSQL []))"
proof -
  have "ensures (remSingleBlock t (replication_attr super dryrun user)) (\<lambda>_. right_held super dryrun (says ''1'')
     (Query src_db replicationAttrSQL []) (Query src_db replicationAttrGrantSQL []))" for user
    by (rule ensures_weaken [OF sure_single], drule single_held) (auto simp: replication_attr_def)
  then show "ensures (replicationAttrBlock t super dryrun) (\<lambda>_. right_held super dryrun (says ''1'')
     (Query src_db replicationAttrSQL []) (Query src_db replicationAttrGrantSQL []))"
    unfolding replicationAttrBlock_def by (intro ensures_skip ensures_second keeps_intros)
  show "ensures (originGrantsBlock t super dryrun) (\<lambda>_. right_held super dryrun (says [])
     (Query tgt_db originGrantsSQL []) (Query tgt_db originGrantsSQL []))"
    unfolding originGrantsBlock_def
    by (rule ensures_weaken [OF sure_aggregate], drule aggregate_held) (simp add: origin_grants_def)
  have "ensures (remSingleBlock t (session_role super dryrun user)) (\<lambda>_. right_held super dryrun succeeded
     (Query tgt_db srrProbeSQL []) (Query tgt_db srrGrantSQL []))" for user
    by (rule ensures_weaken [OF sure_single], drule single_held) (auto simp: session_role_def)
  then show "ensures (srrBlock t super dryrun) (\<lambda>_. right_held super dryrun succeeded
     (Query tgt_db srrProbeSQL []) (Query tgt_db srrGrantSQL []))"
    unfolding srrBlock_def by (intro ensures_second sure_with_user keeps_intros)
qed

section \<open>Audits and extensions\<close>

lemma sure_audits:
  "ensures (rlsAuditBlock t) (\<lambda>_. table_audit_clear t rlsAuditSQL)"
  "ensures (unloggedAuditBlock t) (\<lambda>_. table_audit_clear t unloggedAuditSQL)"
  unfolding rlsAuditBlock_def unloggedAuditBlock_def
  by (rule ensures_weaken [OF sure_aggregate], simp add: aggregate_evidence_def table_audit_def table_audit_clear_def)+

lemma sure_wal:
  "ensures (walLevelBlock t) (\<lambda>_ C. answered C (Query src_db walLevelSQL []) (\<lambda>r. captured r = ''logical''))"
  "ensures (slotHeadroomBlock t) (\<lambda>_ C. answered C (Query src_db slotHeadroomSQL []) (\<lambda>r. slots_left (captured r)))"
  unfolding walLevelBlock_def slotHeadroomBlock_def check_def Let_def
  by (rule ensures_call, auto simp: answered_def intro!: ensures_if ensures_say sure keeps_intros)+

text \<open>
  The audit does not look at the exit code of its query: with no output, because every table has an
  identity or because the query failed, it passes.
\<close>

lemma failed_replica_audit:
  assumes "answer t (st_calls s) (Query src_db riAuditSQL []) = r" and "\<not> succeeded r" and "rp_out r = []"
  shows "riAuditBlock t s = (Inr (), s\<lparr>st_calls := st_calls s @ [(Query src_db riAuditSQL [], r)],
    st_out := st_out s @ [''ok: replica identity audit'']\<rparr>)"
  using assms by (simp add: riAuditBlock_def check_def call_tool_def bnd_def captured_def subst_out_def trim_right_char_def say_def upd_def Let_def)

definition identities_usable :: "tools \<Rightarrow> call_set \<Rightarrow> bool" where
  "identities_usable t C \<longleftrightarrow> answered C (Query src_db riAuditSQL []) (\<lambda>r.
     captured r \<noteq> [] \<longrightarrow> (\<forall>tbl\<in>set (split_on newline (captured r)). may_lack_identity t tbl))"

lemma sure_ri: "ensures (riAuditBlock t) (\<lambda>_. identities_usable t)"
proof -
  have one: "ensures (ri_table t tbl) (\<lambda>_ C. may_lack_identity t tbl)" for tbl
    unfolding ri_table_def Let_def by (auto intro!: ensures_if ensures_say sure simp: Let_def)
  have "ensures (each (ri_table t) tbls) (\<lambda>_ C. \<forall>tbl\<in>set tbls. may_lack_identity t tbl)" for tbls
    by (rule ensures_each [OF one]) (simp_all only: lasting_facts ri_table_def Let_def, intro keeps_intros)
  note all = this
  show ?thesis
    unfolding riAuditBlock_def check_def
  proof (rule ensures_call, rule ensures_if, rule ensures_weaken [OF all], goal_cases)
    case (1 r x C)
    then show ?case by (auto simp: identities_usable_def answered_def)
  next
    case (2 r)
    then show ?case by (auto intro!: ensures_say simp: identities_usable_def answered_def)
  qed (auto simp: ri_table_def Let_def intro!: keeps_intros)
qed

text \<open>A value the target accepted as an array of strings, with its length.\<close>

definition names_valid :: "string \<Rightarrow> string \<Rightarrow> call_set \<Rightarrow> bool" where
  "names_valid names n C \<longleftrightarrow> names \<noteq> [] \<and> is_number n \<and>
     answered C (Query tgt_db extensionNamesValidSQL [(''list'', names)]) (says n)"

definition extensions_clear :: "tool_call \<Rightarrow> string \<Rightarrow> call_set \<Rightarrow> bool" where
  "extensions_clear selection sql C \<longleftrightarrow> answered C selection (\<lambda>r. succeeded r \<and>
     (\<exists>n. names_valid (captured r) n C) \<and>
     answered C (Query tgt_db sql [(''list'', captured r)]) (\<lambda>a. succeeded a \<and> names_valid (captured a) ''0'' C))"

lemma lasting_names [simp]: "lasting (names_valid names n)" "lasting (extensions_clear selection sql)"
  by (auto simp: lasting_def names_valid_def extensions_clear_def answered_def)

lemma sure_names: "ensures (extension_names t names) (\<lambda>shape C. case shape of None \<Rightarrow> True | Some n \<Rightarrow> names_valid names n C)"
  unfolding extension_names_def checkv_def
  by (rule ensures_if, rule ensures_ret, simp, rule ensures_call)
    (auto simp: names_valid_def answered_def says_def intro!: ensures_ret keeps_intros split: option.splits)

lemma sure_valid: "ensures (valid_names t r) (\<lambda>shape C. case shape of None \<Rightarrow> True
    | Some n \<Rightarrow> succeeded r \<and> names_valid (captured r) n C)"
  unfolding valid_names_def
  by (rule ensures_if, rule ensures_weaken [OF sure_names], simp split: option.splits, rule ensures_ret, simp)

lemma lasting_shape: "lasting (\<lambda>C. case shape of None \<Rightarrow> True | Some n \<Rightarrow> P n C)" if "\<And>n. lasting (P n)"
  using that by (cases shape) (simp_all add: lasting_def)

lemma sure_extension_target: "ensures (extension_target t sql ok missing targetCheck selected) (\<lambda>_ C.
    answered C (Query tgt_db sql [(''list'', selected)]) (\<lambda>a. succeeded a \<and> names_valid (captured a) ''0'' C))"
  unfolding extension_target_def checkv_def
proof (rule ensures_call, rule ensures_bnd [OF sure_valid], goal_cases)
  case (1 r shape)
  show ?case
    by (cases shape) (auto simp: answered_def intro!: sure ensures_if ensures_say)
next
  case (3 r shape)
  show ?case by (cases shape) (auto simp: lasting_def names_valid_def answered_def)
qed (auto intro!: keeps_intros)

lemma sure_extension_block:
  assumes "selection = call_tool t q" and "q = Query d x vs"
  shows "ensures (extension_block t selection side checked (extension_target t sql ok missing targetCheck))
    (\<lambda>_. extensions_clear q sql)"
  unfolding extension_block_def assms(1)
proof (rule ensures_call, rule ensures_bnd [OF sure_valid], goal_cases)
  case (1 r shape)
  show ?case
    by (cases shape) (auto simp: extensions_clear_def answered_def intro!: sure ensures_weaken [OF sure_extension_target])
next
  case (3 r shape)
  show ?case by (cases shape) (auto simp: lasting_def names_valid_def answered_def)
qed (auto intro!: keeps_intros)

section \<open>All databases\<close>

definition database_selected :: "tools \<Rightarrow> string \<Rightarrow> call_set \<Rightarrow> bool" where
  "database_selected t d C \<longleftrightarrow>
     answered C (Query src_db (connectDatabaseSQL @ sourceExtensionsSQL) [(''list'', extensionFilters t), (''database'', d)])
       (\<lambda>r. succeeded r \<and> (\<exists>n. names_valid (captured r) n C))"

definition databases_selected :: "tools \<Rightarrow> call_set \<Rightarrow> bool" where
  "databases_selected t C \<longleftrightarrow> (\<exists>ds. answered C (Query src_db databaseRowsSQL [(''list'', ds)]) (\<lambda>r. succeeded r \<and> captured r \<noteq> [] \<and>
     (\<forall>d\<in>set (split_on newline (captured r)). d \<noteq> [] \<longrightarrow> database_selected t d C)))"

definition all_extensions_clear :: "tools \<Rightarrow> call_set \<Rightarrow> bool" where
  "all_extensions_clear t C \<longleftrightarrow> databases_selected t C \<and>
     (\<exists>arrays. extensions_clear (Query tgt_db distinctExtensionsSQL [(''list'', ''['' @ arrays @ '']'')]) (targetExtensionsSQL True) C)"

lemma lasting_databases [simp]:
  "lasting (database_selected t d)" "lasting (databases_selected t)" "lasting (all_extensions_clear t)"
proof -
  show one: "lasting (database_selected t d)" for d
    using lasting_names(1) by (auto simp: lasting_def database_selected_def answered_def) blast
  show rows: "lasting (databases_selected t)"
    using one unfolding lasting_def databases_selected_def answered_def by blast
  show "lasting (all_extensions_clear t)"
    using rows lasting_names(2) unfolding lasting_def all_extensions_clear_def by blast
qed

lemma sure_fail_then: "ensures (bnd (fail_note l) (\<lambda>_. ret x)) Q"
proof -
  have "keeps grows (ret x)" by (intro keeps_intros)
  then show ?thesis
    by (auto simp: ensures_def bnd_def fail_note_def both_def say_def upd_def ret_def)
qed

lemma sure_collect_one: "ensures (collect_database t d acc) (\<lambda>_. database_selected t d)"
proof (cases acc)
  case (Pair collected arrays)
  show ?thesis
    unfolding collect_database_def checkv_db_def Pair prod.case
  proof (rule ensures_call, rule ensures_if, rule sure_fail_then, rule ensures_bnd [OF sure_names], goal_cases)
    case (1 r shape)
    then show ?case
      by (cases shape) (auto simp: database_selected_def answered_def intro!: sure_fail_then ensures_ret)
  next
    case (3 r shape)
    show ?case by (cases shape) (simp_all add: lasting_facts)
  qed (auto intro!: keeps_intros)
qed

lemma sure_collect: "ensures (collect_databases t ds acc) (\<lambda>_ C. \<forall>d\<in>set ds. d \<noteq> [] \<longrightarrow> database_selected t d C)"
proof (induction ds arbitrary: acc)
  case Nil
  show ?case by (simp add: ensures_ret)
next
  case (Cons d ds)
  have "ensures (bnd (collect_database t d acc) (\<lambda>acc. collect_databases t ds acc))
      (\<lambda>_ C. \<forall>e\<in>set (d # ds). e \<noteq> [] \<longrightarrow> database_selected t e C)"
    by (rule ensures_bnd [OF sure_collect_one]) (auto intro: keeps_intros ensures_weaken [OF Cons.IH])
  then show ?case
    using ensures_weaken [OF Cons.IH [of acc]] by auto
qed

lemma sure_collects: "ensures (collect_extensions t) (\<lambda>_. databases_selected t)"
  unfolding collect_extensions_def
proof (rule ensures_from_state)
  fix s :: script_state
  define P where "P = (\<lambda>rows C. rows \<noteq> [] \<longrightarrow>
    (\<exists>ds. answered C (Query src_db databaseRowsSQL [(''list'', ds)]) (\<lambda>r. succeeded r \<and> captured r = rows)))"
  have rows: "ensures (list_database_rows t ds) P" for ds
    unfolding list_database_rows_def checkv_def P_def
    by (rule ensures_if, rule ensures_ret, simp, rule ensures_call)
      (auto simp: answered_def captured_or_empty_def intro!: ensures_ret keeps_intros)
  show "ensures (bnd (list_database_rows t (st_databases s)) (\<lambda>rows. if rows = []
      then bnd (fail_note ''preflight: listing source databases for extension probes failed'') (\<lambda>_. ret (False, []))
      else collect_databases t (split_on newline rows) (True, []))) (\<lambda>_. databases_selected t)"
  proof (rule ensures_bnd [OF rows], rule ensures_if, rule sure_fail_then, rule ensures_weaken [OF sure_collect], goal_cases)
    case (1 x x' C)
    then show ?case by (auto simp: P_def databases_selected_def answered_def)
  next
    case (3 x)
    show ?case by (auto simp: P_def lasting_def answered_def)
  qed (auto intro!: keeps_intros)
qed

lemma sure_all_extensions: "ensures (extension_all_databases t) (\<lambda>_. all_extensions_clear t)"
proof -
  have clear: "ensures (extension_block t (if collected then checkv t tgt_db distinctExtensionsSQL xs else ret no_reply) side checked
      (extension_target t sql ok missing targetCheck)) (\<lambda>_. extensions_clear (Query tgt_db distinctExtensionsSQL [(''list'', xs)]) sql)"
    for collected xs side checked sql ok missing targetCheck
  proof (cases collected)
    case True
    then show ?thesis by (simp add: checkv_def) (rule sure_extension_block [OF refl refl])
  next
    case False
    then show ?thesis
      by (simp add: extension_block_def valid_names_def no_reply_def succeeded_def ensures_def bnd_def ret_def
          fail_note_def both_def say_def upd_def)
  qed
  show ?thesis
    unfolding extension_all_databases_def
  proof (rule ensures_bnd [OF sure_collects], goal_cases)
    case (1 x)
    have "ensures (case x of (collected, arrays) \<Rightarrow> both stop_on_failure (both (extension_block t
        (if collected then checkv t tgt_db distinctExtensionsSQL (''['' @ arrays @ '']'') else ret no_reply) ''target''
        ''extension selection'' (extension_target t (targetExtensionsSQL True) ''selected extensions available''
          unavailable_extensions ''extension availability'')) stop_on_failure))
      (\<lambda>_. extensions_clear (Query tgt_db distinctExtensionsSQL [(''list'', ''['' @ snd x @ '']'')]) (targetExtensionsSQL True))"
      unfolding case_prod_unfold
      by (rule ensures_second, rule ensures_first, rule clear) (auto intro!: keeps_intros)
    then show ?case
      by (rule ensures_weaken) (auto simp: all_extensions_clear_def)
  qed (auto intro!: keeps_intros)
qed

definition databases_listed :: "call_set \<Rightarrow> bool" where
  "databases_listed C \<longleftrightarrow> (\<exists>ds. ds \<noteq> [] \<and> ds \<noteq> ''[]'' \<and> answered C (Query src_db sourceDatabasesSQL []) (says ds) \<and>
     answered C (Query tgt_db existingDatabasesSQL [(''list'', ds)]) (\<lambda>e. succeeded e \<and> captured e \<noteq> []))"

lemma sure_list: "ensures (list_databases t) (\<lambda>_. databases_listed)"
  unfolding list_databases_def check_def checkv_def Let_def
proof (rule ensures_call, rule ensures_if, rule ensures_second, rule ensures_second, rule ensures_call, rule ensures_if, rule ensures_say,
    goal_cases)
  case (1 r e C)
  then show ?case by (auto simp: databases_listed_def answered_def says_def)
qed (auto intro!: keeps_intros sure ensures_second)

lemma sure_all_databases: "ensures (allDatabasesPreflightBlock t) (\<lambda>_ C.
    (\<forall>s. answered C (Query (Primary s) rolsuperSQL []) (says ''1'')) \<and> databases_listed C)"
proof -
  have super: "ensures (remSingleBlock t (all_databases_superuser s)) (\<lambda>_ C. answered C (Query (Primary s) rolsuperSQL []) (says ''1''))" for s
    by (rule ensures_weaken [OF sure_single])
      (simp add: single_evidence_def all_databases_superuser_def probe_only_def Let_def)
  have "lasting databases_listed"
    by (auto simp: lasting_def databases_listed_def answered_def)
  then have "ensures (allDatabasesPreflightBlock t) (\<lambda>_ C. answered C (Query src_db rolsuperSQL []) (says ''1'') \<and>
      answered C (Query tgt_db rolsuperSQL []) (says ''1'') \<and> databases_listed C)"
    unfolding allDatabasesPreflightBlock_def
    by (intro ensures_both [OF super ensures_both [OF super ensures_second [OF ensures_first]]] sure_list keeps_intros) simp_all
  then show ?thesis
    by (rule ensures_weaken) (auto split: side.splits, metis side.exhaust)
qed

section \<open>The script\<close>

definition extension_evidence :: "tools \<Rightarrow> bool \<Rightarrow> bool \<Rightarrow> bool \<Rightarrow> call_set \<Rightarrow> bool" where
  "extension_evidence t dropped allDatabases ownership =
     (if allDatabases then all_extensions_clear t
      else if ownership
      then extensions_clear (Query src_db ownedSourceExtensionsSQL [(''list'', extensionFilters t)]) targetExtensionOwnershipSQL
      else extensions_clear (Query src_db sourceExtensionsSQL [(''list'', extensionFilters t)]) (targetExtensionsSQL dropped))"

fun block_evidence :: "tools \<Rightarrow> preflight_block \<Rightarrow> call_set \<Rightarrow> bool" where
  "block_evidence t PreflightHeader C = connected src_db C"
| "block_evidence t (TargetConnect failure) C = connected tgt_db C"
| "block_evidence t PoolerBlock C = (\<forall>s. answered C (ConnInfo (Primary s)) unpooled)"
| "block_evidence t SyncCommitBlock C = answered C (Query tgt_db syncCommitSQL []) (says ''local'')"
| "block_evidence t TemporaryPrivilegeBlock C = True"
| "block_evidence t DeferIndexesBlock C = answered C clone_help lists_defer_indexes"
| "block_evidence t MajorVersionBlock C = (\<exists>v. v \<noteq> [] \<and> version_pair v v C)"
| "block_evidence t PreflightStopOnFailure C = True"
| "block_evidence t RestoreMajorBlock C = restores_into C"
| "block_evidence t AllDatabasesPreflightBlock C =
     ((\<forall>s. answered C (Query (Primary s) rolsuperSQL []) (says ''1'')) \<and> databases_listed C)"
| "block_evidence t (ExtensionPreflightBlock dropped allDatabases ownership) C = extension_evidence t dropped allDatabases ownership C"
| "block_evidence t PreflightScriptFooter C = True"
| "block_evidence t (SuperVerifyBlock s dryrun) C = connected (Superuser s) C"
| "block_evidence t (OwnerAfterRestoreBlock super dryrun) C =
     (answered C (Query tgt_db reownRoleExistsSQL [(''list'', pod_var t ''PREFLIGHT_OWNER_AFTER_RESTORE'')]) (says ''1'') \<and>
      owner_settable t super dryrun C)"
| "block_evidence t (CloneRightsBlock super dbProperties dryrun) C =
     (database_open super dryrun C \<and> schemas_open t super dryrun C \<and>
      (dbProperties \<longrightarrow> answered C (Query tgt_db dbPropertiesSQL []) (says ''1'')))"
| "block_evidence t RlsAuditBlock C = table_audit_clear t rlsAuditSQL C"
| "block_evidence t WalLevelBlock C = answered C (Query src_db walLevelSQL []) (\<lambda>r. captured r = ''logical'')"
| "block_evidence t SlotHeadroomBlock C = answered C (Query src_db slotHeadroomSQL []) (\<lambda>r. slots_left (captured r))"
| "block_evidence t WalSenderTimeoutBlock C = True"
| "block_evidence t (ReplicationAttrBlock super dryrun) C =
     right_held super dryrun (says ''1'') (Query src_db replicationAttrSQL []) (Query src_db replicationAttrGrantSQL []) C"
| "block_evidence t (OriginGrantsBlock super dryrun) C =
     right_held super dryrun (says []) (Query tgt_db originGrantsSQL []) (Query tgt_db originGrantsSQL []) C"
| "block_evidence t (SrrBlock super dryrun) C =
     right_held super dryrun succeeded (Query tgt_db srrProbeSQL []) (Query tgt_db srrGrantSQL []) C"
| "block_evidence t UnloggedAuditBlock C = table_audit_clear t unloggedAuditSQL C"
| "block_evidence t RiAuditBlock C = identities_usable t C"
| "block_evidence t PreflightWal2jsonNote C = True"

lemma ensures_true: "ensures f (\<lambda>_ C. True)"
  by (simp add: ensures_def)

lemma sure_settings:
  "ensures (preflightHeader t) (\<lambda>_. connected src_db)" "ensures (target_connect t failure) (\<lambda>_. connected tgt_db)"
  "ensures (superVerifyBlock t s dryrun) (\<lambda>_. connected (Superuser s))"
  "ensures (poolerBlock t) (\<lambda>_ C. \<forall>s. answered C (ConnInfo (Primary s)) unpooled)"
proof -
  show "ensures (preflightHeader t) (\<lambda>_. connected src_db)" "ensures (target_connect t failure) (\<lambda>_. connected tgt_db)"
    "ensures (superVerifyBlock t s dryrun) (\<lambda>_. connected (Superuser s))"
    unfolding preflightHeader_def target_connect_def superVerifyBlock_def Let_def
    by (intro ensures_first sure_retry keeps_intros lasting_connected)+
  have "ensures (poolerBlock t) (\<lambda>_ C. answered C (ConnInfo src_db) unpooled \<and> answered C (ConnInfo tgt_db) unpooled)"
    unfolding poolerBlock_def by (intro ensures_both sure_pooler keeps_intros lasting_facts)
  then show "ensures (poolerBlock t) (\<lambda>_ C. \<forall>s. answered C (ConnInfo (Primary s)) unpooled)"
    by (rule ensures_weaken) (metis side.exhaust)
qed

lemma sure_extensions: "ensures (extensionPreflightBlock t dropped allDatabases ownership)
    (\<lambda>_. extension_evidence t dropped allDatabases ownership)"
  unfolding extensionPreflightBlock_def extension_evidence_def extension_ownership_def extension_availability_def checkv_def
  by (auto intro!: sure_all_extensions ensures_first sure_extension_block [OF refl refl] keeps_intros)

lemmas sure_blocks = sure_settings sure_sync sure_defer sure_major sure_restore sure_all_databases
  sure_extensions sure_owner sure_clone sure_audits sure_wal sure_follow_rights sure_ri

lemma sure_block: "ensures (run_block t b) (\<lambda>_. block_evidence t b)"
  by (cases b; simp only: run_block.simps; rule ensures_weaken, (rule sure_blocks | rule ensures_true), simp)

lemma lasting_block: "lasting (block_evidence t b)"
proof -
  have *: "lasting (schemas_open t super dryrun)" "lasting (database_open super dryrun)" "lasting (owner_settable t super dryrun)"
    "lasting databases_listed" "lasting (table_audit_clear t sql)" "lasting (identities_usable t)" for super dryrun sql
    by (auto simp: lasting_def schemas_open_def database_open_def owner_settable_def right_held_def databases_listed_def
        table_audit_clear_def identities_usable_def answered_def Let_def)
  have **: "lasting (extension_evidence t d a w)" for d a w
    by (simp add: extension_evidence_def)
  have answer: "answered C c P \<Longrightarrow> C \<subseteq> C' \<Longrightarrow> answered C' c P" for C C' c P
    by (auto simp: answered_def)
  note later = answer *(1-6) [THEN lastingD] ** [THEN lastingD] lasting_answers [THEN lastingD] lasting_connected [THEN lastingD]
  have "block_evidence t b C \<Longrightarrow> C \<subseteq> C' \<Longrightarrow> block_evidence t b C'" for C C'
    by (cases b; simp only: block_evidence.simps; blast intro: later)
  then show ?thesis by (simp add: lasting_def)
qed

lemma script_evidence: "ensures (each (run_block t) bs) (\<lambda>_ C. \<forall>b\<in>set bs. block_evidence t b C)"
  by (intro ensures_each sure_block lasting_block keeps_intros)

text \<open>The footer prints the verdict and exits when a failure is recorded.\<close>

lemma each_append: "each f (xs @ ys) s = bnd (each f xs) (\<lambda>_. each f ys) s"
proof (induction xs arbitrary: s)
  case Nil
  then show ?case by (simp add: bnd_def ret_def)
next
  case (Cons x xs)
  then show ?case by (auto simp: bnd_def split: prod.splits sum.splits)
qed

lemma script_ends: "\<exists>bs. preflightScriptFor m = bs @ [PreflightScriptFooter]"
  by (auto simp: preflightScriptFor_def Let_def)

lemma footer_passes: "footer s = (Inr (), s') \<Longrightarrow> \<not> st_fail s' \<and> s' = s\<lparr>st_out := st_out s @ [''preflight: all checks passed'']\<rparr>"
  by (auto simp: footer_def both_def bnd_def print_verdict_def from_state_def say_def upd_def exit1_def raise_def nothing_def
      ret_def split: if_splits)

lemma preflight_ends:
  assumes "run_preflight t m = (Inr (), s)"
  shows "\<not> st_fail s" and "\<exists>ls. st_out s = ls @ [''preflight: all checks passed'']"
proof -
  obtain bs where "preflightScriptFor m = bs @ [PreflightScriptFooter]"
    using script_ends by blast
  with assms obtain u where "bnd (run_block t PreflightScriptFooter) (\<lambda>_. ret ()) u = (Inr (), s)"
    by (auto simp: run_preflight_def each_append bnd_def [of "each _ _"] split: prod.splits sum.splits)
  then have "footer u = (Inr (), s)"
    by (auto simp: bnd_def ret_def split: prod.splits sum.splits)
  then have "\<not> st_fail s" and "s = u\<lparr>st_out := st_out u @ [''preflight: all checks passed'']\<rparr>"
    using footer_passes by blast+
  then show "\<not> st_fail s" "\<exists>ls. st_out s = ls @ [''preflight: all checks passed'']"
    by simp_all
qed

section \<open>The connectivity check\<close>

definition permanent :: "tool_reply \<Rightarrow> bool" where
  "permanent r \<longleftrightarrow> permanent_error (subst_out (rp_err r))"

text \<open>The replies one check got, with \<open>n\<close> attempts at most and \<open>perm\<close> permanent errors just before.\<close>

definition retry_replies :: "nat \<Rightarrow> nat \<Rightarrow> tool_reply list \<Rightarrow> bool" where
  "retry_replies n perm rs \<longleftrightarrow> rs \<noteq> [] \<and> length rs \<le> n \<and> (\<forall>r \<in> set (butlast rs). \<not> succeeded r) \<and>
     (\<not> succeeded (last rs) \<longrightarrow> length rs = n \<or>
        permanent (last rs) \<and> (if length rs = 1 then perm = 1 else permanent (rs ! (length rs - 2)))) \<and>
     (\<forall>i. i + 2 < length rs \<longrightarrow> \<not> (permanent (rs ! i) \<and> permanent (rs ! Suc i))) \<and>
     (perm = 1 \<longrightarrow> 1 < length rs \<longrightarrow> \<not> permanent (hd rs))"

lemma retry_replies_Cons:
  assumes "retry_replies n p rs" and "\<not> succeeded r" and "p = (if permanent r then 1 else 0)" and "perm = 1 \<longrightarrow> \<not> permanent r"
  shows "retry_replies (Suc n) perm (r # rs)"
proof -
  obtain a as where rs: "rs = a # as" using assms(1) by (cases rs) (auto simp: retry_replies_def)
  have early: "\<not> (permanent ((r # rs) ! i) \<and> permanent ((r # rs) ! Suc i))" if "i + 2 < length (r # rs)" for i
    using that assms(1,3) by (cases i) (auto simp: retry_replies_def rs split: if_splits)
  have before_last: "(r # rs) ! (length (r # rs) - 2) = (if as = [] then r else rs ! (length rs - 2))"
    by (cases as) (simp_all add: rs)
  have "\<not> succeeded (last rs) \<longrightarrow> length rs = n \<or> permanent (last rs) \<and> (if as = [] then permanent r else permanent (rs ! (length rs - 2)))"
    using assms(1,3) by (auto simp: retry_replies_def rs split: if_splits)
  then show ?thesis
    using assms early unfolding retry_replies_def before_last
    by (auto simp: rs)
qed

lemma connect_retry_replies:
  assumes "perm \<le> 1" and "connect_retry t d what failure left perm s = (x, s')"
  shows "\<exists>rs. st_calls s' = st_calls s @ map (Pair (Query d selectOneSQL [])) rs \<and> retry_replies (Suc left) perm rs \<and>
    (x = Inr () \<longleftrightarrow> succeeded (last rs))"
  using assms
proof (induction left arbitrary: perm s)
  case 0
  then show ?case
    by (subst (asm) connect_retry.simps)
      (auto simp: check_def call_tool_def bnd_def Let_def both_def say_def upd_def exit1_def raise_def nothing_def ret_def
        retry_replies_def permanent_def split: if_splits intro!: exI [of _ "[answer t (st_calls s) (Query d selectOneSQL [])]"])
next
  case (Suc k)
  define r where "r = answer t (st_calls s) (Query d selectOneSQL [])"
  define p where "p = (if permanent r then perm + 1 else 0)"
  define s1 where "s1 = s\<lparr>st_calls := st_calls s @ [(Query d selectOneSQL [], r)]\<rparr>"
  have run: "(if succeeded r then nothing
      else if 2 \<le> p then both (say (failure @ (if subst_out (rp_err r) \<noteq> [] then '': '' @ subst_out (rp_err r) else []))) exit1
      else both (say (''retry: '' @ what @ '' connectivity attempt '' @ show_nat (6 - Suc k) @ '' failed''))
             (connect_retry t d what failure k p)) s1 = (x, s')"
    using Suc.prems(2) unfolding connect_retry.simps [of t d what failure "Suc k" perm]
    by (simp add: check_def call_tool_def bnd_def Let_def r_def s1_def p_def permanent_def split del: if_split cong: if_cong)
  consider "succeeded r" | "\<not> succeeded r" "2 \<le> p" | "\<not> succeeded r" "p \<le> 1" by linarith
  then show ?case
  proof cases
    case 1
    then show ?thesis using run
      by (intro exI [of _ "[r]"]) (auto simp: nothing_def ret_def s1_def retry_replies_def)
  next
    case 2
    then have "permanent r" "perm = 1" using Suc.prems(1) by (auto simp: p_def split: if_splits)
    then show ?thesis using run 2
      by (intro exI [of _ "[r]"]) (auto simp: both_def bnd_def say_def upd_def exit1_def raise_def s1_def retry_replies_def)
  next
    case 3
    then obtain s2 where s2: "connect_retry t d what failure k p s2 = (x, s')" "st_calls s2 = st_calls s1"
      using run by (auto simp: both_def bnd_def say_def upd_def split: if_splits)
    obtain rs where rs: "st_calls s' = st_calls s2 @ map (Pair (Query d selectOneSQL [])) rs" "retry_replies (Suc k) p rs"
        "x = Inr () \<longleftrightarrow> succeeded (last rs)"
      using Suc.IH [OF 3(2) s2(1)] by blast
    have "p = (if permanent r then 1 else 0)" "perm = 1 \<longrightarrow> \<not> permanent r"
      using 3(2) Suc.prems(1) by (auto simp: p_def split: if_splits)
    note more = retry_replies_Cons [OF rs(2) 3(1) this]
    have "rs \<noteq> []" using rs(2) by (simp add: retry_replies_def)
    with more rs(1,3) s2(2) show ?thesis by (intro exI [of _ "r # rs"]) (simp add: s1_def)
  qed
qed

lemma connectivity_replies:
  assumes "connect_retry t d what failure 5 0 s = (x, s')"
  shows "\<exists>rs. st_calls s' = st_calls s @ map (Pair (Query d selectOneSQL [])) rs \<and> rs \<noteq> [] \<and> length rs \<le> 6 \<and>
    (\<forall>r \<in> set (butlast rs). \<not> succeeded r) \<and> (x = Inr () \<longleftrightarrow> succeeded (last rs)) \<and>
    (x \<noteq> Inr () \<longrightarrow> length rs = 6 \<or> 2 \<le> length rs \<and> permanent (last rs) \<and> permanent (rs ! (length rs - 2))) \<and>
    (\<forall>i. i + 2 < length rs \<longrightarrow> \<not> (permanent (rs ! i) \<and> permanent (rs ! Suc i)))"
proof -
  obtain rs where rs: "st_calls s' = st_calls s @ map (Pair (Query d selectOneSQL [])) rs" "retry_replies 6 0 rs"
      "x = Inr () \<longleftrightarrow> succeeded (last rs)"
    using connect_retry_replies [OF _ assms] by auto
  then have "length rs \<noteq> 1 \<longrightarrow> 2 \<le> length rs" by (cases rs; cases "tl rs") (auto simp: retry_replies_def)
  with rs show ?thesis unfolding retry_replies_def
    by (intro exI [of _ rs]) (auto split: if_splits)
qed

end
