(* ===== verification/Sample_Preflight.thy ===== *)
theory Sample_Preflight
  imports Sample_Cluster Preflight_Calls Preflight_Evidence
begin

text \<open>
  A preflight of a live migration against two sample servers: the migration role lacks the right to
  execute the replication origin functions until the superuser of the target grants it.
\<close>

text \<open>The sample servers answer by the number of calls made before.\<close>

definition sample_replies :: "string list" where
  "sample_replies = [''1'', ''1'', ''Backend PID|71'' @ [newline] @ ''71'', ''Backend PID|72'' @ [newline] @ ''72'', ''1'', ''/usr/bin/psql'',
     ''pg_restore (PostgreSQL) 18.1'', ''18'',
     ''1'', ''1'', ''[]'', ''0'', ''[]'', ''0'', ''[]'', ''0'', ''[]'', ''0'',
     ''app'', ''1'', [], ''1'', [], ''logical'', ''5'', ''60000|1min|18'', ''app'', ''1'',
     ''GRANT EXECUTE ON FUNCTION pg_replication_origin_oid(text) TO app;'', [], [], ''app'', [], [], []]"

definition sample_tools :: tools where
  "sample_tools = \<lparr>answer = (\<lambda>h c. \<lparr>rp_code = 0, rp_out = sample_replies ! length h @ [newline], rp_err = []\<rparr>),
     pod_var = (\<lambda>_. [])\<rparr>"

definition checked_migration :: migration where
  "checked_migration = live_migration\<lparr>spec := sample_spec\<lparr>follow := Some sample_follow,
     target := (sample_connection ''new'')\<lparr>pc_superuser_secret_ref := Some \<lparr>cs_name = ''admin'', cs_endpoint = [], cs_keys = None\<rparr>\<rparr>\<rparr>\<rparr>"

definition stands :: "nat \<Rightarrow> script_state \<Rightarrow> bool" where
  "stands n s \<longleftrightarrow> length (st_calls s) = n \<and> \<not> st_fail s"

definition goes :: "nat \<Rightarrow> preflight_block \<Rightarrow> nat \<Rightarrow> bool" where
  "goes n b n' \<longleftrightarrow> (\<forall>s. stands n s \<longrightarrow> (\<exists>s'. run_block sample_tools b s = (Inr (), s') \<and> stands n' s'))"

lemma checked_blocks: "preflightScriptFor checked_migration =
   [PreflightHeader, TargetConnect (targetConnectFailure checked_migration), PoolerBlock, TemporaryPrivilegeBlock,
    RestoreMajorBlock, SuperVerifyBlock Target False, ExtensionPreflightBlock False False False,
    ExtensionPreflightBlock False False True, CloneRightsBlock True True False, RlsAuditBlock, WalLevelBlock,
    SlotHeadroomBlock, WalSenderTimeoutBlock, ReplicationAttrBlock False False, OriginGrantsBlock True False,
    SrrBlock True False, UnloggedAuditBlock, RiAuditBlock, PreflightScriptFooter]"
  by (simp add: preflightScriptFor_def preflightPrelude_def checked_migration_def live_migration_def sample_migration_def
    sample_spec_def sample_clone_def sample_connection_def skips_def reownRequested_def followEnabled_def sample_follow_def Let_def
    PluginWal2json_def SynchronousCommitLocal_def)

lemma sample_call: "call_tool sample_tools c s =
    (let r = \<lparr>rp_code = 0, rp_out = sample_replies ! length (st_calls s) @ [newline], rp_err = []\<rparr>
     in (Inr r, s\<lparr>st_calls := st_calls s @ [(c, r)]\<rparr>))"
  by (simp add: call_tool_def sample_tools_def)

lemma sample_var [simp]: "pod_var sample_tools x = []"
  by (simp add: sample_tools_def)

lemmas step_simps = goes_def stands_def sample_call check_def checkv_def bnd_def ret_def both_def on_def nothing_def say_def upd_def
  from_state_def succeeded_def captured_def Let_def with_tgt_user_def

lemma goes_connect: "goes 0 PreflightHeader 1" "goes 1 (TargetConnect f) 2"
  by (simp_all add: step_simps preflightHeader_def target_connect_def connect_retry.simps [of _ _ _ _ 5])

lemma sample_captured [simp]:
  "subst_out (sample_replies ! 0 @ [newline]) = ''1''"
  "subst_out (sample_replies ! Suc 0 @ [newline]) = ''1''"
  "subst_out (sample_replies ! 4 @ [newline]) = ''1''"
  "subst_out (sample_replies ! 5 @ [newline]) = ''/usr/bin/psql''"
  "subst_out (sample_replies ! 6 @ [newline]) = ''pg_restore (PostgreSQL) 18.1''"
  "subst_out (sample_replies ! 7 @ [newline]) = ''18''"
  "subst_out (sample_replies ! 8 @ [newline]) = ''1''"
  "subst_out (sample_replies ! 9 @ [newline]) = ''1''"
  "subst_out (sample_replies ! 10 @ [newline]) = ''[]''"
  "subst_out (sample_replies ! 11 @ [newline]) = ''0''"
  "subst_out (sample_replies ! 12 @ [newline]) = ''[]''"
  "subst_out (sample_replies ! 13 @ [newline]) = ''0''"
  "subst_out (sample_replies ! 14 @ [newline]) = ''[]''"
  "subst_out (sample_replies ! 15 @ [newline]) = ''0''"
  "subst_out (sample_replies ! 16 @ [newline]) = ''[]''"
  "subst_out (sample_replies ! 17 @ [newline]) = ''0''"
  "subst_out (sample_replies ! 18 @ [newline]) = ''app''"
  "subst_out (sample_replies ! 19 @ [newline]) = ''1''"
  "subst_out (sample_replies ! 20 @ [newline]) = []"
  "subst_out (sample_replies ! 21 @ [newline]) = ''1''"
  "subst_out (sample_replies ! 22 @ [newline]) = []"
  "subst_out (sample_replies ! 23 @ [newline]) = ''logical''"
  "subst_out (sample_replies ! 24 @ [newline]) = ''5''"
  "subst_out (sample_replies ! 25 @ [newline]) = ''60000|1min|18''"
  "subst_out (sample_replies ! 26 @ [newline]) = ''app''"
  "subst_out (sample_replies ! 27 @ [newline]) = ''1''"
  "subst_out (sample_replies ! 29 @ [newline]) = []"
  "subst_out (sample_replies ! 30 @ [newline]) = []"
  "subst_out (sample_replies ! 31 @ [newline]) = ''app''"
  "subst_out (sample_replies ! 32 @ [newline]) = []"
  "subst_out (sample_replies ! 33 @ [newline]) = []"
  "subst_out (sample_replies ! 34 @ [newline]) = []"
  "subst_out (sample_replies ! 2 @ [newline]) = ''Backend PID|71'' @ newline # ''71''"
  "subst_out (sample_replies ! 3 @ [newline]) = ''Backend PID|72'' @ newline # ''72''"
  "subst_out (sample_replies ! 28 @ [newline]) = ''GRANT EXECUTE ON FUNCTION pg_replication_origin_oid(text) TO app;''"
  by code_simp+

lemma goes_pooler: "goes 2 PoolerBlock 4"
proof -
  have same: "split_on newline (''Backend PID|71'' @ newline # ''71'') = [''Backend PID|71'', ''71'']"
    "split_on newline (''Backend PID|72'' @ newline # ''72'') = [''Backend PID|72'', ''72'']"
    by code_simp+
  have key: "cut_prefix ''Backend PID|71'' ''Backend PID|'' = Some ''71''" "cut_prefix ''71'' ''Backend PID|'' = None"
    "cut_prefix ''Backend PID|72'' ''Backend PID|'' = Some ''72''" "cut_prefix ''72'' ''Backend PID|'' = None"
    "subst_out ''71'' = ''71''" "subst_out ''72'' = ''72''"
    "is_number ''71''" "is_number ''72''" "is_number (trim_prefix ''71'' ''-'')" "is_number (trim_prefix ''72'' ''-'')"
    by code_simp+
  show ?thesis
    by (simp add: step_simps poolerBlock_def pooler_check_def same key option_list_def)
qed

lemma goes_settings: "goes 4 TemporaryPrivilegeBlock 5" "goes 8 (SuperVerifyBlock Target False) 10"
  by (simp_all add: step_simps temporaryPrivilegeBlock_def captured_or_empty_def superVerifyBlock_def connect_retry.simps [of _ _ _ _ 5])

lemma goes_restore: "goes 5 RestoreMajorBlock 8"
proof -
  have "restore_major ''pg_restore (PostgreSQL) 18.1'' = ''18''" "is_number ''18''" "number ''18'' = 18"
    by code_simp+
  then show ?thesis
    by (simp add: step_simps restoreMajorBlock_def find_restore_def captured_or_empty_def)
qed

lemma goes_extensions: "goes 10 (ExtensionPreflightBlock False False False) 14" "goes 14 (ExtensionPreflightBlock False False True) 18"
proof -
  have "is_number ''0''" by code_simp
  then show "goes 10 (ExtensionPreflightBlock False False False) 14" "goes 14 (ExtensionPreflightBlock False False True) 18"
    by (simp_all add: step_simps extensionPreflightBlock_def extension_availability_def extension_ownership_def extension_block_def
        extension_target_def valid_names_def extension_names_def stop_on_failure_def)
qed

lemma goes_rights: "goes 18 (CloneRightsBlock True True False) 22" "goes 22 RlsAuditBlock 23"
  by (simp_all add: step_simps cloneRightsBlock_def resolve_tgt_user_def clone_schema_rights_def remSingleBlock_def clone_database_def
      db_properties_def probe_only_def restored_schemas_def rlsAuditBlock_def remAggBlock_def table_audit_def)

lemma goes_wal: "goes 23 WalLevelBlock 24" "goes 24 SlotHeadroomBlock 25" "goes 25 WalSenderTimeoutBlock 26"
proof -
  have "slots_left ''5''" "before_char (CHR ''|'') ''60000|1min|18'' = ''60000''" "is_number ''60000''" "number ''60000'' = 60000"
    by code_simp+
  then show "goes 23 WalLevelBlock 24" "goes 24 SlotHeadroomBlock 25" "goes 25 WalSenderTimeoutBlock 26"
    by (simp_all add: step_simps walLevelBlock_def slotHeadroomBlock_def walSenderTimeoutBlock_def)
qed

lemma goes_follow: "goes 26 (ReplicationAttrBlock False False) 28" "goes 28 (OriginGrantsBlock True False) 31"
    "goes 31 (SrrBlock True False) 33" "goes 33 UnloggedAuditBlock 34" "goes 34 RiAuditBlock 35"
proof -
  have "statements_of ''GRANT EXECUTE ON FUNCTION pg_replication_origin_oid(text) TO app;'' =
      [''GRANT EXECUTE ON FUNCTION pg_replication_origin_oid(text) TO app'']"
    by code_simp
  then show "goes 26 (ReplicationAttrBlock False False) 28" "goes 28 (OriginGrantsBlock True False) 31"
    "goes 31 (SrrBlock True False) 33" "goes 33 UnloggedAuditBlock 34" "goes 34 RiAuditBlock 35"
    by (simp_all add: step_simps replicationAttrBlock_def remSingleBlock_def replication_attr_def originGrantsBlock_def
        remAggBlock_def origin_grants_def super_of_def remAggEcho_def srrBlock_def resolve_tgt_user_def session_role_def
        unloggedAuditBlock_def table_audit_def riAuditBlock_def)
qed

lemma goes_footer: "goes 35 PreflightScriptFooter 35"
  by (simp add: step_simps footer_def print_verdict_def)

lemma goes_each: "stands n s \<Longrightarrow> goes n b n' \<Longrightarrow>
    (\<And>s'. stands n' s' \<Longrightarrow> \<exists>s''. each (run_block sample_tools) bs s' = (Inr (), s'')) \<Longrightarrow>
    \<exists>s''. each (run_block sample_tools) (b # bs) s = (Inr (), s'')"
  by (fastforce simp: goes_def bnd_def)

lemma checked_run: "\<exists>s. run_preflight sample_tools checked_migration = (Inr (), s)"
proof -
  have start: "stands 0 script_start" by (simp add: stands_def script_start_def)
  show ?thesis
    unfolding run_preflight_def checked_blocks
    by (rule goes_each [OF start goes_connect(1)], erule goes_each [OF _ goes_connect(2)], erule goes_each [OF _ goes_pooler],
      erule goes_each [OF _ goes_settings(1)], erule goes_each [OF _ goes_restore], erule goes_each [OF _ goes_settings(2)],
      erule goes_each [OF _ goes_extensions(1)], erule goes_each [OF _ goes_extensions(2)], erule goes_each [OF _ goes_rights(1)],
      erule goes_each [OF _ goes_rights(2)], erule goes_each [OF _ goes_wal(1)], erule goes_each [OF _ goes_wal(2)],
      erule goes_each [OF _ goes_wal(3)], erule goes_each [OF _ goes_follow(1)], erule goes_each [OF _ goes_follow(2)],
      erule goes_each [OF _ goes_follow(3)], erule goes_each [OF _ goes_follow(4)], erule goes_each [OF _ goes_follow(5)],
      erule goes_each [OF _ goes_footer], simp add: ret_def)
qed

end
