(* ===== verification/Job_Scripts.thy ===== *)
theory Job_Scripts
  imports Preflight_Script Verification Compare
begin

text \<open>
  The other scripts the operator's Jobs run (\<^verbatim>\<open>resources.go\<close>, \<^verbatim>\<open>verification.go\<close>, \<^verbatim>\<open>reown.go\<close>): the
  drain verification, the reading of the copy counters, the data compare, the rehearsal and the ownership
  handover, on the machine of \<open>Script_Shell\<close>. Every failing exit is the value \<open>exit1\<close>, whatever its
  code. A file that a script writes and reads back holds what the script put there; that the write or
  the read fails is an answer of \<open>tools\<close>.
\<close>

section \<open>Captures\<close>

text \<open>\<^verbatim>\<open>x=$(command)\<close> under \<^verbatim>\<open>set -e\<close>, and with \<^verbatim>\<open>|| die\<close>.\<close>

definition capture_or_exit :: "tools \<Rightarrow> tool_call \<Rightarrow> (string \<Rightarrow> 'a step_of) \<Rightarrow> 'a step_of" where
  "capture_or_exit t c k = bnd (call_tool t c) (\<lambda>r. if succeeded r then k (captured r) else exit1)"

definition die :: "string \<Rightarrow> 'a step_of" where
  "die msg = bnd (say msg) (\<lambda>_. exit1)"

definition capture_or_die :: "tools \<Rightarrow> tool_call \<Rightarrow> string \<Rightarrow> (string \<Rightarrow> 'a step_of) \<Rightarrow> 'a step_of" where
  "capture_or_die t c msg k = bnd (call_tool t c) (\<lambda>r. if succeeded r then k (captured r) else die msg)"

text \<open>What \<^verbatim>\<open>cat\<close> or a program prints, line by line; its last line ends with a newline.\<close>

definition print_lines :: "string \<Rightarrow> unit step_of" where
  "print_lines out = (if out = [] then nothing
     else each say (split_on newline (if last out = newline then butlast out else out)))"

section \<open>The copy counters\<close>

text \<open>\<open>gate\<close> is script text of its own, run in a subshell whose result never votes.\<close>

definition cloneCountersBlock :: "tools \<Rightarrow> string \<Rightarrow> string step_of" where
  "cloneCountersBlock t gate = (if gate = [] then ret []
     else bnd (call_tool t (Run [''sh'', ''-c'', gate])) (\<lambda>r.
       let line = filter (\<lambda>c. c \<noteq> newline) (rp_out r)
       in bnd (on (line \<noteq> []) (say (verifyProgressPrefix @ line))) (\<lambda>_. ret line)))"

definition catalog_script :: "tools \<Rightarrow> string \<Rightarrow> unit step_of" where
  "catalog_script t gate = bnd (cloneCountersBlock t gate) (\<lambda>_. nothing)"

section \<open>Compare data\<close>

definition compareReportPath :: string where "compareReportPath = ''/tmp/compare-data.json''"
definition compareLogPath :: string where "compareLogPath = ''/tmp/compare.log''"
definition compareStatusPath :: string where "compareStatusPath = ''/tmp/compare.status''"

definition compareReportQuery :: string where
  "compareReportQuery = (join [
      [backslash] @ ''set r `cat '' @ compareReportPath @ ''`'',
      ''select 'the report lists no table, so nothing was compared'' @ sq,
      '' where json_array_length(:'r'::json) = 0;'',
      ''select format('%s.%s: source %s rows (checksum %s), target %s rows (checksum %s)%s','',
      ''              t->>'schema', t->>'name','',
      ''              t->'source'->>'rowcount', t->'source'->>'checksum','',
      ''              t->'target'->>'rowcount', t->'target'->>'checksum','',
      ''              ', status ' || (t->>'status'))'',
      ''  from json_array_elements(:'r'::json) as report(t)'',
      '' where t->'source'->>'rowcount' is distinct from t->'target'->>'rowcount'' @ sq,
      ''    or t->'source'->>'checksum' is distinct from t->'target'->>'checksum'' @ sq,
      ''    or t->'source'->>'rowcount' is null'',
      ''    or t->'source'->>'checksum' is null'',
      ''    or (t->'status' is not null and t->>'status' is distinct from 'match');'',
      []] [newline])"

text \<open>
  The exit status of pgcopydb travels through a file, because the shell loses it in the pipe to
  \<^verbatim>\<open>tee\<close>. The file holds what this script wrote, so reading it back gives the status, or nothing when
  the write or the read failed.
\<close>

definition write_status :: "string \<Rightarrow> tool_call" where "write_status rc = Run [''echo'', rc, ''>'' @ compareStatusPath]"
definition read_status :: tool_call where "read_status = Run [''cat'', compareStatusPath]"

definition exit_status :: "tools \<Rightarrow> tool_reply \<Rightarrow> string step_of" where
  "exit_status t r = bnd (call_tool t (write_status (show_nat (rp_code r)))) (\<lambda>w.
     bnd (call_tool t read_status) (\<lambda>st.
     ret (if succeeded w \<and> succeeded st then show_nat (rp_code r) else [])))"

definition compare_call :: tool_call where "compare_call = Run (''pgcopydb'' # CompareDataArgs)"
definition query_report :: tool_call where "query_report = Query tgt_db compareReportQuery []"

text \<open>The verdict, from the status and, when that is 0, the query on the report.\<close>

definition compare_verdict :: "tools \<Rightarrow> string \<Rightarrow> bool step_of" where
  "compare_verdict t rc = (if rc \<noteq> ''0''
     then bnd (say (''compare data exited '' @ (if rc = [] then ''without a status'' else rc) @
         '', so tables differ or it could not compare them; refusing to read that as a match'')) (\<lambda>_. ret False)
     else bnd (call_tool t query_report) (\<lambda>q.
       if \<not> succeeded q
       then bnd (say (''compare data report could not be evaluated; refusing to read that as a match'')) (\<lambda>_. ret False)
       else if captured q \<noteq> []
       then bnd (say (''compare data did not find every table matching between source and target:''))
              (\<lambda>_. bnd (say (captured q)) (\<lambda>_. ret False))
       else ret True))"

definition compareDataStrict :: "tools \<Rightarrow> string \<Rightarrow> bool step_of" where
  "compareDataStrict t clone_progress =
     bnd (call_tool t compare_call) (\<lambda>r.
     bnd (exit_status t r) (\<lambda>rc.
     bnd (call_tool t (Run [''cat'', compareReportPath])) (\<lambda>report.
     bnd (print_lines (if succeeded report then rp_out r else [])) (\<lambda>_.
     bnd (compare_verdict t rc) (\<lambda>verdict.
     bnd (call_tool t (Run [''grep'', ''-F'', CompareProgressPrefix, compareLogPath])) (\<lambda>found.
     bnd (on (captured found \<noteq> []) (say (last (split_on newline (captured found))))) (\<lambda>_.
     bnd (on (clone_progress \<noteq> []) (say (verifyProgressPrefix @ clone_progress))) (\<lambda>_. ret verdict))))))))"

definition compareDataScript :: "tools \<Rightarrow> unit step_of" where
  "compareDataScript t = bnd (compareDataStrict t []) (\<lambda>verdict. if verdict then nothing else exit1)"

section \<open>The drain verification\<close>

definition sentinel_get :: "string \<Rightarrow> tool_call" where
  "sentinel_get which = Run [''pgcopydb'', ''stream'', ''sentinel'', ''get'', which, ''--dir'', WorkDir]"

definition originProgressSQL :: "string \<Rightarrow> string" where
  "originProgressSQL origin = (''select coalesce(pg_replication_origin_progress('' @ sq @ origin @ sq @ '', true)::text, '' @ sq @
    ZeroLSN @ sq @ '')'')"

definition gapSQL :: "string \<Rightarrow> string \<Rightarrow> string" where
  "gapSQL endpos applied = (''select pg_wal_lsn_diff('' @ sq @ endpos @ sq @ ''::pg_lsn, '' @ sq @ applied @ sq @ ''::pg_lsn)'')"

text \<open>\<^verbatim>\<open>[ "$gap" -eq 0 ]\<close>, on what psql prints of a number; anything else is an error of \<^verbatim>\<open>[\<close>, which is not true.\<close>

definition gap_closed :: "string \<Rightarrow> bool" where
  "gap_closed gap \<longleftrightarrow> parse_int64 gap = Some 0"

definition decide_by_content :: "tools \<Rightarrow> string \<Rightarrow> unit step_of" where
  "decide_by_content t clone_progress = bnd (compareDataStrict t clone_progress) (\<lambda>verdict.
     if verdict then say (''drain verified: pgcopydb compare data found all migrated tables matching'')
     else die (''drain refuted: pgcopydb compare data did not show the target matching the source (the '' @
         ''compare lines above say whether it found a difference or could not produce a verdict); '' @
         ''do not switch applications to the target (the replication slot is kept)''))"

definition verify_script :: "tools \<Rightarrow> string \<Rightarrow> string \<Rightarrow> unit step_of" where
  "verify_script t origin gate =
     capture_or_exit t (sentinel_get ''--endpos'') (\<lambda>endpos.
     capture_or_exit t (sentinel_get ''--replay-lsn'') (\<lambda>replay.
     capture_or_exit t (Query tgt_db (originProgressSQL origin) []) (\<lambda>applied.
     capture_or_exit t (Query tgt_db (gapSQL endpos applied) []) (\<lambda>gap.
     bnd (say (''endpos='' @ endpos @ '' replay_lsn='' @ replay @ '' origin_progress='' @ applied @
         '' origin_gap_bytes='' @ gap)) (\<lambda>_.
     bnd (cloneCountersBlock t gate) (\<lambda>clone_progress.
       if endpos = ZeroLSN
       then both (say (''the work dir reports no cutover endpos, so the origin has nothing to be measured '' @
           ''against. Deciding by content.''))
              (decide_by_content t clone_progress)
       else if gap_closed gap
       then say (''drain verified: origin progress '' @ applied @ '' equals endpos '' @ endpos @
           '', nothing left to apply'')
       else both (say (''the origin is '' @ gap @
           '' bytes from endpos, and no distance decides the drain in either direction: unapplied '' @
           ''commits and publication-filtered WAL measure alike. Deciding by content.''))
              (decide_by_content t clone_progress)))))))"

section \<open>The rehearsal\<close>

definition rehearsalReportPath :: string where "rehearsalReportPath = ''/tmp/rehearsal-report.json''"

definition cancelComparesSQL :: string where
  "cancelComparesSQL = (''select count(pg_cancel_backend(pid)) from pg_stat_activity where usename = session_user '' @
    ''and application_name like 'pgcopydb[%] compare worker' and client_addr = '' @
    ''inet_client_addr() and pid <> pg_backend_pid()'')"

definition rehearsal_script :: "tools \<Rightarrow> string list \<Rightarrow> unit step_of" where
  "rehearsal_script t lst = bnd (call_tool t (Run (''pgcopydb'' # lst))) (\<lambda>l.
     if \<not> succeeded l then die (''rehearsal: pgcopydb list tables could not read the source catalog'')
     else bnd (call_tool t compare_call) (\<lambda>r.
       bnd (call_tool t (Run [''read'', ''first'', ''<'' @ rehearsalReportPath])) (\<lambda>report.
         if succeeded report \<and> has_prefix (before_char newline (rp_out r)) ''[''
         then say (''rehearsal: compare data wrote its report; tables that differ are expected while the '' @
             ''target applies changes'')
         else die (''rehearsal: compare data wrote no report, so it could not compare; see the lines above''))))"

text \<open>The TERM trap, \<open>running\<close> when the compare was started.\<close>

definition rehearsal_stop :: "tools \<Rightarrow> bool \<Rightarrow> unit step_of" where
  "rehearsal_stop t running = bnd (if running then call_tool t (Run [''kill'', ''-TERM'']) else ret no_reply) (\<lambda>_.
     bnd (call_tool t (Query src_db cancelComparesSQL [])) (\<lambda>_.
     bnd (call_tool t (Query tgt_db cancelComparesSQL [])) (\<lambda>_.
       die (''rehearsal: canceled; pgcopydb stopped and its queries on both databases canceled''))))"

section \<open>The ownership handover\<close>

definition reownStatementBound :: string where
  "reownStatementBound = (sq @ ''SET LOCAL statement_timeout = '' @ sq @ sq @ ''60s'' @ sq @ sq @ sq @
    '', 'SET LOCAL lock_timeout = '' @ sq @ sq @ ''60s'' @ sq @ sq @ sq)"

definition reownCandidatesCTE :: string where
  "reownCandidatesCTE = (join [
      ''WITH me AS ('',
      ''  SELECT r.oid FROM pg_catalog.pg_roles r WHERE r.rolname = current_user'',
      ''),'',
      ''-- classid matters: an OID is unique within a catalog, not across catalogs.'',
      ''ext_member AS ('',
      ''  SELECT d.classid, d.objid FROM pg_catalog.pg_depend d WHERE d.deptype = 'e'' @ sq,
      ''),'',
      ''-- A serial (a) or identity (i) sequence cannot change owner on its own:'',
      ''-- ATExecChangeOwner raises \"cannot change owner of sequence\". It follows its'',
      ''-- table instead, which also covers the sequence of an extension-member'',
      ''-- table, which carries no deptype e row of its own.'',
      ''-- refobjsubid > 0 keeps this to a dependency on a column. A partition'',
      ''-- depends on its parent with refobjsubid = 0 and must stay a candidate.'',
      ''owned_sequence AS ('',
      ''  SELECT d.objid'',
      ''    FROM pg_catalog.pg_depend d'',
      ''    JOIN pg_catalog.pg_class s ON s.oid = d.objid AND s.relkind = 'S'' @ sq,
      ''   WHERE d.classid = 'pg_catalog.pg_class'::regclass'',
      ''     AND d.refclassid = 'pg_catalog.pg_class'::regclass'',
      ''     AND d.refobjsubid > 0'',
      ''     AND d.deptype IN ('a', 'i')'',
      ''),'',
      ''-- !~ '^pg_' also excludes pg_temp_N and pg_toast_temp_N, and unlike a LIKE'',
      ''-- pattern it needs no backslash escape.'',
      ''user_schema AS ('',
      ''  SELECT n.oid, n.nspname, n.nspowner'',
      ''    FROM pg_catalog.pg_namespace n'',
      ''   WHERE n.nspname !~ '^pg_' AND n.nspname <> 'information_schema'' @ sq,
      ''),'',
      ''transferred_schema AS ('',
      ''  SELECT n.oid, n.nspname'',
      ''    FROM user_schema n, me'',
      ''   WHERE n.nspowner = me.oid'',
      ''     AND n.oid >= 16384'',
      ''     AND NOT EXISTS (SELECT 1 FROM ext_member e'',
      ''                      WHERE e.classid = 'pg_catalog.pg_namespace'::regclass'',
      ''                        AND e.objid = n.oid)'',
      ''),'',
      ''candidates AS ('',
      ''  SELECT 1 AS sort, 'schema' AS kind, s.oid AS nspoid,'',
      ''         format('ALTER SCHEMA %I OWNER TO %I', s.nspname, :'owner') AS stmt'',
      ''    FROM transferred_schema s'',
      ''  UNION ALL'',
      ''  -- ALTER TABLE OWNER never recurses, so every partition is its own row.'',
      ''  SELECT 2, 'relation', n.oid,'',
      ''         format('ALTER %s %s OWNER TO %I','',
      ''                CASE c.relkind WHEN 'S' THEN 'SEQUENCE'' @ sq,
      ''                               WHEN 'v' THEN 'VIEW'' @ sq,
      ''                               WHEN 'm' THEN 'MATERIALIZED VIEW'' @ sq,
      ''                               WHEN 'f' THEN 'FOREIGN TABLE'' @ sq,
      ''                               ELSE 'TABLE' END,'',
      ''                c.oid::regclass, :'owner')'',
      ''    FROM pg_catalog.pg_class c'',
      ''    JOIN user_schema n ON n.oid = c.relnamespace, me'',
      ''   WHERE c.relowner = me.oid AND c.oid >= 16384'',
      ''     AND c.relkind IN ('r', 'p', 'S', 'v', 'm', 'f')'',
      ''     AND NOT EXISTS (SELECT 1 FROM ext_member e'',
      ''                      WHERE e.classid = 'pg_catalog.pg_class'::regclass AND e.objid = '' @
      ''c.oid)'',
      ''     AND NOT EXISTS (SELECT 1 FROM owned_sequence os WHERE os.objid = c.oid)'',
      ''  UNION ALL'',
      ''  -- ALTER ROUTINE resolves functions, procedures and aggregates alike, the'',
      ''  -- (*) and ordered-set aggregate forms included: regprocedure lists every'',
      ''  -- argument type, which is the lookup key for all of them.'',
      ''  SELECT 3, 'routine', n.oid,'',
      ''         format('ALTER ROUTINE %s OWNER TO %I', p.oid::regprocedure, :'owner')'',
      ''    FROM pg_catalog.pg_proc p'',
      ''    JOIN user_schema n ON n.oid = p.pronamespace, me'',
      ''   WHERE p.proowner = me.oid AND p.oid >= 16384'',
      ''     AND NOT EXISTS (SELECT 1 FROM ext_member e'',
      ''                      WHERE e.classid = 'pg_catalog.pg_proc'::regclass AND e.objid = '' @
      ''p.oid)'',
      ''  UNION ALL'',
      ''  SELECT 4, 'type', n.oid,'',
      ''         format('ALTER %s %s OWNER TO %I','',
      ''                CASE WHEN t.typtype = 'd' THEN 'DOMAIN' ELSE 'TYPE' END,'',
      ''                t.oid::regtype, :'owner')'',
      ''    FROM pg_catalog.pg_type t'',
      ''    JOIN user_schema n ON n.oid = t.typnamespace, me'',
      ''   WHERE t.typowner = me.oid AND t.oid >= 16384'',
      ''     -- typrelid = 0 is a non-composite type. Relkind c is a standalone'',
      ''     -- composite (CREATE TYPE AS); any other relkind is a row type, which'',
      ''     -- changes owner with its relation and must not get an ALTER of its own.'',
      ''     AND (t.typrelid = 0'',
      ''          OR (SELECT c.relkind FROM pg_catalog.pg_class c WHERE c.oid = t.typrelid) = '' @ sq @
      ''c')'',
      ''     -- An array type follows its element type.'',
      ''     AND NOT EXISTS (SELECT 1 FROM pg_catalog.pg_type e WHERE e.typarray = t.oid)'',
      ''     -- A multirange follows its range type from PostgreSQL 17 on, which'',
      ''     -- refuses to alter it directly; 14 to 16 leave it behind and need the'',
      ''     -- explicit statement (both verified live, TestReownCandidateQueries).'',
      ''     AND NOT EXISTS (SELECT 1 FROM pg_catalog.pg_range r'',
      ''                      WHERE r.rngmultitypid = t.oid'',
      ''                        AND current_setting('server_version_num')::int >= 170000)'',
      ''     AND NOT EXISTS (SELECT 1 FROM ext_member e'',
      ''                      WHERE e.classid = 'pg_catalog.pg_type'::regclass AND e.objid = '' @
      ''t.oid)'',
      '')''] [newline])"

definition with_candidates :: "string \<Rightarrow> string" where
  "with_candidates sql = reownCandidatesCTE @ [newline] @ sql"

definition reownSameSQL :: string where
  "reownSameSQL = (join [
      ''SELECT (current_user::text = :'owner')::int;'',
      []] [newline])"

definition reownExistsSQL :: string where
  "reownExistsSQL = (join [
      ''SELECT EXISTS (SELECT 1 FROM pg_catalog.pg_roles WHERE rolname = :'owner')::int;'',
      []] [newline])"

definition reownSuperSQL :: string where
  "reownSuperSQL = (join [
      ''SELECT rolsuper::int FROM pg_catalog.pg_roles WHERE rolname = current_user;'',
      []] [newline])"

definition reownDatabaseGrantSQL :: string where
  "reownDatabaseGrantSQL = (join [
      ''SELECT format('GRANT CREATE ON DATABASE %I TO %I', current_database(), current_user)'',
      '' WHERE EXISTS (SELECT 1 FROM candidates c WHERE c.sort = 1)'',
      ''   AND NOT pg_catalog.has_database_privilege(current_user, current_database(), '' @ sq @
      ''CREATE');'',
      []] [newline])"

definition reownSchemaGrantsSQL :: string where
  "reownSchemaGrantsSQL = (join [
      ''SELECT string_agg(format('GRANT CREATE ON SCHEMA %I TO %I', n.nspname, :'owner'), '; ' '' @
      ''ORDER BY n.nspname)'',
      ''  FROM user_schema n'',
      '' WHERE n.oid IN (SELECT c.nspoid FROM candidates c WHERE c.sort > 1)'',
      ''   AND n.oid NOT IN (SELECT t.oid FROM transferred_schema t)'',
      ''   AND NOT pg_catalog.has_schema_privilege(:'owner'::name, n.oid, 'CREATE');'',
      []] [newline])"

definition reownInheritSQL :: string where
  "reownInheritSQL = (join [
      ''SELECT CASE WHEN current_setting('server_version_num')::int >= 160000'',
      ''            THEN format('GRANT %I TO %I WITH INHERIT TRUE', :'owner', current_user)'',
      ''            ELSE format('ALTER ROLE %I INHERIT', current_user) END'',
      '' WHERE EXISTS (SELECT 1 FROM candidates c WHERE c.sort = 1)'',
      ''   AND NOT pg_catalog.pg_has_role(current_user, :'owner', 'USAGE');'',
      []] [newline])"

definition reownCountSQL :: string where
  "reownCountSQL = (join [
      ''SELECT format('reown: %s %s statement(s)', count(*), kind) FROM candidates GROUP BY '' @
      ''sort, kind ORDER BY sort;'',
      []] [newline])"

definition reownListSQL :: "nat \<Rightarrow> string" where
  "reownListSQL n = (join [
      ''SELECT stmt FROM candidates ORDER BY sort, stmt LIMIT '' @ show_nat n @ '';'',
      []] [newline])"

definition reownApplySQL :: string where
  "reownApplySQL = (join [
      ''SELECT 'BEGIN', '' @ reownStatementBound @
      '', stmt, 'COMMIT' FROM candidates ORDER BY sort, stmt '' @ [backslash] @ ''gexec'',
      []] [newline])"

text \<open>Every statement the handover sends; none of them is built from a name.\<close>

definition reown_statements :: "string list" where
  "reown_statements = [reownSameSQL, reownExistsSQL, reownSuperSQL] @ map with_candidates
     [reownDatabaseGrantSQL, reownSchemaGrantsSQL, reownInheritSQL, reownCountSQL, reownListSQL 200, reownApplySQL, reownListSQL 20]"

definition reown_owner :: "tools \<Rightarrow> string" where
  "reown_owner t = pod_var t ''REOWN_OWNER''"

definition reown_query :: "string \<Rightarrow> string \<Rightarrow> tool_call" where
  "reown_query owner sql = Query tgt_db sql [(''owner'', owner)]"

text \<open>A query whose lines are statements that must be run first; nothing when none must.\<close>

definition nothing_missing :: "tools \<Rightarrow> string \<Rightarrow> string \<Rightarrow> (string \<Rightarrow> string) \<Rightarrow> unit step_of \<Rightarrow> unit step_of" where
  "nothing_missing t sql failed missing k =
     capture_or_die t (reown_query (reown_owner t) (with_candidates sql)) failed (\<lambda>stmts.
       if stmts \<noteq> [] then die (missing stmts) else k)"

definition reown_checks :: "tools \<Rightarrow> unit step_of" where
  "reown_checks t = (let owner = reown_owner t in
     nothing_missing t reownDatabaseGrantSQL (''reown: probing CREATE on the target database failed'')
       (\<lambda>stmts. (''reown: the migration role lacks CREATE on the target database, which ALTER SCHEMA OWNER '' @
           ''needs; run on the target: '' @ stmts))
    (nothing_missing t reownSchemaGrantsSQL (''reown: probing CREATE on the schemas holding objects to hand over failed'')
       (\<lambda>stmts. (''reown: role \"'' @ owner @
           ''\" lacks CREATE on schemas it would own objects in, which ALTER OWNER needs; run on the '' @
           ''target: '' @ stmts))
    (nothing_missing t reownInheritSQL (''reown: probing whether the migration role inherits \"'' @ owner @ ''\" failed'')
       (\<lambda>stmts. (''reown: the migration role can SET ROLE to \"'' @ owner @
           ''\" but does not inherit its privileges, which ALTER SCHEMA OWNER needs; run on the '' @
           ''target: '' @ stmts))
       nothing)))"

text \<open>A statement whose output goes to the log.\<close>

definition run_or_die :: "tools \<Rightarrow> string \<Rightarrow> string \<Rightarrow> unit step_of" where
  "run_or_die t sql failed = bnd (call_tool t (reown_query (reown_owner t) (with_candidates sql))) (\<lambda>r.
     both (print_lines (rp_out r)) (if succeeded r then nothing else die failed))"

definition reown_transfer :: "tools \<Rightarrow> unit step_of" where
  "reown_transfer t = (let owner = reown_owner t in
     both (run_or_die t reownCountSQL (''reown: counting the objects to hand over failed''))
    (both (say (''reown: statements (first 200):''))
    (both (run_or_die t (reownListSQL 200) (''reown: listing the objects to hand over failed''))
    (both (run_or_die t reownApplySQL (''reown: a statement failed (psql stops at the first error, see above); statements '' @
        ''already applied stay applied, and a rerun re-applies the rest''))
    (capture_or_die t (reown_query (reown_owner t) (with_candidates (reownListSQL 20))) (''reown: re-checking ownership after the handover failed'') (\<lambda>left.
       if left \<noteq> []
       then both (say left) (die (''reown: the objects above are still owned by the migration role after the handover''))
       else say (''ok: ownership handed over to \"'' @ owner @ ''\"'')))))))"

definition reownScript :: "tools \<Rightarrow> unit step_of" where
  "reownScript t = (let owner = reown_owner t in
     capture_or_die t (reown_query (reown_owner t) reownSameSQL) (''reown: resolving the migration role on the target failed'') (\<lambda>same.
     if same = ''1'' then say (''ok: ownership already held by the migration role, nothing to hand over'')
     else capture_or_die t (reown_query (reown_owner t) reownExistsSQL) (''reown: probing the target for the role failed'') (\<lambda>exists.
     if exists \<noteq> ''1''
     then die (''reown: role \"'' @ owner @
         ''\" does not exist on the target: create it there, or set clone.ownerAfterRestore to an '' @
         ''existing role (see docs/troubleshooting.md)'')
     else capture_or_die t (reown_query (reown_owner t) reownSuperSQL) (''reown: probing the superuser attribute of the migration role failed'') (\<lambda>super.
       both (if super \<noteq> ''1'' then reown_checks t else nothing) (reown_transfer t)))))"

end
