(* ===== verification/Gate_Script.thy ===== *)
theory Gate_Script
  imports Job_Scripts Gate_Probe
begin

text \<open>
  The script of the retry gate's probe (\<^verbatim>\<open>gateScript\<close> of \<^verbatim>\<open>retry_gate_job.go\<close>) on the machine of
  \<open>Script_Shell\<close>: the census of the role's sessions, the setting, the test commit, one \<^verbatim>\<open>gate:\<close> line
  for each, and \<^verbatim>\<open>gate: pass\<close> only after all of them passed. The time limits are answers: exit code 124 is
  that of \<^verbatim>\<open>timeout\<close>. The TERM trap ends the script early, which only cuts its log short.
\<close>

definition gateAppName :: string where "gateAppName = ''pgm-retry-gate''"
definition gateSessionLimit :: nat where "gateSessionLimit = 10"
definition PgcopydbAppNameLike :: string where "PgcopydbAppNameLike = ''pgcopydb[%''"

definition censusScope :: "bool \<Rightarrow> string" where
  "censusScope allDatabases = (let db = (if allDatabases then [] else newline # ''  and datname = current_database()'') in (join [
      [],
      ''from pg_stat_activity'',
      ''where usename = session_user'',
      ''  and pid <> pg_backend_pid()'' @ db,
      ''  and (application_name like '' @ sq @ PgcopydbAppNameLike @ sq,
      ''       or current_setting('application_name') <> '' @ sq @ gateAppName @ sq @ '')''] [newline]))"

definition censusSQL :: "bool \<Rightarrow> string" where
  "censusSQL allDatabases = (let gateDB = (if allDatabases then [] else newline # ''      and g.datname = current_database()'') in (join [
      ''select format('gate: census total=%s syncrep=%s named=%s syncrep_since=%s '' @
      ''gate_waiting=%s','',
      ''  count(*),'',
      ''  count(*) filter (where wait_event_type = 'IPC' and wait_event = 'SyncRep'),'',
      ''  case when current_setting('application_name') = '' @ sq @ gateAppName @ sq @
      '' then 'yes' else 'no' end,'',
      ''  coalesce(floor(extract(epoch from min(query_start)'',
      ''    filter (where wait_event_type = 'IPC' and wait_event = 'SyncRep')))::bigint, 0),'',
      ''  (select count(*) from pg_stat_activity g'',
      ''    where g.usename = session_user'',
      ''      and g.pid <> pg_backend_pid()'' @ gateDB,
      ''      and g.application_name = '' @ sq @ gateAppName @ sq,
      ''      and g.wait_event_type = 'IPC' and g.wait_event = 'SyncRep'))'' @
      censusScope allDatabases @ '';'',
      [],
      ''select format('gate: session pid=%s state=%s wait=%s age=%ss started=%s app=%s','',
      ''  pid, coalesce(state, '-'), coalesce(wait_event, '-'),'',
      ''  floor(extract(epoch from clock_timestamp() - coalesce(query_start, '' @
      ''backend_start)))::bigint,'',
      ''  to_char(backend_start at time zone 'UTC', 'YYYY-MM-DD\"T\"HH24:MI:SS\"Z\"'),'',
      ''  application_name)'' @ censusScope allDatabases,
      ''order by coalesce(query_start, backend_start)'',
      ''limit '' @ show_nat gateSessionLimit @ '';''] [newline]))"

text \<open>\<^verbatim>\<open>bounded\<close>: one transaction whose first statement sets the server's time limit.\<close>

definition bounded :: "string \<Rightarrow> tool_call" where
  "bounded sql = Query tgt_db (''SET LOCAL statement_timeout = 5000'' @ [newline] @ sql) []"

definition gate_setting :: tool_call where
  "gate_setting = bounded ''show synchronous_commit''"

definition commit_probe :: tool_call where
  "commit_probe = Query tgt_db (join [''SET TRANSACTION READ WRITE'', ''SET LOCAL synchronous_commit = on'',
     ''CREATE TEMP TABLE pgm_commit_probe () ON COMMIT DROP''] [newline]) []"

text \<open>\<^verbatim>\<open>why\<close>: what of an error may be printed.\<close>

definition psql_position :: "string \<Rightarrow> string option" where
  "psql_position e = (case cut_prefix e ''psql:<stdin>:'' of
       Some r \<Rightarrow> if starts_digit r \<and> contains (before_char newline r) '': '' then map_option snd (cut r '': '') else None
     | None \<Rightarrow> None)"

definition safe_error :: "string \<Rightarrow> string" where
  "safe_error e = (let l = before_char newline e in
     if l = [] then []
     else if has_prefix l ''ERROR:'' \<or> has_prefix l ''FATAL:'' \<or> has_prefix l ''psql: error: connection to server at ''
     then take 300 (map (\<lambda>c. if c = newline then CHR '' '' else c) e) @ '' ''
     else ''client-side error withheld '')"

definition gate_why :: "tool_reply \<Rightarrow> string" where
  "gate_why r = (let e = subst_out (rp_err r); e = (case psql_position e of Some x \<Rightarrow> x | None \<Rightarrow> e)
     in safe_error e @ ''(exit '' @ show_nat (rp_code r) @ '')'')"

definition gate_census_step :: "tools \<Rightarrow> bool \<Rightarrow> string step_of" where
  "gate_census_step t allDatabases = bnd (call_tool t (bounded (censusSQL allDatabases))) (\<lambda>r.
     if succeeded r then bnd (print_lines (rp_out r)) (\<lambda>_. ret (before_char newline (rp_out r)))
     else bnd (say (''gate: census failed '' @ gate_why r)) (\<lambda>_. ret []))"

definition gate_setting_step :: "tools \<Rightarrow> bool step_of" where
  "gate_setting_step t = bnd (call_tool t gate_setting) (\<lambda>r.
     if succeeded r then bnd (say (''gate: synchronous_commit='' @ captured r)) (\<lambda>_. ret (captured r = ''local''))
     else bnd (say (''gate: synchronous_commit failed '' @ gate_why r)) (\<lambda>_. ret False))"

text \<open>
  The pattern \<^verbatim>\<open>'gate: census total='*' syncrep=0 named='*' gate_waiting=0'\<close>, and the two cuts that name
  what a census without it waits for.
\<close>

definition nobody_waits :: "string \<Rightarrow> bool" where
  "nobody_waits census \<longleftrightarrow> (case cut_prefix census ''gate: census total='' of
       None \<Rightarrow> False
     | Some r \<Rightarrow> (case cut r '' syncrep=0 named='' of None \<Rightarrow> False | Some (_, q) \<Rightarrow> has_suffix q '' gate_waiting=0''))"

definition after_first :: "string \<Rightarrow> string \<Rightarrow> string" where
  "after_first sub s = (case cut s sub of None \<Rightarrow> s | Some (_, r) \<Rightarrow> r)"

definition after_last_of :: "string \<Rightarrow> string \<Rightarrow> string" where
  "after_last_of sub s = (case cut (rev s) (rev sub) of None \<Rightarrow> s | Some (a, _) \<Rightarrow> rev a)"

definition waits_for :: "string \<Rightarrow> string" where
  "waits_for census = (let s = before_char (CHR '' '') (after_first '' syncrep='' census)
     in if s \<noteq> ''0'' then ''syncrep='' @ s else ''gate_waiting='' @ after_last_of '' gate_waiting='' census)"

definition gate_commit_step :: "tools \<Rightarrow> string \<Rightarrow> bool step_of" where
  "gate_commit_step t census =
     (if nobody_waits census
      then bnd (call_tool t commit_probe) (\<lambda>r.
        if succeeded r then bnd (say ''gate: commit ok'') (\<lambda>_. ret True)
        else if rp_code r = 124 \<and> contains (subst_out (rp_err r)) ''canceling wait for synchronous replication''
        then bnd (say ''gate: commit blocked'') (\<lambda>_. ret False)
        else bnd (say (''gate: commit failed '' @ gate_why r)) (\<lambda>_. ret False))
      else if has_prefix census ''gate: census ''
      then bnd (say (''gate: commit skipped '' @ waits_for census)) (\<lambda>_. ret False)
      else bnd (say ''gate: commit skipped no census'') (\<lambda>_. ret False))"

definition gate_rest :: "tools \<Rightarrow> string \<Rightarrow> bool step_of" where
  "gate_rest t census =
     bnd (if pod_var t ''GATE_EXPECT_LOCAL'' = ''1'' then gate_setting_step t else ret True) (\<lambda>setting.
     bnd (if pod_var t ''GATE_COMMIT_TEST'' = ''1'' then gate_commit_step t census else ret True) (\<lambda>committed.
       ret (has_prefix census ''gate: census total=0 '' \<and> setting \<and> committed)))"

definition gate_checks :: "tools \<Rightarrow> bool \<Rightarrow> bool step_of" where
  "gate_checks t allDatabases = bnd (gate_census_step t allDatabases) (\<lambda>census. gate_rest t census)"

definition gate_flag_valid :: "string \<Rightarrow> bool" where
  "gate_flag_valid v \<longleftrightarrow> v = ''0'' \<or> v = ''1''"

definition gateScript :: "tools \<Rightarrow> bool \<Rightarrow> unit step_of" where
  "gateScript t allDatabases = (let ct = pod_var t ''GATE_COMMIT_TEST''; el = pod_var t ''GATE_EXPECT_LOCAL'' in
     if \<not> gate_flag_valid ct \<or> \<not> gate_flag_valid el
     then die (''gate: invalid flags GATE_COMMIT_TEST='' @ ct @ '' GATE_EXPECT_LOCAL='' @ el)
     else bnd (gate_checks t allDatabases) (\<lambda>ok. if ok then say ''gate: pass'' else exit1))"

end
