(* ===== verification/Job_Runs.thy ===== *)
theory Job_Runs
  imports Gate_Script
begin

text \<open>
  What the pod of a Job runs: the script that its builder chose, with the literal values of its
  environment, or pgcopydb itself. The preludes that write the password file come before it and end the
  pod when they fail; they are theory \<open>Conn_Shell\<close>.
\<close>

fun run_script :: "tools \<Rightarrow> script \<Rightarrow> unit step_of" where
  "run_script t (Resources.GateScript allDatabases) = gateScript t allDatabases"
| "run_script t ReownScript = reownScript t"
| "run_script t (VerifyScript origin gate) = verify_script t origin gate"
| "run_script t (CatalogScript gate) = catalog_script t gate"
| "run_script t (RehearsalScript lst) = rehearsal_script t lst"
| "run_script t CompareDataScript = compareDataScript t"
| "run_script t (PreflightScript bs) = each (run_block t) bs"

definition run_job :: "tools \<Rightarrow> job \<Rightarrow> unit step_of" where
  "run_job t j = (case js_program (j_spec j) of
       Shell scr \<Rightarrow> run_script t scr
     | Pgcopydb args \<Rightarrow> bnd (call_tool t (Run (''pgcopydb'' # args))) (\<lambda>r. if succeeded r then nothing else exit1))"

text \<open>
  The last entry of a name counts. A value with a dollar sign may be a reference to another variable,
  which Kubernetes expands; nothing is said of those.
\<close>

definition env_literal :: "env_var list \<Rightarrow> string \<Rightarrow> string option" where
  "env_literal es n = (case find (\<lambda>e. ev_name e = n) (rev es) of
       Some e \<Rightarrow> (case ev_value e of EnvLiteral v \<Rightarrow> if CHR ''$'' \<in> set v then None else Some v | _ \<Rightarrow> None)
     | None \<Rightarrow> None)"

definition pod_runs :: "tools \<Rightarrow> job \<Rightarrow> bool" where
  "pod_runs t j \<longleftrightarrow> (\<forall>e\<in>set (js_env (j_spec j)). \<forall>v. env_literal (js_env (j_spec j)) (ev_name e) = Some v \<longrightarrow> pod_var t (ev_name e) = v)"

section \<open>The scripts the builders choose\<close>

lemma chosen_scripts:
  "buildVerifyJob m img g = Inr j \<Longrightarrow> run_job t j = verify_script t (effectiveSlotName m) g"
  "buildCatalogJob m img g = Inr j \<Longrightarrow> run_job t j = catalog_script t g"
  "buildRehearsalJob m img k = Inr j \<Longrightarrow>
     run_job t j = rehearsal_script t ([''list'', ''tables'', ''--dir'', WorkDir] @ FiltersArgs (clone_filters (clone (spec m))))"
  "buildReownJob m img = Inr j \<Longrightarrow> run_job t j = reownScript t"
  "buildCompareJob m img compareData = Inr j \<Longrightarrow> run_job t j = compareDataScript t"
  "buildPreflightJob m img = Inr j \<Longrightarrow> run_job t j script_start = run_preflight t m"
  "buildGateJob d m img n = Inr j \<Longrightarrow> run_job t j = gateScript t (all_databases (clone (spec m)))"
  by (auto simp: buildVerifyJob_def buildCatalogJob_def buildRehearsalJob_def buildReownJob_def buildCompareJob_def
      buildPreflightJob_def buildGateJob_def scriptJob_def map_inr_def addConnectTimeout_def add_env_def upd_spec_def
      scratch_workdir_def run_job_def run_preflight_def Let_def jobSkeleton_fields split: sum.splits if_splits option.splits)

lemma find_first: "(\<And>x. x \<in> set xs \<Longrightarrow> \<not> P x) \<Longrightarrow> P y \<Longrightarrow> find P (xs @ y # ys) = Some y"
  by (induction xs) auto

lemma pod_env:
  assumes "pod_runs t j" and "js_env (j_spec j) = es @ [literal_env n v] @ es'" and "\<And>e. e \<in> set es' \<Longrightarrow> ev_name e \<noteq> n"
    and "CHR ''$'' \<notin> set v"
  shows "pod_var t n = v"
proof -
  have "find (\<lambda>e. ev_name e = n) (rev es' @ literal_env n v # rev es) = Some (literal_env n v)"
    using assms(3) by (intro find_first) (auto simp: literal_env_def)
  then have "env_literal (js_env (j_spec j)) (ev_name (literal_env n v)) = Some v"
    using assms(2,4) by (simp add: env_literal_def literal_env_def)
  with assms(1,2) show ?thesis
    by (simp add: pod_runs_def literal_env_def)
qed

lemma gate_env:
  assumes "buildGateJob d m img n = Inr j" and "pod_runs t j"
  shows "pod_var t ''GATE_COMMIT_TEST'' = gateFlag (CommitTest (gateInputs_of d m))"
    and "pod_var t ''GATE_EXPECT_LOCAL'' = gateFlag (ExpectLocal (gateInputs_of d m))"
proof -
  let ?i = "gateInputs_of d m"
  obtain es where es: "js_env (j_spec j) = es @ [literal_env ''GATE_COMMIT_TEST'' (gateFlag (CommitTest ?i)),
      literal_env ''GATE_EXPECT_LOCAL'' (gateFlag (ExpectLocal ?i))]"
    using assms(1) by (auto simp: buildGateJob_def scriptJob_def map_inr_def add_env_def upd_spec_def Let_def split: sum.splits)
  show "pod_var t ''GATE_COMMIT_TEST'' = gateFlag (CommitTest ?i)"
    using es by (intro pod_env [OF assms(2), where es = es and es' = "[literal_env ''GATE_EXPECT_LOCAL'' (gateFlag (ExpectLocal ?i))]"])
      (auto simp: literal_env_def gateFlag_def)
  show "pod_var t ''GATE_EXPECT_LOCAL'' = gateFlag (ExpectLocal ?i)"
    using es by (intro pod_env [OF assms(2), where es = "es @ [literal_env ''GATE_COMMIT_TEST'' (gateFlag (CommitTest ?i))]" and es' = "[]"])
      (auto simp: gateFlag_def)
qed

lemma reown_env:
  assumes "buildReownJob m img = Inr j" and "pod_runs t j" and "CHR ''$'' \<notin> set (owner_after_restore (clone (spec m)))"
  shows "reown_owner t = owner_after_restore (clone (spec m))"
proof -
  obtain es where es: "js_env (j_spec j) = es @ [literal_env ''REOWN_OWNER'' (owner_after_restore (clone (spec m)))]"
    using assms(1) by (auto simp: buildReownJob_def map_inr_def add_env_def upd_spec_def split: sum.splits)
  show ?thesis
    unfolding reown_owner_def using es assms(3)
    by (intro pod_env [OF assms(2), where es = es and es' = "[]"]) auto
qed

end
