(* ===== verification/Job_Evidence.thy ===== *)
theory Job_Evidence
  imports Job_Scripts Script_Rules
begin

text \<open>
  What a Job that succeeds has seen: the drain verification, the data compare, the rehearsal and the
  ownership handover. A result that lets the operator drop the slot or report an
  ownership rests on answers in the history, never on a call that failed.
\<close>

section \<open>Captures\<close>

context line_frame begin

lemma captures [keeps_intros]:
  "(\<And>x. keeps R (k x)) \<Longrightarrow> keeps R (capture_or_exit t c k)"
  "(\<And>x. keeps R (k x)) \<Longrightarrow> keeps R (capture_or_die t c msg k)"
  "keeps R (die msg)" "keeps R (print_lines out)"
  unfolding capture_or_exit_def capture_or_die_def die_def print_lines_def exit1_def by (auto intro!: keeps_intros)

lemma counters [keeps_intros]: "keeps R (cloneCountersBlock t gate)" "keeps R (compare_verdict t rc)"
  "keeps R (exit_status t r)" "keeps R (compareDataStrict t line)"
  unfolding cloneCountersBlock_def compareDataStrict_def compare_verdict_def exit_status_def Let_def by (intro keeps_intros)+

lemma content [keeps_intros]: "keeps R (decide_by_content t line)"
  unfolding decide_by_content_def by (intro keeps_intros)

lemma handover_steps [keeps_intros]:
  "keeps R k \<Longrightarrow> keeps R (nothing_missing t sql failed missing k)" "keeps R (run_or_die t sql failed)"
  unfolding nothing_missing_def run_or_die_def by (auto intro!: keeps_intros)

lemma handover [keeps_intros]: "keeps R (reown_checks t)" "keeps R (reown_transfer t)"
  unfolding reown_checks_def reown_transfer_def Let_def by (intro keeps_intros)+

lemma scripts [keeps_intros]:
  "keeps R (verify_script t origin gate)" "keeps R (compareDataScript t)" "keeps R (rehearsal_script t lst)" "keeps R (reownScript t)"
  unfolding verify_script_def compareDataScript_def rehearsal_script_def reownScript_def Let_def by (auto intro!: keeps_intros)

end

lemma ensures_run:
  assumes "ensures f Q" and "keeps same_flag f" and "f script_start = (Inr x, s)"
  shows "Q x (set (st_calls s))"
proof -
  have "\<not> st_fail s"
    using keepsD [OF assms(2,3)] by (simp add: same_flag_def script_start_def)
  with assms(1,3) show ?thesis by (auto simp: ensures_def)
qed

lemma ensures_die [sure]: "ensures (die msg) Q"
  by (simp add: ensures_def die_def bnd_def say_def upd_def exit1_def raise_def)

lemma ensures_capture:
  assumes "\<And>v. ensures (k v) (\<lambda>x C. answered C c (says v) \<longrightarrow> Q x C)" and "\<And>v. keeps grows (k v)"
  shows "ensures (capture_or_exit t c k) Q" and "ensures (capture_or_die t c msg k) Q"
proof -
  have k: "ensures (if succeeded r then k (captured r) else failed) (\<lambda>x C. (c, r) \<in> C \<longrightarrow> Q x C)"
    if "\<And>P. ensures failed P" for r failed
    by (rule ensures_if, rule ensures_weaken [OF assms(1)]) (auto simp: answered_def says_def intro: that)
  show "ensures (capture_or_exit t c k) Q"
    unfolding capture_or_exit_def by (rule ensures_call, rule k, rule sure, auto intro!: keeps_intros assms(2))
  show "ensures (capture_or_die t c msg k) Q"
    unfolding capture_or_die_def by (rule ensures_call, rule k, rule sure, auto intro!: keeps_intros assms(2))
qed

section \<open>The drain\<close>

text \<open>pgcopydb ended with status 0, and the query on its report succeeded and printed nothing.\<close>

definition contents_match :: "call_set \<Rightarrow> bool" where
  "contents_match C \<longleftrightarrow> answered C compare_call succeeded \<and> answered C query_report (says [])"

lemma lasting_match [simp]: "lasting contents_match"
  unfolding contents_match_def by (auto simp: lasting_def answered_def)

lemma sure_verdict: "ensures (compare_verdict t rc) (\<lambda>verdict C. verdict \<longrightarrow> rc = ''0'' \<and> answered C query_report (says []))"
  unfolding compare_verdict_def
proof (rule ensures_if, goal_cases)
  case 1
  show ?case by (rule ensures_skip) (auto intro!: ensures_ret keeps_intros)
next
  case 2
  show ?case
    by (rule ensures_call)
      (use 2 in \<open>auto simp: answered_def says_def intro!: ensures_if ensures_ret ensures_skip keeps_intros\<close>)
qed

lemma show_nat_0: "show_nat n = ''0'' \<longleftrightarrow> n = 0"
proof (cases "n < 10")
  case True
  then have "digit_char n = digit_char 0 \<longleftrightarrow> n = 0" by (simp add: digit_char_def)
  moreover have "digit_char 0 = CHR ''0''" by code_simp
  ultimately show ?thesis using True by (subst show_nat.simps) simp
next
  case False
  then have "show_nat n = show_nat (n div 10) @ [digit_char (n mod 10)]" by (subst show_nat.simps) simp
  then show ?thesis using False show_nat_nonempty [of "n div 10"] by (cases "show_nat (n div 10)") auto
qed

lemma sure_status: "ensures (exit_status t r) (\<lambda>rc _. rc = ''0'' \<longrightarrow> succeeded r)"
  unfolding exit_status_def by (intro ensures_skip ensures_ret keeps_intros) (simp add: show_nat_0 succeeded_def split: if_splits)

lemma sure_compare: "ensures (compareDataStrict t line) (\<lambda>verdict C. verdict \<longrightarrow> contents_match C)"
proof -
  have verdict: "ensures (bnd (compare_verdict t rc) (\<lambda>verdict.
      bnd (call_tool t (Run [''grep'', ''-F'', CompareProgressPrefix, compareLogPath])) (\<lambda>found.
      bnd (on (captured found \<noteq> []) (say (last (split_on newline (captured found))))) (\<lambda>_.
      bnd (on (line \<noteq> []) (say (verifyProgressPrefix @ line))) (\<lambda>_. ret verdict)))))
    (\<lambda>verdict C. verdict \<longrightarrow> rc = ''0'' \<and> answered C query_report (says []))" for rc
  proof (rule ensures_bnd [OF sure_verdict], goal_cases)
    case (1 verdict)
    show ?case by (intro ensures_skip ensures_ret keeps_intros) simp
  next
    case (3 verdict)
    show ?case by (cases verdict) (auto simp: lasting_def answered_def)
  qed (intro keeps_intros)
  show ?thesis
    unfolding compareDataStrict_def
  proof (rule ensures_call, rule ensures_bnd [OF sure_status], goal_cases)
    case (1 r rc)
    show ?case
      by (rule ensures_skip, rule ensures_skip, rule ensures_weaken [OF verdict])
        (auto simp: contents_match_def answered_def intro!: keeps_intros)
  qed (auto simp: lasting_def intro!: keeps_intros)
qed

lemma sure_content: "ensures (decide_by_content t line) (\<lambda>_. contents_match)"
  unfolding decide_by_content_def
proof (rule ensures_bnd [OF sure_compare], goal_cases)
  case (1 verdict)
  show ?case by (cases verdict) (auto intro!: ensures_say sure)
next
  case (3 verdict)
  show ?case by (cases verdict) simp_all
qed (intro keeps_intros)

lemma sure_compare_job: "ensures (compareDataScript t) (\<lambda>_. contents_match)"
  unfolding compareDataScript_def
proof (rule ensures_bnd [OF sure_compare], goal_cases)
  case (1 verdict)
  show ?case by (cases verdict) (auto intro!: ensures_say sure)
next
  case (3 verdict)
  show ?case by (cases verdict) simp_all
qed (intro keeps_intros)

text \<open>The origin stands at the cutover's endpos.\<close>

definition origin_at_endpos :: "string \<Rightarrow> call_set \<Rightarrow> bool" where
  "origin_at_endpos origin C \<longleftrightarrow> (\<exists>endpos applied gap. endpos \<noteq> ZeroLSN \<and>
     answered C (sentinel_get ''--endpos'') (says endpos) \<and>
     answered C (Query tgt_db (originProgressSQL origin) []) (says applied) \<and>
     answered C (Query tgt_db (gapSQL endpos applied) []) (says gap) \<and> gap_closed gap)"

lemma sure_drain: "ensures (verify_script t origin gate) (\<lambda>_ C. origin_at_endpos origin C \<or> contents_match C)"
  unfolding verify_script_def
proof (rule ensures_capture(1), rule ensures_capture(1), rule ensures_capture(1), rule ensures_capture(1), rule ensures_skip,
    rule ensures_skip, rule ensures_if, goal_cases)
  case (1 endpos replay applied gap u counters)
  show ?case by (rule ensures_second, rule ensures_weaken [OF sure_content]) (auto intro!: keeps_intros)
next
  case (2 endpos replay applied gap u counters)
  show ?case
  proof (rule ensures_if, goal_cases)
    case 1
    with 2 show ?case by (auto intro!: ensures_say simp: origin_at_endpos_def)
  next
    case 2
    show ?case by (rule ensures_second, rule ensures_weaken [OF sure_content]) (auto intro!: keeps_intros)
  qed
qed (intro keeps_intros)+

section \<open>The rehearsal and the handover\<close>

definition report_written :: "string list \<Rightarrow> call_set \<Rightarrow> bool" where
  "report_written lst C \<longleftrightarrow> answered C (Run (''pgcopydb'' # lst)) succeeded \<and>
     answered C compare_call (\<lambda>r. has_prefix (before_char newline (rp_out r)) ''['')"

lemma sure_rehearsal: "ensures (rehearsal_script t lst) (\<lambda>_. report_written lst)"
  unfolding rehearsal_script_def
proof (rule ensures_call, rule ensures_if, rule sure, rule ensures_call, rule ensures_skip, rule ensures_if, rule ensures_say, goal_cases)
  case (1 l x r C)
  then show ?case by (auto simp: report_written_def answered_def)
qed (auto intro!: sure keeps_intros)

definition no_grant_missing :: "string \<Rightarrow> call_set \<Rightarrow> bool" where
  "no_grant_missing owner C \<longleftrightarrow> (\<forall>sql\<in>{reownDatabaseGrantSQL, reownSchemaGrantsSQL, reownInheritSQL}.
     answered C (reown_query owner (with_candidates sql)) (says []))"

definition transferred :: "string \<Rightarrow> call_set \<Rightarrow> bool" where
  "transferred owner C \<longleftrightarrow> answered C (reown_query owner (with_candidates reownApplySQL)) succeeded \<and>
     answered C (reown_query owner (with_candidates (reownListSQL 20))) (says [])"

definition handed_over :: "string \<Rightarrow> call_set \<Rightarrow> bool" where
  "handed_over owner C \<longleftrightarrow> answered C (reown_query owner reownSameSQL) (says ''1'') \<or>
     answered C (reown_query owner reownExistsSQL) (says ''1'') \<and>
     (answered C (reown_query owner reownSuperSQL) (says ''1'') \<or> no_grant_missing owner C) \<and> transferred owner C"

lemma lasting_transfer [simp]: "lasting (no_grant_missing owner)" "lasting (transferred owner)"
  by (auto simp: lasting_def no_grant_missing_def transferred_def answered_def)

lemma sure_nothing_missing:
  assumes "ensures k (\<lambda>_. P)" and "keeps grows k"
  shows "ensures (nothing_missing t sql failed missing k)
    (\<lambda>_ C. answered C (reown_query (reown_owner t) (with_candidates sql)) (says []) \<and> P C)"
  unfolding nothing_missing_def
proof (rule ensures_capture(2), goal_cases)
  case (1 stmts)
  show ?case by (auto intro!: ensures_if sure intro: ensures_weaken [OF assms(1)])
qed (auto intro!: keeps_intros assms(2))

lemma sure_checks: "ensures (reown_checks t) (\<lambda>_. no_grant_missing (reown_owner t))"
  unfolding reown_checks_def Let_def
proof (rule ensures_weaken, rule sure_nothing_missing, rule sure_nothing_missing, rule sure_nothing_missing, rule ensures_say(2))
  show True ..
qed (auto simp: no_grant_missing_def intro!: keeps_intros)

lemma sure_run_or_die: "ensures (run_or_die t sql failed) (\<lambda>_ C. answered C (reown_query (reown_owner t) (with_candidates sql)) succeeded)"
  unfolding run_or_die_def
  by (rule ensures_call, rule ensures_second) (auto simp: answered_def intro!: ensures_if ensures_say sure keeps_intros)

lemma sure_transfer: "ensures (reown_transfer t) (\<lambda>_. transferred (reown_owner t))"
proof -
  have left: "ensures (capture_or_die t c msg (\<lambda>left. if left \<noteq> [] then both (say left) (die m) else say ok))
      (\<lambda>_ C. answered C c (says []))" for c msg m ok
    by (rule ensures_capture(2)) (auto intro!: ensures_if ensures_say ensures_second sure keeps_intros)
  have "ensures (reown_transfer t) (\<lambda>_ C. answered C (reown_query (reown_owner t) (with_candidates reownApplySQL)) succeeded \<and>
      answered C (reown_query (reown_owner t) (with_candidates (reownListSQL 20))) (says []))"
    unfolding reown_transfer_def Let_def
    by (rule ensures_second, rule ensures_second, rule ensures_second, rule ensures_both [OF sure_run_or_die left])
      (auto intro!: keeps_intros)
  then show ?thesis by (rule ensures_weaken) (simp add: transferred_def)
qed

lemma sure_handover: "ensures (reownScript t) (\<lambda>_. handed_over (reown_owner t))"
  unfolding reownScript_def Let_def
proof (rule ensures_capture(2), rule ensures_if, rule ensures_say, goal_cases)
  case (1 same C)
  then show ?case by (simp add: handed_over_def)
next
  case (2 same)
  show ?case
  proof (rule ensures_capture(2), rule ensures_if, rule sure, rule ensures_capture(2), goal_cases)
    case (1 exists super)
    have "ensures (if super \<noteq> ''1'' then reown_checks t else nothing) (\<lambda>_ C. super = ''1'' \<or> no_grant_missing (reown_owner t) C)"
      by (rule ensures_if, rule ensures_weaken [OF sure_checks]) (auto intro!: ensures_say)
    then have "ensures (both (if super \<noteq> ''1'' then reown_checks t else nothing) (reown_transfer t))
        (\<lambda>_ C. (super = ''1'' \<or> no_grant_missing (reown_owner t) C) \<and> transferred (reown_owner t) C)"
      by (rule ensures_both [OF _ sure_transfer]) (auto intro!: keeps_intros lasting_or)
    then show ?case
      by (rule ensures_weaken) (use 1 in \<open>auto simp: handed_over_def\<close>)
  qed (auto intro!: keeps_intros)
qed (auto intro!: keeps_intros)

section \<open>What the handover asks\<close>

definition asks :: "tool_call set \<Rightarrow> script_state \<Rightarrow> script_state \<Rightarrow> bool" where
  "asks A s s' \<longleftrightarrow> (\<exists>cs. st_calls s' = st_calls s @ cs \<and> (\<forall>p\<in>set cs. fst p \<in> A))"

interpretation ak: frame "asks A" for A
proof
  show "asks A s t \<Longrightarrow> asks A t u \<Longrightarrow> asks A s u" for s t u
    unfolding asks_def by (metis Un_iff append.assoc set_append)
qed (simp add: asks_def)

lemma asks_call: "c \<in> A \<Longrightarrow> keeps (asks A) (call_tool t c)"
  by (auto simp: keeps_def call_tool_def Let_def asks_def)

lemma asks_say: "keeps (asks A) (say x)"
  by (simp add: keeps_def say_def upd_def asks_def)

lemma asks_each: "keeps (asks A) (each say ls)"
  by (induction ls) (auto intro!: keeps_intros asks_say)

lemma asks_lines: "keeps (asks A) (say x)" "keeps (asks A) nothing" "keeps (asks A) exit1" "keeps (asks A) (die msg)"
  "keeps (asks A) (print_lines out)"
  unfolding nothing_def exit1_def die_def print_lines_def by (intro keeps_intros asks_say asks_each)+

lemma asks_both: "keeps (asks A) f \<Longrightarrow> keeps (asks A) g \<Longrightarrow> keeps (asks A) (both f g)"
  unfolding both_def by (rule ak.keeps_bnd)

lemma asks_capture: "c \<in> A \<Longrightarrow> (\<And>v. keeps (asks A) (k v)) \<Longrightarrow> keeps (asks A) (capture_or_die t c msg k)"
  unfolding capture_or_die_def by (intro ak.keeps_bnd keeps_if asks_call asks_lines)

lemma asks_run: "reown_query (reown_owner t) (with_candidates sql) \<in> A \<Longrightarrow> keeps (asks A) (run_or_die t sql msg)"
  unfolding run_or_die_def by (intro ak.keeps_bnd asks_both keeps_if asks_call asks_lines)

lemmas asks_steps = keeps_if asks_capture asks_both asks_run asks_lines

lemma handover_asks: "keeps (asks (reown_query (reown_owner t) ` set reown_statements)) (reownScript t)"
  unfolding reownScript_def reown_checks_def nothing_missing_def reown_transfer_def Let_def
  by (intro asks_steps) (simp_all add: reown_statements_def)

lemma handover_calls:
  assumes "reownScript t script_start = (x, s)" and "p \<in> set (st_calls s)"
  shows "\<exists>sql\<in>set reown_statements. fst p = reown_query (reown_owner t) sql"
  using keepsD [OF handover_asks assms(1)] assms(2) by (auto simp: asks_def script_start_def)

end
