(* ===== verification/Gate_Evidence.thy ===== *)
theory Gate_Evidence
  imports Gate_Script Job_Evidence Conn_Passfile Conn_Compose
begin

text \<open>
  The retry gate's verdict means what its probe saw. The operator reads nothing but the log; the log of
  a probe passes only when the script ran to its last line, and the script gets there only past the checks
  that its flags ask for. Every other line the script prints stays clear of the pass line.
\<close>

section \<open>What a script that prints the pass line has seen\<close>

definition census_says :: "bool \<Rightarrow> (string \<Rightarrow> bool) \<Rightarrow> call_set \<Rightarrow> bool" where
  "census_says allDatabases P C \<longleftrightarrow> answered C (bounded (censusSQL allDatabases)) (\<lambda>r. succeeded r \<and> P (before_char newline (rp_out r)))"

definition setting_is_local :: "call_set \<Rightarrow> bool" where
  "setting_is_local C \<longleftrightarrow> answered C gate_setting (says ''local'')"

definition commit_went_through :: "bool \<Rightarrow> call_set \<Rightarrow> bool" where
  "commit_went_through allDatabases C \<longleftrightarrow> census_says allDatabases nobody_waits C \<and> answered C commit_probe succeeded"

definition gate_evidence :: "bool \<Rightarrow> gate_inputs \<Rightarrow> call_set \<Rightarrow> bool" where
  "gate_evidence allDatabases inp C \<longleftrightarrow> census_says allDatabases (\<lambda>l. has_prefix l ''gate: census total=0 '') C \<and>
     (ExpectLocal inp \<longrightarrow> setting_is_local C) \<and> (CommitTest inp \<longrightarrow> commit_went_through allDatabases C)"

lemma lasting_gate [simp]: "lasting (census_says a P)" "lasting setting_is_local"
  by (auto simp: lasting_def census_says_def setting_is_local_def answered_def)

context line_frame begin

lemma gate_steps [keeps_intros]: "keeps R (gate_census_step t a)" "keeps R (gate_setting_step t)" "keeps R (gate_commit_step t census)"
  unfolding gate_census_step_def gate_setting_step_def gate_commit_step_def by (intro keeps_intros)+

lemma gate [keeps_intros]: "keeps R (gate_rest t census)" "keeps R (gate_checks t a)"
  unfolding gate_checks_def gate_rest_def by (intro keeps_intros)+

end

lemma sure_census: "ensures (gate_census_step t a) (\<lambda>census C. census = [] \<or> census_says a (\<lambda>l. l = census) C)"
  unfolding gate_census_step_def
  by (rule ensures_call) (auto simp: census_says_def answered_def intro!: ensures_if ensures_skip ensures_ret keeps_intros)

lemma sure_setting: "ensures (gate_setting_step t) (\<lambda>ok C. ok \<longrightarrow> setting_is_local C)"
  unfolding gate_setting_step_def
  by (rule ensures_call)
    (auto simp: setting_is_local_def answered_def says_def intro!: ensures_if ensures_skip ensures_ret keeps_intros)

lemma sure_commit: "ensures (gate_commit_step t census) (\<lambda>ok C. ok \<longrightarrow> nobody_waits census \<and> answered C commit_probe succeeded)"
  unfolding gate_commit_step_def
proof (rule ensures_if, goal_cases)
  case 1
  show ?case
    by (rule ensures_call) (use 1 in \<open>auto simp: answered_def intro!: ensures_if ensures_skip ensures_ret keeps_intros\<close>)
qed (auto intro!: ensures_if ensures_skip ensures_ret keeps_intros)

lemma nobody_waits_nonempty: "nobody_waits census \<Longrightarrow> census \<noteq> []"
  by (auto simp: nobody_waits_def cut_prefix_def has_prefix_def)

lemma sure_gate:
  assumes "pod_var t ''GATE_COMMIT_TEST'' = gateFlag (CommitTest inp)" and "pod_var t ''GATE_EXPECT_LOCAL'' = gateFlag (ExpectLocal inp)"
  shows "ensures (gate_checks t a) (\<lambda>ok C. ok \<longrightarrow> gate_evidence a inp C)"
  unfolding gate_checks_def gate_rest_def
proof (rule ensures_bnd [OF sure_census], goal_cases)
  case (1 census)
  let ?setting = "\<lambda>ok C. ok \<longrightarrow> ExpectLocal inp \<longrightarrow> setting_is_local C"
  let ?commit = "\<lambda>ok C. ok \<longrightarrow> CommitTest inp \<longrightarrow> nobody_waits census \<and> answered C commit_probe succeeded"
  have setting: "ensures (if pod_var t ''GATE_EXPECT_LOCAL'' = ''1'' then gate_setting_step t else ret True) ?setting"
    using assms(2) by (auto simp: gateFlag_def intro!: ensures_ret intro: ensures_weaken [OF sure_setting])
  have commit: "ensures (if pod_var t ''GATE_COMMIT_TEST'' = ''1'' then gate_commit_step t census else ret True) ?commit"
    using assms(1) by (auto simp: gateFlag_def intro!: ensures_ret intro: ensures_weaken [OF sure_commit])
  have last: "ensures (ret (has_prefix census ''gate: census total=0 '' \<and> setting \<and> committed))
     (\<lambda>ok C. ?commit committed C \<longrightarrow> ?setting setting C \<longrightarrow> census = [] \<or> census_says a (\<lambda>l. l = census) C \<longrightarrow>
        ok \<longrightarrow> gate_evidence a inp C)" for setting committed
    by (rule ensures_ret)
      (auto simp: gate_evidence_def commit_went_through_def census_says_def answered_def has_prefix_def dest: nobody_waits_nonempty)
  show ?case
  proof (rule ensures_bnd [OF setting], rule ensures_bnd [OF commit last], goal_cases)
    case 2
    show ?case by (auto simp: lasting_def answered_def)
  next
    case (4 ok)
    show ?case by (cases ok; cases "ExpectLocal inp") simp_all
  qed (intro keeps_intros)+
next
  case (3 census)
  show ?case by (cases "census = []") simp_all
qed (intro keeps_intros)

section \<open>Every other line stays clear of the pass line\<close>

definition clear_line :: "string \<Rightarrow> bool" where
  "clear_line l \<longleftrightarrow> newline \<notin> set l \<and> \<not> has_prefix l ''gate: p''"

text \<open>What psql prints of the census: only lines of its two formats.\<close>

definition census_lines :: "string \<Rightarrow> bool" where
  "census_lines out \<longleftrightarrow> (\<forall>l\<in>set (split_on newline out). l = [] \<or> has_prefix l ''gate: census '' \<or> has_prefix l ''gate: session '')"

definition plain_answers :: "tools \<Rightarrow> bool \<Rightarrow> bool" where
  "plain_answers t allDatabases \<longleftrightarrow> (\<forall>h. census_lines (rp_out (answer t h (bounded (censusSQL allDatabases)))) \<and>
     newline \<notin> set (captured (answer t h gate_setting)))"

definition prints_clear :: "script_state \<Rightarrow> script_state \<Rightarrow> bool" where
  "prints_clear s s' \<longleftrightarrow> (\<exists>ls. st_out s' = st_out s @ ls \<and> list_all clear_line ls)"

interpretation pc: frame prints_clear
  by unfold_locales (force simp: prints_clear_def)+

lemma clear_say: "clear_line l \<Longrightarrow> keeps prints_clear (say l)"
  by (simp add: keeps_def say_def upd_def prints_clear_def)

lemma clear_answer: "(\<And>h. keeps prints_clear (k (answer t h c))) \<Longrightarrow> keeps prints_clear (bnd (call_tool t c) k)"
proof (rule keepsI)
  fix s q s'
  assume k: "\<And>h. keeps prints_clear (k (answer t h c))" and run: "bnd (call_tool t c) k s = (q, s')"
  then have "k (answer t (st_calls s) c) (s\<lparr>st_calls := st_calls s @ [(c, answer t (st_calls s) c)]\<rparr>) = (q, s')"
    by (simp add: bnd_def call_tool_def Let_def)
  from keepsD [OF k this] show "prints_clear s s'"
    by (simp add: prints_clear_def)
qed

lemma split_on_lines: "l \<in> set (split_on c s) \<Longrightarrow> c \<notin> set l"
  by (induction s arbitrary: l) (auto split: if_splits list.splits)

lemma split_on_butlast: "s \<noteq> [] \<Longrightarrow> last s = c \<Longrightarrow> set (split_on c (butlast s)) \<subseteq> set (split_on c s)"
  using split_on_append [of c "[]" "butlast s"] by (metis append_butlast_last_id empty_iff set_append list.set(1) Un_upper1)

lemma census_line_clear: "newline \<notin> set l \<Longrightarrow> l = [] \<or> has_prefix l ''gate: census '' \<or> has_prefix l ''gate: session '' \<Longrightarrow> clear_line l"
  by (auto simp: clear_line_def has_prefix_iff)

lemma clear_print: "census_lines out \<Longrightarrow> keeps prints_clear (print_lines out)"
  unfolding print_lines_def
proof (cases "out = []")
  case False
  assume out: "census_lines out"
  let ?body = "if last out = newline then butlast out else out"
  have "set (split_on newline ?body) \<subseteq> set (split_on newline out)"
    using False split_on_butlast by auto
  with out have "clear_line l" if "l \<in> set (split_on newline ?body)" for l
    using that split_on_lines [OF that] by (intro census_line_clear) (auto simp: census_lines_def)
  then show "keeps prints_clear (if out = [] then nothing else each say (split_on newline ?body))"
    using False by (auto intro!: pc.keeps_each clear_say)
qed (simp add: nothing_def pc.keeps_ret)

lemma safe_error_one_line: "newline \<notin> set (safe_error e)"
  by (auto simp: safe_error_def Let_def dest!: in_set_takeD)

lemma show_nat_one_line: "newline \<notin> set (show_nat n)"
  using show_nat_digits [of newline n] by (auto simp: digit_val_def)

lemma gate_why_one_line: "newline \<notin> set (gate_why r)"
  unfolding gate_why_def Let_def using safe_error_one_line show_nat_one_line by auto

lemma cut_parts: "cut s sub = Some (a, b) \<Longrightarrow> set a \<subseteq> set s \<and> set b \<subseteq> set s"
  by (induction s sub arbitrary: a rule: cut.induct) (auto split: if_splits dest: in_set_dropD)

lemma after_first_one_line: "newline \<notin> set s \<Longrightarrow> newline \<notin> set (after_first sub s)"
  using cut_parts [of s sub] by (auto simp: after_first_def split: option.splits)

lemma after_last_one_line: "newline \<notin> set s \<Longrightarrow> newline \<notin> set (after_last_of sub s)"
  using cut_parts [of "rev s" "rev sub"] by (auto simp: after_last_of_def split: option.splits)

lemma waits_for_one_line: "newline \<notin> set census \<Longrightarrow> newline \<notin> set (waits_for census)"
  unfolding waits_for_def Let_def
  using before_char_subset [of "CHR '' ''" "after_first '' syncrep='' census"]
    after_first_one_line [of census] after_last_one_line [of census] by auto

lemma clear_setting: "plain_answers t a \<Longrightarrow> keeps prints_clear (gate_setting_step t)"
  unfolding gate_setting_step_def
  by (rule clear_answer)
    (auto simp: clear_line_def has_prefix_def plain_answers_def gate_why_one_line intro!: pc.keeps_bnd pc.keeps_ret clear_say)

lemma clear_commit: "newline \<notin> set census \<Longrightarrow> keeps prints_clear (gate_commit_step t census)"
  unfolding gate_commit_step_def
  by (auto simp: clear_line_def has_prefix_def gate_why_one_line waits_for_one_line
      intro!: pc.keeps_bnd pc.keeps_ret clear_say clear_answer)

text \<open>The census is one line, so what is printed of it later is too.\<close>

lemma clear_rest: "plain_answers t a \<Longrightarrow> newline \<notin> set census \<Longrightarrow> keeps prints_clear (gate_rest t census)"
  unfolding gate_rest_def by (auto intro!: pc.keeps_bnd pc.keeps_ret clear_commit clear_setting)

lemma bnd_laws:
  "bnd (bnd f g) k = bnd f (\<lambda>x. bnd (g x) k)" "bnd (ret x) h = h x"
  by (auto simp: bnd_def ret_def fun_eq_iff split: prod.splits sum.splits)

lemma clear_checks: "plain_answers t a \<Longrightarrow> keeps prints_clear (gate_checks t a)"
proof -
  assume plain: "plain_answers t a"
  have "keeps prints_clear (bnd (if succeeded r then bnd (print_lines (rp_out r)) (\<lambda>_. ret (before_char newline (rp_out r)))
      else bnd (say (''gate: census failed '' @ gate_why r)) (\<lambda>_. ret [])) (gate_rest t))" if "census_lines (rp_out r)" for r
    using that clear_rest [OF plain] by (auto simp: clear_line_def has_prefix_def gate_why_one_line before_char_notin bnd_laws
        intro!: pc.keeps_bnd clear_say clear_print)
  then show ?thesis
    using plain unfolding gate_checks_def gate_census_step_def bnd_laws
    by (intro clear_answer) (simp add: plain_answers_def)
qed

section \<open>The verdict of the log\<close>

definition pod_log :: "script_state \<Rightarrow> string" where
  "pod_log s = concat (map (\<lambda>l. l @ [newline]) (st_out s))"

lemma split_pod_log: "(\<And>l. l \<in> set ls \<Longrightarrow> newline \<notin> set l) \<Longrightarrow> split_on newline (concat (map (\<lambda>l. l @ [newline]) ls)) = ls @ [[]]"
  by (induction ls) (simp_all add: split_on_line)

lemma trimmed_prefix: "trim_right_char c l = p \<Longrightarrow> has_prefix l p"
proof -
  assume "trim_right_char c l = p"
  then have "rev l = takeWhile (\<lambda>x. x = c) (rev l) @ rev p"
    unfolding trim_right_char_def by (metis rev_rev_ident takeWhile_dropWhile_id)
  then have "l = p @ rev (takeWhile (\<lambda>x. x = c) (rev l))"
    by (metis rev_append rev_rev_ident)
  then show ?thesis
    unfolding has_prefix_iff by blast
qed

lemma clear_log_does_not_pass:
  assumes "list_all clear_line (st_out s)"
  shows "\<not> passed (parseGateLog (pod_log s)) inp"
proof
  assume "passed (parseGateLog (pod_log s)) inp"
  from passed_has_pass_line [OF this] obtain l where l: "l \<in> set (st_out s @ [[]])" "trim_right_char (CHR 0x0D) l = ''gate: pass''"
    using assms unfolding pod_log_def by (subst (asm) split_pod_log) (auto simp: list_all_iff clear_line_def)
  then have "has_prefix l ''gate: p''"
    using trimmed_prefix [OF l(2)] by (auto simp: has_prefix_iff)
  with l(1) assms show False
    by (auto simp: list_all_iff clear_line_def has_prefix_def)
qed

lemma gate_flags_valid: "gate_flag_valid (gateFlag b)"
  by (simp add: gate_flag_valid_def gateFlag_def)

lemma gate_checked:
  assumes "pod_var t ''GATE_COMMIT_TEST'' = gateFlag (CommitTest inp)" and "pod_var t ''GATE_EXPECT_LOCAL'' = gateFlag (ExpectLocal inp)"
  shows "gateScript t a = bnd (gate_checks t a) (\<lambda>ok. if ok then say ''gate: pass'' else exit1)"
  using assms by (simp add: gateScript_def gate_flags_valid)

lemma gate_stops_clear:
  assumes "plain_answers t a" and "gate_checks t a script_start = (q, s)"
  shows "list_all clear_line (st_out s)"
  using keepsD [OF clear_checks [OF assms(1)] assms(2)] by (auto simp: prints_clear_def script_start_def)

text \<open>Only the last step prints the pass line, so a log with it comes from a run that took it.\<close>

lemma gate_run_verdict:
  assumes "pod_var t ''GATE_COMMIT_TEST'' = gateFlag (CommitTest inp)" and "pod_var t ''GATE_EXPECT_LOCAL'' = gateFlag (ExpectLocal inp)"
    and "plain_answers t a" and "gateScript t a script_start = (r, s)" and "passed (parseGateLog (pod_log s)) inp"
  shows "r = Inr () \<and> gate_evidence a inp (set (st_calls s))"
proof -
  obtain q u where checks: "gate_checks t a script_start = (q, u)" by fastforce
  have "list_all clear_line (st_out u)"
    by (rule gate_stops_clear [OF assms(3) checks])
  with clear_log_does_not_pass assms(5) have "s \<noteq> u" by blast
  with assms(4) checks have q: "q = Inr True" and s: "s = u\<lparr>st_out := st_out u @ [''gate: pass'']\<rparr>" and r: "r = Inr ()"
    unfolding gate_checked [OF assms(1,2)]
    by (auto simp: bnd_def exit1_def raise_def say_def upd_def split: sum.splits if_splits)
  have "gate_evidence a inp (set (st_calls u))"
    using ensures_run [OF sure_gate [OF assms(1,2)] sf.gate(2)] checks q by blast
  with r s show ?thesis by simp
qed

end
