(* ===== verification/Pod_Scripts.thy ===== *)
theory Pod_Scripts
  imports Job_Runs Worker_Exec
begin

text \<open>
  The scripts an exec runs in the worker pod (\<^verbatim>\<open>progress.go\<close>, \<^verbatim>\<open>sentinel.go\<close>) on the machine of \<open>Script_Shell\<close>:
  the progress sample of one database and of an instance, the sentinel sample, the endpos and the nudge.
  Their standard output is what the parsers of \<open>Progress_Sample\<close> and \<open>Sentinel\<close> read. The
  shell text of the version gate on \<^verbatim>\<open>list progress\<close> is here too, and the guard a retry runs before
  pgcopydb. The recovery of the URIs before each of these scripts is \<open>URIRecover\<close>.
\<close>

section \<open>The version gate\<close>

definition versionPrefix :: string where "versionPrefix = ''pgcopydb version ''"

definition GateScript_progress :: "string list \<Rightarrow> string" where
  "GateScript_progress allowed = (if allowed = [] then [] else (join [
      ''v=$(pgcopydb --version | head -n 1)'',
      ''v=$'' @ ''{'' @ ''v#'' @ versionPrefix @ ''}'',
      ''case \"$v\" in'',
      ''('' @ join allowed ''|'' @ '') pgcopydb list progress --json --dir '' @ WorkDir @ '' ;;'',
      ''esac'',
      []] [newline]))"

section \<open>Queries with a time limit\<close>

text \<open>\<^verbatim>\<open>progress_sql\<close> and \<^verbatim>\<open>syncrep_sql\<close>: one transaction, its server-side limit in milliseconds first.\<close>

definition limited :: "string \<Rightarrow> db \<Rightarrow> string \<Rightarrow> tool_call" where
  "limited ms d sql = Query d (''SET LOCAL statement_timeout = '' @ ms @ [newline] @ sql) []"

definition progress_sql :: "db \<Rightarrow> string \<Rightarrow> tool_call" where
  "progress_sql = limited ''5000''"

definition syncrep_sql :: "db \<Rightarrow> string \<Rightarrow> tool_call" where
  "syncrep_sql = limited ''2000''"

text \<open>\<^verbatim>\<open>why\<close>: psql's message on one line, cut to 300 characters.\<close>

definition sample_why :: "tool_reply \<Rightarrow> string" where
  "sample_why r = take 300 (map (\<lambda>c. if c = newline then CHR '' '' else c) (rp_err r))"

text \<open>What a query gave, nothing when it failed; a side that failed names its cause.\<close>

definition figures :: "tool_reply \<Rightarrow> string" where
  "figures r = (if succeeded r then captured r else [])"

definition ask_side :: "tools \<Rightarrow> string \<Rightarrow> tool_call \<Rightarrow> string step_of" where
  "ask_side t side c = bnd (call_tool t c) (\<lambda>r.
     bnd (on (\<not> succeeded r) (say (side @ ''_error='' @ sample_why r))) (\<lambda>_. ret (figures r)))"

section \<open>The progress sample\<close>

definition SamplerMarker :: string where "SamplerMarker = ''/* pgcopydb-operator progress sample */''"

definition stageSQL :: string where
  "stageSQL = (join [
      ''select'',
      ''  count(*) filter (where application_name ilike '%copy worker%'' @ sq,
      ''                      or (state = 'active' and query ilike 'copy %')) || ' ' ||'',
      ''  count(*) filter (where state = 'active'' @ sq,
      ''                     and application_name not ilike '%copy worker%'' @ sq,
      ''                     and query not ilike 'copy %') || ' ' ||'',
      ''  count(*) filter (where application_name ilike '%index worker%'' @ sq,
      ''                      or application_name ilike '%vacuum worker%')'',
      ''from pg_stat_activity'',
      ''where application_name like 'pgcopydb%' and client_addr = inet_client_addr()''] [newline])"

definition syncRepStatement :: "string \<Rightarrow> string \<Rightarrow> string" where
  "syncRepStatement waitType waitEvent = (join [
      ''select count(*) || ' ' ||'',
      ''  coalesce(floor(extract(epoch from max(clock_timestamp() - query_start)))::bigint, 0) '' @
      ''|| ' ' ||'',
      ''  count(*) filter (where application_name like '' @ sq @ PgcopydbAppNameLike @ sq @ '')'',
      ''from pg_stat_activity'',
      ''where usename = session_user'',
      ''  and wait_event_type = '' @ sq @ waitType @ sq @ '' and wait_event = '' @ sq @ waitEvent @ sq,
      ''  and pid <> pg_backend_pid()''] [newline])"

text \<open>The stage and the SyncRep count come first; a stage that failed prints nothing and names no cause.\<close>

definition sample_head :: "tools \<Rightarrow> (string \<Rightarrow> string \<Rightarrow> unit step_of) \<Rightarrow> unit step_of" where
  "sample_head t k = bnd (call_tool t (progress_sql tgt_db stageSQL)) (\<lambda>g.
     bnd (ask_side t syncRepKey (syncrep_sql tgt_db (syncRepStatement ''IPC'' ''SyncRep''))) (\<lambda>r. k (figures g) r))"

definition populatedSQL :: string where
  "populatedSQL = (''query_to_xml(format('select 1 from %I.%I limit 1', t.nspname, t.relname), false, true, '' @ sq @
    sq @ '')::text <> '' @ sq @ sq)"

definition presentSQL :: string where
  "presentSQL = (''case when t.copying then false else '' @ populatedSQL @ '' end'')"

definition sampleTables :: string where
  "sampleTables = (join [
      ''from pg_class c'',
      ''  join pg_namespace n on n.oid = c.relnamespace''] [newline])"

definition sampleUserTables :: string where
  "sampleUserTables = (join [
      ''where c.relkind = 'r'' @ sq,
      ''    and n.nspname not in ('pg_catalog', 'information_schema')'',
      ''    and n.nspname not like 'pg_toast%'' @ sq] [newline])"

definition sampleRow :: string where
  "sampleRow = (join [
      ''pg_database_size(current_database()) || ' ' ||'',
      ''  (select count(*) from t) || ' ' ||'',
      ''  (select count(*) from t where '' @ presentSQL @ '') || ' ' ||'',
      ''  (select count(*) from pg_index i where i.indrelid in (select oid from t)) || ' ' ||'',
      ''  (select coalesce(sum(t.bytes), 0) from t)''] [newline])"

definition sampleCopies :: string where
  "sampleCopies = (join [
      ''select pid, relid, bytes_processed from pg_stat_progress_copy'',
      ''    where command = '' @ sq @ sq @ ''COPY FROM'' @ sq @ sq @
      '' and relid <> 0 and datname = current_database()''] [newline])"

definition sampleNone :: string where
  "sampleNone = (''select 0 as pid, 0::oid as relid, 0::bigint as bytes_processed where false'')"

definition targetSampleSQL :: string where
  "targetSampleSQL = (join [
      SamplerMarker @
      '' with mine as (select pid, application_name ilike '%copy worker%' or query ilike 'copy '' @
      ''%' as copier'',
      ''    from pg_stat_activity where application_name like 'pgcopydb%' and client_addr = '' @
      ''inet_client_addr()),'',
      ''  copying as (select x.relid, sum(x.bytes_processed) as bytes'',
      ''    from xmltable('/table/row' passing query_to_xml(case when '' @
      ''to_regclass('pg_catalog.pg_stat_progress_copy') is null then '' @ sq @ sampleNone @ sq @
      '' else '' @ sq @ sampleCopies @ sq @ '' end, false, false, '' @ sq @ sq @ '')'',
      ''      columns pid integer, relid oid, bytes_processed bigint) x'',
      ''    where x.pid in (select pid from mine) group by x.relid),'',
      ''  exclusive as (select distinct l.relation from pg_locks l'',
      ''    where l.locktype = 'relation' and l.mode = 'AccessExclusiveLock' and l.granted and '' @
      ''l.pid in (select pid from mine where copier)'',
      ''      and l.database = (select d.oid from pg_database d where d.datname = '' @
      ''current_database())),'',
      ''  t as (select c.oid, n.nspname, c.relname, k.relid is not null or e.relation is not '' @
      ''null as copying,'',
      ''      case when e.relation is not null then coalesce(k.bytes, 0) else '' @
      ''pg_table_size(c.oid) end as bytes '' @ sampleTables,
      ''    left join copying k on k.relid = c.oid'',
      ''    left join exclusive e on e.relation = c.oid '' @ sampleUserTables @ '')'',
      ''  select '' @ sampleRow @
      '', (select coalesce(string_agg('(' || quote_literal(t.nspname || '.' || t.relname) || '' @ sq @
      '',' || ('' @ presentSQL @ '')::text || ')', ','), '' @ sq @ sq @ '') from t)''] [newline])"

text \<open>What the target said of each of its tables, as a table of the source query; after the first bar of the row.\<close>

definition landed_of :: "string \<Rightarrow> string" where
  "landed_of row = (case cut row ''|'' of
       Some (_, names) \<Rightarrow> if names = [] then ''select null::text, false where false'' else ''values '' @ names
     | None \<Rightarrow> ''select null::text, false where false'')"

definition sourceSampleSQL :: "string \<Rightarrow> string" where
  "sourceSampleSQL landed = (join [
      SamplerMarker @
      '' with t as (select c.oid, n.nspname, c.relname, landed.populated, false as copying, '' @
      ''pg_table_size(c.oid) as bytes '' @ sampleTables,
      ''    join ('' @ landed @
      '') as landed(name, populated) on landed.name = n.nspname || '.' || c.relname '' @
      sampleUserTables @ '')'',
      ''  select '' @ sampleRow @
      '' || ' ' || (select count(*) || '|' || coalesce(string_agg(t.nspname || '.' || '' @
      ''t.relname, ', ' order by t.nspname, t.relname), '' @ sq @ sq @ '')'',
      ''    from t where not t.populated and '' @ populatedSQL @ '')''] [newline])"

definition sampleScript :: "tools \<Rightarrow> unit step_of" where
  "sampleScript t = sample_head t (\<lambda>g r.
     bnd (ask_side t targetSide (progress_sql tgt_db targetSampleSQL)) (\<lambda>tgt.
     bnd (ask_side t sourceSide (progress_sql src_db (sourceSampleSQL (landed_of tgt)))) (\<lambda>src.
     each say [''stage='' @ g, ''source='' @ before_char (CHR ''|'') src, ''target='' @ before_char (CHR ''|'') tgt,
       ''owed='' @ after_first ''|'' src, ''syncrep='' @ r])))"

text \<open>An instance has sizes only; the zeros keep the format of the rows.\<close>

definition instanceRow :: string where
  "instanceRow = (''select sum(pg_database_size(oid)) || ' 0 0 0 0'' @ sq)"

definition instanceDatabases :: string where
  "instanceDatabases = (''from pg_database where datname not in ('template0', 'template1')'')"

definition allDatabasesSampleScript :: "tools \<Rightarrow> unit step_of" where
  "allDatabasesSampleScript t = sample_head t (\<lambda>g r.
     bnd (ask_side t sourceSide (progress_sql src_db (instanceRow @ '' || ' 0' '' @ instanceDatabases))) (\<lambda>src.
     bnd (ask_side t targetSide (progress_sql tgt_db (instanceRow @ '' '' @ instanceDatabases))) (\<lambda>tgt.
     each say [''stage='' @ g, ''source='' @ src, ''target='' @ tgt, ''syncrep='' @ r])))"

section \<open>The sentinel\<close>

text \<open>psql goes on with the second statement when the first fails; the script always exits 0.\<close>

definition sourceHeadSQL :: string where
  "sourceHeadSQL = (''select 'source_head=' || pg_current_wal_flush_lsn()'')"

definition slotSampleSQL :: "string \<Rightarrow> string" where
  "slotSampleSQL slot = (''select 'write_lsn=' || coalesce(coalesce(r.write_lsn, s.confirmed_flush_lsn)::text, '' @ sq @
    sq @ ''), 'replay_lsn=' || coalesce(coalesce(r.replay_lsn, s.confirmed_flush_lsn)::text, '' @ sq @
    sq @ '') '' @
    ''from pg_replication_slots s left join pg_stat_replication r on r.pid = s.active_pid '' @
    ''where s.slot_name = '' @ sq @ slot @ sq)"

definition readScript :: "tools \<Rightarrow> string \<Rightarrow> unit step_of" where
  "readScript t slot = bnd (call_tool t (Query src_db sourceHeadSQL [])) (\<lambda>h.
     bnd (print_lines (rp_out h)) (\<lambda>_.
     bnd (call_tool t (Query src_db (slotSampleSQL slot) [])) (\<lambda>w. print_lines (rp_out w))))"

definition set_endpos_script :: "tools \<Rightarrow> unit step_of" where
  "set_endpos_script t = bnd (call_tool t (Run [''pgcopydb'', ''stream'', ''sentinel'', ''set'', ''endpos'', ''--current'',
       ''--source'', pod_var t ''PGCOPYDB_SOURCE_PGURI'', ''--dir'', WorkDir])) (\<lambda>r.
     bnd (print_lines (rp_out r)) (\<lambda>_. if succeeded r then nothing else exit1))"

definition nudge_script :: "tools \<Rightarrow> unit step_of" where
  "nudge_script t = bnd (call_tool t (Query src_db (''select pg_logical_emit_message(false, 'pgcopydb-operator', 'endpos-nudge')'') [])) (\<lambda>r.
     bnd (print_lines (rp_out r)) (\<lambda>_. if succeeded r then nothing else exit1))"

fun run_pod_script :: "tools \<Rightarrow> pod_script \<Rightarrow> unit step_of" where
  "run_pod_script t (SentinelRead slot) = readScript t slot"
| "run_pod_script t SetEndposCurrentScript = set_endpos_script t"
| "run_pod_script t NudgeEndposScript = nudge_script t"
| "run_pod_script t (ProgressScript allDatabases) = (if allDatabases then allDatabasesSampleScript t else sampleScript t)"

section \<open>What a worker runs before pgcopydb\<close>

definition publicationRetryDollarTag :: string where "publicationRetryDollarTag = ''$publication_retry$''"

definition publicationGuardSQL :: "string \<Rightarrow> string" where
  "publicationGuardSQL slot = (join [
      ''DO '' @ publicationRetryDollarTag,
      ''BEGIN'',
      ''  IF EXISTS (SELECT 1 FROM pg_catalog.pg_replication_slots WHERE slot_name = '' @ sq @ slot @
      sq @ '') THEN'',
      ''    IF NOT EXISTS (SELECT 1 FROM pg_catalog.pg_publication WHERE pubname = '' @ sq @ slot @
      sq @ '') THEN'',
      ''      RAISE EXCEPTION 'publication retry refused: source slot \"'' @ slot @
      ''\" exists but auto publication \"'' @ slot @ ''\" is missing';'',
      ''    END IF;'',
      ''  ELSE'',
      ''    DROP PUBLICATION IF EXISTS \"'' @ slot @ ''\";'',
      ''  END IF;'',
      ''END;'',
      publicationRetryDollarTag @ '';'',
      []] [newline])"

text \<open>The prelude runs under \<^verbatim>\<open>set -e\<close>: a step that fails ends the pod.\<close>

fun setup_call :: "setup_step \<Rightarrow> tool_call" where
  "setup_call (RunPgcopydb args) = Run (''pgcopydb'' # args)"
| "setup_call (PublicationGuard slot) = Query src_db (publicationGuardSQL slot) []"

definition run_or_exit :: "tools \<Rightarrow> tool_call \<Rightarrow> unit step_of" where
  "run_or_exit t c = bnd (call_tool t c) (\<lambda>r. bnd (print_lines (rp_out r)) (\<lambda>_. if succeeded r then nothing else exit1))"

definition run_pod :: "tools \<Rightarrow> job \<Rightarrow> unit step_of" where
  "run_pod t j = both (each (\<lambda>s. run_or_exit t (setup_call s)) (js_setup (j_spec j))) (run_job t j)"

end
