(* ===== verification/Pod_Evidence.thy ===== *)
theory Pod_Evidence
  imports Pod_Scripts Gate_Evidence
begin

text \<open>
  What the operator reads off a progress sample is what the databases answered: the script that prints
  the lines and the parser that reads them agree, whichever of the four queries fail. And a
  worker that retries starts pgcopydb only after the steps before it succeeded.
\<close>

section \<open>The lines of a sample\<close>

definition error_line :: "string \<Rightarrow> tool_reply \<Rightarrow> string list" where
  "error_line side a = (if succeeded a then [] else [side @ ''_error='' @ sample_why a])"

lemma ask_side_run: "ask_side t side c s = (let a = answer t (st_calls s) c
    in (Inr (figures a), s\<lparr>st_calls := st_calls s @ [(c, a)], st_out := st_out s @ error_line side a\<rparr>))"
  by (simp add: ask_side_def call_tool_def bnd_def on_def say_def upd_def nothing_def ret_def Let_def error_line_def)

lemma say_each: "each say ls s = (Inr (), s\<lparr>st_out := st_out s @ ls\<rparr>)"
  by (induction ls arbitrary: s) (simp_all add: bnd_def ret_def say_def upd_def)

text \<open>The replies in the order stage, SyncRep count, target, source; an instance asks the source before the target.\<close>

definition sides_asked :: "bool \<Rightarrow> tool_reply \<Rightarrow> tool_reply \<Rightarrow> tool_reply \<Rightarrow> tool_reply \<Rightarrow> tool_history" where
  "sides_asked allDatabases g w tgt src = [(progress_sql tgt_db stageSQL, g), (syncrep_sql tgt_db (syncRepStatement ''IPC'' ''SyncRep''), w)] @
     (if allDatabases
      then [(progress_sql src_db (instanceRow @ '' || ' 0' '' @ instanceDatabases), src), (progress_sql tgt_db (instanceRow @ '' '' @ instanceDatabases), tgt)]
      else [(progress_sql tgt_db targetSampleSQL, tgt), (progress_sql src_db (sourceSampleSQL (landed_of (figures tgt))), src)])"

lemma sides_replies: "snd ` set (sides_asked a g w tgt src) = {g, w, tgt, src}"
  by (cases a) (simp_all add: sides_asked_def insert_commute)

definition sample_printed :: "bool \<Rightarrow> tool_reply \<Rightarrow> tool_reply \<Rightarrow> tool_reply \<Rightarrow> tool_reply \<Rightarrow> string list" where
  "sample_printed allDatabases g w tgt src = error_line syncRepKey w @
     (if allDatabases
      then error_line sourceSide src @ error_line targetSide tgt @
        [''stage='' @ figures g, ''source='' @ figures src, ''target='' @ figures tgt, ''syncrep='' @ figures w]
      else error_line targetSide tgt @ error_line sourceSide src @
        [''stage='' @ figures g, ''source='' @ before_char (CHR ''|'') (figures src), ''target='' @ before_char (CHR ''|'') (figures tgt),
         ''owed='' @ after_first ''|'' (figures src), ''syncrep='' @ figures w])"

lemma sample_run:
  assumes "run_pod_script t (ProgressScript a) script_start = (r, s)"
  obtains g w tgt src where "r = Inr ()" and "st_calls s = sides_asked a g w tgt src" and "st_out s = sample_printed a g w tgt src"
proof -
  let ?done = "\<lambda>g w tgt src. r = Inr () \<and> st_calls s = sides_asked a g w tgt src \<and> st_out s = sample_printed a g w tgt src"
  note steps = sample_head_def ask_side_run say_each bnd_def call_tool_def Let_def script_start_def sides_asked_def sample_printed_def
  have "\<exists>g w tgt src. ?done g w tgt src"
  proof (cases a)
    case True
    with assms show ?thesis
      by (auto simp: allDatabasesSampleScript_def steps simp del: each.simps)
  next
    case False
    with assms show ?thesis
      by (auto simp: sampleScript_def steps simp del: each.simps)
  qed
  then show thesis using that by blast
qed

section \<open>What the parser makes of them\<close>

definition note_reason :: "string \<Rightarrow> tool_reply \<Rightarrow> (string \<rightharpoonup> string) \<Rightarrow> (string \<rightharpoonup> string)" where
  "note_reason side a m = (if succeeded a then m else m(side \<mapsto> serverReason (trim_space (sample_why a))))"

definition heard :: "bool \<Rightarrow> tool_reply \<Rightarrow> tool_reply \<Rightarrow> tool_reply \<Rightarrow> tool_reply \<Rightarrow> sample_lines" where
  "heard allDatabases g w tgt src = (let row = (if allDatabases then figures else (\<lambda>a. before_char (CHR ''|'') (figures a)))
     in \<lparr>sl_src = parseFields (row src), sl_tgt = parseFields (row tgt), sl_syncRep = parseFields (figures w),
         sl_owed = (if allDatabases then [] else trim_space (after_first ''|'' (figures src))), sl_stage = parseStage (figures g),
         sl_reasons = note_reason sourceSide src (note_reason targetSide tgt (note_reason syncRepKey w Map.empty))\<rparr>)"

lemma sample_line_values:
  "sample_line acc (''stage='' @ v) = acc\<lparr>sl_stage := parseStage v\<rparr>"
  "sample_line acc (''source='' @ v) = acc\<lparr>sl_src := parseFields v\<rparr>"
  "sample_line acc (''target='' @ v) = acc\<lparr>sl_tgt := parseFields v\<rparr>"
  "sample_line acc (''owed='' @ v) = acc\<lparr>sl_owed := trim_space v\<rparr>"
  "sample_line acc (''syncrep='' @ v) = acc\<lparr>sl_syncRep := parseFields v\<rparr>"
  "sample_line acc [] = acc"
  by (simp_all add: sample_line_def cut_prefix_def has_prefix_def)

lemma sample_line_errors:
  "foldl sample_line acc (error_line sourceSide a) = acc\<lparr>sl_reasons := note_reason sourceSide a (sl_reasons acc)\<rparr>"
  "foldl sample_line acc (error_line targetSide a) = acc\<lparr>sl_reasons := note_reason targetSide a (sl_reasons acc)\<rparr>"
  "foldl sample_line acc (error_line syncRepKey a) = acc\<lparr>sl_reasons := note_reason syncRepKey a (sl_reasons acc)\<rparr>"
  by (simp_all add: error_line_def note_reason_def sample_line_def cut_prefix_def has_prefix_def sourceSide_def targetSide_def syncRepKey_def)

lemma note_reason_twist: "sa \<noteq> sb \<Longrightarrow> note_reason sa a (note_reason sb b m) = note_reason sb b (note_reason sa a m)"
  by (auto simp: note_reason_def fun_upd_twist)

lemma sample_heard: "foldl sample_line no_lines (sample_printed a g w tgt src @ [[]]) = heard a g w tgt src"
proof -
  have "targetSide \<noteq> sourceSide" by (simp add: targetSide_def sourceSide_def)
  note twist = note_reason_twist [OF this]
  show ?thesis
    by (simp add: sample_printed_def heard_def sample_line_values [simplified] sample_line_errors no_lines_def twist Let_def)
qed

lemma one_line_parts: "newline \<notin> set (figures a) \<Longrightarrow> newline \<notin> set (before_char c (figures a))"
    "newline \<notin> set (figures a) \<Longrightarrow> newline \<notin> set (after_first sub (figures a))"
    "newline \<notin> set (sample_why a)"
  using before_char_subset after_first_one_line by (auto simp: sample_why_def dest!: in_set_takeD)

lemma sample_read:
  assumes "st_out s = sample_printed a g w tgt src" and "\<And>x. x \<in> {g, w, tgt, src} \<Longrightarrow> newline \<notin> set (figures x)"
  shows "parseSample_progress (pod_log s) = sample_of_lines (heard a g w tgt src)"
proof -
  have error: "\<forall>l\<in>set (error_line sourceSide x). newline \<notin> set l" "\<forall>l\<in>set (error_line targetSide x). newline \<notin> set l"
    "\<forall>l\<in>set (error_line syncRepKey x). newline \<notin> set l" for x
    using one_line_parts(3) [of x] by (simp_all add: error_line_def sourceSide_def targetSide_def syncRepKey_def)
  have row: "newline \<notin> set (figures x)" "newline \<notin> set (before_char (CHR ''|'') (figures x))" "newline \<notin> set (after_first ''|'' (figures x))"
    if "x \<in> {g, w, tgt, src}" for x
    using assms(2) [OF that] by (auto simp: one_line_parts)
  have "\<forall>l\<in>set (sample_printed a g w tgt src). newline \<notin> set l"
    unfolding sample_printed_def by (cases a) (simp_all add: ball_Un row, intro conjI error, intro conjI error)
  then have "split_on newline (pod_log s) = sample_printed a g w tgt src @ [[]]"
    unfolding pod_log_def assms(1) by (intro split_pod_log) blast
  then show ?thesis
    unfolding parseSample_progress_def by (simp only: sample_heard)
qed

lemma lost_reasons:
  "sl_src acc = [] \<Longrightarrow> (sourceSide, reason_of acc sourceSide) \<in> set (Lost (sample_of_lines acc))"
  "sl_tgt acc = [] \<Longrightarrow> (targetSide, reason_of acc targetSide) \<in> set (Lost (sample_of_lines acc))"
  "sl_syncRep acc = [] \<Longrightarrow> (syncRepKey, reason_of acc syncRepKey) \<in> set (Lost (sample_of_lines acc))"
  by (simp_all add: sample_of_lines_def Let_def split: prod.splits)

lemma silent_side:
  assumes "\<not> succeeded x"
  shows "parseFields (figures x) = []" and "parseFields (before_char c (figures x)) = []"
proof -
  have "parseFields [] = []" by code_simp
  with assms show "parseFields (figures x) = []" "parseFields (before_char c (figures x)) = []"
    by (simp_all add: figures_def)
qed

lemma heard_reasons:
  "\<not> succeeded src \<Longrightarrow> reason_of (heard a g w tgt src) sourceSide = serverReason (trim_space (sample_why src))"
  "\<not> succeeded tgt \<Longrightarrow> reason_of (heard a g w tgt src) targetSide = serverReason (trim_space (sample_why tgt))"
  "\<not> succeeded w \<Longrightarrow> reason_of (heard a g w tgt src) syncRepKey = serverReason (trim_space (sample_why w))"
  using sides_distinct by (auto simp: reason_of_def heard_def note_reason_def Let_def)

lemma heard_lost:
  "\<not> succeeded src \<Longrightarrow> (sourceSide, serverReason (trim_space (sample_why src))) \<in> set (Lost (sample_of_lines (heard a g w tgt src)))"
  "\<not> succeeded tgt \<Longrightarrow> (targetSide, serverReason (trim_space (sample_why tgt))) \<in> set (Lost (sample_of_lines (heard a g w tgt src)))"
  "\<not> succeeded w \<Longrightarrow> (syncRepKey, serverReason (trim_space (sample_why w))) \<in> set (Lost (sample_of_lines (heard a g w tgt src)))"
  using lost_reasons [of "heard a g w tgt src"] heard_reasons silent_side
  by (simp_all add: heard_def Let_def split: if_splits)

section \<open>The steps of a worker\<close>

text \<open>The calls are the first of the planned ones, none goes on after a failure, and the run succeeds when all did.\<close>

definition stops_at_failure :: "tool_call list \<Rightarrow> tool_history \<Rightarrow> bool \<Rightarrow> bool" where
  "stops_at_failure planned made ok \<longleftrightarrow> map fst made = take (length made) planned \<and>
     (\<forall>p\<in>set (butlast made). succeeded (snd p)) \<and>
     (ok \<longleftrightarrow> length made = length planned \<and> (\<forall>p\<in>set made. succeeded (snd p))) \<and> (made = [] \<longrightarrow> planned = [])"

definition one_call :: "tools \<Rightarrow> unit step_of \<Rightarrow> tool_call \<Rightarrow> bool" where
  "one_call t f c \<longleftrightarrow> (\<forall>s. let a = answer t (st_calls s) c
     in st_calls (snd (f s)) = st_calls s @ [(c, a)] \<and> (fst (f s) = Inr () \<longleftrightarrow> succeeded a))"

lemma print_lines_run: "print_lines out s = (Inr (), s\<lparr>st_out := st_out s @
    (if out = [] then [] else split_on newline (if last out = newline then butlast out else out))\<rparr>)"
  by (simp add: print_lines_def say_each nothing_def ret_def)

lemma one_call_run: "one_call t (run_or_exit t c) c"
  by (simp add: one_call_def run_or_exit_def call_tool_def bnd_def nothing_def ret_def exit1_def raise_def Let_def print_lines_run)

lemma one_callD:
  assumes "one_call t f c" and "f s = (r, s')"
  shows "st_calls s' = st_calls s @ [(c, answer t (st_calls s) c)]" and "r = Inr () \<longleftrightarrow> succeeded (answer t (st_calls s) c)"
  using assms(1) [unfolded one_call_def Let_def, rule_format, of s] assms(2) by simp_all

lemma steps_in_order:
  assumes "one_call t g c" and "both (each (\<lambda>x. run_or_exit t (q x)) xs) g s = (r, s')"
  shows "\<exists>made. st_calls s' = st_calls s @ made \<and> stops_at_failure (map q xs @ [c]) made (r = Inr ())"
  using assms(2)
proof (induction xs arbitrary: s)
  case Nil
  then have "g s = (r, s')" by (simp add: both_def bnd_def ret_def)
  from one_callD [OF assms(1) this] show ?case by (auto simp: stops_at_failure_def)
next
  case (Cons x xs)
  let ?a = "answer t (st_calls s) (q x)"
  obtain p u where first: "run_or_exit t (q x) s = (p, u)" by fastforce
  note u = one_callD(1) [OF one_call_run first] and p = one_callD(2) [OF one_call_run first]
  show ?case
  proof (cases p)
    case (Inl e)
    with Cons.prems first have "r = Inl e" "s' = u" by (auto simp: both_def bnd_def)
    with u p Inl show ?thesis by (intro exI [of _ "[(q x, ?a)]"]) (auto simp: stops_at_failure_def)
  next
    case (Inr y)
    with Cons.prems first have "both (each (\<lambda>x. run_or_exit t (q x)) xs) g u = (r, s')"
      by (simp add: both_def bnd_def)
    from Cons.IH [OF this] obtain made where "st_calls s' = st_calls u @ made"
      and made: "stops_at_failure (map q xs @ [c]) made (r = Inr ())" by blast
    with u have "st_calls s' = st_calls s @ (q x, ?a) # made" by simp
    moreover have "stops_at_failure (map q (x # xs) @ [c]) ((q x, ?a) # made) (r = Inr ())"
      using made p Inr by (auto simp: stops_at_failure_def)
    ultimately show ?thesis by blast
  qed
qed

text \<open>The steps of attempt \<open>n\<close>, as the Job has them.\<close>

definition worker_steps :: "bool \<Rightarrow> migration \<Rightarrow> int32 \<Rightarrow> setup_step list" where
  "worker_steps lost m n = (if fresh_start lost m n \<and> 1 < sint n then [RunPgcopydb (cleanupArgs m)] else []) @ publicationDropGuard m n"

definition worker_args :: "bool \<Rightarrow> migration \<Rightarrow> int32 \<Rightarrow> string list" where
  "worker_args lost m n = CloneArgs (spec m) (fresh_start lost m n) (\<not> fresh_start lost m n) (\<not> fresh_start lost m n) @
     FollowArgs (spec m) (m_namespace m) (m_name m)"

lemma worker_setup: "buildJob lost m img n = Inr j \<Longrightarrow> js_setup (j_spec j) = worker_steps lost m n"
  by (auto simp: buildJob_def worker_steps_def map_inr_def upd_spec_def add_env_def Let_def jobSkeleton_fields
      split: option.splits sum.splits if_splits)

lemma worker_run:
  assumes "buildJob lost m img n = Inr j" and "run_pod t j script_start = (r, s)"
  shows "stops_at_failure (map setup_call (worker_steps lost m n) @ [Run (''pgcopydb'' # worker_args lost m n)]) (st_calls s) (r = Inr ())"
proof -
  have "one_call t (run_job t j) (Run (''pgcopydb'' # worker_args lost m n))"
    using buildJob_args(1) [OF assms(1)]
    by (auto simp: one_call_def run_job_def worker_args_def call_tool_def bnd_def nothing_def ret_def exit1_def raise_def Let_def)
  from steps_in_order [OF this, of setup_call "js_setup (j_spec j)" script_start r s] assms(2)
  show ?thesis
    by (auto simp: run_pod_def worker_setup [OF assms(1)] script_start_def)
qed

end
