(* ===== verification/Sample_Scripts.thy ===== *)
theory Sample_Scripts
  imports Sample_Cluster Job_Runs Gate_Evidence Pod_Evidence
begin

text \<open>
  Jobs that run to their end on sample servers: a drained stream, a compare that finds every table
  matching, an ownership handover, and a retry-gate probe that passes. The servers answer by the
  number of calls made before, those of the probe by the question.
\<close>

definition pod_of_job :: "job \<Rightarrow> (tool_history \<Rightarrow> tool_call \<Rightarrow> tool_reply) \<Rightarrow> tools" where
  "pod_of_job j replies = \<lparr>answer = replies, pod_var = (\<lambda>n. case env_literal (js_env (j_spec j)) n of Some v \<Rightarrow> v | None \<Rightarrow> [])\<rparr>"

definition prints :: "string \<Rightarrow> tool_reply" where
  "prints out = \<lparr>rp_code = 0, rp_out = out, rp_err = []\<rparr>"

definition in_turn :: "string list \<Rightarrow> tool_history \<Rightarrow> tool_call \<Rightarrow> tool_reply" where
  "in_turn outs h c = prints (outs ! length h)"

lemma runs_in_pod: "pod_runs (pod_of_job j replies) j"
  by (auto simp: pod_runs_def pod_of_job_def)

lemma sample_step: "call_tool (pod_of_job j (in_turn outs)) c s = (Inr (prints (outs ! length (st_calls s))),
    s\<lparr>st_calls := st_calls s @ [(c, prints (outs ! length (st_calls s)))]\<rparr>)"
  by (simp add: call_tool_def pod_of_job_def in_turn_def Let_def)

lemma prints_simps [simp]: "succeeded (prints out)" "rp_out (prints out) = out" "captured (prints out) = subst_out out"
  by (simp_all add: succeeded_def captured_def prints_def)

lemmas run_steps = sample_step bnd_def ret_def both_def nothing_def on_def say_def upd_def capture_or_exit_def capture_or_die_def Let_def

lemma live_buildable: "buildable live_migration"
  by (simp add: buildable_def live_migration_def sample_migration_def sample_spec_def sample_connection_def
      sample_clone_def all_databases_conflict_def sample_buildable)

section \<open>A drained stream\<close>

definition drained_replies :: "string list" where
  "drained_replies = [''0/3000060'', ''0/3000060'', ''0/3000060'', ''0'']"

lemma drained_values: "subst_out ''0/3000060'' = ''0/3000060''" "subst_out ''0'' = ''0''" "gap_closed ''0''" "''0/3000060'' \<noteq> ZeroLSN"
  by code_simp+

lemma drain_run: "\<exists>s. verify_script (pod_of_job j (in_turn drained_replies)) origin [] script_start = (Inr (), s)"
  by (simp add: verify_script_def run_steps script_start_def drained_replies_def drained_values cloneCountersBlock_def)

section \<open>A compare without differences\<close>

definition matching_report :: string where
  "matching_report = ''[{\"schema\":\"public\",\"name\":\"t\",\"source\":{\"rowcount\":1,\"checksum\":\"c\"},\"target\":{\"rowcount\":1,\"checksum\":\"c\"}}]''"

definition matching_replies :: "string list" where
  "matching_replies = [matching_report, [], ''0'', matching_report, [], []]"

lemma compare_run: "\<exists>s. compareDataScript (pod_of_job j (in_turn matching_replies)) script_start = (Inr (), s)"
proof -
  have "subst_out [] = []" "show_nat 0 = ''0''" "split_on newline matching_report = [matching_report]"
    "last matching_report \<noteq> newline" "matching_report \<noteq> []"
    by code_simp+
  then show ?thesis
    by (simp add: compareDataScript_def compareDataStrict_def compare_verdict_def exit_status_def run_steps script_start_def
        matching_replies_def drained_values print_lines_def prints_def succeeded_def captured_def)
qed

section \<open>A handover\<close>

definition handover_migration :: migration where
  "handover_migration = sample_migration\<lparr>spec := sample_spec\<lparr>clone := sample_clone\<lparr>no_owner := True, owner_after_restore := ''app''\<rparr>\<rparr>\<rparr>"

lemma handover_buildable: "buildable handover_migration"
  by (simp add: buildable_def handover_migration_def sample_migration_def sample_spec_def sample_connection_def
      sample_clone_def all_databases_conflict_def sample_buildable)

definition handover_replies :: "string list" where
  "handover_replies = [''0'', ''1'', ''0'', [], [], [], [], [], [], []]"

lemma handover_run: "\<exists>s. reownScript (pod_of_job j (in_turn handover_replies)) script_start = (Inr (), s)"
proof -
  have "subst_out [] = []" "subst_out ''1'' = ''1''"
    by code_simp+
  then show ?thesis
    by (simp add: reownScript_def reown_checks_def nothing_missing_def reown_transfer_def run_or_die_def run_steps script_start_def
        handover_replies_def drained_values print_lines_def)
qed

section \<open>A probe that passes\<close>

definition quiet_census :: string where
  "quiet_census = ''gate: census total=0 syncrep=0 named=yes syncrep_since=0 gate_waiting=0''"

definition quiet_target :: "tool_history \<Rightarrow> tool_call \<Rightarrow> tool_reply" where
  "quiet_target h c = prints (if c = gate_setting then ''local'' else if c = commit_probe then [] else quiet_census @ [newline])"

lemma probe_calls_differ: "bounded sql \<noteq> commit_probe" "bounded (censusSQL a) \<noteq> gate_setting"
  by (simp_all add: bounded_def commit_probe_def gate_setting_def censusSQL_def Let_def)

lemma quiet_answers: "answer (pod_of_job j quiet_target) h (bounded (censusSQL a)) = prints (quiet_census @ [newline])"
    "answer (pod_of_job j quiet_target) h gate_setting = prints ''local''" "answer (pod_of_job j quiet_target) h commit_probe = prints []"
  using probe_calls_differ probe_calls_differ(1) [symmetric] by (auto simp: pod_of_job_def quiet_target_def gate_setting_def)

lemma quiet_values: "split_on newline (quiet_census @ [newline]) = [quiet_census, []]" "split_on newline quiet_census = [quiet_census]"
    "before_char newline (quiet_census @ [newline]) = quiet_census" "nobody_waits quiet_census"
    "has_prefix quiet_census ''gate: census total=0 ''" "has_prefix quiet_census ''gate: census ''" "quiet_census \<noteq> []"
  by code_simp+

lemma quiet_plain: "plain_answers (pod_of_job j quiet_target) a"
proof -
  have "subst_out ''local'' = ''local''" "newline \<notin> set ''local''" by code_simp+
  then show ?thesis
    by (simp add: plain_answers_def quiet_answers census_lines_def quiet_values)
qed

lemma quiet_scope: "\<not> all_databases (clone (spec live_migration))"
  by (simp add: live_migration_def sample_spec_def sample_clone_def)

lemma quiet_inputs: "gateInputs_of True live_migration = \<lparr>CommitTest = True, ExpectLocal = False\<rparr>"
  by (simp add: gateInputs_of_def live_migration_def sample_spec_def sample_connection_def SynchronousCommitLocal_def Let_def)

definition quiet_log :: string where
  "quiet_log = concat (map (\<lambda>l. l @ [newline]) [quiet_census, ''gate: commit ok'', ''gate: pass''])"

lemma quiet_run:
  assumes "buildGateJob True live_migration img n = Inr j"
  shows "\<exists>s. run_job (pod_of_job j quiet_target) j script_start = (Inr (), s) \<and> pod_log s = quiet_log"
proof -
  have flags: "pod_var (pod_of_job j quiet_target) ''GATE_COMMIT_TEST'' = ''1''" "pod_var (pod_of_job j quiet_target) ''GATE_EXPECT_LOCAL'' = ''0''"
    using gate_env [OF assms runs_in_pod] by (simp_all add: quiet_inputs gateFlag_def)
  have step: "call_tool (pod_of_job j quiet_target) c s = (let r = answer (pod_of_job j quiet_target) (st_calls s) c
      in (Inr r, s\<lparr>st_calls := st_calls s @ [(c, r)]\<rparr>))" for c s
    by (simp add: call_tool_def)
  show ?thesis
    by (simp add: chosen_scripts(7) [OF assms] gateScript_def flags gate_flag_valid_def gate_checks_def gate_rest_def gate_census_step_def
        gate_commit_step_def step bnd_def ret_def say_def upd_def Let_def quiet_answers quiet_values print_lines_def script_start_def
        pod_log_def quiet_log_def)
qed

lemma quiet_log_passes: "passed (parseGateLog quiet_log) \<lparr>CommitTest = True, ExpectLocal = False\<rparr>"
  by code_simp

section \<open>A sample and a retry\<close>

text \<open>The source of the sample does not answer.\<close>

definition sampled_pod :: tools where
  "sampled_pod = \<lparr>answer = (\<lambda>h c. if length h = 3 then \<lparr>rp_code = 2, rp_out = [], rp_err = ''FATAL:  sorry, too many clients already''\<rparr>
       else prints ([''1 0 2'', ''0 0 1'', ''100 3 2 1 50''] ! length h)), pod_var = (\<lambda>_. [])\<rparr>"

lemma sampled_run: "\<exists>s. run_pod_script sampled_pod (ProgressScript False) script_start = (Inr (), s) \<and>
    (\<forall>p\<in>set (st_calls s). newline \<notin> set (figures (snd p)))"
proof -
  have one_line: "newline \<notin> set (subst_out ''1 0 2'')" "newline \<notin> set (subst_out ''0 0 1'')" "newline \<notin> set (subst_out ''100 3 2 1 50'')"
    by code_simp+
  have "newline \<notin> set (figures (answer sampled_pod h c))" if "length h = 0 \<or> length h = 1 \<or> length h = 2 \<or> length h = 3" for h c
    using that one_line by (elim disjE) (simp_all add: sampled_pod_def figures_def succeeded_def [of "\<lparr>rp_code = 2, rp_out = [], rp_err = _\<rparr>"])
  then show ?thesis
    by (auto simp: sampleScript_def sample_head_def ask_side_run say_each bnd_def call_tool_def Let_def script_start_def simp del: each.simps)
qed

definition guarded_pod :: tools where
  "guarded_pod = \<lparr>answer = (\<lambda>h c. prints []), pod_var = (\<lambda>_. [])\<rparr>"

lemma guarded_steps: "worker_steps False live_migration 2 = [PublicationGuard ''slot1'']"
  by (simp add: worker_steps_def fresh_start_def publicationDropGuard_def live_migration_def sample_spec_def sample_follow_def
      sample_clone_def followEnabled_def effectiveSlotName_def)

text \<open>
  The rows must be one line: PostgreSQL allows a newline in a table name, the list of the tables still owed
  is printed unquoted, and a name can then pass for the figures of the target.
\<close>

lemma table_name_forges_target:
  "TargetSize (parseSample_progress (concat (map (\<lambda>l. l @ [newline]) (sample_printed False (prints ''1 0 2'') (prints ''0 0 1'')
     (prints ''100 3 2 1 50'') (prints (''70 3 2 1 60 1|public.a'' @ newline # ''target=9 9 9 9 9'')))))) = Some 9"
  by code_simp

end
