(* ===== verification/Spec2Isabelle.thy ===== *)
theory Spec2Isabelle
  imports Sample_Worlds Worker_Exec Sample_Pods Sample_Preflight Sample_Scripts
begin

text \<open>
  A model of pgcopydb-operator, a Kubernetes operator that runs pgcopydb to migrate PostgreSQL
  databases, and the properties that make it correct. A \<^verbatim>\<open>Migration\<close> resource names a source, a target
  and options; each call of \<^verbatim>\<open>Reconcile\<close> (\<^verbatim>\<open>internal/controller/migration_controller.go\<close>) is one pass:
  it fetches the Migration, looks at its Jobs and the worker pod, creates the next Job, and patches
  the status. An offline migration runs a preflight Job and a worker Job (\<^verbatim>\<open>pgcopydb clone\<close>), retries a
  failed worker behind a budget and a probe of the target, and checks the copy. A live migration
  streams changes after the copy, freezes the stream at an endpos when the cutover is wanted and
  the lag is small, verifies the drain, hands over ownership, and drops the replication slot.

  \<^bold>\<open>How the program is modelled.\<close> Go structs are records, string enumerations are datatypes, int32,
  int64 and uint64 are words, strings are character lists, errors are values of \<open>err + 'a\<close>. A handler
  of the controller is a function on a state (theory \<open>Prelude\<close>: \<open>eff\<close>): the state of one pass is the
  Migration in memory, the copy its patches are computed against, and the history of calls made so
  far with their replies (theory \<open>Kube\<close>: \<open>pass\<close>). Everything outside src/ answers calls: the API server
  and its cache, the clock, pod logs, exec into pods, the sampling goroutines as a pass sees them,
  apimachinery's condition lists and finalizers. All of that is the record \<open>reconciler\<close>, an argument
  of every definition; each of its functions is given the whole history, so a reply may be stale, may
  fail, or may change between two calls. \<open>meta_ok\<close> is the documented contract of the condition
  lists; it is the only assumption on the environment the general theorems on passes make, and
  \<open>Sample_Cluster.cluster_meta_ok\<close> shows that apimachinery's algorithm satisfies it. The theorems on
  the retry-gate probe and on the progress sample also assume what psql prints: lines of the formats the
  statements ask for (\<open>plain_answers\<close>), rows of one line. A theorem
  that quantifies over \<open>r\<close> and the state speaks about every behaviour of the environment.

  \<^bold>\<open>Theories of the program,\<close> in the order of the calls:
  \<^item> \<open>Prelude\<close>: effects, the \<open>frame\<close> locale (properties of handlers that compose), Go's strings functions;
  \<^item> \<open>Api_Types\<close>: \<^verbatim>\<open>api/v1beta1\<close>, the resource and its status;
  \<^item> \<open>Json\<close>, \<open>Logs\<close>, \<open>Compare\<close>, \<open>Args\<close>: \<^verbatim>\<open>internal/pgcopydb\<close>, log classifiers, counters, command lines;
  \<^item> \<open>Sentinel\<close>, \<open>Progress_Sample\<close>, \<open>Metrics\<close>, \<open>Conn\<close>: \<^verbatim>\<open>internal/sentinel\<close>, \<^verbatim>\<open>progress\<close>, \<^verbatim>\<open>metrics\<close>, \<^verbatim>\<open>conn\<close>;
  \<^item> \<open>Worker_Exec\<close>: \<^verbatim>\<open>internal/podexec\<close>, which pod an exec reaches, and the calls of the sentinel and
    of the poller through it;
  \<^item> \<open>Conn_Shell\<close>: what the shell prelude of \<^verbatim>\<open>internal/conn\<close> does in the runner pod, each snippet the
    function it computes on the environment and the files; \<open>Conn_Passfile\<close> and \<open>Conn_Compose\<close> hold
    the lemmas on the passfile and on the URIs, \<open>Job_Prelude\<close> joins them to the Jobs;
  \<^item> \<open>Sampler\<close>: \<^verbatim>\<open>internal/controller/sampler.go\<close>, the critical sections of its goroutines as operations;
  \<^item> \<open>Gate_Probe\<close>, \<open>Resources\<close>: the probe's log and every object the operator creates;
  \<^item> \<open>Script_Shell\<close>, \<open>Preflight_Blocks\<close>, \<open>Preflight_Script\<close>: what the preflight script of
    \<^verbatim>\<open>resources.go\<close> does when the pod runs it. A script is an effect on the calls it made, the lines it
    printed and its failure accounts; psql and the other programs answer through the parameter \<open>tools\<close>,
    which is given the whole history. Statements are the texts that reach the server;
  \<^item> \<open>Job_Scripts\<close>, \<open>Gate_Script\<close>: the other scripts of \<^verbatim>\<open>resources.go\<close>, \<^verbatim>\<open>verification.go\<close>, \<^verbatim>\<open>reown.go\<close> and
    \<^verbatim>\<open>retry_gate_job.go\<close> on the same machine: drain verification, copy counters, data compare, rehearsal,
    ownership handover, retry-gate probe; \<open>Job_Runs\<close> says which of them the pod of a built Job runs;
  \<^item> \<open>Pod_Scripts\<close>: the scripts an exec runs in the worker pod (\<^verbatim>\<open>progress.go\<close>, \<^verbatim>\<open>sentinel.go\<close>) and the steps a
    worker runs before pgcopydb;
  \<^item> \<open>Kube\<close>, \<open>Retry_Budget\<close>, \<open>Retry_Gate\<close>, \<open>Compare_Status\<close>, \<open>Rehearsal\<close>, \<open>Reown\<close>, \<open>Verification\<close>, \<open>Follow\<close>,
    \<open>Observe\<close>, \<open>Attempts\<close>, \<open>Reconcile_Pass\<close>: \<^verbatim>\<open>internal/controller\<close>, one theory per file or per group of
    handlers, up to the whole pass \<open>Reconcile\<close>.

  \<^bold>\<open>Theories of proofs about passes.\<close> \<open>Pass_Calls\<close> says which Jobs each handler may create;
  \<open>Runs\<close> inverts runs that returned; \<open>Worker_Start\<close> shows that a worker starts only on evidence in the
  history; \<open>History\<close> orders calls within a pass, \<open>Drain_Gate\<close>, \<open>Pass_Guards\<close> and \<open>Worker_Count\<close> use it for
  the cutover, for stopped, deleted and dry-run Migrations and for the number of workers. Jobs drop the
  replication slot in two ways, the cleanup Job by its program and the worker of an attempt that starts over by its setup
  (\<open>Drain_Gate.drops_slot\<close>), and each has its own condition.
  \<open>Stream_Rules\<close> says when the stream is frozen and that the endpos stays recorded. \<open>Budget_Machine\<close> is an
  abstract retry budget over unbounded integers, with an invariant over its reachable states, and
  the handlers that implement its steps at 32 bits. \<open>Outcomes\<close> states what handlers leave in the
  conditions, \<open>First_Attempt\<close> that a pass with nothing in its way starts the first worker.
  \<open>Quiet_Handlers\<close> and \<open>Budget_Pass\<close> show that every status patch of a whole pass is reached from the stored
  budget by steps of that machine; \<open>Budget_World\<close> composes passes: a step relation on the stored
  Migration and the worker Jobs that exist, with failed and cut passes, edits and deleted Jobs,
  and an invariant of its runs: edits may change the backoff limit, up to a ceiling (the parameter \<open>cap\<close>) that
  bounds the attempts counted, and may not write the counters of the status. For the scripts, \<open>Script_Rules\<close> holds the
  locales of relations every step respects and the rules for what a script that succeeds has seen;
  \<open>Preflight_Frame\<close> and \<open>Preflight_Evidence\<close> apply them to the preflight, \<open>Job_Evidence\<close> to the drain, the
  compare, the rehearsal and the handover, and \<open>Gate_Evidence\<close> to the probe, whose verdict the operator
  takes from the log: it joins the script that prints the log to the parser that reads it, as
  \<open>Pod_Evidence\<close> does for the progress sample.
  A status that a script keeps in a file is the reply of the call that wrote it (\<open>Job_Scripts.write_status\<close>).
  \<open>Preflight_Calls\<close> says which statements the preflight sends over which connection. \<open>Sample_Cluster\<close>, \<open>Sample_Worlds\<close>,
  \<open>Sample_Pods\<close>, \<open>Sample_Preflight\<close> and \<open>Sample_Scripts\<close> are a concrete environment, concrete Migrations, a concrete
  world, concrete pods, a preflight run and runs of the other scripts for the examples.

  \<^bold>\<open>Bounds and fuel.\<close> The only fuel is the JSON decoder's: \<open>json_parse\<close> runs \<open>json_value\<close> with twice the
  length of the text and two, and \<open>Json.json_value_enough\<close> shows that more changes nothing. Counters and limits keep
  their 32 or 64 bits; where the code can wrap, a theorem gives the exact range in which it does
  not (\<open>Sentinel.Lag_cases\<close>) and what happens outside (C17).

  \<^bold>\<open>Not modelled.\<close> One script stays text, the version gate on \<^verbatim>\<open>list progress\<close>: the drain verification runs
  it in a subshell whose answer never votes. A TERM that ends a script early is modelled for the rehearsal, whose trap acts; elsewhere it only
  cuts the log short. Standard error is not modelled: the scripts keep it off the lines the operator reads.
  What PostgreSQL makes of a statement is outside: an answer of psql is a reply of \<open>tools\<close>. Process and manager wiring (\<^verbatim>\<open>cmd/main.go\<close>), scheme registration,
  generated deep copies, the OpenTelemetry exporter, the transport below an exec. \<^verbatim>\<open>api/v1alpha1\<close> is a
  copy of the types of \<^verbatim>\<open>v1beta1\<close>. Debug logging and the durations it prints are left out of the
  handlers. The work queue, watches and the API server's own validation are outside: each pass
  starts from whatever Migration the fetch returns, and in \<open>Budget_World\<close> from the stored one.
\<close>

text \<open>
  C1. Every pass of the reconciler: whenever it creates a Job that runs pgcopydb clone, that Job
  is what buildJob gives for the attempt, and the calls made earlier in the same pass show the
  evidence. For attempt 1 a preflight Job was read complete; for a later attempt no pod of the
  previous worker and no rehearsal pod still runs, a finished probe Job younger than the freshness
  limit was read for exactly the inputs of this Migration, its log passes, and the
  resourceVersion-checked status patch that settles the budget succeeded with the budget not
  spent.
\<close>

theorem worker_starts_on_evidence:
  "justified r (tr (snd (Reconcile r key (s\<lparr>tr := []\<rparr>))))"
  by (rule Reconcile_justified [of "s\<lparr>tr := []\<rparr>" _ _ "fst (Reconcile r key (s\<lparr>tr := []\<rparr>))"]) simp_all

text \<open>
  C2. A pass over a Migration that is not being deleted creates a Job that runs pgcopydb stream
  cleanup, as its program or in its setup, and so drops the replication slot that keeps the
  changes of the source, in two cases only: the cleanup Job, after the pass read the drain
  verification Job of the same Migration finished and successful; and the worker of a later
  attempt that starts over, when the status records that the copy lost its snapshot and the spec
  sets dropIfExists, after the evidence of the retry gate for this attempt and the patch that
  settled the budget with an attempt left.
\<close>

theorem slot_dropped_only_after_drain:
  assumes "tr s = []" and "fetched r s = Inr m" and "\<not> m_deleting m"
  shows "before slot_drop (drop_allowed r) (tr (snd (Reconcile r key s)))"
  using assms by (rule Reconcile_slot_drops)

theorem slot_dropped_only_after_drain_witness:
  "before slot_drop (drop_allowed (fetching live_migration (having_jobs [(''shop-run-1'', sample_job ''shop-run-1'' [JobComplete])] cluster)))
     (tr (snd (Reconcile (fetching live_migration (having_jobs [(''shop-run-1'', sample_job ''shop-run-1'' [JobComplete])] cluster))
       (''db'', ''shop'') (pass_of live_migration))))"
  by (rule slot_dropped_only_after_drain [where m = live_migration])
    (simp_all add: pass_of_def live_migration_def sample_migration_def)

text \<open>
  C3. A drain verification Job that the operator built for a Migration and that succeeds has proof
  in the answers it got: a recorded endpos that is not zero, the progress of the origin of this
  Migration, and a distance of zero between the two, all from calls that succeeded; or a data
  compare: pgcopydb compare data ended with status 0, and the query on its report succeeded and
  printed nothing.
\<close>

theorem drain_verified_on_proof:
  assumes "buildVerifyJob m img gate = Inr j" and "run_job t j script_start = (Inr (), s)"
  shows "origin_at_endpos (effectiveSlotName m) (set (st_calls s)) \<or> contents_match (set (st_calls s))"
  using ensures_run [OF sure_drain sf.scripts(1)] assms(2) unfolding chosen_scripts(1) [OF assms(1)] by blast

theorem drain_verified_on_proof_witness:
  "\<exists>j s. buildVerifyJob live_migration ''runner:1'' [] = Inr j \<and>
     run_job (pod_of_job j (in_turn drained_replies)) j script_start = (Inr (), s) \<and>
     (origin_at_endpos (effectiveSlotName live_migration) (set (st_calls s)) \<or> contents_match (set (st_calls s)))"
proof -
  obtain j where j: "buildVerifyJob live_migration ''runner:1'' [] = Inr j"
    using control_jobs_ok [OF live_buildable] by blast
  obtain s where run: "run_job (pod_of_job j (in_turn drained_replies)) j script_start = (Inr (), s)"
    unfolding chosen_scripts(1) [OF j] using drain_run by blast
  from drain_verified_on_proof [OF j run] j run show ?thesis by blast
qed

text \<open>
  C4. Any sequence of passes over a fresh Migration, with calls that fail after they took effect,
  passes cut short after any call, edits by others between passes and Jobs that disappear: the
  stored retry budget is always one the abstract budget machine reaches, the attempts that count
  never exceed the largest spec.backoffLimit the Migration ever had (the cap) plus 1, and no
  worker Job exists beyond the recorded attempts and the one next attempt a budget unspent under
  the current limit allows. Others may edit anything but the name and the status fields of the
  budget; they may raise and lower backoffLimit up to the cap, below what is already counted too,
  only not so low as to spend the budget while a worker exists that the status does not record
  yet. Passes see the stored Migration and the existing worker Jobs, and counters stay below
  2^31-1.
\<close>

theorem budget_holds_across_passes:
  assumes "(world_step cap)\<^sup>*\<^sup>* (m0, {}) (m, E)" and "fresh_migration cap m0" and "cap < 2 ^ 31 - 1"
  shows "reachable cap (budget_of m) \<and>
    sint (attempts (status m)) - sint (exemptAttempts (status m)) \<le> cap + 1 \<and>
    (\<forall>n. worker_job_name m n \<in> E \<longrightarrow>
      sint n \<le> sint (attempts (status m)) \<or> n = attempts (status m) + 1 \<and> \<not> budgetSpent m)"
proof -
  have "world_ok (m, E)" "reachable cap (budget_of m)"
    using worlds_ok [OF assms(1,3)] fresh_world_ok [OF assms(2,3)] fresh_reachable [OF assms(2)] by simp_all
  then show ?thesis using world_ok_next reachable_counted by blast
qed

theorem budget_holds_across_passes_witness:
  "\<exists>m E. ''shop-run-1'' \<in> E \<and> world_step 5 (sample_migration, {}) (m, E) \<and>
     sint (attempts (status m)) - sint (exemptAttempts (status m)) \<le> 6"
proof -
  obtain m E where w: "world_step 5 (sample_migration, {}) (m, E)" "''shop-run-1'' \<in> E"
    using sample_world_starts by blast
  have "(world_step 5)\<^sup>*\<^sup>* (sample_migration, {}) (m, E)" using w(1) by (rule r_into_rtranclp)
  from budget_holds_across_passes [OF this sample_fresh] w show ?thesis by auto
qed

text \<open>
  C5. A preflight Job that succeeds recorded no failure, its last line says that all checks
  passed, and for each block of the script of its Migration the calls it made contain the answer
  block_evidence asks for: both servers answered, no pooler in between, local commits where asked,
  a pg_restore the target takes, superusers where all databases are copied, the rights of the
  clone and of the stream held or, in a dry run with a superuser, composable, no table hidden by
  row security or unlogged, the extensions available and owned. Two limits: the TEMPORARY
  privilege, wal_sender_timeout and the wal2json note only warn and ask for no answer; and the
  replica identity audit asks only that every table its query printed is acknowledged, so it also
  accepts a query that failed and printed nothing.
\<close>

theorem preflight_passes_on_evidence:
  assumes "run_preflight t m = (Inr (), s)"
  shows "(\<forall>b\<in>set (preflightScriptFor m). block_evidence t b (set (st_calls s))) \<and>
    st_fails s = [] \<and> st_audit s = [] \<and> (\<exists>ls. st_out s = ls @ [''preflight: all checks passed''])"
  using preflight_ends [OF assms] preflight_flag [of t m] script_evidence [of t "preflightScriptFor m"] assms
  by (auto simp: flag_true_def ensures_def run_preflight_def)

theorem preflight_passes_on_evidence_witness:
  "\<exists>s. run_preflight sample_tools checked_migration = (Inr (), s) \<and>
     answered (set (st_calls s)) (Query src_db walLevelSQL []) (\<lambda>r. captured r = ''logical'')"
proof -
  obtain s where run: "run_preflight sample_tools checked_migration = (Inr (), s)"
    using checked_run by blast
  have "\<forall>b\<in>set (preflightScriptFor checked_migration). block_evidence sample_tools b (set (st_calls s))"
    using preflight_passes_on_evidence [OF run] by blast
  then have "block_evidence sample_tools WalLevelBlock (set (st_calls s))"
    unfolding checked_blocks by simp
  then show ?thesis using run by auto
qed

text \<open>
  C6. When the log of a retry-gate probe reads as passed to the operator, the probe ran its script
  to the end and saw what it was asked for: a census without sessions of the earlier attempt;
  where the connection asks for local commits, a server that reports synchronous_commit=local; and
  where a test commit was due, a census in which nobody waits for replication and a commit that
  went through. Assumed of the target: the census prints only lines of its two formats, and the
  setting is one line.
\<close>

theorem gate_clears_on_evidence:
  assumes "buildGateJob done m img n = Inr j" and "pod_runs t j" and "plain_answers t (all_databases (clone (spec m)))"
    and "run_job t j script_start = (r, s)" and "passed (parseGateLog (pod_log s)) (gateInputs_of done m)"
  shows "r = Inr () \<and> gate_evidence (all_databases (clone (spec m))) (gateInputs_of done m) (set (st_calls s))"
  using assms(4,5) gate_run_verdict [OF gate_env [OF assms(1,2)] assms(3)] unfolding chosen_scripts(7) [OF assms(1)] by blast

theorem gate_clears_on_evidence_witness:
  "\<exists>j s. buildGateJob True live_migration ''runner:1'' 2 = Inr j \<and>
     run_job (pod_of_job j quiet_target) j script_start = (Inr (), s) \<and>
     gate_evidence False (gateInputs_of True live_migration) (set (st_calls s)) \<and> CommitTest (gateInputs_of True live_migration)"
proof -
  obtain j where j: "buildGateJob True live_migration ''runner:1'' 2 = Inr j"
    using control_jobs_ok [OF live_buildable] by blast
  obtain s where run: "run_job (pod_of_job j quiet_target) j script_start = (Inr (), s)" "pod_log s = quiet_log"
    using quiet_run [OF j] by blast
  have "passed (parseGateLog (pod_log s)) (gateInputs_of True live_migration)"
    using quiet_log_passes run(2) by (simp add: quiet_inputs)
  from gate_clears_on_evidence [OF j runs_in_pod quiet_plain run(1) this] j run(1) show ?thesis
    by (auto simp: quiet_inputs quiet_scope)
qed

text \<open>
  C7. A preflight uses the superuser connections for its two probes and, unless the Migration is a
  dry run, for the statement that the immediately preceding call composed on the server; it uses
  them only where the Migration names a superuserSecretRef, and all other statements go over the
  migration roles as fixed texts of the script. Values of the specification and of the catalogs
  reach a server as psql variables, never as statement text.
\<close>

theorem superuser_runs_composed_grants_only:
  "disciplined (dryRun (spec m)) (superuser_given m) (st_calls (snd (run_preflight t m)))"
  using preflight_in_order [of m t] by (simp add: in_order_def)

text \<open>
  C8. A look at the running stream asks pgcopydb to set the endpos, which freezes the stream and
  starts the cutover, exactly when the base copy is confirmed, the sentinel was read, no endpos is
  set yet, the lag figure on the status is at or below spec.follow.maxCatchupLag, the previous
  pass had left the CaughtUp condition True or confirming, and the cutover is Automatic or
  approved.
\<close>

theorem stream_frozen_exactly_when:
  assumes "meta_ok r" and "\<not> asks_endpos (tr s)"
  shows "asks_endpos (tr (snd (reconcileFollowRunning r name cloneDone s))) \<longleftrightarrow>
     with_sentinel r \<and> cloneDone \<and>
     (\<exists>st. sentinel_read_reply r (tr s) name (effectiveSlotName (mig s)) = Inr (Some st) \<and>
        freezes r (mig s) (next_replication (mig s) st))"
  using assms by (rule follow_running_asks)

theorem stream_frozen_exactly_when_witness:
  "asks_endpos (tr (snd (reconcileFollowRunning unanswered_target ''shop-run-1'' True (pass_of confirming_migration)))) \<and>
   \<not> asks_endpos (tr (snd (reconcileFollowRunning cluster ''shop-run-1'' True (pass_of live_migration))))"
proof
  have start: "\<not> asks_endpos (tr (pass_of m))" for m by (simp add: pass_of_def)
  have "freezes unanswered_target confirming_migration (next_replication confirming_migration no_replay)"
    using not_le [THEN iffD2, OF no_replay_lag]
    by (auto simp: freezes_def next_replication_endpos next_replication_lag lag_below_def lagSeenBelow_def
        unanswered_target_def confirming_migration_def pass_of_def measured_once_def
        confirming_condition_def find_c_def cluster_def EndposSet_def lsnSet_def no_replay_def [THEN arg_cong [where f = Endpos]]
        maxCatchupLagBytes_def defaultMaxCatchupLag_def sample_follow_def sample_spec_def live_migration_def)
  then show "asks_endpos (tr (snd (reconcileFollowRunning unanswered_target ''shop-run-1'' True (pass_of confirming_migration))))"
    unfolding stream_frozen_exactly_when [OF unanswered_meta_ok start]
    by (simp add: pass_of_def unanswered_target_def cluster_def)
  show "\<not> asks_endpos (tr (snd (reconcileFollowRunning cluster ''shop-run-1'' True (pass_of live_migration))))"
    unfolding stream_frozen_exactly_when [OF cluster_meta_ok start] by (simp add: cluster_def)
qed

text \<open>
  C9. The two-sample rule counts a figure twice: after one pass measured the lag below the
  threshold and left CaughtUp confirming, a sample that reads no lag at all (a target that does
  not answer) repeats the previous figure, and an Automatic cutover freezes the stream on it. The
  documentation promises two consecutive measurements.
\<close>

theorem frozen_on_one_measurement_of_lag:
  assumes "meta_ok r" and "\<not> asks_endpos (tr s)" and "with_sentinel r"
    and "sentinel_read_reply r (tr s) name (effectiveSlotName (mig s)) = Inr (Some st)"
    and "sint (Lag st) < 0" and "Endpos st = []"
    and "replication (status (mig s)) = Some prev" and "rs_lagBytes prev = Some l" and "\<not> EndposSet (rs_endpos prev)"
    and "sint l \<le> sint (maxCatchupLagBytes (mig s))"
    and "find_c r (mig s) ConditionCaughtUp = Some c" and "c_reason c = ReasonConfirmingCatchUp"
    and "cut_mode (cutover (spec (mig s))) = CutoverAutomatic"
  shows "asks_endpos (tr (snd (reconcileFollowRunning r name True s)))"
  using assms by (rule frozen_on_one_measurement)

theorem frozen_on_one_measurement_of_lag_witness:
  "asks_endpos (tr (snd (reconcileFollowRunning unanswered_target ''shop-run-1'' True (pass_of confirming_migration))))"
  by (rule frozen_on_one_measurement_of_lag [OF unanswered_meta_ok, where st = no_replay and prev = measured_once
        and l = 1024 and c = confirming_condition])
    (simp_all add: unanswered_target_def confirming_migration_def pass_of_def no_replay_lag measured_once_def
      confirming_condition_def find_c_def cluster_def EndposSet_def lsnSet_def no_replay_def [THEN arg_cong [where f = Endpos]]
      maxCatchupLagBytes_def defaultMaxCatchupLag_def sample_follow_def sample_spec_def live_migration_def)

text \<open>
  C10. Once status.replication holds a set endpos, a look at the running stream leaves one there,
  whatever the sentinel and the other calls answer: the status is the only copy of it.
\<close>

theorem recorded_endpos_stays:
  assumes "endpos_recorded s"
  shows "endpos_recorded (snd (reconcileFollowRunning r name cloneDone s))"
  using keeps_snd [OF endpos_follow_running, of s r name cloneDone] assms by (simp add: keeps_endpos_def)

theorem recorded_endpos_stays_witness:
  "endpos_recorded (snd (reconcileFollowRunning unanswered_target ''shop-run-1'' True
     (pass_of (upd_status (\<lambda>st. st\<lparr>replication := Some (measured_once\<lparr>rs_endpos := ''0/3000000''\<rparr>)\<rparr>) live_migration))))"
  by (rule recorded_endpos_stays) (simp add: endpos_recorded_def pass_of_def EndposSet_def lsnSet_def ZeroLSN_def)

text \<open>
  C11. No pass creates more than one Job that runs pgcopydb clone, whatever the replies.
\<close>

theorem one_worker_per_pass: "workers (tr (snd (Reconcile r key s))) \<le> workers (tr s) + 1"
  by (rule Reconcile_one_worker)

text \<open>
  C12. A pass that fetched a Migration with spec.dryRun starts no worker, on any path and whatever
  the replies, as long as the API server keeps the field (the CRD makes it immutable).
\<close>

theorem dry_run_starts_no_worker:
  assumes "dry_run_immutable r" and "tr s = []" and "fetched r s = Inr m" and "dryRun (spec m)"
  shows "workers (tr (snd (Reconcile r key s))) = 0"
  using assms by (rule Reconcile_dry_run)

theorem dry_run_starts_no_worker_witness:
  "workers (tr (snd (Reconcile (fetching dry_migration (having_jobs [(''shop-preflight'', sample_job ''shop-preflight'' [JobComplete])] cluster))
       (''db'', ''shop'') (pass_of dry_migration)))) = 0"
  by (rule dry_run_starts_no_worker [where m = dry_migration])
    (simp_all add: dry_run_immutable_def fetching_def having_jobs_def cluster_def pass_of_def dry_migration_def fetched_def)

text \<open>
  C13. A pass over a Migration that is not being deleted and that already ended (Complete or
  Failed), is new, or is suspended creates no Job of any kind. Under deletion a pass may create
  the cleanup Job.
\<close>

theorem stopped_pass_creates_no_job:
  assumes "fetched r s = Inr m" and "\<not> m_deleting m"
    and "ended_migration r m \<or> statusIsEmpty m \<or> suspend (spec m)"
  shows "only (creating no_job) (after_fetch r m s) (snd (Reconcile r key s))"
  using assms by (rule stopped_creates_nothing)

theorem stopped_pass_creates_no_job_witness:
  "only (creating no_job) (after_fetch (fetching suspended_migration cluster) suspended_migration (pass_of suspended_migration))
     (snd (Reconcile (fetching suspended_migration cluster) (''db'', ''shop'') (pass_of suspended_migration)))"
  by (rule stopped_pass_creates_no_job) (simp_all add: suspended_migration_def live_migration_def sample_migration_def)

text \<open>
  C14. Deleting a Migration that ever ran: the metadata patch that releases the finalizer is sent
  only after the pass read the cleanup Job finished, or after the API server refused a call
  because the namespace is terminating.
\<close>

theorem finalizer_released_after_cleanup:
  assumes "tr s = []" and "fetched r s = Inr m" and "m_deleting m" and "0 < sint (attempts (status m))"
  shows "released_after (m_name m) (tr (snd (Reconcile r key s)))"
  using assms by (rule Reconcile_released)

theorem finalizer_released_after_cleanup_witness:
  "released_after (m_name deleted_migration) (tr (snd (Reconcile
     (fetching deleted_migration (having_jobs [(''shop-cleanup'', sample_job ''shop-cleanup'' [JobComplete])] cluster))
     (''db'', ''shop'') (pass_of deleted_migration))))"
  by (rule finalizer_released_after_cleanup)
    (simp_all add: pass_of_def deleted_migration_def live_migration_def sample_migration_def)

text \<open>
  C15. The deletion does not wait for the worker: once the worker Job carries a deletion
  timestamp, its pods possibly still running through their grace period, the next pass creates the
  cleanup Job beside it. The comment in the source says the worker is stopped first so that
  cleanup does not race a live stream.
\<close>

theorem deletion_cleans_beside_terminating_worker:
  assumes "verificationRehearsal (status (mig s)) = None" and "list_jobs_reply r (tr s) (with_api_reader r) = Inr []"
    and "has_finalizer r (m_finalizers (mig s)) finalizerName" and "0 < sint (attempts (status (mig s)))"
    and "jobName (status (mig s)) \<noteq> []"
    and "get_job_reply r (ListJobs (with_api_reader r) (Inr []) # tr s) False (jobName (status (mig s))) = Inr w"
    and "j_deleting w"
    and "get_job_reply r (GetJob False (jobName (status (mig s))) (Inr w) # ListJobs (with_api_reader r) (Inr []) # tr s)
           False (cleanupJobName (mig s)) = Inl e" and "is_not_found e"
    and "buildCleanupJob (mig s) (RunnerImage r) = Inr j"
    and "\<And>h. set_owner_reply r h (j_name j) = Inr ()" and "\<And>h. create_job_reply r h j = Inr ()"
  shows "CreateJob j (Inr ()) \<in> set (tr (snd (reconcileDeletion r s)))"
  using assms by (rule cleanup_beside_worker)

theorem deletion_cleans_beside_terminating_worker_witness:
  "\<exists>j. CreateJob j (Inr ()) \<in> set (tr (snd (reconcileDeletion
     (having_jobs [(''shop-run-1'', terminating_worker)] cluster) (pass_of deleted_migration))))"
proof -
  obtain j where "buildCleanupJob deleted_migration ''runner:1'' = Inr j" using deleted_cleanup_builds by blast
  then have "CreateJob j (Inr ()) \<in> set (tr (snd (reconcileDeletion
     (having_jobs [(''shop-run-1'', terminating_worker)] cluster) (pass_of deleted_migration))))"
    by (intro deletion_cleans_beside_terminating_worker [where w = terminating_worker and e = "ApiErr NotFound ''not found''"])
      (simp_all add: pass_of_def deleted_migration_def live_migration_def sample_migration_def having_jobs_def cluster_def
        terminating_worker_def cleanupJobName_def empty_status_def)
  with exI [where x = j] show ?thesis by fast
qed

text \<open>
  C16. Whenever nothing stands in the way (the preflight Job finished successfully, no other Job
  and no pod exists, every write is accepted) and a first attempt is due with budget left, the
  pass creates the worker Job of attempt 1: a new Migration is not left waiting.
\<close>

theorem first_attempt_starts_at_once:
  assumes "fetched r s = Inr m" and "open_to_work r m" and "due r m" and "calm_cluster r (preflightJobName m) j"
    and "\<not> budgetSpent m"
  shows "\<exists>m' w. spec m' = spec m \<and> m_name m' = m_name m \<and>
    buildJob (snapshotLost r m') m' (RunnerImage r) 1 = Inr w \<and>
    CreateJob w (Inr ()) \<in> set (tr (snd (Reconcile r key s)))"
  using assms by (rule first_attempt_starts)

theorem first_attempt_starts_at_once_witness:
  "\<exists>m' w. spec m' = spec sample_migration \<and> m_name m' = m_name sample_migration \<and>
    buildJob (snapshotLost ready_cluster m') m' (RunnerImage ready_cluster) 1 = Inr w \<and>
    CreateJob w (Inr ()) \<in> set (tr (snd (Reconcile (fetching sample_migration ready_cluster) (''db'', ''shop'')
      (pass_of sample_migration))))"
  using first_attempt_starts_at_once [OF fetched_fetching sample_open sample_due ready_cluster_calm sample_budget,
      where key = "(''db'', ''shop'')" and s = "pass_of sample_migration"]
  by (simp add: fetching_def snapshotLost_def latched_def find_c_def)

text \<open>
  C17. The retry budget adds one to spec.backoffLimit at 32 bits, so the largest limit the CRD
  admits wraps to the smallest integer and counts as spent: where the first attempt would start,
  the pass reports the Migration Failed with BackoffLimitExceeded instead.
\<close>

theorem largest_backoff_fails_before_any_attempt:
  assumes "fetched r s = Inr m" and "open_to_work r m" and "due r m" and "calm_cluster r (preflightJobName m) j"
    and "backoffLimit (spec m) = 2147483647"
  shows "\<exists>m' \<in> set (sent (tr (snd (Reconcile r key s)))).
    verdict_in r m' ConditionFailed = Some (ConditionTrue, ReasonBackoffLimitExceeded) \<and> phase (status m') = PhaseFailed"
  using assms(1-4) budgetSpent_wraps [OF assms(5)] by (rule spent_budget_fails_first)

theorem largest_backoff_fails_before_any_attempt_witness:
  "\<exists>m' \<in> set (sent (tr (snd (Reconcile (fetching patient_migration ready_cluster) (''db'', ''shop'') (pass_of patient_migration))))).
    verdict_in (fetching patient_migration ready_cluster) m' ConditionFailed = Some (ConditionTrue, ReasonBackoffLimitExceeded) \<and>
    phase (status m') = PhaseFailed"
  by (rule largest_backoff_fails_before_any_attempt [OF fetched_fetching patient_open patient_due patient_cluster_calm])
    (simp add: patient_migration_def)

text \<open>
  C18. Every statement that a preflight ran over a superuser connection and that succeeded, the
  two probes apart, stands in the output behind the prefix remediated: or remediated-clone:, as
  one line or with a line for each of its statements, whether the preflight passes or fails
  afterwards. These are the lines the operator turns into events.
\<close>

theorem applied_grants_are_printed:
  "announced (st_calls (snd (run_preflight t m))) (st_out (snd (run_preflight t m)))"
  using preflight_in_order [of m t] by (simp add: in_order_def)

text \<open>
  C19. An ownership handover Job that the operator built for a Migration whose owner name holds no
  dollar sign (Kubernetes expands those in the environment of a container) and that succeeds was
  already done, because the migration role is the owner, or was carried out and checked again: the
  owner role exists, the migration role is a superuser or no grant the handover needs was missing,
  the statements ran without an error, and the query for objects the migration role still owns
  came back empty. However the Job ends, every call it made is a query on the target whose text is
  one of ten fixed statements and to which the owner of the Migration is passed as the value of
  the variable owner.
\<close>

theorem handover_is_rechecked:
  assumes "buildReownJob m img = Inr j" and "pod_runs t j" and "CHR ''$'' \<notin> set (owner_after_restore (clone (spec m)))"
    and "run_job t j script_start = (x, s)"
  shows "(x = Inr () \<longrightarrow> handed_over (owner_after_restore (clone (spec m))) (set (st_calls s))) \<and>
    (\<forall>p \<in> set (st_calls s). \<exists>sql \<in> set reown_statements.
       fst p = Query tgt_db sql [(''owner'', owner_after_restore (clone (spec m)))])"
proof -
  have owner: "reown_owner t = owner_after_restore (clone (spec m))" by (rule reown_env [OF assms(1-3)])
  have run: "reownScript t script_start = (x, s)" using assms(4) unfolding chosen_scripts(4) [OF assms(1)] .
  then have "x = Inr () \<Longrightarrow> handed_over (reown_owner t) (set (st_calls s))"
    using ensures_run [OF sure_handover [of t] sf.scripts(4)] by blast
  with handover_calls [OF run] show ?thesis by (auto simp: owner reown_query_def)
qed

theorem handover_is_rechecked_witness:
  "\<exists>j s. buildReownJob handover_migration ''runner:1'' = Inr j \<and>
     run_job (pod_of_job j (in_turn handover_replies)) j script_start = (Inr (), s) \<and> handed_over ''app'' (set (st_calls s))"
proof -
  obtain j where j: "buildReownJob handover_migration ''runner:1'' = Inr j"
    using control_jobs_ok [OF handover_buildable] by blast
  obtain s where run: "run_job (pod_of_job j (in_turn handover_replies)) j script_start = (Inr (), s)"
    unfolding chosen_scripts(4) [OF j] using handover_run by blast
  have owner: "owner_after_restore (clone (spec handover_migration)) = ''app''"
    by (simp add: handover_migration_def)
  from handover_is_rechecked [OF j runs_in_pod _ run] j run owner show ?thesis by auto
qed

text \<open>
  C20. The pod of a worker Job runs the steps of its attempt in order and stops at the first that
  fails: on a retry that starts over, the cleanup of the old slot, publication and origin; on a
  retry of a live migration with its own publication, the guard that drops an orphaned publication
  and refuses a slot without one; then pgcopydb with the arguments of the attempt. pgcopydb never
  starts after a step that failed, and the pod succeeds exactly when every step did.
\<close>

theorem retry_starts_after_its_guards:
  assumes "buildJob lost m img n = Inr j" and "run_pod t j script_start = (r, s)"
  shows "stops_at_failure (map setup_call (worker_steps lost m n) @ [Run (''pgcopydb'' # worker_args lost m n)]) (st_calls s) (r = Inr ())"
  using assms by (rule worker_run)

theorem retry_starts_after_its_guards_witness:
  "\<exists>j r s. buildJob False live_migration ''runner:1'' 2 = Inr j \<and> run_pod guarded_pod j script_start = (r, s) \<and>
     worker_steps False live_migration 2 = [PublicationGuard ''slot1''] \<and>
     stops_at_failure [Query src_db (publicationGuardSQL ''slot1'') [], Run (''pgcopydb'' # worker_args False live_migration 2)] (st_calls s) (r = Inr ())"
proof -
  obtain j where j: "buildJob False live_migration ''runner:1'' 2 = Inr j"
    using buildJob_ok live_buildable by blast
  obtain r s where run: "run_pod guarded_pod j script_start = (r, s)" by fastforce
  from retry_starts_after_its_guards [OF j run] j run show ?thesis by (auto simp: guarded_steps)
qed



text \<open>
  C22. What the poller reads off a progress sample, of one database or of an instance, is what the
  four queries answered: the figures of each side come from the reply of that side, the tables
  still owed from the source, the stage from the stage query; a query that failed contributes
  nothing and its side is lost with the reason psql gave, filtered as always, whichever of the
  queries fail. Assumed: the rows are one line each.
\<close>

theorem sample_mirrors_the_answers:
  assumes "run_pod_script t (ProgressScript allDatabases) script_start = (r, s)"
    and "\<forall>p\<in>set (st_calls s). newline \<notin> set (figures (snd p))"
  shows "r = Inr () \<and> (\<exists>g w tgt_reply src_reply. st_calls s = sides_asked allDatabases g w tgt_reply src_reply \<and>
     parseSample_progress (pod_log s) = sample_of_lines (heard allDatabases g w tgt_reply src_reply) \<and>
     (\<forall>(side, a)\<in>{(sourceSide, src_reply), (targetSide, tgt_reply), (syncRepKey, w)}. \<not> succeeded a \<longrightarrow>
        (side, serverReason (trim_space (sample_why a))) \<in> set (Lost (parseSample_progress (pod_log s)))))"
proof -
  obtain g w x y where run: "r = Inr ()" "st_calls s = sides_asked allDatabases g w x y" "st_out s = sample_printed allDatabases g w x y"
    using sample_run [OF assms(1)] .
  have one_line: "newline \<notin> set (figures a)" if "a \<in> {g, w, x, y}" for a
    using that assms(2) unfolding sides_replies [of allDatabases g w x y, symmetric] run(2) by auto
  have read: "parseSample_progress (pod_log s) = sample_of_lines (heard allDatabases g w x y)"
    using run(3) one_line by (rule sample_read)
  show ?thesis
    by (rule conjI, rule run(1), rule exI [of _ g], rule exI [of _ w], rule exI [of _ x], rule exI [of _ y])
      (auto simp: run(2) read heard_lost)
qed

theorem sample_mirrors_the_answers_witness:
  "\<exists>s g w x y. run_pod_script sampled_pod (ProgressScript False) script_start = (Inr (), s) \<and>
     parseSample_progress (pod_log s) = sample_of_lines (heard False g w x y) \<and> st_calls s = sides_asked False g w x y"
proof -
  obtain s where run: "run_pod_script sampled_pod (ProgressScript False) script_start = (Inr (), s)"
    and "\<forall>p\<in>set (st_calls s). newline \<notin> set (figures (snd p))"
    using sampled_run by blast
  from sample_mirrors_the_answers [OF this] run show ?thesis by blast
qed





text \<open>
  C25. A pass over a Migration that is being deleted creates no Job but the one that cleans the
  replication objects up, whatever the replies.
\<close>

theorem deletion_creates_only_cleanup:
  assumes "fetched r s = Inr m" and "m_deleting m"
  shows "only (creating (cleanup_job r)) (after_fetch r m s) (snd (Reconcile r key s))"
  using assms by (rule deleted_creates_cleanup)

theorem deletion_creates_only_cleanup_witness:
  "only (creating (cleanup_job (fetching deleted_migration cluster)))
     (after_fetch (fetching deleted_migration cluster) deleted_migration (pass_of deleted_migration))
     (snd (Reconcile (fetching deleted_migration cluster) (''db'', ''shop'') (pass_of deleted_migration)))"
  by (rule deletion_creates_only_cleanup) (simp_all add: deleted_migration_def)

text \<open>
  C26. When the compare checks are done, status.verification holds exactly the enabled checks in
  order, each with the verdict of a compare Job that this pass read finished, and the condition
  Verified is True when none failed, else False with the reason of the first failed check.
\<close>

theorem verification_reports_every_check:
  assumes "meta_ok r" and "ensureVerification r s = (Inr True, t)" and "verificationRequested (mig s)"
  shows "verification_reported r (mig s) t"
  using assms by (rule ensureVerification_reported)

theorem verification_reports_every_check_witness:
  "verification_reported compared_cluster verified_migration (snd (ensureVerification compared_cluster (pass_of verified_migration)))"
proof -
  have "ensureVerification compared_cluster (pass_of verified_migration) =
      (Inr True, snd (ensureVerification compared_cluster (pass_of verified_migration)))"
    using compared_done by (metis prod.collapse)
  from verification_reports_every_check [OF compared_meta_ok this] show ?thesis
    by (simp add: pass_of_def verified_requested)
qed

text \<open>
  C27. The base copy of a live migration is confirmed exactly when no table is owed: with counts,
  when every table is done, without them, unless an earlier pass saw empty tables. CloneCompleted
  says the same, True or False with TablesEmptyOnTarget.
\<close>

theorem base_copy_confirmed_by_counts:
  assumes "meta_ok r" and "confirmBaseCopy r co s = (x, t)"
  shows "x = Inr (base_copy_ok (tablesEmptySeen r (mig s)) co) \<and>
    verdict_in r (mig t) ConditionCloneCompleted =
      Some (if base_copy_ok (tablesEmptySeen r (mig s)) co then (ConditionTrue, ReasonBaseCopyDone)
            else (ConditionFalse, ReasonTablesEmptyOnTarget))"
  using confirmBaseCopy_outcome [OF assms] by simp

theorem base_copy_confirmed_by_counts_witness:
  "verdict_in cluster (mig (snd (confirmBaseCopy cluster (Some owed_counts) (pass_of live_migration)))) ConditionCloneCompleted =
    Some (ConditionFalse, ReasonTablesEmptyOnTarget)"
  using base_copy_confirmed_by_counts [OF cluster_meta_ok prod.collapse [symmetric], of "Some owed_counts" "pass_of live_migration"]
  by (simp add: base_copy_ok_def tables_owed_def owed_counts_def)

text \<open>
  C28. The condition CommitsBlocked after a sample, branch by branch: no sample leaves it, a
  sample without the wait makes it Unknown unless it was True, a wait over the threshold in two
  samples makes it True, one sample over the threshold leaves it, and anything shorter makes it
  False.
\<close>

theorem commits_blocked_follows_samples:
  assumes "meta_ok r"
  shows "verdict_in r (mig (snd (applyCommitsBlocked r got s))) ConditionCommitsBlocked =
    (case commits_blocked (is_true r (mig s) ConditionCommitsBlocked) got of
       None \<Rightarrow> verdict_in r (mig s) ConditionCommitsBlocked | Some v \<Rightarrow> Some v)"
  using assms by (rule applyCommitsBlocked_table)

theorem commits_blocked_follows_samples_witness:
  "verdict_in cluster (mig (snd (applyCommitsBlocked cluster unobserved_sample (pass_of live_migration)))) ConditionCommitsBlocked =
    Some (ConditionUnknown, ReasonSyncRepUnobserved)"
  using commits_blocked_follows_samples [OF cluster_meta_ok, of unobserved_sample "pass_of live_migration"]
  by (simp add: commits_blocked_def unobserved_sample_def no_sampled_def zero_time_def sample_now_def syncRepWait_def
      is_true_def pass_of_def live_migration_def empty_status_def cluster_def)

text \<open>
  C29. The reason the retry gate gives for a probe result that does not pass (hold) is that of the
  first check that failed, in the order of the script, as a table over the result and the inputs:
  no reason exactly when the result passes; SessionsRemain exactly when the census counts
  sessions; SyncCommitNotLocal exactly when the census is empty and the setting is reported, asked
  to be local and is not; CommitBlocked exactly when the census is empty, the setting is local or
  need not be, and the commit test is asked for and was blocked or skipped. Every other result
  that does not pass is ProbeFailed.
\<close>

theorem gate_names_the_first_failed_check:
  "(fst (hold g inp tgt) = None \<longleftrightarrow> passed g inp) \<and>
   (fst (hold g inp tgt) = Some ReasonSessionsRemain \<longleftrightarrow> (\<exists>c. g_Census g = Some c \<and> 0 < sint (gc_Total c))) \<and>
   (fst (hold g inp tgt) = Some ReasonSyncCommitNotLocal \<longleftrightarrow> (\<exists>c. g_Census g = Some c \<and> sint (gc_Total c) \<le> 0) \<and>
      ExpectLocal inp \<and> (\<exists>v. g_SyncCommit g = Some v \<and> v \<noteq> SynchronousCommitLocal)) \<and>
   (fst (hold g inp tgt) = Some ReasonCommitBlocked \<longleftrightarrow> (\<exists>c. g_Census g = Some c \<and> sint (gc_Total c) \<le> 0) \<and>
      (ExpectLocal inp \<longrightarrow> g_SyncCommit g = Some SynchronousCommitLocal) \<and>
      CommitTest inp \<and> g_Commit g \<in> {''blocked'', ''skipped''}) \<and>
   fst (hold g inp tgt) \<in> {None, Some ReasonSessionsRemain, Some ReasonSyncCommitNotLocal, Some ReasonCommitBlocked, Some ReasonProbeFailed}"
  using hold_reasons [of g inp tgt] hold_range [of g inp tgt]
  by (auto simp: sessions_gone_def local_setting_def)

theorem gate_names_the_first_failed_check_witness:
  "\<forall>tgt. fst (hold (no_gate_result\<lparr>g_Census := Some \<lparr>gc_Total = 0, gc_SyncRep = 0, gc_GateWaiting = 0, gc_SyncRepSince = 0, gc_Named = True\<rparr>,
       g_SyncCommit := Some ''on'', g_Commit := ''blocked''\<rparr>)
     \<lparr>CommitTest = True, ExpectLocal = False\<rparr> tgt) = Some ReasonCommitBlocked"
proof
  fix tgt
  show "fst (hold (no_gate_result\<lparr>g_Census := Some \<lparr>gc_Total = 0, gc_SyncRep = 0, gc_GateWaiting = 0, gc_SyncRepSince = 0, gc_Named = True\<rparr>,
       g_SyncCommit := Some ''on'', g_Commit := ''blocked''\<rparr>)
     \<lparr>CommitTest = True, ExpectLocal = False\<rparr> tgt) = Some ReasonCommitBlocked"
    by (subst gate_names_the_first_failed_check) simp
qed





text \<open>
  C32. When the superuser prelude succeeds, the superuser URI is the primary URI of the side with
  the superuser role in place of everything before the host: the primary URI is scheme, an
  optional part up to an at-sign, host part and rest, where nothing before the rest but the scheme
  holds a slash or question mark, the host part holds no at-sign, and the rest begins a path or a
  query if it is not empty, which fixes the parts; the superuser URI has the same scheme, host
  part and rest byte for byte (a user or password parameter in the query string too), and a role
  without a colon. The URL key of the superuser Secret, where it is set, is the host of this host
  part, or, if it holds a colon, the host part with its port, which is 5432 where the host part
  names none.
\<close>

theorem superuser_uri_is_the_primary_with_another_role:
  assumes "superPrelude s pwFile pwKey sh = Inr sh'"
  shows "\<exists>sch \<in> schemes. \<exists>info hostport r. \<exists>want user. var_or_empty sh (uriEnv s) = sch @ ''://'' @ info @ hostport @ r \<and>
     set info \<inter> set ''/?'' = {} \<and> (info = [] \<or> last info = CHR ''@'') \<and> set hostport \<inter> set ''@/?'' = {} \<and>
     (r = [] \<or> hd r \<in> {CHR ''/'', CHR ''?''}) \<and>
     user = var_or_empty sh (pgmEnv s ''SUPER_USER'') \<and> set user \<inter> set ''@:/?'' = {} \<and>
     sh_env sh' (SuperURIEnv s) = Some (sch @ ''://'' @ user @ ''@'' @ hostport @ r) \<and>
     want = var_or_empty sh (pgmEnv s ''SUPER_HOST'') \<and>
     (want = [] \<or> want = (if CHR '':'' \<notin> set want then before_char (CHR '':'') hostport
        else if CHR '':'' \<in> set hostport then hostport else hostport @ '':5432''))"
proof -
  obtain sch info hostport r user where uri: "sch \<in> schemes" "var_or_empty sh (uriEnv s) = sch @ ''://'' @ info @ hostport @ r"
      "user_info info" "host_part_chars hostport" "tail_ok r" "user = var_or_empty sh (pgmEnv s ''SUPER_USER'')"
      "sh_env sh' (SuperURIEnv s) = Some (uri_with sch user hostport r)" "host_part_chars user" "CHR '':'' \<notin> set user"
      "same_endpoint (var_or_empty sh (pgmEnv s ''SUPER_HOST'')) hostport"
    using super_exports [OF assms] by blast
  have parts: "set info \<inter> set ''/?'' = {}" "info = [] \<or> last info = CHR ''@''" "set hostport \<inter> set ''@/?'' = {}"
      "r = [] \<or> hd r \<in> {CHR ''/'', CHR ''?''}" "set user \<inter> set ''@:/?'' = {}"
    using uri(3,4,5,8,9) by (auto simp: host_part_chars_def user_info_def tail_ok_def)
  note key = uri(10) [unfolded same_endpoint_def]
  show ?thesis
    by (intro bexI [OF _ uri(1)] exI [of _ info] exI [of _ hostport] exI [of _ r] exI [of _ user]
        exI [of _ "var_or_empty sh (pgmEnv s ''SUPER_HOST'')"] conjI refl uri(2,6) parts key uri(7) [unfolded uri_with_def])
qed

theorem superuser_uri_is_the_primary_with_another_role_witness:
  "\<exists>sh'. superPrelude Target ''/pw'' ''PW'' super_pod = Inr sh' \<and>
     (\<exists>sch hostport r. sh_env sh' (SuperURIEnv Target) = Some (sch @ ''://postgres@'' @ hostport @ r))"
proof -
  obtain sh' where run: "superPrelude Target ''/pw'' ''PW'' super_pod = Inr sh'" using super_pod_runs by blast
  from superuser_uri_is_the_primary_with_another_role [OF run] run show ?thesis
    by (fastforce simp: super_pod_def var_or_empty_def pgmEnv_def)
qed

text \<open>
  C33. The connection defaults a secretRef URI gains are appended in order, each exactly when the
  URI does not set its key already; what the URI holds stays in front, and afterwards every
  default key is set.
\<close>

theorem defaults_fill_gaps_only:
  "fillParams (defaultParams s) uri =
     fold append_param (gaps uri (split_on (CHR ''&'') (defaultParams s))) uri \<and>
   prefix uri (fillParams (defaultParams s) uri) \<and>
   list_all (\<lambda>kv. sets_param (fillParams (defaultParams s) uri) (param_key kv)) (split_on (CHR ''&'') (defaultParams s))"
  by (rule fill_defaults)

text \<open>
  C34. A command exec'd into a pod that started in a fresh container sees, after the recovery
  prefix, the same connection URI and superuser URI of a side as the program the prelude started,
  for every form of connection, although the environment of the pod holds none of the composed
  ones, provided that these URIs hold no newline: the prefix reads them back through a command
  substitution, which drops newlines at the end.
\<close>

theorem exec_recovers_the_uris:
  assumes "job_prelude j pod = Inr sh" and "fresh_pod pod"
    and "\<forall>x \<in> {uriEnv s, SuperURIEnv s}. \<forall>v. sh_env sh x = Some v \<longrightarrow> newline \<notin> set v"
  shows "sh_env (URIRecover (exec_shell pod sh)) (uriEnv s) = sh_env sh (uriEnv s) \<and>
     sh_env (URIRecover (exec_shell pod sh)) (SuperURIEnv s) = sh_env sh (SuperURIEnv s)"
  using job_uris_recovered [OF assms(1,2)] assms(3) by blast

theorem exec_recovers_the_uris_witness:
  "\<exists>sh. job_prelude secret_job secret_pod = Inr sh \<and>
     sh_env (URIRecover (exec_shell secret_pod sh)) (uriEnv Source) = sh_env sh (uriEnv Source)"
proof -
  obtain sh where sh: "job_prelude secret_job secret_pod = Inr sh" "\<forall>x v. sh_env sh x = Some v \<longrightarrow> newline \<notin> set v"
    using secret_job_runs by blast
  from exec_recovers_the_uris [OF sh(1) secret_pod_fresh] sh show ?thesis by blast
qed

text \<open>
  C35. ParseLSN reads back every 64-bit position from the form PostgreSQL prints it in.
\<close>

theorem positions_parse_back: "ParseLSN (show_lsn x) = Some x"
  by (rule parse_show_lsn)

text \<open>
  C36. Whatever the interleaving of passes, sampling goroutines and cancellations, the runs of the
  sampler agree with what they store: a run remembers a wait over the threshold exactly when its
  last sample shows one, a sample confirmed as the second of two is one of them, a copy seen in a
  stored sample is remembered by the run, and no run has an identity that a later run can get.
\<close>

theorem sampler_runs_stay_well_formed: "sampler_ok (sampler_exec NewSampler ops)"
  by (rule sampler_exec_ok [OF NewSampler_ok])

text \<open>
  C37. Within one run the stored sample never gets older and a copy once seen stays seen, however
  the goroutine, the passes that sample and the cancellations interleave.
\<close>

theorem samples_never_go_back:
  assumes "sampler_ok s"
    and "sp_runs s key = Some run" and "sp_runs (sampler_exec s ops) key = Some run'"
    and "run_id run' = run_id run"
  shows "sm_at (run_last run) \<le> sm_at (run_last run') \<and> (run_copySeen run \<longrightarrow> run_copySeen run')"
  using assms by (rule sampler_monotone)

theorem samples_never_go_back_witness:
  "sm_at (run_last sampled_run) \<le> sm_at (run_last (the (sampled_twice (''db'', ''shop''))))"
  using samples_never_go_back [OF sampled_once_ok sampled_once_run sampled_twice_run sampled_same_run] sampled_twice_run by simp

text \<open>
  C38. Cut at its delimiters, a composed URI gives back exactly the escaped user, the host with
  its port, the escaped database and the query: no character of a user or a database name can move
  a boundary.
\<close>

theorem composed_uri_keeps_its_parts:
  assumes "ComposeURI s c = Inr uri"
  shows "uri_parts uri = Some (url_escape encodeUserPassword (pc_username c), uri_host c,
     url_escape encodePath (pc_database c), querySuffix s c)"
  using assms by (rule ComposeURI_parts)

theorem composed_uri_keeps_its_parts_witness:
  "\<exists>uri. ComposeURI Source host_connection = Inr uri \<and>
     uri_parts uri = Some (url_escape encodeUserPassword ''app@corp'', uri_host host_connection,
       url_escape encodePath ''shop'', querySuffix Source host_connection)"
proof -
  obtain uri where "ComposeURI Source host_connection = Inr uri" using host_composes by blast
  with composed_uri_keeps_its_parts [OF this] show ?thesis by (simp add: host_connection_def)
qed

text \<open>
  C39. The replication slot name derived from a namespace and a name is one PostgreSQL accepts:
  only lower case letters, digits and underscores, at most 63 of them, for any Kubernetes names
  whatever.
\<close>

theorem slot_names_are_legal:
  "list_all slot_ok (SlotName namespace name) \<and> length (SlotName namespace name) \<le> 63"
  using SlotName_ok SlotName_length by blast

text \<open>
  C40. The connectivity check of the preflight (connect_retry, as each block calls it) asks the
  server the same query one to six times and stops at the first answer; it passes exactly when its
  last attempt was answered. It gives up after the sixth failed attempt, or earlier only on two
  permanent errors in a row (a wrong password, a role or a database that does not exist), and it
  never goes on after two of them.
\<close>

theorem connectivity_is_retried:
  assumes "connect_retry t d what failure 5 0 s = (x, s')"
  shows "\<exists>rs. st_calls s' = st_calls s @ map (Pair (Query d selectOneSQL [])) rs \<and> rs \<noteq> [] \<and> length rs \<le> 6 \<and>
    (\<forall>r \<in> set (butlast rs). \<not> succeeded r) \<and> (x = Inr () \<longleftrightarrow> succeeded (last rs)) \<and>
    (x \<noteq> Inr () \<longrightarrow> length rs = 6 \<or> 2 \<le> length rs \<and> permanent (last rs) \<and> permanent (rs ! (length rs - 2))) \<and>
    (\<forall>i. i + 2 < length rs \<longrightarrow> \<not> (permanent (rs ! i) \<and> permanent (rs ! Suc i)))"
  using assms by (rule connectivity_replies)

theorem connectivity_is_retried_witness:
  "\<exists>rs. st_calls (snd (connect_retry sample_tools src_db ''source'' [] 5 0 script_start)) = map (Pair (Query src_db selectOneSQL [])) rs \<and>
     rs \<noteq> [] \<and> length rs \<le> 6"
  using connectivity_is_retried [of sample_tools src_db "''source''" "[]" script_start, OF prod.collapse [symmetric]]
  by (auto simp: script_start_def)

end
